(* ===== verification/Prelude.thy ===== *)
theory Prelude
  imports Complex_Main "HOL-Library.AList" "HOL-Library.Char_ord" "HOL-Library.List_Lexorder"
begin

text \<open>
  Shared ground of the development: Python values, strings, dictionaries, exceptions and the
  canonical JSON text that OpsCat hashes.

  Conventions.  A Python \<open>str\<close> is a \<open>string\<close>; one \<open>char\<close> stands for one code point below
  256, and the case and white-space tables below are those of Python on that range.  A Python
  \<open>int\<close> is an \<open>int\<close>.  A float that the code only compares is the rational number its
  shortest decimal literal denotes (rounding decimals to doubles is monotone, and each compared
  value and threshold of the program is such a literal), so a comparison has the same outcome.
  A dictionary with arbitrary values is an association list in insertion order with one entry per
  key.  An operation that raises returns \<open>Inl\<close> of the exception.  Wall-clock columns that no
  decision reads (\<open>created_at\<close>, \<open>updated_at\<close>, \<open>decided_at\<close>) are left out.
\<close>

named_theorems result_simps \<open>unfolding rules of the exception-passing combinators\<close>
named_theorems py_eval \<open>definitions of the Python helpers\<close>

section \<open>Exceptions as values\<close>

text \<open>\<open>Raised c m\<close> is the exception of class \<open>c\<close> with message \<open>m\<close>.\<close>

datatype exn = Raised (exn_class: string) (exn_message: string)

type_synonym 'a result = "exn + 'a"

definition rbind :: "('e + 'a) \<Rightarrow> ('a \<Rightarrow> 'e + 'b) \<Rightarrow> 'e + 'b" where
  "rbind m f = (case m of Inl e \<Rightarrow> Inl e | Inr x \<Rightarrow> f x)"

definition rguard :: "bool \<Rightarrow> 'e \<Rightarrow> 'e + unit" where
  "rguard bad e = (if bad then Inl e else Inr ())"

fun rmap :: "('a \<Rightarrow> 'e + 'b) \<Rightarrow> 'a list \<Rightarrow> 'e + 'b list" where
  "rmap f [] = Inr []"
| "rmap f (x # xs) = rbind (f x) (\<lambda>y. rbind (rmap f xs) (\<lambda>ys. Inr (y # ys)))"

lemma rbind_simps [simp, result_simps]:
  "rbind (Inl e) f = Inl e"
  "rbind (Inr x) f = f x"
  by (simp_all add: rbind_def)

lemma rbind_Inr_iff: "rbind m f = Inr y \<longleftrightarrow> (\<exists>x. m = Inr x \<and> f x = Inr y)"
  by (cases m) simp_all

lemma rbind_InrE:
  assumes "rbind m f = Inr y"
  obtains x where "m = Inr x" "f x = Inr y"
  using assms by (auto simp: rbind_Inr_iff)

lemma rbind_Inl_iff: "rbind m f = Inl e \<longleftrightarrow> m = Inl e \<or> (\<exists>x. m = Inr x \<and> f x = Inl e)"
  by (cases m) simp_all

lemma rguard_Inr_iff: "rguard b e = Inr u \<longleftrightarrow> \<not> b"
  by (simp add: rguard_def)

lemma rguard_Inl_iff: "rguard b e = Inl e' \<longleftrightarrow> b \<and> e = e'"
  by (simp add: rguard_def)

lemmas result_inversions = rbind_Inr_iff rbind_Inl_iff rguard_Inr_iff rguard_Inl_iff

lemma rmap_length: "rmap f xs = Inr ys \<Longrightarrow> length ys = length xs"
  by (induction xs arbitrary: ys) (auto simp: rbind_Inr_iff)

text \<open>Executable forms of \<open>returned a value with P\<close> and \<open>raised\<close>.\<close>

definition returns :: "('a \<Rightarrow> bool) \<Rightarrow> 'e + 'a \<Rightarrow> bool" where
  "returns P m = (case m of Inl _ \<Rightarrow> False | Inr x \<Rightarrow> P x)"

definition raises :: "'e + 'a \<Rightarrow> bool" where
  "raises m = (case m of Inl _ \<Rightarrow> True | Inr _ \<Rightarrow> False)"

lemma Inr_such_that: "returns P m \<longleftrightarrow> (\<exists>x. m = Inr x \<and> P x)"
  by (cases m) (simp_all add: returns_def)

lemma is_Inl_iff: "raises m \<longleftrightarrow> (\<exists>x. m = Inl x)"
  by (cases m) (simp_all add: raises_def)

lemma Some_such_that: "(case m of None \<Rightarrow> False | Some x \<Rightarrow> P x) \<longleftrightarrow> (\<exists>x. m = Some x \<and> P x)"
  by (cases m) simp_all

section \<open>Operations with state\<close>

text \<open>
  An operation that may change the state and may raise.  What it changed before it raised stays
  changed, as in the source.
\<close>

type_synonym ('s, 'a) op = "'s \<Rightarrow> 's \<times> 'a result"

definition op_return :: "'a \<Rightarrow> ('s, 'a) op" where
  "op_return x s = (s, Inr x)"

definition op_raise :: "exn \<Rightarrow> ('s, 'a) op" where
  "op_raise e s = (s, Inl e)"

definition op_lift :: "'a result \<Rightarrow> ('s, 'a) op" where
  "op_lift m s = (s, m)"

definition op_bind :: "('s, 'a) op \<Rightarrow> ('a \<Rightarrow> ('s, 'b) op) \<Rightarrow> ('s, 'b) op" where
  "op_bind m f s = (case m s of (s', Inl e) \<Rightarrow> (s', Inl e) | (s', Inr x) \<Rightarrow> f x s')"

definition op_guard :: "bool \<Rightarrow> exn \<Rightarrow> ('s, unit) op" where
  "op_guard bad e s = (s, if bad then Inl e else Inr ())"

lemma op_simps [simp, result_simps]:
  "op_return x s = (s, Inr x)"
  "op_raise e s = (s, Inl e)"
  "op_lift m s = (s, m)"
  "op_guard bad e s = (s, if bad then Inl e else Inr ())"
  by (simp_all add: op_return_def op_raise_def op_lift_def op_guard_def)

lemma op_bind_Inr [simp]: "m s = (s', Inr x) \<Longrightarrow> op_bind m f s = f x s'"
  by (simp add: op_bind_def)

lemma op_bind_Inl [simp]: "m s = (s', Inl e) \<Longrightarrow> op_bind m f s = (s', Inl e)"
  by (simp add: op_bind_def)

lemma op_bind_cases:
  assumes "op_bind m f s = (s2, out)"
  obtains (raised) e where "m s = (s2, Inl e)" "out = Inl e"
  | (continued) s1 x where "m s = (s1, Inr x)" "f x s1 = (s2, out)"
  using assms by (auto simp: op_bind_def split: prod.splits sum.splits)

section \<open>Strings\<close>

fun py_startswith :: "string \<Rightarrow> string \<Rightarrow> bool" where
  "py_startswith s [] = True"
| "py_startswith [] (p # ps) = False"
| "py_startswith (c # s) (p # ps) = (c = p \<and> py_startswith s ps)"

text \<open>\<open>py_in t s\<close> is Python's \<open>t in s\<close> on strings.\<close>

fun py_in :: "string \<Rightarrow> string \<Rightarrow> bool" where
  "py_in t [] = (t = [])"
| "py_in t (c # s) = (py_startswith (c # s) t \<or> py_in t s)"

definition py_endswith :: "string \<Rightarrow> string \<Rightarrow> bool" where
  "py_endswith s t = py_startswith (rev s) (rev t)"

definition py_any_in :: "string list \<Rightarrow> string \<Rightarrow> bool" where
  "py_any_in ts s = list_ex (\<lambda>t. py_in t s) ts"

definition lower_char :: "char \<Rightarrow> char" where
  "lower_char c = (let n = of_char c :: nat in
     if (65 \<le> n \<and> n \<le> 90) \<or> (192 \<le> n \<and> n \<le> 222 \<and> n \<noteq> 215) then char_of (n + 32) else c)"

definition py_lower :: "string \<Rightarrow> string" where
  "py_lower s = map lower_char s"

definition is_space :: "char \<Rightarrow> bool" where
  "is_space c = (let n = of_char c :: nat in
     (9 \<le> n \<and> n \<le> 13) \<or> (28 \<le> n \<and> n \<le> 32) \<or> n = 133 \<or> n = 160)"

text \<open>The two tables, and the order, by the bits of a character, for evaluation.\<close>

lemma of_char_bits:
  "(of_char (Char b0 b1 b2 b3 b4 b5 b6 b7) :: nat) = of_bool b0 + 2 * of_bool b1 + 4 * of_bool b2 + 8 * of_bool b3
     + 16 * of_bool b4 + 32 * of_bool b5 + 64 * of_bool b6 + 128 * of_bool b7"
  by (simp add: of_char_Char)

lemma is_space_bits [code]:
  "is_space (Char b0 b1 b2 b3 b4 b5 b6 b7) =
     (if b7 then \<not> b6 \<and> \<not> b4 \<and> \<not> b3 \<and> \<not> b1 \<and> (if b5 then \<not> b2 \<and> \<not> b0 else b2 \<and> b0)
      else \<not> b6 \<and> (if b5 then \<not> b4 \<and> \<not> b3 \<and> \<not> b2 \<and> \<not> b1 \<and> \<not> b0
                   else b3 \<and> (if b4 then b2 else if b2 then \<not> b1 else b1 \<or> b0)))"
  unfolding is_space_def Let_def of_char_bits
  by (cases b0; cases b1; cases b2; cases b3; cases b4; cases b5; cases b6; cases b7) simp_all

lemma lower_char_bits [code]:
  "lower_char (Char b0 b1 b2 b3 b4 b5 b6 b7) =
     Char b0 b1 b2 b3 b4 (b5 \<or> b6 \<and>
       (if b7 then \<not> (b4 \<and> b2 \<and> b1 \<and> b0)
        else if b4 then \<not> (b3 \<and> (b2 \<or> b1 \<and> b0)) else b3 \<or> b2 \<or> b1 \<or> b0)) b6 b7"
  unfolding lower_char_def Let_def of_char_bits
  by (cases b0; cases b1; cases b2; cases b3; cases b4; cases b5; cases b6; cases b7) (simp_all add: char_of_def bit_numeral_rec bit_Suc_0_iff)

lemma less_char_bits [code]:
  "Char b0 b1 b2 b3 b4 b5 b6 b7 < Char c0 c1 c2 c3 c4 c5 c6 c7 \<longleftrightarrow>
     (if b7 \<noteq> c7 then c7 else if b6 \<noteq> c6 then c6 else if b5 \<noteq> c5 then c5 else if b4 \<noteq> c4 then c4
      else if b3 \<noteq> c3 then c3 else if b2 \<noteq> c2 then c2 else if b1 \<noteq> c1 then c1 else \<not> b0 \<and> c0)"
  by auto

definition py_strip :: "string \<Rightarrow> string" where
  "py_strip s = rev (dropWhile is_space (rev (dropWhile is_space s)))"

text \<open>\<open>s.replace(old, new)\<close> for a non-empty \<open>old\<close>: leftmost, non-overlapping.\<close>

function py_replace :: "string \<Rightarrow> string \<Rightarrow> string \<Rightarrow> string" where
  "py_replace old new [] = []"
| "py_replace old new (c # s) =
     (if old \<noteq> [] \<and> py_startswith (c # s) old
      then new @ py_replace old new (drop (length old) (c # s))
      else c # py_replace old new s)"
  by pat_completeness auto
termination
  by (relation "measure (\<lambda>(old, new, s). length s)") auto

fun py_join :: "string \<Rightarrow> string list \<Rightarrow> string" where
  "py_join sep [] = []"
| "py_join sep [x] = x"
| "py_join sep (x # y # zs) = x @ sep @ py_join sep (y # zs)"

lemma py_startswith_iff: "py_startswith s p \<longleftrightarrow> (\<exists>t. s = p @ t)"
  by (induction s p rule: py_startswith.induct) auto

lemma py_startswith_append [simp]: "py_startswith (p @ t) p"
  by (auto simp: py_startswith_iff)

lemma py_in_iff: "py_in t s \<longleftrightarrow> (\<exists>u v. s = u @ t @ v)"
proof (induction s)
  case Nil
  then show ?case by auto
next
  case (Cons c s)
  have "(\<exists>u v. c # s = u @ t @ v) \<longleftrightarrow> (\<exists>v. c # s = t @ v) \<or> (\<exists>u v. s = u @ t @ v)"
    by (metis append_Cons append_Nil list.exhaust list.inject)
  with Cons show ?case by (simp add: py_startswith_iff)
qed

lemma py_in_append: "py_in t u \<Longrightarrow> py_in t (u @ v)" "py_in t v \<Longrightarrow> py_in t (u @ v)"
  by (auto simp: py_in_iff) (metis append.assoc)+

lemma py_in_infix [simp]: "py_in t (u @ t @ v)"
  by (auto simp: py_in_iff)

lemma py_any_in_iff: "py_any_in ts s \<longleftrightarrow> (\<exists>t \<in> set ts. py_in t s)"
  by (simp add: py_any_in_def list_ex_iff)

lemma py_any_in_append:
  "py_any_in ts u \<Longrightarrow> py_any_in ts (u @ v)" "py_any_in ts v \<Longrightarrow> py_any_in ts (u @ v)"
  by (auto simp: py_any_in_iff dest: py_in_append)

text \<open>Decimal rendering of integers, \<open>str(n)\<close>.\<close>

definition digit_char :: "nat \<Rightarrow> char" where
  "digit_char d = char_of (48 + d)"

fun show_nat :: "nat \<Rightarrow> string" where
  "show_nat n = (if n < 10 then [digit_char n] else show_nat (n div 10) @ [digit_char (n mod 10)])"

declare show_nat.simps [simp del]

definition show_int :: "int \<Rightarrow> string" where
  "show_int i = (if i < 0 then CHR ''-'' # show_nat (nat (- i)) else show_nat (nat i))"

lemma digit_char_inj: "digit_char a = digit_char b \<Longrightarrow> a < 10 \<Longrightarrow> b < 10 \<Longrightarrow> a = b"
proof -
  assume eq: "digit_char a = digit_char b" and a: "a < 10" and b: "b < 10"
  from eq have "(of_char (digit_char a) :: nat) = of_char (digit_char b)" by simp
  with a b show "a = b" by (simp add: digit_char_def)
qed

lemma show_nat_nonempty [simp]: "show_nat n \<noteq> []" "[] \<noteq> show_nat n"
  by (subst show_nat.simps, simp)+

lemma show_nat_inj: "show_nat m = show_nat n \<Longrightarrow> m = n"
proof (induction m arbitrary: n rule: show_nat.induct)
  case (1 m)
  show ?case
  proof (cases "m < 10 \<or> n < 10")
    case True
    with "1.prems" show ?thesis
      by (auto simp: show_nat.simps [of m] show_nat.simps [of n]
          dest: digit_char_inj split: if_splits)
  next
    case False
    with "1.prems" have "show_nat (m div 10) = show_nat (n div 10)"
      and "digit_char (m mod 10) = digit_char (n mod 10)"
      by (auto simp: show_nat.simps [of m] show_nat.simps [of n])
    with False "1.IH" [of "n div 10"] have "m div 10 = n div 10" and "m mod 10 = n mod 10"
      by (auto dest: digit_char_inj)
    then show ?thesis by (metis div_mult_mod_eq)
  qed
qed

section \<open>Values and dictionaries\<close>

text \<open>
  \<open>PFloat m e\<close> is the float whose shortest decimal form is \<open>m / 10 ^ e\<close>.  \<open>PList\<close> stands for
  lists and tuples.
\<close>

datatype pyval =
    PNone
  | PBool bool
  | PInt int
  | PFloat int nat
  | PStr string
  | PList "pyval list"
  | PDict "(string \<times> pyval) list"

type_synonym pydict = "(string \<times> pyval) list"

text \<open>An optional string as a value, and \<open>v or d\<close>.\<close>

definition opt_str :: "string option \<Rightarrow> pyval" where
  "opt_str v = (case v of None \<Rightarrow> PNone | Some s \<Rightarrow> PStr s)"

definition str_or :: "string option \<Rightarrow> string \<Rightarrow> string" where
  "str_or v d = (case v of Some (c # cs) \<Rightarrow> c # cs | _ \<Rightarrow> d)"

text \<open>\<open>d.get(k)\<close>, \<open>d.get(k, v)\<close>, \<open>k in d\<close>, \<open>d[k]\<close>, and \<open>{**d, **e}\<close>.\<close>

definition pget :: "pydict \<Rightarrow> string \<Rightarrow> pyval" where
  "pget d k = (case map_of d k of None \<Rightarrow> PNone | Some v \<Rightarrow> v)"

definition pget_or :: "pydict \<Rightarrow> string \<Rightarrow> pyval \<Rightarrow> pyval" where
  "pget_or d k dflt = (case map_of d k of None \<Rightarrow> dflt | Some v \<Rightarrow> v)"

definition phas :: "pydict \<Rightarrow> string \<Rightarrow> bool" where
  "phas d k = (map_of d k \<noteq> None)"

definition pindex :: "pydict \<Rightarrow> string \<Rightarrow> pyval result" where
  "pindex d k = (case map_of d k of None \<Rightarrow> Inl (Raised ''KeyError'' k) | Some v \<Rightarrow> Inr v)"

definition pmerge :: "pydict \<Rightarrow> pydict \<Rightarrow> pydict" where
  "pmerge d e = fold (\<lambda>(k, v) acc. AList.update k v acc) e d"

definition pwithout :: "string list \<Rightarrow> pydict \<Rightarrow> pydict" where
  "pwithout ks d = filter (\<lambda>(k, v). k \<notin> set ks) d"

fun as_dict :: "pyval \<Rightarrow> pydict" where
  "as_dict (PDict d) = d"
| "as_dict _ = []"

fun is_dict :: "pyval \<Rightarrow> bool" where
  "is_dict (PDict d) = True"
| "is_dict _ = False"

fun is_str :: "pyval \<Rightarrow> bool" where
  "is_str (PStr s) = True"
| "is_str _ = False"

text \<open>An \<open>int\<close> that is not a \<open>bool\<close>: \<open>isinstance(v, int) and not isinstance(v, bool)\<close>.\<close>

fun strict_int :: "pyval \<Rightarrow> int option" where
  "strict_int (PInt i) = Some i"
| "strict_int _ = None"

fun truthy :: "pyval \<Rightarrow> bool" where
  "truthy PNone = False"
| "truthy (PBool b) = b"
| "truthy (PInt i) = (i \<noteq> 0)"
| "truthy (PFloat m e) = (m \<noteq> 0)"
| "truthy (PStr s) = (s \<noteq> [])"
| "truthy (PList xs) = (xs \<noteq> [])"
| "truthy (PDict d) = (d \<noteq> [])"

lemma pget_simps [simp]:
  "pget [] k = PNone"
  "pget ((k', v) # d) k = (if k = k' then v else pget d k)"
  by (auto simp: pget_def)

lemma pget_or_simps [simp]:
  "pget_or [] k x = x"
  "pget_or ((k', v) # d) k x = (if k = k' then v else pget_or d k x)"
  by (auto simp: pget_or_def)

lemma pindex_simps [simp]:
  "pindex [] k = Inl (Raised ''KeyError'' k)"
  "pindex ((k', v) # d) k = (if k = k' then Inr v else pindex d k)"
  by (auto simp: pindex_def)

lemma phas_simps [simp]:
  "phas [] k = False"
  "phas ((k', v) # d) k = (k = k' \<or> phas d k)"
  by (auto simp: phas_def)

lemma pmerge_Nil [simp]: "pmerge d [] = d"
  by (simp add: pmerge_def)

lemma pmerge_Cons [simp]: "pmerge d ((k, v) # e) = pmerge (AList.update k v d) e"
  by (simp add: pmerge_def)

lemma map_of_pmerge: "map_of (pmerge d e) k =
   (case map_of (rev e) k of None \<Rightarrow> map_of d k | Some v \<Rightarrow> Some v)"
proof (induction e arbitrary: d)
  case Nil
  then show ?case by simp
next
  case (Cons kv e)
  obtain k' v where kv: "kv = (k', v)" by (cases kv)
  show ?case
    by (auto simp: kv Cons.IH AList.update_conv' map_add_def map_of_append split: option.splits)
qed

text \<open>
  \<open>v[k]\<close> and \<open>v.get(k)\<close> on a value that need not be a dictionary, and \<open>dict(v)\<close>.  A list of pairs,
  which \<open>dict\<close> would accept too, does not occur where the program calls it.
\<close>

fun psub :: "pyval \<Rightarrow> string \<Rightarrow> pyval result" where
  "psub (PDict d) k = pindex d k"
| "psub _ k = Inl (Raised ''TypeError'' ''indices must be integers or slices, not str'')"

fun pattr_get :: "pyval \<Rightarrow> string \<Rightarrow> pyval result" where
  "pattr_get (PDict d) k = Inr (pget d k)"
| "pattr_get _ k = Inl (Raised ''AttributeError'' ''get'')"

fun py_dict :: "pyval \<Rightarrow> pydict result" where
  "py_dict (PDict d) = Inr d"
| "py_dict _ = Inl (Raised ''TypeError'' ''object is not iterable'')"

text \<open>\<open>int(s)\<close> on text: an optional sign and digits, with single underscores between digits.\<close>

fun digits_value :: "bool \<Rightarrow> nat \<Rightarrow> string \<Rightarrow> nat option" where
  "digits_value after_digit acc [] = (if after_digit then Some acc else None)"
| "digits_value after_digit acc (c # cs) =
     (let n = of_char c :: nat in
      if 48 \<le> n \<and> n \<le> 57 then digits_value True (acc * 10 + (n - 48)) cs
      else if n = 95 \<and> after_digit then digits_value False acc cs
      else None)"

definition parse_int :: "string \<Rightarrow> int option" where
  "parse_int s = (case py_strip s of
       [] \<Rightarrow> None
     | c # cs \<Rightarrow>
         if c = CHR ''-'' then map_option (\<lambda>n. - int n) (digits_value False 0 cs)
         else if c = CHR ''+'' then map_option int (digits_value False 0 cs)
         else map_option int (digits_value False 0 (c # cs)))"

fun py_int :: "pyval \<Rightarrow> int result" where
  "py_int (PInt i) = Inr i"
| "py_int (PBool b) = Inr (if b then 1 else 0)"
| "py_int (PFloat m e) = Inr (sgn m * (\<bar>m\<bar> div 10 ^ e))"
| "py_int (PStr s) = (case parse_int s of
       Some i \<Rightarrow> Inr i
     | None \<Rightarrow> Inl (Raised ''ValueError'' ''invalid literal for int() with base 10''))"
| "py_int _ = Inl (Raised ''TypeError'' ''int() argument'')"

section \<open>Rendering values: repr, str and canonical JSON\<close>

definition hex_digit :: "nat \<Rightarrow> char" where
  "hex_digit d = (if d < 10 then char_of (48 + d) else char_of (87 + d))"

definition repr_char :: "char \<Rightarrow> char \<Rightarrow> string" where
  "repr_char q c = (let n = of_char c :: nat in
     if c = q \<or> n = 92 then [char_of (92::nat), c]
     else if n = 10 then [char_of (92::nat), CHR ''n'']
     else if n = 13 then [char_of (92::nat), CHR ''r'']
     else if n = 9 then [char_of (92::nat), CHR ''t'']
     else if n < 32 \<or> (127 \<le> n \<and> n \<le> 160) \<or> n = 173
     then [char_of (92::nat), CHR ''x'', hex_digit (n div 16), hex_digit (n mod 16)]
     else [c])"

text \<open>Plain characters by their bits, for evaluation; \<open>repr_other\<close> and \<open>json_other\<close> are the general cases.\<close>

definition repr_other :: "char \<Rightarrow> char \<Rightarrow> string" where
  "repr_other q c = repr_char q c"

lemmas repr_other_code [code] = repr_char_def [folded repr_other_def]

lemma repr_char_bits [code]:
  "repr_char q (Char b0 b1 b2 b3 b4 b5 b6 b7) =
     (if b7 \<or> \<not> b5 \<and> (\<not> b6 \<or> b4 \<and> b3 \<and> b2 \<and> \<not> b1 \<and> \<not> b0) \<or> b0 \<and> b1 \<and> b2 \<and> b3 \<and> b4 \<and> b5 \<and> b6
         \<or> Char b0 b1 b2 b3 b4 b5 b6 b7 = q
      then repr_other q (Char b0 b1 b2 b3 b4 b5 b6 b7) else [Char b0 b1 b2 b3 b4 b5 b6 b7])"
  unfolding repr_other_def repr_char_def Let_def of_char_bits
  by (cases b0; cases b1; cases b2; cases b3; cases b4; cases b5; cases b6; cases b7) simp_all

definition repr_str :: "string \<Rightarrow> string" where
  "repr_str s = (let q = (if char_of (39::nat) \<in> set s \<and> char_of (34::nat) \<notin> set s
                          then char_of (34::nat) else char_of (39::nat))
     in q # concat (map (repr_char q) s) @ [q])"

definition pad_left :: "nat \<Rightarrow> string \<Rightarrow> string" where
  "pad_left w s = replicate (w - length s) (CHR ''0'') @ s"

definition show_float :: "int \<Rightarrow> nat \<Rightarrow> string" where
  "show_float m e = (let a = nat \<bar>m\<bar>; e' = max e 1; a' = (if e = 0 then a * 10 else a) in
     (if m < 0 then ''-'' else '''') @ show_nat (a' div 10 ^ e') @ ''.''
       @ pad_left e' (show_nat (a' mod 10 ^ e')))"

fun py_repr :: "pyval \<Rightarrow> string" where
  "py_repr PNone = ''None''"
| "py_repr (PBool b) = (if b then ''True'' else ''False'')"
| "py_repr (PInt i) = show_int i"
| "py_repr (PFloat m e) = show_float m e"
| "py_repr (PStr s) = repr_str s"
| "py_repr (PList xs) = ''['' @ py_join '', '' (map py_repr xs) @ '']''"
| "py_repr (PDict d) = ''{'' @ py_join '', '' (map (\<lambda>(k, v). repr_str k @ '': '' @ py_repr v) d) @ ''}''"

fun py_str :: "pyval \<Rightarrow> string" where
  "py_str (PStr s) = s"
| "py_str v = py_repr v"

definition json_char :: "char \<Rightarrow> string" where
  "json_char c = (let n = of_char c :: nat; b = char_of (92::nat) in
     if n = 34 \<or> n = 92 then [b, c]
     else if n = 10 then [b, CHR ''n'']
     else if n = 13 then [b, CHR ''r'']
     else if n = 9 then [b, CHR ''t'']
     else if n = 8 then [b, CHR ''b'']
     else if n = 12 then [b, CHR ''f'']
     else if n < 32 \<or> 126 < n
     then [b, CHR ''u'', CHR ''0'', CHR ''0'', hex_digit (n div 16), hex_digit (n mod 16)]
     else [c])"

definition json_other :: "char \<Rightarrow> string" where
  "json_other c = json_char c"

lemmas json_other_code [code] = json_char_def [folded json_other_def]

lemma json_char_bits [code]:
  "json_char (Char b0 b1 b2 b3 b4 b5 b6 b7) =
     (if b7 \<or> \<not> b5 \<and> (\<not> b6 \<or> b4 \<and> b3 \<and> b2 \<and> \<not> b1 \<and> \<not> b0) \<or> b0 \<and> b1 \<and> b2 \<and> b3 \<and> b4 \<and> b5 \<and> b6
         \<or> b5 \<and> b1 \<and> \<not> b0 \<and> \<not> b2 \<and> \<not> b3 \<and> \<not> b4 \<and> \<not> b6
      then json_other (Char b0 b1 b2 b3 b4 b5 b6 b7) else [Char b0 b1 b2 b3 b4 b5 b6 b7])"
  unfolding json_other_def json_char_def Let_def of_char_bits
  by (cases b0; cases b1; cases b2; cases b3; cases b4; cases b5; cases b6; cases b7) simp_all

definition json_str :: "string \<Rightarrow> string" where
  "json_str s = char_of (34::nat) # concat (map json_char s) @ [char_of (34::nat)]"

text \<open>\<open>json.dumps(v, sort_keys=True, separators=(",", ":"), ensure_ascii=True)\<close>.\<close>

fun json_dumps :: "pyval \<Rightarrow> string" where
  "json_dumps PNone = ''null''"
| "json_dumps (PBool b) = (if b then ''true'' else ''false'')"
| "json_dumps (PInt i) = show_int i"
| "json_dumps (PFloat m e) = show_float m e"
| "json_dumps (PStr s) = json_str s"
| "json_dumps (PList xs) = ''['' @ py_join '','' (map json_dumps xs) @ '']''"
| "json_dumps (PDict d) = ''{'' @ py_join '',''
     (map (\<lambda>(k, s). json_str k @ '':'' @ s)
        (sort_key fst (map (\<lambda>(k, v). (k, json_dumps v)) d))) @ ''}''"

text \<open>
  \<open>stable_hash\<close> of the program.  The digest \<open>hashlib.sha256(...).hexdigest()\<close> is the parameter
  \<open>sha\<close>: no theorem depends on which digest it is, and those that need collision freedom say so.
\<close>

definition stable_hash :: "(string \<Rightarrow> string) \<Rightarrow> pyval \<Rightarrow> string" where
  "stable_hash sha v = ''sha256:'' @ sha (json_dumps v)"

section \<open>Python equality\<close>

text \<open>
  \<open>==\<close> on values: \<open>True == 1\<close>, numbers compare by value, dictionaries compare without regard to
  the order of their entries.
\<close>

fun py_num :: "pyval \<Rightarrow> (int \<times> nat) option" where
  "py_num (PBool b) = Some (if b then 1 else 0, 0)"
| "py_num (PInt i) = Some (i, 0)"
| "py_num (PFloat m e) = Some (m, e)"
| "py_num _ = None"

fun py_eq :: "pyval \<Rightarrow> pyval \<Rightarrow> bool" where
  "py_eq PNone w = (w = PNone)"
| "py_eq (PBool b) w = (case py_num w of Some (n, f) \<Rightarrow> (if b then 1 else 0) * 10 ^ f = n | None \<Rightarrow> False)"
| "py_eq (PInt i) w = (case py_num w of Some (n, f) \<Rightarrow> i * 10 ^ f = n | None \<Rightarrow> False)"
| "py_eq (PFloat m e) w = (case py_num w of Some (n, f) \<Rightarrow> m * 10 ^ f = n * 10 ^ e | None \<Rightarrow> False)"
| "py_eq (PStr s) w = (w = PStr s)"
| "py_eq (PList xs) w = (case w of PList ys \<Rightarrow> list_all2 py_eq xs ys | _ \<Rightarrow> False)"
| "py_eq (PDict d) w = (case w of
      PDict d' \<Rightarrow> length d = length d' \<and>
        list_all (\<lambda>(k, v). case map_of d' k of None \<Rightarrow> False | Some v' \<Rightarrow> py_eq v v') d
    | _ \<Rightarrow> False)"

lemma py_eq_str [simp]: "py_eq (PStr s) (PStr t) \<longleftrightarrow> s = t"
  by auto

lemma py_eq_str_iff: "py_eq v (PStr s) \<longleftrightarrow> v = PStr s"
  by (cases v) auto

lemma py_eq_int [simp]: "py_eq (PInt i) (PInt j) \<longleftrightarrow> i = j"
  by simp

end
