(* ===== verification/Action_Models.thy ===== *)
theory Action_Models
  imports Prelude
begin

text \<open>
  The domain types of \<open>app/models/action.py\<close>: risk levels, policy decisions and routes, action
  status, registry metadata, requests, and execution results.  Enumerations keep the constructors
  of the source behind a two-letter prefix.  The risk levels carry the order of
  \<open>policy_engine._risk_order\<close>.
\<close>

section \<open>Enumerations\<close>

datatype risk_level = RL_READ_ONLY | RL_LOW | RL_MEDIUM | RL_HIGH | RL_PROHIBITED

datatype policy_decision = PD_ALLOW | PD_REQUIRE_APPROVAL | PD_DENY | PD_ESCALATE

datatype policy_route = PR_AUTO_EXECUTE | PR_APPROVAL_REQUIRED | PR_HUMAN_REQUIRED | PR_BLOCKED

datatype action_status =
    AS_PROPOSED | AS_APPROVED | AS_REJECTED | AS_EXECUTED | AS_FAILED | AS_DENIED | AS_ESCALATED

fun risk_value :: "risk_level \<Rightarrow> string" where
  "risk_value RL_READ_ONLY = ''read_only''"
| "risk_value RL_LOW = ''low''"
| "risk_value RL_MEDIUM = ''medium''"
| "risk_value RL_HIGH = ''high''"
| "risk_value RL_PROHIBITED = ''prohibited''"

fun decision_value :: "policy_decision \<Rightarrow> string" where
  "decision_value PD_ALLOW = ''ALLOW''"
| "decision_value PD_REQUIRE_APPROVAL = ''REQUIRE_APPROVAL''"
| "decision_value PD_DENY = ''DENY''"
| "decision_value PD_ESCALATE = ''ESCALATE''"

fun status_value :: "action_status \<Rightarrow> string" where
  "status_value AS_PROPOSED = ''proposed''"
| "status_value AS_APPROVED = ''approved''"
| "status_value AS_REJECTED = ''rejected''"
| "status_value AS_EXECUTED = ''executed''"
| "status_value AS_FAILED = ''failed''"
| "status_value AS_DENIED = ''denied''"
| "status_value AS_ESCALATED = ''escalated''"

text \<open>\<open>RiskLevel(value)\<close>: the member with that value, \<open>ValueError\<close> otherwise.\<close>

definition risk_of_value :: "string \<Rightarrow> risk_level result" where
  "risk_of_value s =
     (if s = ''read_only'' then Inr RL_READ_ONLY
      else if s = ''low'' then Inr RL_LOW
      else if s = ''medium'' then Inr RL_MEDIUM
      else if s = ''high'' then Inr RL_HIGH
      else if s = ''prohibited'' then Inr RL_PROHIBITED
      else Inl (Raised ''ValueError'' (repr_str s @ '' is not a valid RiskLevel'')))"

lemma risk_of_value_risk_value [simp]: "risk_of_value (risk_value r) = Inr r"
  by (cases r) (simp_all add: risk_of_value_def)

section \<open>The order of risk levels\<close>

fun risk_order :: "risk_level \<Rightarrow> int" where
  "risk_order RL_READ_ONLY = 0"
| "risk_order RL_LOW = 1"
| "risk_order RL_MEDIUM = 2"
| "risk_order RL_HIGH = 3"
| "risk_order RL_PROHIBITED = 4"

lemma risk_order_inj: "risk_order a = risk_order b \<Longrightarrow> a = b"
  by (cases a; cases b; simp)

instantiation risk_level :: linorder
begin

definition less_eq_risk_level :: "risk_level \<Rightarrow> risk_level \<Rightarrow> bool" where
  "less_eq_risk_level a b = (risk_order a \<le> risk_order b)"

definition less_risk_level :: "risk_level \<Rightarrow> risk_level \<Rightarrow> bool" where
  "less_risk_level a b = (risk_order a < risk_order b)"

instance
  by standard (auto simp: less_eq_risk_level_def less_risk_level_def risk_order_inj)

end

section \<open>Metadata, requests and results\<close>

record action_metadata =
  am_name :: string
  am_description :: string
  am_base_risk :: risk_level
  am_is_read_only :: bool
  am_is_mutation :: bool
  am_reversible :: bool
  am_blast_radius :: string
  am_default_requires_approval :: bool
  am_allowed_environments :: "string list"
  am_required_capabilities :: "string list"
  am_required_preconditions :: "string list"
  am_post_checks :: "string list"
  am_prohibited_reason :: "string option"

record action_request =
  ar_action_type :: string
  ar_target :: string
  ar_environment :: string
  ar_tenant_id :: string
  ar_workspace_id :: string
  ar_payload :: pydict
  ar_requester :: string
  ar_incident_id :: "string option"
  ar_approved :: bool
  ar_approval_id :: "string option"

definition action_request_of :: "string \<Rightarrow> string \<Rightarrow> string \<Rightarrow> pydict \<Rightarrow> action_request" where
  "action_request_of action_type target environment payload =
     \<lparr>ar_action_type = action_type, ar_target = target, ar_environment = environment,
      ar_tenant_id = ''demo'', ar_workspace_id = ''demo'', ar_payload = payload,
      ar_requester = ''agent'', ar_incident_id = None, ar_approved = False, ar_approval_id = None\<rparr>"

record action_execution_result =
  xr_action_type :: string
  xr_target :: string
  xr_status :: action_status
  xr_message :: string
  xr_output :: pydict
  xr_verification :: pydict

text \<open>Truth of an optional string: \<open>None\<close> and \<open>""\<close> are false.\<close>

definition str_truthy :: "string option \<Rightarrow> bool" where
  "str_truthy s = (case s of None \<Rightarrow> False | Some t \<Rightarrow> t \<noteq> [])"

lemma str_truthy_simps [simp]:
  "\<not> str_truthy None"
  "str_truthy (Some t) \<longleftrightarrow> t \<noteq> []"
  by (simp_all add: str_truthy_def)

end
