(* ===== verification/Risk_Engine.thy ===== *)
theory Risk_Engine
  imports Action_Models
begin

text \<open>
  The action registry and the risk classifier of \<open>app/services/risk_engine.py\<close>.  A registry is the
  association list of the Python dictionary; a \<open>RiskEngine\<close> is its registry, since that is the only
  state it holds.
\<close>

type_synonym registry = "(string \<times> action_metadata) list"

definition PROHIBITED_ACTIONS :: "(string \<times> string) list" where
  "PROHIBITED_ACTIONS =
     [(''production.rollback'', ''Production rollback is disabled in the MVP.''),
      (''production.restart_service'',
       ''Production service restarts require a future hardened integration and explicit approval flow.''),
      (''database.mutate'', ''Database mutations are prohibited by default.''),
      (''shell.execute'', ''Arbitrary shell execution is prohibited.''),
      (''cloud.delete_resource'', ''Cloud deletion is prohibited by default.''),
      (''secret.read'', ''Secret access is prohibited for agent actions.'')]"

definition default_environments :: "string list" where
  "default_environments = [''dev'', ''staging'', ''test'', ''local'']"

definition all_environments :: "string list" where
  "all_environments = [''dev'', ''staging'', ''test'', ''local'', ''production'']"

definition read_only_action :: "string \<Rightarrow> string \<Rightarrow> string \<Rightarrow> action_metadata" where
  "read_only_action name description capability =
     \<lparr>am_name = name, am_description = description, am_base_risk = RL_READ_ONLY,
      am_is_read_only = True, am_is_mutation = False, am_reversible = True,
      am_blast_radius = ''none'', am_default_requires_approval = False,
      am_allowed_environments = all_environments, am_required_capabilities = [capability],
      am_required_preconditions = [], am_post_checks = [], am_prohibited_reason = None\<rparr>"

definition DEFAULT_ACTION_REGISTRY :: registry where
  "DEFAULT_ACTION_REGISTRY =
    [(''mock.get_error_context'',
      read_only_action ''mock.get_error_context''
        ''Read sanitized mock error context for an incident.'' ''mock:context:read''),
     (''mock.get_recent_deploys'',
      read_only_action ''mock.get_recent_deploys''
        ''Read mock deployment history for the affected service.'' ''mock:deploys:read''),
     (''mock.get_runbook'',
      read_only_action ''mock.get_runbook'' ''Read the matching mock runbook.'' ''mock:runbooks:read''),
     (''mock.search_prior_incidents'',
      read_only_action ''mock.search_prior_incidents''
        ''Search sanitized prior incident summaries.'' ''mock:incidents:read''),
     (''report.generate'',
      \<lparr>am_name = ''report.generate'',
       am_description = ''Generate a local incident report artifact.'',
       am_base_risk = RL_LOW, am_is_read_only = False, am_is_mutation = False,
       am_reversible = True, am_blast_radius = ''local incident record'',
       am_default_requires_approval = False,
       am_allowed_environments = default_environments,
       am_required_capabilities = [''report:write''], am_required_preconditions = [],
       am_post_checks = [''report_contains_evidence''], am_prohibited_reason = None\<rparr>),
     (''timeline.add_note'',
      \<lparr>am_name = ''timeline.add_note'',
       am_description = ''Append an audit timeline note to the local incident.'',
       am_base_risk = RL_LOW, am_is_read_only = False, am_is_mutation = False,
       am_reversible = True, am_blast_radius = ''local incident record'',
       am_default_requires_approval = False,
       am_allowed_environments = default_environments,
       am_required_capabilities = [''timeline:write''], am_required_preconditions = [],
       am_post_checks = [], am_prohibited_reason = None\<rparr>),
     (''mock.create_incident_ticket'',
      \<lparr>am_name = ''mock.create_incident_ticket'',
       am_description = ''Create a mock incident ticket; no external issue tracker is called.'',
       am_base_risk = RL_LOW, am_is_read_only = False, am_is_mutation = True,
       am_reversible = True, am_blast_radius = ''mock ticket system'',
       am_default_requires_approval = True,
       am_allowed_environments = all_environments,
       am_required_capabilities = [''mock:tickets:write''],
       am_required_preconditions = [''evidence_cited'', ''incident_summary_present''],
       am_post_checks = [''ticket_id_recorded''], am_prohibited_reason = None\<rparr>),
     (''mock.create_rollback_pr'',
      \<lparr>am_name = ''mock.create_rollback_pr'',
       am_description = ''Create a mock rollback PR draft; no GitHub API is called.'',
       am_base_risk = RL_MEDIUM, am_is_read_only = False, am_is_mutation = True,
       am_reversible = True, am_blast_radius = ''mock repository draft'',
       am_default_requires_approval = True,
       am_allowed_environments = all_environments,
       am_required_capabilities = [''mock:pull_requests:write''],
       am_required_preconditions = [''bad_deploy_identified'', ''rollback_plan_present''],
       am_post_checks = [''pr_url_recorded'', ''verify_recovery_after_merge''],
       am_prohibited_reason = None\<rparr>),
     (''mock.execute_restart_worker'',
      \<lparr>am_name = ''mock.execute_restart_worker'',
       am_description = ''Simulate restarting a non-production worker.'',
       am_base_risk = RL_LOW, am_is_read_only = False, am_is_mutation = True,
       am_reversible = True, am_blast_radius = ''single non-production worker'',
       am_default_requires_approval = True,
       am_allowed_environments = default_environments,
       am_required_capabilities = [''mock:workers:restart''],
       am_required_preconditions = [''worker_target_confirmed''],
       am_post_checks = [''mock.verify_recovery''], am_prohibited_reason = None\<rparr>),
     (''mock.verify_recovery'',
      read_only_action ''mock.verify_recovery'' ''Read mock recovery signal after an action.''
        ''mock:verification:read'')]"

section \<open>The engine\<close>

text \<open>\<open>RiskEngine(registry)\<close>: an absent or empty registry is replaced by the default one.\<close>

definition risk_engine_init :: "registry option \<Rightarrow> registry" where
  "risk_engine_init r = (case r of None \<Rightarrow> DEFAULT_ACTION_REGISTRY
     | Some reg \<Rightarrow> if reg = [] then DEFAULT_ACTION_REGISTRY else reg)"

definition prohibited_action :: "string \<Rightarrow> string \<Rightarrow> action_metadata" where
  "prohibited_action action_type why =
     \<lparr>am_name = action_type, am_description = why, am_base_risk = RL_PROHIBITED,
      am_is_read_only = False, am_is_mutation = True, am_reversible = False,
      am_blast_radius = ''unbounded or production'', am_default_requires_approval = False,
      am_allowed_environments = [], am_required_capabilities = [],
      am_required_preconditions = [], am_post_checks = [], am_prohibited_reason = Some why\<rparr>"

definition get_action :: "registry \<Rightarrow> string \<Rightarrow> action_metadata option" where
  "get_action reg action_type =
     (case map_of PROHIBITED_ACTIONS action_type of
        Some why \<Rightarrow> Some (prohibited_action action_type why)
      | None \<Rightarrow> map_of reg action_type)"

definition classify_risk :: "registry \<Rightarrow> string \<Rightarrow> risk_level" where
  "classify_risk reg action_type =
     (case get_action reg action_type of
        None \<Rightarrow> RL_HIGH
      | Some a \<Rightarrow> if str_truthy (am_prohibited_reason a) then RL_PROHIBITED else am_base_risk a)"

section \<open>Facts about the engine\<close>

lemma prohibited_reason_nonempty:
  "map_of PROHIBITED_ACTIONS t = Some why \<Longrightarrow> why \<noteq> []"
  by (auto simp: PROHIBITED_ACTIONS_def split: if_splits)

lemma get_action_prohibited:
  assumes "t \<in> fst ` set PROHIBITED_ACTIONS"
  obtains why where "get_action reg t = Some (prohibited_action t why)" and "why \<noteq> []"
proof -
  from assms obtain why where "map_of PROHIBITED_ACTIONS t = Some why"
    by (metis domD dom_map_of_conv_image_fst)
  then show thesis
    using that prohibited_reason_nonempty by (auto simp: get_action_def)
qed

lemma get_action_registered:
  "t \<notin> fst ` set PROHIBITED_ACTIONS \<Longrightarrow> get_action reg t = map_of reg t"
  by (auto simp: get_action_def dest: map_of_SomeD split: option.splits)
     (metis image_eqI fst_conv map_of_SomeD)

lemma classify_risk_prohibited:
  "t \<in> fst ` set PROHIBITED_ACTIONS \<Longrightarrow> classify_risk reg t = RL_PROHIBITED"
  by (erule get_action_prohibited [where reg = reg])
     (simp add: classify_risk_def prohibited_action_def)

text \<open>
  The registry agrees with itself: every entry is stored under its own name, is not a prohibited
  action, needs at least one capability, and a mutation needs approval and is reversible.
\<close>

definition registry_entry_ok :: "string \<times> action_metadata \<Rightarrow> bool" where
  "registry_entry_ok e = (let (k, a) = e in
     am_name a = k \<and> k \<notin> fst ` set PROHIBITED_ACTIONS \<and> am_prohibited_reason a = None
     \<and> am_required_capabilities a \<noteq> [] \<and> am_base_risk a \<noteq> RL_PROHIBITED
     \<and> (am_is_mutation a \<longrightarrow> am_default_requires_approval a \<and> am_reversible a \<and> am_post_checks a \<noteq> [])
     \<and> (am_is_read_only a \<longrightarrow> \<not> am_is_mutation a \<and> am_base_risk a = RL_READ_ONLY))"

definition registry_ok :: "registry \<Rightarrow> bool" where
  "registry_ok reg = (distinct (map fst reg) \<and> list_all registry_entry_ok reg)"

lemma default_registry_ok: "registry_ok DEFAULT_ACTION_REGISTRY"
  by code_simp

lemma registry_okD:
  assumes "registry_ok reg" and "map_of reg t = Some a"
  shows "registry_entry_ok (t, a)"
  using assms by (auto simp: registry_ok_def list_all_iff dest: map_of_SomeD)

lemma get_action_ok_cases:
  assumes "registry_ok reg" and "get_action reg t = Some a"
  shows "(\<exists>why. a = prohibited_action t why \<and> why \<noteq> []) \<or>
         (map_of reg t = Some a \<and> am_prohibited_reason a = None \<and> am_name a = t)"
  using assms prohibited_reason_nonempty
  by (auto simp: get_action_def registry_entry_ok_def split: option.splits dest!: registry_okD)

end
