(* ===== verification/Blast_Radius.thy ===== *)
theory Blast_Radius
  imports Risk_Engine
begin

text \<open>
  Blast-radius classification of \<open>app/services/blast_radius.py\<close>.  \<open>BlastRadiusService\<close> holds one
  risk engine, so each method takes the registry as its first argument.
\<close>

datatype blast_radius_level =
    BR_LOCAL | BR_SERVICE | BR_WORKSPACE | BR_TENANT | BR_GLOBAL | BR_UNKNOWN | BR_PROHIBITED

fun blast_value :: "blast_radius_level \<Rightarrow> string" where
  "blast_value BR_LOCAL = ''local''"
| "blast_value BR_SERVICE = ''service''"
| "blast_value BR_WORKSPACE = ''workspace''"
| "blast_value BR_TENANT = ''tenant''"
| "blast_value BR_GLOBAL = ''global''"
| "blast_value BR_UNKNOWN = ''unknown''"
| "blast_value BR_PROHIBITED = ''prohibited''"

record blast_radius_result =
  br_level :: blast_radius_level
  br_reason :: string
  br_rollback_available :: bool
  br_approval_required :: bool
  br_touched_resources :: "string list"
  br_allowed :: bool
  br_evidence :: "string list"

definition br_scope :: "blast_radius_result \<Rightarrow> string" where
  "br_scope b = blast_value (br_level b)"

definition br_allowed_for_auto :: "blast_radius_result \<Rightarrow> bool" where
  "br_allowed_for_auto b = (br_allowed b \<and> \<not> br_approval_required b \<and> br_rollback_available b)"

definition br_reasons :: "blast_radius_result \<Rightarrow> string list" where
  "br_reasons b = br_reason b # br_evidence b"

definition blast_to_dict :: "blast_radius_result \<Rightarrow> pydict" where
  "blast_to_dict b =
     [(''level'', PStr (blast_value (br_level b))), (''reason'', PStr (br_reason b)),
      (''rollback_available'', PBool (br_rollback_available b)),
      (''approval_required'', PBool (br_approval_required b)),
      (''touched_resources'', PList (map PStr (br_touched_resources b))),
      (''allowed'', PBool (br_allowed b)), (''evidence'', PList (map PStr (br_evidence b))),
      (''scope'', PStr (blast_value (br_level b))),
      (''requires_human_approval'', PBool (br_approval_required b)),
      (''allowed_for_auto'', PBool (br_allowed_for_auto b))]"

section \<open>Classification\<close>

definition resources_of :: "action_request \<Rightarrow> string list" where
  "resources_of request =
     filter (\<lambda>r. r \<noteq> [])
       (fold (\<lambda>key acc. let v = pget (ar_payload request) key in
                if truthy v \<and> py_str v \<notin> set acc then acc @ [py_str v] else acc)
          [''service'', ''worker'', ''repository'', ''ticket'', ''incident_id'']
          [ar_target request])"

definition normalize_radius_text :: "string \<Rightarrow> string" where
  "normalize_radius_text s = py_replace ''non-production'' ''nonproduction'' (py_lower s)"

definition raw_radius_text :: "action_metadata \<Rightarrow> action_request \<Rightarrow> string" where
  "raw_radius_text action request =
     py_join '' ''
       (map normalize_radius_text
          [am_blast_radius action, py_str (pget_or (ar_payload request) ''blast_radius'' (PStr '''')),
           ar_environment request])"

definition level_for :: "action_metadata \<Rightarrow> action_request \<Rightarrow> blast_radius_level" where
  "level_for action request =
     (if str_truthy (am_prohibited_reason action) then BR_PROHIBITED
      else let raw = raw_radius_text action request in
        if py_any_in [''prohibited'', ''unbounded'', ''shell'', ''database'', ''cloud'', ''secret''] raw
        then (if str_truthy (am_prohibited_reason action) then BR_PROHIBITED else BR_UNKNOWN)
        else if py_in ''global'' raw then BR_GLOBAL
        else if py_in ''tenant'' raw then BR_TENANT
        else if py_any_in [''workspace'', ''repository'', ''ticket'', ''pull request'', ''mock ticket''] raw
        then BR_WORKSPACE
        else if py_any_in [''service'', ''worker'', ''single non-production worker''] raw then BR_SERVICE
        else if py_any_in [''local'', ''incident'', ''timeline'', ''report'', ''none''] raw
                \<or> am_is_read_only action
        then BR_LOCAL
        else BR_UNKNOWN)"

definition radius_reason :: "action_metadata \<Rightarrow> blast_radius_level \<Rightarrow> string" where
  "radius_reason action level =
     (if str_truthy (am_prohibited_reason action) then the (am_prohibited_reason action)
      else ''Action metadata blast radius '' @ repr_str (am_blast_radius action)
           @ '' maps to '' @ blast_value level @ '' scope.'')"

definition blast_evaluate :: "registry \<Rightarrow> action_request \<Rightarrow> blast_radius_result" where
  "blast_evaluate reg request =
     (case get_action reg (ar_action_type request) of
        None \<Rightarrow>
          \<lparr>br_level = BR_UNKNOWN,
           br_reason = ''Unknown action '' @ repr_str (ar_action_type request)
                       @ '' has unbounded blast radius.'',
           br_rollback_available = False, br_approval_required = True,
           br_touched_resources = resources_of request, br_allowed = False,
           br_evidence = [''unknown_action'']\<rparr>
      | Some action \<Rightarrow>
          let level = level_for action request in
          \<lparr>br_level = level, br_reason = radius_reason action level,
           br_rollback_available =
             (am_reversible action \<and> level \<notin> {BR_UNKNOWN, BR_PROHIBITED, BR_GLOBAL}),
           br_approval_required =
             (am_default_requires_approval action
              \<or> level \<in> {BR_WORKSPACE, BR_TENANT, BR_GLOBAL, BR_UNKNOWN, BR_PROHIBITED}),
           br_touched_resources = resources_of request,
           br_allowed = (level \<notin> {BR_UNKNOWN, BR_PROHIBITED}),
           br_evidence = [''action_metadata:'' @ am_name action,
                          ''blast_radius:'' @ am_blast_radius action]\<rparr>)"

text \<open>\<open>evaluate\<close> called with an action name instead of a request.\<close>

definition blast_evaluate_name :: "registry \<Rightarrow> string \<Rightarrow> pydict \<Rightarrow> blast_radius_result" where
  "blast_evaluate_name reg action_type payload =
     blast_evaluate reg
       (action_request_of action_type (py_str (pget_or payload ''target'' (PStr ''unknown'')))
          ''local'' payload)"

definition request_of_context :: "pydict \<Rightarrow> action_request" where
  "request_of_context context =
     action_request_of (py_str (pget_or context ''action_type'' (PStr ''unknown'')))
       (py_str (pget_or context ''target'' (PStr ''unknown'')))
       (py_str (pget_or context ''environment'' (PStr ''local'')))
       (as_dict (pget_or context ''payload'' (PDict [])))"

definition blast_classify :: "registry \<Rightarrow> pydict \<Rightarrow> blast_radius_result" where
  "blast_classify reg context = blast_evaluate reg (request_of_context context)"

section \<open>Facts\<close>

lemma blast_allowed_iff:
  "br_allowed (blast_evaluate reg r) \<longleftrightarrow> br_level (blast_evaluate reg r) \<notin> {BR_UNKNOWN, BR_PROHIBITED}"
  by (auto simp: blast_evaluate_def Let_def split: option.splits)

lemma blast_not_allowed_fail_closed:
  "\<not> br_allowed (blast_evaluate reg r) \<Longrightarrow>
     br_approval_required (blast_evaluate reg r) \<and> \<not> br_rollback_available (blast_evaluate reg r)"
  by (auto simp: blast_evaluate_def Let_def split: option.splits)

lemma level_for_prohibited_iff:
  "level_for a r = BR_PROHIBITED \<longleftrightarrow> str_truthy (am_prohibited_reason a)"
  by (simp add: level_for_def Let_def)

lemma blast_registered_not_prohibited_level:
  assumes "get_action reg (ar_action_type r) = Some a" and "am_prohibited_reason a = None"
  shows "br_level (blast_evaluate reg r) \<noteq> BR_PROHIBITED"
  using assms by (simp add: blast_evaluate_def Let_def level_for_prohibited_iff)

lemma blast_allowed_registered:
  assumes "br_allowed (blast_evaluate reg r)"
  obtains a where "get_action reg (ar_action_type r) = Some a"
    and "\<not> str_truthy (am_prohibited_reason a)"
  using assms by (auto simp: blast_evaluate_def Let_def level_for_prohibited_iff split: option.splits)

text \<open>A word of the unbounded family anywhere in the three texts makes a registered action unbounded.\<close>

lemma py_join_in:
  assumes "x \<in> set xs" and "py_any_in ts x"
  shows "py_any_in ts (py_join sep xs)"
  using assms
  by (induction sep xs rule: py_join.induct) (auto simp: py_any_in_append)

lemma unbounded_word_not_allowed:
  assumes "get_action reg (ar_action_type r) = Some a"
    and "x \<in> {am_blast_radius a, py_str (pget_or (ar_payload r) ''blast_radius'' (PStr '''')),
              ar_environment r}"
    and "py_any_in [''prohibited'', ''unbounded'', ''shell'', ''database'', ''cloud'', ''secret'']
           (normalize_radius_text x)"
  shows "\<not> br_allowed (blast_evaluate reg r)"
proof -
  have "py_any_in [''prohibited'', ''unbounded'', ''shell'', ''database'', ''cloud'', ''secret'']
          (raw_radius_text a r)"
    unfolding raw_radius_text_def
    by (rule py_join_in [where x = "normalize_radius_text x"]) (use assms(2,3) in auto)
  then have "level_for a r \<in> {BR_UNKNOWN, BR_PROHIBITED}"
    by (simp add: level_for_def Let_def)
  with assms(1) show ?thesis by (auto simp: blast_evaluate_def Let_def)
qed

lemma resources_fold_distinct:
  "distinct acc \<Longrightarrow> distinct (fold (\<lambda>key acc. let v = pget d key in
      if truthy v \<and> py_str v \<notin> set acc then acc @ [py_str v] else acc) ks acc)"
  by (induction ks arbitrary: acc) (auto simp: Let_def)

lemma resources_of_distinct: "distinct (resources_of r)"
  unfolding resources_of_def by (rule distinct_filter) (rule resources_fold_distinct, simp)

lemma resources_of_nonempty_names: "[] \<notin> set (resources_of r)"
  by (simp add: resources_of_def)

end
