(* ===== verification/Action_Simulator.thy ===== *)
theory Action_Simulator
  imports Blast_Radius
begin

text \<open>The dry-run simulator of \<open>app/services/action_simulator.py\<close>.\<close>

datatype simulation_status = SS_PASS | SS_BLOCKED | SS_ESCALATE

fun simulation_value :: "simulation_status \<Rightarrow> string" where
  "simulation_value SS_PASS = ''pass''"
| "simulation_value SS_BLOCKED = ''blocked''"
| "simulation_value SS_ESCALATE = ''escalate''"

record simulation_result =
  sm_status :: simulation_status
  sm_action_type :: string
  sm_expected_effect :: string
  sm_touched_resources :: "string list"
  sm_rollback_path :: "string option"
  sm_precondition_gaps :: "string list"
  sm_residual_risks :: "string list"
  sm_blast_radius :: blast_radius_result
  sm_allowed :: bool

text \<open>The three properties \<open>ok\<close>, \<open>success\<close> and \<open>passed\<close> of the source are the same test.\<close>

definition sm_ok :: "simulation_result \<Rightarrow> bool" where
  "sm_ok s = (sm_allowed s \<and> sm_status s = SS_PASS)"

definition sim_to_dict :: "simulation_result \<Rightarrow> pydict" where
  "sim_to_dict s =
     [(''status'', PStr (simulation_value (sm_status s))), (''action_type'', PStr (sm_action_type s)),
      (''expected_effect'', PStr (sm_expected_effect s)),
      (''touched_resources'', PList (map PStr (sm_touched_resources s))),
      (''rollback_path'', opt_str (sm_rollback_path s)),
      (''precondition_gaps'', PList (map PStr (sm_precondition_gaps s))),
      (''residual_risks'', PList (map PStr (sm_residual_risks s))),
      (''blast_radius'', PDict (blast_to_dict (sm_blast_radius s))),
      (''allowed'', PBool (sm_allowed s)), (''ok'', PBool (sm_ok s)), (''success'', PBool (sm_ok s))]"

section \<open>Text tables\<close>

definition touched_resources_for :: "string \<Rightarrow> string list \<Rightarrow> string list" where
  "touched_resources_for action_type resources =
     (if py_in ''rollback'' action_type \<and> resources \<noteq> []
      then (''mock repository draft for '' @ hd resources) # resources else resources)"

definition explicit_precondition_gaps :: "pydict \<Rightarrow> string list" where
  "explicit_precondition_gaps payload =
     (case pget_or payload ''missing_preconditions'' (PList []) of
        PStr s \<Rightarrow> [s]
      | PList xs \<Rightarrow> map py_str xs
      | _ \<Rightarrow> [])"

definition expected_effect :: "string \<Rightarrow> string" where
  "expected_effect action_type =
     (case map_of
        [(''report.generate'', ''Generate a local report artifact; no external mutation.''),
         (''timeline.add_note'', ''Append a local incident timeline note; no external mutation.''),
         (''mock.create_incident_ticket'',
          ''Create a deterministic mock ticket record; no external mutation.''),
         (''mock.create_rollback_pr'',
          ''Create a deterministic mock rollback PR draft; no external mutation.''),
         (''mock.execute_restart_worker'',
          ''Simulate a single non-production worker restart; no external mutation.''),
         (''mock.verify_recovery'', ''Read local/mock recovery evidence; no external mutation.'')]
        action_type of
        Some t \<Rightarrow> t
      | None \<Rightarrow> ''Execute only through the registered local/mock action handler; no external mutation.'')"

definition rollback_path :: "string \<Rightarrow> bool \<Rightarrow> string option" where
  "rollback_path action_type available =
     (if \<not> available then None
      else if py_in ''rollback'' action_type
      then Some ''Discard the mock rollback PR draft; no provider state changed.''
      else if py_in ''restart'' action_type
      then Some ''Run mock.verify_recovery and keep human escalation available; restart is simulated only.''
      else if py_in ''ticket'' action_type then Some ''Close or annotate the mock ticket artifact.''
      else Some ''Remove or supersede the local artifact if needed.'')"

definition residual_risks :: "string \<Rightarrow> string list" where
  "residual_risks action_type =
     (if py_in ''rollback'' action_type then [''human must review before real merge'']
      else if py_in ''restart'' action_type then [''simulation does not restart real workers'']
      else [''local_mock_evidence_only''])"

section \<open>Simulation\<close>

definition simulate :: "registry \<Rightarrow> action_request \<Rightarrow> simulation_result" where
  "simulate reg request =
     (let blast = blast_evaluate reg request; t = ar_action_type request in
      case get_action reg t of
        None \<Rightarrow>
          \<lparr>sm_status = (if t = ''unknown.mutate'' then SS_BLOCKED else SS_ESCALATE),
           sm_action_type = t, sm_expected_effect = ''Unknown action cannot be simulated safely.'',
           sm_touched_resources = br_touched_resources blast, sm_rollback_path = None,
           sm_precondition_gaps = [''registered_action''],
           sm_residual_risks = [''unknown_action'', ''manual_review_required''],
           sm_blast_radius = blast, sm_allowed = False\<rparr>
      | Some action \<Rightarrow>
          let gaps = explicit_precondition_gaps (ar_payload request) in
          if \<not> br_allowed blast then
            \<lparr>sm_status = SS_BLOCKED, sm_action_type = t,
             sm_expected_effect = ''Simulation blocked because blast radius is not bounded.'',
             sm_touched_resources = br_touched_resources blast, sm_rollback_path = None,
             sm_precondition_gaps = (if gaps \<noteq> [] then gaps else [''bounded_blast_radius'']),
             sm_residual_risks = [br_reason blast], sm_blast_radius = blast, sm_allowed = False\<rparr>
          else if gaps \<noteq> [] then
            \<lparr>sm_status = SS_BLOCKED, sm_action_type = t,
             sm_expected_effect = ''Simulation blocked by missing preconditions.'',
             sm_touched_resources = br_touched_resources blast,
             sm_rollback_path = rollback_path t (br_rollback_available blast),
             sm_precondition_gaps = gaps, sm_residual_risks = [''missing_preconditions''],
             sm_blast_radius = blast, sm_allowed = False\<rparr>
          else
            \<lparr>sm_status = SS_PASS, sm_action_type = t, sm_expected_effect = expected_effect t,
             sm_touched_resources = touched_resources_for t (br_touched_resources blast),
             sm_rollback_path = rollback_path t (br_rollback_available blast),
             sm_precondition_gaps = [], sm_residual_risks = residual_risks t,
             sm_blast_radius = blast, sm_allowed = True\<rparr>)"

definition simulate_context :: "registry \<Rightarrow> pydict \<Rightarrow> simulation_result" where
  "simulate_context reg context = simulate reg (request_of_context context)"

section \<open>Facts\<close>

lemma simulate_blast [simp]: "sm_blast_radius (simulate reg r) = blast_evaluate reg r"
  by (auto simp: simulate_def Let_def split: option.splits)

lemma simulate_allowed_iff:
  "sm_allowed (simulate reg r) \<longleftrightarrow>
     (\<exists>a. get_action reg (ar_action_type r) = Some a) \<and> br_allowed (blast_evaluate reg r)
     \<and> explicit_precondition_gaps (ar_payload r) = []"
  by (auto simp: simulate_def Let_def split: option.splits)

lemma simulate_ok_iff: "sm_ok (simulate reg r) \<longleftrightarrow> sm_allowed (simulate reg r)"
  by (auto simp: sm_ok_def simulate_def Let_def split: option.splits)

lemma simulate_gaps_iff_not_ok: "sm_precondition_gaps (simulate reg r) = [] \<longleftrightarrow> sm_ok (simulate reg r)"
  by (auto simp: sm_ok_def simulate_def Let_def split: option.splits)

lemma simulate_residual_nonempty: "sm_residual_risks (simulate reg r) \<noteq> []"
  by (auto simp: simulate_def residual_risks_def Let_def split: option.splits)

lemma simulate_rollback_path_iff:
  assumes "sm_ok (simulate reg r)"
  shows "sm_rollback_path (simulate reg r) \<noteq> None \<longleftrightarrow> br_rollback_available (blast_evaluate reg r)"
  using assms
  by (auto simp: sm_ok_def simulate_def Let_def rollback_path_def split: option.splits if_splits)

end
