(* ===== verification/Policy_Engine.thy ===== *)
theory Policy_Engine
  imports Action_Simulator
begin

text \<open>
  The approval policy of \<open>app/services/policy_engine.py\<close> and the \<open>PolicyEvaluation\<close> record of
  \<open>app/models/action.py\<close>.  A \<open>PolicyEngine\<close> is determined by its registry: the blast-radius
  service and the simulator are built on the same risk engine.  \<open>evaluate\<close> can raise, since
  \<open>RiskLevel(...)\<close> is applied to a caller's string.
\<close>

section \<open>Evaluations\<close>

record policy_evaluation =
  pe_decision :: policy_decision
  pe_risk_level :: risk_level
  pe_requires_approval :: bool
  pe_reason :: string
  pe_action :: "action_metadata option"
  pe_missing_capabilities :: "string list"
  pe_preconditions :: "string list"
  pe_post_checks :: "string list"
  pe_blast_radius :: "blast_radius_result option"
  pe_simulation :: "simulation_result option"

definition pe_route :: "policy_evaluation \<Rightarrow> policy_route" where
  "pe_route e =
     (if pe_decision e = PD_ALLOW \<and> \<not> pe_requires_approval e then PR_AUTO_EXECUTE
      else if pe_decision e = PD_ESCALATE then PR_HUMAN_REQUIRED
      else if pe_decision e = PD_DENY then PR_BLOCKED
      else PR_APPROVAL_REQUIRED)"

definition executable_now :: "policy_evaluation \<Rightarrow> bool" where
  "executable_now e = (pe_decision e = PD_ALLOW \<and> \<not> pe_requires_approval e)"

definition pe_reasons :: "policy_evaluation \<Rightarrow> string list" where
  "pe_reasons e =
     pe_reason e # (if pe_missing_capabilities e \<noteq> []
                    then [''missing capabilities: '' @ py_join '', '' (pe_missing_capabilities e)]
                    else [])"

section \<open>Contexts\<close>

record night_autopilot_config =
  na_quiet_hours_start :: "nat \<times> nat"
  na_quiet_hours_end :: "nat \<times> nat"
  na_timezone :: string
  na_max_automatic_risk :: risk_level
  na_max_attempts_per_incident :: int
  na_allowed_services :: "string list"
  na_allowed_environments :: "string list"
  na_allowed_actions :: "string list"
  na_wake_up_conditions :: "string list"

definition default_night_autopilot :: night_autopilot_config where
  "default_night_autopilot =
     \<lparr>na_quiet_hours_start = (22, 0), na_quiet_hours_end = (7, 0), na_timezone = ''UTC'',
      na_max_automatic_risk = RL_LOW, na_max_attempts_per_incident = 1,
      na_allowed_services = [''payment-api'', ''checkout-worker'', ''demo-service'', ''worker''],
      na_allowed_environments = [''staging'', ''local'', ''test''],
      na_allowed_actions = [''report.generate'', ''timeline.add_note'', ''mock.execute_restart_worker''],
      na_wake_up_conditions = [''critical severity'', ''production environment'',
        ''policy denied action'', ''verification failed'']\<rparr>"

text \<open>The argument \<open>max_automatic_risk\<close>: \<open>None\<close>, a member, or a plain string.\<close>

datatype risk_arg = RA_Risk risk_level | RA_Str string

record policy_context =
  pc_capabilities :: "string list"
  pc_service :: string
  pc_environment :: string
  pc_tenant_id :: string
  pc_workspace_id :: string
  pc_severity :: string
  pc_night_autopilot :: bool
  pc_autopilot_attempts :: int
  pc_autopilot :: night_autopilot_config
  pc_mode :: string
  pc_allowed_services :: "string list option"
  pc_allowed_environments :: "string list option"
  pc_max_automatic_risk :: "risk_arg option"
  pc_confidence :: "rat option"
  pc_evidence_count :: int
  pc_conflicting_signals :: bool
  pc_known_ambiguity :: bool
  pc_blast_radius_scope :: "string option"
  pc_rollback_available :: "bool option"
  pc_reversible :: "bool option"
  pc_simulation_passed :: "bool option"
  pc_simulation_status :: "string option"
  pc_failed_memory_warning :: bool
  pc_memory_failed_action_warning :: bool

text \<open>\<open>default_capabilities(extra)\<close>; a frozenset is listed.\<close>

definition default_capabilities :: "string list \<Rightarrow> string list" where
  "default_capabilities extra =
     [''mock:context:read'', ''mock:deploys:read'', ''mock:runbooks:read'', ''mock:incidents:read'',
      ''mock:verification:read'', ''timeline:write'', ''report:write''] @ extra"

definition write_capabilities :: "string list" where
  "write_capabilities = [''mock:tickets:write'', ''mock:pull_requests:write'', ''mock:workers:restart'']"

definition default_policy_context :: "string \<Rightarrow> policy_context" where
  "default_policy_context environment =
     \<lparr>pc_capabilities =
        [''mock:context:read'', ''mock:deploys:read'', ''mock:runbooks:read'', ''mock:incidents:read'',
         ''mock:verification:read'', ''mock:tickets:write'', ''mock:pull_requests:write'',
         ''mock:workers:restart'', ''timeline:write'', ''report:write''],
      pc_service = ''demo-service'', pc_environment = environment, pc_tenant_id = ''demo'',
      pc_workspace_id = ''demo'', pc_severity = ''medium'', pc_night_autopilot = False,
      pc_autopilot_attempts = 0, pc_autopilot = default_night_autopilot, pc_mode = ''manual'',
      pc_allowed_services = None, pc_allowed_environments = None, pc_max_automatic_risk = None,
      pc_confidence = None, pc_evidence_count = 0, pc_conflicting_signals = False,
      pc_known_ambiguity = False, pc_blast_radius_scope = None, pc_rollback_available = None,
      pc_reversible = None, pc_simulation_passed = None, pc_simulation_status = None,
      pc_failed_memory_warning = False, pc_memory_failed_action_warning = False\<rparr>"

definition autopilot_enabled :: "policy_context \<Rightarrow> bool" where
  "autopilot_enabled c = (pc_night_autopilot c \<or> pc_mode c = ''night_autopilot'')"

text \<open>\<open>a or b\<close> on an optional tuple: \<open>None\<close> and the empty tuple both give \<open>b\<close>.\<close>

definition tuple_or :: "string list option \<Rightarrow> string list \<Rightarrow> string list" where
  "tuple_or a b = (case a of None \<Rightarrow> b | Some xs \<Rightarrow> if xs = [] then b else xs)"

definition resolve_risk :: "risk_arg option \<Rightarrow> risk_level \<Rightarrow> risk_level result" where
  "resolve_risk a dflt =
     (case a of None \<Rightarrow> Inr dflt
      | Some (RA_Risk r) \<Rightarrow> Inr r
      | Some (RA_Str s) \<Rightarrow> if s = [] then Inr dflt else risk_of_value s)"

definition resolved_autopilot :: "policy_context \<Rightarrow> night_autopilot_config result" where
  "resolved_autopilot c =
     (if pc_allowed_services c = None \<and> pc_allowed_environments c = None
         \<and> pc_max_automatic_risk c = None
      then Inr (pc_autopilot c)
      else rbind (resolve_risk (pc_max_automatic_risk c) (na_max_automatic_risk (pc_autopilot c)))
        (\<lambda>risk. Inr ((pc_autopilot c)
           \<lparr>na_max_automatic_risk := risk,
            na_allowed_services :=
              tuple_or (pc_allowed_services c) (na_allowed_services (pc_autopilot c)),
            na_allowed_environments :=
              tuple_or (pc_allowed_environments c) (na_allowed_environments (pc_autopilot c))\<rparr>)))"

section \<open>Night Autopilot\<close>

definition evaluate_night_autopilot ::
    "action_request \<Rightarrow> policy_context \<Rightarrow> risk_level \<Rightarrow> policy_decision result" where
  "evaluate_night_autopilot request c risk_level =
     rbind (resolved_autopilot c) (\<lambda>cfg.
       let rollback = (case pc_rollback_available c of Some b \<Rightarrow> Some b | None \<Rightarrow> pc_reversible c) in
       Inr
        (if pc_severity c = ''critical'' \<or> ar_environment request = ''production'' then PD_ESCALATE
         else if pc_autopilot_attempts c \<ge> na_max_attempts_per_incident cfg then PD_ESCALATE
         else if pc_service c \<notin> set (na_allowed_services cfg)
                 \<or> ar_environment request \<notin> set (na_allowed_environments cfg) then PD_ESCALATE
         else if (case pc_confidence c of None \<Rightarrow> False | Some x \<Rightarrow> x < 82 / 100) then PD_ESCALATE
         else if pc_conflicting_signals c \<or> pc_known_ambiguity c then PD_ESCALATE
         else if pc_failed_memory_warning c \<or> pc_memory_failed_action_warning c then PD_ESCALATE
         else if pc_simulation_passed c = Some False then PD_ESCALATE
         else if rollback = Some False then PD_REQUIRE_APPROVAL
         else if pc_blast_radius_scope c
                 \<in> Some ` {''unknown'', ''tenant'', ''global'', ''prohibited''} then PD_ESCALATE
         else if ar_action_type request \<notin> set (na_allowed_actions cfg) then PD_REQUIRE_APPROVAL
         else if risk_order risk_level > risk_order (na_max_automatic_risk cfg) then PD_REQUIRE_APPROVAL
         else if (case pc_confidence c of None \<Rightarrow> False | Some x \<Rightarrow> x < 85 / 100) then PD_ESCALATE
         else if pc_blast_radius_scope c \<noteq> None
                 \<and> pc_blast_radius_scope c \<notin> Some ` {''local'', ''service''} then PD_ESCALATE
         else if pc_reversible c = Some False then PD_ESCALATE
         else if pc_simulation_status c \<noteq> None \<and> pc_simulation_status c \<noteq> Some ''passed''
         then PD_ESCALATE
         else if pc_memory_failed_action_warning c then PD_ESCALATE
         else PD_ALLOW))"

section \<open>Evaluation\<close>

definition evaluation_for ::
    "policy_decision \<Rightarrow> risk_level \<Rightarrow> bool \<Rightarrow> string \<Rightarrow> action_metadata \<Rightarrow> string list
     \<Rightarrow> blast_radius_result \<Rightarrow> simulation_result \<Rightarrow> policy_evaluation" where
  "evaluation_for decision risk requires reason action missing blast sim =
     \<lparr>pe_decision = decision, pe_risk_level = risk, pe_requires_approval = requires,
      pe_reason = reason, pe_action = Some action, pe_missing_capabilities = missing,
      pe_preconditions = am_required_preconditions action, pe_post_checks = am_post_checks action,
      pe_blast_radius = Some blast, pe_simulation = Some sim\<rparr>"

definition effective_capabilities :: "policy_context \<Rightarrow> string list" where
  "effective_capabilities c =
     (if pc_capabilities c \<noteq> [] then pc_capabilities c else default_capabilities write_capabilities)"

definition missing_capabilities :: "action_metadata \<Rightarrow> policy_context \<Rightarrow> string list" where
  "missing_capabilities action c =
     sort (remdups (filter (\<lambda>x. x \<notin> set (effective_capabilities c)) (am_required_capabilities action)))"

definition evaluate :: "registry \<Rightarrow> action_request \<Rightarrow> policy_context option \<Rightarrow> policy_evaluation result" where
  "evaluate reg request context_arg =
     (let c = (case context_arg of Some c \<Rightarrow> c | None \<Rightarrow> default_policy_context (ar_environment request));
          blast = blast_evaluate reg request;
          sim = simulate reg request in
      case get_action reg (ar_action_type request) of
        None \<Rightarrow> Inr
          \<lparr>pe_decision = PD_ESCALATE, pe_risk_level = RL_HIGH, pe_requires_approval = True,
           pe_reason = ''Unknown action '' @ repr_str (ar_action_type request)
                       @ ''; escalate for manual review.'',
           pe_action = None, pe_missing_capabilities = [], pe_preconditions = [],
           pe_post_checks = [], pe_blast_radius = Some blast, pe_simulation = Some sim\<rparr>
      | Some action \<Rightarrow>
        let risk = classify_risk reg (ar_action_type request) in
        if risk = RL_PROHIBITED \<or> str_truthy (am_prohibited_reason action) then
          Inr (evaluation_for PD_DENY RL_PROHIBITED False
                 (if str_truthy (am_prohibited_reason action) then the (am_prohibited_reason action)
                  else ''Production or prohibited mutation is denied by default policy.'')
                 action [] blast sim)
        else if \<not> br_allowed blast \<or> (\<not> am_is_read_only action \<and> \<not> sm_allowed sim) then
          Inr (evaluation_for PD_DENY
                 (if blast_value (br_level blast) = ''prohibited'' then RL_PROHIBITED else RL_HIGH) False
                 (''Action denied because blast radius/simulation is not bounded: '' @ br_reason blast)
                 action [] blast sim)
        else if am_allowed_environments action \<noteq> []
                \<and> ar_environment request \<notin> set (am_allowed_environments action)
                \<and> \<not> am_is_read_only action then
          Inr (evaluation_for PD_DENY RL_PROHIBITED False
                 (''Action '' @ ar_action_type request @ '' is not allowed in environment ''
                  @ ar_environment request @ ''.'')
                 action [] blast sim)
        else if missing_capabilities action c \<noteq> [] then
          Inr (evaluation_for PD_ESCALATE risk True ''Missing required capability grants.''
                 action (missing_capabilities action c) blast sim)
        else if autopilot_enabled c then
          rbind (evaluate_night_autopilot request c risk) (\<lambda>d.
            Inr (evaluation_for d risk (d \<noteq> PD_ALLOW) ''Night Autopilot policy applied.''
                   action [] blast sim))
        else if am_default_requires_approval action \<or> ar_approved request then
          (if ar_approved request then
             Inr (evaluation_for PD_ALLOW risk False
                    ''Human approval is present for approval-gated action.'' action [] blast sim)
           else
             Inr (evaluation_for PD_REQUIRE_APPROVAL risk True
                    ''Default MVP policy requires approval for this write/mutation action.''
                    action [] blast sim))
        else
          Inr (evaluation_for PD_ALLOW risk False
                 ''Default MVP policy allows read-only, report, and timeline actions.''
                 action [] blast sim))"

definition DANGEROUS_ACTION_ALIASES :: "(string \<times> string) list" where
  "DANGEROUS_ACTION_ALIASES =
     [(''production_rollback'', ''production.rollback''),
      (''production_restart'', ''production.restart_service''),
      (''database_mutation'', ''database.mutate''),
      (''arbitrary_shell'', ''shell.execute''),
      (''prohibited.arbitrary_shell'', ''shell.execute''),
      (''cloud_delete'', ''cloud.delete_resource''),
      (''secret_access'', ''secret.read'')]"

definition unalias :: "string \<Rightarrow> string" where
  "unalias s = (case map_of DANGEROUS_ACTION_ALIASES s of None \<Rightarrow> s | Some t \<Rightarrow> t)"

text \<open>\<open>evaluate\<close> called with an action name.\<close>

definition evaluate_name :: "registry \<Rightarrow> string \<Rightarrow> policy_context option \<Rightarrow> policy_evaluation result" where
  "evaluate_name reg name context_arg =
     (let c = (case context_arg of Some c \<Rightarrow> c | None \<Rightarrow> default_policy_context ''local'') in
      evaluate reg (action_request_of (unalias name) (pc_service c) (pc_environment c) []) (Some c))"

text \<open>The dictionary adapter \<open>evaluate_policy\<close>.\<close>

definition evaluate_policy :: "pydict \<Rightarrow> policy_evaluation result" where
  "evaluate_policy action =
     (let payload = as_dict (pget_or action ''payload'' (PDict []));
          environment = py_str (pget_or action ''environment''
                                  (pget_or payload ''environment'' (PStr ''staging'')));
          service = py_str (pget_or action ''service'' (pget_or payload ''service'' (PStr ''payment-api'')));
          request = (action_request_of (unalias (py_str (pget_or action ''action_type'' (PStr ''''))))
                       (py_str (pget_or action ''target'' (PStr service))) environment payload)
                    \<lparr>ar_approved := truthy (pget_or action ''approved'' (PBool False))\<rparr>;
          c = (default_policy_context environment)
                \<lparr>pc_capabilities := default_capabilities write_capabilities, pc_service := service\<rparr>
      in evaluate DEFAULT_ACTION_REGISTRY request (Some c))"


section \<open>Specification of the decision\<close>

text \<open>
  What the source promises, written without its control flow: the gates every allowed action has
  passed, and the gates of the quiet-hours mode.
\<close>

definition night_gates :: "action_request \<Rightarrow> policy_context \<Rightarrow> risk_level \<Rightarrow> night_autopilot_config \<Rightarrow> bool" where
  "night_gates r c risk cfg \<longleftrightarrow>
     pc_severity c \<noteq> ''critical'' \<and> ar_environment r \<noteq> ''production''
     \<and> pc_autopilot_attempts c < na_max_attempts_per_incident cfg
     \<and> pc_service c \<in> set (na_allowed_services cfg)
     \<and> ar_environment r \<in> set (na_allowed_environments cfg)
     \<and> ar_action_type r \<in> set (na_allowed_actions cfg)
     \<and> risk \<le> na_max_automatic_risk cfg
     \<and> (\<forall>x. pc_confidence c = Some x \<longrightarrow> 85 / 100 \<le> x)
     \<and> \<not> pc_conflicting_signals c \<and> \<not> pc_known_ambiguity c
     \<and> \<not> pc_failed_memory_warning c \<and> \<not> pc_memory_failed_action_warning c
     \<and> pc_simulation_passed c \<noteq> Some False
     \<and> (pc_simulation_status c = None \<or> pc_simulation_status c = Some ''passed'')
     \<and> pc_rollback_available c \<noteq> Some False \<and> pc_reversible c \<noteq> Some False
     \<and> (pc_blast_radius_scope c = None \<or> pc_blast_radius_scope c \<in> {Some ''local'', Some ''service''})"

definition static_gates :: "registry \<Rightarrow> action_request \<Rightarrow> action_metadata \<Rightarrow> policy_context \<Rightarrow> bool" where
  "static_gates reg r a c \<longleftrightarrow>
     get_action reg (ar_action_type r) = Some a
     \<and> \<not> str_truthy (am_prohibited_reason a) \<and> am_base_risk a \<noteq> RL_PROHIBITED
     \<and> br_allowed (blast_evaluate reg r)
     \<and> (am_is_read_only a \<or> explicit_precondition_gaps (ar_payload r) = [])
     \<and> (am_is_read_only a \<or> am_allowed_environments a = []
         \<or> ar_environment r \<in> set (am_allowed_environments a))
     \<and> set (am_required_capabilities a) \<subseteq> set (effective_capabilities c)"

definition context_of :: "action_request \<Rightarrow> policy_context option \<Rightarrow> policy_context" where
  "context_of r ctx = (case ctx of Some c \<Rightarrow> c | None \<Rightarrow> default_policy_context (ar_environment r))"

lemma missing_capabilities_empty_iff:
  "missing_capabilities a c = [] \<longleftrightarrow> set (am_required_capabilities a) \<subseteq> set (effective_capabilities c)"
proof -
  have "missing_capabilities a c = [] \<longleftrightarrow> set (missing_capabilities a c) = {}" by simp
  also have "\<dots> \<longleftrightarrow> set (am_required_capabilities a) \<subseteq> set (effective_capabilities c)"
    unfolding missing_capabilities_def by auto
  finally show ?thesis .
qed

lemma classify_risk_known:
  "get_action reg t = Some a \<Longrightarrow> \<not> str_truthy (am_prohibited_reason a) \<Longrightarrow>
     classify_risk reg t = am_base_risk a"
  by (simp add: classify_risk_def)

lemma night_ALLOW_iff:
  "evaluate_night_autopilot r c risk = Inr PD_ALLOW \<longleftrightarrow>
     (\<exists>cfg. resolved_autopilot c = Inr cfg \<and> night_gates r c risk cfg)"
  unfolding evaluate_night_autopilot_def night_gates_def rbind_Inr_iff Let_def less_eq_risk_level_def
  by (rule ex_cong1, cases "pc_rollback_available c"; cases "pc_confidence c";
      auto split: if_splits)

text \<open>The step function, one lemma per stage.\<close>

lemma evaluate_unregistered:
  "get_action reg (ar_action_type r) = None \<Longrightarrow>
     \<exists>e. evaluate reg r ctx = Inr e \<and> pe_decision e = PD_ESCALATE \<and> pe_risk_level e = RL_HIGH
         \<and> pe_requires_approval e"
  by (simp add: evaluate_def Let_def)

lemma evaluate_prohibited:
  assumes "get_action reg (ar_action_type r) = Some a"
    and "str_truthy (am_prohibited_reason a) \<or> am_base_risk a = RL_PROHIBITED"
  shows "\<exists>e. evaluate reg r ctx = Inr e \<and> pe_decision e = PD_DENY
             \<and> pe_risk_level e = RL_PROHIBITED \<and> \<not> pe_requires_approval e"
  using assms by (auto simp: evaluate_def evaluation_for_def classify_risk_def Let_def)

lemma evaluate_static_pass:
  assumes "static_gates reg r a (context_of r ctx)"
  shows "evaluate reg r ctx =
    (if autopilot_enabled (context_of r ctx) then
       rbind (evaluate_night_autopilot r (context_of r ctx) (am_base_risk a)) (\<lambda>d.
         Inr (evaluation_for d (am_base_risk a) (d \<noteq> PD_ALLOW) ''Night Autopilot policy applied.''
                a [] (blast_evaluate reg r) (simulate reg r)))
     else if ar_approved r then
       Inr (evaluation_for PD_ALLOW (am_base_risk a) False
              ''Human approval is present for approval-gated action.'' a []
              (blast_evaluate reg r) (simulate reg r))
     else if am_default_requires_approval a then
       Inr (evaluation_for PD_REQUIRE_APPROVAL (am_base_risk a) True
              ''Default MVP policy requires approval for this write/mutation action.'' a []
              (blast_evaluate reg r) (simulate reg r))
     else
       Inr (evaluation_for PD_ALLOW (am_base_risk a) False
              ''Default MVP policy allows read-only, report, and timeline actions.'' a []
              (blast_evaluate reg r) (simulate reg r)))"
  using assms
  by (auto simp: evaluate_def Let_def static_gates_def context_of_def classify_risk_known
      simulate_allowed_iff missing_capabilities_empty_iff)

lemma evaluate_static_fail:
  assumes "\<not> (\<exists>a. static_gates reg r a (context_of r ctx))"
  shows "\<exists>e. evaluate reg r ctx = Inr e
     \<and> (pe_decision e = PD_DENY \<and> \<not> pe_requires_approval e
        \<or> pe_decision e = PD_ESCALATE \<and> pe_requires_approval e)"
  using assms
  by (auto simp: evaluate_def Let_def static_gates_def context_of_def classify_risk_def
      simulate_allowed_iff missing_capabilities_empty_iff evaluation_for_def
      split: option.splits if_splits)


lemma ar_approved_frame:
  "ar_payload (r\<lparr>ar_approved := b\<rparr>) = ar_payload r"
  "ar_target (r\<lparr>ar_approved := b\<rparr>) = ar_target r"
  "ar_environment (r\<lparr>ar_approved := b\<rparr>) = ar_environment r"
  "ar_action_type (r\<lparr>ar_approved := b\<rparr>) = ar_action_type r"
  by simp_all

lemma blast_evaluate_approved [simp]:
  "blast_evaluate reg (r\<lparr>ar_approved := b\<rparr>) = blast_evaluate reg r"
proof -
  have "resources_of (r\<lparr>ar_approved := b\<rparr>) = resources_of r"
    by (simp only: resources_of_def ar_approved_frame)
  moreover have "level_for a (r\<lparr>ar_approved := b\<rparr>) = level_for a r" for a
    by (simp only: level_for_def raw_radius_text_def ar_approved_frame)
  ultimately show ?thesis by (simp only: blast_evaluate_def ar_approved_frame)
qed

lemma simulate_approved [simp]: "simulate reg (r\<lparr>ar_approved := b\<rparr>) = simulate reg r"
  by (simp only: simulate_def ar_approved_frame blast_evaluate_approved)

lemma static_gates_approved [simp]:
  "static_gates reg (r\<lparr>ar_approved := b\<rparr>) a c = static_gates reg r a c"
  by (simp add: static_gates_def)

lemma context_of_approved [simp]: "context_of (r\<lparr>ar_approved := b\<rparr>) ctx = context_of r ctx"
  by (cases ctx) (simp_all add: context_of_def)

lemma night_approved [simp]:
  "evaluate_night_autopilot (r\<lparr>ar_approved := b\<rparr>) c risk = evaluate_night_autopilot r c risk"
  by (simp only: evaluate_night_autopilot_def ar_approved_frame cong: if_cong)

lemma context_of_fold:
  "(case ctx of Some c \<Rightarrow> c | None \<Rightarrow> default_policy_context (ar_environment r)) = context_of r ctx"
  by (simp add: context_of_def)

lemma evaluate_static_fail_approved:
  assumes "\<not> (\<exists>a. static_gates reg r a (context_of r ctx))"
  shows "evaluate reg (r\<lparr>ar_approved := b\<rparr>) ctx = evaluate reg r ctx"
proof (cases "get_action reg (ar_action_type r)")
  case None
  then show ?thesis by (simp add: evaluate_def)
next
  case (Some a)
  define miss where "miss = missing_capabilities a (context_of r ctx)"
  consider "classify_risk reg (ar_action_type r) = RL_PROHIBITED \<or> str_truthy (am_prohibited_reason a)"
    | "\<not> br_allowed (blast_evaluate reg r) \<or> (\<not> am_is_read_only a \<and> \<not> sm_allowed (simulate reg r))"
    | "am_allowed_environments a \<noteq> [] \<and> ar_environment r \<notin> set (am_allowed_environments a)
       \<and> \<not> am_is_read_only a"
    | "miss \<noteq> []"
    using assms Some unfolding miss_def missing_capabilities_empty_iff
    by (auto simp: static_gates_def classify_risk_def simulate_allowed_iff)
  then show ?thesis
    by cases (simp_all add: evaluate_def Let_def Some context_of_fold
        context_of_fold [of "r\<lparr>ar_approved := b\<rparr>" ctx, simplified] miss_def)
qed

lemma night_not_DENY: "evaluate_night_autopilot r c risk \<noteq> Inr PD_DENY"
proof -
  have branch: "x \<noteq> PD_DENY \<Longrightarrow> y \<noteq> PD_DENY \<Longrightarrow> (if b then x else y) \<noteq> PD_DENY" for b x y by simp
  show ?thesis
    unfolding evaluate_night_autopilot_def Let_def rbind_Inr_iff sum.inject not_ex de_Morgan_conj
    by (intro allI disjI2 branch) simp_all
qed

lemma resolve_risk_error:
  "resolve_risk a d = Inl x \<Longrightarrow> \<exists>s. a = Some (RA_Str s) \<and> (\<forall>r. s \<noteq> risk_value r)"
  by (auto simp: resolve_risk_def split: option.splits risk_arg.splits if_splits)

lemma evaluate_cases:
  obtains (fail) e where "\<not> (\<exists>a. static_gates reg r a (context_of r ctx))" "evaluate reg r ctx = Inr e"
      "pe_decision e = PD_DENY \<and> \<not> pe_requires_approval e
       \<or> pe_decision e = PD_ESCALATE \<and> pe_requires_approval e"
  | (pass) a where "static_gates reg r a (context_of r ctx)"
  using evaluate_static_fail by blast

section \<open>Properties\<close>



text \<open>A prohibited action is denied at prohibited risk whatever the registry, the context, the
  payload and the approval flag are.\<close>

theorem policy_prohibited_denied:
  assumes "ar_action_type r \<in> fst ` set PROHIBITED_ACTIONS"
  shows "\<exists>e. evaluate reg r ctx = Inr e \<and> pe_decision e = PD_DENY
             \<and> pe_risk_level e = RL_PROHIBITED \<and> pe_route e = PR_BLOCKED"
proof -
  obtain why where a: "get_action reg (ar_action_type r) = Some (prohibited_action (ar_action_type r) why)"
    and "why \<noteq> []"
    by (rule get_action_prohibited [OF assms])
  then have "str_truthy (am_prohibited_reason (prohibited_action (ar_action_type r) why))"
    by (simp add: prohibited_action_def)
  with evaluate_prohibited [OF a] show ?thesis by (auto simp: pe_route_def)
qed

theorem policy_prohibited_denied_witness:
  "\<exists>e. evaluate DEFAULT_ACTION_REGISTRY
         ((action_request_of ''shell.execute'' ''db'' ''local'' [])\<lparr>ar_approved := True\<rparr>) None = Inr e
       \<and> pe_decision e = PD_DENY \<and> pe_risk_level e = RL_PROHIBITED \<and> pe_route e = PR_BLOCKED"
  by (rule policy_prohibited_denied) (simp add: action_request_of_def PROHIBITED_ACTIONS_def)

text \<open>Every evaluation is consistent: it asks for approval exactly when it requires approval or
  escalates, it is executable exactly when it allows, and the route follows the decision.\<close>

theorem policy_evaluation_consistent:
  assumes "evaluate reg r ctx = Inr e"
  shows "(pe_requires_approval e \<longleftrightarrow> pe_decision e = PD_REQUIRE_APPROVAL \<or> pe_decision e = PD_ESCALATE)
     \<and> (executable_now e \<longleftrightarrow> pe_decision e = PD_ALLOW)
     \<and> pe_route e = (case pe_decision e of PD_ALLOW \<Rightarrow> PR_AUTO_EXECUTE
          | PD_REQUIRE_APPROVAL \<Rightarrow> PR_APPROVAL_REQUIRED | PD_DENY \<Rightarrow> PR_BLOCKED
          | PD_ESCALATE \<Rightarrow> PR_HUMAN_REQUIRED)"
proof (cases reg r ctx rule: evaluate_cases)
  case (fail e')
  with assms show ?thesis by (auto simp: executable_now_def pe_route_def)
next
  case (pass a)
  from assms show ?thesis
    by (auto simp: evaluate_static_pass [OF pass] executable_now_def pe_route_def night_not_DENY
        evaluation_for_def rbind_Inr_iff split: if_splits policy_decision.splits)
qed

theorem policy_evaluation_consistent_witness:
  "\<exists>e. evaluate DEFAULT_ACTION_REGISTRY
         (action_request_of ''report.generate'' ''payment-api'' ''staging'' []) None = Inr e
       \<and> (executable_now e \<longleftrightarrow> pe_decision e = PD_ALLOW)"
proof -
  have "\<exists>e. evaluate DEFAULT_ACTION_REGISTRY
         (action_request_of ''report.generate'' ''payment-api'' ''staging'' []) None = Inr e \<and> True"
    unfolding Inr_such_that [symmetric] by code_simp
  then obtain e where e: "evaluate DEFAULT_ACTION_REGISTRY
         (action_request_of ''report.generate'' ''payment-api'' ''staging'' []) None = Inr e" by blast
  from policy_evaluation_consistent [OF e] e show ?thesis by blast
qed

text \<open>Human approval lifts the approval gate and nothing else: setting the flag leaves the
  decision as it was, or turns a required approval into an allow outside Night Autopilot.\<close>

theorem policy_approval_only_lifts_gate:
  assumes "evaluate reg (r\<lparr>ar_approved := False\<rparr>) ctx = Inr e"
    and "evaluate reg (r\<lparr>ar_approved := True\<rparr>) ctx = Inr e'"
  shows "pe_decision e' = pe_decision e \<or>
     (pe_decision e = PD_REQUIRE_APPROVAL \<and> pe_decision e' = PD_ALLOW
      \<and> \<not> autopilot_enabled (context_of r ctx))"
proof (cases "\<exists>a. static_gates reg r a (context_of r ctx)")
  case False
  from evaluate_static_fail_approved [OF this] assms show ?thesis by simp
next
  case True
  then obtain a where a: "static_gates reg r a (context_of r ctx)" by blast
  have pass: "static_gates reg (r\<lparr>ar_approved := b\<rparr>) a (context_of (r\<lparr>ar_approved := b\<rparr>) ctx)" for b
    using a by simp
  from assms show ?thesis
    by (auto simp: evaluate_static_pass [OF pass] evaluation_for_def rbind_Inr_iff split: if_splits)
qed

theorem policy_approval_only_lifts_gate_witness:
  "let r = action_request_of ''mock.create_rollback_pr'' ''payment-api'' ''staging'' [] in
   \<exists>e e'. evaluate DEFAULT_ACTION_REGISTRY (r\<lparr>ar_approved := False\<rparr>) None = Inr e
     \<and> evaluate DEFAULT_ACTION_REGISTRY (r\<lparr>ar_approved := True\<rparr>) None = Inr e'
     \<and> pe_decision e = PD_REQUIRE_APPROVAL \<and> pe_decision e' = PD_ALLOW"
proof -
  define r where "r = action_request_of ''mock.create_rollback_pr'' ''payment-api'' ''staging'' []"
  have "\<exists>e. evaluate DEFAULT_ACTION_REGISTRY (r\<lparr>ar_approved := False\<rparr>) None = Inr e
          \<and> pe_decision e = PD_REQUIRE_APPROVAL"
    unfolding Inr_such_that [symmetric] r_def by code_simp
  then obtain e where e: "evaluate DEFAULT_ACTION_REGISTRY (r\<lparr>ar_approved := False\<rparr>) None = Inr e"
    and d: "pe_decision e = PD_REQUIRE_APPROVAL" by blast
  have "\<exists>e'. evaluate DEFAULT_ACTION_REGISTRY (r\<lparr>ar_approved := True\<rparr>) None = Inr e'
          \<and> pe_decision e' \<noteq> PD_REQUIRE_APPROVAL"
    unfolding Inr_such_that [symmetric] r_def by code_simp
  then obtain e' where e': "evaluate DEFAULT_ACTION_REGISTRY (r\<lparr>ar_approved := True\<rparr>) None = Inr e'"
    and "pe_decision e' \<noteq> PD_REQUIRE_APPROVAL" by blast
  with policy_approval_only_lifts_gate [OF e e'] d have "pe_decision e' = PD_ALLOW" by simp
  with e e' d show ?thesis by (auto simp: r_def Let_def)
qed

text \<open>With a well-formed registry, a mutation becomes executable only through a human approval,
  or in Night Autopilot outside production, below critical severity, within the attempt budget, at
  no more than the configured risk, and with no memory, ambiguity or simulation objection.\<close>

theorem policy_mutation_needs_human_or_quiet_gates:
  assumes "registry_ok reg" and "get_action reg (ar_action_type r) = Some a" and "am_is_mutation a"
    and "evaluate reg r (Some c) = Inr e" and "executable_now e"
  shows "(\<not> autopilot_enabled c \<and> ar_approved r) \<or>
     (autopilot_enabled c \<and> ar_environment r \<noteq> ''production'' \<and> pc_severity c \<noteq> ''critical''
      \<and> (\<exists>cfg. resolved_autopilot c = Inr cfg \<and> am_base_risk a \<le> na_max_automatic_risk cfg
           \<and> pc_autopilot_attempts c < na_max_attempts_per_incident cfg
           \<and> ar_action_type r \<in> set (na_allowed_actions cfg)
           \<and> ar_environment r \<in> set (na_allowed_environments cfg))
      \<and> \<not> pc_memory_failed_action_warning c \<and> \<not> pc_known_ambiguity c
      \<and> pc_simulation_passed c \<noteq> Some False)"
proof -
  have "\<exists>e. evaluate reg r (Some c) = Inr e \<and> executable_now e" using assms(4,5) by blast
  then obtain a' where a': "static_gates reg r a' c"
    and gate: "if autopilot_enabled c
      then \<exists>cfg. resolved_autopilot c = Inr cfg \<and> night_gates r c (am_base_risk a') cfg
      else ar_approved r \<or> \<not> am_default_requires_approval a'"
  proof (cases reg r "Some c" rule: evaluate_cases)
    case (fail e')
    with \<open>\<exists>e. _\<close> show ?thesis by (auto simp: executable_now_def)
  next
    case (pass a')
    with \<open>\<exists>e. _\<close> night_ALLOW_iff [of r c "am_base_risk a'"] show ?thesis
      by (intro that [of a'])
         (auto simp: context_of_def evaluate_static_pass [OF pass] executable_now_def
            evaluation_for_def rbind_Inr_iff split: if_splits)
  qed
  have "a' = a" using a' assms(2) by (simp add: static_gates_def)
  moreover have "am_default_requires_approval a"
    using get_action_ok_cases [OF assms(1,2)] assms(1,3) a' \<open>a' = a\<close>
    by (auto simp: static_gates_def prohibited_action_def registry_entry_ok_def dest!: registry_okD)
  ultimately show ?thesis using gate by (auto simp: night_gates_def split: if_splits)
qed

theorem policy_mutation_needs_human_or_quiet_gates_witness:
  "let r = (action_request_of ''mock.execute_restart_worker'' ''worker'' ''staging'' [])\<lparr>ar_approved := True\<rparr>;
       c = default_policy_context ''staging'' in
   (\<exists>e. evaluate DEFAULT_ACTION_REGISTRY r (Some c) = Inr e \<and> executable_now e)
   \<and> \<not> autopilot_enabled c \<and> ar_approved r"
proof -
  define r where "r = (action_request_of ''mock.execute_restart_worker'' ''worker'' ''staging'' [])
                        \<lparr>ar_approved := True\<rparr>"
  define c where "c = default_policy_context ''staging''"
  have "\<exists>e. evaluate DEFAULT_ACTION_REGISTRY r (Some c) = Inr e \<and> executable_now e"
    unfolding Inr_such_that [symmetric] r_def c_def by code_simp
  then obtain e where e: "evaluate DEFAULT_ACTION_REGISTRY r (Some c) = Inr e" "executable_now e"
    by blast
  have "\<exists>a. get_action DEFAULT_ACTION_REGISTRY (ar_action_type r) = Some a \<and> am_is_mutation a"
    unfolding Some_such_that [symmetric] r_def by code_simp
  then obtain a where a: "get_action DEFAULT_ACTION_REGISTRY (ar_action_type r) = Some a"
    and m: "am_is_mutation a" by blast
  have "\<not> autopilot_enabled c" by (simp add: c_def autopilot_enabled_def default_policy_context_def)
  with policy_mutation_needs_human_or_quiet_gates [OF default_registry_ok a m e] e show ?thesis
    unfolding r_def [symmetric] c_def [symmetric] Let_def by blast
qed

text \<open>The only way \<open>evaluate\<close> raises is a \<open>max_automatic_risk\<close> string that names no risk level,
  in Night Autopilot mode.\<close>

theorem policy_evaluate_raises_only_on_bad_risk:
  assumes "evaluate reg r (Some c) = Inl x"
  shows "autopilot_enabled c \<and>
     (\<exists>s. pc_max_automatic_risk c = Some (RA_Str s) \<and> (\<forall>k. s \<noteq> risk_value k))"
proof (cases reg r "Some c" rule: evaluate_cases)
  case (fail e)
  with assms show ?thesis by simp
next
  case (pass a)
  from assms show ?thesis
    by (auto simp: evaluate_static_pass [OF pass] context_of_def rbind_Inl_iff evaluate_night_autopilot_def resolved_autopilot_def Let_def
        dest!: resolve_risk_error split: if_splits)
qed

theorem policy_evaluate_raises_only_on_bad_risk_witness:
  "let c = (default_policy_context ''staging'')
             \<lparr>pc_mode := ''night_autopilot'', pc_max_automatic_risk := Some (RA_Str ''extreme'')\<rparr> in
   (\<exists>x. evaluate DEFAULT_ACTION_REGISTRY
          (action_request_of ''report.generate'' ''x'' ''staging'' []) (Some c) = Inl x)
   \<and> autopilot_enabled c"
proof -
  define c where "c = (default_policy_context ''staging'')
             \<lparr>pc_mode := ''night_autopilot'', pc_max_automatic_risk := Some (RA_Str ''extreme'')\<rparr>"
  have "\<exists>x. evaluate DEFAULT_ACTION_REGISTRY
          (action_request_of ''report.generate'' ''x'' ''staging'' []) (Some c) = Inl x"
    unfolding is_Inl_iff [symmetric] c_def by code_simp
  then obtain x where x: "evaluate DEFAULT_ACTION_REGISTRY
          (action_request_of ''report.generate'' ''x'' ''staging'' []) (Some c) = Inl x" by blast
  with policy_evaluate_raises_only_on_bad_risk [OF x] show ?thesis
    by (auto simp: c_def [symmetric] Let_def)
qed

text \<open>Granting no capability at all is not a denial: an empty capability set is evaluated as the
  default set, the three mutating capabilities included.\<close>

theorem policy_empty_grants_mean_default_grants:
  "evaluate reg r (Some (c\<lparr>pc_capabilities := []\<rparr>)) =
   evaluate reg r (Some (c\<lparr>pc_capabilities := default_capabilities write_capabilities\<rparr>))"
proof -
  let ?full = "default_capabilities write_capabilities"
  have ne: "?full \<noteq> []" by (simp add: default_capabilities_def)
  have miss: "missing_capabilities a (c\<lparr>pc_capabilities := []\<rparr>) =
              missing_capabilities a (c\<lparr>pc_capabilities := ?full\<rparr>)" for a
    using ne by (simp add: missing_capabilities_def effective_capabilities_def)
  have night: "evaluate_night_autopilot r (c\<lparr>pc_capabilities := []\<rparr>) k =
               evaluate_night_autopilot r (c\<lparr>pc_capabilities := ?full\<rparr>) k" for k
    by (cases c) (simp only: evaluate_night_autopilot_def resolved_autopilot_def
        policy_context.select_convs policy_context.update_convs)
  have "autopilot_enabled (c\<lparr>pc_capabilities := []\<rparr>) = autopilot_enabled (c\<lparr>pc_capabilities := ?full\<rparr>)"
    by (simp add: autopilot_enabled_def)
  with miss night show ?thesis
    by (simp only: evaluate_def Let_def option.case)
qed

end
