(* ===== verification/Mock_Actions.thy ===== *)
theory Mock_Actions
  imports Action_Models "HOL-Library.Word"
begin

text \<open>
  The deterministic executor of \<open>app/tools/mock_actions.py\<close>.  The SHA-1 digest is the parameter
  \<open>sha1\<close>, a 160-bit word for each text; \<open>hexdigest\<close> renders it in forty hexadecimal digits.
  Only the columns of the persisted \<open>Incident\<close> and \<open>ActionProposal\<close> that these functions read or
  write are kept.
\<close>

section \<open>The stable suffix\<close>

definition hexdigest :: "160 word \<Rightarrow> string" where
  "hexdigest w = map (\<lambda>i. hex_digit (nat (uint w div 16 ^ (39 - i) mod 16))) [0..<40]"

text \<open>\<open>str.upper\<close> on hexadecimal digits.\<close>

definition upper_char :: "char \<Rightarrow> char" where
  "upper_char c = (let n = of_char c :: nat in if 97 \<le> n \<and> n \<le> 122 then char_of (n - 32) else c)"

definition repr_item :: "string \<times> pyval \<Rightarrow> string" where
  "repr_item kv = ''('' @ repr_str (fst kv) @ '', '' @ py_repr (snd kv) @ '')''"

definition stable_suffix :: "(string \<Rightarrow> 160 word) \<Rightarrow> action_request \<Rightarrow> string" where
  "stable_suffix sha1 request =
     (let payload_items = ''['' @ py_join '', '' (map repr_item (sort_key fst (ar_payload request))) @ '']'';
          raw = (case ar_incident_id request of None \<Rightarrow> ''None'' | Some i \<Rightarrow> i)
                @ ''|'' @ ar_action_type request @ ''|'' @ ar_target request @ ''|'' @ payload_items
      in map upper_char (take 6 (hexdigest (sha1 raw))))"

text \<open>\<open>int(s, 16)\<close> on a string of hexadecimal digits.\<close>

definition hex_value :: "char \<Rightarrow> int" where
  "hex_value c = (let n = int (of_char c :: nat) in
     if n \<le> 57 then n - 48 else if n \<le> 70 then n - 55 else n - 87)"

definition int_of_hex :: "string \<Rightarrow> int" where
  "int_of_hex s = fold (\<lambda>c acc. acc * 16 + hex_value c) s 0"

section \<open>Handlers\<close>

definition executed_result ::
    "action_request \<Rightarrow> string \<Rightarrow> pydict \<Rightarrow> pydict \<Rightarrow> action_execution_result" where
  "executed_result request message output verification =
     \<lparr>xr_action_type = ar_action_type request, xr_target = ar_target request,
      xr_status = AS_EXECUTED, xr_message = message, xr_output = output,
      xr_verification = verification\<rparr>"

definition create_incident_ticket ::
    "(string \<Rightarrow> 160 word) \<Rightarrow> action_request \<Rightarrow> action_execution_result" where
  "create_incident_ticket sha1 request =
     executed_result request ''Mock incident ticket created.''
       [(''ticket_id'', PStr (''OPSCAT-'' @ stable_suffix sha1 request)),
        (''title'', pget_or (ar_payload request) ''title'' (PStr ''OpsCat incident''))]
       [(''ticket_id_recorded'', PBool True)]"

definition pr_number :: "(string \<Rightarrow> 160 word) \<Rightarrow> action_request \<Rightarrow> int" where
  "pr_number sha1 request = int_of_hex (stable_suffix sha1 request) mod 9000 + 1000"

definition create_rollback_pr ::
    "(string \<Rightarrow> 160 word) \<Rightarrow> action_request \<Rightarrow> action_execution_result" where
  "create_rollback_pr sha1 request =
     executed_result request ''Mock rollback PR draft created.''
       [(''pr_url'', PStr (''https://mock.local/pr/'' @ show_int (pr_number sha1 request))),
        (''base'', pget_or (ar_payload request) ''base'' (PStr ''main'')),
        (''rollback_to'', pget_or (ar_payload request) ''rollback_to'' (PStr ''previous-good-deploy''))]
       [(''pr_url_recorded'', PBool True), (''verify_recovery_after_merge'', PStr ''pending'')]"

definition restart_worker :: "action_request \<Rightarrow> action_execution_result" where
  "restart_worker request =
     executed_result request ''Mock non-production worker restart simulated.''
       [(''worker'', PStr (ar_target request)), (''environment'', PStr (ar_environment request)),
        (''restart'', PStr ''simulated'')]
       [(''mock.verify_recovery'', PStr ''required'')]"

definition verify_recovery_handler :: "action_request \<Rightarrow> action_execution_result" where
  "verify_recovery_handler request =
     executed_result request ''Mock recovery verified: error rate below threshold.''
       [(''recovered'', PBool True), (''error_rate_delta'', PStr ''-92%'')]
       [(''recovery_signal'', PStr ''pass'')]"

definition generate_report :: "action_request \<Rightarrow> action_execution_result" where
  "generate_report request =
     (let incident_id = (if str_truthy (ar_incident_id request) then the (ar_incident_id request)
                         else ''unknown'') in
      executed_result request ''Mock incident report generated.''
        [(''report_path'', PStr (''reports/incident-'' @ incident_id @ ''.md''))]
        [(''report_contains_evidence'', PBool (truthy (pget (ar_payload request) ''evidence_ids'')))])"

definition add_timeline_note :: "action_request \<Rightarrow> action_execution_result" where
  "add_timeline_note request =
     executed_result request ''Timeline note recorded in mock incident timeline.''
       [(''note'', pget_or (ar_payload request) ''note'' (PStr ''OpsCat action note''))] []"

definition mock_execute :: "(string \<Rightarrow> 160 word) \<Rightarrow> action_request \<Rightarrow> action_execution_result" where
  "mock_execute sha1 request =
     (case map_of
        [(''mock.create_incident_ticket'', create_incident_ticket sha1),
         (''mock.create_rollback_pr'', create_rollback_pr sha1),
         (''mock.execute_restart_worker'', restart_worker),
         (''mock.verify_recovery'', verify_recovery_handler),
         (''report.generate'', generate_report),
         (''timeline.add_note'', add_timeline_note)] (ar_action_type request) of
        None \<Rightarrow>
          \<lparr>xr_action_type = ar_action_type request, xr_target = ar_target request,
           xr_status = AS_FAILED, xr_message = ''No mock executor registered for action.'',
           xr_output = [], xr_verification = []\<rparr>
      | Some handler \<Rightarrow> handler request)"

section \<open>Persisted proposals\<close>

record incident =
  in_id :: string
  in_tenant_id :: string
  in_workspace_id :: string
  in_service :: string
  in_environment :: string
  in_alert_payload :: pydict

record action_proposal =
  ap_action_type :: string
  ap_target :: string
  ap_environment :: string
  ap_payload :: pydict
  ap_status :: string
  ap_execution_result :: pydict

definition execute_mock_action ::
    "(string \<Rightarrow> 160 word) \<Rightarrow> incident \<Rightarrow> action_proposal \<Rightarrow> action_proposal \<times> pydict" where
  "execute_mock_action sha1 incident action =
     (let request =
            \<lparr>ar_action_type = ap_action_type action, ar_target = ap_target action,
             ar_environment = (if ap_environment action \<noteq> [] then ap_environment action
                               else in_environment incident),
             ar_tenant_id = in_tenant_id incident, ar_workspace_id = in_workspace_id incident,
             ar_payload = ap_payload action, ar_requester = ''agent'',
             ar_incident_id = Some (in_id incident), ar_approved = True, ar_approval_id = None\<rparr>;
          result = mock_execute sha1 request;
          ok = (xr_status result = AS_EXECUTED);
          payload = [(''ok'', PBool ok), (''status'', PStr (status_value (xr_status result))),
                     (''message'', PStr (xr_message result)), (''output'', PDict (xr_output result)),
                     (''verification'', PDict (xr_verification result))]
      in (action\<lparr>ap_execution_result := payload,
                 ap_status := (if ok then ''executed'' else ''failed'')\<rparr>, payload))"

definition verify_recovery ::
    "(string \<Rightarrow> 160 word) \<Rightarrow> incident \<Rightarrow> action_proposal \<Rightarrow> pydict" where
  "verify_recovery sha1 incident action =
     (let request =
            \<lparr>ar_action_type = ''mock.verify_recovery'',
             ar_target = (if ap_target action \<noteq> [] then ap_target action else in_service incident),
             ar_environment = in_environment incident, ar_tenant_id = in_tenant_id incident,
             ar_workspace_id = in_workspace_id incident,
             ar_payload = [(''action_type'', PStr (ap_action_type action))],
             ar_requester = ''agent'', ar_incident_id = Some (in_id incident),
             ar_approved = False, ar_approval_id = None\<rparr>;
          result = mock_execute sha1 request;
          recovered = truthy (pget_or (xr_output result) ''recovered'' (PBool False))
      in if pget (in_alert_payload incident) ''scenario'' = PStr ''verification_failure''
            \<or> truthy (pget (ap_payload action) ''force_verification_failure'')
         then [(''recovered'', PBool False),
               (''message'', PStr ''Mock recovery verification failed; waking human with evidence.''),
               (''output'', PDict (pmerge (xr_output result) [(''forced_failure'', PBool True)])),
               (''verification'', PDict (xr_verification result))]
         else [(''recovered'', PBool recovered), (''message'', PStr (xr_message result)),
               (''output'', PDict (xr_output result)),
               (''verification'', PDict (xr_verification result))])"

section \<open>Facts\<close>

definition MOCK_HANDLED :: "string list" where
  "MOCK_HANDLED = [''mock.create_incident_ticket'', ''mock.create_rollback_pr'',
     ''mock.execute_restart_worker'', ''mock.verify_recovery'', ''report.generate'', ''timeline.add_note'']"

lemma executed_result_fields [simp]:
  "xr_status (executed_result r m out v) = AS_EXECUTED"
  "xr_action_type (executed_result r m out v) = ar_action_type r"
  "xr_target (executed_result r m out v) = ar_target r"
  by (simp_all add: executed_result_def)

lemmas mock_handler_defs = create_incident_ticket_def create_rollback_pr_def restart_worker_def
  verify_recovery_handler_def generate_report_def add_timeline_note_def

lemma mock_execute_status:
  "xr_status (mock_execute sha1 r) = (if ar_action_type r \<in> set MOCK_HANDLED then AS_EXECUTED else AS_FAILED)"
  by (simp add: mock_execute_def MOCK_HANDLED_def mock_handler_defs Let_def)

lemma mock_execute_echo [simp]:
  "xr_action_type (mock_execute sha1 r) = ar_action_type r"
  "xr_target (mock_execute sha1 r) = ar_target r"
  by (simp_all add: mock_execute_def mock_handler_defs Let_def)

lemma length_stable_suffix: "length (stable_suffix sha1 r) = 6"
  by (simp add: stable_suffix_def hexdigest_def Let_def)

lemma pr_number_range: "1000 \<le> pr_number sha1 r \<and> pr_number sha1 r < 10000"
  by (simp add: pr_number_def)

text \<open>Reading back an upper-case digit: the PR number is computed from the digits of the suffix.\<close>

lemma hex_value_upper: "d < 16 \<Longrightarrow> hex_value (upper_char (hex_digit d)) = int d"
  by (auto simp: hex_value_def upper_char_def hex_digit_def Let_def)

end
