(* ===== verification/Action_Service.thy ===== *)
theory Action_Service
  imports Policy_Engine Mock_Actions
begin

text \<open>
  The approval-aware orchestration of \<open>app/services/action_service.py\<close>: proposals are evaluated
  once, decided by a human, and executed through the mock executor.  The service state is the
  dictionary of approval records; the identifier drawn by \<open>uuid4\<close> is an argument of \<open>propose\<close>.
  \<open>reg\<close> is the registry of the policy engine and \<open>sreg\<close> that of the simulator, which the
  constructor builds separately.
\<close>

section \<open>Records and operations\<close>

record approval_record =
  rec_action_request :: action_request
  rec_evaluation :: policy_evaluation
  rec_id :: string
  rec_status :: action_status
  rec_decided_by :: "string option"
  rec_decision_reason :: "string option"

type_synonym approvals = "string \<rightharpoonup> approval_record"

definition record_approve :: "approval_record \<Rightarrow> string \<Rightarrow> string \<Rightarrow> approval_record" where
  "record_approve r actor reason =
     r\<lparr>rec_status := AS_APPROVED, rec_decided_by := Some actor, rec_decision_reason := Some reason\<rparr>"

definition record_reject :: "approval_record \<Rightarrow> string \<Rightarrow> string \<Rightarrow> approval_record" where
  "record_reject r actor reason =
     r\<lparr>rec_status := AS_REJECTED, rec_decided_by := Some actor, rec_decision_reason := Some reason\<rparr>"

definition get_approval :: "approvals \<Rightarrow> string \<Rightarrow> approval_record result" where
  "get_approval s approval_id =
     (case s approval_id of
        None \<Rightarrow> Inl (Raised ''KeyError'' (''Unknown approval id '' @ repr_str approval_id @ ''.''))
      | Some r \<Rightarrow> Inr r)"

definition propose ::
    "registry \<Rightarrow> string \<Rightarrow> action_request \<Rightarrow> policy_context option \<Rightarrow> approvals
     \<Rightarrow> approvals \<times> approval_record result" where
  "propose reg new_id request ctx s =
     (case evaluate reg request ctx of
        Inl x \<Rightarrow> (s, Inl x)
      | Inr evaluation \<Rightarrow>
          let r = \<lparr>rec_action_request = request, rec_evaluation = evaluation, rec_id = new_id,
                   rec_status = (if pe_decision evaluation = PD_DENY then AS_DENIED else AS_PROPOSED),
                   rec_decided_by = None, rec_decision_reason = None\<rparr>
          in (s(new_id \<mapsto> r), Inr r))"

definition not_pending :: "string \<Rightarrow> approval_record \<Rightarrow> exn" where
  "not_pending approval_id r =
     Raised ''ValueError'' (''Approval '' @ approval_id @ '' is not pending; current status=''
                            @ status_value (rec_status r) @ ''.'')"

definition decide ::
    "(approval_record \<Rightarrow> string \<Rightarrow> string \<Rightarrow> approval_record) \<Rightarrow> string \<Rightarrow> string \<Rightarrow> string \<Rightarrow> approvals
     \<Rightarrow> approvals \<times> approval_record result" where
  "decide f approval_id actor reason s =
     (case get_approval s approval_id of
        Inl x \<Rightarrow> (s, Inl x)
      | Inr r \<Rightarrow>
          if rec_status r \<noteq> AS_PROPOSED then (s, Inl (not_pending approval_id r))
          else (s(approval_id \<mapsto> f r actor reason), Inr (f r actor reason)))"

definition approve :: "string \<Rightarrow> string \<Rightarrow> string \<Rightarrow> approvals \<Rightarrow> approvals \<times> approval_record result" where
  "approve = decide record_approve"

definition reject :: "string \<Rightarrow> string \<Rightarrow> string \<Rightarrow> approvals \<Rightarrow> approvals \<times> approval_record result" where
  "reject = decide record_reject"

definition failed_result :: "action_request \<Rightarrow> string \<Rightarrow> pydict \<Rightarrow> action_execution_result" where
  "failed_result request message output =
     \<lparr>xr_action_type = ar_action_type request, xr_target = ar_target request,
      xr_status = AS_FAILED, xr_message = message, xr_output = output, xr_verification = []\<rparr>"

definition approved_request :: "action_request \<Rightarrow> string \<Rightarrow> action_request" where
  "approved_request request approval_id =
     \<lparr>ar_action_type = ar_action_type request, ar_target = ar_target request,
      ar_environment = ar_environment request, ar_tenant_id = ar_tenant_id request,
      ar_workspace_id = ar_workspace_id request, ar_payload = ar_payload request,
      ar_requester = ar_requester request, ar_incident_id = ar_incident_id request,
      ar_approved = True, ar_approval_id = Some approval_id\<rparr>"

text \<open>The part of \<open>execute\<close> after the policy guards: simulate, run, record the outcome.\<close>

definition run_approved ::
    "registry \<Rightarrow> (string \<Rightarrow> 160 word) \<Rightarrow> string \<Rightarrow> approval_record \<Rightarrow> action_request \<Rightarrow> approvals
     \<Rightarrow> approvals \<times> action_execution_result result" where
  "run_approved sreg sha1 approval_id r request s =
     (let sim = simulate sreg request in
      if \<not> sm_ok sim then
        (s, Inr (failed_result request
               (''Action simulation failed: ''
                @ py_join ''; '' (if sm_precondition_gaps sim \<noteq> [] then sm_precondition_gaps sim
                                 else sm_residual_risks sim))
               [(''simulation'', PDict (sim_to_dict sim))]))
      else
        let result = mock_execute sha1 request;
            result = result\<lparr>xr_output := pmerge (xr_output result) [(''simulation'', PDict (sim_to_dict sim))]\<rparr>
        in if xr_status result = AS_EXECUTED
           then (s(approval_id \<mapsto> r\<lparr>rec_status := AS_EXECUTED\<rparr>), Inr result)
           else if xr_status result = AS_FAILED
           then (s(approval_id \<mapsto> r\<lparr>rec_status := AS_FAILED\<rparr>), Inr result)
           else (s, Inr result))"

definition execute ::
    "registry \<Rightarrow> registry \<Rightarrow> (string \<Rightarrow> 160 word) \<Rightarrow> string \<Rightarrow> policy_context option \<Rightarrow> approvals
     \<Rightarrow> approvals \<times> action_execution_result result" where
  "execute reg sreg sha1 approval_id ctx s =
     (case get_approval s approval_id of
        Inl x \<Rightarrow> (s, Inl x)
      | Inr r \<Rightarrow>
          let request = rec_action_request r in
          if pe_decision (rec_evaluation r) = PD_REQUIRE_APPROVAL then
            if rec_status r \<noteq> AS_APPROVED then
              (s, Inr (failed_result request ''Action requires approval before execution.'' []))
            else
              let request' = approved_request request approval_id in
              case evaluate reg request' ctx of
                Inl x \<Rightarrow> (s, Inl x)
              | Inr evaluation \<Rightarrow>
                  if \<not> executable_now evaluation then
                    (s, Inr (failed_result request'
                       (''Approved action still failed policy: '' @ pe_reason evaluation) []))
                  else run_approved sreg sha1 approval_id r request' s
          else if \<not> executable_now (rec_evaluation r) then
            (s, Inr (failed_result request
               (''Action is not executable: '' @ pe_reason (rec_evaluation r)) []))
          else run_approved sreg sha1 approval_id r request s)"

section \<open>Histories\<close>

text \<open>
  The API calls in the order the service receives them, with the outcome the caller sees.
\<close>

datatype svc_op =
    Propose string action_request "policy_context option"
  | Approve string string string
  | Reject string string string
  | Execute string "policy_context option"

datatype svc_out = Out_Record "approval_record result" | Out_Result "action_execution_result result"

fun svc_apply ::
    "registry \<Rightarrow> registry \<Rightarrow> (string \<Rightarrow> 160 word) \<Rightarrow> svc_op \<Rightarrow> approvals \<Rightarrow> approvals \<times> svc_out" where
  "svc_apply reg sreg sha1 (Propose i req ctx) s = map_prod id Out_Record (propose reg i req ctx s)"
| "svc_apply reg sreg sha1 (Approve i actor reason) s = map_prod id Out_Record (approve i actor reason s)"
| "svc_apply reg sreg sha1 (Reject i actor reason) s = map_prod id Out_Record (reject i actor reason s)"
| "svc_apply reg sreg sha1 (Execute i ctx) s = map_prod id Out_Result (execute reg sreg sha1 i ctx s)"

fun svc_run ::
    "registry \<Rightarrow> registry \<Rightarrow> (string \<Rightarrow> 160 word) \<Rightarrow> svc_op list \<Rightarrow> approvals
     \<Rightarrow> approvals \<times> (svc_op \<times> svc_out) list" where
  "svc_run reg sreg sha1 [] s = (s, [])"
| "svc_run reg sreg sha1 (op # ops) s =
     (let (s', out) = svc_apply reg sreg sha1 op s; (s'', hist) = svc_run reg sreg sha1 ops s'
      in (s'', (op, out) # hist))"

text \<open>The call executed the action of approval \<open>i\<close>; the call approved it.\<close>

fun did_execute :: "string \<Rightarrow> svc_op \<times> svc_out \<Rightarrow> bool" where
  "did_execute i (Execute j ctx, Out_Result (Inr x)) = (i = j \<and> xr_status x = AS_EXECUTED)"
| "did_execute i _ = False"

fun did_approve :: "string \<Rightarrow> svc_op \<times> svc_out \<Rightarrow> bool" where
  "did_approve i (Approve j actor reason, Out_Record (Inr r)) = (i = j)"
| "did_approve i _ = False"

fun proposes :: "string \<Rightarrow> svc_op \<Rightarrow> bool" where
  "proposes i (Propose j req ctx) = (i = j)"
| "proposes i _ = False"

section \<open>Facts about one call\<close>

text \<open>What \<open>execute\<close> checks before it runs the action of a record.\<close>

definition execution_gate :: "registry \<Rightarrow> string \<Rightarrow> policy_context option \<Rightarrow> approval_record \<Rightarrow> bool" where
  "execution_gate reg i ctx r \<longleftrightarrow>
     (if pe_decision (rec_evaluation r) = PD_REQUIRE_APPROVAL
      then rec_status r = AS_APPROVED
           \<and> returns executable_now (evaluate reg (approved_request (rec_action_request r) i) ctx)
      else executable_now (rec_evaluation r))"

definition requested :: "string \<Rightarrow> approval_record \<Rightarrow> action_request" where
  "requested i r = (if pe_decision (rec_evaluation r) = PD_REQUIRE_APPROVAL
                    then approved_request (rec_action_request r) i else rec_action_request r)"

lemma requested_type [simp]: "ar_action_type (requested i r) = ar_action_type (rec_action_request r)"
  by (simp add: requested_def approved_request_def)

lemma failed_result_status [simp]: "xr_status (failed_result r m out) = AS_FAILED"
  by (simp add: failed_result_def)

lemma run_approved_cases:
  fixes sreg :: registry
  obtains (blocked) x where "run_approved sreg h i r q s = (s, Inr x)" "xr_status x = AS_FAILED"
      "\<not> sm_ok (simulate sreg q)"
  | (ran) x where "run_approved sreg h i r q s = (s(i \<mapsto> r\<lparr>rec_status := xr_status x\<rparr>), Inr x)"
      "sm_ok (simulate sreg q)" "xr_action_type x = ar_action_type q"
      "xr_status x = (if ar_action_type q \<in> set MOCK_HANDLED then AS_EXECUTED else AS_FAILED)"
proof (cases "sm_ok (simulate sreg q)")
  case False
  then show ?thesis by (auto simp: run_approved_def Let_def intro!: blocked)
next
  case True
  show ?thesis
  proof (rule ran)
    let ?x = "(mock_execute h q)\<lparr>xr_output := pmerge (xr_output (mock_execute h q))
                [(''simulation'', PDict (sim_to_dict (simulate sreg q)))]\<rparr>"
    show "run_approved sreg h i r q s = (s(i \<mapsto> r\<lparr>rec_status := xr_status ?x\<rparr>), Inr ?x)"
      using True by (simp add: run_approved_def Let_def mock_execute_status)
  qed (use True in \<open>simp_all add: mock_execute_status\<close>)
qed

lemma execute_cases:
  assumes "execute reg sreg sha1 i ctx s = (s', out)"
  obtains (raised) x where "s' = s" "out = Inl x"
  | (refused) x where "s' = s" "out = Inr x" "xr_status x = AS_FAILED"
  | (ran) r x where "s i = Some r" "execution_gate reg i ctx r" "sm_ok (simulate sreg (requested i r))"
      "s' = s(i \<mapsto> r\<lparr>rec_status := xr_status x\<rparr>)" "out = Inr x"
      "xr_action_type x = ar_action_type (rec_action_request r)"
      "xr_status x = (if ar_action_type (rec_action_request r) \<in> set MOCK_HANDLED
                      then AS_EXECUTED else AS_FAILED)"
proof (cases "\<exists>r. s i = Some r \<and> execution_gate reg i ctx r")
  case True
  then obtain r where r: "s i = Some r" and g: "execution_gate reg i ctx r" by blast
  then have eq: "execute reg sreg sha1 i ctx s = run_approved sreg sha1 i r (requested i r) s"
    by (auto simp: execute_def get_approval_def execution_gate_def requested_def Let_def
        Inr_such_that split: if_splits)
  show ?thesis
  proof (rule run_approved_cases [where sreg = sreg and h = sha1 and i = i and r = r
        and q = "requested i r" and s = s], goal_cases blocked ran)
    case (blocked x)
    with assms eq show ?thesis by (intro refused) auto
  next
    case (ran x)
    with assms eq r g show ?thesis by (intro that(3)) auto
  qed
next
  case False
  then have "(\<exists>x. execute reg sreg sha1 i ctx s = (s, Inl x))
      \<or> (\<exists>x. execute reg sreg sha1 i ctx s = (s, Inr x) \<and> xr_status x = AS_FAILED)"
    by (auto simp: execute_def get_approval_def execution_gate_def returns_def Let_def
        split: option.splits sum.splits if_splits)
  with assms raised refused show ?thesis by auto
qed

lemma decide_cases:
  assumes "decide f i actor reason s = (s', out)"
  obtains (raised) x where "s' = s" "out = Inl x"
  | (decided) r where "s i = Some r" "rec_status r = AS_PROPOSED" "out = Inr (f r actor reason)"
      "s' = s(i \<mapsto> f r actor reason)"
  using assms by (auto simp: decide_def get_approval_def split: option.splits if_splits)

lemma propose_cases:
  assumes "propose reg i q ctx s = (s', out)"
  obtains (raised) x where "s' = s" "out = Inl x"
  | (stored) r where "s' = s(i \<mapsto> r)" "out = Inr r" "rec_action_request r = q"
      "evaluate reg q ctx = Inr (rec_evaluation r)" "rec_id r = i" "rec_decided_by r = None"
      "rec_status r = (if pe_decision (rec_evaluation r) = PD_DENY then AS_DENIED else AS_PROPOSED)"
proof (cases "evaluate reg q ctx")
  case (Inl x)
  with assms show ?thesis by (intro raised) (auto simp: propose_def)
next
  case (Inr e)
  with assms show ?thesis by (intro stored) (auto simp: propose_def Let_def)
qed

lemma record_update_fields [simp]:
  "rec_evaluation (record_approve r a b) = rec_evaluation r"
  "rec_evaluation (record_reject r a b) = rec_evaluation r"
  "rec_action_request (record_approve r a b) = rec_action_request r"
  "rec_action_request (record_reject r a b) = rec_action_request r"
  "rec_status (record_approve r a b) = AS_APPROVED"
  "rec_status (record_reject r a b) = AS_REJECTED"
  by (simp_all add: record_approve_def record_reject_def)

section \<open>Facts about histories\<close>

lemma did_execute_iff:
  "did_execute i e \<longleftrightarrow> (\<exists>ctx x. e = (Execute i ctx, Out_Result (Inr x)) \<and> xr_status x = AS_EXECUTED)"
  by (cases "(i, e)" rule: did_execute.cases) auto

definition gated :: "approval_record \<Rightarrow> bool" where
  "gated r \<longleftrightarrow> pe_decision (rec_evaluation r) = PD_REQUIRE_APPROVAL"

text \<open>How one call that does not propose \<open>i\<close> changes a gated record \<open>i\<close>.\<close>

lemma gated_step:
  assumes "svc_apply reg sreg sha1 op s = (s', out)" and "s i = Some r" and "gated r"
    and "\<not> proposes i op"
  obtains r' where "s' i = Some r'" "gated r'"
    "did_execute i (op, out) \<Longrightarrow> rec_status r = AS_APPROVED \<and> rec_status r' = AS_EXECUTED"
    "did_approve i (op, out) \<Longrightarrow> rec_status r = AS_PROPOSED"
    "rec_status r' = AS_APPROVED \<Longrightarrow> rec_status r = AS_APPROVED \<or> did_approve i (op, out)"
    "rec_status r \<noteq> AS_PROPOSED \<Longrightarrow> rec_status r' \<noteq> AS_PROPOSED"
    "rec_status r \<noteq> AS_PROPOSED \<Longrightarrow> rec_status r \<noteq> AS_APPROVED \<Longrightarrow> r' = r"
proof (cases op)
  case (Propose j q ctx)
  with assms(1) obtain o' where "propose reg j q ctx s = (s', o')" and out: "out = Out_Record o'"
    by (cases "propose reg j q ctx s") auto
  from this(1) have "s' i = s i"
    using assms(4) Propose by (cases rule: propose_cases) auto
  with that [of r] assms Propose out show ?thesis by auto
next
  case (Approve j a b)
  with assms(1) obtain o' where st: "decide record_approve j a b s = (s', o')" and out: "out = Out_Record o'"
    by (cases "decide record_approve j a b s") (auto simp: approve_def)
  from st show ?thesis
  proof (cases rule: decide_cases)
    case (raised x)
    with that [of r] assms Approve out show ?thesis by auto
  next
    case (decided r0)
    with assms Approve out show ?thesis
      by (cases "j = i", intro that [of "record_approve r a b"]; (intro that [of r])?) (auto simp: gated_def)
  qed
next
  case (Reject j a b)
  with assms(1) obtain o' where st: "decide record_reject j a b s = (s', o')" and out: "out = Out_Record o'"
    by (cases "decide record_reject j a b s") (auto simp: reject_def)
  from st show ?thesis
  proof (cases rule: decide_cases)
    case (raised x)
    with that [of r] assms Reject out show ?thesis by auto
  next
    case (decided r0)
    with assms Reject out show ?thesis
      by (cases "j = i", intro that [of "record_reject r a b"]; (intro that [of r])?) (auto simp: gated_def)
  qed
next
  case (Execute j ctx)
  with assms(1) obtain o' where st: "execute reg sreg sha1 j ctx s = (s', o')" and out: "out = Out_Result o'"
    by (cases "execute reg sreg sha1 j ctx s") auto
  from st show ?thesis
  proof (cases rule: execute_cases)
    case (raised x)
    with that [of r] assms Execute out show ?thesis by auto
  next
    case (refused x)
    with that [of r] assms Execute out show ?thesis by auto
  next
    case (ran r0 x)
    with assms Execute out show ?thesis
      by (cases "j = i", intro that [of "r\<lparr>rec_status := xr_status x\<rparr>"]; (intro that [of r])?)
         (auto simp: gated_def execution_gate_def split: if_splits)
  qed
qed

text \<open>A gated record that is neither pending nor approved is final.\<close>

lemma gated_settled:
  assumes "s i = Some r" and "gated r" and "rec_status r \<noteq> AS_PROPOSED" and "rec_status r \<noteq> AS_APPROVED"
    and "list_all (\<lambda>op. \<not> proposes i op) ops" and "svc_run reg sreg sha1 ops s = (s', hist)"
  shows "s' i = Some r \<and> filter (did_execute i) hist = []"
  using assms
proof (induction ops arbitrary: s hist)
  case Nil
  then show ?case by simp
next
  case (Cons op ops)
  obtain s1 out where st: "svc_apply reg sreg sha1 op s = (s1, out)" by fastforce
  obtain hist1 where run: "svc_run reg sreg sha1 ops s1 = (s', hist1)" and hist: "hist = (op, out) # hist1"
    using Cons.prems(6) st by (auto split: prod.splits)
  have "\<not> proposes i op" using Cons.prems(5) by simp
  from st Cons.prems(1,2) this obtain r' where "s1 i = Some r'"
    "did_execute i (op, out) \<Longrightarrow> rec_status r = AS_APPROVED \<and> rec_status r' = AS_EXECUTED" "r' = r"
    by (rule gated_step) (use Cons.prems(3,4) in blast)
  with Cons.IH [of s1 hist1] Cons.prems run hist show ?case by auto
qed

lemma gated_history:
  assumes "s i = Some r" and "gated r" and "list_all (\<lambda>op. \<not> proposes i op) ops"
    and "svc_run reg sreg sha1 ops s = (s', hist)"
  shows "length (filter (did_execute i) hist) \<le> 1
     \<and> (\<forall>n < length hist. did_execute i (hist ! n) \<longrightarrow>
          rec_status r = AS_APPROVED \<or> (\<exists>m < n. did_approve i (hist ! m)))"
  using assms
proof (induction ops arbitrary: s r hist)
  case Nil
  then show ?case by simp
next
  case (Cons op ops)
  obtain s1 out where st: "svc_apply reg sreg sha1 op s = (s1, out)" by fastforce
  obtain hist1 where run: "svc_run reg sreg sha1 ops s1 = (s', hist1)" and hist: "hist = (op, out) # hist1"
    using Cons.prems(4) st by (auto split: prod.splits)
  have np: "\<not> proposes i op" "list_all (\<lambda>op. \<not> proposes i op) ops" using Cons.prems(3) by simp_all
  from st Cons.prems(1,2) np(1) obtain r' where r': "s1 i = Some r'" "gated r'"
    and ex: "did_execute i (op, out) \<Longrightarrow> rec_status r = AS_APPROVED \<and> rec_status r' = AS_EXECUTED"
    and ap: "rec_status r' = AS_APPROVED \<Longrightarrow> rec_status r = AS_APPROVED \<or> did_approve i (op, out)"
    by (rule gated_step) blast
  note IH = Cons.IH [OF r' np(2) run]
  have "length (filter (did_execute i) hist) \<le> 1"
  proof (cases "did_execute i (op, out)")
    case True
    with gated_settled [OF r' _ _ np(2) run] ex show ?thesis by (simp add: hist)
  next
    case False
    with IH show ?thesis by (simp add: hist)
  qed
  moreover have "rec_status r = AS_APPROVED \<or> (\<exists>m < n. did_approve i (hist ! m))"
    if n: "n < length hist" "did_execute i (hist ! n)" for n
  proof (cases n)
    case 0
    with n ex show ?thesis by (simp add: hist)
  next
    case (Suc k)
    with n IH have "rec_status r' = AS_APPROVED \<or> (\<exists>m < k. did_approve i (hist1 ! m))"
      by (simp add: hist)
    then show ?thesis
    proof
      assume "rec_status r' = AS_APPROVED"
      with ap Suc show ?thesis by (auto simp: hist intro!: exI [of _ 0])
    next
      assume "\<exists>m < k. did_approve i (hist1 ! m)"
      then obtain m where "m < k" "did_approve i (hist1 ! m)" by blast
      with Suc show ?thesis by (auto simp: hist intro!: exI [of _ "Suc m"])
    qed
  qed
  ultimately show ?case by blast
qed

text \<open>Every stored evaluation is the policy engine's answer for the stored request.\<close>

definition evaluated :: "registry \<Rightarrow> approvals \<Rightarrow> bool" where
  "evaluated reg s \<longleftrightarrow>
     (\<forall>i r. s i = Some r \<longrightarrow> (\<exists>ctx. evaluate reg (rec_action_request r) ctx = Inr (rec_evaluation r)))"

lemma svc_apply_evaluated:
  assumes "svc_apply reg sreg sha1 op s = (s', out)" and "evaluated reg s"
  shows "evaluated reg s'"
proof (cases op)
  case (Propose i q ctx)
  with assms obtain o' where "propose reg i q ctx s = (s', o')" by (auto simp: map_prod_def split: prod.splits)
  then show ?thesis using assms(2) by (cases rule: propose_cases) (auto simp: evaluated_def)
next
  case (Approve i a b)
  with assms obtain o' where "decide record_approve i a b s = (s', o')"
    by (auto simp: approve_def map_prod_def split: prod.splits)
  then show ?thesis using assms(2) by (cases rule: decide_cases) (auto simp: evaluated_def)
next
  case (Reject i a b)
  with assms obtain o' where "decide record_reject i a b s = (s', o')"
    by (auto simp: reject_def map_prod_def split: prod.splits)
  then show ?thesis using assms(2) by (cases rule: decide_cases) (auto simp: evaluated_def)
next
  case (Execute i ctx)
  with assms obtain o' where "execute reg sreg sha1 i ctx s = (s', o')"
    by (auto simp: map_prod_def split: prod.splits)
  then show ?thesis using assms(2) by (cases rule: execute_cases) (auto simp: evaluated_def)
qed

lemma executable_static:
  assumes "evaluate reg q ctx = Inr e" and "executable_now e"
  shows "\<exists>a. static_gates reg q a (context_of q ctx)"
  using assms by (cases reg q ctx rule: evaluate_cases) (auto simp: executable_now_def)

lemma gate_static:
  assumes "evaluated reg s" and "s i = Some r" and "execution_gate reg i ctx r"
  shows "\<exists>a c. static_gates reg (requested i r) a c"
proof (cases "pe_decision (rec_evaluation r) = PD_REQUIRE_APPROVAL")
  case True
  with assms(3) show ?thesis
    by (auto simp: execution_gate_def requested_def Inr_such_that dest!: executable_static)
next
  case False
  with assms show ?thesis
    by (auto simp: evaluated_def execution_gate_def requested_def dest!: executable_static)
      (metis executable_static)
qed

lemma history_executed_static:
  assumes "evaluated reg s" and "svc_run reg sreg sha1 ops s = (s', hist)"
    and "(Execute i ctx, Out_Result (Inr x)) \<in> set hist" and "xr_status x = AS_EXECUTED"
  shows "\<exists>q a c. static_gates reg q a c \<and> ar_action_type q = xr_action_type x
             \<and> sm_ok (simulate sreg q) \<and> xr_action_type x \<in> set MOCK_HANDLED"
  using assms
proof (induction ops arbitrary: s hist)
  case Nil
  then show ?case by simp
next
  case (Cons op ops)
  obtain s1 out where st: "svc_apply reg sreg sha1 op s = (s1, out)" by fastforce
  obtain hist1 where run: "svc_run reg sreg sha1 ops s1 = (s', hist1)" and hist: "hist = (op, out) # hist1"
    using Cons.prems(2) st by (auto split: prod.splits)
  show ?case
  proof (cases "(Execute i ctx, Out_Result (Inr x)) = (op, out)")
    case False
    with Cons.IH [OF svc_apply_evaluated [OF st Cons.prems(1)] run] Cons.prems(3,4) hist
    show ?thesis by auto
  next
    case True
    with st have "execute reg sreg sha1 i ctx s = (s1, Inr x)"
      by (auto simp: map_prod_def split: prod.splits)
    then show ?thesis
    proof (cases rule: execute_cases)
      case (ran r x')
      with gate_static [OF Cons.prems(1)] Cons.prems(4) show ?thesis
        by (intro exI [of _ "requested i r"]) (auto split: if_splits)
    qed (use Cons.prems(4) in auto)
  qed
qed

section \<open>Properties\<close>

text \<open>C3. An action that needs approval is executed at most once in every history of calls, and only
  after an \<open>approve\<close> call on its identifier succeeded.\<close>

theorem service_gated_executes_once_after_approval:
  assumes "s i = Some r" and "pe_decision (rec_evaluation r) = PD_REQUIRE_APPROVAL"
    and "rec_status r = AS_PROPOSED" and "list_all (\<lambda>op. \<not> proposes i op) ops"
    and "svc_run reg sreg sha1 ops s = (s', hist)"
  shows "length (filter (did_execute i) hist) \<le> 1
     \<and> (\<forall>n < length hist. did_execute i (hist ! n) \<longrightarrow> (\<exists>m < n. did_approve i (hist ! m)))"
  using gated_history [of s i r ops reg sreg sha1 s' hist] assms by (auto simp: gated_def)

definition demo_request :: action_request where
  "demo_request = action_request_of ''mock.execute_restart_worker'' ''worker'' ''staging'' []"

definition demo_service :: approvals where
  "demo_service = fst (propose DEFAULT_ACTION_REGISTRY ''a1'' demo_request None Map.empty)"

definition demo_calls :: "svc_op list" where
  "demo_calls = [Execute ''a1'' None, Approve ''a1'' ''ops'' ''ok'', Execute ''a1'' None, Execute ''a1'' None]"

theorem service_gated_executes_once_after_approval_witness:
  "\<exists>s' hist. svc_run DEFAULT_ACTION_REGISTRY DEFAULT_ACTION_REGISTRY (\<lambda>_. 0) demo_calls demo_service = (s', hist)
     \<and> map (did_execute ''a1'') hist = [False, False, True, False]
     \<and> length (filter (did_execute ''a1'') hist) \<le> 1"
proof -
  obtain s' hist where run:
    "svc_run DEFAULT_ACTION_REGISTRY DEFAULT_ACTION_REGISTRY (\<lambda>_. 0) demo_calls demo_service = (s', hist)"
    by fastforce
  have "map (did_execute ''a1'')
     (snd (svc_run DEFAULT_ACTION_REGISTRY DEFAULT_ACTION_REGISTRY (\<lambda>_. 0) demo_calls demo_service))
     = [False, False, True, False]" by code_simp
  with run have obs: "map (did_execute ''a1'') hist = [False, False, True, False]" by simp
  have "\<exists>r. demo_service ''a1'' = Some r \<and> (pe_decision (rec_evaluation r) = PD_REQUIRE_APPROVAL
          \<and> rec_status r = AS_PROPOSED)"
    unfolding Some_such_that [symmetric] by code_simp
  then obtain r where r: "demo_service ''a1'' = Some r"
    "pe_decision (rec_evaluation r) = PD_REQUIRE_APPROVAL" "rec_status r = AS_PROPOSED" by blast
  have "list_all (\<lambda>op. \<not> proposes ''a1'' op) demo_calls" by (simp add: demo_calls_def)
  from service_gated_executes_once_after_approval [OF r this run] obs run show ?thesis
    by (intro exI [of _ s'] exI [of _ hist]) simp
qed

text \<open>Whatever the history from an empty service, an action that was executed had passed the
  static policy gates (registered, not prohibited, bounded blast radius, allowed environment,
  granted capabilities) and its simulation.\<close>

theorem service_executed_passed_policy:
  assumes "svc_run reg sreg sha1 ops Map.empty = (s', hist)"
    and "(Execute i ctx, Out_Result (Inr x)) \<in> set hist" and "xr_status x = AS_EXECUTED"
  shows "(\<exists>q a c. static_gates reg q a c \<and> ar_action_type q = xr_action_type x \<and> sm_ok (simulate sreg q))
     \<and> xr_action_type x \<notin> fst ` set PROHIBITED_ACTIONS"
proof -
  have "evaluated reg Map.empty" by (simp add: evaluated_def)
  from history_executed_static [OF this assms] obtain q a c where
    q: "static_gates reg q a c" "ar_action_type q = xr_action_type x" "sm_ok (simulate sreg q)" by blast
  have "ar_action_type q \<notin> fst ` set PROHIBITED_ACTIONS"
  proof
    assume "ar_action_type q \<in> fst ` set PROHIBITED_ACTIONS"
    then obtain why where "get_action reg (ar_action_type q) = Some (prohibited_action (ar_action_type q) why)"
      by (rule get_action_prohibited)
    with q(1) show False by (auto simp: static_gates_def prohibited_action_def)
  qed
  with q show ?thesis by auto
qed

theorem service_executed_passed_policy_witness:
  "\<exists>s' hist ctx x. svc_run DEFAULT_ACTION_REGISTRY DEFAULT_ACTION_REGISTRY (\<lambda>_. 0)
        [Propose ''a1'' (action_request_of ''report.generate'' ''db'' ''staging'' []) None, Execute ''a1'' None]
        Map.empty = (s', hist)
     \<and> (Execute ''a1'' ctx, Out_Result (Inr x)) \<in> set hist \<and> xr_status x = AS_EXECUTED
     \<and> xr_action_type x \<notin> fst ` set PROHIBITED_ACTIONS"
proof -
  define calls where "calls = [Propose ''a1'' (action_request_of ''report.generate'' ''db'' ''staging'' []) None,
     Execute ''a1'' None]"
  obtain s' hist where run:
    "svc_run DEFAULT_ACTION_REGISTRY DEFAULT_ACTION_REGISTRY (\<lambda>_. 0) calls Map.empty = (s', hist)"
    by fastforce
  have "list_ex (did_execute ''a1'')
     (snd (svc_run DEFAULT_ACTION_REGISTRY DEFAULT_ACTION_REGISTRY (\<lambda>_. 0) calls Map.empty))"
    unfolding calls_def by code_simp
  with run obtain ctx x where x: "(Execute ''a1'' ctx, Out_Result (Inr x)) \<in> set hist"
    "xr_status x = AS_EXECUTED" by (auto simp: list_ex_iff did_execute_iff)
  from service_executed_passed_policy [OF run x] run x show ?thesis unfolding calls_def by blast
qed

text \<open>A decision is final for an action that needs approval: once rejected, executed or failed,
  no later call changes its record or executes it.\<close>

theorem service_settled_gated_record_final:
  assumes "s i = Some r" and "pe_decision (rec_evaluation r) = PD_REQUIRE_APPROVAL"
    and "rec_status r \<in> {AS_REJECTED, AS_EXECUTED, AS_FAILED}"
    and "list_all (\<lambda>op. \<not> proposes i op) ops" and "svc_run reg sreg sha1 ops s = (s', hist)"
  shows "s' i = Some r \<and> filter (did_execute i) hist = []"
  using assms by (intro gated_settled) (auto simp: gated_def)

theorem service_settled_gated_record_final_witness:
  "\<exists>r s' hist. fst (reject ''a1'' ''ops'' ''no'' demo_service) ''a1'' = Some r \<and> rec_status r = AS_REJECTED
     \<and> svc_run DEFAULT_ACTION_REGISTRY DEFAULT_ACTION_REGISTRY (\<lambda>_. 0) demo_calls
         (fst (reject ''a1'' ''ops'' ''no'' demo_service)) = (s', hist)
     \<and> s' ''a1'' = Some r"
proof -
  define s where "s = fst (reject ''a1'' ''ops'' ''no'' demo_service)"
  have "\<exists>r. s ''a1'' = Some r \<and> (pe_decision (rec_evaluation r) = PD_REQUIRE_APPROVAL
          \<and> rec_status r = AS_REJECTED)"
    unfolding s_def Some_such_that [symmetric] by code_simp
  then obtain r where r: "s ''a1'' = Some r" "pe_decision (rec_evaluation r) = PD_REQUIRE_APPROVAL"
    and rej: "rec_status r = AS_REJECTED" by blast
  then have st: "rec_status r \<in> {AS_REJECTED, AS_EXECUTED, AS_FAILED}" by simp
  obtain s' hist where run:
    "svc_run DEFAULT_ACTION_REGISTRY DEFAULT_ACTION_REGISTRY (\<lambda>_. 0) demo_calls s = (s', hist)" by fastforce
  have "list_all (\<lambda>op. \<not> proposes ''a1'' op) demo_calls" by (simp add: demo_calls_def)
  from service_settled_gated_record_final [OF r st this run] r rej run show ?thesis
    unfolding s_def by blast
qed

text \<open>A rejection does not bind an action whose proposal was allowed outright: \<open>execute\<close> does not
  look at the status of such a record, so a rejected one runs and its status becomes executed.\<close>

theorem service_rejected_auto_allowed_still_executes:
  assumes "s i = Some r" and "pe_decision (rec_evaluation r) = PD_ALLOW"
    and "\<not> pe_requires_approval (rec_evaluation r)"
    and "sm_ok (simulate sreg (rec_action_request r))"
    and "ar_action_type (rec_action_request r) \<in> set MOCK_HANDLED"
  shows "\<exists>x. execute reg sreg sha1 i ctx (s(i \<mapsto> r\<lparr>rec_status := AS_REJECTED\<rparr>)) =
             (s(i \<mapsto> r\<lparr>rec_status := AS_EXECUTED\<rparr>), Inr x) \<and> xr_status x = AS_EXECUTED"
  using assms
  by (auto simp: execute_def get_approval_def executable_now_def run_approved_def mock_execute_status Let_def)

theorem service_rejected_auto_allowed_still_executes_witness:
  "\<exists>r x. fst (propose DEFAULT_ACTION_REGISTRY ''a1''
           (action_request_of ''report.generate'' ''db'' ''staging'' []) None Map.empty) ''a1'' = Some r
     \<and> execute DEFAULT_ACTION_REGISTRY DEFAULT_ACTION_REGISTRY (\<lambda>_. 0) ''a1'' None
         [''a1'' \<mapsto> r\<lparr>rec_status := AS_REJECTED\<rparr>] = ([''a1'' \<mapsto> r\<lparr>rec_status := AS_EXECUTED\<rparr>], Inr x)"
proof -
  define s where "s = fst (propose DEFAULT_ACTION_REGISTRY ''a1''
           (action_request_of ''report.generate'' ''db'' ''staging'' []) None Map.empty)"
  have "\<exists>r. s ''a1'' = Some r \<and> (pe_decision (rec_evaluation r) = PD_ALLOW
          \<and> \<not> pe_requires_approval (rec_evaluation r)
          \<and> sm_ok (simulate DEFAULT_ACTION_REGISTRY (rec_action_request r))
          \<and> ar_action_type (rec_action_request r) \<in> set MOCK_HANDLED)"
    unfolding s_def Some_such_that [symmetric] by code_simp
  then obtain r where r: "s ''a1'' = Some r" "pe_decision (rec_evaluation r) = PD_ALLOW"
    "\<not> pe_requires_approval (rec_evaluation r)"
    "sm_ok (simulate DEFAULT_ACTION_REGISTRY (rec_action_request r))"
    "ar_action_type (rec_action_request r) \<in> set MOCK_HANDLED" by blast
  have "[''a1'' \<mapsto> r] ''a1'' = Some r" by simp
  from service_rejected_auto_allowed_still_executes
      [of "[''a1'' \<mapsto> r]" "''a1''" r DEFAULT_ACTION_REGISTRY, OF this r(2-5),
       of DEFAULT_ACTION_REGISTRY "\<lambda>_. 0" None] r(1)
  show ?thesis unfolding s_def by auto
qed

end
