(* ===== verification/Authority_Boundary.thy ===== *)
theory Authority_Boundary
  imports Prelude
begin

text \<open>
  Text screening shared by the P118 and P119 contracts (\<open>app/services/p118_operation_contract.py\<close>,
  \<open>app/services/p119_contract.py\<close>): the forbidden-text pattern, field-name normalisation, and the
  plain copy of a JSON value.
\<close>

section \<open>The forbidden-text pattern\<close>

text \<open>\<open>re.search\<close>: some suffix matches.\<close>

fun search :: "(string \<Rightarrow> bool) \<Rightarrow> string \<Rightarrow> bool" where
  "search P [] = P []"
| "search P (c # s) = (P (c # s) \<or> search P s)"

text \<open>A word followed by one white-space character; \<open>terraform\s+apply\<close>.\<close>

definition word_space :: "string \<Rightarrow> string \<Rightarrow> bool" where
  "word_space w s = (py_startswith s w \<and> (case drop (length w) s of [] \<Rightarrow> False | c # _ \<Rightarrow> is_space c))"

definition terraform_apply :: "string \<Rightarrow> bool" where
  "terraform_apply s =
     (word_space ''terraform'' s \<and> py_startswith (dropWhile is_space (drop 9 s)) ''apply'')"

definition FORBIDDEN_LITERALS :: "string list" where
  "FORBIDDEN_LITERALS = [''prod'', ''production'', ''staging'', ''kubectl'', ''curl'', ''ssh'',
     ''postgres://'', ''mysql://'', ''http://'', ''https://'', ''password'', ''secret'', ''credential'',
     ''subprocess'', ''shell'']"

text \<open>
  \<open>_FORBIDDEN_TEXT_RE.search\<close> under \<open>re.IGNORECASE\<close>; \<open>extra\<close> lists the literals that only one of the
  two contracts has.
\<close>

definition forbidden_text :: "string list \<Rightarrow> string \<Rightarrow> bool" where
  "forbidden_text extra s =
     (let t = py_lower s in
      py_any_in (FORBIDDEN_LITERALS @ extra) t
      \<or> search (word_space ''aws'') t \<or> search (word_space ''gcloud'') t \<or> search terraform_apply t)"

section \<open>Field names\<close>

definition is_lower_or_digit :: "char \<Rightarrow> bool" where
  "is_lower_or_digit c = (let n = of_char c :: nat in (97 \<le> n \<and> n \<le> 122) \<or> (48 \<le> n \<and> n \<le> 57))"

definition is_upper :: "char \<Rightarrow> bool" where
  "is_upper c = (let n = of_char c :: nat in 65 \<le> n \<and> n \<le> 90)"

lemma is_upper_bits [code]:
  "is_upper (Char b0 b1 b2 b3 b4 b5 b6 b7) =
     (\<not> b7 \<and> b6 \<and> \<not> b5 \<and> (if b4 then \<not> (b3 \<and> (b2 \<or> b1 \<and> b0)) else b3 \<or> b2 \<or> b1 \<or> b0))"
  unfolding is_upper_def Let_def of_char_bits
  by (cases b0; cases b1; cases b2; cases b3; cases b4; cases b5; cases b6; cases b7) simp_all

lemma is_lower_or_digit_bits [code]:
  "is_lower_or_digit (Char b0 b1 b2 b3 b4 b5 b6 b7) =
     (\<not> b7 \<and> b5 \<and> (if b6 then (if b4 then \<not> (b3 \<and> (b2 \<or> b1 \<and> b0)) else b3 \<or> b2 \<or> b1 \<or> b0)
                   else b4 \<and> (b3 \<longrightarrow> \<not> b2 \<and> \<not> b1)))"
  unfolding is_lower_or_digit_def Let_def of_char_bits
  by (cases b0; cases b1; cases b2; cases b3; cases b4; cases b5; cases b6; cases b7) simp_all

fun separate_camel :: "string \<Rightarrow> string" where
  "separate_camel (c # d # s) =
     (if is_lower_or_digit c \<and> is_upper d then c # CHR ''_'' # separate_camel (d # s)
      else c # separate_camel (d # s))"
| "separate_camel s = s"

text \<open>\<open>str.casefold\<close>: as \<open>lower\<close>, and the sharp s becomes two letters.\<close>

definition casefold :: "string \<Rightarrow> string" where
  "casefold s = concat (map (\<lambda>c. if (of_char c :: nat) = 223 then ''ss'' else [lower_char c]) s)"

lemma casefold_bits [code]:
  "casefold s = concat (map (\<lambda>c. if c = Char True True True True True False True True then ''ss'' else [lower_char c]) s)"
proof -
  have "(of_char c :: nat) = 223 \<longleftrightarrow> c = Char True True True True True False True True" for c
    by (cases c) (simp add: of_char_bits split: if_splits)
  then show ?thesis by (simp add: casefold_def)
qed

definition normalized_field :: "string \<Rightarrow> string" where
  "normalized_field s = filter is_lower_or_digit (casefold (separate_camel s))"

section \<open>Plain values\<close>

text \<open>\<open>_plain_value\<close>: dictionaries are rebuilt in key order, at every depth.\<close>

fun plain_value :: "pyval \<Rightarrow> pyval" where
  "plain_value (PDict d) = PDict (sort_key fst (map (\<lambda>(k, v). (k, plain_value v)) d))"
| "plain_value (PList xs) = PList (map plain_value xs)"
| "plain_value v = v"

definition plain_mapping :: "pydict \<Rightarrow> pydict" where
  "plain_mapping d = sort_key fst (map (\<lambda>(k, v). (k, plain_value v)) d)"

section \<open>Facts\<close>

lemma search_iff: "search P s \<longleftrightarrow> (\<exists>u v. s = u @ v \<and> P v)"
proof (induction s)
  case Nil
  then show ?case by simp
next
  case (Cons c s)
  have "(\<exists>u v. c # s = u @ v \<and> P v) \<longleftrightarrow> P (c # s) \<or> (\<exists>u v. s = u @ v \<and> P v)"
    by (metis append_Cons append_Nil list.exhaust list.inject)
  with Cons show ?case by simp
qed

lemma py_lower_append: "py_lower (u @ v) = py_lower u @ py_lower v"
  by (simp add: py_lower_def)

lemma word_space_append: "word_space w s \<Longrightarrow> word_space w (s @ t)"
  by (auto simp: word_space_def py_startswith_iff split: list.splits)

lemma search_append:
  assumes "\<And>s t. P s \<Longrightarrow> P (s @ t)" and "search P s"
  shows "search P (u @ s @ t)"
  using assms by (auto simp: search_iff) (metis append.assoc)

lemma terraform_apply_append: "terraform_apply s \<Longrightarrow> terraform_apply (s @ t)"
proof -
  assume s: "terraform_apply s"
  then have "dropWhile is_space (drop 9 s) \<noteq> []"
    by (auto simp del: dropWhile_eq_Nil_conv simp: terraform_apply_def)
  then have "dropWhile is_space (drop 9 s @ t) = dropWhile is_space (drop 9 s) @ t"
    unfolding dropWhile_append dropWhile_eq_Nil_conv by (simp split: if_split) blast
  moreover have "drop 9 (s @ t) = drop 9 s @ t"
    using s by (auto simp: terraform_apply_def word_space_def py_startswith_iff)
  ultimately show "terraform_apply (s @ t)"
    using s word_space_append by (auto simp: terraform_apply_def py_startswith_iff)
qed

text \<open>A forbidden text stays forbidden inside any longer text.\<close>

lemma forbidden_text_infix: "forbidden_text extra s \<Longrightarrow> forbidden_text extra (u @ s @ v)"
  by (auto simp: forbidden_text_def Let_def py_lower_append
      intro: py_any_in_append search_append word_space_append terraform_apply_append)

text \<open>JSON text does not see the reordering.\<close>

lemma sort_key_fst_map: "sort_key fst (map (\<lambda>(k, v). (k, f v)) d) = map (\<lambda>(k, v). (k, f v)) (sort_key fst d)"
proof -
  have ins: "insort_key fst (k, f v) (map (\<lambda>(k, v). (k, f v)) xs) =
             map (\<lambda>(k, v). (k, f v)) (insort_key fst (k, v) xs)" for k v and xs
    by (induction xs) auto
  show ?thesis by (induction d) (auto simp: ins)
qed

lemma sort_key_twice: "sort_key f (sort_key f xs) = sort_key f xs"
  by (simp add: sort_key_id_if_sorted)

lemma json_dumps_plain: "json_dumps (plain_value v) = json_dumps v"
proof (induction v)
  case (PDict d)
  have "sort_key fst (map (\<lambda>(k, v). (k, json_dumps v))
          (sort_key fst (map (\<lambda>(k, v). (k, plain_value v)) d))) =
        sort_key fst (map (\<lambda>(k, v). (k, json_dumps v)) (map (\<lambda>(k, v). (k, plain_value v)) d))"
    by (simp only: sort_key_fst_map [symmetric] sort_key_twice)
  also have "\<dots> = sort_key fst (map (\<lambda>(k, v). (k, json_dumps v)) d)"
    using PDict by (intro arg_cong [where f = "sort_key fst"]) (auto simp: snds.simps)
  finally show ?case by simp
next
  case (PList xs)
  then have "map json_dumps (map plain_value xs) = map json_dumps xs" by simp
  then show ?case by (simp only: plain_value.simps json_dumps.simps)
qed simp_all

end
