(* ===== verification/Transition_Table.thy ===== *)
theory Transition_Table
  imports Prelude
begin

text \<open>
  The contract of a state machine given by a table of allowed successors, which several components
  of the program share.  A table that has a rank bounds the length of every run.
\<close>

fun legal_path :: "('s \<Rightarrow> 's list) \<Rightarrow> 's \<Rightarrow> 's list \<Rightarrow> bool" where
  "legal_path succs s [] = True"
| "legal_path succs s (t # ts) = (t \<in> set (succs s) \<and> legal_path succs t ts)"

lemma legal_path_append:
  "legal_path succs s (p @ q) \<longleftrightarrow> legal_path succs s p \<and> legal_path succs (last (s # p)) q"
  by (induction p arbitrary: s) auto

lemma legal_path_snoc:
  "legal_path succs s (p @ [t]) \<longleftrightarrow> legal_path succs s p \<and> t \<in> set (succs (last (s # p)))"
  by (simp add: legal_path_append)

locale transition_table =
  fixes succs :: "'s \<Rightarrow> 's list"
    and known :: "'s \<Rightarrow> bool"
    and terminal :: "'s \<Rightarrow> bool"
  assumes succs_known: "t \<in> set (succs s) \<Longrightarrow> known s \<and> known t"
    and terminal_known: "terminal s \<Longrightarrow> known s"
    and terminal_iff: "known s \<Longrightarrow> terminal s \<longleftrightarrow> succs s = []"
begin

lemma terminal_stuck: "terminal s \<Longrightarrow> t \<notin> set (succs s)"
  using terminal_iff [of s] terminal_known [of s] by auto

lemma terminal_absorbing: "terminal s \<Longrightarrow> legal_path succs s p \<longleftrightarrow> p = []"
  using terminal_stuck by (cases p) auto

lemma path_known: "known s \<Longrightarrow> legal_path succs s p \<Longrightarrow> list_all known p"
  by (induction p arbitrary: s) (auto dest: succs_known)

lemma terminal_only_last:
  assumes "legal_path succs s p" and "i < length p" and "terminal (p ! i)"
  shows "i = length p - 1"
proof (rule ccontr)
  assume "i \<noteq> length p - 1"
  then obtain t q where "drop (Suc i) p = t # q"
    using assms(2) by (cases "drop (Suc i) p") auto
  then have "p = take (Suc i) p @ t # q" by (metis append_take_drop_id)
  with assms(1) have "legal_path succs (last (s # take (Suc i) p)) (t # q)"
    by (metis legal_path_append)
  moreover have "last (s # take (Suc i) p) = p ! i"
    using assms(2) by (simp add: take_Suc_conv_app_nth)
  ultimately show False using terminal_stuck [OF assms(3)] by simp
qed

end

locale ranked_table = transition_table +
  fixes rank :: "'s \<Rightarrow> nat"
  assumes rank_decreases: "t \<in> set (succs s) \<Longrightarrow> rank t < rank s"
begin

lemma path_bound: "legal_path succs s p \<Longrightarrow> length p \<le> rank s"
  by (induction p arbitrary: s) (auto dest!: rank_decreases simp: Suc_le_eq intro: le_less_trans)

lemma path_rank: "legal_path succs s p \<Longrightarrow> length p + rank (last (s # p)) \<le> rank s"
proof (induction p arbitrary: s)
  case Nil
  then show ?case by simp
next
  case (Cons t p)
  from Cons.prems have "rank t < rank s" by (simp add: rank_decreases)
  moreover have "length p + rank (last (t # p)) \<le> rank t" using Cons by simp
  ultimately show ?case by simp
qed

lemma reaches_terminal:
  "known s \<Longrightarrow> \<exists>p. legal_path succs s p \<and> terminal (last (s # p)) \<and> length p \<le> rank s"
proof (induction "rank s" arbitrary: s rule: less_induct)
  case less
  show ?case
  proof (cases "terminal s")
    case True
    then show ?thesis by (intro exI [of _ "[]"]) simp
  next
    case False
    then obtain t where t: "t \<in> set (succs s)"
      using terminal_iff [OF less.prems] by (cases "succs s") auto
    with less.hyps [of t] obtain p where "legal_path succs t p" "terminal (last (t # p))"
      using rank_decreases succs_known by blast
    with t have "legal_path succs s (t # p) \<and> terminal (last (s # t # p))" by simp
    then show ?thesis using path_bound by blast
  qed
qed

end

end
