(* ===== verification/P118_Contract.thy ===== *)
theory P118_Contract
  imports Authority_Boundary Transition_Table
begin

text \<open>
  The immutable operation envelope of \<open>app/services/p118_operation_contract.py\<close> and the lifecycle
  table of \<open>app/services/p118_ledger.py\<close>.  An envelope is its payload: freezing and thawing only
  swap lists and tuples.  Every \<open>P118ContractError\<close> is the exception of that class.
\<close>

section \<open>Constants\<close>

definition P118_OPERATION_SCHEMA_VERSION :: string where
  "P118_OPERATION_SCHEMA_VERSION = ''p118.operation_envelope.v1''"

definition P118_LIFECYCLE_STATES :: "string list" where
  "P118_LIFECYCLE_STATES = [''received'', ''verified'', ''approved'', ''prechecked'', ''action_attempted'',
     ''postchecked'', ''succeeded'', ''precheck_failed'', ''action_failed'', ''postcheck_failed'',
     ''rollback_attempted'', ''rollback_postchecked'', ''rolled_back'', ''rollback_failed'',
     ''validation_failed'', ''rejected'', ''expired'', ''orphaned_recovered'', ''aborted_fail_closed'']"

definition P118_TERMINAL_STATUSES :: "string list" where
  "P118_TERMINAL_STATUSES = [''succeeded'', ''rolled_back'', ''rollback_failed'', ''validation_failed'',
     ''rejected'', ''expired'', ''orphaned_recovered'', ''aborted_fail_closed'']"

definition P118_AUTHORITY_COUNTER_KEYS :: "string list" where
  "P118_AUTHORITY_COUNTER_KEYS = [''auth'', ''credentials'', ''executor'', ''shell'', ''subprocess'',
     ''kubernetes'', ''cloud'', ''database_mutation'', ''production_adapter'', ''network_mutation'',
     ''online_policy_write'', ''production_mutation'']"

definition P118_REQUIRED_FIELDS :: "string list" where
  "P118_REQUIRED_FIELDS = [''operation_id'', ''schema_version'', ''p117_decision_episode_id'',
     ''p117_selected_action_pack_id'', ''p115_action_pack_digest'', ''fixture_target_id'', ''action_level'',
     ''precondition_refs'', ''validation_plan_ref'', ''rollback_plan_ref'', ''approval_receipt'',
     ''lease_receipt'', ''wal_position'', ''cas_version'', ''idempotency_key'',
     ''authority_counter_snapshot'']"

definition P118_FORBIDDEN_FIELDS :: "string list" where
  "P118_FORBIDDEN_FIELDS = [''auth'', ''authcontext'', ''authrequired'', ''cloudmutation'', ''command'',
     ''commandtext'', ''credential'', ''credentials'', ''database'', ''databasemutation'', ''executor'',
     ''freeformaction'', ''kubernetes'', ''liveconnector'', ''network'', ''networkmutation'',
     ''onlinepolicywrite'', ''password'', ''productionadapter'', ''productionmutation'', ''secret'',
     ''shell'', ''shelltext'', ''subprocess'', ''targetselector'']"

definition LOCAL_TARGET_PREFIXES :: "string list" where
  "LOCAL_TARGET_PREFIXES = [''local:fixture:'', ''mock:fixture:'', ''sandbox:fixture:'']"

definition p118_contract_error :: "string \<Rightarrow> exn" where
  "p118_contract_error m = Raised ''P118ContractError'' m"

section \<open>The authority boundary\<close>

fun p118_reject_authority_fields :: "pyval \<Rightarrow> unit result"
  and p118_reject_items :: "pydict \<Rightarrow> unit result"
  and p118_reject_list :: "pyval list \<Rightarrow> unit result" where
  "p118_reject_authority_fields (PDict d) = p118_reject_items d"
| "p118_reject_authority_fields (PList xs) = p118_reject_list xs"
| "p118_reject_authority_fields (PStr s) =
     rguard (forbidden_text [] s) (p118_contract_error ''forbidden_authority_text'')"
| "p118_reject_authority_fields PNone = Inr ()"
| "p118_reject_authority_fields (PBool b) = Inr ()"
| "p118_reject_authority_fields (PInt i) = Inr ()"
| "p118_reject_authority_fields (PFloat m e) = Inr ()"
| "p118_reject_items [] = Inr ()"
| "p118_reject_items ((k, v) # d) =
     (let normalized = normalized_field k in
      if normalized = ''authoritycountersnapshot'' \<or> normalized \<in> {''counters'', ''policycounters''}
      then p118_reject_items d
      else if normalized \<in> set P118_FORBIDDEN_FIELDS
      then Inl (p118_contract_error (''forbidden_authority_field:'' @ k))
      else rbind (p118_reject_authority_fields v) (\<lambda>_. p118_reject_items d))"
| "p118_reject_list [] = Inr ()"
| "p118_reject_list (v # vs) = rbind (p118_reject_authority_fields v) (\<lambda>_. p118_reject_list vs)"

definition p118_reject_authority_boundary :: "pydict \<Rightarrow> unit result" where
  "p118_reject_authority_boundary d = p118_reject_authority_fields (PDict d)"

definition p118_zero_counters :: pydict where
  "p118_zero_counters = map (\<lambda>k. (k, PInt 0)) P118_AUTHORITY_COUNTER_KEYS"

text \<open>The loop over the counter keys of both contracts; \<open>err\<close> makes the contract's exception.\<close>

fun check_zero_counters :: "(string \<Rightarrow> exn) \<Rightarrow> pydict \<Rightarrow> string list \<Rightarrow> pydict result" where
  "check_zero_counters err value [] = Inr []"
| "check_zero_counters err value (key # keys) =
     (case strict_int (pget value key) of
        None \<Rightarrow> Inl (err (''missing_authority_counter:'' @ key))
      | Some counter \<Rightarrow>
          if counter \<noteq> 0 then Inl (err (''authority_counter_nonzero:'' @ key))
          else rbind (check_zero_counters err value keys) (\<lambda>cs. Inr ((key, PInt 0) # cs)))"

definition unknown_keys :: "pydict \<Rightarrow> string list \<Rightarrow> string list" where
  "unknown_keys d keys = sort (remdups (filter (\<lambda>k. k \<notin> set keys) (map fst d)))"

definition p118_validate_zero_counters :: "pyval \<Rightarrow> pydict result" where
  "p118_validate_zero_counters value =
     (case value of
        PDict d \<Rightarrow>
          (case unknown_keys d P118_AUTHORITY_COUNTER_KEYS of
             u # _ \<Rightarrow> Inl (p118_contract_error (''unknown_authority_counter:'' @ u))
           | [] \<Rightarrow> check_zero_counters p118_contract_error d P118_AUTHORITY_COUNTER_KEYS)
      | _ \<Rightarrow> Inl (p118_contract_error ''missing_authority_counter_snapshot''))"

section \<open>Field validators\<close>

definition is_digit :: "char \<Rightarrow> bool" where
  "is_digit c = (let n = of_char c :: nat in 48 \<le> n \<and> n \<le> 57)"

definition is_hex_lower :: "char \<Rightarrow> bool" where
  "is_hex_lower c = (let n = of_char c :: nat in (48 \<le> n \<and> n \<le> 57) \<or> (97 \<le> n \<and> n \<le> 102))"

lemma is_hex_lower_bits [code]:
  "is_hex_lower (Char b0 b1 b2 b3 b4 b5 b6 b7) =
     (\<not> b7 \<and> b5 \<and> (if b6 then \<not> b4 \<and> \<not> b3 \<and> (b2 \<or> b1 \<or> b0) \<and> \<not> (b2 \<and> b1 \<and> b0)
                   else b4 \<and> (b3 \<longrightarrow> \<not> b2 \<and> \<not> b1)))"
  unfolding is_hex_lower_def Let_def of_char_bits
  by (cases b0; cases b1; cases b2; cases b3; cases b4; cases b5; cases b6; cases b7) simp_all

text \<open>\<open>^sha256:[0-9a-f]{64}$\<close> under \<open>fullmatch\<close>.\<close>

definition sha256_text :: "string \<Rightarrow> bool" where
  "sha256_text s = (py_startswith s ''sha256:'' \<and> length s = 71 \<and> list_all is_hex_lower (drop 7 s))"

text \<open>\<open>int\<close> of more than 4300 digits raises \<open>ValueError\<close>.\<close>

definition p118_action_level :: "pyval \<Rightarrow> string result" where
  "p118_action_level value =
     (case value of
        PStr (c # ds) \<Rightarrow>
          if c = CHR ''L'' \<and> ds \<noteq> [] \<and> list_all is_digit ds then
            if length ds > 4300
            then Inl (Raised ''ValueError'' ''Exceeds the limit (4300 digits) for integer string conversion'')
            else if the (digits_value False 0 ds) > 3
            then Inl (p118_contract_error ''action_level_above_l3'') else Inr (c # ds)
          else Inl (p118_contract_error ''invalid_action_level'')
      | _ \<Rightarrow> Inl (p118_contract_error ''invalid_action_level''))"

definition p118_fixture_target :: "pyval \<Rightarrow> string result" where
  "p118_fixture_target value =
     (case value of
        PStr s \<Rightarrow>
          if s = [] then Inl (p118_contract_error ''missing_fixture_target_id'')
          else if \<not> list_ex (py_startswith s) LOCAL_TARGET_PREFIXES
          then Inl (p118_contract_error ''invalid_fixture_target'')
          else if forbidden_text [] s then Inl (p118_contract_error ''forbidden_authority_text'')
          else Inr s
      | _ \<Rightarrow> Inl (p118_contract_error ''missing_fixture_target_id''))"

definition p118_required_text :: "pydict \<Rightarrow> string \<Rightarrow> string result" where
  "p118_required_text data key =
     (case pget data key of
        PStr s \<Rightarrow> if py_strip s = [] then Inl (p118_contract_error (''missing_'' @ key)) else Inr (py_strip s)
      | _ \<Rightarrow> Inl (p118_contract_error (''missing_'' @ key)))"

definition p118_required_hash :: "pydict \<Rightarrow> string \<Rightarrow> string \<Rightarrow> string result" where
  "p118_required_hash data key error =
     rbind (p118_required_text data key) (\<lambda>v.
       if sha256_text v then Inr v else Inl (p118_contract_error error))"

definition p118_required_mapping :: "pydict \<Rightarrow> string \<Rightarrow> string \<Rightarrow> pydict result" where
  "p118_required_mapping data key error =
     (case pget data key of
        PDict d \<Rightarrow> if d = [] then Inl (p118_contract_error error) else Inr d
      | _ \<Rightarrow> Inl (p118_contract_error error))"

definition nonempty_strings :: "pyval list \<Rightarrow> string list" where
  "nonempty_strings xs = concat (map (\<lambda>v. case v of PStr (c # s) \<Rightarrow> [c # s] | _ \<Rightarrow> []) xs)"

definition p118_text_list :: "pyval \<Rightarrow> string \<Rightarrow> string list result" where
  "p118_text_list value error =
     (case value of
        PList xs \<Rightarrow>
          if xs = [] then Inl (p118_contract_error error)
          else let r = nonempty_strings xs in
            if length r \<noteq> length xs \<or> length r \<noteq> length (remdups r)
            then Inl (p118_contract_error error) else Inr (sort r)
      | _ \<Rightarrow> Inl (p118_contract_error error))"

definition p118_non_negative_int :: "pyval \<Rightarrow> string \<Rightarrow> int result" where
  "p118_non_negative_int value error =
     (case strict_int value of
        None \<Rightarrow> Inl (p118_contract_error error)
      | Some i \<Rightarrow> if i < 0 then Inl (p118_contract_error error) else Inr i)"

section \<open>Envelopes\<close>

record p118_envelope =
  env_operation_id :: string
  env_schema_version :: string
  env_payload :: pydict

definition env_idempotency_key :: "p118_envelope \<Rightarrow> string result" where
  "env_idempotency_key op = rbind (pindex (env_payload op) ''idempotency_key'') (\<lambda>v. Inr (py_str v))"

fun missing_field :: "pydict \<Rightarrow> string list \<Rightarrow> string option" where
  "missing_field data [] = None"
| "missing_field data (f # fs) = (if phas data f then missing_field data fs else Some f)"

definition build_operation_envelope :: "(string \<Rightarrow> string) \<Rightarrow> pydict \<Rightarrow> p118_envelope result" where
  "build_operation_envelope sha data =
     (case missing_field data P118_REQUIRED_FIELDS of
        Some f \<Rightarrow> Inl (p118_contract_error (''missing_'' @ f))
      | None \<Rightarrow>
     rbind (p118_reject_authority_fields (PDict data)) (\<lambda>_.
     rbind (rguard (\<not> py_eq (pget data ''schema_version'') (PStr P118_OPERATION_SCHEMA_VERSION))
              (p118_contract_error (''unsupported_schema_version:'' @ py_str (pget data ''schema_version'')))) (\<lambda>_.
     rbind (p118_required_text data ''operation_id'') (\<lambda>operation_id.
     rbind (p118_action_level (pget data ''action_level'')) (\<lambda>action_level.
     rbind (p118_fixture_target (pget data ''fixture_target_id'')) (\<lambda>target.
     rbind (p118_required_hash data ''p115_action_pack_digest'' ''invalid_p115_action_pack_digest'') (\<lambda>digest.
     rbind (p118_text_list (pget data ''precondition_refs'') ''missing_precondition_refs'') (\<lambda>preconditions.
     rbind (p118_required_text data ''validation_plan_ref'') (\<lambda>validation_ref.
     rbind (p118_required_text data ''rollback_plan_ref'') (\<lambda>rollback_ref.
     rbind (p118_required_mapping data ''approval_receipt'' ''missing_approval_receipt'') (\<lambda>approval.
     rbind (p118_required_mapping data ''lease_receipt'' ''missing_lease_receipt'') (\<lambda>lease.
     rbind (p118_non_negative_int (pget data ''wal_position'') ''missing_wal_position'') (\<lambda>wal_position.
     rbind (p118_non_negative_int (pget data ''cas_version'') ''missing_cas_version'') (\<lambda>cas_version.
     rbind (p118_validate_zero_counters (pget data ''authority_counter_snapshot'')) (\<lambda>counters.
     rbind (p118_required_text data ''p117_decision_episode_id'') (\<lambda>episode.
     rbind (p118_required_text data ''p117_selected_action_pack_id'') (\<lambda>pack.
     rbind (p118_required_text data ''idempotency_key'') (\<lambda>idem.
     let payload =
           [(''operation_id'', PStr operation_id), (''schema_version'', PStr P118_OPERATION_SCHEMA_VERSION),
            (''p117_decision_episode_id'', PStr episode), (''p117_selected_action_pack_id'', PStr pack),
            (''p115_action_pack_digest'', PStr digest), (''fixture_target_id'', PStr target),
            (''action_level'', PStr action_level), (''precondition_refs'', PList (map PStr preconditions)),
            (''validation_plan_ref'', PStr validation_ref), (''rollback_plan_ref'', PStr rollback_ref),
            (''approval_receipt'', PDict (plain_mapping approval)),
            (''lease_receipt'', PDict (plain_mapping lease)),
            (''wal_position'', PInt wal_position), (''cas_version'', PInt cas_version),
            (''idempotency_key'', PStr idem), (''authority_counter_snapshot'', PDict counters),
            (''lifecycle_states'', PList (map PStr (sort P118_LIFECYCLE_STATES))),
            (''terminal_statuses'', PList (map PStr (sort P118_TERMINAL_STATUSES)))]
     in Inr \<lparr>env_operation_id = operation_id, env_schema_version = P118_OPERATION_SCHEMA_VERSION,
             env_payload = payload @ [(''envelope_hash'', PStr (stable_hash sha (PDict payload)))]\<rparr>))))))))))))))))))"

section \<open>The lifecycle table\<close>

definition P118_LEGAL_TRANSITIONS :: "(string \<times> string list) list" where
  "P118_LEGAL_TRANSITIONS =
     [(''received'', [''verified'', ''rejected'', ''expired'', ''aborted_fail_closed'']),
      (''verified'', [''approved'', ''rejected'', ''aborted_fail_closed'']),
      (''approved'', [''prechecked'', ''precheck_failed'', ''aborted_fail_closed'']),
      (''prechecked'', [''action_attempted'', ''validation_failed'', ''aborted_fail_closed'']),
      (''action_attempted'', [''postchecked'', ''action_failed'', ''postcheck_failed'',
         ''rollback_attempted'', ''aborted_fail_closed'']),
      (''postchecked'', [''succeeded'', ''postcheck_failed'', ''rollback_attempted'']),
      (''precheck_failed'', [''rejected'']),
      (''action_failed'', [''rollback_attempted'', ''rollback_failed'']),
      (''postcheck_failed'', [''rollback_attempted'', ''rollback_failed'']),
      (''rollback_attempted'', [''rollback_postchecked'', ''rollback_failed'']),
      (''rollback_postchecked'', [''rolled_back'', ''rollback_failed''])]"

definition p118_successors :: "string \<Rightarrow> string list" where
  "p118_successors s = (case map_of P118_LEGAL_TRANSITIONS s of None \<Rightarrow> [] | Some ts \<Rightarrow> ts)"

definition p118_terminal :: "string \<Rightarrow> bool" where
  "p118_terminal s = (s \<in> set P118_TERMINAL_STATUSES)"

text \<open>The number of transitions that can still follow a state.\<close>

definition p118_rank :: "string \<Rightarrow> nat" where
  "p118_rank s = (case map_of
     [(''received'', 9), (''verified'', 8), (''approved'', 7), (''prechecked'', 6), (''action_attempted'', 5),
      (''postchecked'', 4), (''precheck_failed'', 1), (''action_failed'', 3), (''postcheck_failed'', 3),
      (''rollback_attempted'', 2), (''rollback_postchecked'', 1)] s of None \<Rightarrow> 0 | Some n \<Rightarrow> n)"

lemma p118_table_facts:
  "list_all (\<lambda>(s, ts). s \<in> set P118_LIFECYCLE_STATES \<and> ts \<noteq> [] \<and> \<not> p118_terminal s
      \<and> list_all (\<lambda>t. t \<in> set P118_LIFECYCLE_STATES \<and> p118_rank t < p118_rank s) ts)
    P118_LEGAL_TRANSITIONS"
  "list_all (\<lambda>s. p118_terminal s \<longleftrightarrow> map_of P118_LEGAL_TRANSITIONS s = None) P118_LIFECYCLE_STATES"
  "set P118_TERMINAL_STATUSES \<subseteq> set P118_LIFECYCLE_STATES"
  by code_simp+

lemma p118_successors_entry: "t \<in> set (p118_successors s) \<Longrightarrow> \<exists>ts. (s, ts) \<in> set P118_LEGAL_TRANSITIONS \<and> t \<in> set ts"
  by (cases "map_of P118_LEGAL_TRANSITIONS s") (auto simp: p118_successors_def dest: map_of_SomeD)

interpretation p118: ranked_table p118_successors "\<lambda>s. s \<in> set P118_LIFECYCLE_STATES" p118_terminal p118_rank
proof
  fix s t
  assume "t \<in> set (p118_successors s)"
  then obtain ts where "(s, ts) \<in> set P118_LEGAL_TRANSITIONS" "t \<in> set ts"
    using p118_successors_entry by blast
  then show "s \<in> set P118_LIFECYCLE_STATES \<and> t \<in> set P118_LIFECYCLE_STATES" and "p118_rank t < p118_rank s"
    using p118_table_facts(1) unfolding list_all_iff by fastforce+
next
  fix s
  show "p118_terminal s \<Longrightarrow> s \<in> set P118_LIFECYCLE_STATES"
    using p118_table_facts(3) by (auto simp: p118_terminal_def)
  assume "s \<in> set P118_LIFECYCLE_STATES"
  then have "p118_terminal s \<longleftrightarrow> map_of P118_LEGAL_TRANSITIONS s = None"
    using p118_table_facts(2) unfolding list_all_iff by blast
  moreover have "map_of P118_LEGAL_TRANSITIONS s = Some ts \<Longrightarrow> ts \<noteq> []" for ts
    using p118_table_facts(1) map_of_SomeD unfolding list_all_iff by fastforce
  ultimately show "p118_terminal s \<longleftrightarrow> p118_successors s = []"
    by (auto simp: p118_successors_def split: option.splits)
qed

section \<open>What the boundary check excludes\<close>

text \<open>
  \<open>p118_exposed v w\<close>: the value \<open>w\<close> is found inside \<open>v\<close> without entering a counter field.
  \<open>p118_exposed_key v k\<close>: so is a dictionary item with key \<open>k\<close>.
\<close>

definition p118_counter_field :: "string \<Rightarrow> bool" where
  "p118_counter_field k = (normalized_field k \<in> {''authoritycountersnapshot'', ''counters'', ''policycounters''})"

inductive p118_exposed :: "pyval \<Rightarrow> pyval \<Rightarrow> bool" where
  here: "p118_exposed v v"
| in_list: "x \<in> set xs \<Longrightarrow> p118_exposed x w \<Longrightarrow> p118_exposed (PList xs) w"
| in_dict: "(k, x) \<in> set d \<Longrightarrow> \<not> p118_counter_field k \<Longrightarrow> p118_exposed x w \<Longrightarrow> p118_exposed (PDict d) w"

inductive_simps p118_exposed_simps:
  "p118_exposed (PList xs) w" "p118_exposed (PDict d) w" "p118_exposed (PStr s) w"

definition p118_exposed_key :: "pyval \<Rightarrow> string \<Rightarrow> bool" where
  "p118_exposed_key v k \<longleftrightarrow>
     (\<exists>d x. p118_exposed v (PDict d) \<and> (k, x) \<in> set d \<and> \<not> p118_counter_field k)"

text \<open>No exposed text or field is forbidden.\<close>

definition p118_clean :: "pyval \<Rightarrow> bool" where
  "p118_clean v \<longleftrightarrow>
     (\<forall>s. p118_exposed v (PStr s) \<longrightarrow> \<not> forbidden_text [] s)
     \<and> (\<forall>k. p118_exposed_key v k \<longrightarrow> normalized_field k \<notin> set P118_FORBIDDEN_FIELDS)"

lemma p118_exposed_key_list:
  "p118_exposed_key (PList xs) k \<longleftrightarrow> (\<exists>x \<in> set xs. p118_exposed_key x k)"
  by (auto simp: p118_exposed_key_def p118_exposed_simps)

lemma p118_exposed_key_dict:
  "p118_exposed_key (PDict d) k \<longleftrightarrow>
     (\<not> p118_counter_field k \<and> k \<in> fst ` set d)
     \<or> (\<exists>k' x. (k', x) \<in> set d \<and> \<not> p118_counter_field k' \<and> p118_exposed_key x k)"
  (is "?l \<longleftrightarrow> ?here \<or> ?deep")
proof
  assume ?l
  then obtain d' x where d': "p118_exposed (PDict d) (PDict d')" "(k, x) \<in> set d'" "\<not> p118_counter_field k"
    by (auto simp: p118_exposed_key_def)
  from d'(1) show "?here \<or> ?deep"
    using d'(2,3) unfolding p118_exposed_key_def by cases (force, blast)
next
  assume "?here \<or> ?deep"
  then show ?l
  proof
    assume ?here
    then obtain x where "(k, x) \<in> set d" "\<not> p118_counter_field k" by force
    then show ?l unfolding p118_exposed_key_def using here [of "PDict d"] by blast
  next
    assume ?deep
    then show ?l by (auto simp: p118_exposed_key_def) (blast intro: in_dict)
  qed
qed

lemma p118_clean_list: "p118_clean (PList xs) \<longleftrightarrow> (\<forall>x \<in> set xs. p118_clean x)"
  by (auto simp: p118_clean_def p118_exposed_simps p118_exposed_key_list)

lemma p118_clean_dict:
  "p118_clean (PDict d) \<longleftrightarrow>
     (\<forall>k x. (k, x) \<in> set d \<longrightarrow> \<not> p118_counter_field k \<longrightarrow>
        normalized_field k \<notin> set P118_FORBIDDEN_FIELDS \<and> p118_clean x)"
proof -
  have "p118_exposed (PDict d) (PStr s) \<longleftrightarrow>
        (\<exists>k x. (k, x) \<in> set d \<and> \<not> p118_counter_field k \<and> p118_exposed x (PStr s))" for s
    by (simp add: p118_exposed_simps)
  moreover have "k \<in> fst ` set d \<longleftrightarrow> (\<exists>x. (k, x) \<in> set d)" for k by force
  ultimately show ?thesis
    unfolding p118_clean_def p118_exposed_key_dict by meson
qed

lemma p118_clean_atom:
  "p118_clean PNone" "p118_clean (PBool b)" "p118_clean (PInt i)" "p118_clean (PFloat m e)"
  "p118_clean (PStr s) \<longleftrightarrow> \<not> forbidden_text [] s"
  by (auto simp: p118_clean_def p118_exposed_key_def elim: p118_exposed.cases intro: here)

lemma p118_reject_iff:
  "p118_reject_authority_fields v = Inr () \<longleftrightarrow> p118_clean v"
  "p118_reject_items d = Inr () \<longleftrightarrow> p118_clean (PDict d)"
  "p118_reject_list xs = Inr () \<longleftrightarrow> p118_clean (PList xs)"
proof (induction v and d and xs
    rule: p118_reject_authority_fields_p118_reject_items_p118_reject_list.induct)
  case (9 k v d)
  show ?case
    using 9 by (auto simp: Let_def p118_clean_dict p118_counter_field_def rbind_Inr_iff)
qed (auto simp: p118_clean_atom p118_clean_list p118_clean_dict rguard_Inr_iff rbind_Inr_iff)

section \<open>Properties of accepted envelopes\<close>

lemma check_zero_counters_result:
  "check_zero_counters err d keys = Inr cs \<Longrightarrow>
     cs = map (\<lambda>k. (k, PInt 0)) keys \<and> (\<forall>k \<in> set keys. pget d k = PInt 0)"
proof (induction keys arbitrary: cs)
  case Nil
  then show ?case by simp
next
  case (Cons k keys)
  then show ?case
    by (cases "pget d k") (auto simp: rbind_Inr_iff split: if_splits)
qed

lemma p118_validate_zero_counters_result:
  assumes "p118_validate_zero_counters v = Inr cs"
  shows "cs = p118_zero_counters"
proof -
  from assms obtain d where "check_zero_counters p118_contract_error d P118_AUTHORITY_COUNTER_KEYS = Inr cs"
    by (auto simp: p118_validate_zero_counters_def split: pyval.splits list.splits)
  then show ?thesis unfolding p118_zero_counters_def by (blast dest: check_zero_counters_result)
qed

lemma p118_action_level_result:
  "p118_action_level v = Inr s \<Longrightarrow> \<exists>ds n. s = CHR ''L'' # ds \<and> digits_value False 0 ds = Some n \<and> n \<le> 3"
proof -
  have digits: "list_all is_digit ds \<Longrightarrow> ds \<noteq> [] \<or> b \<Longrightarrow> digits_value b n ds \<noteq> None" for b n ds
    by (induction b n ds rule: digits_value.induct) (auto simp: is_digit_def Let_def split: if_splits)
  assume "p118_action_level v = Inr s"
  then obtain c ds where "c = CHR ''L''" "ds \<noteq> []" "list_all is_digit ds" "s = c # ds"
    "the (digits_value False 0 ds) \<le> 3"
    by (auto simp: p118_action_level_def split: pyval.splits list.splits if_splits)
  with digits [of ds False 0] show ?thesis by auto
qed

lemma p118_fixture_target_result:
  "p118_fixture_target v = Inr s \<Longrightarrow>
     list_ex (py_startswith s) LOCAL_TARGET_PREFIXES \<and> \<not> forbidden_text [] s"
  by (auto simp: p118_fixture_target_def split: pyval.splits if_splits)


definition demo_digest :: string where
  "demo_digest = replicate 64 (CHR ''0'')"

definition demo_envelope_data :: "string \<Rightarrow> pydict" where
  "demo_envelope_data key =
     [(''operation_id'', PStr ''op''), (''schema_version'', PStr P118_OPERATION_SCHEMA_VERSION),
      (''p117_decision_episode_id'', PStr ''e''), (''p117_selected_action_pack_id'', PStr ''p''),
      (''p115_action_pack_digest'', PStr (''sha256:'' @ replicate 64 (CHR ''a''))),
      (''fixture_target_id'', PStr ''mock:fixture:d''), (''action_level'', PStr ''L2''),
      (''precondition_refs'', PList [PStr ''r'']), (''validation_plan_ref'', PStr ''v''),
      (''rollback_plan_ref'', PStr ''b''),
      (''approval_receipt'', PDict [(''approved'', PBool True)]),
      (''lease_receipt'', PDict [(''owner_id'', PStr ''w'')]), (''wal_position'', PInt 0),
      (''cas_version'', PInt 0), (''idempotency_key'', PStr key),
      (''authority_counter_snapshot'', PDict p118_zero_counters)]"

definition demo_envelope :: "string \<Rightarrow> p118_envelope" where
  "demo_envelope key =
     \<lparr>env_operation_id = ''op'', env_schema_version = P118_OPERATION_SCHEMA_VERSION,
      env_payload =
        [(''operation_id'', PStr ''op''), (''schema_version'', PStr P118_OPERATION_SCHEMA_VERSION),
         (''p117_decision_episode_id'', PStr ''e''), (''p117_selected_action_pack_id'', PStr ''p''),
         (''p115_action_pack_digest'', PStr (''sha256:'' @ replicate 64 (CHR ''a''))),
         (''fixture_target_id'', PStr ''mock:fixture:d''), (''action_level'', PStr ''L2''),
         (''precondition_refs'', PList [PStr ''r'']), (''validation_plan_ref'', PStr ''v''),
         (''rollback_plan_ref'', PStr ''b''),
         (''approval_receipt'', PDict [(''approved'', PBool True)]),
         (''lease_receipt'', PDict [(''owner_id'', PStr ''w'')]), (''wal_position'', PInt 0),
         (''cas_version'', PInt 0), (''idempotency_key'', PStr key),
         (''authority_counter_snapshot'', PDict p118_zero_counters),
         (''lifecycle_states'', PList (map PStr (sort P118_LIFECYCLE_STATES))),
         (''terminal_statuses'', PList (map PStr (sort P118_TERMINAL_STATUSES))),
         (''envelope_hash'', PStr (''sha256:'' @ demo_digest))]\<rparr>"

lemma demo_envelope_built:
  "build_operation_envelope (\<lambda>_. demo_digest) (demo_envelope_data ''k'') = Inr (demo_envelope ''k'')"
  by code_simp

lemma demo_envelope_built_again:
  "build_operation_envelope (\<lambda>_. demo_digest) (demo_envelope_data ''k2'') = Inr (demo_envelope ''k2'')"
  by code_simp


text \<open>The boundary check accepts a value exactly when no text and no field that is found in it
  outside counter fields is forbidden.\<close>

theorem p118_boundary_check_exact:
  "p118_reject_authority_boundary d = Inr () \<longleftrightarrow> p118_clean (PDict d)"
  by (simp only: p118_reject_authority_boundary_def p118_reject_iff(1))

end
