(* ===== verification/Hash_Chain.thy ===== *)
theory Hash_Chain
  imports Prelude "HOL-Library.Multiset"
begin

text \<open>
  The contract of an append-only log in which every entry names its position, the hash of its
  predecessor and its own hash.  \<open>pos_ok i e\<close> says that entry \<open>e\<close> may stand at position \<open>i\<close>,
  \<open>sealed e\<close> that its own hash is the digest of its content.
\<close>

fun chain_from :: "(nat \<Rightarrow> 'e \<Rightarrow> bool) \<Rightarrow> ('e \<Rightarrow> 'h) \<Rightarrow> ('e \<Rightarrow> 'h) \<Rightarrow> ('e \<Rightarrow> bool)
    \<Rightarrow> nat \<Rightarrow> 'h \<Rightarrow> 'e list \<Rightarrow> bool" where
  "chain_from pos_ok prev own sealed n h [] = True"
| "chain_from pos_ok prev own sealed n h (e # es) =
     (pos_ok n e \<and> prev e = h \<and> sealed e \<and> chain_from pos_ok prev own sealed (Suc n) (own e) es)"

definition chain_tip :: "('e \<Rightarrow> 'h) \<Rightarrow> 'h \<Rightarrow> 'e list \<Rightarrow> 'h" where
  "chain_tip own h es = (if es = [] then h else own (last es))"

lemma chain_from_append:
  "chain_from po pr ow se n h (xs @ ys) \<longleftrightarrow>
     chain_from po pr ow se n h xs \<and> chain_from po pr ow se (n + length xs) (chain_tip ow h xs) ys"
  by (induction xs arbitrary: n h) (auto simp: chain_tip_def)

lemma chain_from_pos:
  "chain_from po pr ow se n h es \<Longrightarrow> i < length es \<Longrightarrow> po (n + i) (es ! i)"
proof (induction es arbitrary: n h i)
  case Nil
  then show ?case by simp
next
  case (Cons e es)
  then show ?case by (cases i) fastforce+
qed

locale hash_chain =
  fixes pos_ok :: "nat \<Rightarrow> 'e \<Rightarrow> bool"
    and prev :: "'e \<Rightarrow> 'h"
    and own :: "'e \<Rightarrow> 'h"
    and sealed :: "'e \<Rightarrow> bool"
    and genesis :: 'h
  assumes pos_unique: "pos_ok i e \<Longrightarrow> pos_ok j e \<Longrightarrow> i = j"
begin

definition valid :: "'e list \<Rightarrow> bool" where
  "valid es = chain_from pos_ok prev own sealed 0 genesis es"

lemma valid_Nil: "valid []"
  by (simp add: valid_def)

lemma valid_snoc:
  "valid (es @ [e]) \<longleftrightarrow>
     valid es \<and> pos_ok (length es) e \<and> prev e = chain_tip own genesis es \<and> sealed e"
  by (simp add: valid_def chain_from_append)

lemma valid_prefix: "valid (xs @ ys) \<Longrightarrow> valid xs"
  by (simp add: valid_def chain_from_append)

lemma valid_pos: "valid es \<Longrightarrow> i < length es \<Longrightarrow> pos_ok i (es ! i)"
  using chain_from_pos [where n = 0] unfolding valid_def by fastforce

lemma valid_distinct: "valid es \<Longrightarrow> distinct es"
  unfolding distinct_conv_nth by (metis pos_unique valid_pos)

text \<open>Entries of a valid log can only be kept in place: what is left after dropping, copying or
  moving entries verifies only if it is a prefix.\<close>

lemma valid_subset_prefix:
  assumes "valid es" and "valid es'" and "set es' \<subseteq> set es"
  shows "es' = take (length es') es"
proof (rule nth_equalityI)
  have "card (set es') \<le> card (set es)" using assms(3) by (intro card_mono) auto
  then have le: "length es' \<le> length es"
    using valid_distinct [OF assms(1)] valid_distinct [OF assms(2)] by (simp add: distinct_card)
  then show "length es' = length (take (length es') es)" by simp
  fix i
  assume i: "i < length es'"
  then obtain j where j: "j < length es" "es ! j = es' ! i"
    using assms(3) by (metis in_set_conv_nth nth_mem subsetD)
  have "j = i" using valid_pos [OF assms(1) j(1)] valid_pos [OF assms(2) i] j(2) pos_unique by metis
  with j le i show "es' ! i = take (length es') es ! i" by simp
qed

lemma valid_reorder:
  assumes "valid es" and "valid es'" and "mset es' = mset es"
  shows "es' = es"
  using valid_subset_prefix [OF assms(1,2)] assms(3) by (metis mset_eq_length mset_eq_setD order_refl take_all)

end

end
