(* ===== verification/Wal_Store.thy ===== *)
theory Wal_Store
  imports Hash_Chain
begin

text \<open>
  What the two ledgers (\<open>app/services/p118_ledger.py\<close>, \<open>app/services/p119_ledger.py\<close>) share: the
  write-ahead log file, its loading, and the verification of its hash chain.

  The file is a list of lines.  A line is blank, is a JSON text, or is not JSON.  Written entries
  are values; a value read back has its keys sorted, which no part of the program observes (it
  looks keys up, and \<open>stable_hash\<close> sorts them), so the model keeps the entry as it was written.
  A store is one Python object: the file it shares with other processes, and the entries it cached
  at its last access.  \<open>flock\<close> makes each append atomic, and the code before the append reads the
  cache only, so an operation is one atomic step on the file.
\<close>

section \<open>The file\<close>

datatype wal_line = WL_Blank | WL_Json pyval | WL_Garbage

record wal_store =
  ws_file :: "wal_line list"
  ws_entries :: "pydict list"

fun load_entries :: "exn \<Rightarrow> wal_line list \<Rightarrow> pydict list result" where
  "load_entries bad [] = Inr []"
| "load_entries bad (WL_Blank # ls) = load_entries bad ls"
| "load_entries bad (WL_Garbage # ls) = Inl (Raised ''JSONDecodeError'' ''Expecting value'')"
| "load_entries bad (WL_Json v # ls) =
     (case v of PDict d \<Rightarrow> rbind (load_entries bad ls) (\<lambda>es. Inr (d # es)) | _ \<Rightarrow> Inl bad)"

lemma load_entries_append:
  "load_entries bad ls = Inr es \<Longrightarrow> load_entries bad (ls @ [WL_Json (PDict e)]) = Inr (es @ [e])"
  by (induction bad ls arbitrary: es rule: load_entries.induct)
     (auto simp: rbind_Inr_iff split: pyval.splits)

section \<open>The hash chain\<close>

text \<open>The hashed content of an entry: every item but its own hash.\<close>

definition entry_digest :: "(string \<Rightarrow> string) \<Rightarrow> pydict \<Rightarrow> string" where
  "entry_digest sha e = stable_hash sha (PDict (pwithout [''receipt_hash''] e))"

definition entry_pos_ok :: "nat \<Rightarrow> pydict \<Rightarrow> bool" where
  "entry_pos_ok i e = py_eq (pget e ''wal_position'') (PInt (int i))"

definition entry_prev :: "pydict \<Rightarrow> pyval" where
  "entry_prev e = pget e ''previous_hash''"

definition entry_own :: "pydict \<Rightarrow> pyval" where
  "entry_own e = pget e ''receipt_hash''"

definition entry_sealed :: "(string \<Rightarrow> string) \<Rightarrow> pydict \<Rightarrow> bool" where
  "entry_sealed sha e = (pget e ''receipt_hash'' = PStr (entry_digest sha e))"

lemma py_eq_PInt_unique: "py_eq v (PInt i) \<Longrightarrow> py_eq v (PInt j) \<Longrightarrow> i = j"
  by (cases v) (auto split: if_splits)

interpretation wal: hash_chain entry_pos_ok entry_prev entry_own "entry_sealed sha" "PStr ''''" for sha
  by unfold_locales (auto simp: entry_pos_ok_def dest: py_eq_PInt_unique)

text \<open>A value that a Python set cannot hold.\<close>

fun unhashable :: "pyval \<Rightarrow> bool" where
  "unhashable (PList _) = True"
| "unhashable (PDict _) = True"
| "unhashable _ = False"

text \<open>
  The loop of \<open>verify_hash_chain\<close>.  The positions seen so far are \<open>0 .. index - 1\<close>, so membership
  in that set is equality with one of them; testing an unhashable position raises.
\<close>

definition seen_position :: "nat \<Rightarrow> pyval \<Rightarrow> bool" where
  "seen_position index v = list_ex (\<lambda>i. py_eq v (PInt (int i))) [0..<index]"

fun verify_loop :: "(string \<Rightarrow> string) \<Rightarrow> nat \<Rightarrow> string \<Rightarrow> pydict list \<Rightarrow> bool result" where
  "verify_loop sha index previous [] = Inr True"
| "verify_loop sha index previous (e # es) =
     (if unhashable (pget e ''wal_position'') then Inl (Raised ''TypeError'' ''unhashable type'')
      else if seen_position index (pget e ''wal_position'') \<or> \<not> entry_pos_ok index e then Inr False
      else if \<not> py_eq (pget e ''previous_hash'') (PStr previous) then Inr False
      else let receipt_hash = py_str (pget_or e ''receipt_hash'' (PStr '''')) in
      if receipt_hash \<noteq> entry_digest sha e then Inr False
      else verify_loop sha (Suc index) receipt_hash es)"

definition verify_hash_chain :: "(string \<Rightarrow> string) \<Rightarrow> pydict list \<Rightarrow> bool result" where
  "verify_hash_chain sha es = verify_loop sha 0 '''' es"

definition wal_valid :: "(string \<Rightarrow> string) \<Rightarrow> pydict list \<Rightarrow> bool" where
  "wal_valid sha es = chain_from entry_pos_ok entry_prev entry_own (entry_sealed sha) 0 (PStr '''') es"

section \<open>Verification decides validity\<close>

lemma show_nat_hd: "\<exists>d ds. d < 10 \<and> show_nat n = digit_char d # ds"
proof (induction n rule: show_nat.induct)
  case (1 n)
  show ?case
  proof (cases "n < 10")
    case True
    then show ?thesis by (subst show_nat.simps) auto
  next
    case False
    with 1 obtain d ds where "d < 10" "show_nat (n div 10) = digit_char d # ds" by blast
    with False show ?thesis by (subst show_nat.simps) auto
  qed
qed

lemma digit_char_not_letter: "d < 10 \<Longrightarrow> digit_char d \<noteq> CHR ''s''"
proof
  assume "d < 10" and "digit_char d = CHR ''s''"
  then have "(of_char (digit_char d) :: nat) = of_char (CHR ''s'')" by simp
  with \<open>d < 10\<close> show False by (simp add: digit_char_def)
qed

lemma show_nat_not_letter: "show_nat n \<noteq> CHR ''s'' # t" "show_nat n @ r \<noteq> CHR ''s'' # t"
  using show_nat_hd [of n] digit_char_not_letter by (metis append_Cons list.inject)+

lemma py_str_sha256: "py_str v = ''sha256:'' @ x \<longleftrightarrow> v = PStr (''sha256:'' @ x)"
  using show_nat_not_letter
  by (cases v) (auto simp: show_int_def show_float_def Let_def split: if_splits)

lemma py_str_stable_hash: "py_str v = stable_hash sha w \<longleftrightarrow> v = PStr (stable_hash sha w)"
  unfolding stable_hash_def by (rule py_str_sha256)

lemma entry_digest_nonempty [simp]: "entry_digest sha e \<noteq> []"
  by (simp add: entry_digest_def stable_hash_def)

lemma entry_hash_test:
  "py_str (pget_or e ''receipt_hash'' (PStr '''')) = entry_digest sha e \<longleftrightarrow> entry_sealed sha e"
proof -
  have "py_str (pget_or e ''receipt_hash'' (PStr '''')) = entry_digest sha e \<longleftrightarrow>
        pget_or e ''receipt_hash'' (PStr '''') = PStr (entry_digest sha e)"
    unfolding entry_digest_def by (rule py_str_stable_hash)
  also have "\<dots> \<longleftrightarrow> entry_sealed sha e"
    using entry_digest_nonempty [of sha e]
    by (auto simp: entry_sealed_def pget_or_def pget_def simp del: entry_digest_nonempty split: option.splits)
  finally show ?thesis .
qed

lemma not_seen: "entry_pos_ok i e \<Longrightarrow> \<not> seen_position i (pget e ''wal_position'')"
  by (auto simp: seen_position_def list_ex_iff entry_pos_ok_def dest: py_eq_PInt_unique)

lemma pos_ok_hashable: "entry_pos_ok i e \<Longrightarrow> \<not> unhashable (pget e ''wal_position'')"
  by (cases "pget e ''wal_position''") (auto simp: entry_pos_ok_def)

lemma verify_loop_iff:
  "verify_loop sha n h es = Inr True \<longleftrightarrow>
     chain_from entry_pos_ok entry_prev entry_own (entry_sealed sha) n (PStr h) es"
proof (induction es arbitrary: n h)
  case Nil
  then show ?case by simp
next
  case (Cons e es)
  have own: "entry_sealed sha e \<Longrightarrow> entry_own e = PStr (py_str (pget_or e ''receipt_hash'' (PStr '''')))"
    by (auto simp: entry_sealed_def entry_own_def pget_or_def pget_def split: option.splits)
  show ?case
    using Cons own not_seen [of n e] pos_ok_hashable [of n e]
    by (auto simp: Let_def entry_hash_test entry_prev_def py_eq_str_iff)
qed

lemma verify_iff: "verify_hash_chain sha es = Inr True \<longleftrightarrow> wal_valid sha es"
  by (simp add: verify_hash_chain_def wal_valid_def verify_loop_iff)

lemma verify_valid [simp]: "wal_valid sha es \<Longrightarrow> verify_hash_chain sha es = Inr True"
  by (simp add: verify_iff)

lemma wal_valid_eq: "wal_valid sha es = wal.valid sha es"
  by (simp add: wal_valid_def wal.valid_def)

lemma wal_valid_Nil [simp]: "wal_valid sha []"
  by (simp add: wal_valid_def)

lemmas wal_valid_snoc = wal.valid_snoc [folded wal_valid_eq]
lemmas wal_valid_prefix = wal.valid_prefix [folded wal_valid_eq]
lemmas wal_valid_subset_prefix = wal.valid_subset_prefix [folded wal_valid_eq]

section \<open>Sealing an entry\<close>

text \<open>
  The common end of both \<open>_append\<close> methods: the entry is stamped with position and previous hash,
  then with its own hash.
\<close>

definition previous_hash :: "pydict list \<Rightarrow> string result" where
  "previous_hash es = (if es = [] then Inr '''' else
     rbind (pindex (last es) ''receipt_hash'') (\<lambda>v. Inr (py_str v)))"

definition seal_entry :: "(string \<Rightarrow> string) \<Rightarrow> pydict list \<Rightarrow> string \<Rightarrow> pydict \<Rightarrow> pydict" where
  "seal_entry sha es previous body =
     (let e = [(''wal_position'', PInt (int (length es))), (''previous_hash'', PStr previous)] @ body
      in e @ [(''receipt_hash'', PStr (stable_hash sha (PDict e)))])"

lemma pget_append_new: "\<not> phas d k \<Longrightarrow> pget (d @ [(k, v)]) k = v"
  by (auto simp: pget_def phas_def map_add_def)

lemma pget_append_other: "k' \<noteq> k \<Longrightarrow> pget (d @ [(k, v)]) k' = pget d k'"
  by (simp add: pget_def map_add_def split: option.splits)

lemma pwithout_absent: "\<not> phas d k \<Longrightarrow> pwithout [k] d = d"
  by (induction d) (auto simp: pwithout_def)

lemma pwithout_append: "pwithout ks (d @ e) = pwithout ks d @ pwithout ks e"
  by (simp add: pwithout_def)

lemma seal_sealed:
  assumes "\<not> phas body ''receipt_hash''"
  shows "entry_sealed sha (seal_entry sha es h body)"
proof -
  let ?e = "[(''wal_position'', PInt (int (length es))), (''previous_hash'', PStr h)] @ body"
  have new: "\<not> phas ?e ''receipt_hash''" using assms by simp
  have "pwithout [''receipt_hash''] (seal_entry sha es h body) = ?e"
    using pwithout_absent [OF assms] by (simp add: seal_entry_def Let_def pwithout_def)
  moreover have "pget (seal_entry sha es h body) ''receipt_hash'' = PStr (stable_hash sha (PDict ?e))"
    unfolding seal_entry_def Let_def by (rule pget_append_new [OF new])
  ultimately show ?thesis by (simp add: entry_sealed_def entry_digest_def)
qed

lemma previous_hash_valid:
  assumes "wal_valid sha es"
  shows "\<exists>h. previous_hash es = Inr h \<and> chain_tip entry_own (PStr '''') es = PStr h"
proof (cases es rule: rev_cases)
  case Nil
  then show ?thesis by (simp add: previous_hash_def chain_tip_def)
next
  case (snoc xs e)
  with assms have "entry_sealed sha e" by (simp add: wal_valid_snoc)
  then have "map_of e ''receipt_hash'' = Some (PStr (entry_digest sha e))"
    by (auto simp: entry_sealed_def pget_def split: option.splits)
  then show ?thesis
    by (simp add: snoc previous_hash_def chain_tip_def entry_own_def pindex_def pget_def)
qed

lemma seal_valid:
  assumes "wal_valid sha es" and "previous_hash es = Inr h"
    and "\<not> phas body ''receipt_hash''"
  shows "wal_valid sha (es @ [seal_entry sha es h body])"
proof -
  have "chain_tip entry_own (PStr '''') es = PStr h"
    using previous_hash_valid [OF assms(1)] assms(2) by auto
  moreover have "entry_pos_ok (length es) (seal_entry sha es h body)"
    and "entry_prev (seal_entry sha es h body) = PStr h"
    by (simp_all add: entry_pos_ok_def entry_prev_def seal_entry_def Let_def)
  ultimately show ?thesis using assms(1) seal_sealed [OF assms(3)] by (simp add: wal_valid_snoc)
qed

end
