(* ===== verification/Shared_Log.thy ===== *)
theory Shared_Log
  imports Wal_Store
begin

text \<open>
  What both ledgers promise about the file they share.  A log is built by appending sealed entries,
  each allowed by the log before it; a system is one file and any number of processes, each with
  the entries it cached at its last access.  The locale \<open>shared_log\<close> states what one method call of a
  ledger keeps of the log, and concludes what holds under every interleaving of calls.
\<close>

section \<open>Appending under the lock\<close>

text \<open>
  The body of both \<open>_append\<close> methods: the file is loaded, \<open>plan\<close> decides on the entry from what was
  loaded, and the entry goes to the file and to the cache.
\<close>

definition wal_append ::
    "exn \<Rightarrow> (pydict list \<Rightarrow> pydict result) \<Rightarrow> (wal_store, pydict) op" where
  "wal_append bad plan st =
     (case load_entries bad (ws_file st) of
        Inl x \<Rightarrow> (st, Inl x)
      | Inr es \<Rightarrow>
          (case plan es of
             Inl x \<Rightarrow> (st\<lparr>ws_entries := es\<rparr>, Inl x)
           | Inr e \<Rightarrow> (\<lparr>ws_file = ws_file st @ [WL_Json (PDict e)], ws_entries = es @ [e]\<rparr>, Inr e)))"

lemma wal_append_cases:
  assumes "wal_append bad plan st = (st', out)"
  obtains (unread) x where "st' = st" "out = Inl x"
  | (refused) es x where "load_entries bad (ws_file st) = Inr es" "ws_file st' = ws_file st"
      "ws_entries st' = es" "plan es = Inl x" "out = Inl x"
  | (appended) es e where "load_entries bad (ws_file st) = Inr es" "plan es = Inr e"
      "ws_file st' = ws_file st @ [WL_Json (PDict e)]" "ws_entries st' = es @ [e]" "out = Inr e"
      "load_entries bad (ws_file st') = Inr (es @ [e])"
proof (cases "load_entries bad (ws_file st)")
  case (Inl x)
  with assms show ?thesis by (intro unread) (auto simp: wal_append_def)
next
  case load: (Inr es)
  show ?thesis
  proof (cases "plan es")
    case (Inl x)
    with assms load show ?thesis by (intro refused [of es x]) (auto simp: wal_append_def)
  next
    case (Inr e)
    with assms load show ?thesis
      by (intro appended [of es e]) (auto simp: wal_append_def load_entries_append)
  qed
qed

section \<open>Logs\<close>

inductive wal_log :: "(string \<Rightarrow> string) \<Rightarrow> (pydict list \<Rightarrow> pydict \<Rightarrow> bool) \<Rightarrow> pydict list \<Rightarrow> bool"
  for sha ev where
  empty: "wal_log sha ev []"
| snoc: "wal_log sha ev es \<Longrightarrow> ev es body \<Longrightarrow> previous_hash es = Inr h \<Longrightarrow>
     wal_log sha ev (es @ [seal_entry sha es h body])"

lemma wal_log_valid:
  assumes "wal_log sha ev es" and "\<And>es body. ev es body \<Longrightarrow> \<not> phas body ''receipt_hash''"
  shows "wal_valid sha es"
  using assms(1) by induction (simp_all add: seal_valid assms(2))

lemma wal_log_take: "wal_log sha ev es \<Longrightarrow> wal_log sha ev (take k es)"
proof (induction rule: wal_log.induct)
  case empty
  then show ?case by (simp add: wal_log.empty)
next
  case (snoc es body h)
  then show ?case
  proof (cases "k \<le> length es")
    case False
    with wal_log.snoc [OF snoc.hyps] show ?thesis by simp
  qed simp
qed

lemma wal_log_entry:
  assumes "wal_log sha ev es" and "n < length es"
  obtains body h where "ev (take n es) body" "es ! n = seal_entry sha (take n es) h body"
proof -
  have "\<exists>body h. ev (take n es) body \<and> es ! n = seal_entry sha (take n es) h body"
    using assms
  proof (induction rule: wal_log.induct)
    case empty
    then show ?case by simp
  next
    case (snoc es body h)
    then show ?case
    proof (cases "n < length es")
      case True
      with snoc.IH show ?thesis by (simp add: nth_append)
    next
      case False
      with snoc.prems have "n = length es" by simp
      with snoc.hyps show ?thesis by (auto simp: nth_append)
    qed
  qed
  with that show ?thesis by blast
qed

section \<open>Processes sharing one file\<close>

record shared_system =
  sys_file :: "wal_line list"
  sys_cache :: "nat \<Rightarrow> pydict list"

text \<open>
  A step is one method call of one process: it starts from the cache of that process, however old,
  and meets the file as the others left it.
\<close>

inductive shared_reachable :: "('c \<Rightarrow> bool) \<Rightarrow> ('c \<Rightarrow> wal_store \<Rightarrow> wal_store) \<Rightarrow> shared_system \<Rightarrow> bool"
  for ok step where
  start: "shared_reachable ok step \<lparr>sys_file = [], sys_cache = (\<lambda>_. [])\<rparr>"
| call: "shared_reachable ok step y \<Longrightarrow> ok c \<Longrightarrow>
     st' = step c \<lparr>ws_file = sys_file y, ws_entries = sys_cache y p\<rparr> \<Longrightarrow>
     shared_reachable ok step \<lparr>sys_file = ws_file st', sys_cache = (sys_cache y)(p := ws_entries st')\<rparr>"

text \<open>What a call may do to the log: extend it, and leave the cache with a log it has seen.\<close>

definition log_extends ::
    "exn \<Rightarrow> (pydict list \<Rightarrow> bool) \<Rightarrow> pydict list \<Rightarrow> wal_store \<Rightarrow> wal_store \<Rightarrow> bool" where
  "log_extends bad is_log es st st' \<longleftrightarrow>
     (\<exists>es'. load_entries bad (ws_file st') = Inr es' \<and> is_log es' \<and> take (length es) es' = es
        \<and> ws_entries st' \<in> {ws_entries st, es, es'})"

lemma log_extends_refl: "load_entries bad (ws_file st) = Inr es \<Longrightarrow> is_log es \<Longrightarrow> log_extends bad is_log es st st"
  by (auto simp: log_extends_def)

lemma wal_append_extends:
  assumes "load_entries bad (ws_file st) = Inr es" and "is_log es" and "wal_append bad plan st = (st', out)"
    and "\<And>e. plan es = Inr e \<Longrightarrow> is_log (es @ [e])"
  shows "log_extends bad is_log es st st'"
  using assms(3)
proof (cases rule: wal_append_cases)
  case (unread x)
  with assms show ?thesis by (simp add: log_extends_refl)
next
  case (refused fs x)
  with assms show ?thesis by (auto simp: log_extends_def)
next
  case (appended fs e)
  with assms show ?thesis by (auto simp: log_extends_def)
qed

locale shared_log =
  fixes bad :: exn
    and is_log :: "pydict list \<Rightarrow> bool"
    and ok :: "'c \<Rightarrow> bool"
    and step :: "'c \<Rightarrow> wal_store \<Rightarrow> wal_store"
  assumes log_empty: "is_log []"
    and step_extends: "load_entries bad (ws_file st) = Inr es \<Longrightarrow> is_log es \<Longrightarrow> ws_entries st = take k es \<Longrightarrow>
          ok c \<Longrightarrow> log_extends bad is_log es st (step c st)"
begin

text \<open>Whatever the interleaving, the file holds a log and every cache is a prefix of it.\<close>

lemma reachable_log:
  assumes "shared_reachable ok step y"
  shows "\<exists>es. load_entries bad (sys_file y) = Inr es \<and> is_log es \<and> (\<forall>p. \<exists>k. sys_cache y p = take k es)"
  using assms
proof (induction rule: shared_reachable.induct)
  case start
  then show ?case by (auto intro: log_empty)
next
  case (call y c st' p)
  then obtain es where es: "load_entries bad (sys_file y) = Inr es" "is_log es"
    and caches: "\<forall>p. \<exists>k. sys_cache y p = take k es" by blast
  let ?st = "\<lparr>ws_file = sys_file y, ws_entries = sys_cache y p\<rparr>"
  obtain k where "sys_cache y p = take k es" using caches by blast
  then have "log_extends bad is_log es ?st st'"
    unfolding call.hyps(3) using es call.hyps(2) by (intro step_extends) auto
  then obtain es' where es': "load_entries bad (ws_file st') = Inr es'" "is_log es'"
    and pre: "take (length es) es' = es" and own: "ws_entries st' \<in> {sys_cache y p, es, es'}"
    by (auto simp: log_extends_def)
  have lift: "\<exists>k. take j es = take k es'" for j
    using pre by (metis take_take)
  have "\<exists>k. ((sys_cache y)(p := ws_entries st')) q = take k es'" for q
  proof (cases "q = p")
    case True
    have "\<exists>k. es = take k es'" "\<exists>k. es' = take k es'" using pre by (metis, metis take_all order_refl)
    then show ?thesis using True own caches lift by (auto simp del: take_all) metis
  next
    case False
    then show ?thesis using caches lift by simp metis
  qed
  with es' show ?case by auto
qed

end

end
