(* ===== verification/P118_Ledger.thy ===== *)
theory P118_Ledger
  imports P118_Contract Shared_Log
begin

text \<open>
  The append-only operation ledger of \<open>app/services/p118_ledger.py\<close>: registration with idempotency
  keys, compare-and-swap transitions under a lease, leases, and replay.  \<open>sha\<close> is SHA-256.
\<close>

section \<open>State, receipts, and append requests\<close>

definition p118_ledger_error :: "string \<Rightarrow> exn" where
  "p118_ledger_error m = Raised ''P118LedgerError'' m"

text \<open>The lease owner is \<open>PNone\<close> or whatever JSON value an entry carries.\<close>

record p118_state =
  ps_operation_id :: string
  ps_state :: string
  ps_cas_version :: int
  ps_idempotency_key :: string
  ps_payload_hash :: string
  ps_authority_counter_snapshot :: pydict
  ps_duplicate_action_count :: int
  ps_lease_owner_id :: pyval
  ps_lease_expires_at :: "int option"

record p118_receipt =
  pr_receipt_type :: string
  pr_operation_id :: string
  pr_state :: string
  pr_cas_version :: int
  pr_wal_position :: int
  pr_receipt_hash :: string
  pr_previous_hash :: string
  pr_duplicate_action_count :: int
  pr_lease_owner_id :: "string option"

text \<open>The arguments of \<open>_append\<close>; \<open>None\<close> and \<open>PNone\<close> are the defaults.\<close>

record p118_append_args =
  aa_operation_id :: string
  aa_receipt_type :: string
  aa_state :: string
  aa_cas_version :: int
  aa_lease_owner_id :: pyval
  aa_payload :: pydict
  aa_expected_prior_cas :: "int option"
  aa_expected_prior_state :: "string option"
  aa_expected_owner :: "string option"
  aa_expected_lease_owner :: pyval
  aa_expected_lease_expires_at :: "int option"
  aa_register :: "(string \<times> string) option"

definition p118_append_args_of ::
    "string \<Rightarrow> string \<Rightarrow> string \<Rightarrow> int \<Rightarrow> pyval \<Rightarrow> pydict \<Rightarrow> p118_append_args" where
  "p118_append_args_of operation_id receipt_type state cas_version owner payload =
     \<lparr>aa_operation_id = operation_id, aa_receipt_type = receipt_type, aa_state = state,
      aa_cas_version = cas_version, aa_lease_owner_id = owner, aa_payload = payload,
      aa_expected_prior_cas = None, aa_expected_prior_state = None, aa_expected_owner = None,
      aa_expected_lease_owner = PNone, aa_expected_lease_expires_at = None, aa_register = None\<rparr>"

section \<open>Replay\<close>

definition p118_registered_state :: "string \<Rightarrow> pyval \<Rightarrow> p118_state result" where
  "p118_registered_state operation_id payload =
     rbind (psub payload ''idempotency_key'') (\<lambda>key.
     rbind (psub payload ''payload_hash'') (\<lambda>hash.
     rbind (psub payload ''authority_counter_snapshot'') (\<lambda>snapshot.
     rbind (py_dict snapshot) (\<lambda>counters.
     rbind (pattr_get payload ''lease_owner_id'') (\<lambda>owner.
     Inr \<lparr>ps_operation_id = operation_id, ps_state = ''received'', ps_cas_version = 0,
          ps_idempotency_key = py_str key, ps_payload_hash = py_str hash,
          ps_authority_counter_snapshot = counters, ps_duplicate_action_count = 0,
          ps_lease_owner_id = (if truthy owner then PStr (py_str owner) else PNone),
          ps_lease_expires_at = None\<rparr>)))))"

text \<open>The loop body of \<open>replay\<close> for an entry of the operation, by its receipt type.\<close>

definition p118_replay_apply ::
    "string \<Rightarrow> pydict \<Rightarrow> pyval \<Rightarrow> pyval \<Rightarrow> p118_state option \<Rightarrow> p118_state option result" where
  "p118_replay_apply operation_id entry payload receipt_type state =
    (if py_eq receipt_type (PStr ''operation_registered'')
     then rbind (p118_registered_state operation_id payload) (\<lambda>s. Inr (Some s))
     else (case state of
        None \<Rightarrow> Inr None
      | Some s \<Rightarrow>
          if py_eq receipt_type (PStr ''state_transition'') then
            rbind (pindex entry ''state'') (\<lambda>st.
            rbind (pindex entry ''cas_version'') (\<lambda>cas.
            rbind (py_int cas) (\<lambda>cas_version.
            Inr (Some (s\<lparr>ps_state := py_str st, ps_cas_version := cas_version,
                         ps_duplicate_action_count := 0,
                         ps_lease_owner_id := (if pget entry ''lease_owner_id'' \<noteq> PNone
                                               then pget entry ''lease_owner_id''
                                               else ps_lease_owner_id s)\<rparr>)))))
          else if py_startswith (py_str receipt_type) ''lease_'' then
            rbind (pindex entry ''lease_owner_id'') (\<lambda>owner.
            rbind (psub payload ''lease_expires_at'') (\<lambda>expires.
            rbind (py_int expires) (\<lambda>expires_at.
            Inr (Some (s\<lparr>ps_duplicate_action_count := 0, ps_lease_owner_id := PStr (py_str owner),
                         ps_lease_expires_at := Some expires_at\<rparr>)))))
          else Inr (Some s)))"

definition p118_replay_step :: "string \<Rightarrow> pydict \<Rightarrow> p118_state option \<Rightarrow> p118_state option result" where
  "p118_replay_step operation_id entry state =
     rbind (pindex entry ''operation_id'') (\<lambda>entry_operation.
     if \<not> py_eq entry_operation (PStr operation_id) then Inr state
     else rbind (pindex entry ''payload'') (\<lambda>payload.
     rbind (pindex entry ''receipt_type'') (\<lambda>receipt_type.
     p118_replay_apply operation_id entry payload receipt_type state)))"

fun p118_replay_loop :: "string \<Rightarrow> pydict list \<Rightarrow> p118_state option \<Rightarrow> p118_state option result" where
  "p118_replay_loop operation_id [] state = Inr state"
| "p118_replay_loop operation_id (e # es) state =
     rbind (p118_replay_step operation_id e state) (p118_replay_loop operation_id es)"

definition p118_replay :: "(string \<Rightarrow> string) \<Rightarrow> pydict list \<Rightarrow> string \<Rightarrow> p118_state result" where
  "p118_replay sha es operation_id =
     rbind (verify_hash_chain sha es) (\<lambda>ok.
     if \<not> ok then Inl (p118_ledger_error ''wal_hash_chain_break'')
     else rbind (p118_replay_loop operation_id es None) (\<lambda>state.
       case state of None \<Rightarrow> Inl (p118_ledger_error ''unknown_operation'') | Some s \<Rightarrow> Inr s))"

section \<open>Append\<close>

text \<open>The operations registered under an idempotency key, in log order.\<close>

fun p118_registered_under :: "string \<Rightarrow> pydict list \<Rightarrow> string list result" where
  "p118_registered_under key [] = Inr []"
| "p118_registered_under key (e # es) =
     rbind (pindex e ''receipt_type'') (\<lambda>receipt_type.
     rbind (if py_eq receipt_type (PStr ''operation_registered'')
            then rbind (pindex e ''payload'') (\<lambda>p. rbind (psub p ''idempotency_key'') (\<lambda>k.
                   if py_eq k (PStr key)
                   then rbind (pindex e ''operation_id'') (\<lambda>i. Inr [py_str i]) else Inr []))
            else Inr []) (\<lambda>here.
     rbind (p118_registered_under key es) (\<lambda>rest. Inr (here @ rest))))"

definition p118_state_by_idempotency_key ::
    "(string \<Rightarrow> string) \<Rightarrow> pydict list \<Rightarrow> string \<Rightarrow> p118_state option result" where
  "p118_state_by_idempotency_key sha es key =
     rbind (p118_registered_under key es) (\<lambda>ids.
     if ids = [] then Inr None
     else rbind (p118_replay sha es (last ids)) (\<lambda>s. Inr (Some s)))"

text \<open>A registration under a known key becomes a replay receipt, or is refused.\<close>

definition p118_dedupe ::
    "(string \<Rightarrow> string) \<Rightarrow> pydict list \<Rightarrow> p118_append_args \<Rightarrow> p118_append_args result" where
  "p118_dedupe sha es a =
     (case aa_register a of
        None \<Rightarrow> Inr a
      | Some (key, hash) \<Rightarrow>
          rbind (p118_state_by_idempotency_key sha es key) (\<lambda>existing.
          case existing of
            None \<Rightarrow> Inr a
          | Some s \<Rightarrow>
              if ps_payload_hash s \<noteq> hash then Inl (p118_ledger_error ''idempotency_key_payload_mismatch'')
              else Inr (a\<lparr>aa_operation_id := ps_operation_id s, aa_receipt_type := ''idempotent_replay'',
                          aa_state := ps_state s, aa_cas_version := ps_cas_version s,
                          aa_lease_owner_id := ps_lease_owner_id s,
                          aa_payload := [(''duplicate_action_count'', PInt 0)]\<rparr>)))"

definition p118_check_cas :: "(string \<Rightarrow> string) \<Rightarrow> pydict list \<Rightarrow> p118_append_args \<Rightarrow> unit result" where
  "p118_check_cas sha es a =
     (case aa_expected_prior_cas a of
        None \<Rightarrow> Inr ()
      | Some cas \<Rightarrow>
          rbind (p118_replay sha es (aa_operation_id a)) (\<lambda>current.
          rbind (rguard (ps_cas_version current \<noteq> cas) (p118_ledger_error ''cas_conflict'')) (\<lambda>_.
          rbind (rguard (case aa_expected_prior_state a of None \<Rightarrow> False | Some st \<Rightarrow> ps_state current \<noteq> st)
                   (p118_ledger_error ''state_changed_during_cas'')) (\<lambda>_.
          rguard (case aa_expected_owner a of None \<Rightarrow> False
                    | Some w \<Rightarrow> \<not> py_eq (ps_lease_owner_id current) (PStr w))
            (p118_ledger_error ''lease_owner_mismatch'')))))"

definition p118_check_lease :: "(string \<Rightarrow> string) \<Rightarrow> pydict list \<Rightarrow> p118_append_args \<Rightarrow> unit result" where
  "p118_check_lease sha es a =
     (if aa_expected_lease_owner a = PNone \<and> aa_expected_lease_expires_at a = None then Inr ()
      else rbind (p118_replay sha es (aa_operation_id a)) (\<lambda>current.
        rguard (\<not> py_eq (ps_lease_owner_id current) (aa_expected_lease_owner a)
                \<or> ps_lease_expires_at current \<noteq> aa_expected_lease_expires_at a)
          (p118_ledger_error ''lease_changed_during_acquire'')))"

definition p118_entry_body :: "p118_append_args \<Rightarrow> pydict" where
  "p118_entry_body a =
     [(''operation_id'', PStr (aa_operation_id a)), (''receipt_type'', PStr (aa_receipt_type a)),
      (''state'', PStr (aa_state a)), (''cas_version'', PInt (aa_cas_version a)),
      (''lease_owner_id'', aa_lease_owner_id a),
      (''authority_counter_snapshot'', PDict p118_zero_counters), (''payload'', PDict (aa_payload a))]"

text \<open>Everything \<open>_append\<close> computes under the lock, from the entries it has just loaded.\<close>

definition p118_plan_entry ::
    "(string \<Rightarrow> string) \<Rightarrow> p118_append_args \<Rightarrow> pydict list \<Rightarrow> pydict result" where
  "p118_plan_entry sha a es =
     rbind (verify_hash_chain sha es) (\<lambda>ok.
     if \<not> ok then Inl (p118_ledger_error ''wal_hash_chain_break'')
     else rbind (p118_dedupe sha es a) (\<lambda>a'.
       rbind (p118_check_cas sha es a') (\<lambda>_.
       rbind (p118_check_lease sha es a') (\<lambda>_.
       rbind (previous_hash es) (\<lambda>previous.
       Inr (seal_entry sha es previous (p118_entry_body a')))))))"

definition p118_append :: "(string \<Rightarrow> string) \<Rightarrow> p118_append_args \<Rightarrow> (wal_store, pydict) op" where
  "p118_append sha a = wal_append (p118_ledger_error ''invalid_wal_entry'') (p118_plan_entry sha a)"

definition p118_receipt_from_entry :: "pydict \<Rightarrow> p118_receipt result" where
  "p118_receipt_from_entry e =
     rbind (pindex e ''receipt_type'') (\<lambda>t. rbind (pindex e ''operation_id'') (\<lambda>i.
     rbind (pindex e ''state'') (\<lambda>s. rbind (pindex e ''cas_version'') (\<lambda>c. rbind (py_int c) (\<lambda>cas.
     rbind (pindex e ''wal_position'') (\<lambda>w. rbind (py_int w) (\<lambda>pos.
     rbind (pindex e ''receipt_hash'') (\<lambda>h. rbind (pindex e ''previous_hash'') (\<lambda>p.
     rbind (py_int (case pget e ''payload'' of
                      PDict d \<Rightarrow> pget_or d ''duplicate_action_count'' (PInt 0) | _ \<Rightarrow> PInt 0)) (\<lambda>dup.
     Inr \<lparr>pr_receipt_type = py_str t, pr_operation_id = py_str i, pr_state = py_str s,
          pr_cas_version = cas, pr_wal_position = pos, pr_receipt_hash = py_str h,
          pr_previous_hash = py_str p, pr_duplicate_action_count = dup,
          pr_lease_owner_id = (if pget e ''lease_owner_id'' \<noteq> PNone
                               then Some (py_str (pget e ''lease_owner_id'')) else None)\<rparr>))))))))))"

definition p118_append_receipt :: "(string \<Rightarrow> string) \<Rightarrow> p118_append_args \<Rightarrow> (wal_store, p118_receipt) op" where
  "p118_append_receipt sha a = op_bind (p118_append sha a) (\<lambda>e. op_lift (p118_receipt_from_entry e))"

section \<open>Operations of the store\<close>

definition p118_open :: "wal_line list \<Rightarrow> wal_store result" where
  "p118_open ls =
     rbind (load_entries (p118_ledger_error ''invalid_wal_entry'') ls) (\<lambda>es.
     Inr \<lparr>ws_file = ls, ws_entries = es\<rparr>)"

definition p118_idempotency_payload :: "(string \<Rightarrow> string) \<Rightarrow> pydict \<Rightarrow> pydict result" where
  "p118_idempotency_payload sha payload =
     rbind (pindex payload ''operation_id'') (\<lambda>i.
     rbind (pindex payload ''p117_selected_action_pack_id'') (\<lambda>pack.
     rbind (pindex payload ''p115_action_pack_digest'') (\<lambda>digest.
     rbind (pindex payload ''fixture_target_id'') (\<lambda>target.
     rbind (pindex payload ''precondition_refs'') (\<lambda>refs.
     rbind (pindex payload ''envelope_hash'') (\<lambda>hash.
     Inr [(''operation_id'', i), (''p117_selected_action_pack_id'', pack),
          (''p115_action_pack_digest'', digest), (''fixture_target_id'', target),
          (''precondition_hash'', PStr (stable_hash sha refs)), (''payload_hash'', hash)]))))))"

text \<open>The arguments with which \<open>register_operation\<close> calls \<open>_append\<close>.\<close>

definition p118_registration :: "(string \<Rightarrow> string) \<Rightarrow> p118_envelope \<Rightarrow> p118_append_args result" where
  "p118_registration sha operation =
     (let payload = env_payload operation in
      rbind (p118_idempotency_payload sha payload) (\<lambda>idem_payload.
      let payload_hash = stable_hash sha (PDict idem_payload) in
      rbind (env_idempotency_key operation) (\<lambda>key.
      rbind (pindex payload ''authority_counter_snapshot'') (\<lambda>snapshot.
      let owner = py_str (pget_or (as_dict (pget payload ''lease_receipt'')) ''owner_id'' (PStr '''')) in
      Inr ((p118_append_args_of (env_operation_id operation) ''operation_registered'' ''received'' 0 PNone
            [(''operation'', PDict payload), (''idempotency_key'', PStr key),
             (''payload_hash'', PStr payload_hash), (''authority_counter_snapshot'', snapshot),
             (''duplicate_action_count'', PInt 0),
             (''lease_owner_id'', if owner \<noteq> [] then PStr owner else PNone)])
           \<lparr>aa_register := Some (key, payload_hash)\<rparr>)))))"

definition p118_register_operation ::
    "(string \<Rightarrow> string) \<Rightarrow> p118_envelope \<Rightarrow> (wal_store, p118_receipt) op" where
  "p118_register_operation sha operation =
     op_bind (op_lift (p118_registration sha operation)) (p118_append_receipt sha)"

text \<open>The arguments with which \<open>transition\<close> and \<open>record_lease\<close> call \<open>_append\<close>.\<close>

definition p118_transition_args ::
    "string \<Rightarrow> string \<Rightarrow> int \<Rightarrow> p118_state \<Rightarrow> string \<Rightarrow> pydict \<Rightarrow> p118_append_args" where
  "p118_transition_args operation_id next_state expected_cas_version s owner evidence =
     (p118_append_args_of operation_id ''state_transition'' next_state (ps_cas_version s + 1) (PStr owner)
        [(''from_state'', PStr (ps_state s)), (''to_state'', PStr next_state),
         (''duplicate_action_count'', PInt 0), (''evidence_receipt'', PDict evidence)])
     \<lparr>aa_expected_prior_cas := Some expected_cas_version,
      aa_expected_prior_state := Some (ps_state s), aa_expected_owner := Some owner\<rparr>"

definition p118_lease_args ::
    "string \<Rightarrow> string \<Rightarrow> int \<Rightarrow> string \<Rightarrow> pyval \<Rightarrow> int option \<Rightarrow> p118_state \<Rightarrow> p118_append_args" where
  "p118_lease_args operation_id owner_id expires_at receipt_type expected_owner expected_expires s =
     (p118_append_args_of operation_id receipt_type (ps_state s) (ps_cas_version s) (PStr owner_id)
        [(''lease_expires_at'', PInt expires_at), (''duplicate_action_count'', PInt 0)])
     \<lparr>aa_expected_lease_owner := expected_owner, aa_expected_lease_expires_at := expected_expires\<rparr>"

text \<open>\<open>transition\<close>; an empty or absent \<open>lease_owner_id\<close> is \<open>None\<close>.\<close>

definition p118_transition ::
    "(string \<Rightarrow> string) \<Rightarrow> string \<Rightarrow> string \<Rightarrow> int \<Rightarrow> string option \<Rightarrow> pydict \<Rightarrow> (wal_store, p118_receipt) op" where
  "p118_transition sha operation_id next_state expected_cas_version lease_owner_id evidence st =
     (case p118_replay sha (ws_entries st) operation_id of
        Inl x \<Rightarrow> (st, Inl x)
      | Inr s \<Rightarrow>
          if p118_terminal (ps_state s) then (st, Inl (p118_ledger_error ''terminal_state_reopened''))
          else if expected_cas_version \<noteq> ps_cas_version s then (st, Inl (p118_ledger_error ''cas_conflict''))
          else (case lease_owner_id of
             None \<Rightarrow> (st, Inl (p118_ledger_error ''lease_owner_mismatch''))
           | Some owner \<Rightarrow>
               if owner = [] \<or> \<not> py_eq (ps_lease_owner_id s) (PStr owner)
               then (st, Inl (p118_ledger_error ''lease_owner_mismatch''))
               else if next_state \<notin> set (p118_successors (ps_state s))
               then (st, Inl (p118_ledger_error ''illegal_state_transition''))
               else p118_append_receipt sha
                 (p118_transition_args operation_id next_state expected_cas_version s owner evidence) st))"

definition p118_record_lease ::
    "(string \<Rightarrow> string) \<Rightarrow> string \<Rightarrow> string \<Rightarrow> int \<Rightarrow> string \<Rightarrow> pyval \<Rightarrow> int option
     \<Rightarrow> (wal_store, p118_receipt) op" where
  "p118_record_lease sha operation_id owner_id expires_at receipt_type expected_owner expected_expires st =
     (case p118_replay sha (ws_entries st) operation_id of
        Inl x \<Rightarrow> (st, Inl x)
      | Inr s \<Rightarrow>
          p118_append_receipt sha
            (p118_lease_args operation_id owner_id expires_at receipt_type expected_owner expected_expires s) st)"

section \<open>What appended entries mean\<close>

lemma p118_replay_loop_append:
  "p118_replay_loop i (es @ fs) st = rbind (p118_replay_loop i es st) (p118_replay_loop i fs)"
proof (induction es arbitrary: st)
  case Nil
  then show ?case by simp
next
  case (Cons e es)
  then show ?case by (cases "p118_replay_step i e st") simp_all
qed

lemma p118_replay_loop_snoc:
  "p118_replay_loop i (es @ [e]) st = rbind (p118_replay_loop i es st) (p118_replay_step i e)"
  by (cases "p118_replay_loop i es st") (simp_all add: p118_replay_loop_append rbind_def split: sum.splits)

lemma sealed_body_index [simp]:
  "pindex (seal_entry sha es h (p118_entry_body a)) ''operation_id'' = Inr (PStr (aa_operation_id a))"
  "pindex (seal_entry sha es h (p118_entry_body a)) ''receipt_type'' = Inr (PStr (aa_receipt_type a))"
  "pindex (seal_entry sha es h (p118_entry_body a)) ''payload'' = Inr (PDict (aa_payload a))"
  "pindex (seal_entry sha es h (p118_entry_body a)) ''state'' = Inr (PStr (aa_state a))"
  "pindex (seal_entry sha es h (p118_entry_body a)) ''cas_version'' = Inr (PInt (aa_cas_version a))"
  "pindex (seal_entry sha es h (p118_entry_body a)) ''lease_owner_id'' = Inr (aa_lease_owner_id a)"
  "pget (seal_entry sha es h (p118_entry_body a)) ''lease_owner_id'' = aa_lease_owner_id a"
  "pget (seal_entry sha es h (p118_entry_body a)) ''payload'' = PDict (aa_payload a)"
  "pindex (seal_entry sha es h (p118_entry_body a)) ''wal_position'' = Inr (PInt (int (length es)))"
  "pindex (seal_entry sha es h (p118_entry_body a)) ''previous_hash'' = Inr (PStr h)"
  by (simp_all add: seal_entry_def p118_entry_body_def Let_def)

lemma p118_body_no_hash [simp]: "\<not> phas (p118_entry_body a) ''receipt_hash''"
  by (simp add: p118_entry_body_def)

text \<open>The effect of one appended entry on the replay of operation \<open>i\<close>.\<close>

lemma p118_step_sealed:
  "p118_replay_step i (seal_entry sha es h (p118_entry_body a)) st =
     (if aa_operation_id a \<noteq> i then Inr st
      else if aa_receipt_type a = ''operation_registered''
      then rbind (p118_registered_state i (PDict (aa_payload a))) (\<lambda>s. Inr (Some s))
      else (case st of
         None \<Rightarrow> Inr None
       | Some s \<Rightarrow>
           if aa_receipt_type a = ''state_transition'' then
             Inr (Some (s\<lparr>ps_state := aa_state a, ps_cas_version := aa_cas_version a,
                          ps_duplicate_action_count := 0,
                          ps_lease_owner_id := (if aa_lease_owner_id a \<noteq> PNone then aa_lease_owner_id a
                                                else ps_lease_owner_id s)\<rparr>))
           else if py_startswith (aa_receipt_type a) ''lease_'' then
             rbind (pindex (aa_payload a) ''lease_expires_at'') (\<lambda>v. rbind (py_int v) (\<lambda>t.
             Inr (Some (s\<lparr>ps_duplicate_action_count := 0,
                          ps_lease_owner_id := PStr (py_str (aa_lease_owner_id a)),
                          ps_lease_expires_at := Some t\<rparr>))))
           else Inr (Some s)))"
  by (auto simp: p118_replay_step_def p118_replay_apply_def split: option.splits)

section \<open>Abstract specification of the log\<close>

text \<open>
  The events that may follow a log: a first registration under a fresh key, a repeated
  registration, a lease, and a transition that is legal from the replayed state, advances its CAS
  version by one, and is made by the owner of the lease.
\<close>

inductive p118_event :: "(string \<Rightarrow> string) \<Rightarrow> pydict list \<Rightarrow> p118_append_args \<Rightarrow> bool" for sha where
  register: "build_operation_envelope sha data = Inr env \<Longrightarrow> p118_registration sha env = Inr a \<Longrightarrow>
     aa_register a = Some (key, hash) \<Longrightarrow> p118_registered_under key es = Inr [] \<Longrightarrow> p118_event sha es a"
| duplicate: "aa_receipt_type a = ''idempotent_replay'' \<Longrightarrow>
     p118_replay sha es (aa_operation_id a) = Inr s \<Longrightarrow> aa_state a = ps_state s \<Longrightarrow>
     aa_cas_version a = ps_cas_version s \<Longrightarrow> p118_event sha es a"
| lease: "py_startswith (aa_receipt_type a) ''lease_'' \<Longrightarrow> aa_lease_owner_id a = PStr owner \<Longrightarrow>
     aa_payload a = [(''lease_expires_at'', PInt t), (''duplicate_action_count'', PInt 0)] \<Longrightarrow>
     p118_event sha es a"
| transition: "aa_receipt_type a = ''state_transition'' \<Longrightarrow>
     p118_replay sha es (aa_operation_id a) = Inr s \<Longrightarrow> \<not> p118_terminal (ps_state s) \<Longrightarrow>
     aa_state a \<in> set (p118_successors (ps_state s)) \<Longrightarrow> aa_cas_version a = ps_cas_version s + 1 \<Longrightarrow>
     ps_lease_owner_id s = PStr owner \<Longrightarrow> owner \<noteq> [] \<Longrightarrow> aa_lease_owner_id a = PStr owner \<Longrightarrow>
     p118_event sha es a"

definition p118_allowed :: "(string \<Rightarrow> string) \<Rightarrow> pydict list \<Rightarrow> pydict \<Rightarrow> bool" where
  "p118_allowed sha es body \<longleftrightarrow> (\<exists>a. p118_event sha es a \<and> body = p118_entry_body a)"

abbreviation p118_log :: "(string \<Rightarrow> string) \<Rightarrow> pydict list \<Rightarrow> bool" where
  "p118_log sha \<equiv> wal_log sha (p118_allowed sha)"

lemma p118_log_valid: "p118_log sha es \<Longrightarrow> wal_valid sha es"
  by (erule wal_log_valid) (auto simp: p118_allowed_def)

text \<open>The payload of a built envelope, by its items.\<close>

definition p118_payload :: "string \<Rightarrow> string \<Rightarrow> string \<Rightarrow> string \<Rightarrow> string \<Rightarrow> string \<Rightarrow> string list \<Rightarrow> string
    \<Rightarrow> string \<Rightarrow> pydict \<Rightarrow> pydict \<Rightarrow> int \<Rightarrow> int \<Rightarrow> string \<Rightarrow> string \<Rightarrow> pydict" where
  "p118_payload i e p d t l pre v r ap le w c k h =
     [(''operation_id'', PStr i), (''schema_version'', PStr P118_OPERATION_SCHEMA_VERSION),
      (''p117_decision_episode_id'', PStr e), (''p117_selected_action_pack_id'', PStr p),
      (''p115_action_pack_digest'', PStr d), (''fixture_target_id'', PStr t),
      (''action_level'', PStr l), (''precondition_refs'', PList (map PStr pre)),
      (''validation_plan_ref'', PStr v), (''rollback_plan_ref'', PStr r),
      (''approval_receipt'', PDict (plain_mapping ap)), (''lease_receipt'', PDict (plain_mapping le)),
      (''wal_position'', PInt w), (''cas_version'', PInt c), (''idempotency_key'', PStr k),
      (''authority_counter_snapshot'', PDict p118_zero_counters),
      (''lifecycle_states'', PList (map PStr (sort P118_LIFECYCLE_STATES))),
      (''terminal_statuses'', PList (map PStr (sort P118_TERMINAL_STATUSES))),
      (''envelope_hash'', PStr h)]"

lemma p118_payload_index:
  "pindex (p118_payload i e p d t l pre v r ap le w c k h) ''operation_id'' = Inr (PStr i)"
  "pindex (p118_payload i e p d t l pre v r ap le w c k h) ''p117_selected_action_pack_id'' = Inr (PStr p)"
  "pindex (p118_payload i e p d t l pre v r ap le w c k h) ''p115_action_pack_digest'' = Inr (PStr d)"
  "pindex (p118_payload i e p d t l pre v r ap le w c k h) ''fixture_target_id'' = Inr (PStr t)"
  "pindex (p118_payload i e p d t l pre v r ap le w c k h) ''precondition_refs'' = Inr (PList (map PStr pre))"
  "pindex (p118_payload i e p d t l pre v r ap le w c k h) ''envelope_hash'' = Inr (PStr h)"
  "pindex (p118_payload i e p d t l pre v r ap le w c k h) ''idempotency_key'' = Inr (PStr k)"
  "pindex (p118_payload i e p d t l pre v r ap le w c k h) ''authority_counter_snapshot''
     = Inr (PDict p118_zero_counters)"
  "pget (p118_payload i e p d t l pre v r ap le w c k h) ''idempotency_key'' = PStr k"
  "pget (p118_payload i e p d t l pre v r ap le w c k h) ''lease_receipt'' = PDict (plain_mapping le)"
  by (simp_all add: p118_payload_def)

lemma p118_envelope_shape:
  assumes "build_operation_envelope sha data = Inr env"
  obtains i e p d t l pre v r ap le w c k h where "env_operation_id env = i"
    "env_payload env = p118_payload i e p d t l pre v r ap le w c k h"
proof (cases "missing_field data P118_REQUIRED_FIELDS")
  case None
  from assms show ?thesis
    unfolding build_operation_envelope_def None option.case Let_def
  proof (elim rbind_InrE, goal_cases)
    case (1 x1 x2 i l t d pre v r ap le w c counters e p k)
    have "counters = p118_zero_counters" using 1 by (blast dest: p118_validate_zero_counters_result)
    moreover note 1(18)
    ultimately show ?thesis
      by (intro that [of i e p d t l pre v r ap le w c k]) (auto simp only: p118_payload_def sum.inject
          p118_envelope.select_convs append.simps)
  qed
qed (use assms in \<open>simp add: build_operation_envelope_def\<close>)

text \<open>What a built envelope is registered as.\<close>

definition p118_fresh_state :: "string \<Rightarrow> string \<Rightarrow> string \<Rightarrow> pyval \<Rightarrow> p118_state" where
  "p118_fresh_state i key hash owner =
     \<lparr>ps_operation_id = i, ps_state = ''received'', ps_cas_version = 0, ps_idempotency_key = key,
      ps_payload_hash = hash, ps_authority_counter_snapshot = p118_zero_counters,
      ps_duplicate_action_count = 0, ps_lease_owner_id = owner, ps_lease_expires_at = None\<rparr>"

lemma p118_registration_built:
  assumes "build_operation_envelope sha data = Inr env"
  obtains a key hash owner where "p118_registration sha env = Inr a" "aa_register a = Some (key, hash)"
    "aa_operation_id a = env_operation_id env" "aa_receipt_type a = ''operation_registered''"
    "aa_state a = ''received''" "aa_cas_version a = 0"
    "pget (env_payload env) ''idempotency_key'' = PStr key"
    "\<And>i. p118_registered_state i (PDict (aa_payload a)) = Inr (p118_fresh_state i key hash owner)"
    "pget (aa_payload a) ''idempotency_key'' = PStr key"
    "aa_expected_prior_cas a = None" "aa_expected_lease_owner a = PNone"
    "aa_expected_lease_expires_at a = None" "owner \<in> insert PNone (range PStr)"
proof -
  obtain i e p d t l pre v r ap le w c k h where
    env: "env_operation_id env = i" "env_payload env = p118_payload i e p d t l pre v r ap le w c k h"
    by (rule p118_envelope_shape [OF assms])
  define hash where "hash = stable_hash sha (PDict
     [(''operation_id'', PStr i), (''p117_selected_action_pack_id'', PStr p),
      (''p115_action_pack_digest'', PStr d), (''fixture_target_id'', PStr t),
      (''precondition_hash'', PStr (stable_hash sha (PList (map PStr pre)))), (''payload_hash'', PStr h)])"
  define owner where "owner = py_str (pget_or (plain_mapping le) ''owner_id'' (PStr ''''))"
  show ?thesis
  proof (rule that [where key = k and hash = hash and owner = "if owner \<noteq> [] then PStr owner else PNone"])
    show "p118_registration sha env = Inr ((p118_append_args_of (env_operation_id env)
        ''operation_registered'' ''received'' 0 PNone
        [(''operation'', PDict (env_payload env)), (''idempotency_key'', PStr k),
         (''payload_hash'', PStr hash), (''authority_counter_snapshot'', PDict p118_zero_counters),
         (''duplicate_action_count'', PInt 0),
         (''lease_owner_id'', if owner \<noteq> [] then PStr owner else PNone)])
        \<lparr>aa_register := Some (k, hash)\<rparr>)"
      unfolding p118_registration_def Let_def p118_idempotency_payload_def env_idempotency_key_def
        p118_payload_index [of i e p d t l pre v r ap le w c k h, folded env(2)] hash_def owner_def
      by simp
  qed (simp_all add: p118_append_args_of_def p118_registered_state_def p118_fresh_state_def
      p118_payload_index [of i e p d t l pre v r ap le w c k h, folded env(2)])
qed

section \<open>One append\<close>

lemma p118_append_cases:
  assumes "p118_append sha a st = (st', out)"
  obtains (unread) x where "st' = st" "out = Inl x"
  | (refused) es x where "load_entries (p118_ledger_error ''invalid_wal_entry'') (ws_file st) = Inr es"
      "ws_file st' = ws_file st" "ws_entries st' = es" "out = Inl x"
  | (appended) es a' h e where "load_entries (p118_ledger_error ''invalid_wal_entry'') (ws_file st) = Inr es"
      "wal_valid sha es" "p118_dedupe sha es a = Inr a'" "p118_check_cas sha es a' = Inr ()"
      "p118_check_lease sha es a' = Inr ()" "previous_hash es = Inr h"
      "e = seal_entry sha es h (p118_entry_body a')" "ws_file st' = ws_file st @ [WL_Json (PDict e)]"
      "ws_entries st' = es @ [e]" "out = Inr e"
  using assms unfolding p118_append_def
proof (cases rule: wal_append_cases)
  case (appended es e)
  then obtain a' h where plan: "verify_hash_chain sha es = Inr True" "p118_dedupe sha es a = Inr a'"
    "p118_check_cas sha es a' = Inr ()" "p118_check_lease sha es a' = Inr ()" "previous_hash es = Inr h"
    "e = seal_entry sha es h (p118_entry_body a')"
    by (auto simp: p118_plan_entry_def rbind_Inr_iff split: if_splits)
  from plan(1) have "wal_valid sha es" by (simp add: verify_iff)
  with appended plan show ?thesis by (intro that(3) [of es a' h e])
qed (use that(1,2) in auto)

lemma p118_receipt_of_sealed:
  "\<exists>r. p118_receipt_from_entry (seal_entry sha es h (p118_entry_body a)) = Inr r
     \<and> pr_receipt_type r = aa_receipt_type a \<and> pr_operation_id r = aa_operation_id a
     \<and> pr_state r = aa_state a \<and> pr_cas_version r = aa_cas_version a"
  if "pget_or (aa_payload a) ''duplicate_action_count'' (PInt 0) = PInt 0"
proof -
  have "\<exists>v. pindex (seal_entry sha es h (p118_entry_body a)) ''receipt_hash'' = Inr v"
    by (simp add: seal_entry_def p118_entry_body_def Let_def)
  with that show ?thesis by (auto simp: p118_receipt_from_entry_def)
qed

text \<open>Deduplication keeps everything but a repeated registration.\<close>

lemma p118_dedupe_cases:
  assumes "p118_dedupe sha es a = Inr a'"
  obtains (plain) "aa_register a = None" "a' = a"
  | (first) key hash where "aa_register a = Some (key, hash)" "p118_registered_under key es = Inr []" "a' = a"
  | (again) key hash ids s where "aa_register a = Some (key, hash)"
      "p118_registered_under key es = Inr ids" "ids \<noteq> []" "p118_replay sha es (last ids) = Inr s"
      "ps_payload_hash s = hash"
      "a' = a\<lparr>aa_operation_id := ps_operation_id s, aa_receipt_type := ''idempotent_replay'',
              aa_state := ps_state s, aa_cas_version := ps_cas_version s,
              aa_lease_owner_id := ps_lease_owner_id s,
              aa_payload := [(''duplicate_action_count'', PInt 0)]\<rparr>"
proof (cases "aa_register a")
  case None
  with assms show ?thesis by (intro plain) (auto simp: p118_dedupe_def)
next
  case (Some kh)
  then obtain key hash where kh: "aa_register a = Some (key, hash)" by (cases kh) auto
  with assms obtain ids where ids: "p118_registered_under key es = Inr ids"
    by (auto simp: p118_dedupe_def p118_state_by_idempotency_key_def rbind_Inr_iff)
  show ?thesis
  proof (cases "ids = []")
    case True
    with assms kh ids show ?thesis
      by (intro first) (auto simp: p118_dedupe_def p118_state_by_idempotency_key_def)
  next
    case False
    with assms kh ids show ?thesis
      by (auto simp: p118_dedupe_def p118_state_by_idempotency_key_def rbind_Inr_iff split: if_splits
          intro!: again)
  qed
qed

text \<open>A replay step keeps the state, starts it afresh, or updates its moving parts.\<close>

lemma p118_replay_step_cases:
  assumes "p118_replay_step i e st = Inr st'"
  obtains (same) "st' = st"
  | (fresh) p s where "p118_registered_state i p = Inr s" "st' = Some s"
  | (moved) s x c w t where "st = Some s"
      "st' = Some (s\<lparr>ps_state := x, ps_cas_version := c, ps_duplicate_action_count := 0,
                     ps_lease_owner_id := w, ps_lease_expires_at := t\<rparr>)"
proof -
  from assms obtain op where 1: "(if \<not> py_eq op (PStr i) then Inr st else
      rbind (pindex e ''payload'') (\<lambda>payload. rbind (pindex e ''receipt_type'') (\<lambda>rt.
        p118_replay_apply i e payload rt st))) = Inr st'"
    unfolding p118_replay_step_def by (elim rbind_InrE) blast
  show ?thesis
  proof (cases "py_eq op (PStr i)")
    case False
    with 1 same show ?thesis by simp
  next
    case True
    with 1 obtain p rt where 2: "p118_replay_apply i e p rt st = Inr st'"
      by (auto elim!: rbind_InrE)
    show ?thesis
    proof (cases st)
      case None
      with 2 same fresh show ?thesis
        by (auto simp: p118_replay_apply_def elim!: rbind_InrE split: if_split_asm)
    next
      case (Some s)
      consider (reg) "py_eq rt (PStr ''operation_registered'')"
        | (tra) "\<not> py_eq rt (PStr ''operation_registered'')" "py_eq rt (PStr ''state_transition'')"
        | (lea) "\<not> py_eq rt (PStr ''operation_registered'')" "\<not> py_eq rt (PStr ''state_transition'')"
            "py_startswith (py_str rt) ''lease_''"
        | (oth) "\<not> py_eq rt (PStr ''operation_registered'')" "\<not> py_eq rt (PStr ''state_transition'')"
            "\<not> py_startswith (py_str rt) ''lease_''" by blast
      then show ?thesis
      proof cases
        case reg
        with 2 fresh show ?thesis by (auto simp: p118_replay_apply_def elim!: rbind_InrE)
      next
        case tra
        with 2 Some obtain x c w where "st' = Some (s\<lparr>ps_state := x, ps_cas_version := c,
            ps_duplicate_action_count := 0, ps_lease_owner_id := w\<rparr>)"
          by (simp add: p118_replay_apply_def) (elim rbind_InrE, blast)
        with Some show ?thesis by (intro moved [where s = s and x = x and c = c and w = w and t = "ps_lease_expires_at s"]) simp_all
      next
        case lea
        with 2 Some obtain w t where "st' = Some (s\<lparr>ps_duplicate_action_count := 0,
            ps_lease_owner_id := w, ps_lease_expires_at := t\<rparr>)"
          by (simp add: p118_replay_apply_def) (elim rbind_InrE, blast)
        with Some show ?thesis by (intro moved [where s = s and x = "ps_state s" and c = "ps_cas_version s" and w = w and t = t]) simp_all
      next
        case oth
        with 2 Some same show ?thesis by (simp add: p118_replay_apply_def)
      qed
    qed
  qed
qed

lemma p118_replay_operation_id: "p118_replay sha es i = Inr s \<Longrightarrow> ps_operation_id s = i"
proof -
  define fit :: "p118_state option \<Rightarrow> bool"
    where "fit = (\<lambda>st. case st of None \<Rightarrow> True | Some s \<Rightarrow> ps_operation_id s = i)"
  have reg: "p118_registered_state i p = Inr s \<Longrightarrow> ps_operation_id s = i" for p s
    by (auto simp: p118_registered_state_def rbind_Inr_iff)
  have step: "p118_replay_step i e st = Inr st' \<Longrightarrow> fit st \<Longrightarrow> fit st'" for e st st'
    by (erule p118_replay_step_cases) (auto simp: fit_def dest: reg)
  have loop: "p118_replay_loop i es st = Inr st' \<Longrightarrow> fit st \<Longrightarrow> fit st'" for es st st'
    by (induction es arbitrary: st) (auto simp: rbind_Inr_iff dest: step)
  have "p118_replay_loop i es None = Inr (Some s) \<Longrightarrow> ps_operation_id s = i" for es s
    using loop [of es None "Some s"] by (simp add: fit_def)
  then show "p118_replay sha es i = Inr s \<Longrightarrow> ps_operation_id s = i"
    by (auto simp: p118_replay_def rbind_Inr_iff split: if_splits option.splits)
qed

section \<open>Processes sharing one log\<close>

text \<open>
  Any number of processes hold a store on the same file and call its methods.
  The callers of \<open>record_lease\<close> pass \<open>lease_acquired\<close>, \<open>lease_takeover\<close> or \<open>lease_renewed\<close>, and
  registered envelopes come from \<open>build_operation_envelope\<close>.
\<close>

datatype p118_call =
    PC_Open
  | PC_Register p118_envelope
  | PC_Transition string string int "string option" pydict
  | PC_Lease string string int string pyval "int option"

fun p118_call_ok :: "(string \<Rightarrow> string) \<Rightarrow> p118_call \<Rightarrow> bool" where
  "p118_call_ok sha (PC_Register env) = (\<exists>data. build_operation_envelope sha data = Inr env)"
| "p118_call_ok sha (PC_Lease i w t rt xw xt) = py_startswith rt ''lease_''"
| "p118_call_ok sha _ = True"

fun p118_call_store :: "(string \<Rightarrow> string) \<Rightarrow> p118_call \<Rightarrow> wal_store \<Rightarrow> wal_store" where
  "p118_call_store sha PC_Open st = (case p118_open (ws_file st) of Inl _ \<Rightarrow> st | Inr st' \<Rightarrow> st')"
| "p118_call_store sha (PC_Register env) st = fst (p118_register_operation sha env st)"
| "p118_call_store sha (PC_Transition i nx cas w ev) st = fst (p118_transition sha i nx cas w ev st)"
| "p118_call_store sha (PC_Lease i w t rt xw xt) st = fst (p118_record_lease sha i w t rt xw xt st)"

abbreviation p118_reachable :: "(string \<Rightarrow> string) \<Rightarrow> shared_system \<Rightarrow> bool" where
  "p118_reachable sha \<equiv> shared_reachable (p118_call_ok sha) (p118_call_store sha)"

abbreviation p118_load :: "wal_line list \<Rightarrow> pydict list result" where
  "p118_load \<equiv> load_entries (p118_ledger_error ''invalid_wal_entry'')"

abbreviation p118_extends :: "(string \<Rightarrow> string) \<Rightarrow> pydict list \<Rightarrow> wal_store \<Rightarrow> wal_store \<Rightarrow> bool" where
  "p118_extends sha \<equiv> log_extends (p118_ledger_error ''invalid_wal_entry'') (p118_log sha)"

lemma p118_append_extends:
  assumes "p118_load (ws_file st) = Inr es" and "p118_log sha es" and "p118_append sha a st = (st', out)"
    and "\<And>a'. p118_dedupe sha es a = Inr a' \<Longrightarrow> p118_check_cas sha es a' = Inr () \<Longrightarrow> p118_event sha es a'"
  shows "p118_extends sha es st st'"
proof (rule wal_append_extends [where is_log = "p118_log sha", OF assms(1,2) assms(3) [unfolded p118_append_def]])
  fix e
  assume "p118_plan_entry sha a es = Inr e"
  then obtain a' h where "p118_dedupe sha es a = Inr a'" "p118_check_cas sha es a' = Inr ()"
    "previous_hash es = Inr h" "e = seal_entry sha es h (p118_entry_body a')"
    by (auto simp: p118_plan_entry_def rbind_Inr_iff split: if_splits)
  moreover from this assms(4) have "p118_allowed sha es (p118_entry_body a')"
    by (auto simp: p118_allowed_def)
  ultimately show "p118_log sha (es @ [e])" using assms(2) by (auto intro: wal_log.snoc)
qed

lemma p118_append_receipt_store: "fst (p118_append_receipt sha a st) = fst (p118_append sha a st)"
  by (simp add: p118_append_receipt_def op_bind_def split: prod.splits sum.splits)

lemma p118_append_receipt_extends:
  assumes "p118_load (ws_file st) = Inr es" and "p118_log sha es"
    and "\<And>a'. p118_dedupe sha es a = Inr a' \<Longrightarrow> p118_check_cas sha es a' = Inr () \<Longrightarrow> p118_event sha es a'"
  shows "p118_extends sha es st (fst (p118_append_receipt sha a st))"
  unfolding p118_append_receipt_store
  using assms by (intro p118_append_extends [where out = "snd (p118_append sha a st)"]) auto

lemma p118_register_extends:
  assumes "p118_load (ws_file st) = Inr es" and "p118_log sha es"
    and "build_operation_envelope sha data = Inr env"
  shows "p118_extends sha es st (fst (p118_register_operation sha env st))"
proof -
  obtain a key hash where a: "p118_registration sha env = Inr a" "aa_register a = Some (key, hash)"
    by (rule p118_registration_built [OF assms(3)])
  have "p118_event sha es a'" if "p118_dedupe sha es a = Inr a'" for a'
    using that
  proof (cases rule: p118_dedupe_cases)
    case (first key hash)
    with a assms(3) show ?thesis by (auto intro: p118_event.register)
  next
    case (again key hash ids s)
    then show ?thesis
      using p118_replay_operation_id [OF again(4)]
      by (intro p118_event.duplicate [where s = s]) auto
  qed (use a in auto)
  then have "p118_extends sha es st (fst (p118_append_receipt sha a st))"
    using assms by (intro p118_append_receipt_extends) auto
  with a show ?thesis by (simp add: p118_register_operation_def op_bind_def)
qed

lemma p118_transition_extends:
  assumes "p118_load (ws_file st) = Inr es" and "p118_log sha es"
  shows "p118_extends sha es st (fst (p118_transition sha i nx cas w ev st))"
proof (cases "\<exists>s owner. p118_replay sha (ws_entries st) i = Inr s \<and> \<not> p118_terminal (ps_state s)
    \<and> cas = ps_cas_version s \<and> w = Some owner \<and> owner \<noteq> [] \<and> py_eq (ps_lease_owner_id s) (PStr owner)
    \<and> nx \<in> set (p118_successors (ps_state s))")
  case False
  then have "fst (p118_transition sha i nx cas w ev st) = st"
    by (auto simp: p118_transition_def split: sum.splits option.splits)
  with assms show ?thesis by (simp add: log_extends_refl)
next
  case True
  then obtain s owner where s: "p118_replay sha (ws_entries st) i = Inr s" "\<not> p118_terminal (ps_state s)"
    "cas = ps_cas_version s" "w = Some owner" "owner \<noteq> []" "py_eq (ps_lease_owner_id s) (PStr owner)"
    "nx \<in> set (p118_successors (ps_state s))" by blast
  define a where "a = p118_transition_args i nx cas s owner ev"
  note a_def' = a_def p118_transition_args_def p118_append_args_of_def
  have "p118_event sha es a'" if "p118_dedupe sha es a = Inr a'" "p118_check_cas sha es a' = Inr ()" for a'
  proof -
    have "a' = a" using that(1) by (simp add: p118_dedupe_def a_def')
    with that(2) obtain s' where "p118_replay sha es i = Inr s'" "ps_cas_version s' = cas"
      "ps_state s' = ps_state s" "ps_lease_owner_id s' = PStr owner"
      by (auto simp: p118_check_cas_def a_def' rbind_Inr_iff rguard_Inr_iff py_eq_str_iff)
    with s \<open>a' = a\<close> show ?thesis
      by (intro p118_event.transition [where s = s' and owner = owner])
         (auto simp: a_def')
  qed
  then have "p118_extends sha es st (fst (p118_append_receipt sha a st))"
    using assms by (intro p118_append_receipt_extends) auto
  moreover have "p118_transition sha i nx cas w ev st = p118_append_receipt sha a st"
    using s unfolding p118_transition_def a_def by simp
  ultimately show ?thesis by simp
qed

lemma p118_lease_extends:
  assumes "p118_load (ws_file st) = Inr es" and "p118_log sha es" and "py_startswith rt ''lease_''"
  shows "p118_extends sha es st (fst (p118_record_lease sha i w t rt xw xt st))"
proof (cases "p118_replay sha (ws_entries st) i")
  case (Inl x)
  with assms show ?thesis by (simp add: p118_record_lease_def log_extends_refl)
next
  case (Inr s)
  have "p118_event sha es a'"
    if "p118_dedupe sha es (p118_lease_args i w t rt xw xt s) = Inr a'" for a'
    using that assms(3)
    by (intro p118_event.lease [where owner = w and t = t])
       (auto simp: p118_dedupe_def p118_lease_args_def p118_append_args_of_def)
  with assms Inr show ?thesis
    unfolding p118_record_lease_def Inr sum.case by (intro p118_append_receipt_extends) auto
qed

lemma p118_call_extends:
  assumes "p118_load (ws_file st) = Inr es" and "p118_log sha es" and "p118_call_ok sha c"
  shows "p118_extends sha es st (p118_call_store sha c st)"
proof (cases c)
  case PC_Open
  with assms show ?thesis by (auto simp: p118_open_def log_extends_def)
qed (use assms p118_register_extends p118_transition_extends p118_lease_extends in auto)

text \<open>The simulation: whatever the interleaving, the file is a log of the specification and every
  cache is a prefix of it.\<close>

interpretation p118_shared: shared_log "p118_ledger_error ''invalid_wal_entry''" "p118_log sha"
  "p118_call_ok sha" "p118_call_store sha" for sha
  by unfold_locales (auto intro: wal_log.empty p118_call_extends)

lemmas p118_reachable_log = p118_shared.reachable_log

section \<open>Consequences of the log specification\<close>

lemma p118_replay_valid:
  "wal_valid sha es \<Longrightarrow> p118_replay sha es i =
     rbind (p118_replay_loop i es None) (\<lambda>st. case st of
        None \<Rightarrow> Inl (p118_ledger_error ''unknown_operation'') | Some s \<Rightarrow> Inr s)"
  by (simp add: p118_replay_def)

lemma p118_replay_Inr_iff:
  "wal_valid sha es \<Longrightarrow> p118_replay sha es i = Inr s \<longleftrightarrow> p118_replay_loop i es None = Inr (Some s)"
  by (auto simp: p118_replay_valid rbind_Inr_iff split: option.splits)

text \<open>The replayed state of an operation was reached from \<open>received\<close> along the table, one CAS
  version per transition.\<close>

definition p118_on_path :: "p118_state \<Rightarrow> bool" where
  "p118_on_path s \<longleftrightarrow>
     (\<exists>p. legal_path p118_successors ''received'' p \<and> last (''received'' # p) = ps_state s
        \<and> int (length p) = ps_cas_version s)
     \<and> ps_authority_counter_snapshot s = p118_zero_counters
     \<and> ps_lease_owner_id s \<in> insert PNone (range PStr)"

lemma p118_on_path_step:
  assumes "p118_on_path s" and "x \<in> set (p118_successors (ps_state s))"
  shows "p118_on_path (s\<lparr>ps_state := x, ps_cas_version := ps_cas_version s + 1,
            ps_duplicate_action_count := 0, ps_lease_owner_id := PStr w\<rparr>)"
proof -
  obtain p where "legal_path p118_successors ''received'' p" "last (''received'' # p) = ps_state s"
    "int (length p) = ps_cas_version s" using assms(1) by (auto simp: p118_on_path_def)
  with assms have "legal_path p118_successors ''received'' (p @ [x])
      \<and> last (''received'' # p @ [x]) = x \<and> int (length (p @ [x])) = ps_cas_version s + 1"
    unfolding legal_path_snoc by simp
  then have "\<exists>q. legal_path p118_successors ''received'' q \<and> last (''received'' # q) = x
      \<and> int (length q) = ps_cas_version s + 1" by blast
  with assms(1) show ?thesis unfolding p118_on_path_def by simp
qed

lemma p118_on_path_frame:
  "p118_on_path s \<Longrightarrow>
     p118_on_path (s\<lparr>ps_duplicate_action_count := d, ps_lease_owner_id := PStr w, ps_lease_expires_at := t\<rparr>)"
  by (simp add: p118_on_path_def)

lemma p118_on_path_fresh: "w \<in> insert PNone (range PStr) \<Longrightarrow> p118_on_path (p118_fresh_state i k h w)"
  unfolding p118_on_path_def p118_fresh_state_def by (auto intro!: exI [of _ "[]"])

text \<open>The replay of every operation, after one event of the specification.\<close>

lemma p118_event_replay:
  assumes "p118_event sha es a" and "wal_valid sha es" and "p118_replay_loop i es None = Inr st"
    and "\<forall>s. st = Some s \<longrightarrow> p118_on_path s"
  shows "\<exists>st'. p118_replay_step i (seal_entry sha es h (p118_entry_body a)) st = Inr st'
           \<and> (\<forall>s. st' = Some s \<longrightarrow> p118_on_path s)"
  using assms(1)
proof (cases rule: p118_event.cases)
  case (register data env key hash)
  from register(1) obtain a0 key0 hash0 owner where
    "p118_registration sha env = Inr a0" "aa_receipt_type a0 = ''operation_registered''"
    "\<And>i. p118_registered_state i (PDict (aa_payload a0)) = Inr (p118_fresh_state i key0 hash0 owner)"
    "owner \<in> insert PNone (range PStr)"
    by (rule p118_registration_built) blast
  with register assms(4) show ?thesis
    by (auto simp: p118_step_sealed p118_on_path_fresh)
next
  case (duplicate s)
  with assms(4) show ?thesis by (auto simp: p118_step_sealed split: option.splits)
next
  case (lease owner t)
  have "aa_receipt_type a \<noteq> ''operation_registered''" "aa_receipt_type a \<noteq> ''state_transition''"
    using lease(1) by auto
  with lease assms(4) show ?thesis
    by (auto simp: p118_step_sealed p118_on_path_frame split: option.splits)
next
  case (transition s owner)
  show ?thesis
  proof (cases "aa_operation_id a = i")
    case True
    then have "st = Some s" using transition(2) assms(2,3) by (simp add: p118_replay_Inr_iff)
    with transition True assms(4) show ?thesis
      by (auto simp: p118_step_sealed intro: p118_on_path_step)
  next
    case False
    with assms(4) show ?thesis by (simp add: p118_step_sealed)
  qed
qed

lemma p118_log_replay:
  assumes "p118_log sha es"
  shows "\<exists>st. p118_replay_loop i es None = Inr st \<and> (\<forall>s. st = Some s \<longrightarrow> p118_on_path s)"
  using assms
proof (induction rule: wal_log.induct)
  case empty
  then show ?case by simp
next
  case (snoc es body h)
  then obtain st a where "p118_replay_loop i es None = Inr st" "\<forall>s. st = Some s \<longrightarrow> p118_on_path s"
    "p118_event sha es a" "body = p118_entry_body a" by (auto simp: p118_allowed_def)
  with p118_event_replay [OF _ p118_log_valid [OF snoc.hyps(1)]] show ?case
    by (auto simp: p118_replay_loop_snoc)
qed

section \<open>Properties\<close>

text \<open>C4. Compare-and-swap is safe under every interleaving of processes with stale caches: each
  \<open>state_transition\<close> of the shared log was legal from the state that replaying the log before it
  gives, left no terminal state, advanced exactly that CAS version by one, and was made by the
  holder of the lease.\<close>

theorem p118_interleaved_cas_safe:
  assumes "p118_reachable sha y" and "load_entries (p118_ledger_error ''invalid_wal_entry'') (sys_file y) = Inr es"
    and "n < length es" and "pget (es ! n) ''receipt_type'' = PStr ''state_transition''"
  shows "\<exists>i s next owner. pget (es ! n) ''operation_id'' = PStr i
     \<and> p118_replay sha (take n es) i = Inr s \<and> \<not> p118_terminal (ps_state s)
     \<and> pget (es ! n) ''state'' = PStr next \<and> next \<in> set (p118_successors (ps_state s))
     \<and> pget (es ! n) ''cas_version'' = PInt (ps_cas_version s + 1)
     \<and> ps_lease_owner_id s = PStr owner \<and> pget (es ! n) ''lease_owner_id'' = PStr owner"
proof -
  have "p118_log sha es" using p118_reachable_log [OF assms(1)] assms(2) by auto
  then obtain a h where ev: "p118_event sha (take n es) a"
    and e: "es ! n = seal_entry sha (take n es) h (p118_entry_body a)"
    using assms(3) by (elim wal_log_entry) (auto simp: p118_allowed_def)
  have g: "pget (es ! n) ''receipt_type'' = PStr (aa_receipt_type a)"
    "pget (es ! n) ''operation_id'' = PStr (aa_operation_id a)" "pget (es ! n) ''state'' = PStr (aa_state a)"
    "pget (es ! n) ''cas_version'' = PInt (aa_cas_version a)"
    "pget (es ! n) ''lease_owner_id'' = aa_lease_owner_id a"
    unfolding e by (simp_all add: seal_entry_def p118_entry_body_def Let_def)
  have t: "aa_receipt_type a = ''state_transition''" using assms(4) g(1) by simp
  from ev show ?thesis
  proof (cases rule: p118_event.cases)
    case (register data env key hash)
    from register(1) have "aa_receipt_type a = ''operation_registered''"
      by (rule p118_registration_built) (use register(2) in auto)
    with t show ?thesis by simp
  next
    case (transition s owner)
    with g show ?thesis by auto
  qed (use t in auto)
qed

text \<open>C31. In every reachable shared log, replay never raises for a registered operation, and the state
  it returns was reached from \<open>received\<close> along the lifecycle table with one CAS version per
  transition; so the CAS version is between 0 and 9, and at most nine transitions ever happen.\<close>

theorem p118_reachable_state_on_path:
  assumes "p118_reachable sha y" and "load_entries (p118_ledger_error ''invalid_wal_entry'') (sys_file y) = Inr es"
    and "p118_replay sha es i = Inr s"
  shows "ps_state s \<in> set P118_LIFECYCLE_STATES \<and> 0 \<le> ps_cas_version s
     \<and> ps_cas_version s + int (p118_rank (ps_state s)) \<le> 9
     \<and> (\<exists>p. legal_path p118_successors ''received'' p \<and> last (''received'' # p) = ps_state s
           \<and> int (length p) = ps_cas_version s)
     \<and> ps_authority_counter_snapshot s = p118_zero_counters"
proof -
  have lg: "p118_log sha es" using p118_reachable_log [OF assms(1)] assms(2) by auto
  then have "p118_replay_loop i es None = Inr (Some s)"
    using assms(3) by (simp add: p118_replay_Inr_iff p118_log_valid)
  with p118_log_replay [OF lg, of i] have op: "p118_on_path s" by auto
  then obtain p where p: "legal_path p118_successors ''received'' p" "last (''received'' # p) = ps_state s"
    "int (length p) = ps_cas_version s" by (auto simp: p118_on_path_def)
  have "p118_rank ''received'' = 9" by (simp add: p118_rank_def)
  with p118.path_rank [OF p(1)] p have "ps_cas_version s + int (p118_rank (ps_state s)) \<le> 9" by simp
  moreover have k: "''received'' \<in> set P118_LIFECYCLE_STATES" by (simp add: P118_LIFECYCLE_STATES_def)
  have "ps_state s \<in> set P118_LIFECYCLE_STATES"
  proof (cases p rule: rev_cases)
    case Nil
    with p k show ?thesis by simp
  next
    case (snoc q x)
    with p118.path_known [OF k p(1)] p(2) show ?thesis by simp
  qed
  ultimately show ?thesis using op p by (auto simp: p118_on_path_def)
qed

end
