(* ===== verification/P118_Props.thy ===== *)
theory P118_Props
  imports P118_Ledger
begin

text \<open>
  Functional behaviour of the operations of the P118 ledger on a shared log: what replay returns
  after a transition, a lease, a first and a repeated registration, and a tampered log.
\<close>

section \<open>Replay after an append\<close>

lemma p118_replay_other:
  assumes "wal_valid sha es" and "wal_valid sha (es @ [seal_entry sha es h (p118_entry_body a)])"
    and "aa_operation_id a \<noteq> j"
  shows "p118_replay sha (es @ [seal_entry sha es h (p118_entry_body a)]) j = p118_replay sha es j"
  using assms
  by (cases "p118_replay_loop j es None")
     (simp_all add: p118_replay_valid p118_replay_loop_snoc p118_step_sealed)

lemma p118_replay_same:
  assumes "wal_valid sha es" and "wal_valid sha (es @ [seal_entry sha es h (p118_entry_body a)])"
    and "p118_replay sha es (aa_operation_id a) = Inr s"
    and "p118_replay_step (aa_operation_id a) (seal_entry sha es h (p118_entry_body a)) (Some s) = Inr (Some s')"
  shows "p118_replay sha (es @ [seal_entry sha es h (p118_entry_body a)]) (aa_operation_id a) = Inr s'"
  using assms by (simp add: p118_replay_Inr_iff p118_replay_loop_snoc)

text \<open>A successful append, seen from outside.\<close>

lemma p118_append_receipt_success:
  assumes "p118_append_receipt sha a st = (st', Inr r)" and "p118_load (ws_file st) = Inr es"
  obtains a' h where "wal_valid sha es" "p118_dedupe sha es a = Inr a'" "p118_check_cas sha es a' = Inr ()"
    "p118_check_lease sha es a' = Inr ()" "previous_hash es = Inr h"
    "p118_load (ws_file st') = Inr (es @ [seal_entry sha es h (p118_entry_body a')])"
    "ws_entries st' = es @ [seal_entry sha es h (p118_entry_body a')]"
    "wal_valid sha (es @ [seal_entry sha es h (p118_entry_body a')])"
    "p118_receipt_from_entry (seal_entry sha es h (p118_entry_body a')) = Inr r"
proof -
  from assms(1) obtain e where e: "p118_append sha a st = (st', Inr e)" "p118_receipt_from_entry e = Inr r"
    unfolding p118_append_receipt_def by (rule op_bind_cases) auto
  from e(1) show ?thesis
  proof (cases rule: p118_append_cases)
    case (appended fs a' h e')
    with assms(2) e that show ?thesis by (auto simp: load_entries_append seal_valid)
  qed simp_all
qed

text \<open>When the checks pass, the append succeeds.\<close>

lemma p118_append_receipt_ok:
  assumes "p118_load (ws_file st) = Inr es" and "wal_valid sha es" and "p118_dedupe sha es a = Inr a'"
    and "p118_check_cas sha es a' = Inr ()" and "p118_check_lease sha es a' = Inr ()"
    and "pget_or (aa_payload a') ''duplicate_action_count'' (PInt 0) = PInt 0"
  shows "\<exists>st' r. p118_append_receipt sha a st = (st', Inr r) \<and> pr_receipt_type r = aa_receipt_type a'
           \<and> pr_state r = aa_state a' \<and> pr_cas_version r = aa_cas_version a'"
proof -
  obtain h where h: "previous_hash es = Inr h" using previous_hash_valid [OF assms(2)] by blast
  have "p118_append sha a st =
     (\<lparr>ws_file = ws_file st @ [WL_Json (PDict (seal_entry sha es h (p118_entry_body a')))],
       ws_entries = es @ [seal_entry sha es h (p118_entry_body a')]\<rparr>,
      Inr (seal_entry sha es h (p118_entry_body a')))"
    using assms h by (simp add: p118_append_def wal_append_def p118_plan_entry_def)
  with p118_receipt_of_sealed [OF assms(6), of sha es h] show ?thesis
    by (auto simp: p118_append_receipt_def op_bind_def)
qed

section \<open>Transitions\<close>

lemma p118_transition_success:
  assumes "p118_transition sha i nx cas w ev st = (st', Inr r)"
  obtains s owner where "p118_replay sha (ws_entries st) i = Inr s" "cas = ps_cas_version s" "w = Some owner"
    "nx \<in> set (p118_successors (ps_state s))"
    "p118_append_receipt sha (p118_transition_args i nx cas s owner ev) st = (st', Inr r)"
  using assms unfolding p118_transition_def by (auto split: sum.splits if_splits option.splits)

text \<open>C9. A transition that returns moves its operation, as the shared log has it and not as the caller's
  cache had it, to the requested state with the next CAS version, and no other operation.\<close>

theorem p118_transition_refines:
  assumes "p118_reachable sha y" and "load_entries (p118_ledger_error ''invalid_wal_entry'') (sys_file y) = Inr es"
    and "p118_transition sha i nx cas w ev \<lparr>ws_file = sys_file y, ws_entries = sys_cache y p\<rparr> = (st', Inr r)"
  shows "\<exists>s es'. p118_replay sha es i = Inr s \<and> ps_cas_version s = cas
     \<and> load_entries (p118_ledger_error ''invalid_wal_entry'') (ws_file st') = Inr es'
     \<and> p118_replay sha es' i = Inr (s\<lparr>ps_state := nx, ps_cas_version := cas + 1, ps_duplicate_action_count := 0\<rparr>)
     \<and> (\<forall>j. j \<noteq> i \<longrightarrow> p118_replay sha es' j = p118_replay sha es j)"
proof -
  from assms(3) obtain s owner where s: "cas = ps_cas_version s" "w = Some owner"
    and app: "p118_append_receipt sha (p118_transition_args i nx cas s owner ev) \<lparr>ws_file = sys_file y, ws_entries = sys_cache y p\<rparr> = (st', Inr r)"
    by (rule p118_transition_success) blast
  from app assms(2) obtain a' h where a': "wal_valid sha es"
    "a' = p118_transition_args i nx cas s owner ev"
    "p118_check_cas sha es a' = Inr ()"
    "load_entries (p118_ledger_error ''invalid_wal_entry'') (ws_file st') = Inr (es @ [seal_entry sha es h (p118_entry_body a')])"
    "wal_valid sha (es @ [seal_entry sha es h (p118_entry_body a')])"
    by (elim p118_append_receipt_success) (auto simp: p118_dedupe_def p118_transition_args_def p118_append_args_of_def)
  have fields: "aa_operation_id a' = i" "aa_receipt_type a' = ''state_transition''" "aa_state a' = nx"
    "aa_cas_version a' = cas + 1" "aa_lease_owner_id a' = PStr owner"
    "aa_expected_prior_cas a' = Some cas" "aa_expected_prior_state a' = Some (ps_state s)"
    "aa_expected_owner a' = Some owner"
    using a'(2) s(1) by (simp_all add: p118_transition_args_def p118_append_args_of_def)
  from a'(3) obtain s' where s': "p118_replay sha es i = Inr s'" "ps_cas_version s' = cas"
    "ps_lease_owner_id s' = PStr owner"
    by (auto simp: p118_check_cas_def fields rbind_Inr_iff rguard_Inr_iff py_eq_str_iff)
  have "p118_replay sha (es @ [seal_entry sha es h (p118_entry_body a')]) i =
     Inr (s'\<lparr>ps_state := nx, ps_cas_version := cas + 1, ps_duplicate_action_count := 0\<rparr>)"
    using p118_replay_same [OF a'(1,5), of s'] s' by (simp add: fields p118_step_sealed)
  moreover have "j \<noteq> i \<longrightarrow> p118_replay sha (es @ [seal_entry sha es h (p118_entry_body a')]) j = p118_replay sha es j" for j
    using p118_replay_other [OF a'(1,5)] by (simp add: fields)
  ultimately show ?thesis using s'(1,2) a'(4) by blast
qed

section \<open>Registration\<close>

lemma p118_register_eq:
  assumes "build_operation_envelope sha data = Inr env"
  obtains a key hash owner where "p118_register_operation sha env = p118_append_receipt sha a"
    "aa_register a = Some (key, hash)" "aa_operation_id a = env_operation_id env"
    "aa_receipt_type a = ''operation_registered''" "aa_state a = ''received''" "aa_cas_version a = 0"
    "pget (env_payload env) ''idempotency_key'' = PStr key"
    "\<And>i. p118_registered_state i (PDict (aa_payload a)) = Inr (p118_fresh_state i key hash owner)"
    "aa_expected_prior_cas a = None" "aa_expected_lease_owner a = PNone"
    "aa_expected_lease_expires_at a = None" "p118_registration sha env = Inr a"
proof -
  obtain a key hash owner where a: "p118_registration sha env = Inr a" "aa_register a = Some (key, hash)"
    "aa_operation_id a = env_operation_id env" "aa_receipt_type a = ''operation_registered''"
    "aa_state a = ''received''" "aa_cas_version a = 0"
    "pget (env_payload env) ''idempotency_key'' = PStr key"
    "\<And>i. p118_registered_state i (PDict (aa_payload a)) = Inr (p118_fresh_state i key hash owner)"
    "aa_expected_prior_cas a = None" "aa_expected_lease_owner a = PNone" "aa_expected_lease_expires_at a = None"
    by (rule p118_registration_built [OF assms]) blast
  have "p118_register_operation sha env = p118_append_receipt sha a"
    using a(1) by (auto simp: p118_register_operation_def op_bind_def)
  with a that show ?thesis by blast
qed

lemma p118_no_checks:
  "aa_expected_prior_cas a = None \<Longrightarrow> p118_check_cas sha es a = Inr ()"
  "aa_expected_lease_owner a = PNone \<Longrightarrow> aa_expected_lease_expires_at a = None \<Longrightarrow>
     p118_check_lease sha es a = Inr ()"
  by (simp_all add: p118_check_cas_def p118_check_lease_def)

lemma p118_registration_payload_count:
  assumes "p118_registration sha env = Inr a"
  shows "pget_or (aa_payload a) ''duplicate_action_count'' (PInt 0) = PInt 0"
  using assms by (auto simp: p118_registration_def p118_append_args_of_def Let_def elim!: rbind_InrE)

text \<open>Registering under a key that was already used never changes any operation: with the same payload
  hash it returns the current state as an idempotent replay, with another it raises and writes
  nothing.\<close>

theorem p118_repeated_registration_is_idempotent:
  assumes "p118_reachable sha y" and "load_entries (p118_ledger_error ''invalid_wal_entry'') (sys_file y) = Inr es"
    and "build_operation_envelope sha data = Inr env" and "p118_registration sha env = Inr a"
    and "aa_register a = Some (key, hash)" and "p118_registered_under key es = Inr ids" and "ids \<noteq> []"
    and "p118_replay sha es (last ids) = Inr s"
  shows "if ps_payload_hash s = hash
     then \<exists>st' r es'. p118_register_operation sha env \<lparr>ws_file = sys_file y, ws_entries = sys_cache y p\<rparr> = (st', Inr r)
            \<and> pr_receipt_type r = ''idempotent_replay'' \<and> pr_state r = ps_state s
            \<and> pr_cas_version r = ps_cas_version s
            \<and> load_entries (p118_ledger_error ''invalid_wal_entry'') (ws_file st') = Inr es'
            \<and> (\<forall>j. p118_replay sha es' j = p118_replay sha es j)
     else \<exists>st'. p118_register_operation sha env \<lparr>ws_file = sys_file y, ws_entries = sys_cache y p\<rparr>
                  = (st', Inl (p118_ledger_error ''idempotency_key_payload_mismatch''))
            \<and> ws_file st' = sys_file y"
proof -
  have lg: "p118_log sha es" using p118_reachable_log [OF assms(1)] assms(2) by auto
  then have v: "wal_valid sha es" by (rule p118_log_valid)
  let ?st = "\<lparr>ws_file = sys_file y, ws_entries = sys_cache y p\<rparr>"
  have load: "p118_load (ws_file ?st) = Inr es" using assms(2) by simp
  obtain ab where "p118_register_operation sha env = p118_append_receipt sha ab"
    "aa_expected_prior_cas ab = None" "aa_expected_lease_owner ab = PNone" "aa_expected_lease_expires_at ab = None"
    "p118_registration sha env = Inr ab" by (rule p118_register_eq [OF assms(3)]) blast
  with assms(4) have reg: "p118_register_operation sha env = p118_append_receipt sha a"
    and free: "aa_expected_prior_cas a = None" "aa_expected_lease_owner a = PNone"
      "aa_expected_lease_expires_at a = None" by auto
  have found: "p118_state_by_idempotency_key sha es key = Inr (Some s)"
    using assms(6-8) by (simp add: p118_state_by_idempotency_key_def)
  show ?thesis
  proof (cases "ps_payload_hash s = hash")
    case False
    then have "p118_dedupe sha es a = Inl (p118_ledger_error ''idempotency_key_payload_mismatch'')"
      using found assms(5) by (simp add: p118_dedupe_def)
    then have "p118_append sha a ?st =
        (?st\<lparr>ws_entries := es\<rparr>, Inl (p118_ledger_error ''idempotency_key_payload_mismatch''))"
      using load v by (simp add: p118_append_def wal_append_def p118_plan_entry_def)
    with False show ?thesis by (simp add: reg p118_append_receipt_def op_bind_def)
  next
    case True
    define a' where "a' = a\<lparr>aa_operation_id := ps_operation_id s, aa_receipt_type := ''idempotent_replay'',
        aa_state := ps_state s, aa_cas_version := ps_cas_version s, aa_lease_owner_id := ps_lease_owner_id s,
        aa_payload := [(''duplicate_action_count'', PInt 0)]\<rparr>"
    have dd: "p118_dedupe sha es a = Inr a'"
      using found assms(5) True by (simp add: p118_dedupe_def a'_def)
    have "p118_check_cas sha es a' = Inr ()" "p118_check_lease sha es a' = Inr ()"
      using free by (auto simp: a'_def intro!: p118_no_checks)
    from p118_append_receipt_ok [OF load v dd this] obtain st' r where
      r: "p118_append_receipt sha a ?st = (st', Inr r)" "pr_receipt_type r = ''idempotent_replay''"
        "pr_state r = ps_state s" "pr_cas_version r = ps_cas_version s" by (auto simp: a'_def)
    from r(1) load obtain h where h:
      "p118_load (ws_file st') = Inr (es @ [seal_entry sha es h (p118_entry_body a')])"
      "wal_valid sha (es @ [seal_entry sha es h (p118_entry_body a')])"
      by (rule p118_append_receipt_success) (use dd in auto)
    have "p118_replay_step j (seal_entry sha es h (p118_entry_body a')) st0 = Inr st0" for j st0
      by (simp add: p118_step_sealed a'_def split: option.splits)
    then have "p118_replay sha (es @ [seal_entry sha es h (p118_entry_body a')]) j = p118_replay sha es j" for j
      using v h(2) by (cases "p118_replay_loop j es None") (simp_all add: p118_replay_valid p118_replay_loop_snoc)
    with True r h(1) show ?thesis by (auto simp: reg)
  qed
qed

text \<open>A registration under a key that the log does not know starts the operation at \<open>received\<close>.\<close>

lemma p118_register_fresh:
  assumes load: "p118_load (ws_file st) = Inr es" and lg: "p118_log sha es"
    and "build_operation_envelope sha data = Inr env"
    and "pget (env_payload env) ''idempotency_key'' = PStr key" and "p118_registered_under key es = Inr []"
  shows "\<exists>st' r h owner. p118_register_operation sha env st = (st', Inr r)
     \<and> p118_load (ws_file st') = Inr (ws_entries st')
     \<and> p118_replay sha (ws_entries st') (env_operation_id env) =
         Inr (p118_fresh_state (env_operation_id env) key h owner)"
proof -
  have v: "wal_valid sha es" using lg by (rule p118_log_valid)
  obtain a hash owner where reg: "p118_register_operation sha env = p118_append_receipt sha a"
    and a: "aa_register a = Some (key, hash)" "aa_operation_id a = env_operation_id env"
      "aa_receipt_type a = ''operation_registered''" "p118_registration sha env = Inr a"
      "\<And>i. p118_registered_state i (PDict (aa_payload a)) = Inr (p118_fresh_state i key hash owner)"
    and free: "aa_expected_prior_cas a = None" "aa_expected_lease_owner a = PNone"
      "aa_expected_lease_expires_at a = None"
    by (rule p118_register_eq [OF assms(3)]) (use assms(4) in auto)
  have dd: "p118_dedupe sha es a = Inr a"
    using a(1) assms(5) by (simp add: p118_dedupe_def p118_state_by_idempotency_key_def)
  from p118_append_receipt_ok [OF load v dd p118_no_checks(1) [OF free(1)] p118_no_checks(2) [OF free(2,3)]
      p118_registration_payload_count [OF a(4)]]
  obtain st' r where r: "p118_append_receipt sha a st = (st', Inr r)" by blast
  from r load obtain h where h:
    "p118_load (ws_file st') = Inr (es @ [seal_entry sha es h (p118_entry_body a)])"
    "ws_entries st' = es @ [seal_entry sha es h (p118_entry_body a)]"
    "wal_valid sha (es @ [seal_entry sha es h (p118_entry_body a)])"
    by (rule p118_append_receipt_success) (use dd in auto)
  obtain s0 where "p118_replay_loop (env_operation_id env) es None = Inr s0"
    using p118_log_replay [OF lg] by blast
  with h have "p118_replay sha (ws_entries st') (env_operation_id env) =
      Inr (p118_fresh_state (env_operation_id env) key hash owner)"
    by (simp add: p118_replay_Inr_iff p118_replay_loop_snoc p118_step_sealed a)
  with r h(1,2) show ?thesis by (auto simp: reg)
qed

text \<open>The ledger does not protect a finished operation from registration under a fresh key: replay then
  starts over from \<open>received\<close> with CAS version 0, whatever terminal state it had reached.\<close>

theorem p118_fresh_key_reopens_operation:
  assumes "p118_reachable sha y" and "load_entries (p118_ledger_error ''invalid_wal_entry'') (sys_file y) = Inr es"
    and "build_operation_envelope sha data = Inr env"
    and "p118_replay sha es (env_operation_id env) = Inr s" and "p118_terminal (ps_state s)"
    and "pget (env_payload env) ''idempotency_key'' = PStr key" and "p118_registered_under key es = Inr []"
  shows "\<exists>st' r es' s'. p118_register_operation sha env \<lparr>ws_file = sys_file y, ws_entries = sys_cache y p\<rparr> = (st', Inr r)
     \<and> load_entries (p118_ledger_error ''invalid_wal_entry'') (ws_file st') = Inr es'
     \<and> p118_replay sha es' (env_operation_id env) = Inr s'
     \<and> ps_state s' = ''received'' \<and> ps_cas_version s' = 0"
proof -
  have "p118_log sha es" using p118_reachable_log [OF assms(1)] assms(2) by auto
  from p118_register_fresh [of "\<lparr>ws_file = sys_file y, ws_entries = sys_cache y p\<rparr>", OF _ this assms(3,6,7)] assms(2)
  show ?thesis by (auto simp: p118_fresh_state_def)
qed

section \<open>Tampering\<close>

text \<open>Dropping, copying or reordering entries of a log that verifies is detected by
  \<open>verify_hash_chain\<close> unless all that was done is to cut off a tail.\<close>

theorem wal_rearrangement_detected:
  assumes "verify_hash_chain sha es = Inr True" and "set es' \<subseteq> set es"
    and "verify_hash_chain sha es' = Inr True"
  shows "es' = take (length es') es"
  using assms by (intro wal_valid_subset_prefix [of sha]) (auto simp: verify_iff)

end
