(* ===== verification/P118_Approval.thy ===== *)
theory P118_Approval
  imports P118_Contract
begin

text \<open>
  The fail-closed approval decision of \<open>app/services/p118_approval.py\<close>, the validation of its
  receipt, and the measured validation cycle of \<open>app/services/p118_validation_cycle.py\<close>.  Of
  \<open>app/services/p118_action_pack_verifier.py\<close> only the result record is used.
\<close>

section \<open>Records\<close>

record p118_verification =
  vf_accepted :: bool
  vf_action_pack_id :: string
  vf_pack_digest :: string
  vf_signer_id :: string
  vf_signer_key_id :: string
  vf_p117_decision_episode_id :: string
  vf_p117_output_hash :: string
  vf_revocation_manifest_hash :: string
  vf_expiration_checked_at :: int
  vf_expires_at :: int
  vf_authority_counter_snapshot :: pydict
  vf_verification_hash :: string

definition verification_to_dict :: "p118_verification \<Rightarrow> pydict" where
  "verification_to_dict v =
     [(''accepted'', PBool (vf_accepted v)), (''action_pack_id'', PStr (vf_action_pack_id v)),
      (''pack_digest'', PStr (vf_pack_digest v)), (''signer_id'', PStr (vf_signer_id v)),
      (''signer_key_id'', PStr (vf_signer_key_id v)),
      (''p117_decision_episode_id'', PStr (vf_p117_decision_episode_id v)),
      (''p117_output_hash'', PStr (vf_p117_output_hash v)),
      (''revocation_manifest_hash'', PStr (vf_revocation_manifest_hash v)),
      (''expiration_checked_at'', PInt (vf_expiration_checked_at v)),
      (''expires_at'', PInt (vf_expires_at v)),
      (''authority_counter_snapshot'', PDict (vf_authority_counter_snapshot v)),
      (''verification_hash'', PStr (vf_verification_hash v))]"

definition P118_APPROVAL_DECISION_SCHEMA_VERSION :: string where
  "P118_APPROVAL_DECISION_SCHEMA_VERSION = ''p118.approval_decision.v1''"

definition P118_POLICY_COUNTER_KEYS :: "string list" where
  "P118_POLICY_COUNTER_KEYS = P118_AUTHORITY_COUNTER_KEYS @
     [''approvals'', ''rejections'', ''rollback_attempts'', ''duplicate_action_attempts'', ''fail_closed_decisions'']"

record p118_decision =
  ad_approved :: bool
  ad_reason :: string
  ad_policy_hash :: string
  ad_operation_id :: string
  ad_verification_hash :: string
  ad_verification_expires_at :: int
  ad_lease_expires_at :: int
  ad_lease_receipt_hash :: string
  ad_wal_receipt_hash :: string
  ad_wal_position :: int
  ad_cas_version :: int
  ad_decided_at :: int
  ad_operation_context_hash :: string
  ad_approval_context_hash :: string
  ad_counters :: pydict
  ad_policy_counters :: pydict
  ad_authority_counter_snapshot :: pydict
  ad_nonlocal_authority_zero :: bool
  ad_decision_hash :: string

definition decision_to_dict :: "p118_decision \<Rightarrow> pydict" where
  "decision_to_dict d =
     [(''schema_version'', PStr P118_APPROVAL_DECISION_SCHEMA_VERSION), (''approved'', PBool (ad_approved d)),
      (''reason'', PStr (ad_reason d)), (''policy_hash'', PStr (ad_policy_hash d)),
      (''operation_id'', PStr (ad_operation_id d)), (''verification_hash'', PStr (ad_verification_hash d)),
      (''verification_expires_at'', PInt (ad_verification_expires_at d)),
      (''lease_expires_at'', PInt (ad_lease_expires_at d)),
      (''lease_receipt_hash'', PStr (ad_lease_receipt_hash d)),
      (''wal_receipt_hash'', PStr (ad_wal_receipt_hash d)), (''wal_position'', PInt (ad_wal_position d)),
      (''cas_version'', PInt (ad_cas_version d)), (''decided_at'', PInt (ad_decided_at d)),
      (''operation_context_hash'', PStr (ad_operation_context_hash d)),
      (''approval_context_hash'', PStr (ad_approval_context_hash d)),
      (''counters'', PDict (ad_counters d)), (''policy_counters'', PDict (ad_policy_counters d)),
      (''authority_counter_snapshot'', PDict (ad_authority_counter_snapshot d)),
      (''nonlocal_authority_zero'', PBool (ad_nonlocal_authority_zero d)),
      (''decision_hash'', PStr (ad_decision_hash d))]"

section \<open>Receipts\<close>

definition validate_p118_receipt_self_hash :: "(string \<Rightarrow> string) \<Rightarrow> string \<Rightarrow> pydict \<Rightarrow> bool" where
  "validate_p118_receipt_self_hash sha field receipt =
     (case pget receipt field of
        PStr claimed \<Rightarrow> claimed = stable_hash sha (PDict (pwithout [field] receipt))
      | _ \<Rightarrow> False)"

definition p118_operation_context_hash :: "(string \<Rightarrow> string) \<Rightarrow> pydict \<Rightarrow> string" where
  "p118_operation_context_hash sha operation =
     stable_hash sha (PDict (pwithout [''approval_receipt'', ''envelope_hash''] operation))"

definition empty_p118_policy_counters :: pydict where
  "empty_p118_policy_counters = map (\<lambda>k. (k, PInt 0)) P118_POLICY_COUNTER_KEYS"

section \<open>The rejection reason\<close>

fun counter_reason :: "pydict \<Rightarrow> string list \<Rightarrow> string option" where
  "counter_reason counters [] = None"
| "counter_reason counters (key # keys) =
     (case strict_int (pget counters key) of
        None \<Rightarrow> Some (''missing_authority_counter:'' @ key)
      | Some v \<Rightarrow> if v \<noteq> 0 then Some (''authority_counter_nonzero:'' @ key) else counter_reason counters keys)"

text \<open>\<open>isinstance(v, int)\<close>, which a \<open>bool\<close> passes.\<close>

fun is_int :: "pyval \<Rightarrow> bool" where
  "is_int (PInt _) = True"
| "is_int (PBool _) = True"
| "is_int _ = False"

definition int_of :: "pyval \<Rightarrow> int" where
  "int_of v = (case py_int v of Inr i \<Rightarrow> i | Inl _ \<Rightarrow> 0)"

definition p118_rejection_reason ::
    "(string \<Rightarrow> string) \<Rightarrow> pydict \<Rightarrow> p118_verification \<Rightarrow> string \<Rightarrow> pydict \<Rightarrow> pydict \<Rightarrow> int \<Rightarrow> pydict \<Rightarrow> int
     \<Rightarrow> string option result" where
  "p118_rejection_reason sha operation v policy_hash lease wal cas_version counters now =
     (if \<not> sha256_text policy_hash then Inr (Some ''missing_policy_hash'')
      else case unknown_keys counters P118_POLICY_COUNTER_KEYS of
        u # _ \<Rightarrow> Inr (Some (''unknown_policy_counter:'' @ u))
      | [] \<Rightarrow>
      (case sort (filter (\<lambda>k. \<not> phas counters k) P118_POLICY_COUNTER_KEYS) of
        m # _ \<Rightarrow> Inr (Some (''missing_policy_counter:'' @ m))
      | [] \<Rightarrow>
      (case counter_reason counters P118_AUTHORITY_COUNTER_KEYS of
        Some r \<Rightarrow> Inr (Some r)
      | None \<Rightarrow>
      if \<not> vf_accepted v then Inr (Some ''pack_not_verified'')
      else if vf_verification_hash v \<noteq> stable_hash sha (PDict (pwithout [''verification_hash''] (verification_to_dict v)))
      then Inr (Some ''invalid_verification_self_hash'')
      else if vf_expires_at v \<le> now then Inr (Some ''stale_pack_verification'')
      else if \<not> py_eq (PStr (vf_p117_decision_episode_id v)) (pget operation ''p117_decision_episode_id'')
      then Inr (Some ''p117_decision_episode_mismatch'')
      else if \<not> py_eq (PStr (vf_action_pack_id v)) (pget operation ''p117_selected_action_pack_id'')
      then Inr (Some ''verified_pack_id_mismatch'')
      else if \<not> py_eq (PStr (vf_pack_digest v)) (pget operation ''p115_action_pack_digest'')
      then Inr (Some ''verified_pack_digest_mismatch'')
      else let expected_owner =
             py_str (pget_or (as_dict (pget operation ''lease_receipt'')) ''owner_id'' (PStr '''')) in
      if expected_owner = [] \<or> \<not> py_eq (pget lease ''owner_id'') (PStr expected_owner)
      then Inr (Some ''lease_owner_mismatch'')
      else if \<not> py_eq (pget lease ''operation_id'') (pget operation ''operation_id'')
      then Inr (Some ''lease_operation_mismatch'')
      else if \<not> is_int (pget lease ''expires_at'') \<or> int_of (pget lease ''expires_at'') \<le> now
      then Inr (Some ''stale_lease_receipt'')
      else if \<not> py_eq (pget lease ''cas_version'') (PInt cas_version) then Inr (Some ''lease_cas_mismatch'')
      else if \<not> validate_p118_receipt_self_hash sha ''receipt_hash'' lease then Inr (Some ''invalid_lease_receipt'')
      else if \<not> validate_p118_receipt_self_hash sha ''receipt_hash'' wal then Inr (Some ''invalid_wal_receipt'')
      else if \<not> py_eq (pget wal ''operation_id'') (pget operation ''operation_id'')
      then Inr (Some ''wal_operation_mismatch'')
      else if \<not> py_eq (pget wal ''cas_version'') (PInt cas_version) then Inr (Some ''wal_cas_mismatch'')
      else rbind (py_int (pget_or wal ''wal_position'' (PInt (-1)))) (\<lambda>wal_pos.
        rbind (py_int (pget_or operation ''wal_position'' (PInt 0))) (\<lambda>op_pos.
        if wal_pos < op_pos then Inr (Some ''stale_wal_receipt'')
        else rbind (py_int (pget_or operation ''cas_version'' (PInt (-1)))) (\<lambda>op_cas.
          if cas_version \<noteq> op_cas then Inr (Some ''stale_cas_version'')
          else if \<not> truthy (pget operation ''validation_plan_ref'') then Inr (Some ''missing_validation_plan'')
          else if \<not> truthy (pget operation ''rollback_plan_ref'') then Inr (Some ''missing_rollback_plan'')
          else Inr None))))))"

section \<open>The decision\<close>

definition decide_p118_approval ::
    "(string \<Rightarrow> string) \<Rightarrow> p118_envelope \<Rightarrow> p118_verification \<Rightarrow> string \<Rightarrow> int \<Rightarrow> pydict \<Rightarrow> pydict \<Rightarrow> int
     \<Rightarrow> pydict option \<Rightarrow> p118_decision result" where
  "decide_p118_approval sha operation v policy_hash now lease wal cas_version observed_counters =
     (let payload = env_payload operation;
          observed = (case observed_counters of None \<Rightarrow> empty_p118_policy_counters | Some c \<Rightarrow> c) in
      rbind (p118_rejection_reason sha payload v policy_hash lease wal cas_version observed now) (\<lambda>reason.
      let approved = (reason = None) in
      rbind (rmap (\<lambda>k. rbind (py_int (pget_or observed k (PInt 0))) (\<lambda>i. Inr (k, PInt i)))
               P118_AUTHORITY_COUNTER_KEYS) (\<lambda>seen.
      let policy_counters =
            pmerge (pmerge empty_p118_policy_counters seen)
              [(if approved then ''approvals'' else ''rejections'', PInt 1),
               (''fail_closed_decisions'', PInt (if approved then 0 else 1))];
          nonlocal_zero = list_all (\<lambda>k. pget policy_counters k = PInt 0) P118_AUTHORITY_COUNTER_KEYS;
          decision_reason = (case reason of None \<Rightarrow> ''approved'' | Some r \<Rightarrow> r);
          authority_snapshot = map (\<lambda>k. (k, pget policy_counters k)) P118_AUTHORITY_COUNTER_KEYS;
          operation_context_hash = p118_operation_context_hash sha payload;
          context =
            [(''operation_context_hash'', PStr operation_context_hash),
             (''verification_hash'', PStr (vf_verification_hash v)),
             (''verification_expires_at'', PInt (vf_expires_at v)), (''policy_hash'', PStr policy_hash),
             (''lease_expires_at'', pget lease ''expires_at''),
             (''lease_receipt_hash'', pget lease ''receipt_hash''),
             (''wal_receipt_hash'', pget wal ''receipt_hash''), (''wal_position'', pget wal ''wal_position''),
             (''cas_version'', PInt cas_version), (''decided_at'', PInt now),
             (''counters'', PDict authority_snapshot), (''policy_counters'', PDict policy_counters)];
          base =
            [(''schema_version'', PStr P118_APPROVAL_DECISION_SCHEMA_VERSION), (''approved'', PBool approved),
             (''reason'', PStr decision_reason), (''policy_hash'', PStr policy_hash),
             (''operation_id'', PStr (env_operation_id operation)),
             (''verification_hash'', PStr (vf_verification_hash v)),
             (''verification_expires_at'', PInt (vf_expires_at v)),
             (''lease_expires_at'', pget lease ''expires_at''),
             (''lease_receipt_hash'', pget lease ''receipt_hash''),
             (''wal_receipt_hash'', pget wal ''receipt_hash''), (''wal_position'', pget wal ''wal_position''),
             (''cas_version'', PInt cas_version), (''decided_at'', PInt now),
             (''operation_context_hash'', PStr operation_context_hash),
             (''approval_context_hash'', PStr (stable_hash sha (PDict context))),
             (''counters'', PDict authority_snapshot), (''policy_counters'', PDict policy_counters),
             (''authority_counter_snapshot'', PDict authority_snapshot),
             (''nonlocal_authority_zero'', PBool nonlocal_zero)] in
      rbind (py_int (pget_or lease ''expires_at'' (PInt (-1)))) (\<lambda>lease_expires_at.
      rbind (py_int (pget_or wal ''wal_position'' (PInt (-1)))) (\<lambda>wal_position.
      Inr \<lparr>ad_approved = approved, ad_reason = decision_reason, ad_policy_hash = policy_hash,
           ad_operation_id = env_operation_id operation, ad_verification_hash = vf_verification_hash v,
           ad_verification_expires_at = vf_expires_at v, ad_lease_expires_at = lease_expires_at,
           ad_lease_receipt_hash = py_str (pget_or lease ''receipt_hash'' (PStr '''')),
           ad_wal_receipt_hash = py_str (pget_or wal ''receipt_hash'' (PStr '''')),
           ad_wal_position = wal_position, ad_cas_version = cas_version, ad_decided_at = now,
           ad_operation_context_hash = operation_context_hash,
           ad_approval_context_hash = stable_hash sha (PDict context),
           ad_counters = authority_snapshot, ad_policy_counters = policy_counters,
           ad_authority_counter_snapshot = authority_snapshot, ad_nonlocal_authority_zero = nonlocal_zero,
           ad_decision_hash = stable_hash sha (PDict base)\<rparr>)))))"

section \<open>Validation of a decision receipt\<close>

definition is_sha256 :: "pyval \<Rightarrow> bool" where
  "is_sha256 v = (case v of PStr s \<Rightarrow> sha256_text s | _ \<Rightarrow> False)"

definition same_keys :: "pydict \<Rightarrow> string list \<Rightarrow> bool" where
  "same_keys d keys = (set (map fst d) = set keys)"

definition approval_context :: "pydict \<Rightarrow> pydict \<Rightarrow> pydict \<Rightarrow> pydict" where
  "approval_context receipt counters policy_counters =
     map (\<lambda>k. (k, pget receipt k))
       [''operation_context_hash'', ''verification_hash'', ''verification_expires_at'', ''policy_hash'',
        ''lease_expires_at'', ''lease_receipt_hash'', ''wal_receipt_hash'', ''wal_position'', ''cas_version'',
        ''decided_at'']
     @ [(''counters'', PDict counters), (''policy_counters'', PDict policy_counters)]"

text \<open>An argument that the caller omits is \<open>None\<close>.\<close>

definition validate_p118_approval_decision_receipt ::
    "(string \<Rightarrow> string) \<Rightarrow> pydict \<Rightarrow> pydict option \<Rightarrow> string option \<Rightarrow> pydict option \<Rightarrow> pydict option
     \<Rightarrow> int option \<Rightarrow> int option \<Rightarrow> bool" where
  "validate_p118_approval_decision_receipt sha receipt operation verification_hash lease wal cas_version now =
     (if \<not> py_eq (pget receipt ''schema_version'') (PStr P118_APPROVAL_DECISION_SCHEMA_VERSION)
         \<or> \<not> validate_p118_receipt_self_hash sha ''decision_hash'' receipt then False
      else if list_ex (\<lambda>f. \<not> is_sha256 (pget receipt f))
                [''policy_hash'', ''verification_hash'', ''lease_receipt_hash'', ''wal_receipt_hash'',
                 ''operation_context_hash'', ''approval_context_hash''] then False
      else if list_ex (\<lambda>f. strict_int (pget receipt f) = None)
                [''verification_expires_at'', ''lease_expires_at'', ''wal_position'', ''cas_version'',
                 ''decided_at''] then False
      else case (p118_validate_zero_counters (pget receipt ''counters''),
                 p118_validate_zero_counters (pget receipt ''authority_counter_snapshot'')) of
        (Inr counters, Inr snapshot) \<Rightarrow>
          if \<not> py_eq (PDict counters) (PDict snapshot) then False
          else (case pget receipt ''policy_counters'' of
             PDict policy_counters \<Rightarrow>
               if \<not> same_keys policy_counters P118_POLICY_COUNTER_KEYS
                  \<or> list_ex (\<lambda>k. strict_int (pget policy_counters k) = None) P118_POLICY_COUNTER_KEYS
                  \<or> list_ex (\<lambda>k. \<not> py_eq (pget policy_counters k) (PInt 0)) P118_AUTHORITY_COUNTER_KEYS
               then False
               else if \<not> py_eq (pget receipt ''approval_context_hash'')
                          (PStr (stable_hash sha (PDict (approval_context receipt counters policy_counters))))
               then False
               else if (case operation of None \<Rightarrow> False | Some o' \<Rightarrow>
                          \<not> py_eq (pget receipt ''operation_id'') (pget o' ''operation_id'')
                          \<or> \<not> py_eq (pget receipt ''operation_context_hash'')
                                (PStr (p118_operation_context_hash sha o'))) then False
               else if (case verification_hash of None \<Rightarrow> False | Some h \<Rightarrow>
                          \<not> py_eq (pget receipt ''verification_hash'') (PStr h)) then False
               else if (case lease of None \<Rightarrow> False | Some l \<Rightarrow>
                          \<not> validate_p118_receipt_self_hash sha ''receipt_hash'' l
                          \<or> \<not> py_eq (pget receipt ''lease_receipt_hash'') (pget l ''receipt_hash'')
                          \<or> \<not> py_eq (pget receipt ''lease_expires_at'') (pget l ''expires_at'')) then False
               else if (case wal of None \<Rightarrow> False | Some w \<Rightarrow>
                          \<not> validate_p118_receipt_self_hash sha ''receipt_hash'' w
                          \<or> \<not> py_eq (pget receipt ''wal_receipt_hash'') (pget w ''receipt_hash'')
                          \<or> \<not> py_eq (pget receipt ''wal_position'') (pget w ''wal_position'')) then False
               else if (case cas_version of None \<Rightarrow> False | Some c \<Rightarrow>
                          \<not> py_eq (pget receipt ''cas_version'') (PInt c)) then False
               else (case now of None \<Rightarrow> True | Some t \<Rightarrow>
                      int_of (pget receipt ''verification_expires_at'') > t
                      \<and> int_of (pget receipt ''lease_expires_at'') > t \<and> int_of (pget receipt ''decided_at'') \<le> t)
           | _ \<Rightarrow> False)
      | _ \<Rightarrow> False)"

section \<open>An approval validates\<close>

lemma decision_get:
  "pget (decision_to_dict d) ''schema_version'' = PStr P118_APPROVAL_DECISION_SCHEMA_VERSION"
  "pget (decision_to_dict d) ''approved'' = PBool (ad_approved d)"
  "pget (decision_to_dict d) ''policy_hash'' = PStr (ad_policy_hash d)"
  "pget (decision_to_dict d) ''operation_id'' = PStr (ad_operation_id d)"
  "pget (decision_to_dict d) ''verification_hash'' = PStr (ad_verification_hash d)"
  "pget (decision_to_dict d) ''verification_expires_at'' = PInt (ad_verification_expires_at d)"
  "pget (decision_to_dict d) ''lease_expires_at'' = PInt (ad_lease_expires_at d)"
  "pget (decision_to_dict d) ''lease_receipt_hash'' = PStr (ad_lease_receipt_hash d)"
  "pget (decision_to_dict d) ''wal_receipt_hash'' = PStr (ad_wal_receipt_hash d)"
  "pget (decision_to_dict d) ''wal_position'' = PInt (ad_wal_position d)"
  "pget (decision_to_dict d) ''cas_version'' = PInt (ad_cas_version d)"
  "pget (decision_to_dict d) ''decided_at'' = PInt (ad_decided_at d)"
  "pget (decision_to_dict d) ''operation_context_hash'' = PStr (ad_operation_context_hash d)"
  "pget (decision_to_dict d) ''approval_context_hash'' = PStr (ad_approval_context_hash d)"
  "pget (decision_to_dict d) ''counters'' = PDict (ad_counters d)"
  "pget (decision_to_dict d) ''policy_counters'' = PDict (ad_policy_counters d)"
  "pget (decision_to_dict d) ''authority_counter_snapshot'' = PDict (ad_authority_counter_snapshot d)"
  "pget (decision_to_dict d) ''decision_hash'' = PStr (ad_decision_hash d)"
  by (simp_all add: decision_to_dict_def)

text \<open>The policy counters of an approval.\<close>

definition approved_counters :: pydict where
  "approved_counters = p118_zero_counters @
     [(''approvals'', PInt 1), (''rejections'', PInt 0), (''rollback_attempts'', PInt 0),
      (''duplicate_action_attempts'', PInt 0), (''fail_closed_decisions'', PInt 0)]"

lemma approved_counters_facts:
  "pmerge (pmerge empty_p118_policy_counters p118_zero_counters)
     [(''approvals'', PInt 1), (''fail_closed_decisions'', PInt 0)] = approved_counters"
  "map (\<lambda>k. (k, pget approved_counters k)) P118_AUTHORITY_COUNTER_KEYS = p118_zero_counters"
  "p118_validate_zero_counters (PDict p118_zero_counters) = Inr p118_zero_counters"
  "same_keys approved_counters P118_POLICY_COUNTER_KEYS"
  "\<not> list_ex (\<lambda>k. strict_int (pget approved_counters k) = None) P118_POLICY_COUNTER_KEYS"
  "\<not> list_ex (\<lambda>k. \<not> py_eq (pget approved_counters k) (PInt 0)) P118_AUTHORITY_COUNTER_KEYS"
  "py_eq (PDict p118_zero_counters) (PDict p118_zero_counters)"
  by code_simp+

lemma counter_reason_None: "counter_reason d keys = None \<Longrightarrow> k \<in> set keys \<Longrightarrow> pget d k = PInt 0"
proof (induction keys)
  case Nil
  then show ?case by simp
next
  case (Cons k' keys)
  then show ?case by (cases "pget d k'") (auto split: if_splits)
qed

lemma pget_or_pget: "pget d k \<noteq> PNone \<Longrightarrow> pget_or d k x = pget d k"
  by (auto simp: pget_def pget_or_def split: option.splits)

lemma seen_zero:
  assumes "\<And>k. k \<in> set keys \<Longrightarrow> pget d k = PInt 0"
  shows "rmap (\<lambda>k. rbind (py_int (pget_or d k (PInt 0))) (\<lambda>i. Inr (k, PInt i))) keys
           = Inr (map (\<lambda>k. (k, PInt 0)) keys)"
  using assms by (induction keys) (simp_all add: pget_or_pget)

lemma self_hash_string:
  "validate_p118_receipt_self_hash sha f r \<longleftrightarrow> pget r f = PStr (stable_hash sha (PDict (pwithout [f] r)))"
  by (cases "pget r f") (auto simp: validate_p118_receipt_self_hash_def)

text \<open>What a missing rejection reason implies.\<close>

lemma no_rejection:
  assumes "p118_rejection_reason sha operation v policy_hash lease wal cas_version counters now = Inr None"
  shows "sha256_text policy_hash \<and> counter_reason counters P118_AUTHORITY_COUNTER_KEYS = None
     \<and> vf_verification_hash v = stable_hash sha (PDict (pwithout [''verification_hash''] (verification_to_dict v)))
     \<and> now < vf_expires_at v
     \<and> py_eq (pget lease ''operation_id'') (pget operation ''operation_id'')
     \<and> now < int_of (pget lease ''expires_at'')
     \<and> validate_p118_receipt_self_hash sha ''receipt_hash'' lease
     \<and> validate_p118_receipt_self_hash sha ''receipt_hash'' wal"
  using assms unfolding p118_rejection_reason_def
  by (simp split: if_split_asm list.split_asm option.split_asm add: Let_def)

lemma stable_hash_sha256:
  "length (sha t) = 64 \<Longrightarrow> list_all is_hex_lower (sha t) \<Longrightarrow> sha256_text (''sha256:'' @ sha t)"
  by (simp add: sha256_text_def)

text \<open>C19. A receipt that the approval policy issued is accepted by the validator for the same operation,
  verification, lease, WAL receipt and CAS version until the verification or the lease expires.\<close>

theorem p118_approval_receipt_validates:
  assumes digest: "\<And>t. length (sha t) = 64 \<and> list_all is_hex_lower (sha t)"
    and opid: "pget (env_payload env) ''operation_id'' = PStr (env_operation_id env)"
    and decided: "decide_p118_approval sha env v policy_hash now lease wal cas None = Inr d"
    and approved: "ad_approved d"
    and typed: "strict_int (pget lease ''expires_at'') = Some lx" "strict_int (pget wal ''wal_position'') = Some wp"
    and time: "now \<le> t" "t < vf_expires_at v" "t < lx"
  shows "validate_p118_approval_decision_receipt sha (decision_to_dict d) (Some (env_payload env))
           (Some (vf_verification_hash v)) (Some lease) (Some wal) (Some cas) (Some t)"
proof -
  have hex: "sha256_text (stable_hash sha x)" for x
    using digest by (simp add: stable_hash_def stable_hash_sha256 del: append.simps)
  have lease_wal: "pget lease ''expires_at'' = PInt lx" "pget wal ''wal_position'' = PInt wp"
    using typed by (cases "pget lease ''expires_at''"; cases "pget wal ''wal_position''"; simp)+
  then have default: "pget_or lease ''expires_at'' x = PInt lx" "pget_or wal ''wal_position'' x = PInt wp" for x
    by (simp_all add: pget_or_pget)
  obtain reason where "p118_rejection_reason sha (env_payload env) v policy_hash lease wal cas
      empty_p118_policy_counters now = Inr reason"
    using decided by (auto simp: decide_p118_approval_def Let_def elim!: rbind_InrE)
  moreover from this have "reason = None"
    using decided approved by (auto simp: decide_p118_approval_def Let_def elim!: rbind_InrE)
  ultimately have none: "p118_rejection_reason sha (env_payload env) v policy_hash lease wal cas
      empty_p118_policy_counters now = Inr None" by simp
  note facts = no_rejection [OF none]
  have hashes: "pget lease ''receipt_hash'' = PStr (stable_hash sha (PDict (pwithout [''receipt_hash''] lease)))"
    "pget wal ''receipt_hash'' = PStr (stable_hash sha (PDict (pwithout [''receipt_hash''] wal)))"
    using facts by (simp_all add: self_hash_string)
  have "rmap (\<lambda>k. rbind (py_int (pget_or empty_p118_policy_counters k (PInt 0))) (\<lambda>i. Inr (k, PInt i)))
      P118_AUTHORITY_COUNTER_KEYS = Inr p118_zero_counters"
    unfolding p118_zero_counters_def using facts by (intro seen_zero) (blast dest: counter_reason_None)
  with decided have d: "ad_policy_hash d = policy_hash" "ad_operation_id d = env_operation_id env"
    "ad_verification_hash d = vf_verification_hash v" "ad_verification_expires_at d = vf_expires_at v"
    "ad_lease_expires_at d = lx" "ad_wal_position d = wp" "ad_cas_version d = cas" "ad_decided_at d = now"
    "ad_lease_receipt_hash d = stable_hash sha (PDict (pwithout [''receipt_hash''] lease))"
    "ad_wal_receipt_hash d = stable_hash sha (PDict (pwithout [''receipt_hash''] wal))"
    "ad_operation_context_hash d = p118_operation_context_hash sha (env_payload env)"
    "ad_counters d = p118_zero_counters" "ad_policy_counters d = approved_counters"
    "ad_authority_counter_snapshot d = p118_zero_counters"
    and ctx: "ad_approval_context_hash d =
        stable_hash sha (PDict (approval_context (decision_to_dict d) p118_zero_counters approved_counters))"
    and own: "ad_decision_hash d = stable_hash sha (PDict (pwithout [''decision_hash''] (decision_to_dict d)))"
    by (auto simp: decide_p118_approval_def Let_def none approved_counters_facts default lease_wal hashes
        pget_or_pget approval_context_def decision_get simp del: pmerge_Cons)
       (simp_all add: decision_to_dict_def pwithout_def)
  have "validate_p118_receipt_self_hash sha ''decision_hash'' (decision_to_dict d)"
    by (simp add: self_hash_string decision_get own)
  moreover have "int_of (PInt i) = i" for i by (simp add: int_of_def)
  moreover have "sha256_text (vf_verification_hash v)" "sha256_text (p118_operation_context_hash sha (env_payload env))"
    "sha256_text (ad_approval_context_hash d)"
    using facts hex by (simp_all add: ctx p118_operation_context_hash_def)
  ultimately show ?thesis
    unfolding validate_p118_approval_decision_receipt_def decision_get d approved_counters_facts is_sha256_def
    using facts time hex ctx
    by (simp add: decision_get d approved_counters_facts approved_counters_facts(7) [simplified] hashes
        lease_wal opid)
qed

definition demo_verification :: p118_verification where
  "demo_verification =
     \<lparr>vf_accepted = True, vf_action_pack_id = ''p'', vf_pack_digest = ''sha256:'' @ replicate 64 (CHR ''a''),
      vf_signer_id = ''s'', vf_signer_key_id = ''sk'', vf_p117_decision_episode_id = ''e'',
      vf_p117_output_hash = ''h'', vf_revocation_manifest_hash = ''m'', vf_expiration_checked_at = 0,
      vf_expires_at = 100, vf_authority_counter_snapshot = p118_zero_counters,
      vf_verification_hash = ''sha256:'' @ demo_digest\<rparr>"

definition demo_lease :: pydict where
  "demo_lease = [(''cas_version'', PInt 0), (''expires_at'', PInt 90), (''operation_id'', PStr ''op''),
     (''owner_id'', PStr ''w''), (''receipt_hash'', PStr (''sha256:'' @ demo_digest))]"

definition demo_wal :: pydict where
  "demo_wal = [(''operation_id'', PStr ''op''), (''cas_version'', PInt 0), (''wal_position'', PInt 0),
     (''receipt_hash'', PStr (''sha256:'' @ demo_digest))]"

theorem p118_approval_receipt_validates_witness:
  "\<exists>d. decide_p118_approval (\<lambda>_. demo_digest) (demo_envelope ''k'') demo_verification (''sha256:'' @ demo_digest)
         10 demo_lease demo_wal 0 None = Inr d \<and> ad_approved d
     \<and> validate_p118_approval_decision_receipt (\<lambda>_. demo_digest) (decision_to_dict d)
         (Some (env_payload (demo_envelope ''k''))) (Some (vf_verification_hash demo_verification))
         (Some demo_lease) (Some demo_wal) (Some 0) (Some 20)"
proof -
  have "\<exists>d. decide_p118_approval (\<lambda>_. demo_digest) (demo_envelope ''k'') demo_verification
      (''sha256:'' @ demo_digest) 10 demo_lease demo_wal 0 None = Inr d \<and> ad_approved d"
    unfolding Inr_such_that [symmetric] by code_simp
  then obtain d where d: "decide_p118_approval (\<lambda>_. demo_digest) (demo_envelope ''k'') demo_verification
      (''sha256:'' @ demo_digest) 10 demo_lease demo_wal 0 None = Inr d" "ad_approved d" by blast
  have "length demo_digest = 64 \<and> list_all is_hex_lower demo_digest" by code_simp
  moreover have "pget (env_payload (demo_envelope ''k'')) ''operation_id'' = PStr (env_operation_id (demo_envelope ''k''))"
    by (simp add: demo_envelope_def)
  moreover have "strict_int (pget demo_lease ''expires_at'') = Some 90" by (simp add: demo_lease_def)
  moreover have "strict_int (pget demo_wal ''wal_position'') = Some 0" by (simp add: demo_wal_def)
  moreover have "(20 :: int) < vf_expires_at demo_verification" by (simp add: demo_verification_def)
  ultimately have "validate_p118_approval_decision_receipt (\<lambda>_. demo_digest) (decision_to_dict d)
         (Some (env_payload (demo_envelope ''k''))) (Some (vf_verification_hash demo_verification))
         (Some demo_lease) (Some demo_wal) (Some 0) (Some 20)"
    by (intro p118_approval_receipt_validates [where lx = 90 and wp = 0, OF _ _ d]) simp_all
  with d show ?thesis by blast
qed

section \<open>The validation cycle\<close>

record fixture_adapter =
  fa_before :: pydict
  fa_after :: pydict
  fa_rollback_after :: pydict
  fa_validation_plan_ref :: string
  fa_rollback_plan_ref :: string

record p118_cycle_result =
  vc_final_status :: string
  vc_optimistic_success_count :: int
  vc_missing_postcheck_success_count :: int
  vc_rollback_without_evidence_count :: int
  vc_precheck_evidence_hash :: "string option"
  vc_postcheck_evidence_hash :: "string option"
  vc_rollback_evidence_hash :: "string option"
  vc_rollback_attempt_count :: int
  vc_rollback_failure_visible :: bool
  vc_authority_counter_snapshot :: pydict

definition cycle_to_dict :: "p118_cycle_result \<Rightarrow> pydict" where
  "cycle_to_dict r =
     [(''final_status'', PStr (vc_final_status r)),
      (''optimistic_success_count'', PInt (vc_optimistic_success_count r)),
      (''missing_postcheck_success_count'', PInt (vc_missing_postcheck_success_count r)),
      (''rollback_without_evidence_count'', PInt (vc_rollback_without_evidence_count r)),
      (''precheck_evidence_hash'', opt_str (vc_precheck_evidence_hash r)),
      (''postcheck_evidence_hash'', opt_str (vc_postcheck_evidence_hash r)),
      (''rollback_evidence_hash'', opt_str (vc_rollback_evidence_hash r)),
      (''rollback_attempt_count'', PInt (vc_rollback_attempt_count r)),
      (''rollback_failure_visible'', PBool (vc_rollback_failure_visible r)),
      (''authority_counter_snapshot'', PDict (vc_authority_counter_snapshot r))]"

definition cycle_result ::
    "string \<Rightarrow> string option \<Rightarrow> string option \<Rightarrow> string option \<Rightarrow> int \<Rightarrow> bool \<Rightarrow> p118_cycle_result" where
  "cycle_result status pre post rollback attempts failure =
     \<lparr>vc_final_status = status, vc_optimistic_success_count = 0, vc_missing_postcheck_success_count = 0,
      vc_rollback_without_evidence_count = 0, vc_precheck_evidence_hash = pre,
      vc_postcheck_evidence_hash = post, vc_rollback_evidence_hash = rollback,
      vc_rollback_attempt_count = attempts, vc_rollback_failure_visible = failure,
      vc_authority_counter_snapshot = p118_zero_counters\<rparr>"

text \<open>
  The guarded block of \<open>run_p118_validation_cycle\<close>.  \<open>payload.get("lease_receipt", {})\<close> of a value
  that is no dictionary raises \<open>AttributeError\<close> at the following \<open>.get\<close>.
\<close>

definition sub_get :: "pydict \<Rightarrow> string \<Rightarrow> string \<Rightarrow> pyval result" where
  "sub_get payload field key = pattr_get (pget_or payload field (PDict [])) key"

definition cycle_checks ::
    "(string \<Rightarrow> string) \<Rightarrow> p118_envelope \<Rightarrow> fixture_adapter \<Rightarrow> pydict \<Rightarrow> string \<Rightarrow> pydict \<Rightarrow> int \<Rightarrow> int \<Rightarrow> unit result" where
  "cycle_checks sha operation adapter approval lease_owner_id wal cas_version now =
     (let payload = env_payload operation in
      rbind (p118_reject_authority_boundary (fa_before adapter)) (\<lambda>_.
      rbind (p118_reject_authority_boundary (fa_after adapter)) (\<lambda>_.
      rbind (p118_reject_authority_boundary (fa_rollback_after adapter)) (\<lambda>_.
      rbind (rguard (pget approval ''approved'' \<noteq> PBool True) (p118_contract_error ''operation_not_approved'')) (\<lambda>_.
      rbind (rguard (\<not> validate_p118_approval_decision_receipt sha approval (Some payload)
               (Some (py_str (pget_or (as_dict (pget payload ''approval_receipt'')) ''verification_hash'' (PStr ''''))))
               (Some (as_dict (pget payload ''lease_receipt''))) (Some wal) (Some cas_version) (Some now))
               (p118_contract_error ''invalid_approval_receipt'')) (\<lambda>_.
      rbind (rguard (\<not> py_eq (pget approval ''operation_id'') (pget payload ''operation_id''))
               (p118_contract_error ''approval_operation_mismatch'')) (\<lambda>_.
      rbind (sub_get payload ''approval_receipt'' ''verification_hash'') (\<lambda>vh.
      rbind (rguard (\<not> py_eq (pget approval ''verification_hash'') vh)
               (p118_contract_error ''approval_verification_mismatch'')) (\<lambda>_.
      rbind (sub_get payload ''approval_receipt'' ''policy_hash'') (\<lambda>ph.
      rbind (rguard (\<not> py_eq (pget approval ''policy_hash'') ph)
               (p118_contract_error ''approval_policy_mismatch'')) (\<lambda>_.
      rbind (sub_get payload ''lease_receipt'' ''owner_id'') (\<lambda>owner.
      rbind (rguard (\<not> py_eq owner (PStr lease_owner_id)) (p118_contract_error ''lease_owner_mismatch'')) (\<lambda>_.
      rbind (sub_get payload ''lease_receipt'' ''operation_id'') (\<lambda>lo.
      rbind (rguard (\<not> py_eq lo (pget payload ''operation_id'')) (p118_contract_error ''lease_operation_mismatch'')) (\<lambda>_.
      rbind (sub_get payload ''lease_receipt'' ''cas_version'') (\<lambda>lc.
      rbind (rguard (\<not> py_eq lc (PInt cas_version)) (p118_contract_error ''lease_cas_mismatch'')) (\<lambda>_.
      rbind (rguard (\<not> validate_p118_receipt_self_hash sha ''receipt_hash'' (as_dict (pget payload ''lease_receipt'')))
               (p118_contract_error ''invalid_lease_receipt'')) (\<lambda>_.
      rbind (rguard (\<not> validate_p118_receipt_self_hash sha ''receipt_hash'' wal)
               (p118_contract_error ''invalid_wal_receipt'')) (\<lambda>_.
      rbind (rguard (\<not> py_eq (pget wal ''operation_id'') (pget payload ''operation_id''))
               (p118_contract_error ''wal_operation_mismatch'')) (\<lambda>_.
      rbind (rguard (\<not> py_eq (pget wal ''cas_version'') (PInt cas_version))
               (p118_contract_error ''wal_cas_mismatch'')) (\<lambda>_.
      rbind (rguard (\<not> py_eq (pget wal ''wal_position'') (pget payload ''wal_position''))
               (p118_contract_error ''wal_position_mismatch'')) (\<lambda>_.
      rbind (pindex payload ''cas_version'') (\<lambda>pc.
      rbind (py_int pc) (\<lambda>payload_cas.
      rbind (rguard (cas_version \<noteq> payload_cas) (p118_contract_error ''cas_conflict'')) (\<lambda>_.
      rbind (rguard (\<not> py_eq (PStr (fa_validation_plan_ref adapter)) (pget payload ''validation_plan_ref''))
               (p118_contract_error ''validation_plan_mismatch'')) (\<lambda>_.
      rguard (\<not> py_eq (PStr (fa_rollback_plan_ref adapter)) (pget payload ''rollback_plan_ref''))
        (p118_contract_error ''rollback_plan_mismatch'')))))))))))))))))))))))))))"

definition observation_hash :: "(string \<Rightarrow> string) \<Rightarrow> p118_envelope \<Rightarrow> string \<Rightarrow> pydict \<Rightarrow> string" where
  "observation_hash sha operation phase observation =
     stable_hash sha (PDict [(''operation_id'', PStr (env_operation_id operation)), (''phase'', PStr phase),
       (''observation'', PDict observation)])"

definition run_p118_validation_cycle ::
    "(string \<Rightarrow> string) \<Rightarrow> p118_envelope \<Rightarrow> fixture_adapter \<Rightarrow> pydict \<Rightarrow> string \<Rightarrow> pydict \<Rightarrow> int \<Rightarrow> int
     \<Rightarrow> p118_cycle_result result" where
  "run_p118_validation_cycle sha operation adapter approval lease_owner_id wal cas_version now =
     (case cycle_checks sha operation adapter approval lease_owner_id wal cas_version now of
        Inl (Raised c m) \<Rightarrow>
          if c \<in> {''P118ContractError'', ''AttributeError'', ''TypeError''}
          then Inr (cycle_result ''aborted_fail_closed'' None None None 0 False)
          else Inl (Raised c m)
      | Inr _ \<Rightarrow>
          let before = fa_before adapter; after = fa_after adapter;
              pre_hash = observation_hash sha operation ''precheck'' before;
              post_hash = observation_hash sha operation ''postcheck'' after in
          if pget before ''healthy'' = PBool False \<and> pget after ''healthy'' = PBool True
          then Inr (cycle_result ''succeeded'' (Some pre_hash) (Some post_hash) None 0 False)
          else let rollback = fa_rollback_after adapter;
                   rollback_hash = observation_hash sha operation ''rollback_postcheck'' rollback;
                   restored = (pget before ''healthy'' = PBool False \<and> pget rollback ''healthy'' = PBool False);
                   status = (if restored then ''rolled_back'' else ''rollback_failed'')
               in Inr (cycle_result status (Some pre_hash) (Some post_hash) (Some rollback_hash) 1
                         (status = ''rollback_failed'')))"

section \<open>Properties of the cycle\<close>

lemma p118_reject_class:
  "p118_reject_authority_fields v = Inl x \<Longrightarrow> exn_class x = ''P118ContractError''"
  "p118_reject_items d = Inl x \<Longrightarrow> exn_class x = ''P118ContractError''"
  "p118_reject_list xs = Inl x \<Longrightarrow> exn_class x = ''P118ContractError''"
proof (induction v and d and xs arbitrary: x and x and x
    rule: p118_reject_authority_fields_p118_reject_items_p118_reject_list.induct)
  case (9 k v d)
  then show ?case
    by (auto simp: Let_def p118_contract_error_def rbind_Inl_iff split: if_splits)
qed (auto simp: p118_contract_error_def rbind_Inl_iff rguard_Inl_iff)

lemma rbind_InlE:
  assumes "rbind m f = Inl e"
  obtains "m = Inl e" | x where "m = Inr x" "f x = Inl e"
  using assms by (auto simp: rbind_Inl_iff)

lemma sub_get_class: "sub_get p f k = Inl x \<Longrightarrow> exn_class x = ''AttributeError''"
  by (cases "pget_or p f (PDict [])") (auto simp: sub_get_def)

lemma boundary_class: "p118_reject_authority_boundary d = Inl x \<Longrightarrow> exn_class x = ''P118ContractError''"
  unfolding p118_reject_authority_boundary_def by (rule p118_reject_class)

lemma guard_class: "rguard b (p118_contract_error m) = Inl x \<Longrightarrow> exn_class x = ''P118ContractError''"
  by (auto simp: rguard_Inl_iff p118_contract_error_def)

lemma cycle_checks_class:
  assumes "cycle_checks sha env ad ap w wal cas now = Inl x"
    and "pget (env_payload env) ''cas_version'' = PInt c"
  shows "exn_class x \<in> {''P118ContractError'', ''AttributeError'', ''TypeError''}"
proof -
  have "pindex (env_payload env) ''cas_version'' = Inr (PInt c)"
    using assms(2) by (auto simp: pget_def pindex_def split: option.splits)
  with assms(1) have "exn_class x = ''P118ContractError'' \<or> exn_class x = ''AttributeError''"
    unfolding cycle_checks_def Let_def
    by (elim rbind_InlE) (auto dest: guard_class sub_get_class boundary_class)
  then show ?thesis by auto
qed

text \<open>All that must hold between the operation, the approval, the lease, the log receipt, the CAS version and
  the adapter before the adapter's observations count.\<close>

definition receipts_bind ::
    "(string \<Rightarrow> string) \<Rightarrow> p118_envelope \<Rightarrow> fixture_adapter \<Rightarrow> pydict \<Rightarrow> string \<Rightarrow> pydict \<Rightarrow> int \<Rightarrow> int \<Rightarrow> bool" where
  "receipts_bind sha env ad ap w wal cas now \<longleftrightarrow>
    (let p = env_payload env; approved = as_dict (pget p ''approval_receipt''); lease = as_dict (pget p ''lease_receipt'') in
     p118_reject_authority_boundary (fa_before ad) = Inr () \<and> p118_reject_authority_boundary (fa_after ad) = Inr ()
     \<and> p118_reject_authority_boundary (fa_rollback_after ad) = Inr ()
     \<and> pget ap ''approved'' = PBool True
     \<and> validate_p118_approval_decision_receipt sha ap (Some p)
         (Some (py_str (pget_or approved ''verification_hash'' (PStr '''')))) (Some lease) (Some wal) (Some cas) (Some now)
     \<and> is_dict (pget_or p ''approval_receipt'' (PDict [])) \<and> is_dict (pget_or p ''lease_receipt'' (PDict []))
     \<and> py_eq (pget ap ''operation_id'') (pget p ''operation_id'')
     \<and> py_eq (pget ap ''verification_hash'') (pget approved ''verification_hash'')
     \<and> py_eq (pget ap ''policy_hash'') (pget approved ''policy_hash'')
     \<and> py_eq (pget lease ''owner_id'') (PStr w) \<and> py_eq (pget lease ''operation_id'') (pget p ''operation_id'')
     \<and> py_eq (pget lease ''cas_version'') (PInt cas) \<and> validate_p118_receipt_self_hash sha ''receipt_hash'' lease
     \<and> validate_p118_receipt_self_hash sha ''receipt_hash'' wal
     \<and> py_eq (pget wal ''operation_id'') (pget p ''operation_id'') \<and> py_eq (pget wal ''cas_version'') (PInt cas)
     \<and> py_eq (pget wal ''wal_position'') (pget p ''wal_position'') \<and> pget p ''cas_version'' = PInt cas
     \<and> py_eq (PStr (fa_validation_plan_ref ad)) (pget p ''validation_plan_ref'')
     \<and> py_eq (PStr (fa_rollback_plan_ref ad)) (pget p ''rollback_plan_ref''))"

lemma sub_get_iff:
  "sub_get p f k = Inr v \<longleftrightarrow> is_dict (pget_or p f (PDict [])) \<and> v = pget (as_dict (pget p f)) k"
proof -
  have "as_dict (pget p f) = as_dict (pget_or p f (PDict []))" by (simp add: pget_def pget_or_def split: option.splits)
  then show ?thesis by (cases "pget_or p f (PDict [])") (auto simp: sub_get_def)
qed

lemma cycle_checks_iff:
  assumes "pget (env_payload env) ''cas_version'' = PInt c"
  shows "cycle_checks sha env ad ap w wal cas now = Inr () \<longleftrightarrow> receipts_bind sha env ad ap w wal cas now"
proof -
  have "pindex (env_payload env) ''cas_version'' = Inr (PInt c)"
    using assms by (auto simp: pget_def pindex_def split: option.splits)
  then show ?thesis
    unfolding cycle_checks_def receipts_bind_def Let_def
    by (auto simp: rbind_Inr_iff rguard_Inr_iff sub_get_iff assms simp del: py_eq.simps)
qed

text \<open>C32. The validation cycle never raises on an envelope with an integer CAS version, and decides
  exactly.  If approval, lease, log receipt, CAS version and plans all bind to the operation, the
  adapter's observations count: a change from unhealthy to healthy succeeds without a rollback; else one
  rollback is counted, which rolled back if the baseline was unhealthy and is again, and otherwise failed
  visibly; every observation used leaves its evidence hash.  If any of these bindings is missing, the
  cycle aborts with no rollback and no evidence at all.  The counters are zero in either case.\<close>

theorem p118_cycle_fails_closed:
  assumes "pget (env_payload env) ''cas_version'' = PInt c"
  shows "\<exists>r. run_p118_validation_cycle sha env ad ap w wal cas now = Inr r
     \<and> (if receipts_bind sha env ad ap w wal cas now
        then vc_final_status r =
              (if pget (fa_before ad) ''healthy'' = PBool False \<and> pget (fa_after ad) ''healthy'' = PBool True then ''succeeded''
               else if pget (fa_before ad) ''healthy'' = PBool False \<and> pget (fa_rollback_after ad) ''healthy'' = PBool False
               then ''rolled_back'' else ''rollback_failed'')
          \<and> vc_precheck_evidence_hash r = Some (observation_hash sha env ''precheck'' (fa_before ad))
          \<and> vc_postcheck_evidence_hash r = Some (observation_hash sha env ''postcheck'' (fa_after ad))
          \<and> vc_rollback_evidence_hash r = (if vc_final_status r = ''succeeded'' then None
               else Some (observation_hash sha env ''rollback_postcheck'' (fa_rollback_after ad)))
          \<and> vc_rollback_attempt_count r = (if vc_final_status r = ''succeeded'' then 0 else 1)
        else vc_final_status r = ''aborted_fail_closed'' \<and> vc_precheck_evidence_hash r = None
          \<and> vc_postcheck_evidence_hash r = None \<and> vc_rollback_evidence_hash r = None \<and> vc_rollback_attempt_count r = 0)
     \<and> (vc_rollback_failure_visible r \<longleftrightarrow> vc_final_status r = ''rollback_failed'')
     \<and> vc_optimistic_success_count r = 0 \<and> vc_missing_postcheck_success_count r = 0
     \<and> vc_rollback_without_evidence_count r = 0 \<and> vc_authority_counter_snapshot r = p118_zero_counters"
proof (cases "cycle_checks sha env ad ap w wal cas now")
  case (Inl x)
  then have unbound: "\<not> receipts_bind sha env ad ap w wal cas now" using cycle_checks_iff [OF assms, of sha ad ap w wal cas now] by simp
  obtain cl m where x: "x = Raised cl m" by (cases x)
  with cycle_checks_class [OF Inl assms] have "cl \<in> {''P118ContractError'', ''AttributeError'', ''TypeError''}"
    by simp
  with Inl x unbound show ?thesis by (simp only: run_p118_validation_cycle_def sum.case exn.case if_True)
      (simp add: cycle_result_def)
next
  case (Inr u)
  then have "cycle_checks sha env ad ap w wal cas now = Inr ()" by simp
  with cycle_checks_iff [OF assms, of sha ad ap w wal cas now] show ?thesis
    by (simp add: run_p118_validation_cycle_def cycle_result_def Let_def)
qed

end
