(* ===== verification/P118_Worker.thy ===== *)
theory P118_Worker
  imports P118_Props P118_Approval
begin

text \<open>
  The lease-holding worker of \<open>app/services/p118_worker.py\<close> and the crash recovery of
  \<open>app/services/p118_crash_recovery.py\<close>, both clients of the P118 ledger.
\<close>

section \<open>The worker\<close>

definition p118_worker_error :: "string \<Rightarrow> exn" where
  "p118_worker_error m = Raised ''P118WorkerError'' m"

record p118_worker =
  wk_owner_id :: string
  wk_lease_ttl_seconds :: int
  wk_max_retries :: int

definition p118_worker_init :: "string \<Rightarrow> int \<Rightarrow> int \<Rightarrow> p118_worker result" where
  "p118_worker_init owner_id ttl retries =
     (if ttl \<le> 0 then Inl (p118_worker_error ''invalid_lease_ttl'')
      else if retries < 0 then Inl (p118_worker_error ''invalid_retry_limit'')
      else Inr \<lparr>wk_owner_id = owner_id, wk_lease_ttl_seconds = ttl, wk_max_retries = retries\<rparr>)"

record p118_lease_receipt =
  lr_receipt_type :: string
  lr_operation_id :: string
  lr_owner_id :: string
  lr_expires_at :: int
  lr_cas_version :: int

record p118_worker_result =
  wr_operation_id :: string
  wr_final_state :: string
  wr_transitions :: "string list"
  wr_retry_count :: int
  wr_authority_counter_snapshot :: pydict

text \<open>Reading the store: \<open>self.ledger.replay(operation_id)\<close>.\<close>

definition p118_replay_op :: "(string \<Rightarrow> string) \<Rightarrow> string \<Rightarrow> (wal_store, p118_state) op" where
  "p118_replay_op sha operation_id st = (st, p118_replay sha (ws_entries st) operation_id)"

definition p118_acquire_lease ::
    "(string \<Rightarrow> string) \<Rightarrow> p118_worker \<Rightarrow> string \<Rightarrow> int \<Rightarrow> (wal_store, p118_lease_receipt) op" where
  "p118_acquire_lease sha wk operation_id now =
     op_bind (p118_replay_op sha operation_id) (\<lambda>s.
     let foreign = (ps_lease_owner_id s \<noteq> PNone \<and> \<not> py_eq (ps_lease_owner_id s) (PStr (wk_owner_id wk))) in
     op_bind (op_guard (foreign \<and> (case ps_lease_expires_at s of None \<Rightarrow> True | Some t \<Rightarrow> now \<le> t))
                (p118_worker_error ''lease_takeover_before_expiry'')) (\<lambda>_.
     op_bind (p118_record_lease sha operation_id (wk_owner_id wk) (now + wk_lease_ttl_seconds wk)
                (if foreign then ''lease_takeover'' else ''lease_acquired'')
                (ps_lease_owner_id s) (ps_lease_expires_at s)) (\<lambda>r.
     op_return \<lparr>lr_receipt_type = pr_receipt_type r, lr_operation_id = operation_id,
                lr_owner_id = wk_owner_id wk, lr_expires_at = now + wk_lease_ttl_seconds wk,
                lr_cas_version = pr_cas_version r\<rparr>)))"

definition p118_renew_lease ::
    "(string \<Rightarrow> string) \<Rightarrow> p118_worker \<Rightarrow> string \<Rightarrow> int \<Rightarrow> (wal_store, p118_lease_receipt) op" where
  "p118_renew_lease sha wk operation_id now =
     op_bind (p118_replay_op sha operation_id) (\<lambda>s.
     op_bind (op_guard (\<not> py_eq (ps_lease_owner_id s) (PStr (wk_owner_id wk)))
                (p118_worker_error ''stale_lease_renewal'')) (\<lambda>_.
     op_bind (p118_record_lease sha operation_id (wk_owner_id wk) (now + wk_lease_ttl_seconds wk)
                ''lease_renewed'' (ps_lease_owner_id s) (ps_lease_expires_at s)) (\<lambda>r.
     op_return \<lparr>lr_receipt_type = pr_receipt_type r, lr_operation_id = operation_id,
                lr_owner_id = wk_owner_id wk, lr_expires_at = now + wk_lease_ttl_seconds wk,
                lr_cas_version = pr_cas_version r\<rparr>)))"

definition worker_path :: "p118_cycle_result \<Rightarrow> string list result" where
  "worker_path v =
     (if vc_final_status v = ''succeeded'' then
        if vc_precheck_evidence_hash v = None \<or> vc_postcheck_evidence_hash v = None
        then Inl (p118_worker_error ''measured_validation_required'')
        else Inr [''verified'', ''approved'', ''prechecked'', ''action_attempted'', ''postchecked'', ''succeeded'']
      else if vc_final_status v = ''rolled_back'' then
        if vc_rollback_evidence_hash v = None then Inl (p118_worker_error ''rollback_evidence_required'')
        else Inr [''verified'', ''approved'', ''prechecked'', ''action_attempted'', ''rollback_attempted'',
                  ''rollback_postchecked'', ''rolled_back'']
      else Inl (p118_worker_error ''qualified_terminal_validation_required''))"

definition worker_evidence :: "p118_cycle_result \<Rightarrow> string \<Rightarrow> string \<Rightarrow> (string \<times> pydict) list" where
  "worker_evidence v verification_hash decision_hash =
     [(''verified'', [(''verification_hash'', PStr verification_hash)]),
      (''approved'', [(''approval_decision_hash'', PStr decision_hash)]),
      (''prechecked'', [(''precheck_evidence_hash'', opt_str (vc_precheck_evidence_hash v))]),
      (''action_attempted'', [(''validation_cycle_bound'', PBool True)]),
      (''postchecked'', [(''postcheck_evidence_hash'', opt_str (vc_postcheck_evidence_hash v))]),
      (''succeeded'', [(''postcheck_evidence_hash'', opt_str (vc_postcheck_evidence_hash v))]),
      (''rollback_attempted'', [(''rollback_evidence_hash'', opt_str (vc_rollback_evidence_hash v))]),
      (''rollback_postchecked'', [(''rollback_evidence_hash'', opt_str (vc_rollback_evidence_hash v))]),
      (''rolled_back'', [(''rollback_evidence_hash'', opt_str (vc_rollback_evidence_hash v))])]"

fun worker_loop ::
    "(string \<Rightarrow> string) \<Rightarrow> p118_worker \<Rightarrow> string \<Rightarrow> (string \<times> pydict) list \<Rightarrow> string list
     \<Rightarrow> (wal_store, string list) op" where
  "worker_loop sha wk operation_id evidence [] = op_return []"
| "worker_loop sha wk operation_id evidence (next_state # path) =
     op_bind (p118_replay_op sha operation_id) (\<lambda>current.
     op_bind (op_lift (case map_of evidence next_state of
                         None \<Rightarrow> Inl (Raised ''KeyError'' next_state) | Some ev \<Rightarrow> Inr ev)) (\<lambda>ev.
     op_bind (p118_transition sha operation_id next_state (ps_cas_version current)
                (Some (wk_owner_id wk)) ev) (\<lambda>receipt.
     op_bind (worker_loop sha wk operation_id evidence path) (\<lambda>rest.
     op_return (pr_state receipt # rest)))))"

definition final_counters :: "pydict \<Rightarrow> pydict result" where
  "final_counters snapshot =
     rmap (\<lambda>k. rbind (py_int (pget_or snapshot k (PInt 0))) (\<lambda>i. Inr (k, PInt i))) P118_AUTHORITY_COUNTER_KEYS"

definition p118_run_once ::
    "(string \<Rightarrow> string) \<Rightarrow> p118_worker \<Rightarrow> string \<Rightarrow> int \<Rightarrow> p118_cycle_result \<Rightarrow> p118_envelope \<Rightarrow> string
     \<Rightarrow> pydict \<Rightarrow> pydict \<Rightarrow> pydict \<Rightarrow> int \<Rightarrow> (wal_store, p118_worker_result) op" where
  "p118_run_once sha wk operation_id now v operation verification_hash approval lease wal cas_version =
     op_bind (p118_replay_op sha operation_id) (\<lambda>s.
     op_bind (op_guard (\<not> py_eq (ps_lease_owner_id s) (PStr (wk_owner_id wk))
                        \<or> (case ps_lease_expires_at s of None \<Rightarrow> True | Some t \<Rightarrow> now > t))
                (p118_worker_error ''worker_without_owner_receipt'')) (\<lambda>_.
     op_bind (op_guard (\<not> py_startswith verification_hash ''sha256:''
                        \<or> \<not> validate_p118_approval_decision_receipt sha approval (Some (env_payload operation))
                             (Some verification_hash) (Some lease) (Some wal) (Some cas_version) (Some now))
                (p118_worker_error ''missing_verification_or_approval_binding'')) (\<lambda>_.
     op_bind (op_guard (\<not> py_eq (pget approval ''operation_id'') (PStr operation_id)
                        \<or> \<not> py_eq (pget approval ''verification_hash'') (PStr verification_hash))
                (p118_worker_error ''unbound_approval_receipt'')) (\<lambda>_.
     op_bind (op_lift (pindex approval ''decision_hash'')) (\<lambda>decision_hash.
     op_bind (op_lift (worker_path v)) (\<lambda>path.
     op_bind (worker_loop sha wk operation_id (worker_evidence v verification_hash (py_str decision_hash)) path)
       (\<lambda>transitions.
     op_bind (p118_replay_op sha operation_id) (\<lambda>final.
     op_bind (op_lift (final_counters (ps_authority_counter_snapshot final))) (\<lambda>counters.
     op_bind (op_guard (list_ex (\<lambda>(k, c). truthy c) counters) (p118_worker_error ''authority_counter_drift'')) (\<lambda>_.
     op_return \<lparr>wr_operation_id = operation_id, wr_final_state = ps_state final,
                wr_transitions = transitions, wr_retry_count = 0,
                wr_authority_counter_snapshot = counters\<rparr>))))))))))"

definition p118_retry_receipt ::
    "(string \<Rightarrow> string) \<Rightarrow> p118_worker \<Rightarrow> string \<Rightarrow> string \<Rightarrow> int \<Rightarrow> (wal_store, pydict) op" where
  "p118_retry_receipt sha wk operation_id reason attempt =
     op_bind (op_guard (attempt > wk_max_retries wk) (p118_worker_error ''retry_limit_exceeded'')) (\<lambda>_.
     op_bind (p118_replay_op sha operation_id) (\<lambda>s.
     op_bind (op_guard (\<not> py_eq (ps_lease_owner_id s) (PStr (wk_owner_id wk)))
                (p118_worker_error ''worker_without_owner_receipt'')) (\<lambda>_.
     op_return [(''operation_id'', PStr operation_id), (''owner_id'', PStr (wk_owner_id wk)),
                (''reason'', PStr reason), (''attempt'', PInt attempt),
                (''max_retries'', PInt (wk_max_retries wk))])))"

section \<open>Crash recovery\<close>

record p118_recovery_result =
  rr_operation_id :: string
  rr_final_state :: string
  rr_duplicate_action_count :: int
  rr_rollback_attempts :: int
  rr_orphan_recoveries :: int
  rr_rollback_evidence_hash :: "string option"

definition recovery_result :: "string \<Rightarrow> string \<Rightarrow> int \<Rightarrow> int \<Rightarrow> string option \<Rightarrow> p118_recovery_result" where
  "recovery_result i state attempts orphans evidence =
     \<lparr>rr_operation_id = i, rr_final_state = state, rr_duplicate_action_count = 0,
      rr_rollback_attempts = attempts, rr_orphan_recoveries = orphans, rr_rollback_evidence_hash = evidence\<rparr>"

text \<open>One step of the rollback ladder: move on when the state is the expected one.\<close>

definition advance_if ::
    "(string \<Rightarrow> string) \<Rightarrow> string \<Rightarrow> string \<Rightarrow> string list \<Rightarrow> string \<Rightarrow> p118_state \<Rightarrow> (wal_store, p118_state) op" where
  "advance_if sha operation_id owner_id from_states to_state s =
     (if ps_state s \<in> set from_states
      then op_bind (p118_transition sha operation_id to_state (ps_cas_version s) (Some owner_id) [])
             (\<lambda>_. p118_replay_op sha operation_id)
      else op_return s)"

definition recover_ladder ::
    "(string \<Rightarrow> string) \<Rightarrow> string \<Rightarrow> string \<Rightarrow> int \<Rightarrow> p118_state \<Rightarrow> (wal_store, p118_recovery_result) op" where
  "recover_ladder sha operation_id owner_id now s =
     (if ps_state s \<in> {''received'', ''verified'', ''approved'', ''prechecked''} then
        op_bind (p118_transition sha operation_id ''aborted_fail_closed'' (ps_cas_version s) (Some owner_id) []) (\<lambda>_.
        op_bind (p118_replay_op sha operation_id) (\<lambda>s'.
        op_return (recovery_result operation_id (ps_state s') 0 1 None)))
      else
        let effect = (ps_state s \<in> {''action_attempted'', ''postchecked'', ''action_failed'', ''postcheck_failed''});
            evidence = (if effect then Some (stable_hash sha (PDict
               [(''operation_id'', PStr operation_id), (''recovery_owner'', PStr owner_id),
                (''recovery_time'', PInt now), (''phase'', PStr ''rollback_postcheck'')])) else None) in
        op_bind (advance_if sha operation_id owner_id
                   [''action_attempted'', ''postchecked'', ''action_failed'', ''postcheck_failed''] ''rollback_attempted'' s) (\<lambda>s1.
        op_bind (advance_if sha operation_id owner_id [''rollback_attempted''] ''rollback_postchecked'' s1) (\<lambda>s2.
        op_bind (advance_if sha operation_id owner_id [''rollback_postchecked''] ''rolled_back'' s2) (\<lambda>s3.
        op_bind (op_guard (ps_state s3 \<noteq> ''rolled_back'')
                   (p118_ledger_error ''orphan_not_recoverable_without_effect_replay'')) (\<lambda>_.
        op_return (recovery_result operation_id (ps_state s3) (if effect then 1 else 0) 1 evidence))))))"

definition recover_p118_crash ::
    "(string \<Rightarrow> string) \<Rightarrow> string \<Rightarrow> string \<Rightarrow> int \<Rightarrow> (wal_store, p118_recovery_result) op" where
  "recover_p118_crash sha operation_id owner_id now =
     op_bind (p118_replay_op sha operation_id) (\<lambda>s.
     if p118_terminal (ps_state s) then op_return (recovery_result operation_id (ps_state s) 0 0 None)
     else case ps_lease_expires_at s of
        None \<Rightarrow> op_raise (p118_ledger_error ''lease_not_expired'')
      | Some t \<Rightarrow>
          if t > now then op_raise (p118_ledger_error ''lease_not_expired'')
          else op_bind (p118_record_lease sha operation_id owner_id (now + 60) ''lease_takeover''
                          (ps_lease_owner_id s) (Some t)) (\<lambda>_.
               op_bind (p118_replay_op sha operation_id) (\<lambda>s'.
               recover_ladder sha operation_id owner_id now s')))"

text \<open>The function on a file: it opens its own store.\<close>

definition recover_p118_file ::
    "(string \<Rightarrow> string) \<Rightarrow> string \<Rightarrow> string \<Rightarrow> int \<Rightarrow> wal_line list \<Rightarrow> wal_line list \<times> p118_recovery_result result" where
  "recover_p118_file sha operation_id owner_id now ls =
     (case p118_open ls of
        Inl x \<Rightarrow> (ls, Inl x)
      | Inr st \<Rightarrow> (let (st', out) = recover_p118_crash sha operation_id owner_id now st in (ws_file st', out)))"

fun p118_operation_ids :: "pydict list \<Rightarrow> string list result" where
  "p118_operation_ids [] = Inr []"
| "p118_operation_ids (e # es) =
     rbind (if py_eq (pget e ''receipt_type'') (PStr ''operation_registered'')
            then rbind (pindex e ''operation_id'') (\<lambda>i. Inr [py_str i]) else Inr []) (\<lambda>here.
     rbind (p118_operation_ids es) (\<lambda>rest. Inr (here @ rest)))"

definition inventory_p118_orphans ::
    "(string \<Rightarrow> string) \<Rightarrow> wal_line list \<Rightarrow> int \<Rightarrow> (string list \<times> string list) result" where
  "inventory_p118_orphans sha ls now =
     rbind (p118_open ls) (\<lambda>st.
     rbind (p118_operation_ids (ws_entries st)) (\<lambda>ids.
     rbind (rmap (\<lambda>i. rbind (p118_replay sha (ws_entries st) i) (\<lambda>s. Inr (i, s))) (sort (remdups ids))) (\<lambda>states.
     let expired = filter (\<lambda>(i, s). \<not> p118_terminal (ps_state s)
                     \<and> (case ps_lease_expires_at s of None \<Rightarrow> False | Some t \<Rightarrow> t \<le> now)) states;
         pending = filter (\<lambda>(i, s). ps_state s \<in> {''action_attempted'', ''postchecked'', ''action_failed'',
                     ''postcheck_failed'', ''rollback_attempted'', ''rollback_postchecked''}) expired
     in Inr (map fst expired, map fst pending))))"

definition opt_int :: "int option \<Rightarrow> pyval" where
  "opt_int i = (case i of None \<Rightarrow> PNone | Some n \<Rightarrow> PInt n)"

definition replay_p118_terminal_read_only ::
    "(string \<Rightarrow> string) \<Rightarrow> wal_line list \<Rightarrow> string \<Rightarrow> pydict result" where
  "replay_p118_terminal_read_only sha ls operation_id =
     rbind (p118_open ls) (\<lambda>st.
     rbind (p118_replay sha (ws_entries st) operation_id) (\<lambda>s.
     if \<not> p118_terminal (ps_state s) then Inl (p118_ledger_error ''nonterminal_read_only_replay'')
     else Inr [(''operation_id'', PStr (ps_operation_id s)), (''state'', PStr (ps_state s)),
               (''cas_version'', PInt (ps_cas_version s)), (''idempotency_key'', PStr (ps_idempotency_key s)),
               (''payload_hash'', PStr (ps_payload_hash s)),
               (''authority_counter_snapshot'', PDict (ps_authority_counter_snapshot s)),
               (''duplicate_action_count'', PInt 0), (''lease_owner_id'', ps_lease_owner_id s),
               (''lease_expires_at'', opt_int (ps_lease_expires_at s)), (''replay_drift'', PInt 0)]))"

section \<open>A store that is up to date\<close>

definition p118_current :: "(string \<Rightarrow> string) \<Rightarrow> wal_store \<Rightarrow> bool" where
  "p118_current sha st \<longleftrightarrow> p118_load (ws_file st) = Inr (ws_entries st) \<and> p118_log sha (ws_entries st)"

lemma p118_current_valid: "p118_current sha st \<Longrightarrow> wal_valid sha (ws_entries st)"
  by (simp add: p118_current_def p118_log_valid)

lemma p118_extends_current:
  assumes "p118_current sha st" and "p118_extends sha (ws_entries st) st st'"
    and "p118_load (ws_file st') = Inr (ws_entries st')"
  shows "p118_current sha st'"
  using assms by (auto simp: log_extends_def p118_current_def)

text \<open>On an up-to-date store a legal transition by the owner of the lease succeeds.\<close>

lemma p118_transition_ok:
  assumes cur: "p118_current sha st" and s: "p118_replay sha (ws_entries st) i = Inr s"
    and "\<not> p118_terminal (ps_state s)" and "ps_lease_owner_id s = PStr w" and "w \<noteq> []"
    and "nx \<in> set (p118_successors (ps_state s))"
  shows "\<exists>st' r. p118_transition sha i nx (ps_cas_version s) (Some w) ev st = (st', Inr r)
     \<and> pr_state r = nx \<and> p118_current sha st'
     \<and> p118_replay sha (ws_entries st') i =
         Inr (s\<lparr>ps_state := nx, ps_cas_version := ps_cas_version s + 1, ps_duplicate_action_count := 0\<rparr>)"
proof -
  let ?es = "ws_entries st" and ?a = "p118_transition_args i nx (ps_cas_version s) s w ev"
  note args = p118_transition_args_def p118_append_args_of_def
  have load: "p118_load (ws_file st) = Inr ?es" and lg: "p118_log sha ?es" and v: "wal_valid sha ?es"
    using cur p118_current_valid by (auto simp: p118_current_def)
  have eq: "p118_transition sha i nx (ps_cas_version s) (Some w) ev st = p118_append_receipt sha ?a st"
    using assms by (simp add: p118_transition_def)
  have dd: "p118_dedupe sha ?es ?a = Inr ?a" by (simp add: p118_dedupe_def args)
  have cas: "p118_check_cas sha ?es ?a = Inr ()"
    using s assms(4) by (simp add: p118_check_cas_def args rguard_def)
  have "p118_check_lease sha ?es ?a = Inr ()" by (simp add: p118_check_lease_def args)
  from p118_append_receipt_ok [OF load v dd cas this] obtain st' r where
    r: "p118_append_receipt sha ?a st = (st', Inr r)" "pr_state r = nx" by (auto simp: args)
  from r(1) load obtain h where h: "p118_load (ws_file st') = Inr (?es @ [seal_entry sha ?es h (p118_entry_body ?a)])"
    "ws_entries st' = ?es @ [seal_entry sha ?es h (p118_entry_body ?a)]"
    "wal_valid sha (?es @ [seal_entry sha ?es h (p118_entry_body ?a)])"
    by (rule p118_append_receipt_success) (use dd in auto)
  have "p118_extends sha ?es st st'"
    using p118_transition_extends [OF load lg, of i nx "ps_cas_version s" "Some w" ev] eq r(1) by simp
  then have "p118_current sha st'" using h by (intro p118_extends_current [OF cur]) auto
  moreover have "p118_replay sha (ws_entries st') i =
      Inr (s\<lparr>ps_state := nx, ps_cas_version := ps_cas_version s + 1, ps_duplicate_action_count := 0\<rparr>)"
    using p118_replay_same [OF v h(3), of s] s assms(4) by (simp add: h(2) args p118_step_sealed)
  ultimately show ?thesis using eq r by auto
qed

lemma p118_lease_ok:
  assumes cur: "p118_current sha st" and s: "p118_replay sha (ws_entries st) i = Inr s"
    and rt: "py_startswith rt ''lease_''"
    and own: "xw = PNone \<and> xt = None \<or> py_eq (ps_lease_owner_id s) xw \<and> ps_lease_expires_at s = xt"
  shows "\<exists>st' r. p118_record_lease sha i w t rt xw xt st = (st', Inr r) \<and> pr_receipt_type r = rt
     \<and> p118_current sha st'
     \<and> p118_replay sha (ws_entries st') i =
         Inr (s\<lparr>ps_duplicate_action_count := 0, ps_lease_owner_id := PStr w, ps_lease_expires_at := Some t\<rparr>)"
proof -
  let ?es = "ws_entries st" and ?a = "p118_lease_args i w t rt xw xt s"
  note args = p118_lease_args_def p118_append_args_of_def
  have load: "p118_load (ws_file st) = Inr ?es" and lg: "p118_log sha ?es" and v: "wal_valid sha ?es"
    using cur p118_current_valid by (auto simp: p118_current_def)
  have eq: "p118_record_lease sha i w t rt xw xt st = p118_append_receipt sha ?a st"
    using s by (simp add: p118_record_lease_def)
  have dd: "p118_dedupe sha ?es ?a = Inr ?a" by (simp add: p118_dedupe_def args)
  have cas: "p118_check_cas sha ?es ?a = Inr ()" by (simp add: p118_check_cas_def args)
  have "p118_check_lease sha ?es ?a = Inr ()"
    using s own by (auto simp: p118_check_lease_def args rguard_def)
  from p118_append_receipt_ok [OF load v dd cas this] obtain st' r where
    r: "p118_append_receipt sha ?a st = (st', Inr r)" "pr_receipt_type r = rt" by (auto simp: args)
  from r(1) load obtain h where h: "p118_load (ws_file st') = Inr (?es @ [seal_entry sha ?es h (p118_entry_body ?a)])"
    "ws_entries st' = ?es @ [seal_entry sha ?es h (p118_entry_body ?a)]"
    "wal_valid sha (?es @ [seal_entry sha ?es h (p118_entry_body ?a)])"
    by (rule p118_append_receipt_success) (use dd in auto)
  have "p118_extends sha ?es st st'"
    using p118_lease_extends [OF load lg rt, of i w t xw xt] eq r(1) by simp
  then have "p118_current sha st'" using h by (intro p118_extends_current [OF cur]) auto
  moreover have "rt \<noteq> ''operation_registered''" "rt \<noteq> ''state_transition''" using rt by auto
  then have "p118_replay sha (ws_entries st') i =
      Inr (s\<lparr>ps_duplicate_action_count := 0, ps_lease_owner_id := PStr w, ps_lease_expires_at := Some t\<rparr>)"
    using p118_replay_same [OF v h(3), of s] s rt by (simp add: h(2) args p118_step_sealed)
  ultimately show ?thesis using eq r by auto
qed

lemma p118_replay_op_Inr [simp]:
  "p118_replay sha (ws_entries st) i = Inr s \<Longrightarrow> p118_replay_op sha i st = (st, Inr s)"
  by (simp add: p118_replay_op_def)

section \<open>Recovery\<close>

text \<open>Where recovery takes a state, and whether it counts a rollback attempt.\<close>

definition recovery_target :: "string \<Rightarrow> string option" where
  "recovery_target st =
     (if st \<in> {''received'', ''verified'', ''approved'', ''prechecked''} then Some ''aborted_fail_closed''
      else if st \<in> {''action_attempted'', ''postchecked'', ''action_failed'', ''postcheck_failed'',
                    ''rollback_attempted'', ''rollback_postchecked''} then Some ''rolled_back''
      else None)"

text \<open>The store holds operation \<open>i\<close> in state \<open>x\<close>, leased to \<open>w\<close>.\<close>

definition p118_held :: "(string \<Rightarrow> string) \<Rightarrow> wal_store \<Rightarrow> string \<Rightarrow> string \<Rightarrow> string \<Rightarrow> p118_state \<Rightarrow> bool" where
  "p118_held sha st i x w s \<longleftrightarrow> p118_current sha st \<and> p118_replay sha (ws_entries st) i = Inr s
     \<and> ps_state s = x \<and> ps_lease_owner_id s = PStr w"

lemma p118_held_transition:
  assumes "p118_held sha st i x w s" and "w \<noteq> []" and "nx \<in> set (p118_successors x)"
  shows "\<exists>st' r s'. p118_transition sha i nx (ps_cas_version s) (Some w) ev st = (st', Inr r)
     \<and> pr_state r = nx \<and> p118_held sha st' i nx w s'
     \<and> ps_authority_counter_snapshot s' = ps_authority_counter_snapshot s"
proof -
  have "\<not> p118_terminal (ps_state s)"
    using assms(1,3) p118.terminal_stuck by (auto simp: p118_held_def)
  with assms p118_transition_ok [of sha st i s w nx ev] show ?thesis by (force simp: p118_held_def)
qed

lemma advance_if_moves:
  assumes "p118_held sha st i x w s" and "w \<noteq> []" and "x \<in> set xs" and "nx \<in> set (p118_successors x)"
  shows "\<exists>st' s'. advance_if sha i w xs nx s st = (st', Inr s') \<and> p118_held sha st' i nx w s'"
proof -
  obtain st' r s' where "p118_transition sha i nx (ps_cas_version s) (Some w) [] st = (st', Inr r)"
    "p118_held sha st' i nx w s'" using p118_held_transition [OF assms(1,2,4)] by blast
  with assms(1,3) show ?thesis by (auto simp: advance_if_def p118_held_def)
qed

lemma advance_if_skips: "ps_state s \<notin> set xs \<Longrightarrow> advance_if sha i w xs nx s st = (st, Inr s)"
  by (simp add: advance_if_def)

lemma p118_ladder_successors:
  "''aborted_fail_closed'' \<in> set (p118_successors ''received'')"
  "''aborted_fail_closed'' \<in> set (p118_successors ''verified'')"
  "''aborted_fail_closed'' \<in> set (p118_successors ''approved'')"
  "''aborted_fail_closed'' \<in> set (p118_successors ''prechecked'')"
  "''rollback_attempted'' \<in> set (p118_successors ''action_attempted'')"
  "''rollback_attempted'' \<in> set (p118_successors ''postchecked'')"
  "''rollback_attempted'' \<in> set (p118_successors ''action_failed'')"
  "''rollback_attempted'' \<in> set (p118_successors ''postcheck_failed'')"
  "''rollback_postchecked'' \<in> set (p118_successors ''rollback_attempted'')"
  "''rolled_back'' \<in> set (p118_successors ''rollback_postchecked'')"
  by (simp_all add: p118_successors_def P118_LEGAL_TRANSITIONS_def)

lemma ladder_aborts:
  assumes "p118_held sha st i x w s" and "w \<noteq> []"
    and "x \<in> {''received'', ''verified'', ''approved'', ''prechecked''}"
  shows "\<exists>st' s'. recover_ladder sha i w now s st = (st', Inr (recovery_result i ''aborted_fail_closed'' 0 1 None))
           \<and> p118_held sha st' i ''aborted_fail_closed'' w s'"
proof -
  have "''aborted_fail_closed'' \<in> set (p118_successors x)" using assms(3) p118_ladder_successors by auto
  with p118_held_transition [OF assms(1,2)] obtain st' r s' where
    t: "p118_transition sha i ''aborted_fail_closed'' (ps_cas_version s) (Some w) [] st = (st', Inr r)"
    and h: "p118_held sha st' i ''aborted_fail_closed'' w s'" by blast
  then have "p118_replay_op sha i st' = (st', Inr s')" "ps_state s' = ''aborted_fail_closed''"
    by (simp_all add: p118_held_def)
  with t h assms(1,3) show ?thesis by (auto simp: recover_ladder_def p118_held_def)
qed

lemma ladder_rolls_back:
  assumes h: "p118_held sha st i x w s" and w: "w \<noteq> []"
    and x: "x \<in> {''action_attempted'', ''postchecked'', ''action_failed'', ''postcheck_failed'',
                ''rollback_attempted'', ''rollback_postchecked''}"
  shows "\<exists>st' s' n ev. recover_ladder sha i w now s st = (st', Inr (recovery_result i ''rolled_back'' n 1 ev))
           \<and> p118_held sha st' i ''rolled_back'' w s'"
proof -
  let ?effect = "[''action_attempted'', ''postchecked'', ''action_failed'', ''postcheck_failed'']"
  have st: "ps_state s = x" using h by (simp add: p118_held_def)
  have 1: "\<exists>st1 s1 x1. advance_if sha i w ?effect ''rollback_attempted'' s st = (st1, Inr s1)
      \<and> p118_held sha st1 i x1 w s1 \<and> x1 \<in> {''rollback_attempted'', ''rollback_postchecked''}"
  proof (cases "x \<in> set ?effect")
    case True
    then have "''rollback_attempted'' \<in> set (p118_successors x)" using p118_ladder_successors by auto
    with advance_if_moves [OF h w True] show ?thesis by blast
  next
    case False
    with h x st show ?thesis by (auto simp: advance_if_skips)
  qed
  then obtain st1 s1 x1 where 1: "advance_if sha i w ?effect ''rollback_attempted'' s st = (st1, Inr s1)"
    and h1: "p118_held sha st1 i x1 w s1" and x1: "x1 \<in> {''rollback_attempted'', ''rollback_postchecked''}" by blast
  have "\<exists>st2 s2. advance_if sha i w [''rollback_attempted''] ''rollback_postchecked'' s1 st1 = (st2, Inr s2)
      \<and> p118_held sha st2 i ''rollback_postchecked'' w s2"
  proof (cases "x1 = ''rollback_attempted''")
    case True
    with advance_if_moves [OF h1 w] p118_ladder_successors show ?thesis by simp
  next
    case False
    with h1 x1 show ?thesis by (auto simp: advance_if_skips p118_held_def)
  qed
  then obtain st2 s2 where 2: "advance_if sha i w [''rollback_attempted''] ''rollback_postchecked'' s1 st1 = (st2, Inr s2)"
    and h2: "p118_held sha st2 i ''rollback_postchecked'' w s2" by blast
  obtain st3 s3 where 3: "advance_if sha i w [''rollback_postchecked''] ''rolled_back'' s2 st2 = (st3, Inr s3)"
    and h3: "p118_held sha st3 i ''rolled_back'' w s3"
    using advance_if_moves [OF h2 w _ p118_ladder_successors(10), of "[''rollback_postchecked'']"] by auto
  have "ps_state s3 = ''rolled_back''" using h3 by (simp add: p118_held_def)
  moreover have "ps_state s \<notin> {''received'', ''verified'', ''approved'', ''prechecked''}" using x st by auto
  ultimately have "\<exists>n ev. recover_ladder sha i w now s st = (st3, Inr (recovery_result i ''rolled_back'' n 1 ev))"
    unfolding recover_ladder_def Let_def using 1 2 3 by (simp add: op_bind_def) blast
  with h3 show ?thesis by blast
qed

lemma ladder_stuck:
  "ps_state s = ''precheck_failed'' \<Longrightarrow> recover_ladder sha i w now s st =
     (st, Inl (p118_ledger_error ''orphan_not_recoverable_without_effect_replay''))"
  by (simp add: recover_ladder_def advance_if_def op_bind_def)

lemma recovery_target_None:
  assumes "x \<in> set P118_LIFECYCLE_STATES" and "\<not> p118_terminal x" and "recovery_target x = None"
  shows "x = ''precheck_failed''"
proof -
  have "list_all (\<lambda>x. p118_terminal x \<or> recovery_target x \<noteq> None \<or> x = ''precheck_failed'') P118_LIFECYCLE_STATES"
    by code_simp
  with assms show ?thesis by (auto simp: list_all_iff)
qed

lemma p118_log_known:
  assumes "p118_log sha es" and "p118_replay sha es i = Inr s"
  shows "ps_state s \<in> set P118_LIFECYCLE_STATES"
proof -
  have "p118_on_path s"
    using p118_log_replay [OF assms(1), of i] assms by (auto simp: p118_replay_Inr_iff p118_log_valid)
  then obtain p where p: "legal_path p118_successors ''received'' p" "last (''received'' # p) = ps_state s"
    by (auto simp: p118_on_path_def)
  have "''received'' \<in> set P118_LIFECYCLE_STATES" by (simp add: P118_LIFECYCLE_STATES_def)
  with p118.path_known [OF this p(1)] p(2) show ?thesis by (cases p rule: rev_cases) auto
qed

lemma p118_log_owner:
  assumes "p118_log sha es" and "p118_replay sha es i = Inr s"
  shows "py_eq (ps_lease_owner_id s) (ps_lease_owner_id s)"
  using p118_log_replay [OF assms(1), of i] assms
  by (auto simp: p118_replay_Inr_iff p118_log_valid p118_on_path_def)

section \<open>Properties\<close>

text \<open>What recovery of an orphan comes to: before the action was attempted it aborts, afterwards it rolls
  back, and the log then replays to that terminal state held by the recovering owner.  The one
  exception is an operation left in \<open>precheck_failed\<close>: recovery takes the lease and then raises.\<close>

lemma p118_expired_orphan_settles:
  assumes "p118_current sha st" and "p118_replay sha (ws_entries st) i = Inr s"
    and "\<not> p118_terminal (ps_state s)" and "ps_lease_expires_at s = Some t" and "t \<le> now" and "w \<noteq> []"
  shows "case recovery_target (ps_state s) of
      Some x \<Rightarrow> \<exists>st' r s'. recover_p118_crash sha i w now st = (st', Inr r) \<and> rr_final_state r = x
         \<and> rr_orphan_recoveries r = 1 \<and> p118_terminal x
         \<and> p118_replay sha (ws_entries st') i = Inr s' \<and> ps_state s' = x \<and> ps_lease_owner_id s' = PStr w
    | None \<Rightarrow> ps_state s = ''precheck_failed'' \<and> (\<exists>st'. recover_p118_crash sha i w now st =
         (st', Inl (p118_ledger_error ''orphan_not_recoverable_without_effect_replay'')))"
proof -
  have "py_eq (ps_lease_owner_id s) (ps_lease_owner_id s)"
    using assms(1,2) p118_log_owner by (auto simp: p118_current_def)
  with p118_lease_ok [OF assms(1,2), of "''lease_takeover''" "ps_lease_owner_id s" "Some t" w "now + 60"] assms(4)
  obtain st1 r1 where l: "p118_record_lease sha i w (now + 60) ''lease_takeover'' (ps_lease_owner_id s) (Some t) st = (st1, Inr r1)"
    and c1: "p118_current sha st1"
    and s1: "p118_replay sha (ws_entries st1) i = Inr (s\<lparr>ps_duplicate_action_count := 0,
        ps_lease_owner_id := PStr w, ps_lease_expires_at := Some (now + 60)\<rparr>)" by auto
  let ?s1 = "s\<lparr>ps_duplicate_action_count := 0, ps_lease_owner_id := PStr w, ps_lease_expires_at := Some (now + 60)\<rparr>"
  have go: "recover_p118_crash sha i w now st = recover_ladder sha i w now ?s1 st1"
    using assms l s1 by (simp add: recover_p118_crash_def op_bind_def p118_replay_op_def)
  have held: "p118_held sha st1 i (ps_state s) w ?s1" using c1 s1 by (simp add: p118_held_def)
  show ?thesis
  proof (cases "recovery_target (ps_state s)")
    case None
    have "ps_state s \<in> set P118_LIFECYCLE_STATES"
      using assms(1,2) by (auto simp: p118_current_def dest: p118_log_known)
    then have "ps_state s = ''precheck_failed''" using recovery_target_None None assms(3) by blast
    with None go show ?thesis by (simp add: ladder_stuck)
  next
    case (Some x)
    then consider "x = ''aborted_fail_closed''" "ps_state s \<in> {''received'', ''verified'', ''approved'', ''prechecked''}"
      | "x = ''rolled_back''" "ps_state s \<in> {''action_attempted'', ''postchecked'', ''action_failed'',
           ''postcheck_failed'', ''rollback_attempted'', ''rollback_postchecked''}"
      by (auto simp: recovery_target_def split: if_splits)
    then have "\<exists>st' r s'. recover_ladder sha i w now ?s1 st1 = (st', Inr r) \<and> rr_final_state r = x
         \<and> rr_orphan_recoveries r = 1 \<and> p118_terminal x \<and> p118_held sha st' i x w s'"
    proof cases
      case 1
      with ladder_aborts [OF held assms(6) 1(2), of now] show ?thesis
        by (auto simp: recovery_result_def p118_terminal_def P118_TERMINAL_STATUSES_def)
    next
      case 2
      with ladder_rolls_back [OF held assms(6) 2(2), of now] show ?thesis
        by (auto simp: recovery_result_def p118_terminal_def P118_TERMINAL_STATUSES_def)
    qed
    with Some go show ?thesis by (auto simp: p118_held_def)
  qed
qed


section \<open>A full run of the worker\<close>

lemma worker_loop_ok:
  assumes "p118_held sha st i x (wk_owner_id wk) s" and "wk_owner_id wk \<noteq> []"
    and "legal_path p118_successors x path" and "set path \<subseteq> dom (map_of ev)"
  shows "\<exists>st' s'. worker_loop sha wk i ev path st = (st', Inr path)
     \<and> p118_held sha st' i (last (x # path)) (wk_owner_id wk) s'
     \<and> ps_authority_counter_snapshot s' = ps_authority_counter_snapshot s"
  using assms
proof (induction path arbitrary: st x s)
  case Nil
  then show ?case by auto
next
  case (Cons nx path)
  obtain e where e: "map_of ev nx = Some e" using Cons.prems(4) by auto
  have "nx \<in> set (p118_successors x)" using Cons.prems(3) by simp
  from p118_held_transition [OF Cons.prems(1,2) this, of e] obtain st1 r s1 where
    t: "p118_transition sha i nx (ps_cas_version s) (Some (wk_owner_id wk)) e st = (st1, Inr r)" "pr_state r = nx"
    and h: "p118_held sha st1 i nx (wk_owner_id wk) s1"
    and c: "ps_authority_counter_snapshot s1 = ps_authority_counter_snapshot s" by blast
  from Cons.IH [OF h Cons.prems(2)] Cons.prems(3,4) obtain st2 s2 where
    l: "worker_loop sha wk i ev path st1 = (st2, Inr path)"
    and h2: "p118_held sha st2 i (last (nx # path)) (wk_owner_id wk) s2"
    and c2: "ps_authority_counter_snapshot s2 = ps_authority_counter_snapshot s1" by auto
  have "p118_replay_op sha i st = (st, Inr s)" using Cons.prems(1) by (simp add: p118_held_def)
  with t l e have "worker_loop sha wk i ev (nx # path) st = (st2, Inr (nx # path))"
    by (simp add: op_bind_def)
  with h2 c c2 show ?case by auto
qed

lemma worker_path_legal:
  assumes "worker_path v = Inr path"
  shows "legal_path p118_successors ''received'' path \<and> path \<noteq> [] \<and> last path = vc_final_status v
     \<and> set path \<subseteq> dom (map_of (worker_evidence v vh dh)) \<and> p118_terminal (vc_final_status v)"
  using assms
  by (auto simp: worker_path_def worker_evidence_def p118_successors_def P118_LEGAL_TRANSITIONS_def
      p118_terminal_def P118_TERMINAL_STATUSES_def split: if_splits)

lemma p118_log_counters:
  assumes "p118_log sha es" and "p118_replay sha es i = Inr s"
  shows "ps_authority_counter_snapshot s = p118_zero_counters"
  using p118_log_replay [OF assms(1), of i] assms
  by (auto simp: p118_replay_Inr_iff p118_log_valid p118_on_path_def)

lemma final_counters_zero:
  "final_counters p118_zero_counters = Inr p118_zero_counters"
  "\<not> list_ex (\<lambda>(k, c). truthy c) p118_zero_counters"
  by code_simp+

lemma validated_decision_hash:
  assumes "validate_p118_approval_decision_receipt sha ap op vh l w c n"
  shows "\<exists>h. pindex ap ''decision_hash'' = Inr (PStr h)"
proof -
  have "pget ap ''decision_hash'' = PStr (stable_hash sha (PDict (pwithout [''decision_hash''] ap)))"
    using assms by (auto simp: validate_p118_approval_decision_receipt_def self_hash_string split: if_splits)
  then show ?thesis by (auto simp: pget_def pindex_def split: option.splits)
qed

lemma p118_worker_run:
  assumes "p118_current sha st" and "p118_replay sha (ws_entries st) i = Inr s"
    and "ps_state s = ''received''" and "ps_lease_owner_id s = PStr (wk_owner_id wk)" and "wk_owner_id wk \<noteq> []"
    and "ps_lease_expires_at s = Some t" and "now \<le> t"
    and "py_startswith vh ''sha256:''"
    and "validate_p118_approval_decision_receipt sha ap (Some (env_payload env)) (Some vh) (Some lease) (Some wal)
           (Some cas) (Some now)"
    and "pget ap ''operation_id'' = PStr i" and "pget ap ''verification_hash'' = PStr vh"
    and "worker_path v = Inr path"
  shows "\<exists>st' r s'. p118_run_once sha wk i now v env vh ap lease wal cas st = (st', Inr r)
     \<and> wr_final_state r = vc_final_status v \<and> wr_transitions r = path
     \<and> p118_replay sha (ws_entries st') i = Inr s' \<and> ps_state s' = vc_final_status v
     \<and> p118_terminal (ps_state s') \<and> p118_current sha st'"
proof -
  obtain dh where dh: "pindex ap ''decision_hash'' = Inr (PStr dh)"
    using validated_decision_hash [OF assms(9)] by blast
  note path = worker_path_legal [OF assms(12), of vh dh]
  have "p118_held sha st i ''received'' (wk_owner_id wk) s" using assms by (simp add: p118_held_def)
  from worker_loop_ok [OF this assms(5)] path obtain st' s' where
    l: "worker_loop sha wk i (worker_evidence v vh dh) path st = (st', Inr path)"
    and h: "p118_held sha st' i (last (''received'' # path)) (wk_owner_id wk) s'"
    and c: "ps_authority_counter_snapshot s' = ps_authority_counter_snapshot s" by blast
  have cz: "ps_authority_counter_snapshot s' = p118_zero_counters"
    using c p118_log_counters assms(1,2) by (auto simp: p118_current_def)
  have r: "p118_replay sha (ws_entries st') i = Inr s'" and fin: "ps_state s' = vc_final_status v"
    using h path by (auto simp: p118_held_def)
  have guards: "\<not> (\<not> py_eq (ps_lease_owner_id s) (PStr (wk_owner_id wk))
      \<or> (case ps_lease_expires_at s of None \<Rightarrow> True | Some t \<Rightarrow> now > t))"
    using assms by simp
  have "p118_run_once sha wk i now v env vh ap lease wal cas st =
     (st', Inr \<lparr>wr_operation_id = i, wr_final_state = ps_state s', wr_transitions = path,
                wr_retry_count = 0, wr_authority_counter_snapshot = p118_zero_counters\<rparr>)"
    using assms guards dh l r cz final_counters_zero
    by (simp add: p118_run_once_def op_bind_def p118_replay_op_def)
  with r fin path h show ?thesis by (auto simp: p118_held_def)
qed

text \<open>C18. A worker that holds a live lease on a received operation, with a bound approval receipt and a
  qualified validation result, drives it through the whole path in one run: the result names every
  transition, the final state is the status the validation measured, and the log replays to it.\<close>

theorem p118_worker_run_completes:
  assumes "p118_current sha st" and "p118_replay sha (ws_entries st) i = Inr s"
    and "ps_state s = ''received''" and "ps_lease_owner_id s = PStr (wk_owner_id wk)" and "wk_owner_id wk \<noteq> []"
    and "ps_lease_expires_at s = Some t" and "now \<le> t"
    and "py_startswith vh ''sha256:''"
    and "validate_p118_approval_decision_receipt sha ap (Some (env_payload env)) (Some vh) (Some lease) (Some wal)
           (Some cas) (Some now)"
    and "pget ap ''operation_id'' = PStr i" and "pget ap ''verification_hash'' = PStr vh"
    and "worker_path v = Inr path"
  shows "\<exists>st' r s'. p118_run_once sha wk i now v env vh ap lease wal cas st = (st', Inr r)
     \<and> wr_final_state r = vc_final_status v \<and> wr_transitions r = path
     \<and> p118_replay sha (ws_entries st') i = Inr s' \<and> ps_state s' = vc_final_status v
     \<and> p118_terminal (ps_state s')"
  using p118_worker_run [OF assms] by blast

section \<open>Leases\<close>

text \<open>A worker never takes a live lease from another, even when its cache is stale: if it acquires the
  lease of an operation that, in the shared log, belongs to somebody else, that lease had expired.
  (The store it starts from must have seen some lease of the operation.)\<close>

theorem p118_lease_takeover_only_after_expiry:
  assumes "p118_reachable sha y" and "load_entries (p118_ledger_error ''invalid_wal_entry'') (sys_file y) = Inr es"
    and "p118_acquire_lease sha wk i now \<lparr>ws_file = sys_file y, ws_entries = sys_cache y p\<rparr> = (st', Inr r)"
    and "p118_replay sha (sys_cache y p) i = Inr c"
    and "ps_lease_owner_id c \<noteq> PNone \<or> ps_lease_expires_at c \<noteq> None"
    and "p118_replay sha es i = Inr s" and "ps_lease_owner_id s = PStr other" and "other \<noteq> wk_owner_id wk"
  shows "\<exists>t. ps_lease_expires_at s = Some t \<and> t < now"
proof -
  let ?st = "\<lparr>ws_file = sys_file y, ws_entries = sys_cache y p\<rparr>"
  define foreign where "foreign \<longleftrightarrow> ps_lease_owner_id c \<noteq> PNone \<and> \<not> py_eq (ps_lease_owner_id c) (PStr (wk_owner_id wk))"
  define rt where "rt = (if foreign then ''lease_takeover'' else ''lease_acquired'')"
  from assms(3,4) have ok: "\<not> (foreign \<and> (case ps_lease_expires_at c of None \<Rightarrow> True | Some t \<Rightarrow> now \<le> t))"
    and "\<exists>r'. p118_record_lease sha i (wk_owner_id wk) (now + wk_lease_ttl_seconds wk) rt
      (ps_lease_owner_id c) (ps_lease_expires_at c) ?st = (st', Inr r')"
    by (auto simp: p118_acquire_lease_def p118_replay_op_def op_bind_def Let_def foreign_def rt_def
        split: if_splits prod.splits sum.splits)
  then obtain r' where "p118_append_receipt sha (p118_lease_args i (wk_owner_id wk)
      (now + wk_lease_ttl_seconds wk) rt (ps_lease_owner_id c) (ps_lease_expires_at c) c) ?st = (st', Inr r')"
    using assms(4) by (auto simp: p118_record_lease_def)
  then have "p118_check_lease sha es (p118_lease_args i (wk_owner_id wk)
      (now + wk_lease_ttl_seconds wk) rt (ps_lease_owner_id c) (ps_lease_expires_at c) c) = Inr ()"
    using assms(2) by (elim p118_append_receipt_success [where es = es])
      (auto simp: p118_dedupe_def p118_lease_args_def p118_append_args_of_def)
  with assms(5-7) have same: "py_eq (PStr other) (ps_lease_owner_id c)" "ps_lease_expires_at s = ps_lease_expires_at c"
    by (auto simp: p118_check_lease_def p118_lease_args_def p118_append_args_of_def rbind_Inr_iff rguard_Inr_iff)
  then have "ps_lease_owner_id c = PStr other" by simp
  with assms(8) have foreign by (simp add: foreign_def)
  with ok same(2) show ?thesis by (auto split: option.splits)
qed

end
