(* ===== verification/P118_Demo.thy ===== *)
theory P118_Demo
  imports P118_Worker
begin

text \<open>
  A concrete run of the P118 ledger, on which the properties of its theories are instantiated: one
  process registers an operation, then verifies it, or rejects it and registers it again.
\<close>

abbreviation demo_sha :: "string \<Rightarrow> string" where
  "demo_sha \<equiv> (\<lambda>_. demo_digest)"

definition demo_registered :: wal_store where
  "demo_registered = p118_call_store demo_sha (PC_Register (demo_envelope ''k'')) \<lparr>ws_file = [], ws_entries = []\<rparr>"

definition demo_verified :: wal_store where
  "demo_verified = p118_call_store demo_sha (PC_Transition ''op'' ''verified'' 0 (Some ''w'') []) demo_registered"

definition demo_rejected :: wal_store where
  "demo_rejected = p118_call_store demo_sha (PC_Transition ''op'' ''rejected'' 0 (Some ''w'') []) demo_registered"

definition demo_system :: "wal_store \<Rightarrow> shared_system" where
  "demo_system st = \<lparr>sys_file = ws_file st, sys_cache = (\<lambda>_. [])(0 := ws_entries st)\<rparr>"

lemma demo_system_step:
  assumes "p118_reachable sha (demo_system st)" and "p118_call_ok sha c"
  shows "p118_reachable sha (demo_system (p118_call_store sha c st))"
  using shared_reachable.call [OF assms, of "p118_call_store sha c st" 0]
  by (cases st) (simp add: demo_system_def)

lemma demo_registered_reachable: "p118_reachable demo_sha (demo_system demo_registered)"
proof -
  have "demo_system \<lparr>ws_file = [], ws_entries = []\<rparr> = \<lparr>sys_file = [], sys_cache = (\<lambda>_. [])\<rparr>"
    by (auto simp: demo_system_def)
  then have "p118_reachable demo_sha (demo_system \<lparr>ws_file = [], ws_entries = []\<rparr>)"
    by (simp add: shared_reachable.start)
  moreover have "p118_call_ok demo_sha (PC_Register (demo_envelope ''k''))"
    using demo_envelope_built by auto
  ultimately show ?thesis unfolding demo_registered_def by (rule demo_system_step)
qed

lemma demo_verified_reachable: "p118_reachable demo_sha (demo_system demo_verified)"
  and demo_rejected_reachable: "p118_reachable demo_sha (demo_system demo_rejected)"
  unfolding demo_verified_def demo_rejected_def
  by (rule demo_system_step [OF demo_registered_reachable], simp)+

lemma demo_verified_log:
  "\<exists>es. load_entries (p118_ledger_error ''invalid_wal_entry'') (ws_file demo_verified) = Inr es
     \<and> (length es = 2 \<and> pget (es ! 1) ''receipt_type'' = PStr ''state_transition''
        \<and> returns (\<lambda>s. ps_state s = ''verified'' \<and> ps_cas_version s = 1) (p118_replay demo_sha es ''op''))"
  unfolding Inr_such_that [symmetric] by code_simp

theorem p118_interleaved_cas_safe_witness:
  "\<exists>es s. load_entries (p118_ledger_error ''invalid_wal_entry'') (sys_file (demo_system demo_verified)) = Inr es
     \<and> p118_replay demo_sha (take 1 es) ''op'' = Inr s \<and> \<not> p118_terminal (ps_state s)
     \<and> ''verified'' \<in> set (p118_successors (ps_state s))"
proof -
  obtain es where es: "load_entries (p118_ledger_error ''invalid_wal_entry'') (ws_file demo_verified) = Inr es"
    "1 < length es" "pget (es ! 1) ''receipt_type'' = PStr ''state_transition''"
    using demo_verified_log by auto
  have "returns (\<lambda>es. pget (es ! 1) ''operation_id'' = PStr ''op'' \<and> pget (es ! 1) ''state'' = PStr ''verified'')
     (load_entries (p118_ledger_error ''invalid_wal_entry'') (ws_file demo_verified))" by code_simp
  with es(1) have e: "pget (es ! 1) ''operation_id'' = PStr ''op''" "pget (es ! 1) ''state'' = PStr ''verified''"
    by (simp_all add: returns_def)
  have "load_entries (p118_ledger_error ''invalid_wal_entry'') (sys_file (demo_system demo_verified)) = Inr es"
    using es(1) by (simp add: demo_system_def)
  from p118_interleaved_cas_safe [OF demo_verified_reachable this es(2,3)] this e show ?thesis by auto
qed

theorem p118_reachable_state_on_path_witness:
  "\<exists>es s. load_entries (p118_ledger_error ''invalid_wal_entry'') (sys_file (demo_system demo_verified)) = Inr es
     \<and> p118_replay demo_sha es ''op'' = Inr s \<and> ps_state s = ''verified'' \<and> ps_cas_version s = 1
     \<and> ps_cas_version s + int (p118_rank (ps_state s)) \<le> 9"
proof -
  obtain es s where es: "load_entries (p118_ledger_error ''invalid_wal_entry'') (ws_file demo_verified) = Inr es"
    and s: "p118_replay demo_sha es ''op'' = Inr s" "ps_state s = ''verified''" "ps_cas_version s = 1"
    using demo_verified_log by (auto simp: Inr_such_that)
  have "load_entries (p118_ledger_error ''invalid_wal_entry'') (sys_file (demo_system demo_verified)) = Inr es"
    using es by (simp add: demo_system_def)
  from p118_reachable_state_on_path [OF demo_verified_reachable this s(1)] this s show ?thesis by blast
qed

lemma demo_registered_log:
  "\<exists>es. load_entries (p118_ledger_error ''invalid_wal_entry'') (ws_file demo_registered) = Inr es
     \<and> (returns (\<lambda>s. True) (p118_replay demo_sha es ''op'')
        \<and> returns (\<lambda>ids. ids \<noteq> [] \<and> last ids = ''op'') (p118_registered_under ''k'' es))"
  unfolding Inr_such_that [symmetric] by code_simp

theorem p118_transition_refines_witness:
  "\<exists>st' r s es'. p118_transition demo_sha ''op'' ''verified'' 0 (Some ''w'') []
       \<lparr>ws_file = sys_file (demo_system demo_registered), ws_entries = sys_cache (demo_system demo_registered) 0\<rparr>
       = (st', Inr r)
     \<and> load_entries (p118_ledger_error ''invalid_wal_entry'') (ws_file st') = Inr es'
     \<and> p118_replay demo_sha es' ''op'' = Inr (s\<lparr>ps_state := ''verified'', ps_cas_version := 0 + 1, ps_duplicate_action_count := 0\<rparr>)"
proof -
  let ?st = "\<lparr>ws_file = sys_file (demo_system demo_registered), ws_entries = sys_cache (demo_system demo_registered) 0\<rparr>"
  have "\<exists>r. snd (p118_transition demo_sha ''op'' ''verified'' 0 (Some ''w'') [] ?st) = Inr r \<and> True"
    unfolding Inr_such_that [symmetric] by code_simp
  then obtain st' r where t: "p118_transition demo_sha ''op'' ''verified'' 0 (Some ''w'') [] ?st = (st', Inr r)"
    by (metis prod.collapse)
  obtain es where "load_entries (p118_ledger_error ''invalid_wal_entry'') (sys_file (demo_system demo_registered)) = Inr es"
    using demo_registered_log by (auto simp: demo_system_def)
  from p118_transition_refines [OF demo_registered_reachable this t] t show ?thesis by blast
qed

theorem p118_repeated_registration_is_idempotent_witness:
  "\<exists>st' r. p118_register_operation demo_sha (demo_envelope ''k'')
       \<lparr>ws_file = sys_file (demo_system demo_registered), ws_entries = sys_cache (demo_system demo_registered) 1\<rparr>
       = (st', Inr r) \<and> pr_receipt_type r = ''idempotent_replay''"
proof -
  obtain es s ids where es: "load_entries (p118_ledger_error ''invalid_wal_entry'') (sys_file (demo_system demo_registered)) = Inr es"
    and s: "p118_replay demo_sha es ''op'' = Inr s"
    and ids: "p118_registered_under ''k'' es = Inr ids" "ids \<noteq> []" "last ids = ''op''"
    using demo_registered_log by (auto simp: demo_system_def Inr_such_that)
  have "\<exists>a. p118_registration demo_sha (demo_envelope ''k'') = Inr a
      \<and> aa_register a = Some (''k'', ''sha256:'' @ demo_digest)"
    unfolding Inr_such_that [symmetric] by code_simp
  then obtain a where a: "p118_registration demo_sha (demo_envelope ''k'') = Inr a"
    "aa_register a = Some (''k'', ''sha256:'' @ demo_digest)" by blast
  have "returns (\<lambda>es. returns (\<lambda>s. ps_payload_hash s = ''sha256:'' @ demo_digest) (p118_replay demo_sha es ''op''))
     (load_entries (p118_ledger_error ''invalid_wal_entry'') (sys_file (demo_system demo_registered)))" by code_simp
  with es s have h: "ps_payload_hash s = ''sha256:'' @ demo_digest" by (simp add: returns_def)
  have "p118_replay demo_sha es (last ids) = Inr s" using s ids(3) by simp
  from p118_repeated_registration_is_idempotent [OF demo_registered_reachable es demo_envelope_built a ids(1,2) this, of 1] h
  show ?thesis by auto
qed

theorem p118_fresh_key_reopens_operation_witness:
  "\<exists>st' r es' s'. p118_register_operation demo_sha (demo_envelope ''k2'')
       \<lparr>ws_file = sys_file (demo_system demo_rejected), ws_entries = sys_cache (demo_system demo_rejected) 0\<rparr> = (st', Inr r)
     \<and> load_entries (p118_ledger_error ''invalid_wal_entry'') (ws_file st') = Inr es'
     \<and> p118_replay demo_sha es' ''op'' = Inr s' \<and> ps_state s' = ''received''"
proof -
  have "\<exists>es. load_entries (p118_ledger_error ''invalid_wal_entry'') (sys_file (demo_system demo_rejected)) = Inr es
     \<and> (returns (\<lambda>s. p118_terminal (ps_state s)) (p118_replay demo_sha es (env_operation_id (demo_envelope ''k2'')))
        \<and> p118_registered_under ''k2'' es = Inr [])"
    unfolding Inr_such_that [symmetric] by code_simp
  then obtain es s where es: "load_entries (p118_ledger_error ''invalid_wal_entry'') (sys_file (demo_system demo_rejected)) = Inr es"
    and s: "p118_replay demo_sha es (env_operation_id (demo_envelope ''k2'')) = Inr s" "p118_terminal (ps_state s)"
    and k: "p118_registered_under ''k2'' es = Inr []" by (auto simp: Inr_such_that)
  have key: "pget (env_payload (demo_envelope ''k2'')) ''idempotency_key'' = PStr ''k2''"
    and i: "env_operation_id (demo_envelope ''k2'') = ''op''" by (simp_all add: demo_envelope_def)
  from p118_fresh_key_reopens_operation
      [OF demo_rejected_reachable es demo_envelope_built_again s key k, of 0]
  show ?thesis unfolding i by blast
qed

theorem wal_rearrangement_detected_witness:
  "\<exists>es. load_entries (p118_ledger_error ''invalid_wal_entry'') (ws_file demo_verified) = Inr es
     \<and> verify_hash_chain demo_sha [es ! 1] \<noteq> Inr True"
proof -
  obtain es where es: "load_entries (p118_ledger_error ''invalid_wal_entry'') (ws_file demo_verified) = Inr es"
    and n: "length es = 2" using demo_verified_log by auto
  have "p118_log demo_sha es"
    using p118_reachable_log [OF demo_verified_reachable] es by (auto simp: demo_system_def)
  then have v: "verify_hash_chain demo_sha es = Inr True" by (simp add: p118_log_valid)
  have "es ! 0 \<noteq> es ! 1"
  proof -
    have "returns (\<lambda>es. pget (es ! 0) ''receipt_type'' \<noteq> pget (es ! 1) ''receipt_type'')
       (load_entries (p118_ledger_error ''invalid_wal_entry'') (ws_file demo_verified))" by code_simp
    with es show ?thesis by (auto simp: returns_def)
  qed
  then have ne: "[es ! 1] \<noteq> take (length [es ! 1]) es" using n by (cases es) auto
  have "set [es ! 1] \<subseteq> set es" using n by auto
  with wal_rearrangement_detected [OF v this] ne es show ?thesis by blast
qed

section \<open>Worker and recovery\<close>

definition demo_leased :: wal_store where
  "demo_leased = p118_call_store demo_sha (PC_Lease ''op'' ''w'' 50 ''lease_acquired'' (PStr ''w'') None) demo_registered"

lemma demo_leased_reachable: "p118_reachable demo_sha (demo_system demo_leased)"
  unfolding demo_leased_def by (rule demo_system_step [OF demo_registered_reachable]) simp

lemma reachable_current:
  assumes "p118_reachable sha (demo_system st)"
    and "load_entries (p118_ledger_error ''invalid_wal_entry'') (ws_file st) = Inr (ws_entries st)"
  shows "p118_current sha st"
  using p118_reachable_log [OF assms(1)] assms(2) by (auto simp: demo_system_def p118_current_def)

lemma demo_leased_facts:
  "load_entries (p118_ledger_error ''invalid_wal_entry'') (ws_file demo_leased) = Inr (ws_entries demo_leased)"
  "returns (\<lambda>s. ps_state s = ''received'' \<and> ps_lease_owner_id s = PStr ''w'' \<and> ps_lease_expires_at s = Some 50)
     (p118_replay demo_sha (ws_entries demo_leased) ''op'')"
  by code_simp+


definition demo_cycle :: p118_cycle_result where
  "demo_cycle = cycle_result ''succeeded'' (Some ''a'') (Some ''b'') None 0 False"

lemma demo_approval:
  "\<exists>d. decide_p118_approval demo_sha (demo_envelope ''k'') demo_verification (''sha256:'' @ demo_digest)
         10 demo_lease demo_wal 0 None = Inr d
     \<and> (ad_operation_id d = ''op'' \<and> ad_verification_hash d = ''sha256:'' @ demo_digest
        \<and> validate_p118_approval_decision_receipt demo_sha (decision_to_dict d)
            (Some (env_payload (demo_envelope ''k''))) (Some (''sha256:'' @ demo_digest))
            (Some demo_lease) (Some demo_wal) (Some 0) (Some 20))"
  unfolding Inr_such_that [symmetric] by code_simp

theorem p118_worker_run_completes_witness:
  "\<exists>ap st' r. p118_run_once demo_sha \<lparr>wk_owner_id = ''w'', wk_lease_ttl_seconds = 60, wk_max_retries = 0\<rparr> ''op'' 20
       demo_cycle (demo_envelope ''k'') (''sha256:'' @ demo_digest) ap demo_lease demo_wal 0 demo_leased = (st', Inr r)
     \<and> wr_final_state r = ''succeeded'' \<and> length (wr_transitions r) = 6"
proof -
  obtain s where s: "p118_replay demo_sha (ws_entries demo_leased) ''op'' = Inr s" "ps_state s = ''received''"
    "ps_lease_owner_id s = PStr ''w''" "ps_lease_expires_at s = Some 50"
    using demo_leased_facts(2) by (auto simp: Inr_such_that)
  have cur: "p118_current demo_sha demo_leased"
    using reachable_current [OF demo_leased_reachable demo_leased_facts(1)] .
  obtain d where d: "ad_operation_id d = ''op''" "ad_verification_hash d = ''sha256:'' @ demo_digest"
    "validate_p118_approval_decision_receipt demo_sha (decision_to_dict d)
        (Some (env_payload (demo_envelope ''k''))) (Some (''sha256:'' @ demo_digest))
        (Some demo_lease) (Some demo_wal) (Some 0) (Some 20)" using demo_approval by blast
  have wp: "worker_path demo_cycle = Inr [''verified'', ''approved'', ''prechecked'', ''action_attempted'', ''postchecked'', ''succeeded'']"
    by (simp add: worker_path_def demo_cycle_def cycle_result_def)
  let ?wk = "\<lparr>wk_owner_id = ''w'', wk_lease_ttl_seconds = 60, wk_max_retries = 0\<rparr>"
  have "py_startswith (''sha256:'' @ demo_digest) ''sha256:''" by (rule py_startswith_append)
  moreover have "pget (decision_to_dict d) ''operation_id'' = PStr ''op''"
    "pget (decision_to_dict d) ''verification_hash'' = PStr (''sha256:'' @ demo_digest)"
    by (simp_all add: decision_get d(1,2))
  ultimately have "\<exists>st' r s'. p118_run_once demo_sha ?wk ''op'' 20 demo_cycle (demo_envelope ''k'')
      (''sha256:'' @ demo_digest) (decision_to_dict d) demo_lease demo_wal 0 demo_leased = (st', Inr r)
      \<and> wr_final_state r = vc_final_status demo_cycle
      \<and> wr_transitions r = [''verified'', ''approved'', ''prechecked'', ''action_attempted'', ''postchecked'', ''succeeded'']
      \<and> p118_replay demo_sha (ws_entries st') ''op'' = Inr s' \<and> ps_state s' = vc_final_status demo_cycle
      \<and> p118_terminal (ps_state s')"
    using s by (intro p118_worker_run_completes [OF cur s(1) _ _ _ _ _ _ d(3) _ _ wp, where t = 50]) simp_all
  then obtain st' r where "p118_run_once demo_sha ?wk ''op'' 20 demo_cycle (demo_envelope ''k'')
      (''sha256:'' @ demo_digest) (decision_to_dict d) demo_lease demo_wal 0 demo_leased = (st', Inr r)"
    "wr_final_state r = vc_final_status demo_cycle"
    "wr_transitions r = [''verified'', ''approved'', ''prechecked'', ''action_attempted'', ''postchecked'', ''succeeded'']"
    by blast
  moreover have "vc_final_status demo_cycle = ''succeeded''" by (simp add: demo_cycle_def cycle_result_def)
  ultimately show ?thesis
    by (intro exI [of _ "decision_to_dict d"] exI [of _ st'] exI [of _ r]) (simp only: list.size, simp)
qed

theorem p118_lease_takeover_only_after_expiry_witness:
  "\<exists>es s st' r. load_entries (p118_ledger_error ''invalid_wal_entry'') (sys_file (demo_system demo_leased)) = Inr es
     \<and> p118_acquire_lease demo_sha \<lparr>wk_owner_id = ''x'', wk_lease_ttl_seconds = 60, wk_max_retries = 0\<rparr> ''op'' 51
         \<lparr>ws_file = sys_file (demo_system demo_leased), ws_entries = sys_cache (demo_system demo_leased) 0\<rparr> = (st', Inr r)
     \<and> p118_replay demo_sha es ''op'' = Inr s \<and> (\<exists>t. ps_lease_expires_at s = Some t \<and> t < 51)"
proof -
  let ?wk = "\<lparr>wk_owner_id = ''x'', wk_lease_ttl_seconds = 60, wk_max_retries = 0\<rparr>"
  let ?st = "\<lparr>ws_file = sys_file (demo_system demo_leased), ws_entries = sys_cache (demo_system demo_leased) 0\<rparr>"
  obtain s where s: "p118_replay demo_sha (ws_entries demo_leased) ''op'' = Inr s"
    "ps_lease_owner_id s = PStr ''w''" using demo_leased_facts(2) by (auto simp: Inr_such_that)
  have load: "load_entries (p118_ledger_error ''invalid_wal_entry'') (sys_file (demo_system demo_leased))
      = Inr (ws_entries demo_leased)" using demo_leased_facts(1) by (simp add: demo_system_def)
  have cache: "p118_replay demo_sha (sys_cache (demo_system demo_leased) 0) ''op'' = Inr s"
    using s by (simp add: demo_system_def)
  have "\<exists>r. snd (p118_acquire_lease demo_sha ?wk ''op'' 51 ?st) = Inr r \<and> True"
    unfolding Inr_such_that [symmetric] by code_simp
  then obtain st' r where a: "p118_acquire_lease demo_sha ?wk ''op'' 51 ?st = (st', Inr r)"
    by (metis prod.collapse)
  have "ps_lease_owner_id s \<noteq> PNone \<or> ps_lease_expires_at s \<noteq> None" using s by simp
  from p118_lease_takeover_only_after_expiry [OF demo_leased_reachable load a cache this s(1,2)] load a s
  show ?thesis by auto
qed

end
