(* ===== verification/P119_Contract.thy ===== *)
theory P119_Contract
  imports P118_Contract
begin

text \<open>
  The incident contract of \<open>app/services/p119_contract.py\<close>: the authority boundary, incident
  envelopes, timeline events, and the table of legal incident transitions.
\<close>

section \<open>Constants\<close>

definition P119_INCIDENT_SCHEMA_VERSION :: string where
  "P119_INCIDENT_SCHEMA_VERSION = ''p119.incident_envelope.v1''"

definition P119_TIMELINE_SCHEMA_VERSION :: string where
  "P119_TIMELINE_SCHEMA_VERSION = ''p119.timeline_event.v1''"

definition P119_AUTHORITY_COUNTER_KEYS :: "string list" where
  "P119_AUTHORITY_COUNTER_KEYS = [''auth_context_count'', ''credential_scope_count'', ''secret_material_count'',
     ''shell_execution_count'', ''subprocess_execution_count'', ''kubernetes_mutation_count'',
     ''cloud_mutation_count'', ''database_mutation_count'', ''network_mutation_count'',
     ''live_connector_call_count'', ''online_policy_write_count'', ''staging_mutation_count'',
     ''production_mutation_count'', ''l4_plus_action_count'', ''freeform_action_execution_count'',
     ''llm_command_execution_count'', ''authority_escape_count'']"

definition P119_INCIDENT_STATES :: "string list" where
  "P119_INCIDENT_STATES = [''detected'', ''triage_started'', ''diagnosing'', ''evidence_acquiring'',
     ''selection_pending'', ''approval_pending'', ''approved'', ''local_execution_pending'',
     ''local_executing'', ''validating'', ''rollback_pending'', ''rolling_back'', ''learning'',
     ''recovered'', ''escalated'', ''aborted_fail_closed'', ''expired'', ''orphaned_recovered'']"

definition P119_TERMINAL_STATES :: "string list" where
  "P119_TERMINAL_STATES = [''recovered'', ''escalated'', ''aborted_fail_closed'', ''expired'', ''orphaned_recovered'']"

definition P119_LEGAL_TRANSITIONS :: "(string \<times> string list) list" where
  "P119_LEGAL_TRANSITIONS =
     [(''detected'', [''triage_started'', ''aborted_fail_closed'', ''expired'']),
      (''triage_started'', [''diagnosing'', ''aborted_fail_closed'', ''expired'']),
      (''diagnosing'', [''evidence_acquiring'', ''selection_pending'', ''escalated'', ''aborted_fail_closed'', ''expired'']),
      (''evidence_acquiring'', [''diagnosing'', ''selection_pending'', ''escalated'', ''aborted_fail_closed'', ''expired'']),
      (''selection_pending'', [''approval_pending'', ''escalated'', ''aborted_fail_closed'', ''expired'']),
      (''approval_pending'', [''approved'', ''escalated'', ''aborted_fail_closed'', ''expired'']),
      (''approved'', [''local_execution_pending'', ''aborted_fail_closed'', ''expired'']),
      (''local_execution_pending'', [''local_executing'', ''aborted_fail_closed'', ''expired'']),
      (''local_executing'', [''validating'', ''rollback_pending'', ''escalated'', ''aborted_fail_closed'', ''expired'']),
      (''validating'', [''recovered'', ''rollback_pending'', ''learning'', ''escalated'', ''aborted_fail_closed'', ''expired'']),
      (''rollback_pending'', [''rolling_back'', ''escalated'', ''aborted_fail_closed'', ''expired'']),
      (''rolling_back'', [''orphaned_recovered'', ''escalated'', ''aborted_fail_closed'', ''expired'']),
      (''learning'', [''recovered'', ''escalated'', ''aborted_fail_closed'', ''expired''])]"

definition P119_TIMELINE_EVENT_TYPES :: "string list" where
  "P119_TIMELINE_EVENT_TYPES = [''incident_detected'', ''dedupe_or_correlation_decision'', ''triage_started'',
     ''evidence_packet_bound'', ''hypothesis_created'', ''hypothesis_falsified'', ''missing_evidence_identified'',
     ''evidence_acquisition_requested'', ''evidence_acquisition_completed'', ''decision_selected'',
     ''approval_requested'', ''approval_granted'', ''approval_rejected'', ''human_escalation_required'',
     ''operation_enqueued'', ''lease_acquired'', ''local_action_attempted'', ''validation_started'',
     ''validation_succeeded'', ''validation_failed'', ''rollback_started'', ''rollback_succeeded'',
     ''rollback_failed'', ''causal_attribution_recorded'', ''recurrence_checked'', ''learning_record_written'',
     ''incident_terminalized'', ''crash_recovery_resumed'', ''orphan_inventory_recorded'',
     ''authority_counter_snapshot'', ''transition_rejected_fail_closed'', ''scheduler_budget_receipt'']"

definition P119_FORBIDDEN_FIELD_NAMES :: "string list" where
  "P119_FORBIDDEN_FIELD_NAMES = [''auth'', ''authcontext'', ''cloudmutation'', ''command'', ''commandtext'',
     ''credential'', ''credentials'', ''databasemutation'', ''freeformaction'', ''kubernetesmutation'',
     ''liveconnector'', ''llmcommand'', ''networkmutation'', ''onlinepolicywrite'', ''password'',
     ''productionmutation'', ''secret'', ''shell'', ''shelltext'', ''stagingmutation'', ''subprocess'',
     ''subprocesscommand'']"

definition p119_contract_error :: "string \<Rightarrow> exn" where
  "p119_contract_error m = Raised ''P119ContractError'' m"

definition p119_forbidden_text :: "string \<Rightarrow> bool" where
  "p119_forbidden_text = forbidden_text [''llm command'']"

section \<open>The authority boundary\<close>

definition p119_bad_counters :: "pydict \<Rightarrow> bool" where
  "p119_bad_counters d = (d = [] \<or> list_ex (\<lambda>(k, c). strict_int c \<noteq> Some 0) d)"

fun p119_reject_authority :: "pyval \<Rightarrow> unit result"
  and p119_reject_items :: "pydict \<Rightarrow> unit result"
  and p119_reject_list :: "pyval list \<Rightarrow> unit result" where
  "p119_reject_authority (PDict d) = p119_reject_items d"
| "p119_reject_authority (PList xs) = p119_reject_list xs"
| "p119_reject_authority (PStr s) =
     rguard (p119_forbidden_text s) (p119_contract_error ''forbidden_authority_text'')"
| "p119_reject_authority PNone = Inr ()"
| "p119_reject_authority (PBool b) = Inr ()"
| "p119_reject_authority (PInt i) = Inr ()"
| "p119_reject_authority (PFloat m e) = Inr ()"
| "p119_reject_items [] = Inr ()"
| "p119_reject_items ((k, v) # d) =
     (let normalized = normalized_field k in
      if normalized \<in> {''authoritycountersnapshot'', ''authoritysnapshot''} then p119_reject_items d
      else if normalized = ''counters'' \<and> is_dict v then
        if p119_bad_counters (as_dict v) then Inl (p119_contract_error ''authority_counter_nonzero_or_invalid'')
        else p119_reject_items d
      else if normalized \<in> set P119_FORBIDDEN_FIELD_NAMES
      then Inl (p119_contract_error (''forbidden_authority_field:'' @ k))
      else rbind (p119_reject_authority v) (\<lambda>_. p119_reject_items d))"
| "p119_reject_list [] = Inr ()"
| "p119_reject_list (v # vs) = rbind (p119_reject_authority v) (\<lambda>_. p119_reject_list vs)"

definition p119_reject_authority_boundary :: "pydict \<Rightarrow> unit result" where
  "p119_reject_authority_boundary d = p119_reject_authority (PDict d)"

definition p119_zero_counters :: pydict where
  "p119_zero_counters = map (\<lambda>k. (k, PInt 0)) P119_AUTHORITY_COUNTER_KEYS"

definition p119_validate_zero_counters :: "pyval \<Rightarrow> pydict result" where
  "p119_validate_zero_counters value =
     (case value of
        PDict d \<Rightarrow>
          (case unknown_keys d P119_AUTHORITY_COUNTER_KEYS of
             u # _ \<Rightarrow> Inl (p119_contract_error (''unknown_authority_counter:'' @ u))
           | [] \<Rightarrow> check_zero_counters p119_contract_error d P119_AUTHORITY_COUNTER_KEYS)
      | _ \<Rightarrow> Inl (p119_contract_error ''missing_authority_snapshot''))"

section \<open>Field validators\<close>

definition p119_clean_text :: "pyval \<Rightarrow> string \<Rightarrow> string result" where
  "p119_clean_text value error =
     (case value of
        PStr s \<Rightarrow>
          if py_strip s = [] then Inl (p119_contract_error error)
          else if p119_forbidden_text s then Inl (p119_contract_error ''forbidden_authority_text'')
          else Inr (py_strip s)
      | _ \<Rightarrow> Inl (p119_contract_error error))"

definition p119_required_text :: "pydict \<Rightarrow> string \<Rightarrow> string result" where
  "p119_required_text data key = p119_clean_text (pget data key) (''missing_'' @ key)"

definition p119_state_name :: "pyval \<Rightarrow> string result" where
  "p119_state_name value =
     (case value of
        PStr s \<Rightarrow> if s \<in> set P119_INCIDENT_STATES then Inr s
                  else Inl (p119_contract_error (''unknown_state:'' @ s))
      | _ \<Rightarrow> Inl (p119_contract_error (''unknown_state:'' @ py_str value)))"

definition p119_fixture_id :: "pyval \<Rightarrow> string result" where
  "p119_fixture_id value =
     rbind (p119_clean_text value ''missing_fixture_id'') (\<lambda>text.
     if list_ex (py_startswith text) LOCAL_TARGET_PREFIXES then Inr text
     else Inl (p119_contract_error ''invalid_fixture_id''))"

definition p119_required_mapping :: "pydict \<Rightarrow> string \<Rightarrow> pydict result" where
  "p119_required_mapping data key =
     (case pget data key of
        PDict d \<Rightarrow> if d = [] then Inl (p119_contract_error (''missing_'' @ key)) else Inr d
      | _ \<Rightarrow> Inl (p119_contract_error (''missing_'' @ key)))"

definition p119_required_sequence :: "pyval \<Rightarrow> string \<Rightarrow> pyval list result" where
  "p119_required_sequence value error =
     (case value of PList xs \<Rightarrow> if xs = [] then Inl (p119_contract_error error) else Inr xs
      | _ \<Rightarrow> Inl (p119_contract_error error))"

definition p119_non_negative_int :: "pyval \<Rightarrow> string \<Rightarrow> int result" where
  "p119_non_negative_int value error =
     (case strict_int value of
        None \<Rightarrow> Inl (p119_contract_error error)
      | Some i \<Rightarrow> if i < 0 then Inl (p119_contract_error error) else Inr i)"

section \<open>Incident envelopes and timeline events\<close>

record p119_envelope =
  ie_incident_id :: string
  ie_schema_version :: string
  ie_payload :: pydict

definition P119_REQUIRED_FIELDS :: "string list" where
  "P119_REQUIRED_FIELDS = [''incident_id'', ''schema_version'', ''alert_fingerprint'', ''state'', ''wal_position'',
     ''cas_version'', ''idempotency_key'', ''budget_snapshot'', ''timeline_hash'', ''replay_refs'',
     ''authority_counter_snapshot'']"

definition build_incident_envelope :: "(string \<Rightarrow> string) \<Rightarrow> pydict \<Rightarrow> p119_envelope result" where
  "build_incident_envelope sha data =
     (case missing_field data P119_REQUIRED_FIELDS of
        Some f \<Rightarrow> Inl (p119_contract_error (''missing_'' @ f))
      | None \<Rightarrow>
     rbind (p119_reject_authority_boundary data) (\<lambda>_.
     rbind (rguard (\<not> py_eq (pget data ''schema_version'') (PStr P119_INCIDENT_SCHEMA_VERSION))
              (p119_contract_error (''unsupported_schema_version:'' @ py_str (pget data ''schema_version'')))) (\<lambda>_.
     rbind (p119_required_text data ''incident_id'') (\<lambda>incident_id.
     rbind (p119_state_name (pget data ''state'')) (\<lambda>state.
     let terminal_status = pget data ''terminal_status'' in
     rbind (if state \<in> set P119_TERMINAL_STATES
            then rguard (\<not> py_eq terminal_status (PStr state)) (p119_contract_error ''missing_terminal_status'')
            else rguard (terminal_status \<noteq> PNone) (p119_contract_error ''nonterminal_terminal_status'')) (\<lambda>_.
     rbind (p119_required_text data ''alert_fingerprint'') (\<lambda>fingerprint.
     rbind (p119_fixture_id (pget_or data ''fixture_id'' (PStr ''local:fixture:unspecified''))) (\<lambda>fixture.
     rbind (p119_non_negative_int (pget data ''wal_position'') ''missing_wal_position'') (\<lambda>wal_position.
     rbind (p119_non_negative_int (pget data ''cas_version'') ''missing_cas_version'') (\<lambda>cas_version.
     rbind (p119_required_mapping data ''budget_snapshot'') (\<lambda>budget.
     rbind (p119_required_sequence (pget data ''replay_refs'') ''missing_replay_refs'') (\<lambda>refs.
     rbind (p119_validate_zero_counters (pget data ''authority_counter_snapshot'')) (\<lambda>counters.
     rbind (p119_required_text data ''idempotency_key'') (\<lambda>idem.
     rbind (p119_required_text data ''timeline_hash'') (\<lambda>timeline.
     let payload =
           [(''incident_id'', PStr incident_id), (''schema_version'', PStr P119_INCIDENT_SCHEMA_VERSION),
            (''alert_fingerprint'', PStr fingerprint), (''fixture_id'', PStr fixture), (''state'', PStr state),
            (''terminal_status'', terminal_status), (''wal_position'', PInt wal_position),
            (''cas_version'', PInt cas_version), (''idempotency_key'', PStr idem),
            (''budget_snapshot'', PDict (plain_mapping budget)), (''timeline_hash'', PStr timeline),
            (''replay_refs'', PList (map PStr (sort (map py_str refs)))),
            (''authority_counter_snapshot'', PDict counters)]
     in Inr \<lparr>ie_incident_id = incident_id, ie_schema_version = P119_INCIDENT_SCHEMA_VERSION,
             ie_payload = payload @ [(''payload_hash'', PStr (stable_hash sha (PDict payload)))]\<rparr>)))))))))))))))"

definition build_timeline_event ::
    "(string \<Rightarrow> string) \<Rightarrow> string \<Rightarrow> string \<Rightarrow> string \<Rightarrow> string \<Rightarrow> int \<Rightarrow> string \<Rightarrow> pydict \<Rightarrow> string \<Rightarrow> pydict
     \<Rightarrow> pydict \<Rightarrow> pydict result" where
  "build_timeline_event sha incident_id event_type state_before state_after timestamp actor_type payload
       previous_hash budget counters =
     rbind (p119_reject_authority_boundary payload) (\<lambda>_.
     rbind (rguard (event_type \<notin> set P119_TIMELINE_EVENT_TYPES)
              (p119_contract_error (''unknown_timeline_event_type:'' @ event_type))) (\<lambda>_.
     rbind (p119_clean_text (PStr incident_id) ''missing_incident_id'') (\<lambda>clean_id.
     rbind (p119_state_name (PStr state_before)) (\<lambda>before.
     rbind (p119_state_name (PStr state_after)) (\<lambda>after.
     rbind (p119_non_negative_int (PInt timestamp) ''invalid_timestamp'') (\<lambda>ts.
     rbind (p119_clean_text (PStr actor_type) ''missing_actor_type'') (\<lambda>actor.
     rbind (p119_validate_zero_counters (PDict counters)) (\<lambda>zero.
     let event =
           [(''schema_version'', PStr P119_TIMELINE_SCHEMA_VERSION), (''incident_id'', PStr clean_id),
            (''event_type'', PStr event_type), (''state_before'', PStr before), (''state_after'', PStr after),
            (''timestamp'', PInt ts), (''actor_type'', PStr actor), (''payload'', PDict (plain_mapping payload)),
            (''budget_snapshot'', PDict (plain_mapping budget)), (''authority_counter_snapshot'', PDict zero),
            (''previous_hash'', PStr previous_hash),
            (''redaction_receipt'', PDict [(''redacted'', PBool True),
               (''receipt_hash'', PStr (stable_hash sha (PDict
                  [(''incident_id'', PStr incident_id), (''event_type'', PStr event_type),
                   (''payload'', PDict payload)])))])]
     in Inr (event @ [(''current_hash'', PStr (stable_hash sha (PDict event)))])))))))))"

section \<open>The incident table\<close>

definition p119_successors :: "string \<Rightarrow> string list" where
  "p119_successors s = (case map_of P119_LEGAL_TRANSITIONS s of None \<Rightarrow> [] | Some ts \<Rightarrow> ts)"

definition legal_transition :: "string \<Rightarrow> string \<Rightarrow> bool" where
  "legal_transition state_before state_after = (state_after \<in> set (p119_successors state_before))"

definition p119_terminal :: "string \<Rightarrow> bool" where
  "p119_terminal s = (s \<in> set P119_TERMINAL_STATES)"

lemma p119_table_facts:
  "list_all (\<lambda>(s, ts). s \<in> set P119_INCIDENT_STATES \<and> ts \<noteq> [] \<and> ''aborted_fail_closed'' \<in> set ts
      \<and> list_all (\<lambda>t. t \<in> set P119_INCIDENT_STATES) ts) P119_LEGAL_TRANSITIONS"
  "list_all (\<lambda>s. p119_terminal s \<longleftrightarrow> map_of P119_LEGAL_TRANSITIONS s = None) P119_INCIDENT_STATES"
  "set P119_TERMINAL_STATES \<subseteq> set P119_INCIDENT_STATES"
  by code_simp+

interpretation p119: transition_table p119_successors "\<lambda>s. s \<in> set P119_INCIDENT_STATES" p119_terminal
proof
  fix s t
  assume "t \<in> set (p119_successors s)"
  then obtain ts where "(s, ts) \<in> set P119_LEGAL_TRANSITIONS" "t \<in> set ts"
    by (cases "map_of P119_LEGAL_TRANSITIONS s") (auto simp: p119_successors_def dest: map_of_SomeD)
  then show "s \<in> set P119_INCIDENT_STATES \<and> t \<in> set P119_INCIDENT_STATES"
    using p119_table_facts(1) unfolding list_all_iff by fastforce
next
  fix s
  show "p119_terminal s \<Longrightarrow> s \<in> set P119_INCIDENT_STATES"
    using p119_table_facts(3) by (auto simp: p119_terminal_def)
  assume "s \<in> set P119_INCIDENT_STATES"
  then have "p119_terminal s \<longleftrightarrow> map_of P119_LEGAL_TRANSITIONS s = None"
    using p119_table_facts(2) unfolding list_all_iff by blast
  moreover have "map_of P119_LEGAL_TRANSITIONS s = Some ts \<Longrightarrow> ts \<noteq> []" for ts
    using p119_table_facts(1) map_of_SomeD unfolding list_all_iff by fastforce
  ultimately show "p119_terminal s \<longleftrightarrow> p119_successors s = []"
    by (auto simp: p119_successors_def split: option.splits)
qed

text \<open>Every state that is not terminal may be aborted.\<close>

lemma p119_abort_legal:
  assumes "s \<in> set P119_INCIDENT_STATES" and "\<not> p119_terminal s"
  shows "legal_transition s ''aborted_fail_closed''"
proof -
  obtain ts where "map_of P119_LEGAL_TRANSITIONS s = Some ts"
    using assms p119_table_facts(2) unfolding list_all_iff by auto
  moreover from this have "''aborted_fail_closed'' \<in> set ts"
    using p119_table_facts(1) map_of_SomeD unfolding list_all_iff by fastforce
  ultimately show ?thesis by (simp add: legal_transition_def p119_successors_def)
qed

lemma p119_zero_counters_valid: "p119_validate_zero_counters (PDict p119_zero_counters) = Inr p119_zero_counters"
  by code_simp

lemma p119_validate_zero_counters_result:
  assumes "p119_validate_zero_counters v = Inr cs"
  shows "cs = p119_zero_counters"
proof -
  from assms obtain d where "check_zero_counters p119_contract_error d P119_AUTHORITY_COUNTER_KEYS = Inr cs"
    by (auto simp: p119_validate_zero_counters_def split: pyval.splits list.splits)
  then show ?thesis unfolding p119_zero_counters_def by (blast dest: check_zero_counters_result)
qed

end
