(* ===== verification/P119_Ledger.thy ===== *)
theory P119_Ledger
  imports P119_Contract Shared_Log
begin

text \<open>
  The append-only incident ledger of \<open>app/services/p119_ledger.py\<close>: registration with idempotency
  keys that fails closed on a conflict, compare-and-swap transitions that fail closed when illegal,
  leases, replay, and the timeline of events each entry carries.  \<open>sha\<close> is SHA-256.
\<close>

section \<open>State, receipts, and append requests\<close>

definition p119_ledger_error :: "string \<Rightarrow> exn" where
  "p119_ledger_error m = Raised ''P119LedgerError'' m"

definition LEASE_REQUIRED_TO_ENTER :: "string list" where
  "LEASE_REQUIRED_TO_ENTER = [''local_execution_pending'', ''local_executing'', ''validating'',
     ''rollback_pending'', ''rolling_back'', ''learning'', ''recovered'', ''orphaned_recovered'']"

record p119_receipt =
  qr_receipt_type :: string
  qr_incident_id :: string
  qr_state :: string
  qr_cas_version :: int
  qr_wal_position :: int
  qr_receipt_hash :: string
  qr_previous_hash :: string
  qr_timeline_hash :: string
  qr_lease_owner_id :: "string option"

record p119_state =
  qs_incident_id :: string
  qs_alert_fingerprint :: string
  qs_fixture_id :: string
  qs_state :: string
  qs_cas_version :: int
  qs_idempotency_key :: string
  qs_payload_hash :: string
  qs_timeline_hash :: string
  qs_authority_counter_snapshot :: pydict
  qs_lease_owner_id :: "string option"
  qs_lease_expires_at :: "int option"

text \<open>The arguments of \<open>_append\<close>; \<open>None\<close> is the default of the optional ones.\<close>

record p119_append_args =
  qa_incident_id :: string
  qa_receipt_type :: string
  qa_state :: string
  qa_cas_version :: int
  qa_lease_owner_id :: "string option"
  qa_timeline_event_type :: string
  qa_payload :: pydict
  qa_expected_prior_cas :: "int option"
  qa_expected_prior_state :: "string option"
  qa_expected_lease_owner :: "string option"
  qa_expected_lease_expires_at :: "int option"
  qa_register :: "(string \<times> string) option"

definition p119_append_args_of ::
    "string \<Rightarrow> string \<Rightarrow> string \<Rightarrow> int \<Rightarrow> string option \<Rightarrow> string \<Rightarrow> pydict \<Rightarrow> p119_append_args" where
  "p119_append_args_of incident_id receipt_type state cas_version owner event_type payload =
     \<lparr>qa_incident_id = incident_id, qa_receipt_type = receipt_type, qa_state = state,
      qa_cas_version = cas_version, qa_lease_owner_id = owner, qa_timeline_event_type = event_type,
      qa_payload = payload, qa_expected_prior_cas = None, qa_expected_prior_state = None,
      qa_expected_lease_owner = None, qa_expected_lease_expires_at = None, qa_register = None\<rparr>"

definition owner_value :: "string option \<Rightarrow> pyval" where
  "owner_value w = (case w of None \<Rightarrow> PNone | Some t \<Rightarrow> PStr t)"

definition EVENT_TYPES_FOR :: "(string \<times> string) list" where
  "EVENT_TYPES_FOR =
     [(''triage_started'', ''triage_started''), (''diagnosing'', ''evidence_packet_bound''),
      (''evidence_acquiring'', ''evidence_acquisition_requested''), (''selection_pending'', ''decision_selected''),
      (''approval_pending'', ''approval_requested''), (''approved'', ''approval_granted''),
      (''local_execution_pending'', ''operation_enqueued''), (''local_executing'', ''local_action_attempted''),
      (''validating'', ''validation_started''), (''rollback_pending'', ''validation_failed''),
      (''rolling_back'', ''rollback_started''), (''learning'', ''learning_record_written''),
      (''recovered'', ''incident_terminalized''), (''escalated'', ''human_escalation_required''),
      (''expired'', ''incident_terminalized''), (''orphaned_recovered'', ''orphan_inventory_recorded''),
      (''aborted_fail_closed'', ''transition_rejected_fail_closed'')]"

definition event_type_for :: "string \<Rightarrow> string" where
  "event_type_for state =
     (case map_of EVENT_TYPES_FOR state of None \<Rightarrow> ''authority_counter_snapshot'' | Some t \<Rightarrow> t)"

section \<open>Replay\<close>

text \<open>
  The loop of this ledger's \<open>verify_hash_chain\<close>, which compares the stored hash as it is, where the
  other ledger compares its text.
\<close>

fun p119_verify_loop :: "(string \<Rightarrow> string) \<Rightarrow> nat \<Rightarrow> string \<Rightarrow> pydict list \<Rightarrow> bool result" where
  "p119_verify_loop sha index previous [] = Inr True"
| "p119_verify_loop sha index previous (e # es) =
     (if unhashable (pget e ''wal_position'') then Inl (Raised ''TypeError'' ''unhashable type'')
      else if seen_position index (pget e ''wal_position'') \<or> \<not> entry_pos_ok index e then Inr False
      else if \<not> py_eq (pget e ''previous_hash'') (PStr previous) then Inr False
      else if \<not> py_eq (pget e ''receipt_hash'') (PStr (entry_digest sha e)) then Inr False
      else rbind (pindex e ''receipt_hash'') (\<lambda>own. p119_verify_loop sha (Suc index) (py_str own) es))"

definition p119_verify_hash_chain :: "(string \<Rightarrow> string) \<Rightarrow> pydict list \<Rightarrow> bool result" where
  "p119_verify_hash_chain sha es = p119_verify_loop sha 0 '''' es"

definition p119_registered_state :: "string \<Rightarrow> pydict \<Rightarrow> pydict \<Rightarrow> p119_state result" where
  "p119_registered_state incident_id entry incident =
     rbind (pindex incident ''alert_fingerprint'') (\<lambda>fingerprint.
     rbind (pindex incident ''fixture_id'') (\<lambda>fixture.
     rbind (pindex entry ''state'') (\<lambda>state.
     rbind (pindex entry ''cas_version'') (\<lambda>cas. rbind (py_int cas) (\<lambda>cas_version.
     rbind (pindex incident ''idempotency_key'') (\<lambda>key.
     rbind (pindex incident ''payload_hash'') (\<lambda>hash.
     rbind (pindex entry ''timeline_hash'') (\<lambda>timeline.
     rbind (pindex incident ''authority_counter_snapshot'') (\<lambda>snapshot.
     rbind (py_dict snapshot) (\<lambda>counters.
     Inr \<lparr>qs_incident_id = incident_id, qs_alert_fingerprint = py_str fingerprint,
          qs_fixture_id = py_str fixture, qs_state = py_str state, qs_cas_version = cas_version,
          qs_idempotency_key = py_str key, qs_payload_hash = py_str hash,
          qs_timeline_hash = py_str timeline, qs_authority_counter_snapshot = counters,
          qs_lease_owner_id = None, qs_lease_expires_at = None\<rparr>))))))))))"

definition P119_STATE_RECEIPTS :: "string list" where
  "P119_STATE_RECEIPTS =
     [''state_transition'', ''illegal_transition_fail_closed'', ''idempotency_conflict_fail_closed'']"

definition p119_replay_apply ::
    "string \<Rightarrow> pydict \<Rightarrow> pyval \<Rightarrow> p119_state option \<Rightarrow> p119_state option result" where
  "p119_replay_apply incident_id entry receipt_type state =
    (let payload = as_dict (pget entry ''payload'') in
     if py_eq receipt_type (PStr ''incident_registered'')
     then rbind (p119_registered_state incident_id entry (as_dict (pget payload ''incident''))) (\<lambda>s. Inr (Some s))
     else (case state of
        None \<Rightarrow> Inr None
      | Some s \<Rightarrow>
          if unhashable receipt_type then Inl (Raised ''TypeError'' ''unhashable type'')
          else if list_ex (\<lambda>t. py_eq receipt_type (PStr t)) P119_STATE_RECEIPTS then
            rbind (pindex entry ''state'') (\<lambda>st.
            rbind (pindex entry ''cas_version'') (\<lambda>cas. rbind (py_int cas) (\<lambda>cas_version.
            rbind (pindex entry ''timeline_hash'') (\<lambda>timeline.
            Inr (Some (s\<lparr>qs_state := py_str st, qs_cas_version := cas_version,
                         qs_timeline_hash := py_str timeline\<rparr>))))))
          else if py_eq receipt_type (PStr ''lease_acquired'') then
            rbind (pindex entry ''timeline_hash'') (\<lambda>timeline.
            rbind (pindex entry ''lease_owner_id'') (\<lambda>owner.
            rbind (pindex payload ''lease_expires_at'') (\<lambda>expires. rbind (py_int expires) (\<lambda>expires_at.
            Inr (Some (s\<lparr>qs_timeline_hash := py_str timeline, qs_lease_owner_id := Some (py_str owner),
                         qs_lease_expires_at := Some expires_at\<rparr>))))))
          else Inr (Some s)))"

definition p119_replay_step :: "string \<Rightarrow> pydict \<Rightarrow> p119_state option \<Rightarrow> p119_state option result" where
  "p119_replay_step incident_id entry state =
     rbind (pindex entry ''incident_id'') (\<lambda>entry_incident.
     if \<not> py_eq entry_incident (PStr incident_id) then Inr state
     else rbind (pindex entry ''receipt_type'') (\<lambda>receipt_type.
       p119_replay_apply incident_id entry receipt_type state))"

fun p119_replay_loop :: "string \<Rightarrow> pydict list \<Rightarrow> p119_state option \<Rightarrow> p119_state option result" where
  "p119_replay_loop incident_id [] state = Inr state"
| "p119_replay_loop incident_id (e # es) state =
     rbind (p119_replay_step incident_id e state) (p119_replay_loop incident_id es)"

definition p119_replay :: "(string \<Rightarrow> string) \<Rightarrow> pydict list \<Rightarrow> string \<Rightarrow> p119_state result" where
  "p119_replay sha es incident_id =
     rbind (p119_verify_hash_chain sha es) (\<lambda>ok.
     if \<not> ok then Inl (p119_ledger_error ''wal_hash_chain_break'')
     else rbind (p119_replay_loop incident_id es None) (\<lambda>state.
       case state of None \<Rightarrow> Inl (p119_ledger_error ''unknown_incident'') | Some s \<Rightarrow> Inr s))"

section \<open>Append\<close>

fun p119_registered_under :: "string \<Rightarrow> pydict list \<Rightarrow> string list result" where
  "p119_registered_under key [] = Inr []"
| "p119_registered_under key (e # es) =
     rbind (pindex e ''receipt_type'') (\<lambda>receipt_type.
     rbind (if py_eq receipt_type (PStr ''incident_registered'')
            then rbind (pindex e ''payload'') (\<lambda>p.
                   if py_eq (pget (as_dict (pget (as_dict p) ''incident'')) ''idempotency_key'') (PStr key)
                   then rbind (pindex e ''incident_id'') (\<lambda>i. Inr [py_str i]) else Inr [])
            else Inr []) (\<lambda>here.
     rbind (p119_registered_under key es) (\<lambda>rest. Inr (here @ rest))))"

definition p119_state_by_idempotency_key ::
    "(string \<Rightarrow> string) \<Rightarrow> pydict list \<Rightarrow> string \<Rightarrow> p119_state option result" where
  "p119_state_by_idempotency_key sha es key =
     rbind (p119_registered_under key es) (\<lambda>ids.
     if ids = [] then Inr None
     else rbind (p119_replay sha es (last ids)) (\<lambda>s. Inr (Some s)))"

text \<open>A registration under a known key becomes a replay receipt, or an abort of the known incident.\<close>

definition p119_dedupe ::
    "(string \<Rightarrow> string) \<Rightarrow> pydict list \<Rightarrow> p119_append_args \<Rightarrow> p119_append_args result" where
  "p119_dedupe sha es a =
     (case qa_register a of
        None \<Rightarrow> Inr a
      | Some (key, hash) \<Rightarrow>
          rbind (p119_state_by_idempotency_key sha es key) (\<lambda>existing.
          case existing of
            None \<Rightarrow> Inr a
          | Some s \<Rightarrow>
              if qs_payload_hash s \<noteq> hash
              then Inr (a\<lparr>qa_incident_id := qs_incident_id s,
                          qa_receipt_type := ''idempotency_conflict_fail_closed'',
                          qa_state := ''aborted_fail_closed'', qa_cas_version := qs_cas_version s + 1,
                          qa_lease_owner_id := qs_lease_owner_id s,
                          qa_timeline_event_type := ''transition_rejected_fail_closed'',
                          qa_payload := [(''reason'', PStr ''idempotency_key_payload_mismatch'')]\<rparr>)
              else Inr (a\<lparr>qa_incident_id := qs_incident_id s, qa_receipt_type := ''idempotent_replay'',
                          qa_state := qs_state s, qa_cas_version := qs_cas_version s,
                          qa_lease_owner_id := qs_lease_owner_id s,
                          qa_timeline_event_type := ''dedupe_or_correlation_decision'',
                          qa_payload := [(''reason'', PStr ''duplicate_idempotency_key'')]\<rparr>)))"

text \<open>The compare-and-swap; its value is \<open>state_before\<close>.\<close>

definition p119_check_cas :: "(string \<Rightarrow> string) \<Rightarrow> pydict list \<Rightarrow> p119_append_args \<Rightarrow> string result" where
  "p119_check_cas sha es a =
     (case qa_expected_prior_cas a of
        None \<Rightarrow> Inr (qa_state a)
      | Some cas \<Rightarrow>
          rbind (p119_replay sha es (qa_incident_id a)) (\<lambda>current.
          rbind (rguard (qs_cas_version current \<noteq> cas) (p119_ledger_error ''cas_conflict'')) (\<lambda>_.
          rbind (rguard (case qa_expected_prior_state a of None \<Rightarrow> False | Some st \<Rightarrow> qs_state current \<noteq> st)
                   (p119_ledger_error ''state_changed_during_cas'')) (\<lambda>_.
          Inr (qs_state current)))))"

definition p119_check_lease :: "(string \<Rightarrow> string) \<Rightarrow> pydict list \<Rightarrow> p119_append_args \<Rightarrow> unit result" where
  "p119_check_lease sha es a =
     (if qa_expected_lease_owner a = None \<and> qa_expected_lease_expires_at a = None then Inr ()
      else rbind (p119_replay sha es (qa_incident_id a)) (\<lambda>current.
        rguard (qs_lease_owner_id current \<noteq> qa_expected_lease_owner a
                \<or> qs_lease_expires_at current \<noteq> qa_expected_lease_expires_at a)
          (p119_ledger_error ''lease_changed_during_acquire'')))"

definition previous_timeline_hash :: "pydict list \<Rightarrow> string result" where
  "previous_timeline_hash es = (if es = [] then Inr '''' else
     rbind (pindex (last es) ''timeline_hash'') (\<lambda>v. Inr (py_str v)))"

definition p119_timeline_event ::
    "(string \<Rightarrow> string) \<Rightarrow> pydict list \<Rightarrow> string \<Rightarrow> string \<Rightarrow> p119_append_args \<Rightarrow> pydict result" where
  "p119_timeline_event sha es previous state_before a =
     build_timeline_event sha (qa_incident_id a) (qa_timeline_event_type a) state_before (qa_state a)
       (int (length es)) ''p119_local_contract'' (qa_payload a) previous
       [(''receipt_count'', PInt (int (length es) + 1))] p119_zero_counters"

definition p119_entry_body :: "p119_append_args \<Rightarrow> pydict \<Rightarrow> pydict" where
  "p119_entry_body a event =
     [(''incident_id'', PStr (qa_incident_id a)), (''receipt_type'', PStr (qa_receipt_type a)),
      (''state'', PStr (qa_state a)), (''cas_version'', PInt (qa_cas_version a)),
      (''lease_owner_id'', owner_value (qa_lease_owner_id a)),
      (''authority_counter_snapshot'', PDict p119_zero_counters),
      (''timeline_hash'', pget event ''current_hash''), (''timeline_event'', PDict event),
      (''payload'', PDict (qa_payload a))]"

text \<open>Everything \<open>_append\<close> computes under the lock, from the entries it has just loaded.\<close>

definition p119_plan_entry :: "(string \<Rightarrow> string) \<Rightarrow> p119_append_args \<Rightarrow> pydict list \<Rightarrow> pydict result" where
  "p119_plan_entry sha a es =
     rbind (p119_verify_hash_chain sha es) (\<lambda>ok.
     if \<not> ok then Inl (p119_ledger_error ''wal_hash_chain_break'')
     else rbind (p119_dedupe sha es a) (\<lambda>a'.
       rbind (p119_check_cas sha es a') (\<lambda>state_before.
       rbind (p119_check_lease sha es a') (\<lambda>_.
       rbind (previous_hash es) (\<lambda>previous.
       rbind (previous_timeline_hash es) (\<lambda>previous_timeline.
       rbind (p119_timeline_event sha es previous_timeline state_before a') (\<lambda>event.
       Inr (seal_entry sha es previous (p119_entry_body a' event)))))))))"

text \<open>
  \<open>_append\<close> raises after the write when deduplication turned the request into an abort
  (\<open>raise_after_append\<close>), which is when the entry it wrote has that receipt type.
\<close>

definition p119_append :: "(string \<Rightarrow> string) \<Rightarrow> p119_append_args \<Rightarrow> (wal_store, pydict) op" where
  "p119_append sha a =
     op_bind (wal_append (p119_ledger_error ''invalid_wal_entry'') (p119_plan_entry sha a)) (\<lambda>e.
       if pget e ''receipt_type'' = PStr ''idempotency_conflict_fail_closed''
       then op_raise (p119_ledger_error ''idempotency_key_payload_mismatch'') else op_return e)"

definition p119_receipt_from_entry :: "pydict \<Rightarrow> p119_receipt result" where
  "p119_receipt_from_entry e =
     rbind (pindex e ''receipt_type'') (\<lambda>t. rbind (pindex e ''incident_id'') (\<lambda>i.
     rbind (pindex e ''state'') (\<lambda>s. rbind (pindex e ''cas_version'') (\<lambda>c. rbind (py_int c) (\<lambda>cas.
     rbind (pindex e ''wal_position'') (\<lambda>w. rbind (py_int w) (\<lambda>pos.
     rbind (pindex e ''receipt_hash'') (\<lambda>h. rbind (pindex e ''previous_hash'') (\<lambda>p.
     rbind (pindex e ''timeline_hash'') (\<lambda>tl.
     Inr \<lparr>qr_receipt_type = py_str t, qr_incident_id = py_str i, qr_state = py_str s,
          qr_cas_version = cas, qr_wal_position = pos, qr_receipt_hash = py_str h,
          qr_previous_hash = py_str p, qr_timeline_hash = py_str tl,
          qr_lease_owner_id = (if pget e ''lease_owner_id'' \<noteq> PNone
                               then Some (py_str (pget e ''lease_owner_id'')) else None)\<rparr>))))))))))"

definition p119_append_receipt :: "(string \<Rightarrow> string) \<Rightarrow> p119_append_args \<Rightarrow> (wal_store, p119_receipt) op" where
  "p119_append_receipt sha a = op_bind (p119_append sha a) (\<lambda>e. op_lift (p119_receipt_from_entry e))"

section \<open>Operations of the store\<close>

definition p119_open :: "wal_line list \<Rightarrow> wal_store result" where
  "p119_open ls =
     rbind (load_entries (p119_ledger_error ''invalid_wal_entry'') ls) (\<lambda>es.
     Inr \<lparr>ws_file = ls, ws_entries = es\<rparr>)"

text \<open>The arguments with which \<open>register_incident\<close> calls \<open>_append\<close>.\<close>

definition p119_registration :: "p119_envelope \<Rightarrow> p119_append_args result" where
  "p119_registration incident =
     (let payload = ie_payload incident in
      rbind (pindex payload ''state'') (\<lambda>state.
      rbind (pindex payload ''cas_version'') (\<lambda>cas. rbind (py_int cas) (\<lambda>cas_version.
      rbind (pindex payload ''idempotency_key'') (\<lambda>key.
      rbind (pindex payload ''payload_hash'') (\<lambda>hash.
      Inr ((p119_append_args_of (ie_incident_id incident) ''incident_registered'' (py_str state) cas_version
              None ''incident_detected'' [(''incident'', PDict payload)])
           \<lparr>qa_register := Some (py_str key, py_str hash)\<rparr>)))))))"

definition p119_register_incident :: "(string \<Rightarrow> string) \<Rightarrow> p119_envelope \<Rightarrow> (wal_store, p119_receipt) op" where
  "p119_register_incident sha incident =
     op_bind (op_lift (p119_registration incident)) (p119_append_receipt sha)"

text \<open>The arguments with which \<open>transition\<close> and \<open>acquire_lease\<close> call \<open>_append\<close>.\<close>

definition p119_abort_args :: "string \<Rightarrow> string \<Rightarrow> int \<Rightarrow> p119_state \<Rightarrow> p119_append_args" where
  "p119_abort_args incident_id next_state expected_cas_version s =
     (p119_append_args_of incident_id ''illegal_transition_fail_closed'' ''aborted_fail_closed''
        (qs_cas_version s + 1) (qs_lease_owner_id s) ''transition_rejected_fail_closed''
        [(''from_state'', PStr (qs_state s)), (''attempted_state'', PStr next_state),
         (''reason'', PStr ''illegal_state_transition'')])
     \<lparr>qa_expected_prior_cas := Some expected_cas_version, qa_expected_prior_state := Some (qs_state s)\<rparr>"

definition p119_transition_args :: "string \<Rightarrow> string \<Rightarrow> int \<Rightarrow> string \<Rightarrow> p119_state \<Rightarrow> p119_append_args" where
  "p119_transition_args incident_id next_state expected_cas_version reason s =
     (p119_append_args_of incident_id ''state_transition'' next_state (qs_cas_version s + 1)
        (qs_lease_owner_id s) (event_type_for next_state)
        [(''from_state'', PStr (qs_state s)), (''to_state'', PStr next_state), (''reason'', PStr reason)])
     \<lparr>qa_expected_prior_cas := Some expected_cas_version, qa_expected_prior_state := Some (qs_state s)\<rparr>"

definition p119_lease_args :: "string \<Rightarrow> string \<Rightarrow> int \<Rightarrow> p119_state \<Rightarrow> p119_append_args" where
  "p119_lease_args incident_id owner_id expires_at s =
     (p119_append_args_of incident_id ''lease_acquired'' (qs_state s) (qs_cas_version s) (Some owner_id)
        ''lease_acquired'' [(''owner_id'', PStr owner_id), (''lease_expires_at'', PInt expires_at)])
     \<lparr>qa_expected_lease_owner := qs_lease_owner_id s, qa_expected_lease_expires_at := qs_lease_expires_at s\<rparr>"

definition p119_transition ::
    "(string \<Rightarrow> string) \<Rightarrow> string \<Rightarrow> string \<Rightarrow> int \<Rightarrow> string option \<Rightarrow> string \<Rightarrow> (wal_store, p119_receipt) op" where
  "p119_transition sha incident_id next_state expected_cas_version lease_owner_id reason st =
     (case p119_replay sha (ws_entries st) incident_id of
        Inl x \<Rightarrow> (st, Inl x)
      | Inr s \<Rightarrow>
          if p119_terminal (qs_state s) then (st, Inl (p119_ledger_error ''terminal_state_reopened''))
          else if expected_cas_version \<noteq> qs_cas_version s then (st, Inl (p119_ledger_error ''cas_conflict''))
          else if \<not> legal_transition (qs_state s) next_state
          then op_bind (p119_append sha (p119_abort_args incident_id next_state expected_cas_version s))
                 (\<lambda>_. op_raise (p119_ledger_error ''illegal_state_transition'')) st
          else if next_state \<in> set LEASE_REQUIRED_TO_ENTER
                  \<and> (lease_owner_id \<in> {None, Some ''''} \<or> qs_lease_owner_id s \<noteq> lease_owner_id)
          then (st, Inl (p119_ledger_error ''lease_owner_mismatch''))
          else p119_append_receipt sha
                 (p119_transition_args incident_id next_state expected_cas_version reason s) st)"

definition p119_lease_live :: "p119_state \<Rightarrow> int \<Rightarrow> string \<Rightarrow> bool" where
  "p119_lease_live s now owner_id =
     (case (qs_lease_owner_id s, qs_lease_expires_at s) of
        (Some w, Some t) \<Rightarrow> w \<noteq> [] \<and> t > now \<and> w \<noteq> owner_id
      | _ \<Rightarrow> False)"

definition p119_acquire_lease ::
    "(string \<Rightarrow> string) \<Rightarrow> string \<Rightarrow> string \<Rightarrow> int \<Rightarrow> int \<Rightarrow> (wal_store, p119_receipt) op" where
  "p119_acquire_lease sha incident_id owner_id now ttl st =
     (if owner_id = [] then (st, Inl (p119_ledger_error ''missing_lease_owner''))
      else case p119_replay sha (ws_entries st) incident_id of
        Inl x \<Rightarrow> (st, Inl x)
      | Inr s \<Rightarrow>
          if p119_lease_live s now owner_id then (st, Inl (p119_ledger_error ''lease_split_brain''))
          else p119_append_receipt sha (p119_lease_args incident_id owner_id (now + ttl) s) st)"

section \<open>What appended entries mean\<close>

text \<open>The two ledgers verify alike.\<close>

lemma p119_verify_loop_eq: "p119_verify_loop sha n h es = verify_loop sha n h es"
proof (induction es arbitrary: n h)
  case Nil
  then show ?case by simp
next
  case (Cons e es)
  have test: "py_eq (pget e ''receipt_hash'') (PStr (entry_digest sha e)) \<longleftrightarrow> entry_sealed sha e"
    by (simp add: py_eq_str_iff entry_sealed_def)
  show ?case
  proof (cases "entry_sealed sha e")
    case True
    then have "pindex e ''receipt_hash'' = Inr (PStr (entry_digest sha e))"
      by (auto simp: entry_sealed_def pget_def pindex_def split: option.splits)
    moreover have "py_str (pget_or e ''receipt_hash'' (PStr '''')) = entry_digest sha e"
      unfolding entry_hash_test by (rule True)
    ultimately show ?thesis using Cons True test by (simp add: Let_def)
  next
    case False
    with test show ?thesis by (simp add: Let_def entry_hash_test)
  qed
qed

lemma p119_verify_eq: "p119_verify_hash_chain sha es = verify_hash_chain sha es"
  by (simp add: p119_verify_hash_chain_def verify_hash_chain_def p119_verify_loop_eq)

lemma p119_replay_loop_snoc:
  "p119_replay_loop i (es @ [e]) st = rbind (p119_replay_loop i es st) (p119_replay_step i e)"
proof (induction es arbitrary: st)
  case Nil
  then show ?case by (cases "p119_replay_step i e st") simp_all
next
  case (Cons d es)
  then show ?case by (cases "p119_replay_step i d st") simp_all
qed

lemma p119_sealed_index [simp]:
  "pindex (seal_entry sha es h (p119_entry_body a ev)) ''incident_id'' = Inr (PStr (qa_incident_id a))"
  "pindex (seal_entry sha es h (p119_entry_body a ev)) ''receipt_type'' = Inr (PStr (qa_receipt_type a))"
  "pindex (seal_entry sha es h (p119_entry_body a ev)) ''state'' = Inr (PStr (qa_state a))"
  "pindex (seal_entry sha es h (p119_entry_body a ev)) ''cas_version'' = Inr (PInt (qa_cas_version a))"
  "pindex (seal_entry sha es h (p119_entry_body a ev)) ''lease_owner_id'' = Inr (owner_value (qa_lease_owner_id a))"
  "pindex (seal_entry sha es h (p119_entry_body a ev)) ''timeline_hash'' = Inr (pget ev ''current_hash'')"
  "pget (seal_entry sha es h (p119_entry_body a ev)) ''payload'' = PDict (qa_payload a)"
  "pget (seal_entry sha es h (p119_entry_body a ev)) ''receipt_type'' = PStr (qa_receipt_type a)"
  "pget (seal_entry sha es h (p119_entry_body a ev)) ''lease_owner_id'' = owner_value (qa_lease_owner_id a)"
  "pget (seal_entry sha es h (p119_entry_body a ev)) ''incident_id'' = PStr (qa_incident_id a)"
  "pget (seal_entry sha es h (p119_entry_body a ev)) ''state'' = PStr (qa_state a)"
  "pget (seal_entry sha es h (p119_entry_body a ev)) ''cas_version'' = PInt (qa_cas_version a)"
  "pget (seal_entry sha es h (p119_entry_body a ev)) ''timeline_event'' = PDict ev"
  "pget (seal_entry sha es h (p119_entry_body a ev)) ''timeline_hash'' = pget ev ''current_hash''"
  "pindex (seal_entry sha es h (p119_entry_body a ev)) ''wal_position'' = Inr (PInt (int (length es)))"
  "pindex (seal_entry sha es h (p119_entry_body a ev)) ''previous_hash'' = Inr (PStr h)"
  by (simp_all add: seal_entry_def p119_entry_body_def Let_def)

lemma p119_body_no_hash [simp]: "\<not> phas (p119_entry_body a ev) ''receipt_hash''"
  by (simp add: p119_entry_body_def)

text \<open>The effect of one appended entry on the replay of incident \<open>i\<close>.\<close>

lemma p119_step_sealed:
  "p119_replay_step i (seal_entry sha es h (p119_entry_body a ev)) st =
     (if qa_incident_id a \<noteq> i then Inr st
      else if qa_receipt_type a = ''incident_registered''
      then rbind (p119_registered_state i (seal_entry sha es h (p119_entry_body a ev))
                   (as_dict (pget (qa_payload a) ''incident''))) (\<lambda>s. Inr (Some s))
      else (case st of
         None \<Rightarrow> Inr None
       | Some s \<Rightarrow>
           if qa_receipt_type a \<in> set P119_STATE_RECEIPTS then
             Inr (Some (s\<lparr>qs_state := qa_state a, qs_cas_version := qa_cas_version a,
                          qs_timeline_hash := py_str (pget ev ''current_hash'')\<rparr>))
           else if qa_receipt_type a = ''lease_acquired'' then
             rbind (pindex (qa_payload a) ''lease_expires_at'') (\<lambda>v. rbind (py_int v) (\<lambda>t.
             Inr (Some (s\<lparr>qs_timeline_hash := py_str (pget ev ''current_hash''),
                          qs_lease_owner_id := Some (py_str (owner_value (qa_lease_owner_id a))),
                          qs_lease_expires_at := Some t\<rparr>))))
           else Inr (Some s)))"
proof (cases "qa_incident_id a = i \<and> qa_receipt_type a \<noteq> ''incident_registered''")
  case True
  then show ?thesis
    by (cases st) (auto simp: p119_replay_step_def p119_replay_apply_def Let_def list_ex_iff)
qed (auto simp: p119_replay_step_def p119_replay_apply_def)

section \<open>Abstract specification of the log\<close>

text \<open>
  The events that may follow a log, with the state before them: a first registration, a repeated
  one, a conflicting one (which aborts the incident), a rejected transition (which aborts it too), a
  legal transition, and a lease.  A transition or a lease may have been decided on a prefix of the
  log; what \<open>_append\<close> checks again ties that prefix to the whole log.
\<close>

inductive p119_event :: "(string \<Rightarrow> string) \<Rightarrow> pydict list \<Rightarrow> string \<Rightarrow> p119_append_args \<Rightarrow> bool" for sha es where
  register: "build_incident_envelope sha data = Inr env \<Longrightarrow> p119_registration env = Inr a \<Longrightarrow>
     qa_register a = Some (key, hash) \<Longrightarrow> p119_registered_under key es = Inr [] \<Longrightarrow>
     p119_event sha es (qa_state a) a"
| duplicate: "qa_receipt_type a = ''idempotent_replay'' \<Longrightarrow>
     p119_replay sha es (qa_incident_id a) = Inr s \<Longrightarrow> qa_state a = qs_state s \<Longrightarrow>
     qa_cas_version a = qs_cas_version s \<Longrightarrow> p119_event sha es (qs_state s) a"
| conflict: "qa_receipt_type a = ''idempotency_conflict_fail_closed'' \<Longrightarrow>
     p119_replay sha es (qa_incident_id a) = Inr s \<Longrightarrow> qa_state a = ''aborted_fail_closed'' \<Longrightarrow>
     qa_cas_version a = qs_cas_version s + 1 \<Longrightarrow> p119_event sha es ''aborted_fail_closed'' a"
| illegal: "qa_receipt_type a = ''illegal_transition_fail_closed'' \<Longrightarrow>
     p119_replay sha es (qa_incident_id a) = Inr s \<Longrightarrow> \<not> p119_terminal (qs_state s) \<Longrightarrow>
     qa_state a = ''aborted_fail_closed'' \<Longrightarrow> qa_cas_version a = qs_cas_version s + 1 \<Longrightarrow>
     p119_event sha es (qs_state s) a"
| transition: "qa_receipt_type a = ''state_transition'' \<Longrightarrow>
     p119_replay sha es (qa_incident_id a) = Inr s \<Longrightarrow> \<not> p119_terminal (qs_state s) \<Longrightarrow>
     legal_transition (qs_state s) (qa_state a) \<Longrightarrow> qa_cas_version a = qs_cas_version s + 1 \<Longrightarrow>
     p119_replay sha (take k es) (qa_incident_id a) = Inr c \<Longrightarrow>
     qs_state c = qs_state s \<Longrightarrow> qs_cas_version c = qs_cas_version s \<Longrightarrow>
     qa_lease_owner_id a = qs_lease_owner_id c \<Longrightarrow>
     (qa_state a \<in> set LEASE_REQUIRED_TO_ENTER \<Longrightarrow> qs_lease_owner_id c \<notin> {None, Some ''''}) \<Longrightarrow>
     p119_event sha es (qs_state s) a"
| lease: "qa_receipt_type a = ''lease_acquired'' \<Longrightarrow> qa_lease_owner_id a = Some w \<Longrightarrow> w \<noteq> [] \<Longrightarrow>
     qa_payload a = [(''owner_id'', PStr w), (''lease_expires_at'', PInt t)] \<Longrightarrow>
     p119_replay sha (take k es) (qa_incident_id a) = Inr c \<Longrightarrow>
     (qs_lease_expires_at c \<noteq> None \<Longrightarrow> \<exists>s. p119_replay sha es (qa_incident_id a) = Inr s
        \<and> qs_lease_owner_id s = qs_lease_owner_id c \<and> qs_lease_expires_at s = qs_lease_expires_at c) \<Longrightarrow>
     p119_event sha es (qa_state a) a"

definition p119_allowed :: "(string \<Rightarrow> string) \<Rightarrow> pydict list \<Rightarrow> pydict \<Rightarrow> bool" where
  "p119_allowed sha es body \<longleftrightarrow> (\<exists>before a tl ev. p119_event sha es before a
     \<and> previous_timeline_hash es = Inr tl \<and> p119_timeline_event sha es tl before a = Inr ev
     \<and> body = p119_entry_body a ev)"

abbreviation p119_log :: "(string \<Rightarrow> string) \<Rightarrow> pydict list \<Rightarrow> bool" where
  "p119_log sha \<equiv> wal_log sha (p119_allowed sha)"

abbreviation p119_load :: "wal_line list \<Rightarrow> pydict list result" where
  "p119_load \<equiv> load_entries (p119_ledger_error ''invalid_wal_entry'')"

abbreviation p119_extends :: "(string \<Rightarrow> string) \<Rightarrow> pydict list \<Rightarrow> wal_store \<Rightarrow> wal_store \<Rightarrow> bool" where
  "p119_extends sha \<equiv> log_extends (p119_ledger_error ''invalid_wal_entry'') (p119_log sha)"

lemma p119_log_valid: "p119_log sha es \<Longrightarrow> wal_valid sha es"
  by (erule wal_log_valid) (auto simp: p119_allowed_def)

lemma p119_replay_Inr_iff:
  "wal_valid sha es \<Longrightarrow> p119_replay sha es i = Inr s \<longleftrightarrow> p119_replay_loop i es None = Inr (Some s)"
  by (auto simp: p119_replay_def p119_verify_eq rbind_Inr_iff split: option.splits)

section \<open>Registered envelopes\<close>

definition p119_payload :: "string \<Rightarrow> string \<Rightarrow> string \<Rightarrow> string \<Rightarrow> pyval \<Rightarrow> int \<Rightarrow> int \<Rightarrow> string \<Rightarrow> pydict \<Rightarrow> string
    \<Rightarrow> string list \<Rightarrow> string \<Rightarrow> pydict" where
  "p119_payload i f x st ts w c k b tm rs h =
     [(''incident_id'', PStr i), (''schema_version'', PStr P119_INCIDENT_SCHEMA_VERSION),
      (''alert_fingerprint'', PStr f), (''fixture_id'', PStr x), (''state'', PStr st),
      (''terminal_status'', ts), (''wal_position'', PInt w), (''cas_version'', PInt c),
      (''idempotency_key'', PStr k), (''budget_snapshot'', PDict b), (''timeline_hash'', PStr tm),
      (''replay_refs'', PList (map PStr rs)), (''authority_counter_snapshot'', PDict p119_zero_counters),
      (''payload_hash'', PStr h)]"

lemma p119_payload_index:
  "pindex (p119_payload i f x st ts w c k b tm rs h) ''alert_fingerprint'' = Inr (PStr f)"
  "pindex (p119_payload i f x st ts w c k b tm rs h) ''fixture_id'' = Inr (PStr x)"
  "pindex (p119_payload i f x st ts w c k b tm rs h) ''state'' = Inr (PStr st)"
  "pindex (p119_payload i f x st ts w c k b tm rs h) ''cas_version'' = Inr (PInt c)"
  "pindex (p119_payload i f x st ts w c k b tm rs h) ''idempotency_key'' = Inr (PStr k)"
  "pindex (p119_payload i f x st ts w c k b tm rs h) ''payload_hash'' = Inr (PStr h)"
  "pindex (p119_payload i f x st ts w c k b tm rs h) ''authority_counter_snapshot'' = Inr (PDict p119_zero_counters)"
  by (simp_all add: p119_payload_def)

lemma p119_state_name_Inr: "p119_state_name v = Inr s \<Longrightarrow> s \<in> set P119_INCIDENT_STATES"
  by (auto simp: p119_state_name_def split: pyval.splits if_splits)

lemma p119_non_negative_int_Inr: "p119_non_negative_int v e = Inr n \<Longrightarrow> 0 \<le> n"
  by (auto simp: p119_non_negative_int_def split: option.splits if_splits)

lemma p119_envelope_shape:
  assumes "build_incident_envelope sha data = Inr env"
  obtains i f x st ts w c k b tm rs h where "ie_incident_id env = i"
    "ie_payload env = p119_payload i f x st ts w c k b tm rs h" "st \<in> set P119_INCIDENT_STATES" "0 \<le> c"
proof (cases "missing_field data P119_REQUIRED_FIELDS")
  case None
  from assms show ?thesis
    unfolding build_incident_envelope_def None option.case Let_def
  proof (elim rbind_InrE, goal_cases)
    case (1 x1 x2 i st x3 f x w c b rs counters k tm)
    then have "counters = p119_zero_counters" by (blast dest: p119_validate_zero_counters_result)
    moreover have "st \<in> set P119_INCIDENT_STATES" using 1 by (blast dest: p119_state_name_Inr)
    moreover have "0 \<le> c" using 1 by (blast dest: p119_non_negative_int_Inr)
    moreover note 1(15)
    ultimately show ?thesis
      by (intro that [of i f x st "pget data ''terminal_status''" w c k "plain_mapping b" tm
            "sort (map py_str rs)"])
         (auto simp only: p119_payload_def sum.inject p119_envelope.select_convs append.simps)
  qed
qed (use assms in \<open>simp add: build_incident_envelope_def\<close>)

text \<open>What a built envelope is registered as.\<close>

lemma p119_registration_built:
  assumes "build_incident_envelope sha data = Inr env"
  obtains a key hash f x st c where "p119_registration env = Inr a" "qa_register a = Some (key, hash)"
    "qa_incident_id a = ie_incident_id env" "qa_receipt_type a = ''incident_registered''"
    "qa_state a = st" "st \<in> set P119_INCIDENT_STATES" "qa_cas_version a = c" "0 \<le> c"
    "qa_payload a = [(''incident'', PDict (ie_payload env))]" "qa_lease_owner_id a = None"
    "qa_expected_prior_cas a = None" "qa_expected_lease_owner a = None" "qa_expected_lease_expires_at a = None"
    "pget (ie_payload env) ''idempotency_key'' = PStr key"
    "\<And>i es h ev. p119_registered_state i (seal_entry sha es h (p119_entry_body a ev)) (ie_payload env) =
       Inr \<lparr>qs_incident_id = i, qs_alert_fingerprint = f, qs_fixture_id = x, qs_state = st, qs_cas_version = c,
            qs_idempotency_key = key, qs_payload_hash = hash, qs_timeline_hash = py_str (pget ev ''current_hash''),
            qs_authority_counter_snapshot = p119_zero_counters, qs_lease_owner_id = None,
            qs_lease_expires_at = None\<rparr>"
proof -
  obtain i f x st ts w c k b tm rs h where
    env: "ie_incident_id env = i" "ie_payload env = p119_payload i f x st ts w c k b tm rs h"
    and st: "st \<in> set P119_INCIDENT_STATES" "0 \<le> c"
    by (rule p119_envelope_shape [OF assms])
  note ix = p119_payload_index [of i f x st ts w c k b tm rs h, folded env(2)]
  show ?thesis
  proof (rule that [where key = k and hash = h and f = f and x = x and st = st and c = c])
    show "p119_registration env = Inr ((p119_append_args_of (ie_incident_id env) ''incident_registered'' st c
        None ''incident_detected'' [(''incident'', PDict (ie_payload env))])\<lparr>qa_register := Some (k, h)\<rparr>)"
      by (simp add: p119_registration_def ix)
  qed (use st in \<open>simp_all add: p119_append_args_of_def p119_registered_state_def ix,
      simp_all add: env p119_payload_def\<close>)
qed

lemma p119_registration_keys:
  assumes "build_incident_envelope sha data = Inr env" and "pget (ie_payload env) ''idempotency_key'' = PStr key"
  shows "\<exists>a hash. p119_registration env = Inr a \<and> qa_register a = Some (key, hash)
     \<and> pget (ie_payload env) ''payload_hash'' = PStr hash \<and> qa_expected_prior_cas a = None
     \<and> qa_expected_lease_owner a = None \<and> qa_expected_lease_expires_at a = None"
proof -
  obtain i f x st ts w c k b tm rs h where
    env: "ie_payload env = p119_payload i f x st ts w c k b tm rs h" by (rule p119_envelope_shape [OF assms(1)])
  note ix = p119_payload_index [of i f x st ts w c k b tm rs h, folded env]
  have "k = key" "pget (ie_payload env) ''payload_hash'' = PStr h"
    using assms(2) by (simp_all add: env p119_payload_def)
  then show ?thesis by (simp add: p119_registration_def ix p119_append_args_of_def)
qed

section \<open>One append\<close>

lemma p119_append_store: "fst (p119_append sha a st) =
    fst (wal_append (p119_ledger_error ''invalid_wal_entry'') (p119_plan_entry sha a) st)"
  by (simp add: p119_append_def op_bind_def split: prod.splits sum.splits)

lemma p119_append_receipt_store: "fst (p119_append_receipt sha a st) = fst (p119_append sha a st)"
  by (simp add: p119_append_receipt_def op_bind_def split: prod.splits sum.splits)

lemma p119_plan_cases:
  assumes "p119_plan_entry sha a es = Inr e"
  obtains a' before h tm ev where "wal_valid sha es" "p119_dedupe sha es a = Inr a'"
    "p119_check_cas sha es a' = Inr before" "p119_check_lease sha es a' = Inr ()" "previous_hash es = Inr h"
    "previous_timeline_hash es = Inr tm" "p119_timeline_event sha es tm before a' = Inr ev"
    "e = seal_entry sha es h (p119_entry_body a' ev)"
  using assms
  by (auto simp: p119_plan_entry_def p119_verify_eq verify_iff rbind_Inr_iff split: if_splits)

lemma p119_dedupe_cases:
  assumes "p119_dedupe sha es a = Inr a'"
  obtains (plain) "qa_register a = None" "a' = a"
  | (first) key hash where "qa_register a = Some (key, hash)" "p119_registered_under key es = Inr []" "a' = a"
  | (again) key hash ids s where "qa_register a = Some (key, hash)"
      "p119_registered_under key es = Inr ids" "ids \<noteq> []" "p119_replay sha es (last ids) = Inr s"
      "qs_payload_hash s = hash"
      "a' = a\<lparr>qa_incident_id := qs_incident_id s, qa_receipt_type := ''idempotent_replay'',
              qa_state := qs_state s, qa_cas_version := qs_cas_version s,
              qa_lease_owner_id := qs_lease_owner_id s,
              qa_timeline_event_type := ''dedupe_or_correlation_decision'',
              qa_payload := [(''reason'', PStr ''duplicate_idempotency_key'')]\<rparr>"
  | (conflict) key hash ids s where "qa_register a = Some (key, hash)"
      "p119_registered_under key es = Inr ids" "ids \<noteq> []" "p119_replay sha es (last ids) = Inr s"
      "qs_payload_hash s \<noteq> hash"
      "a' = a\<lparr>qa_incident_id := qs_incident_id s, qa_receipt_type := ''idempotency_conflict_fail_closed'',
              qa_state := ''aborted_fail_closed'', qa_cas_version := qs_cas_version s + 1,
              qa_lease_owner_id := qs_lease_owner_id s,
              qa_timeline_event_type := ''transition_rejected_fail_closed'',
              qa_payload := [(''reason'', PStr ''idempotency_key_payload_mismatch'')]\<rparr>"
proof (cases "qa_register a")
  case None
  with assms show ?thesis by (intro plain) (auto simp: p119_dedupe_def)
next
  case (Some kh)
  then obtain key hash where kh: "qa_register a = Some (key, hash)" by (cases kh) auto
  with assms obtain ids where ids: "p119_registered_under key es = Inr ids"
    by (auto simp: p119_dedupe_def p119_state_by_idempotency_key_def rbind_Inr_iff)
  show ?thesis
  proof (cases "ids = []")
    case True
    with assms kh ids show ?thesis
      by (intro first) (auto simp: p119_dedupe_def p119_state_by_idempotency_key_def)
  next
    case False
    with assms kh ids obtain s where s: "p119_replay sha es (last ids) = Inr s"
      by (auto simp: p119_dedupe_def p119_state_by_idempotency_key_def rbind_Inr_iff)
    show ?thesis
      using assms kh ids False s
      by (cases "qs_payload_hash s = hash")
         (auto simp: p119_dedupe_def p119_state_by_idempotency_key_def intro: again conflict)
  qed
qed

lemma p119_replay_incident_id: "p119_replay sha es i = Inr s \<Longrightarrow> qs_incident_id s = i"
proof -
  define fit :: "p119_state option \<Rightarrow> bool"
    where "fit = (\<lambda>st. case st of None \<Rightarrow> True | Some s \<Rightarrow> qs_incident_id s = i)"
  have reg: "p119_registered_state j e p = Inr s \<Longrightarrow> qs_incident_id s = j" for j e p s
    by (auto simp: p119_registered_state_def rbind_Inr_iff)
  have app: "p119_replay_apply i e rt st = Inr st' \<Longrightarrow> fit st \<Longrightarrow> fit st'" for e rt st st'
    by (cases st) (auto simp: p119_replay_apply_def fit_def Let_def rbind_Inr_iff dest: reg split: if_splits)
  have step: "p119_replay_step i e st = Inr st' \<Longrightarrow> fit st \<Longrightarrow> fit st'" for e st st'
    by (auto simp: p119_replay_step_def rbind_Inr_iff dest: app split: if_splits)
  have loop: "p119_replay_loop i es st = Inr st' \<Longrightarrow> fit st \<Longrightarrow> fit st'" for es st st'
    by (induction es arbitrary: st) (auto simp: rbind_Inr_iff dest: step)
  have "p119_replay_loop i es None = Inr (Some s) \<Longrightarrow> qs_incident_id s = i" for es s
    using loop [of es None "Some s"] by (simp add: fit_def)
  then show "p119_replay sha es i = Inr s \<Longrightarrow> qs_incident_id s = i"
    by (auto simp: p119_replay_def rbind_Inr_iff split: if_splits option.splits)
qed

section \<open>Processes sharing one log\<close>

text \<open>Registered envelopes come from \<open>build_incident_envelope\<close>.\<close>

datatype p119_call =
    QC_Open
  | QC_Register p119_envelope
  | QC_Transition string string int "string option" string
  | QC_Lease string string int int

fun p119_call_ok :: "(string \<Rightarrow> string) \<Rightarrow> p119_call \<Rightarrow> bool" where
  "p119_call_ok sha (QC_Register env) = (\<exists>data. build_incident_envelope sha data = Inr env)"
| "p119_call_ok sha _ = True"

fun p119_call_store :: "(string \<Rightarrow> string) \<Rightarrow> p119_call \<Rightarrow> wal_store \<Rightarrow> wal_store" where
  "p119_call_store sha QC_Open st = (case p119_open (ws_file st) of Inl _ \<Rightarrow> st | Inr st' \<Rightarrow> st')"
| "p119_call_store sha (QC_Register env) st = fst (p119_register_incident sha env st)"
| "p119_call_store sha (QC_Transition i nx cas w reason) st = fst (p119_transition sha i nx cas w reason st)"
| "p119_call_store sha (QC_Lease i w now ttl) st = fst (p119_acquire_lease sha i w now ttl st)"

abbreviation p119_reachable :: "(string \<Rightarrow> string) \<Rightarrow> shared_system \<Rightarrow> bool" where
  "p119_reachable sha \<equiv> shared_reachable (p119_call_ok sha) (p119_call_store sha)"

lemma p119_append_extends:
  assumes "p119_load (ws_file st) = Inr es" and "p119_log sha es"
    and "\<And>a' before. p119_dedupe sha es a = Inr a' \<Longrightarrow> p119_check_cas sha es a' = Inr before \<Longrightarrow>
           p119_check_lease sha es a' = Inr () \<Longrightarrow> p119_event sha es before a'"
  shows "p119_extends sha es st (fst (p119_append sha a st))"
  unfolding p119_append_store
proof (rule wal_append_extends [where is_log = "p119_log sha", OF assms(1,2) surjective_pairing])
  fix e
  assume "p119_plan_entry sha a es = Inr e"
  then obtain a' before h tm ev where "p119_dedupe sha es a = Inr a'" "p119_check_cas sha es a' = Inr before"
    "p119_check_lease sha es a' = Inr ()" "previous_timeline_hash es = Inr tm"
    "p119_timeline_event sha es tm before a' = Inr ev" and h: "previous_hash es = Inr h"
    and e: "e = seal_entry sha es h (p119_entry_body a' ev)" by (elim p119_plan_cases)
  with assms(3) have "p119_allowed sha es (p119_entry_body a' ev)" unfolding p119_allowed_def by blast
  with assms(2) h show "p119_log sha (es @ [e])" unfolding e by (auto intro: wal_log.snoc)
qed

lemma p119_register_extends:
  assumes "p119_load (ws_file st) = Inr es" and "p119_log sha es"
    and "build_incident_envelope sha data = Inr env"
  shows "p119_extends sha es st (fst (p119_register_incident sha env st))"
proof -
  obtain a key hash where a: "p119_registration env = Inr a" "qa_register a = Some (key, hash)"
    "qa_expected_prior_cas a = None"
    by (rule p119_registration_built [OF assms(3)])
  have "p119_event sha es before a'"
    if "p119_dedupe sha es a = Inr a'" "p119_check_cas sha es a' = Inr before" for a' before
    using that(1)
  proof (cases rule: p119_dedupe_cases)
    case (first key hash)
    with a assms(3) that(2) show ?thesis
      by (auto simp: p119_check_cas_def intro: p119_event.register)
  next
    case (again key hash ids s)
    with a(3) that(2) p119_replay_incident_id [OF again(4)] show ?thesis
      by (auto simp: p119_check_cas_def intro: p119_event.duplicate [where s = s])
  next
    case (conflict key hash ids s)
    with a(3) that(2) p119_replay_incident_id [OF conflict(4)] show ?thesis
      by (auto simp: p119_check_cas_def intro: p119_event.conflict [where s = s])
  qed (use a in auto)
  then have "p119_extends sha es st (fst (p119_append sha a st))"
    using assms by (intro p119_append_extends) auto
  with a show ?thesis by (simp add: p119_register_incident_def op_bind_def p119_append_receipt_store)
qed

text \<open>What the compare-and-swap of a transition establishes.\<close>

lemma p119_check_cas_transition:
  assumes "p119_check_cas sha es a = Inr before" and "qa_expected_prior_cas a = Some cas"
    and "qa_expected_prior_state a = Some x"
  obtains s where "p119_replay sha es (qa_incident_id a) = Inr s" "qs_cas_version s = cas" "qs_state s = x"
    "before = qs_state s"
  using assms by (auto simp: p119_check_cas_def rbind_Inr_iff rguard_Inr_iff)

lemma p119_transition_extends:
  assumes "p119_load (ws_file st) = Inr es" and "p119_log sha es" and "ws_entries st = take k es"
  shows "p119_extends sha es st (fst (p119_transition sha i nx cas w reason st))"
proof (cases "\<exists>s. p119_replay sha (ws_entries st) i = Inr s \<and> \<not> p119_terminal (qs_state s)
    \<and> cas = qs_cas_version s")
  case False
  then have "fst (p119_transition sha i nx cas w reason st) = st"
    by (auto simp: p119_transition_def split: sum.splits)
  with assms show ?thesis by (simp add: log_extends_refl)
next
  case True
  then obtain s0 where s0: "p119_replay sha (ws_entries st) i = Inr s0" "\<not> p119_terminal (qs_state s0)"
    "cas = qs_cas_version s0" by blast
  have illegal: "p119_extends sha es st (fst (p119_append sha (p119_abort_args i nx cas s0) st))"
  proof (rule p119_append_extends [OF assms(1,2)])
    fix a' before
    assume "p119_dedupe sha es (p119_abort_args i nx cas s0) = Inr a'" "p119_check_cas sha es a' = Inr before"
    then have a': "a' = p119_abort_args i nx cas s0" and c: "p119_check_cas sha es (p119_abort_args i nx cas s0) = Inr before"
      by (auto simp: p119_dedupe_def p119_abort_args_def p119_append_args_of_def)
    from c obtain s where "p119_replay sha es i = Inr s" "qs_cas_version s = cas" "qs_state s = qs_state s0"
      "before = qs_state s"
      by (rule p119_check_cas_transition) (auto simp: p119_abort_args_def p119_append_args_of_def)
    moreover from this have "p119_event sha es (qs_state s) a'"
      by (intro p119_event.illegal [where s = s])
         (use s0 in \<open>auto simp: a' p119_abort_args_def p119_append_args_of_def\<close>)
    ultimately show "p119_event sha es before a'" by simp
  qed
  have legal: "p119_extends sha es st (fst (p119_append sha (p119_transition_args i nx cas reason s0) st))"
    if ok: "legal_transition (qs_state s0) nx"
      "nx \<in> set LEASE_REQUIRED_TO_ENTER \<Longrightarrow> qs_lease_owner_id s0 \<notin> {None, Some ''''}"
  proof (rule p119_append_extends [OF assms(1,2)])
    fix a' before
    let ?a = "p119_transition_args i nx cas reason s0"
    assume "p119_dedupe sha es ?a = Inr a'" "p119_check_cas sha es a' = Inr before"
    then have a': "a' = ?a" and c: "p119_check_cas sha es ?a = Inr before"
      by (auto simp: p119_dedupe_def p119_transition_args_def p119_append_args_of_def)
    from c obtain s where s: "p119_replay sha es i = Inr s" "qs_cas_version s = cas" "qs_state s = qs_state s0"
      "before = qs_state s"
      by (rule p119_check_cas_transition) (auto simp: p119_transition_args_def p119_append_args_of_def)
    have "p119_event sha es (qs_state s) ?a"
      by (rule p119_event.transition [where c = s0 and k = k])
         (use s s0 ok assms(3) in \<open>auto simp: p119_transition_args_def p119_append_args_of_def\<close>)
    with s show "p119_event sha es before a'" by (simp add: a')
  qed
  show ?thesis
    using s0 illegal legal assms
    by (auto simp: p119_transition_def p119_append_receipt_store op_bind_def log_extends_refl
        split: prod.splits sum.splits)
qed

lemma p119_lease_extends:
  assumes "p119_load (ws_file st) = Inr es" and "p119_log sha es" and "ws_entries st = take k es"
  shows "p119_extends sha es st (fst (p119_acquire_lease sha i w now ttl st))"
proof (cases "p119_replay sha (ws_entries st) i")
  case (Inl x)
  with assms show ?thesis by (simp add: p119_acquire_lease_def log_extends_refl)
next
  case (Inr s0)
  let ?a = "p119_lease_args i w (now + ttl) s0"
  have "p119_extends sha es st (fst (p119_append sha ?a st))" if "w \<noteq> []"
  proof (rule p119_append_extends [OF assms(1,2)])
    fix a' before
    assume "p119_dedupe sha es ?a = Inr a'" "p119_check_cas sha es a' = Inr before"
      "p119_check_lease sha es a' = Inr ()"
    then have a': "a' = ?a" and c: "p119_check_cas sha es ?a = Inr before" "p119_check_lease sha es ?a = Inr ()"
      by (auto simp: p119_dedupe_def p119_lease_args_def p119_append_args_of_def)
    have "before = qa_state ?a" using c(1) by (simp add: p119_check_cas_def p119_lease_args_def p119_append_args_of_def)
    moreover have "p119_event sha es (qa_state ?a) ?a"
      by (rule p119_event.lease [where k = k and c = s0 and w = w and t = "now + ttl"])
         (use that c(2) Inr assms(3) in \<open>auto simp: p119_lease_args_def p119_append_args_of_def
            p119_check_lease_def rbind_Inr_iff rguard_Inr_iff split: if_splits\<close>)
    ultimately show "p119_event sha es before a'" by (simp add: a')
  qed
  with assms Inr show ?thesis
    by (auto simp: p119_acquire_lease_def p119_append_receipt_store log_extends_refl)
qed

lemma p119_call_extends:
  assumes "p119_load (ws_file st) = Inr es" and "p119_log sha es" and "ws_entries st = take k es"
    and "p119_call_ok sha c"
  shows "p119_extends sha es st (p119_call_store sha c st)"
proof (cases c)
  case QC_Open
  with assms show ?thesis by (auto simp: p119_open_def log_extends_def)
qed (use assms p119_register_extends p119_transition_extends p119_lease_extends in auto)

interpretation p119_shared: shared_log "p119_ledger_error ''invalid_wal_entry''" "p119_log sha"
  "p119_call_ok sha" "p119_call_store sha" for sha
  by unfold_locales (auto intro: wal_log.empty p119_call_extends)

end
