(* ===== verification/P119_Props.thy ===== *)
theory P119_Props
  imports P119_Ledger
begin

text \<open>
  What the log specification of the incident ledger gives: the invariant of every replayed state,
  the safety of interleaved transitions, fail-closed transitions, and the chain of timeline events.
\<close>

section \<open>Timeline events\<close>

lemma p119_clean_text_Inr:
  "p119_clean_text (PStr s) e = Inr t \<longleftrightarrow> py_strip s \<noteq> [] \<and> \<not> p119_forbidden_text s \<and> t = py_strip s"
  by (auto simp: p119_clean_text_def)

definition timeline_body :: "(string \<Rightarrow> string) \<Rightarrow> string \<Rightarrow> string \<Rightarrow> string \<Rightarrow> string \<Rightarrow> nat \<Rightarrow> pydict \<Rightarrow> string \<Rightarrow> pydict" where
  "timeline_body sha i t x y n p h =
     [(''schema_version'', PStr P119_TIMELINE_SCHEMA_VERSION), (''incident_id'', PStr (py_strip i)),
      (''event_type'', PStr t), (''state_before'', PStr x), (''state_after'', PStr y),
      (''timestamp'', PInt (int n)), (''actor_type'', PStr ''p119_local_contract''),
      (''payload'', PDict (plain_mapping p)),
      (''budget_snapshot'', PDict (plain_mapping [(''receipt_count'', PInt (int n + 1))])),
      (''authority_counter_snapshot'', PDict p119_zero_counters), (''previous_hash'', PStr h),
      (''redaction_receipt'', PDict [(''redacted'', PBool True),
         (''receipt_hash'', PStr (stable_hash sha (PDict
            [(''incident_id'', PStr i), (''event_type'', PStr t), (''payload'', PDict p)])))])]"

lemma p119_actor_clean: "p119_clean_text (PStr ''p119_local_contract'') e = Inr ''p119_local_contract''"
  unfolding p119_clean_text_Inr by code_simp

text \<open>When a timeline event is recorded, and as what.\<close>

lemma p119_timeline_event_Inr:
  "p119_timeline_event sha es h x a = Inr ev \<longleftrightarrow>
     p119_reject_authority_boundary (qa_payload a) = Inr ()
     \<and> qa_timeline_event_type a \<in> set P119_TIMELINE_EVENT_TYPES
     \<and> py_strip (qa_incident_id a) \<noteq> [] \<and> \<not> p119_forbidden_text (qa_incident_id a)
     \<and> x \<in> set P119_INCIDENT_STATES \<and> qa_state a \<in> set P119_INCIDENT_STATES
     \<and> (let b = timeline_body sha (qa_incident_id a) (qa_timeline_event_type a) x (qa_state a)
                  (length es) (qa_payload a) h
        in ev = b @ [(''current_hash'', PStr (stable_hash sha (PDict b)))])"
  unfolding p119_timeline_event_def build_timeline_event_def timeline_body_def Let_def
  by (auto simp: rbind_Inr_iff rguard_Inr_iff p119_clean_text_Inr p119_actor_clean p119_state_name_def
      p119_non_negative_int_def p119_zero_counters_valid)

lemma timeline_body_get [simp]:
  "pget (timeline_body sha i t x y n p h @ [(''current_hash'', v)]) ''current_hash'' = v"
  "pget (timeline_body sha i t x y n p h @ [(''current_hash'', v)]) ''previous_hash'' = PStr h"
  "pget (timeline_body sha i t x y n p h @ [(''current_hash'', v)]) ''timestamp'' = PInt (int n)"
  "pget (timeline_body sha i t x y n p h @ [(''current_hash'', v)]) ''state_before'' = PStr x"
  "pget (timeline_body sha i t x y n p h @ [(''current_hash'', v)]) ''state_after'' = PStr y"
  "pwithout [''current_hash''] (timeline_body sha i t x y n p h @ [(''current_hash'', v)]) =
     timeline_body sha i t x y n p h"
  by (simp_all add: timeline_body_def pwithout_def)

section \<open>The invariant of replayed states\<close>

definition p119_sound :: "string \<Rightarrow> p119_state \<Rightarrow> bool" where
  "p119_sound i s \<longleftrightarrow> qs_state s \<in> set P119_INCIDENT_STATES \<and> 0 \<le> qs_cas_version s
     \<and> qs_authority_counter_snapshot s = p119_zero_counters \<and> qs_lease_owner_id s \<noteq> Some ''''
     \<and> (qs_lease_owner_id s = None \<longleftrightarrow> qs_lease_expires_at s = None)
     \<and> py_strip i \<noteq> [] \<and> \<not> p119_forbidden_text i"

lemma p119_event_replay:
  assumes "p119_event sha es x a" and "wal_valid sha es" and "p119_replay_loop i es None = Inr st"
    and "\<forall>s. st = Some s \<longrightarrow> p119_sound i s" and ev: "p119_timeline_event sha es tm x a = Inr ev"
  shows "\<exists>st'. p119_replay_step i (seal_entry sha es h (p119_entry_body a ev)) st = Inr st'
           \<and> (\<forall>s. st' = Some s \<longrightarrow> p119_sound i s)"
proof (cases "qa_incident_id a = i")
  case False
  with assms(4) show ?thesis by (simp add: p119_step_sealed)
next
  case here: True
  have known: "qa_state a \<in> set P119_INCIDENT_STATES" "py_strip i \<noteq> []" "\<not> p119_forbidden_text i"
    using ev here by (simp_all add: p119_timeline_event_Inr)
  have cur: "st = Some s" if "p119_replay sha es (qa_incident_id a) = Inr s" for s
    using that assms(2,3) here by (simp add: p119_replay_Inr_iff)
  from assms(1) show ?thesis
  proof (cases rule: p119_event.cases)
    case (register data env key hash)
    from register(2) obtain a0 where a0: "p119_registration env = Inr a0"
      "qa_receipt_type a0 = ''incident_registered''" "0 \<le> qa_cas_version a0"
      "qa_payload a0 = [(''incident'', PDict (ie_payload env))]"
      "\<exists>f x k hs. \<forall>i es h ev. p119_registered_state i (seal_entry sha es h (p119_entry_body a0 ev)) (ie_payload env) =
       Inr \<lparr>qs_incident_id = i, qs_alert_fingerprint = f, qs_fixture_id = x, qs_state = qa_state a0,
            qs_cas_version = qa_cas_version a0, qs_idempotency_key = k, qs_payload_hash = hs,
            qs_timeline_hash = py_str (pget ev ''current_hash''),
            qs_authority_counter_snapshot = p119_zero_counters, qs_lease_owner_id = None,
            qs_lease_expires_at = None\<rparr>"
      by (rule p119_registration_built) blast
    with register(3) have "a0 = a" by simp
    with a0 here known show ?thesis by (auto simp: p119_step_sealed p119_sound_def)
  next
    case (duplicate s)
    with cur assms(4) here show ?thesis by (simp add: p119_step_sealed P119_STATE_RECEIPTS_def)
  next
    case (conflict s)
    with cur assms(4) here known show ?thesis
      by (simp add: p119_step_sealed P119_STATE_RECEIPTS_def p119_sound_def)
  next
    case (illegal s)
    with cur assms(4) here known show ?thesis
      by (simp add: p119_step_sealed P119_STATE_RECEIPTS_def p119_sound_def)
  next
    case (transition s k c)
    with cur assms(4) here known show ?thesis
      by (simp add: p119_step_sealed P119_STATE_RECEIPTS_def p119_sound_def)
  next
    case (lease w t k c)
    with assms(4) here known show ?thesis
      by (auto simp: p119_step_sealed P119_STATE_RECEIPTS_def p119_sound_def owner_value_def
          split: option.splits)
  qed
qed

lemma p119_log_replay:
  assumes "p119_log sha es"
  shows "\<exists>st. p119_replay_loop i es None = Inr st \<and> (\<forall>s. st = Some s \<longrightarrow> p119_sound i s)"
  using assms
proof (induction rule: wal_log.induct)
  case empty
  then show ?case by simp
next
  case (snoc es body h)
  then obtain st x a tm ev where "p119_replay_loop i es None = Inr st" "\<forall>s. st = Some s \<longrightarrow> p119_sound i s"
    "p119_event sha es x a" "p119_timeline_event sha es tm x a = Inr ev" "body = p119_entry_body a ev"
    by (auto simp: p119_allowed_def)
  with p119_event_replay [OF _ p119_log_valid [OF snoc.hyps(1)]] show ?case
    by (auto simp: p119_replay_loop_snoc)
qed

lemma p119_log_sound: "p119_log sha es \<Longrightarrow> p119_replay sha es i = Inr s \<Longrightarrow> p119_sound i s"
  using p119_log_replay [of sha es i] by (auto simp: p119_replay_Inr_iff p119_log_valid)

section \<open>Appends that succeed\<close>

definition p119_recordable :: "string \<Rightarrow> p119_append_args \<Rightarrow> bool" where
  "p119_recordable x a \<longleftrightarrow> p119_reject_authority_boundary (qa_payload a) = Inr ()
     \<and> qa_timeline_event_type a \<in> set P119_TIMELINE_EVENT_TYPES
     \<and> py_strip (qa_incident_id a) \<noteq> [] \<and> \<not> p119_forbidden_text (qa_incident_id a)
     \<and> x \<in> set P119_INCIDENT_STATES \<and> qa_state a \<in> set P119_INCIDENT_STATES"

lemma p119_log_previous_timeline: "p119_log sha es \<Longrightarrow> \<exists>tm. previous_timeline_hash es = Inr tm"
  by (erule wal_log.cases) (auto simp: previous_timeline_hash_def p119_allowed_def)

lemma p119_append_success:
  assumes "p119_load (ws_file st) = Inr es" and "p119_log sha es" and "p119_dedupe sha es a = Inr a'"
    and "p119_check_cas sha es a' = Inr x" and "p119_check_lease sha es a' = Inr ()" and "p119_recordable x a'"
  obtains e h ev where "e = seal_entry sha es h (p119_entry_body a' ev)" "previous_hash es = Inr h"
    "p119_append sha a st = (\<lparr>ws_file = ws_file st @ [WL_Json (PDict e)], ws_entries = es @ [e]\<rparr>,
       if qa_receipt_type a' = ''idempotency_conflict_fail_closed''
       then Inl (p119_ledger_error ''idempotency_key_payload_mismatch'') else Inr e)"
proof -
  obtain h where h: "previous_hash es = Inr h" using previous_hash_valid p119_log_valid [OF assms(2)] by blast
  obtain tm where tm: "previous_timeline_hash es = Inr tm" using p119_log_previous_timeline [OF assms(2)] by blast
  obtain ev where ev: "p119_timeline_event sha es tm x a' = Inr ev"
    using assms(6) by (simp add: p119_timeline_event_Inr p119_recordable_def Let_def)
  have "p119_plan_entry sha a es = Inr (seal_entry sha es h (p119_entry_body a' ev))"
    using assms h tm ev p119_log_valid [OF assms(2)] by (simp add: p119_plan_entry_def p119_verify_eq)
  with assms(1) h show ?thesis
    by (intro that [of "seal_entry sha es h (p119_entry_body a' ev)" h ev])
       (auto simp: p119_append_def wal_append_def op_bind_def)
qed

lemma p119_receipt_of_sealed:
  "\<exists>r. p119_receipt_from_entry (seal_entry sha es h (p119_entry_body a ev)) = Inr r
     \<and> qr_receipt_type r = qa_receipt_type a \<and> qr_incident_id r = qa_incident_id a
     \<and> qr_state r = qa_state a \<and> qr_cas_version r = qa_cas_version a \<and> qr_wal_position r = int (length es)
     \<and> qr_lease_owner_id r = qa_lease_owner_id a"
proof -
  have "\<exists>v. pindex (seal_entry sha es h (p119_entry_body a ev)) ''receipt_hash'' = Inr v"
    by (simp add: seal_entry_def p119_entry_body_def Let_def)
  then show ?thesis by (auto simp: p119_receipt_from_entry_def owner_value_def split: option.splits)
qed

text \<open>Texts the ledger itself writes are within the authority boundary.\<close>

lemma p119_plain_texts:
  "list_all (\<lambda>s. \<not> p119_forbidden_text s) P119_INCIDENT_STATES"
  "\<not> p119_forbidden_text ''illegal_state_transition''" "\<not> p119_forbidden_text ''state_transition''"
  "\<not> p119_forbidden_text ''duplicate_idempotency_key''"
  "\<not> p119_forbidden_text ''idempotency_key_payload_mismatch''"
  by code_simp+

lemma p119_state_text: "s \<in> set P119_INCIDENT_STATES \<Longrightarrow> \<not> p119_forbidden_text s"
  using p119_plain_texts(1) by (simp add: list_all_iff)

lemma p119_plain_fields:
  "list_all (\<lambda>k. normalized_field k \<notin> set P119_FORBIDDEN_FIELD_NAMES
      \<and> normalized_field k \<notin> {''authoritycountersnapshot'', ''authoritysnapshot'', ''counters''})
     [''from_state'', ''to_state'', ''attempted_state'', ''reason'', ''owner_id'', ''lease_expires_at'', ''incident'']"
  by code_simp

lemma p119_reject_plain:
  assumes "k \<in> {''from_state'', ''to_state'', ''attempted_state'', ''reason'', ''owner_id'', ''lease_expires_at'', ''incident''}"
  shows "p119_reject_items ((k, v) # d) = rbind (p119_reject_authority v) (\<lambda>_. p119_reject_items d)"
  using p119_plain_fields assms unfolding list_all_iff by (auto simp: Let_def)

lemma p119_boundary_payloads [simp]:
  "p119_reject_authority_boundary [(''from_state'', PStr x), (''to_state'', PStr y), (''reason'', PStr z)] = Inr ()
     \<longleftrightarrow> \<not> p119_forbidden_text x \<and> \<not> p119_forbidden_text y \<and> \<not> p119_forbidden_text z"
  "p119_reject_authority_boundary [(''from_state'', PStr x), (''attempted_state'', PStr y), (''reason'', PStr z)] = Inr ()
     \<longleftrightarrow> \<not> p119_forbidden_text x \<and> \<not> p119_forbidden_text y \<and> \<not> p119_forbidden_text z"
  "p119_reject_authority_boundary [(''owner_id'', PStr x), (''lease_expires_at'', PInt t)] = Inr ()
     \<longleftrightarrow> \<not> p119_forbidden_text x"
  "p119_reject_authority_boundary [(''reason'', PStr z)] = Inr () \<longleftrightarrow> \<not> p119_forbidden_text z"
  unfolding p119_reject_authority_boundary_def p119_reject_authority.simps(1)
  by (simp_all add: p119_reject_plain rbind_Inr_iff rguard_Inr_iff del: p119_reject_items.simps(2))

lemma p119_event_types_known: "event_type_for s \<in> set P119_TIMELINE_EVENT_TYPES"
proof -
  have "list_all (\<lambda>(s, t). t \<in> set P119_TIMELINE_EVENT_TYPES) EVENT_TYPES_FOR"
    "''authority_counter_snapshot'' \<in> set P119_TIMELINE_EVENT_TYPES" by code_simp+
  then show ?thesis
    by (auto simp: event_type_for_def list_all_iff dest!: map_of_SomeD split: option.splits)
qed

lemma p119_other_event_types:
  "''transition_rejected_fail_closed'' \<in> set P119_TIMELINE_EVENT_TYPES"
  "''lease_acquired'' \<in> set P119_TIMELINE_EVENT_TYPES"
  "''dedupe_or_correlation_decision'' \<in> set P119_TIMELINE_EVENT_TYPES"
  "''aborted_fail_closed'' \<in> set P119_INCIDENT_STATES"
  by code_simp+

section \<open>Operations on an up-to-date store\<close>

definition p119_current :: "(string \<Rightarrow> string) \<Rightarrow> wal_store \<Rightarrow> bool" where
  "p119_current sha st \<longleftrightarrow> p119_load (ws_file st) = Inr (ws_entries st) \<and> p119_log sha (ws_entries st)"

lemma p119_current_valid: "p119_current sha st \<Longrightarrow> wal_valid sha (ws_entries st)"
  by (simp add: p119_current_def p119_log_valid)

lemma p119_current_sound:
  "p119_current sha st \<Longrightarrow> p119_replay sha (ws_entries st) i = Inr s \<Longrightarrow> p119_sound i s"
  by (auto simp: p119_current_def dest: p119_log_sound)

text \<open>Every call keeps a store up to date.\<close>

lemma p119_append_loaded:
  "p119_load (ws_file st) = Inr (ws_entries st) \<Longrightarrow>
     p119_load (ws_file (fst (p119_append sha a st))) = Inr (ws_entries (fst (p119_append sha a st)))"
  unfolding p119_append_store wal_append_def by (auto simp: load_entries_append split: sum.splits)

lemma op_bind_raise_store: "fst (op_bind m (\<lambda>_. op_raise x) st) = fst (m st)"
  by (simp add: op_bind_def split: prod.splits sum.splits)

lemma p119_call_loaded:
  assumes "p119_load (ws_file st) = Inr (ws_entries st)"
  shows "p119_load (ws_file (p119_call_store sha c st)) = Inr (ws_entries (p119_call_store sha c st))"
proof (cases c)
  case QC_Open
  with assms show ?thesis by (simp add: p119_open_def)
next
  case (QC_Register env)
  with assms show ?thesis
    by (cases "p119_registration env")
       (simp_all add: p119_register_incident_def op_bind_def p119_append_receipt_store p119_append_loaded)
next
  case (QC_Transition i nx cas w reason)
  with assms show ?thesis
    by (simp add: p119_transition_def p119_append_receipt_store op_bind_raise_store p119_append_loaded
        split: sum.splits)
next
  case (QC_Lease i w now ttl)
  with assms show ?thesis
    by (simp add: p119_acquire_lease_def p119_append_receipt_store p119_append_loaded split: sum.splits)
qed

lemma p119_call_current:
  assumes "p119_current sha st" and "p119_call_ok sha c"
  shows "p119_current sha (p119_call_store sha c st)"
proof -
  have "p119_extends sha (ws_entries st) st (p119_call_store sha c st)"
    using assms by (intro p119_call_extends [where k = "length (ws_entries st)"]) (auto simp: p119_current_def)
  with p119_call_loaded [of st sha c] assms(1) show ?thesis by (auto simp: log_extends_def p119_current_def)
qed

lemma p119_replay_sealed_other:
  assumes "wal_valid sha es" and "wal_valid sha (es @ [seal_entry sha es h (p119_entry_body a ev)])"
    and "p119_replay_step j (seal_entry sha es h (p119_entry_body a ev)) = Inr"
  shows "p119_replay sha (es @ [seal_entry sha es h (p119_entry_body a ev)]) j = p119_replay sha es j"
  using assms by (cases "p119_replay_loop j es None")
    (simp_all add: p119_replay_def p119_verify_eq p119_replay_loop_snoc)

text \<open>An appended entry of a store that is up to date, as a step of the store.\<close>

lemma p119_append_current:
  assumes cur: "p119_current sha st" and ok: "p119_event sha (ws_entries st) x a" "p119_recordable x a"
      "p119_check_cas sha (ws_entries st) a = Inr x" "p119_check_lease sha (ws_entries st) a = Inr ()"
    and plain: "qa_register a = None" "qa_receipt_type a \<noteq> ''idempotency_conflict_fail_closed''"
  obtains e st' h ev where "p119_append sha a st = (st', Inr e)" "p119_current sha st'"
    "e = seal_entry sha (ws_entries st) h (p119_entry_body a ev)"
    "\<forall>i s s'. p119_replay sha (ws_entries st) i = Inr s \<longrightarrow> p119_replay_step i e (Some s) = Inr (Some s') \<longrightarrow>
       p119_replay sha (ws_entries st') i = Inr s'"
    "\<forall>j. j \<noteq> qa_incident_id a \<longrightarrow> p119_replay sha (ws_entries st') j = p119_replay sha (ws_entries st) j"
proof -
  let ?es = "ws_entries st"
  have load: "p119_load (ws_file st) = Inr ?es" and lg: "p119_log sha ?es" using cur by (simp_all add: p119_current_def)
  have dd: "p119_dedupe sha ?es a = Inr a" using plain(1) by (simp add: p119_dedupe_def)
  from load lg dd ok(3,4,2) obtain e h ev where e: "e = seal_entry sha ?es h (p119_entry_body a ev)"
    and app: "p119_append sha a st = (\<lparr>ws_file = ws_file st @ [WL_Json (PDict e)], ws_entries = ?es @ [e]\<rparr>,
       if qa_receipt_type a = ''idempotency_conflict_fail_closed''
       then Inl (p119_ledger_error ''idempotency_key_payload_mismatch'') else Inr e)"
    by (rule p119_append_success)
  let ?st = "\<lparr>ws_file = ws_file st @ [WL_Json (PDict e)], ws_entries = ?es @ [e]\<rparr>"
  have "p119_extends sha ?es st (fst (p119_append sha a st))"
    using load lg by (rule p119_append_extends) (use dd ok in auto)
  then have cur': "p119_current sha ?st"
    using load by (auto simp: app log_extends_def p119_current_def load_entries_append)
  show ?thesis
  proof (rule that [of ?st e h ev])
    show "p119_append sha a st = (?st, Inr e)" using app plain(2) by simp
    show "\<forall>i s s'. p119_replay sha ?es i = Inr s \<longrightarrow> p119_replay_step i e (Some s) = Inr (Some s') \<longrightarrow>
       p119_replay sha (ws_entries ?st) i = Inr s'"
      using p119_current_valid [OF cur'] p119_current_valid [OF cur]
      by (simp add: p119_replay_Inr_iff p119_replay_loop_snoc)
    have "p119_replay_step j e = Inr" if "j \<noteq> qa_incident_id a" for j
      using that by (auto simp: e p119_step_sealed)
    then show "\<forall>j. j \<noteq> qa_incident_id a \<longrightarrow> p119_replay sha (ws_entries ?st) j = p119_replay sha ?es j"
      using p119_current_valid [OF cur'] p119_current_valid [OF cur] p119_replay_sealed_other by (auto simp: e)
  qed (use cur' e in auto)
qed

lemma p119_transition_current:
  assumes cur: "p119_current sha st" and s: "p119_replay sha (ws_entries st) i = Inr s"
    and nt: "\<not> p119_terminal (qs_state s)" and legal: "legal_transition (qs_state s) nx"
    and lease: "nx \<in> set LEASE_REQUIRED_TO_ENTER \<Longrightarrow> w \<noteq> None \<and> qs_lease_owner_id s = w"
    and reason: "\<not> p119_forbidden_text reason"
  shows "\<exists>st' r s'. p119_transition sha i nx (qs_cas_version s) w reason st = (st', Inr r) \<and> p119_current sha st'
     \<and> p119_replay sha (ws_entries st') i = Inr s' \<and> qs_state s' = nx \<and> qs_cas_version s' = qs_cas_version s + 1
     \<and> qs_lease_owner_id s' = qs_lease_owner_id s \<and> qs_lease_expires_at s' = qs_lease_expires_at s
     \<and> qr_state r = nx \<and> qr_cas_version r = qs_cas_version s + 1"
proof -
  let ?a = "p119_transition_args i nx (qs_cas_version s) reason s"
  note defs = p119_transition_args_def p119_append_args_of_def
  have snd: "p119_sound i s" using cur s by (rule p119_current_sound)
  have nx: "nx \<in> set P119_INCIDENT_STATES" using legal p119.succs_known by (auto simp: legal_transition_def)
  have owner: "nx \<in> set LEASE_REQUIRED_TO_ENTER \<Longrightarrow> qs_lease_owner_id s \<notin> {None, Some ''''}"
    using lease snd by (auto simp: p119_sound_def)
  have "p119_event sha (ws_entries st) (qs_state s) ?a"
    by (rule p119_event.transition [where c = s and k = "length (ws_entries st)"])
       (use s nt legal owner in \<open>auto simp: defs\<close>)
  moreover have "p119_recordable (qs_state s) ?a"
    using snd nx reason p119_state_text p119_event_types_known
    by (auto simp: p119_recordable_def defs p119_sound_def)
  moreover have "p119_check_cas sha (ws_entries st) ?a = Inr (qs_state s)" "p119_check_lease sha (ws_entries st) ?a = Inr ()"
    "qa_register ?a = None" "qa_receipt_type ?a \<noteq> ''idempotency_conflict_fail_closed''"
    using s by (simp_all add: defs p119_check_cas_def p119_check_lease_def rguard_def)
  ultimately obtain e st' h ev where a: "p119_append sha ?a st = (st', Inr e)" "p119_current sha st'"
    "e = seal_entry sha (ws_entries st) h (p119_entry_body ?a ev)"
    "\<forall>i s s'. p119_replay sha (ws_entries st) i = Inr s \<longrightarrow> p119_replay_step i e (Some s) = Inr (Some s') \<longrightarrow>
       p119_replay sha (ws_entries st') i = Inr s'"
    by (rule p119_append_current [OF cur]) blast
  obtain r where r: "p119_receipt_from_entry e = Inr r" "qr_state r = nx" "qr_cas_version r = qs_cas_version s + 1"
    using p119_receipt_of_sealed [of sha "ws_entries st" h ?a ev] by (auto simp: a(3) defs)
  have "p119_transition sha i nx (qs_cas_version s) w reason st = (st', Inr r)"
    using s nt legal lease owner a(1) r(1)
    by (auto simp: p119_transition_def p119_append_receipt_def)
  moreover have "p119_replay_step i e (Some s) = Inr (Some (s\<lparr>qs_state := nx,
      qs_cas_version := qs_cas_version s + 1, qs_timeline_hash := py_str (pget ev ''current_hash'')\<rparr>))"
    by (simp add: a(3) p119_step_sealed defs P119_STATE_RECEIPTS_def)
  ultimately show ?thesis using a(2,4) s r by fastforce
qed

lemma p119_lease_current:
  assumes cur: "p119_current sha st" and s: "p119_replay sha (ws_entries st) i = Inr s"
    and w: "w \<noteq> []" "\<not> p119_forbidden_text w" and live: "\<not> p119_lease_live s now w"
  shows "\<exists>st' r s'. p119_acquire_lease sha i w now ttl st = (st', Inr r) \<and> p119_current sha st'
     \<and> p119_replay sha (ws_entries st') i = Inr s' \<and> qs_state s' = qs_state s
     \<and> qs_cas_version s' = qs_cas_version s \<and> qs_lease_owner_id s' = Some w
     \<and> qs_lease_expires_at s' = Some (now + ttl)"
proof -
  let ?a = "p119_lease_args i w (now + ttl) s"
  note defs = p119_lease_args_def p119_append_args_of_def
  have snd: "p119_sound i s" using cur s by (rule p119_current_sound)
  have "p119_event sha (ws_entries st) (qa_state ?a) ?a"
    by (rule p119_event.lease [where c = s and k = "length (ws_entries st)" and w = w and t = "now + ttl"])
       (use s w in \<open>auto simp: defs\<close>)
  moreover have "p119_recordable (qa_state ?a) ?a"
    using snd w p119_other_event_types by (auto simp: p119_recordable_def defs p119_sound_def)
  moreover have "p119_check_cas sha (ws_entries st) ?a = Inr (qa_state ?a)" "p119_check_lease sha (ws_entries st) ?a = Inr ()"
    "qa_register ?a = None" "qa_receipt_type ?a \<noteq> ''idempotency_conflict_fail_closed''"
    using s by (simp_all add: defs p119_check_cas_def p119_check_lease_def rguard_def)
  ultimately obtain e st' h ev where a: "p119_append sha ?a st = (st', Inr e)" "p119_current sha st'"
    "e = seal_entry sha (ws_entries st) h (p119_entry_body ?a ev)"
    "\<forall>i s s'. p119_replay sha (ws_entries st) i = Inr s \<longrightarrow> p119_replay_step i e (Some s) = Inr (Some s') \<longrightarrow>
       p119_replay sha (ws_entries st') i = Inr s'"
    by (rule p119_append_current [OF cur]) blast
  obtain r where r: "p119_receipt_from_entry e = Inr r"
    using p119_receipt_of_sealed [of sha "ws_entries st" h ?a ev] by (auto simp: a(3))
  have "p119_acquire_lease sha i w now ttl st = (st', Inr r)"
    using s w live a(1) r by (simp add: p119_acquire_lease_def p119_append_receipt_def)
  moreover have "p119_replay_step i e (Some s) = Inr (Some (s\<lparr>qs_timeline_hash := py_str (pget ev ''current_hash''),
      qs_lease_owner_id := Some w, qs_lease_expires_at := Some (now + ttl)\<rparr>))"
    by (simp add: a(3) p119_step_sealed defs P119_STATE_RECEIPTS_def owner_value_def)
  ultimately show ?thesis using a(2,4) s by fastforce
qed

lemma p119_illegal_current:
  assumes cur: "p119_current sha st" and s: "p119_replay sha (ws_entries st) i = Inr s"
    and "\<not> p119_terminal (qs_state s)" and "\<not> legal_transition (qs_state s) next"
    and "\<not> p119_forbidden_text next"
  shows "\<exists>st' s'. p119_transition sha i next (qs_cas_version s) w reason st =
       (st', Inl (p119_ledger_error ''illegal_state_transition'')) \<and> p119_current sha st'
     \<and> p119_replay sha (ws_entries st') i = Inr s' \<and> qs_state s' = ''aborted_fail_closed''
     \<and> qs_cas_version s' = qs_cas_version s + 1
     \<and> (\<forall>j. j \<noteq> i \<longrightarrow> p119_replay sha (ws_entries st') j = p119_replay sha (ws_entries st) j)"
proof -
  let ?a = "p119_abort_args i next (qs_cas_version s) s"
  note defs = p119_abort_args_def p119_append_args_of_def
  have snd: "p119_sound i s" using cur s by (rule p119_current_sound)
  have "p119_event sha (ws_entries st) (qs_state s) ?a"
    by (rule p119_event.illegal) (use assms in \<open>auto simp: defs\<close>)
  moreover have "p119_recordable (qs_state s) ?a"
    using snd assms(5) p119_state_text p119_plain_texts(2) p119_other_event_types
    by (auto simp: p119_recordable_def defs p119_sound_def)
  moreover have "p119_check_cas sha (ws_entries st) ?a = Inr (qs_state s)"
    "p119_check_lease sha (ws_entries st) ?a = Inr ()"
    "qa_register ?a = None" "qa_receipt_type ?a \<noteq> ''idempotency_conflict_fail_closed''"
    using s by (simp_all add: defs p119_check_cas_def p119_check_lease_def rguard_def)
  ultimately obtain e st' h ev where a: "p119_append sha ?a st = (st', Inr e)" "p119_current sha st'"
    "e = seal_entry sha (ws_entries st) h (p119_entry_body ?a ev)"
    "\<forall>i s s'. p119_replay sha (ws_entries st) i = Inr s \<longrightarrow> p119_replay_step i e (Some s) = Inr (Some s') \<longrightarrow>
       p119_replay sha (ws_entries st') i = Inr s'"
    "\<forall>j. j \<noteq> qa_incident_id ?a \<longrightarrow> p119_replay sha (ws_entries st') j = p119_replay sha (ws_entries st) j"
    by (rule p119_append_current [OF cur]) blast
  have "p119_transition sha i next (qs_cas_version s) w reason st =
      (st', Inl (p119_ledger_error ''illegal_state_transition''))"
    using assms a(1) by (simp add: p119_transition_def)
  moreover have "p119_replay_step i e (Some s) = Inr (Some (s\<lparr>qs_state := ''aborted_fail_closed'',
      qs_cas_version := qs_cas_version s + 1, qs_timeline_hash := py_str (pget ev ''current_hash'')\<rparr>))"
    by (simp add: a(3) p119_step_sealed defs P119_STATE_RECEIPTS_def)
  moreover have "qa_incident_id ?a = i" by (simp add: defs)
  ultimately show ?thesis using a(2,4,5) s by fastforce
qed

section \<open>Properties\<close>

text \<open>C10. Replay of a reachable shared log is total and sound: for every incident it returns a state or
  reports an unknown incident, and a returned state is a state of the incident table with a
  non-negative CAS version, exactly zero authority counters, and a lease that is either absent or has
  a nonempty owner and an expiry.\<close>

theorem p119_reachable_replay_sound:
  assumes "p119_reachable sha y" and "load_entries (p119_ledger_error ''invalid_wal_entry'') (sys_file y) = Inr es"
  shows "case p119_replay sha es i of
      Inl x \<Rightarrow> x = p119_ledger_error ''unknown_incident''
    | Inr s \<Rightarrow> qs_incident_id s = i \<and> qs_state s \<in> set P119_INCIDENT_STATES \<and> 0 \<le> qs_cas_version s
        \<and> qs_authority_counter_snapshot s = p119_zero_counters
        \<and> (qs_lease_owner_id s = None \<and> qs_lease_expires_at s = None
           \<or> (\<exists>w t. qs_lease_owner_id s = Some w \<and> w \<noteq> [] \<and> qs_lease_expires_at s = Some t))"
proof -
  have lg: "p119_log sha es" using p119_shared.reachable_log [OF assms(1)] assms(2) by auto
  show ?thesis
  proof (cases "p119_replay sha es i")
    case (Inl x)
    with p119_log_replay [OF lg, of i] show ?thesis
      by (auto simp: p119_replay_def p119_verify_eq p119_log_valid [OF lg] split: option.splits)
  next
    case (Inr s)
    with p119_log_sound [OF lg this] p119_replay_incident_id [OF this] show ?thesis
      by (auto simp: p119_sound_def)
  qed
qed

text \<open>C7. Whatever the interleaving of processes with stale caches, every transition in the shared log
  was legal from the state that replaying the log before it gives, left no terminal state, and
  advanced exactly that CAS version by one; a rejected transition is itself a legal abort.  A state
  that needs a lease was entered by an owner who held the lease in some state of the log with this
  same CAS version (not necessarily the last one).\<close>

theorem p119_interleaved_transitions_legal:
  assumes "p119_reachable sha y" and "load_entries (p119_ledger_error ''invalid_wal_entry'') (sys_file y) = Inr es"
    and "n < length es" and "pget (es ! n) ''receipt_type'' = PStr rt"
    and "rt = ''state_transition'' \<or> rt = ''illegal_transition_fail_closed''"
  shows "\<exists>i s next. pget (es ! n) ''incident_id'' = PStr i
     \<and> p119_replay sha (take n es) i = Inr s \<and> \<not> p119_terminal (qs_state s)
     \<and> pget (es ! n) ''state'' = PStr next \<and> legal_transition (qs_state s) next
     \<and> pget (es ! n) ''cas_version'' = PInt (qs_cas_version s + 1)
     \<and> (rt = ''illegal_transition_fail_closed'' \<longrightarrow> next = ''aborted_fail_closed'')
     \<and> (rt = ''state_transition'' \<and> next \<in> set LEASE_REQUIRED_TO_ENTER \<longrightarrow>
          (\<exists>k c w. p119_replay sha (take k (take n es)) i = Inr c \<and> qs_cas_version c = qs_cas_version s
             \<and> qs_state c = qs_state s \<and> qs_lease_owner_id c = Some w \<and> w \<noteq> []
             \<and> pget (es ! n) ''lease_owner_id'' = PStr w))"
proof -
  have lg: "p119_log sha es" using p119_shared.reachable_log [OF assms(1)] assms(2) by auto
  then obtain x a ev h where event: "p119_event sha (take n es) x a"
    and e: "es ! n = seal_entry sha (take n es) h (p119_entry_body a ev)"
    using assms(3) by (elim wal_log_entry) (auto simp: p119_allowed_def)
  have t: "qa_receipt_type a = rt" using assms(4) by (simp add: e)
  from event show ?thesis
  proof (cases rule: p119_event.cases)
    case (register data env key hash)
    from register(2) have "qa_receipt_type a = ''incident_registered''"
      by (rule p119_registration_built) (use register(3) in auto)
    with t assms(5) show ?thesis by auto
  next
    case (illegal s)
    have "p119_sound (qa_incident_id a) s" using illegal(3) by (rule p119_log_sound [OF wal_log_take [OF lg]])
    then have "legal_transition (qs_state s) ''aborted_fail_closed''"
      using illegal(4) by (intro p119_abort_legal) (auto simp: p119_sound_def)
    with illegal t show ?thesis by (auto simp: e)
  next
    case (transition s k c)
    have "qa_state a \<in> set LEASE_REQUIRED_TO_ENTER \<Longrightarrow> \<exists>w. qs_lease_owner_id c = Some w \<and> w \<noteq> []"
      using transition(11) by auto
    with transition t show ?thesis by (fastforce simp: e owner_value_def)
  qed (use t assms(5) in auto)
qed

lemma p119_up_to_date:
  assumes "p119_reachable sha y" and "p119_load (sys_file y) = Inr es"
  shows "p119_current sha \<lparr>ws_file = sys_file y, ws_entries = es\<rparr>"
  using p119_shared.reachable_log [OF assms(1)] assms(2) by (auto simp: p119_current_def)

text \<open>A transition that the table does not allow fails closed: the incident is aborted in the log, one
  CAS version on, no other incident is touched, and the call raises.  When the name of the attempted
  state itself breaches the authority boundary, the call raises and the log is left as it was.\<close>

theorem p119_illegal_transition_fails_closed:
  assumes "p119_reachable sha y" and "load_entries (p119_ledger_error ''invalid_wal_entry'') (sys_file y) = Inr es"
    and "sys_cache y p = es" and "p119_replay sha es i = Inr s" and "\<not> p119_terminal (qs_state s)"
    and "\<not> legal_transition (qs_state s) next"
  shows "case p119_transition sha i next (qs_cas_version s) w reason
             \<lparr>ws_file = sys_file y, ws_entries = sys_cache y p\<rparr> of
      (st', out) \<Rightarrow>
        if p119_forbidden_text next
        then out = Inl (p119_contract_error ''forbidden_authority_text'') \<and> ws_file st' = sys_file y
        else out = Inl (p119_ledger_error ''illegal_state_transition'')
          \<and> returns (\<lambda>s'. qs_state s' = ''aborted_fail_closed'' \<and> qs_cas_version s' = qs_cas_version s + 1)
               (p119_replay sha (ws_entries st') i)
          \<and> load_entries (p119_ledger_error ''invalid_wal_entry'') (ws_file st') = Inr (ws_entries st')
          \<and> (\<forall>j. j \<noteq> i \<longrightarrow> p119_replay sha (ws_entries st') j = p119_replay sha es j)"
proof -
  let ?st = "\<lparr>ws_file = sys_file y, ws_entries = es\<rparr>" and ?a = "p119_abort_args i next (qs_cas_version s) s"
  note defs = p119_abort_args_def p119_append_args_of_def
  have cur: "p119_current sha ?st" using assms(1,2) by (rule p119_up_to_date)
  then have lg: "p119_log sha es" and snd: "p119_sound i s"
    using assms(4) p119_current_sound [OF cur] by (auto simp: p119_current_def)
  have known: "qs_state s \<in> set P119_INCIDENT_STATES" "\<not> p119_forbidden_text (qs_state s)"
    using snd p119_state_text by (auto simp: p119_sound_def)
  have ck: "p119_check_cas sha es ?a = Inr (qs_state s)" "p119_check_lease sha es ?a = Inr ()"
    "p119_dedupe sha es ?a = Inr ?a"
    using assms(4) by (simp_all add: defs p119_check_cas_def p119_check_lease_def rguard_def p119_dedupe_def)
  have tr: "p119_transition sha i next (qs_cas_version s) w reason ?st =
      op_bind (p119_append sha ?a) (\<lambda>_. op_raise (p119_ledger_error ''illegal_state_transition'')) ?st"
    using assms(4-6) by (simp add: p119_transition_def)
  show ?thesis
  proof (cases "p119_forbidden_text next")
    case True
    have "p119_reject_authority_boundary (qa_payload ?a) = Inl (p119_contract_error ''forbidden_authority_text'')"
      using True known by (simp add: defs p119_reject_authority_boundary_def p119_reject_plain rguard_def
          del: p119_reject_items.simps(2))
    then have "p119_timeline_event sha es tm x ?a = Inl (p119_contract_error ''forbidden_authority_text'')" for tm x
      by (simp add: p119_timeline_event_def build_timeline_event_def)
    then have "p119_plan_entry sha ?a es = Inl (p119_contract_error ''forbidden_authority_text'')"
      using ck previous_hash_valid [OF p119_log_valid [OF lg]] p119_log_previous_timeline [OF lg] p119_log_valid [OF lg]
      by (auto simp: p119_plan_entry_def p119_verify_eq)
    with True assms(2,3) tr show ?thesis
      by (simp add: p119_append_def wal_append_def op_bind_def)
  next
    case False
    obtain st' s' where "p119_transition sha i next (qs_cas_version s) w reason ?st =
         (st', Inl (p119_ledger_error ''illegal_state_transition''))" "p119_current sha st'"
      "p119_replay sha (ws_entries st') i = Inr s'" "qs_state s' = ''aborted_fail_closed''"
      "qs_cas_version s' = qs_cas_version s + 1"
      "\<forall>j. j \<noteq> i \<longrightarrow> p119_replay sha (ws_entries st') j = p119_replay sha es j"
      using p119_illegal_current [OF cur, of i s "next" w reason] assms(4-6) False by auto
    with False assms(3) show ?thesis by (simp add: p119_current_def returns_def)
  qed
qed

lemma p119_register_known:
  assumes load: "p119_load (ws_file st) = Inr es" and lg: "p119_log sha es"
    and "build_incident_envelope sha data = Inr env"
    and "pget (ie_payload env) ''idempotency_key'' = PStr key"
    and "p119_registered_under key es = Inr ids" and "ids \<noteq> []" and "p119_replay sha es (last ids) = Inr s"
  shows "case p119_register_incident sha env st of
      (st', out) \<Rightarrow>
        if pget (ie_payload env) ''payload_hash'' = PStr (qs_payload_hash s)
        then returns (\<lambda>r. qr_receipt_type r = ''idempotent_replay'' \<and> qr_incident_id r = last ids
               \<and> qr_state r = qs_state s \<and> qr_cas_version r = qs_cas_version s) out
          \<and> (\<forall>j. p119_replay sha (ws_entries st') j = p119_replay sha es j)
        else out = Inl (p119_ledger_error ''idempotency_key_payload_mismatch'')
          \<and> returns (\<lambda>s'. qs_state s' = ''aborted_fail_closed'' \<and> qs_cas_version s' = qs_cas_version s + 1)
               (p119_replay sha (ws_entries st') (last ids))
          \<and> load_entries (p119_ledger_error ''invalid_wal_entry'') (ws_file st') = Inr (ws_entries st')"
proof -
  have snd: "p119_sound (last ids) s" using lg assms(7) by (rule p119_log_sound)
  have id: "qs_incident_id s = last ids" using assms(7) by (rule p119_replay_incident_id)
  obtain a hash where a: "p119_registration env = Inr a" "qa_register a = Some (key, hash)"
    "pget (ie_payload env) ''payload_hash'' = PStr hash" "qa_expected_prior_cas a = None"
    "qa_expected_lease_owner a = None" "qa_expected_lease_expires_at a = None"
    using p119_registration_keys [OF assms(3,4)] by blast
  define a' where "a' = (if hash = qs_payload_hash s
     then a\<lparr>qa_incident_id := qs_incident_id s, qa_receipt_type := ''idempotent_replay'', qa_state := qs_state s,
            qa_cas_version := qs_cas_version s, qa_lease_owner_id := qs_lease_owner_id s,
            qa_timeline_event_type := ''dedupe_or_correlation_decision'',
            qa_payload := [(''reason'', PStr ''duplicate_idempotency_key'')]\<rparr>
     else a\<lparr>qa_incident_id := qs_incident_id s, qa_receipt_type := ''idempotency_conflict_fail_closed'',
            qa_state := ''aborted_fail_closed'', qa_cas_version := qs_cas_version s + 1,
            qa_lease_owner_id := qs_lease_owner_id s,
            qa_timeline_event_type := ''transition_rejected_fail_closed'',
            qa_payload := [(''reason'', PStr ''idempotency_key_payload_mismatch'')]\<rparr>)"
  have a': "p119_dedupe sha es a = Inr a'" "qa_incident_id a' = last ids"
    "p119_check_cas sha es a' = Inr (qa_state a')" "p119_check_lease sha es a' = Inr ()"
    "if hash = qs_payload_hash s then qa_receipt_type a' = ''idempotent_replay'' \<and> qa_state a' = qs_state s
       \<and> qa_cas_version a' = qs_cas_version s \<and> qa_timeline_event_type a' = ''dedupe_or_correlation_decision''
       \<and> qa_payload a' = [(''reason'', PStr ''duplicate_idempotency_key'')]
     else qa_receipt_type a' = ''idempotency_conflict_fail_closed'' \<and> qa_state a' = ''aborted_fail_closed''
       \<and> qa_cas_version a' = qs_cas_version s + 1 \<and> qa_timeline_event_type a' = ''transition_rejected_fail_closed''
       \<and> qa_payload a' = [(''reason'', PStr ''idempotency_key_payload_mismatch'')]"
    using a assms(5-7) id by (simp_all add: a'_def p119_dedupe_def p119_state_by_idempotency_key_def
        p119_check_cas_def p119_check_lease_def)
  have "p119_recordable (qa_state a') a'"
    using a' snd p119_plain_texts p119_other_event_types
    by (auto simp: p119_recordable_def p119_sound_def split: if_splits)
  with load lg a'(1,3,4) obtain e h ev where e: "e = seal_entry sha es h (p119_entry_body a' ev)"
    "previous_hash es = Inr h"
    "p119_append sha a st = (\<lparr>ws_file = ws_file st @ [WL_Json (PDict e)], ws_entries = es @ [e]\<rparr>,
       if qa_receipt_type a' = ''idempotency_conflict_fail_closed''
       then Inl (p119_ledger_error ''idempotency_key_payload_mismatch'') else Inr e)"
    by (auto elim!: p119_append_success [where st = st])
  have v: "wal_valid sha es" "wal_valid sha (es @ [e])"
    using p119_log_valid [OF lg] e by (simp_all add: seal_valid)
  have reg: "p119_register_incident sha env st = p119_append_receipt sha a st"
    by (simp add: p119_register_incident_def op_bind_def a)
  show ?thesis
  proof (cases "hash = qs_payload_hash s")
    case True
    with a'(5) have t: "qa_receipt_type a' = ''idempotent_replay''" by simp
    then have "p119_replay_step j e = Inr" for j
      by (auto simp: e(1) p119_step_sealed P119_STATE_RECEIPTS_def split: option.splits)
    then have "p119_replay sha (es @ [e]) j = p119_replay sha es j" for j
      using p119_replay_sealed_other v by (simp add: e(1))
    with True a'(2,5) a(3) e reg p119_receipt_of_sealed [of sha es h a' ev] show ?thesis
      by (auto simp: p119_append_receipt_def returns_def)
  next
    case False
    then have "p119_replay_step (last ids) e (Some s) = Inr (Some (s\<lparr>qs_state := ''aborted_fail_closed'',
        qs_cas_version := qs_cas_version s + 1, qs_timeline_hash := py_str (pget ev ''current_hash'')\<rparr>))"
      using a'(2,5) by (simp add: e(1) p119_step_sealed P119_STATE_RECEIPTS_def)
    then have "p119_replay sha (es @ [e]) (last ids) = Inr (s\<lparr>qs_state := ''aborted_fail_closed'',
        qs_cas_version := qs_cas_version s + 1, qs_timeline_hash := py_str (pget ev ''current_hash'')\<rparr>)"
      using v assms(7) by (simp add: p119_replay_Inr_iff p119_replay_loop_snoc)
    with False a'(5) a(3) e reg load show ?thesis
      by (simp add: p119_append_receipt_def returns_def load_entries_append)
  qed
qed

text \<open>A registration that went through is known from then on: repeating it changes no replayed state.\<close>

lemma p119_registered_under_snoc:
  "p119_registered_under key (es @ [e]) =
     rbind (p119_registered_under key es) (\<lambda>ids. rbind (p119_registered_under key [e]) (\<lambda>here. Inr (ids @ here)))"
proof (induction es)
  case Nil
  then show ?case by (cases "p119_registered_under key [e]") simp_all
next
  case (Cons d es)
  then show ?case
    by (cases "p119_registered_under key es"; cases "p119_registered_under key [e]")
       (simp_all add: rbind_def split: sum.splits)
qed

lemma p119_registered_under_sealed:
  "p119_registered_under key [seal_entry sha es h (p119_entry_body a ev)] =
     Inr (if qa_receipt_type a = ''incident_registered''
             \<and> py_eq (pget (as_dict (pget (qa_payload a) ''incident'')) ''idempotency_key'') (PStr key)
          then [qa_incident_id a] else [])"
proof -
  have "pindex (seal_entry sha es h (p119_entry_body a ev)) ''payload'' = Inr (PDict (qa_payload a))"
    by (simp add: seal_entry_def p119_entry_body_def Let_def)
  then show ?thesis by simp
qed

lemma p119_register_known_after:
  assumes cur: "p119_current sha st" and env: "build_incident_envelope sha data = Inr env"
    and reg: "p119_register_incident sha env st = (st1, Inr r1)"
  shows "\<exists>key ids s. pget (ie_payload env) ''idempotency_key'' = PStr key
     \<and> p119_registered_under key (ws_entries st1) = Inr ids \<and> ids \<noteq> [] \<and> last ids = qr_incident_id r1
     \<and> p119_replay sha (ws_entries st1) (last ids) = Inr s
     \<and> pget (ie_payload env) ''payload_hash'' = PStr (qs_payload_hash s) \<and> p119_current sha st1"
proof -
  let ?es = "ws_entries st"
  have lg: "p119_log sha ?es" and load: "p119_load (ws_file st) = Inr ?es" using cur by (simp_all add: p119_current_def)
  have cur1: "p119_current sha st1" using p119_call_current [OF cur, of "QC_Register env"] env reg by auto
  obtain a key hash f x where a: "p119_registration env = Inr a" "qa_register a = Some (key, hash)"
    "qa_receipt_type a = ''incident_registered''" "qa_payload a = [(''incident'', PDict (ie_payload env))]"
    "pget (ie_payload env) ''idempotency_key'' = PStr key"
    "\<exists>f x st c. \<forall>i es h ev. p119_registered_state i (seal_entry sha es h (p119_entry_body a ev)) (ie_payload env) =
       Inr \<lparr>qs_incident_id = i, qs_alert_fingerprint = f, qs_fixture_id = x, qs_state = st, qs_cas_version = c,
            qs_idempotency_key = key, qs_payload_hash = hash, qs_timeline_hash = py_str (pget ev ''current_hash''),
            qs_authority_counter_snapshot = p119_zero_counters, qs_lease_owner_id = None,
            qs_lease_expires_at = None\<rparr>"
    by (rule p119_registration_built [OF env]) blast
  have hash: "pget (ie_payload env) ''payload_hash'' = PStr hash"
    using p119_registration_keys [OF env a(5)] a(1,2) by auto
  from reg a(1) obtain e where app: "p119_append sha a st = (st1, Inr e)" and r1: "p119_receipt_from_entry e = Inr r1"
    by (auto simp: p119_register_incident_def p119_append_receipt_def op_bind_def split: prod.splits sum.splits)
  then have "wal_append (p119_ledger_error ''invalid_wal_entry'') (p119_plan_entry sha a) st = (st1, Inr e)"
    and nc: "pget e ''receipt_type'' \<noteq> PStr ''idempotency_conflict_fail_closed''"
    by (auto simp: p119_append_def op_bind_def split: prod.splits sum.splits if_splits)
  then have es1: "ws_entries st1 = ?es @ [e]" and plan: "p119_plan_entry sha a ?es = Inr e"
    using load by (auto elim!: wal_append_cases)
  from plan obtain a' h ev where dd: "p119_dedupe sha ?es a = Inr a'"
    and e: "e = seal_entry sha ?es h (p119_entry_body a' ev)" by (elim p119_plan_cases)
  have id: "qr_incident_id r1 = qa_incident_id a'"
    using p119_receipt_of_sealed [of sha ?es h a' ev] r1 by (auto simp: e)
  have v: "wal_valid sha ?es" "wal_valid sha (?es @ [e])"
    using p119_current_valid [OF cur] p119_current_valid [OF cur1] es1 by simp_all
  from dd show ?thesis
  proof (cases rule: p119_dedupe_cases)
    case (first key' hash')
    with a(2,6) have "\<exists>s. p119_replay_step (qa_incident_id a) e st' = Inr (Some s) \<and> qs_payload_hash s = hash" for st'
      using a(3,4) by (auto simp: e p119_step_sealed)
    moreover obtain st' where "p119_replay_loop (qa_incident_id a) ?es None = Inr st'"
      using p119_log_replay [OF lg] by blast
    ultimately obtain s where "p119_replay sha (?es @ [e]) (qa_incident_id a) = Inr s" "qs_payload_hash s = hash"
      using v by (fastforce simp: p119_replay_Inr_iff p119_replay_loop_snoc)
    moreover have "p119_registered_under key (?es @ [e]) = Inr [qa_incident_id a]"
      using first a by (simp add: p119_registered_under_snoc e p119_registered_under_sealed del: p119_registered_under.simps)
    ultimately show ?thesis using a(5) hash id first(3) cur1 es1 by auto
  next
    case (again key' hash' ids s)
    then have "p119_registered_under key (?es @ [e]) = Inr ids"
      using a(2) by (simp add: p119_registered_under_snoc e p119_registered_under_sealed del: p119_registered_under.simps)
    moreover have "p119_replay_step j e = Inr" for j
      using again(6) by (auto simp: e p119_step_sealed P119_STATE_RECEIPTS_def split: option.splits)
    then have "p119_replay sha (?es @ [e]) (last ids) = Inr s"
      using p119_replay_sealed_other v again(4) by (simp add: e)
    moreover have "qr_incident_id r1 = last ids" using id again(6) p119_replay_incident_id [OF again(4)] by simp
    ultimately show ?thesis using a(2,5) hash again(1,3,5) cur1 es1 by auto
  next
    case (conflict key' hash' ids s)
    with nc show ?thesis by (simp add: e)
  qed (use a in simp)
qed

lemma p119_register_twice:
  assumes cur: "p119_current sha st" and env: "build_incident_envelope sha data = Inr env"
    and reg: "p119_register_incident sha env st = (st1, Inr r1)"
  obtains st2 r2 where "p119_register_incident sha env st1 = (st2, Inr r2)"
    "qr_receipt_type r2 = ''idempotent_replay''" "qr_incident_id r2 = qr_incident_id r1"
    "\<forall>j. p119_replay sha (ws_entries st2) j = p119_replay sha (ws_entries st1) j"
proof -
  obtain key ids s where k: "pget (ie_payload env) ''idempotency_key'' = PStr key"
    "p119_registered_under key (ws_entries st1) = Inr ids" "ids \<noteq> []"
    "p119_replay sha (ws_entries st1) (last ids) = Inr s" "last ids = qr_incident_id r1"
    "pget (ie_payload env) ''payload_hash'' = PStr (qs_payload_hash s)" "p119_current sha st1"
    using p119_register_known_after [OF assms] by auto
  then have "p119_load (ws_file st1) = Inr (ws_entries st1)" "p119_log sha (ws_entries st1)"
    by (simp_all add: p119_current_def)
  from p119_register_known [OF this env k(1-4)] k(5,6) that show ?thesis
    by (auto simp: returns_def split: prod.splits sum.splits)
qed

text \<open>Registering under a known idempotency key: with the same payload hash every incident replays as
  before and the receipt reports the current state; with another payload hash the call raises and
  the known incident is aborted, one CAS version on, even when it had already ended (recovered,
  say).\<close>

theorem p119_registration_again:
  assumes "p119_reachable sha y" and "load_entries (p119_ledger_error ''invalid_wal_entry'') (sys_file y) = Inr es"
    and "build_incident_envelope sha data = Inr env"
    and "pget (ie_payload env) ''idempotency_key'' = PStr key"
    and "p119_registered_under key es = Inr ids" and "ids \<noteq> []" and "p119_replay sha es (last ids) = Inr s"
  shows "case p119_register_incident sha env \<lparr>ws_file = sys_file y, ws_entries = sys_cache y p\<rparr> of
      (st', out) \<Rightarrow>
        if pget (ie_payload env) ''payload_hash'' = PStr (qs_payload_hash s)
        then returns (\<lambda>r. qr_receipt_type r = ''idempotent_replay'' \<and> qr_incident_id r = last ids
               \<and> qr_state r = qs_state s \<and> qr_cas_version r = qs_cas_version s) out
          \<and> (\<forall>j. p119_replay sha (ws_entries st') j = p119_replay sha es j)
        else out = Inl (p119_ledger_error ''idempotency_key_payload_mismatch'')
          \<and> returns (\<lambda>s'. qs_state s' = ''aborted_fail_closed'' \<and> qs_cas_version s' = qs_cas_version s + 1)
               (p119_replay sha (ws_entries st') (last ids))
          \<and> load_entries (p119_ledger_error ''invalid_wal_entry'') (ws_file st') = Inr (ws_entries st')"
proof -
  have "p119_log sha es" using p119_shared.reachable_log [OF assms(1)] assms(2) by auto
  from p119_register_known [of "\<lparr>ws_file = sys_file y, ws_entries = sys_cache y p\<rparr>", OF _ this assms(3-7)] assms(2)
  show ?thesis by simp
qed

section \<open>The timeline is a chain of its own\<close>

definition timeline_events :: "pydict list \<Rightarrow> pydict list" where
  "timeline_events es = map (\<lambda>e. as_dict (pget e ''timeline_event'')) es"

definition event_pos_ok :: "nat \<Rightarrow> pydict \<Rightarrow> bool" where
  "event_pos_ok n e = (pget e ''timestamp'' = PInt (int n))"

definition event_prev :: "pydict \<Rightarrow> pyval" where
  "event_prev e = pget e ''previous_hash''"

definition event_own :: "pydict \<Rightarrow> pyval" where
  "event_own e = pget e ''current_hash''"

definition event_sealed :: "(string \<Rightarrow> string) \<Rightarrow> pydict \<Rightarrow> bool" where
  "event_sealed sha e = (pget e ''current_hash'' = PStr (stable_hash sha (PDict (pwithout [''current_hash''] e))))"

interpretation timeline: hash_chain event_pos_ok event_prev event_own "event_sealed sha" "PStr ''''" for sha
  by unfold_locales (simp add: event_pos_ok_def)

lemma p119_log_timeline:
  assumes "p119_log sha es"
  shows "timeline.valid sha (timeline_events es)
     \<and> (\<forall>n < length es. pget (es ! n) ''timeline_hash'' = event_own (timeline_events es ! n))"
  using assms
proof (induction rule: wal_log.induct)
  case empty
  then show ?case by (simp add: timeline_events_def timeline.valid_Nil)
next
  case (snoc es body h)
  then obtain x a tm ev where tm: "previous_timeline_hash es = Inr tm"
    and ev: "p119_timeline_event sha es tm x a = Inr ev" "body = p119_entry_body a ev"
    by (auto simp: p119_allowed_def)
  let ?e = "seal_entry sha es h body"
  have evs: "timeline_events (es @ [?e]) = timeline_events es @ [ev]" by (simp add: timeline_events_def ev)
  have "chain_tip event_own (PStr '''') (timeline_events es) = PStr tm"
  proof (cases es rule: rev_cases)
    case Nil
    with tm show ?thesis by (simp add: chain_tip_def timeline_events_def previous_timeline_hash_def)
  next
    case (snoc fs f)
    with \<open>wal_log sha (p119_allowed sha) es\<close> obtain b g v where f: "f = seal_entry sha fs g (p119_entry_body b v)"
      and v: "\<exists>tm x. p119_timeline_event sha fs tm x b = Inr v"
      by (elim wal_log_entry [where n = "length fs"]) (simp, simp add: p119_allowed_def, blast)
    from v have "\<exists>w. pget v ''current_hash'' = PStr w" by (auto simp: p119_timeline_event_Inr Let_def)
    with snoc f tm show ?thesis
      by (auto simp: chain_tip_def timeline_events_def previous_timeline_hash_def event_own_def)
  qed
  moreover have "event_pos_ok (length es) ev" "event_prev ev = PStr tm" "event_sealed sha ev"
    using ev(1) by (auto simp: p119_timeline_event_Inr Let_def event_pos_ok_def event_prev_def event_sealed_def)
  moreover have "pget ?e ''timeline_hash'' = event_own ev" by (simp add: ev event_own_def)
  moreover have "length (timeline_events es) = length es" by (simp add: timeline_events_def)
  ultimately show ?case using snoc.IH unfolding evs by (auto simp: timeline.valid_snoc nth_append less_Suc_eq)
qed

text \<open>The timeline events of a reachable log form a second hash chain, stamped with their position and
  tied to the entries that carry them; dropping, copying or reordering events is noticed, unless all
  that was done is to cut off a tail.\<close>

theorem p119_timeline_chain:
  assumes "p119_reachable sha y" and "load_entries (p119_ledger_error ''invalid_wal_entry'') (sys_file y) = Inr es"
  shows "chain_from event_pos_ok event_prev event_own (event_sealed sha) 0 (PStr '''') (timeline_events es)
     \<and> (\<forall>n < length es. pget (es ! n) ''timeline_hash'' = event_own (timeline_events es ! n))
     \<and> (\<forall>evs. chain_from event_pos_ok event_prev event_own (event_sealed sha) 0 (PStr '''') evs
          \<and> set evs \<subseteq> set (timeline_events es) \<longrightarrow> evs = take (length evs) (timeline_events es))"
proof -
  have "p119_log sha es" using p119_shared.reachable_log [OF assms(1)] assms(2) by auto
  from p119_log_timeline [OF this] timeline.valid_subset_prefix [of sha] show ?thesis
    unfolding timeline.valid_def by blast
qed

section \<open>Leases do not fence\<close>

text \<open>A lease that was taken over does not fence its former holder: leases do not advance the CAS
  version and \<open>_append\<close> does not look at the owner again, so a process whose cached lease belongs to it
  still enters a lease-required state, whoever holds the lease in the log by then.\<close>

theorem p119_stale_owner_not_fenced:
  assumes "p119_reachable sha y" and "load_entries (p119_ledger_error ''invalid_wal_entry'') (sys_file y) = Inr es"
    and "p119_replay sha (sys_cache y p) i = Inr c" and "qs_lease_owner_id c = Some w"
    and "p119_replay sha es i = Inr s" and "qs_state s = qs_state c" and "qs_cas_version s = qs_cas_version c"
    and "\<not> p119_terminal (qs_state s)" and "legal_transition (qs_state s) nx" and "\<not> p119_forbidden_text reason"
  shows "\<exists>st' r. p119_transition sha i nx (qs_cas_version c) (Some w) reason
       \<lparr>ws_file = sys_file y, ws_entries = sys_cache y p\<rparr> = (st', Inr r) \<and> qr_state r = nx
     \<and> qr_lease_owner_id r = Some w
     \<and> returns (\<lambda>s'. qs_state s' = nx \<and> qs_lease_owner_id s' = qs_lease_owner_id s) (p119_replay sha (ws_entries st') i)"
proof -
  let ?st = "\<lparr>ws_file = sys_file y, ws_entries = sys_cache y p\<rparr>"
    and ?a = "p119_transition_args i nx (qs_cas_version c) reason c"
  note defs = p119_transition_args_def p119_append_args_of_def
  obtain k where lg: "p119_log sha es" and k: "sys_cache y p = take k es"
    using p119_shared.reachable_log [OF assms(1)] assms(2) by auto
  have load: "p119_load (ws_file ?st) = Inr es" using assms(2) by simp
  have snd: "p119_sound i s" using lg assms(5) by (rule p119_log_sound)
  have "p119_sound i c"
    using wal_log_take [OF lg, of k] assms(3) unfolding k by (rule p119_log_sound)
  then have w: "w \<noteq> []" using assms(4) by (auto simp: p119_sound_def)
  have ck: "p119_dedupe sha es ?a = Inr ?a" "p119_check_cas sha es ?a = Inr (qs_state s)"
    "p119_check_lease sha es ?a = Inr ()"
    using assms(5-7) by (simp_all add: p119_dedupe_def p119_check_cas_def p119_check_lease_def defs rguard_def)
  have "nx \<in> set P119_INCIDENT_STATES" using assms(9) p119.succs_known by (auto simp: legal_transition_def)
  then have "p119_recordable (qs_state s) ?a"
    using snd assms(6,10) p119_state_text p119_event_types_known
    by (auto simp: p119_recordable_def defs p119_sound_def)
  from p119_append_success [OF load lg ck this] obtain e h ev where
    e: "e = seal_entry sha es h (p119_entry_body ?a ev)" "previous_hash es = Inr h"
    and app: "p119_append sha ?a ?st = (\<lparr>ws_file = ws_file ?st @ [WL_Json (PDict e)], ws_entries = es @ [e]\<rparr>,
       if qa_receipt_type ?a = ''idempotency_conflict_fail_closed''
       then Inl (p119_ledger_error ''idempotency_key_payload_mismatch'') else Inr e)" by blast
  have "\<exists>st'. ws_entries st' = es @ [e] \<and> p119_append sha ?a ?st = (st', Inr e)"
    using app by (simp add: defs)
  then obtain st' where st': "ws_entries st' = es @ [e]" "p119_append sha ?a ?st = (st', Inr e)" by blast
  obtain r where r: "p119_receipt_from_entry e = Inr r" "qr_state r = nx" "qr_lease_owner_id r = Some w"
    using p119_receipt_of_sealed [of sha es h ?a ev] assms(4) by (auto simp: e(1) defs)
  have "p119_transition sha i nx (qs_cas_version c) (Some w) reason ?st = (st', Inr r)"
    using assms(3,4,6,8,9) w st'(2) r(1) by (simp add: p119_transition_def p119_append_receipt_def)
  moreover have "p119_replay_step i e (Some s) = Inr (Some (s\<lparr>qs_state := nx,
      qs_cas_version := qs_cas_version c + 1, qs_timeline_hash := py_str (pget ev ''current_hash'')\<rparr>))"
    by (simp add: e(1) p119_step_sealed defs P119_STATE_RECEIPTS_def)
  then have "p119_replay sha (ws_entries st') i = Inr (s\<lparr>qs_state := nx,
      qs_cas_version := qs_cas_version c + 1, qs_timeline_hash := py_str (pget ev ''current_hash'')\<rparr>)"
    using assms(5) p119_log_valid [OF lg] e by (simp add: st'(1) p119_replay_Inr_iff p119_replay_loop_snoc seal_valid)
  ultimately show ?thesis using r by (auto simp: returns_def)
qed

end
