(* ===== verification/P119_Recovery.thy ===== *)
theory P119_Recovery
  imports P119_Props
begin

text \<open>
  Orphan inventory and crash recovery of incidents (\<open>app/services/p119_recovery.py\<close>).
\<close>

section \<open>The functions\<close>

record p119_recovery_result =
  vr_incident_id :: string
  vr_final_state :: string
  vr_duplicate_local_action_count :: int
  vr_rollback_attempt_count :: int
  vr_recovery_receipt_hash :: string

definition p119_recovery_result_of :: "(string \<Rightarrow> string) \<Rightarrow> string \<Rightarrow> string \<Rightarrow> int \<Rightarrow> p119_recovery_result" where
  "p119_recovery_result_of sha incident_id state attempts =
     \<lparr>vr_incident_id = incident_id, vr_final_state = state, vr_duplicate_local_action_count = 0,
      vr_rollback_attempt_count = attempts,
      vr_recovery_receipt_hash = stable_hash sha (PDict [(''incident_id'', PStr incident_id),
        (''state'', PStr state), (''rollback_attempts'', PInt attempts)])\<rparr>"

definition p119_replay_op :: "(string \<Rightarrow> string) \<Rightarrow> string \<Rightarrow> (wal_store, p119_state) op" where
  "p119_replay_op sha incident_id st = (st, p119_replay sha (ws_entries st) incident_id)"

text \<open>A transition followed by a fresh replay.\<close>

definition p119_advance ::
    "(string \<Rightarrow> string) \<Rightarrow> string \<Rightarrow> string \<Rightarrow> string option \<Rightarrow> string \<Rightarrow> p119_state \<Rightarrow> (wal_store, p119_state) op" where
  "p119_advance sha incident_id next_state owner reason s =
     op_bind (p119_transition sha incident_id next_state (qs_cas_version s) owner reason)
       (\<lambda>_. p119_replay_op sha incident_id)"

text \<open>The part of \<open>recover_p119_incident\<close> after the lease was taken.\<close>

definition p119_roll_back ::
    "(string \<Rightarrow> string) \<Rightarrow> string \<Rightarrow> string \<Rightarrow> p119_state \<Rightarrow> (wal_store, p119_recovery_result) op" where
  "p119_roll_back sha incident_id recovery_owner s =
     op_bind (if qs_state s \<in> {''local_executing'', ''validating''}
              then p119_advance sha incident_id ''rollback_pending'' (Some recovery_owner) ''crash_recovery'' s
              else op_return s) (\<lambda>s1.
     op_bind (if qs_state s1 = ''rollback_pending''
              then p119_advance sha incident_id ''rolling_back'' (Some recovery_owner) ''crash_recovery'' s1
              else op_return s1) (\<lambda>s2.
     let attempts = (if qs_state s1 = ''rollback_pending'' then 1 else 0) in
     op_bind (if qs_state s2 = ''rolling_back''
              then p119_advance sha incident_id ''orphaned_recovered'' (Some recovery_owner) ''rollback_postchecked'' s2
              else if \<not> p119_terminal (qs_state s2)
              then p119_advance sha incident_id ''aborted_fail_closed'' None ''pre_action_orphan'' s2
              else op_return s2) (\<lambda>s3.
     op_return (p119_recovery_result_of sha incident_id (qs_state s3) attempts))))"

definition recover_p119_store ::
    "(string \<Rightarrow> string) \<Rightarrow> string \<Rightarrow> string \<Rightarrow> int \<Rightarrow> (wal_store, p119_recovery_result) op" where
  "recover_p119_store sha incident_id recovery_owner now =
     op_bind (p119_replay_op sha incident_id) (\<lambda>s.
     if p119_terminal (qs_state s) then op_return (p119_recovery_result_of sha incident_id (qs_state s) 0)
     else if (case qs_lease_expires_at s of None \<Rightarrow> False | Some t \<Rightarrow> t > now)
     then op_raise (p119_ledger_error ''lease_not_expired'')
     else op_bind (p119_acquire_lease sha incident_id recovery_owner now 60) (\<lambda>_.
          op_bind (p119_replay_op sha incident_id) (p119_roll_back sha incident_id recovery_owner)))"

definition recover_p119_incident ::
    "(string \<Rightarrow> string) \<Rightarrow> wal_line list \<Rightarrow> string \<Rightarrow> string \<Rightarrow> int \<Rightarrow> wal_line list \<times> p119_recovery_result result" where
  "recover_p119_incident sha ls incident_id recovery_owner now =
     (case p119_open ls of
        Inl x \<Rightarrow> (ls, Inl x)
      | Inr st \<Rightarrow> (let (st', out) = recover_p119_store sha incident_id recovery_owner now st in (ws_file st', out)))"

fun p119_incident_ids :: "pydict list \<Rightarrow> string list result" where
  "p119_incident_ids [] = Inr []"
| "p119_incident_ids (e # es) =
     rbind (if py_eq (pget e ''receipt_type'') (PStr ''incident_registered'')
            then rbind (pindex e ''incident_id'') (\<lambda>i. Inr [py_str i]) else Inr []) (\<lambda>here.
     rbind (p119_incident_ids es) (\<lambda>rest. Inr (here @ rest)))"

record p119_inventory =
  iv_expired_leases :: "string list"
  iv_pending_rollback :: "string list"
  iv_unterminated_incidents :: "string list"

text \<open>The loop runs over a set; its three results are sorted, so the model runs over the sorted set.\<close>

definition inventory_p119_orphans :: "(string \<Rightarrow> string) \<Rightarrow> wal_line list \<Rightarrow> int \<Rightarrow> p119_inventory result" where
  "inventory_p119_orphans sha ls now =
     rbind (p119_open ls) (\<lambda>st.
     rbind (p119_incident_ids (ws_entries st)) (\<lambda>ids.
     rbind (rmap (\<lambda>i. rbind (p119_replay sha (ws_entries st) i) (\<lambda>s. Inr (i, s))) (sort (remdups ids))) (\<lambda>states.
     let unterminated = filter (\<lambda>(i, s). \<not> p119_terminal (qs_state s)) states;
         expired = filter (\<lambda>(i, s). case qs_lease_expires_at s of None \<Rightarrow> False | Some t \<Rightarrow> t \<le> now) unterminated;
         pending = filter (\<lambda>(i, s). qs_state s \<in> {''local_executing'', ''validating'', ''rollback_pending'',
                     ''rolling_back''}) expired
     in Inr \<lparr>iv_expired_leases = map fst expired, iv_pending_rollback = map fst pending,
             iv_unterminated_incidents = map fst unterminated\<rparr>)))"

text \<open>\<open>stable_hash\<close> of a dataclass falls back to its \<open>repr\<close>.\<close>

definition repr_opt_str :: "string option \<Rightarrow> string" where
  "repr_opt_str v = (case v of None \<Rightarrow> ''None'' | Some s \<Rightarrow> repr_str s)"

definition p119_state_repr :: "p119_state \<Rightarrow> string" where
  "p119_state_repr s = ''P119IncidentState(incident_id='' @ repr_str (qs_incident_id s)
     @ '', alert_fingerprint='' @ repr_str (qs_alert_fingerprint s) @ '', fixture_id='' @ repr_str (qs_fixture_id s)
     @ '', state='' @ repr_str (qs_state s) @ '', cas_version='' @ show_int (qs_cas_version s)
     @ '', idempotency_key='' @ repr_str (qs_idempotency_key s) @ '', payload_hash='' @ repr_str (qs_payload_hash s)
     @ '', timeline_hash='' @ repr_str (qs_timeline_hash s)
     @ '', authority_counter_snapshot='' @ py_repr (PDict (qs_authority_counter_snapshot s))
     @ '', lease_owner_id='' @ repr_opt_str (qs_lease_owner_id s)
     @ '', lease_expires_at='' @ (case qs_lease_expires_at s of None \<Rightarrow> ''None'' | Some t \<Rightarrow> show_int t) @ '')''"

definition replay_p119_terminal_read_only :: "(string \<Rightarrow> string) \<Rightarrow> wal_line list \<Rightarrow> string \<Rightarrow> pydict result" where
  "replay_p119_terminal_read_only sha ls incident_id =
     rbind (p119_open ls) (\<lambda>st.
     rbind (p119_replay sha (ws_entries st) incident_id) (\<lambda>s.
     if \<not> p119_terminal (qs_state s) then Inl (p119_ledger_error ''nonterminal_replay'')
     else Inr [(''incident_id'', PStr incident_id), (''state'', PStr (qs_state s)),
               (''cas_version'', PInt (qs_cas_version s)), (''timeline_hash'', PStr (qs_timeline_hash s)),
               (''duplicate_local_action_count'', PInt 0), (''replay_drift'', PInt 0),
               (''replay_hash'', PStr (stable_hash sha (PStr (p119_state_repr s))))]))"

section \<open>Recovery settles every orphan\<close>

text \<open>Incident \<open>i\<close> of an up-to-date store is in state \<open>x\<close> under a lease of \<open>w\<close>.\<close>

definition p119_held :: "(string \<Rightarrow> string) \<Rightarrow> wal_store \<Rightarrow> string \<Rightarrow> string \<Rightarrow> string \<Rightarrow> p119_state \<Rightarrow> bool" where
  "p119_held sha st i x w s \<longleftrightarrow> p119_current sha st \<and> p119_replay sha (ws_entries st) i = Inr s
     \<and> qs_state s = x \<and> qs_lease_owner_id s = Some w"

lemma p119_recovery_texts:
  "\<not> p119_forbidden_text ''crash_recovery''" "\<not> p119_forbidden_text ''rollback_postchecked''"
  "\<not> p119_forbidden_text ''pre_action_orphan''"
  by code_simp+

lemma p119_recovery_steps:
  "legal_transition ''local_executing'' ''rollback_pending''" "legal_transition ''validating'' ''rollback_pending''"
  "legal_transition ''rollback_pending'' ''rolling_back''" "legal_transition ''rolling_back'' ''orphaned_recovered''"
  "\<not> p119_terminal ''local_executing''" "\<not> p119_terminal ''validating''" "\<not> p119_terminal ''rollback_pending''"
  "\<not> p119_terminal ''rolling_back''" "p119_terminal ''orphaned_recovered''" "p119_terminal ''aborted_fail_closed''"
  "''aborted_fail_closed'' \<notin> set LEASE_REQUIRED_TO_ENTER"
  by code_simp+

lemma p119_advance_held:
  assumes h: "p119_held sha st i x w s" and "\<not> p119_terminal x" and "legal_transition x nx"
    and "nx \<in> set LEASE_REQUIRED_TO_ENTER \<Longrightarrow> owner = Some w" and "\<not> p119_forbidden_text reason"
  shows "\<exists>st' s'. p119_advance sha i nx owner reason s st = (st', Inr s') \<and> p119_held sha st' i nx w s'"
proof -
  from h have hs: "p119_current sha st" "p119_replay sha (ws_entries st) i = Inr s" "qs_state s = x"
    "qs_lease_owner_id s = Some w" by (simp_all add: p119_held_def)
  have "\<exists>st' r s'. p119_transition sha i nx (qs_cas_version s) owner reason st = (st', Inr r) \<and> p119_current sha st'
     \<and> p119_replay sha (ws_entries st') i = Inr s' \<and> qs_state s' = nx \<and> qs_cas_version s' = qs_cas_version s + 1
     \<and> qs_lease_owner_id s' = qs_lease_owner_id s \<and> qs_lease_expires_at s' = qs_lease_expires_at s
     \<and> qr_state r = nx \<and> qr_cas_version r = qs_cas_version s + 1"
    by (rule p119_transition_current) (use hs assms in auto)
  with hs show ?thesis by (auto simp: p119_advance_def p119_replay_op_def p119_held_def)
qed

text \<open>Where recovery takes an incident, and how many rollbacks it starts.\<close>

definition p119_recovery_target :: "string \<Rightarrow> string \<times> int" where
  "p119_recovery_target x =
     (if x \<in> {''local_executing'', ''validating'', ''rollback_pending''} then (''orphaned_recovered'', 1)
      else if x = ''rolling_back'' then (''orphaned_recovered'', 0) else (''aborted_fail_closed'', 0))"

lemma p119_roll_back_rolling:
  assumes "p119_held sha st i x w s"
    and "x \<in> {''local_executing'', ''validating'', ''rollback_pending'', ''rolling_back''}"
  shows "\<exists>st' s'. p119_roll_back sha i w s st =
       (st', Inr (p119_recovery_result_of sha i ''orphaned_recovered'' (snd (p119_recovery_target x))))
     \<and> p119_held sha st' i ''orphaned_recovered'' w s'"
proof -
  have st: "qs_state s = x" using assms(1) by (simp add: p119_held_def)
  let ?m1 = "if qs_state s \<in> {''local_executing'', ''validating''}
       then p119_advance sha i ''rollback_pending'' (Some w) ''crash_recovery'' s else op_return s"
  obtain st1 s1 x1 where 1: "?m1 st = (st1, Inr s1)"
    and h1: "p119_held sha st1 i x1 w s1" and x1: "x1 = (if x = ''rolling_back'' then x else ''rollback_pending'')"
  proof (cases "x \<in> {''local_executing'', ''validating''}")
    case True
    with p119_advance_held [OF assms(1), of "''rollback_pending''" "Some w" "''crash_recovery''"] st
      p119_recovery_steps p119_recovery_texts that show ?thesis by auto
  next
    case False
    with assms st that [of st s x] show ?thesis by auto
  qed
  have st1: "qs_state s1 = x1" using h1 by (simp add: p119_held_def)
  let ?m2 = "if qs_state s1 = ''rollback_pending''
       then p119_advance sha i ''rolling_back'' (Some w) ''crash_recovery'' s1 else op_return s1"
  obtain st2 s2 where 2: "?m2 st1 = (st2, Inr s2)"
    and h2: "p119_held sha st2 i ''rolling_back'' w s2"
    using p119_advance_held [OF h1, of "''rolling_back''" "Some w" "''crash_recovery''"] h1 st1 x1
      p119_recovery_steps p119_recovery_texts by (cases "x = ''rolling_back''") auto
  obtain st3 s3 where 3: "p119_advance sha i ''orphaned_recovered'' (Some w) ''rollback_postchecked'' s2 st2 = (st3, Inr s3)"
    and h3: "p119_held sha st3 i ''orphaned_recovered'' w s3"
    using p119_advance_held [OF h2, of "''orphaned_recovered''" "Some w" "''rollback_postchecked''"]
      p119_recovery_steps p119_recovery_texts by auto
  have "qs_state s2 = ''rolling_back''" "qs_state s3 = ''orphaned_recovered''"
    using h2 h3 by (simp_all add: p119_held_def)
  then have "p119_roll_back sha i w s st = (st3, Inr (p119_recovery_result_of sha i ''orphaned_recovered''
      (if x1 = ''rollback_pending'' then 1 else 0)))"
    unfolding p119_roll_back_def Let_def op_bind_Inr [of ?m1 st, OF 1] op_bind_Inr [of ?m2 st1, OF 2]
    using 3 st1 by simp
  moreover have "snd (p119_recovery_target x) = (if x1 = ''rollback_pending'' then 1 else 0)"
    using assms(2) by (auto simp: p119_recovery_target_def x1)
  ultimately show ?thesis using h3 by auto
qed

lemma p119_roll_back_early:
  assumes "p119_held sha st i x w s" and "\<not> p119_terminal x"
    and "x \<notin> {''local_executing'', ''validating'', ''rollback_pending'', ''rolling_back''}"
  shows "\<exists>st' s'. p119_roll_back sha i w s st = (st', Inr (p119_recovery_result_of sha i ''aborted_fail_closed'' 0))
     \<and> p119_held sha st' i ''aborted_fail_closed'' w s'"
proof -
  have st: "qs_state s = x" and known: "x \<in> set P119_INCIDENT_STATES"
    using assms(1) p119_current_sound by (auto simp: p119_held_def p119_sound_def)
  obtain st' s' where "p119_advance sha i ''aborted_fail_closed'' None ''pre_action_orphan'' s st = (st', Inr s')"
    "p119_held sha st' i ''aborted_fail_closed'' w s'"
    using p119_advance_held [OF assms(1,2) p119_abort_legal [OF known assms(2)], of None "''pre_action_orphan''"]
      p119_recovery_steps p119_recovery_texts by auto
  then show ?thesis using assms st by (auto simp: p119_roll_back_def Let_def op_bind_def p119_held_def)
qed

lemma p119_recovery_store:
  assumes cur: "p119_current sha st" and s: "p119_replay sha (ws_entries st) i = Inr s"
    and nt: "\<not> p119_terminal (qs_state s)" and exp: "\<forall>t. qs_lease_expires_at s = Some t \<longrightarrow> t \<le> now"
    and w: "w \<noteq> []" "\<not> p119_forbidden_text w"
  shows "\<exists>st' s'. recover_p119_store sha i w now st =
       (st', Inr (p119_recovery_result_of sha i (fst (p119_recovery_target (qs_state s))) (snd (p119_recovery_target (qs_state s)))))
     \<and> p119_held sha st' i (fst (p119_recovery_target (qs_state s))) w s'"
proof -
  have "\<not> p119_lease_live s now w" using exp by (auto simp: p119_lease_live_def split: option.splits)
  from p119_lease_current [OF cur s w this, of 60] obtain st1 r s1 where
    l: "p119_acquire_lease sha i w now 60 st = (st1, Inr r)" and h: "p119_held sha st1 i (qs_state s) w s1"
    by (auto simp: p119_held_def)
  have rec: "recover_p119_store sha i w now st = p119_roll_back sha i w s1 st1"
    using s nt exp l h by (auto simp: recover_p119_store_def p119_replay_op_def op_bind_def p119_held_def split: option.splits)
  show ?thesis
  proof (cases "qs_state s \<in> {''local_executing'', ''validating'', ''rollback_pending'', ''rolling_back''}")
    case True
    then have "fst (p119_recovery_target (qs_state s)) = ''orphaned_recovered''"
      by (auto simp: p119_recovery_target_def)
    with p119_roll_back_rolling [OF h True] rec show ?thesis by simp
  next
    case False
    then have "p119_recovery_target (qs_state s) = (''aborted_fail_closed'', 0)"
      by (auto simp: p119_recovery_target_def)
    with p119_roll_back_early [OF h nt False] rec show ?thesis by simp
  qed
qed

text \<open>C11. Recovery returns and settles every incident that has not ended and has no live lease: one caught
  while executing, validating or rolling back becomes \<open>orphaned_recovered\<close>, one in any other state is
  aborted (also one in \<open>learning\<close>, which comes after the action); the file then replays to that terminal
  state, held by the recovering owner.  A rollback is counted exactly when it had not started: for an
  incident caught executing, validating or with its rollback pending.\<close>

theorem p119_recovery_settles:
  assumes "p119_reachable sha y" and "load_entries (p119_ledger_error ''invalid_wal_entry'') (sys_file y) = Inr es"
    and "p119_replay sha es i = Inr s" and "\<not> p119_terminal (qs_state s)"
    and "\<forall>t. qs_lease_expires_at s = Some t \<longrightarrow> t \<le> now" and "w \<noteq> []" and "\<not> p119_forbidden_text w"
  shows "\<exists>ls' es' r s'. recover_p119_incident sha (sys_file y) i w now = (ls', Inr r)
     \<and> load_entries (p119_ledger_error ''invalid_wal_entry'') ls' = Inr es' \<and> p119_replay sha es' i = Inr s'
     \<and> p119_terminal (qs_state s') \<and> vr_final_state r = qs_state s' \<and> qs_lease_owner_id s' = Some w
     \<and> qs_state s' = (if qs_state s \<in> {''local_executing'', ''validating'', ''rollback_pending'', ''rolling_back''}
                       then ''orphaned_recovered'' else ''aborted_fail_closed'')
     \<and> vr_rollback_attempt_count r =
         (if qs_state s \<in> {''local_executing'', ''validating'', ''rollback_pending''} then 1 else 0)"
proof -
  let ?st = "\<lparr>ws_file = sys_file y, ws_entries = es\<rparr>" and ?t = "p119_recovery_target (qs_state s)"
  have cur: "p119_current sha ?st" using assms(1,2) by (rule p119_up_to_date)
  from p119_recovery_store [OF this _ assms(4-7), of i] assms(3) obtain st' s' where
    r: "recover_p119_store sha i w now ?st = (st', Inr (p119_recovery_result_of sha i (fst ?t) (snd ?t)))"
    and h: "p119_held sha st' i (fst ?t) w s'" by auto
  have "recover_p119_incident sha (sys_file y) i w now =
      (ws_file st', Inr (p119_recovery_result_of sha i (fst ?t) (snd ?t)))"
    using r assms(2) by (simp add: recover_p119_incident_def p119_open_def)
  with h p119_recovery_steps show ?thesis
    by (auto simp: p119_held_def p119_current_def p119_recovery_result_of_def p119_recovery_target_def)
qed

end
