(* ===== verification/P119_Scheduler.thy ===== *)
theory P119_Scheduler
  imports P119_Recovery
begin

text \<open>
  Alert intake and budgets (\<open>app/services/p119_scheduler.py\<close>): deduplication by fingerprint,
  correlation by fixture, and the budget decision on an incident.
\<close>

section \<open>The scheduler\<close>

definition p119_scheduler_error :: "string \<Rightarrow> exn" where
  "p119_scheduler_error m = Raised ''P119SchedulerError'' m"

record p119_decision =
  sn_outcome :: string
  sn_incident_id :: string
  sn_reason :: string
  sn_receipt :: p119_receipt
  sn_correlated_incident_ids :: "string list"
  sn_authority_counter_snapshot :: pydict

definition p119_decision_of ::
    "string \<Rightarrow> string \<Rightarrow> string \<Rightarrow> p119_receipt \<Rightarrow> string list \<Rightarrow> p119_decision" where
  "p119_decision_of outcome incident_id reason receipt correlated =
     \<lparr>sn_outcome = outcome, sn_incident_id = incident_id, sn_reason = reason, sn_receipt = receipt,
      sn_correlated_incident_ids = correlated, sn_authority_counter_snapshot = p119_zero_counters\<rparr>"

text \<open>The sets of the index are lists without duplicates; they are only read sorted.\<close>

record p119_scheduler =
  sd_ledger :: wal_store
  sd_frozen_manifest_hash :: string
  sd_active_by_fingerprint :: "string \<Rightarrow> string option"
  sd_incident_by_fingerprint :: "string \<Rightarrow> p119_envelope option"
  sd_fixture_index :: "string \<Rightarrow> string list option"
  sd_terminal_by_fingerprint :: "string list"

definition p119_scheduler_init :: "wal_store \<Rightarrow> string \<Rightarrow> p119_scheduler" where
  "p119_scheduler_init ledger frozen_manifest_hash =
     \<lparr>sd_ledger = ledger, sd_frozen_manifest_hash = frozen_manifest_hash,
      sd_active_by_fingerprint = (\<lambda>_. None), sd_incident_by_fingerprint = (\<lambda>_. None),
      sd_fixture_index = (\<lambda>_. None), sd_terminal_by_fingerprint = []\<rparr>"

text \<open>An operation of the ledger, run on the ledger of the scheduler.\<close>

definition on_ledger :: "(wal_store, 'a) op \<Rightarrow> (p119_scheduler, 'a) op" where
  "on_ledger m sd = (let (st, out) = m (sd_ledger sd) in (sd\<lparr>sd_ledger := st\<rparr>, out))"

definition sched_required_text :: "pydict \<Rightarrow> string \<Rightarrow> string result" where
  "sched_required_text data key =
     (case pget data key of
        PStr s \<Rightarrow> if py_strip s = [] then Inl (p119_scheduler_error (''missing_'' @ key)) else Inr (py_strip s)
      | _ \<Rightarrow> Inl (p119_scheduler_error (''missing_'' @ key)))"

text \<open>A contract error is raised again as a scheduler error with the same text.\<close>

definition sched_fixture :: "pyval \<Rightarrow> string result" where
  "sched_fixture value =
     (case value of
        PStr s \<Rightarrow>
          if \<not> list_ex (py_startswith s) LOCAL_TARGET_PREFIXES
          then Inl (p119_scheduler_error ''invalid_fixture_id'')
          else (case p119_reject_authority_boundary [(''fixture_id'', PStr s)] of
                  Inl (Raised c m) \<Rightarrow> Inl (p119_scheduler_error m)
                | Inr _ \<Rightarrow> Inr s)
      | _ \<Rightarrow> Inl (p119_scheduler_error ''invalid_fixture_id''))"

definition sched_budget :: "pydict \<Rightarrow> pydict result" where
  "sched_budget alert =
     (case pget alert ''budget_snapshot'' of
        PDict d \<Rightarrow> if d = [] then Inl (p119_scheduler_error ''missing_budget_snapshot'') else Inr d
      | _ \<Rightarrow> Inl (p119_scheduler_error ''missing_budget_snapshot''))"

definition BUDGET_KEYS :: "string list" where
  "BUDGET_KEYS = [''incident_wall_clock_budget'', ''per_state_timeout'', ''evidence_attempts_remaining'',
     ''approval_wait_remaining'', ''validation_window_remaining'', ''rollback_window_remaining'',
     ''retry_remaining'', ''wal_entries_remaining'']"

definition exhausted_budget_reason :: "pydict \<Rightarrow> string option" where
  "exhausted_budget_reason budget =
     List.find (\<lambda>k. case strict_int (pget budget k) of None \<Rightarrow> False | Some v \<Rightarrow> v \<le> 0) BUDGET_KEYS"

text \<open>What \<open>ingest_alert\<close> checks before it looks at the incidents it knows.\<close>

definition alert_checks :: "p119_scheduler \<Rightarrow> pydict \<Rightarrow> (string \<times> string \<times> string) result" where
  "alert_checks sd alert =
     rbind (sched_required_text alert ''alert_fingerprint'') (\<lambda>fingerprint.
     rbind (sched_fixture (pget alert ''fixture_id'')) (\<lambda>fixture_id.
     rbind (p119_reject_authority_boundary alert) (\<lambda>_.
     rbind (sched_required_text alert ''incident_id'') (\<lambda>incident_id.
     rbind (rguard (\<not> py_eq (pget alert ''manifest_hash'') (PStr (sd_frozen_manifest_hash sd)))
              (p119_scheduler_error ''stale_frozen_manifest_hash'')) (\<lambda>_.
     rbind (rguard (fingerprint \<in> set (sd_terminal_by_fingerprint sd) \<and> pget alert ''recurrence_receipt'' = PNone)
              (p119_scheduler_error ''stale_alert_replay'')) (\<lambda>_.
     Inr (fingerprint, fixture_id, incident_id)))))))"

definition alert_incident ::
    "(string \<Rightarrow> string) \<Rightarrow> pydict \<Rightarrow> int \<Rightarrow> string \<Rightarrow> string \<Rightarrow> string \<Rightarrow> p119_envelope result" where
  "alert_incident sha alert now fingerprint fixture_id incident_id =
     rbind (sched_required_text alert ''idempotency_key'') (\<lambda>key.
     rbind (sched_budget alert) (\<lambda>budget.
     build_incident_envelope sha
       [(''incident_id'', PStr incident_id), (''schema_version'', PStr ''p119.incident_envelope.v1''),
        (''alert_fingerprint'', PStr fingerprint), (''fixture_id'', PStr fixture_id), (''state'', PStr ''detected''),
        (''wal_position'', PInt 0), (''cas_version'', PInt 0), (''idempotency_key'', PStr key),
        (''budget_snapshot'', PDict budget),
        (''timeline_hash'', PStr (stable_hash sha (PDict [(''incident_id'', PStr incident_id),
           (''alert_fingerprint'', PStr fingerprint), (''now'', PInt now)]))),
        (''replay_refs'', PList [PStr ''replay:alert-fixture'']),
        (''authority_counter_snapshot'', PDict p119_zero_counters)]))"

definition remember_incident ::
    "string \<Rightarrow> string \<Rightarrow> string \<Rightarrow> p119_envelope \<Rightarrow> p119_scheduler \<Rightarrow> p119_scheduler" where
  "remember_incident fingerprint fixture_id incident_id incident sd =
     sd\<lparr>sd_active_by_fingerprint := (sd_active_by_fingerprint sd)(fingerprint \<mapsto> incident_id),
        sd_incident_by_fingerprint := (sd_incident_by_fingerprint sd)(fingerprint \<mapsto> incident),
        sd_fixture_index := (sd_fixture_index sd)(fixture_id \<mapsto>
          List.insert incident_id (case sd_fixture_index sd fixture_id of None \<Rightarrow> [] | Some xs \<Rightarrow> xs))\<rparr>"

definition ingest_alert ::
    "(string \<Rightarrow> string) \<Rightarrow> pydict \<Rightarrow> int \<Rightarrow> (p119_scheduler, p119_decision) op" where
  "ingest_alert sha alert now sd =
     (case alert_checks sd alert of
        Inl x \<Rightarrow> (sd, Inl x)
      | Inr (fingerprint, fixture_id, incident_id) \<Rightarrow>
          (case sd_active_by_fingerprint sd fingerprint of
             Some existing_id \<Rightarrow>
               (case sd_incident_by_fingerprint sd fingerprint of
                  None \<Rightarrow> (sd, Inl (Raised ''KeyError'' fingerprint))
                | Some incident \<Rightarrow>
                    op_bind (on_ledger (p119_register_incident sha incident)) (\<lambda>receipt.
                    op_return (p119_decision_of ''deduplicated'' existing_id ''duplicate_alert_fingerprint'' receipt [])) sd)
           | None \<Rightarrow>
               let correlated = sort (case sd_fixture_index sd fixture_id of None \<Rightarrow> [] | Some xs \<Rightarrow> xs) in
               (case alert_incident sha alert now fingerprint fixture_id incident_id of
                  Inl x \<Rightarrow> (sd, Inl x)
                | Inr incident \<Rightarrow>
                    op_bind (on_ledger (p119_register_incident sha incident)) (\<lambda>receipt sd'.
                      (remember_incident fingerprint fixture_id incident_id incident sd',
                       Inr (p119_decision_of (if correlated = [] then ''created'' else ''correlated'') incident_id
                              (if correlated = [] then ''new_alert'' else ''near_duplicate_fixture_alert'')
                              receipt correlated))) sd)))"

definition budget_target :: "string option \<Rightarrow> string" where
  "budget_target exhausted =
     (case exhausted of
        None \<Rightarrow> ''triage_started''
      | Some k \<Rightarrow> if k \<in> {''incident_wall_clock_budget'', ''per_state_timeout''} then ''expired'' else ''escalated'')"

definition evaluate_budget ::
    "(string \<Rightarrow> string) \<Rightarrow> string \<Rightarrow> pydict \<Rightarrow> (p119_scheduler, p119_decision) op" where
  "evaluate_budget sha incident_id budget_snapshot =
     (let exhausted = exhausted_budget_reason budget_snapshot; target = budget_target exhausted in
      op_bind (on_ledger (p119_replay_op sha incident_id)) (\<lambda>s.
      case exhausted of
        None \<Rightarrow>
          op_bind (on_ledger (p119_transition sha incident_id target (qs_cas_version s) None ''state_transition''))
            (\<lambda>receipt. op_return (p119_decision_of ''scheduled'' incident_id ''budget_available'' receipt []))
      | Some k \<Rightarrow>
          op_bind (on_ledger (p119_transition sha incident_id target (qs_cas_version s) None k)) (\<lambda>receipt sd.
            (sd\<lparr>sd_terminal_by_fingerprint := List.insert (qs_alert_fingerprint s) (sd_terminal_by_fingerprint sd)\<rparr>,
             Inr (p119_decision_of target incident_id k receipt [])))))"

section \<open>A scheduler that owns its file\<close>

inductive sched_reachable :: "(string \<Rightarrow> string) \<Rightarrow> string \<Rightarrow> p119_scheduler \<Rightarrow> bool" for sha h where
  start: "sched_reachable sha h (p119_scheduler_init \<lparr>ws_file = [], ws_entries = []\<rparr> h)"
| ingest: "sched_reachable sha h sd \<Longrightarrow> sched_reachable sha h (fst (ingest_alert sha alert now sd))"
| budget: "sched_reachable sha h sd \<Longrightarrow> sched_reachable sha h (fst (evaluate_budget sha i b sd))"

definition sched_ok :: "(string \<Rightarrow> string) \<Rightarrow> p119_scheduler \<Rightarrow> bool" where
  "sched_ok sha sd \<longleftrightarrow> p119_current sha (sd_ledger sd)
     \<and> (\<forall>f i. sd_active_by_fingerprint sd f = Some i \<longrightarrow>
          (\<exists>env data. sd_incident_by_fingerprint sd f = Some env \<and> build_incident_envelope sha data = Inr env))"

lemma sched_okD: "sched_ok sha sd \<Longrightarrow> p119_current sha (sd_ledger sd)"
  by (simp add: sched_ok_def)

lemma sched_ok_known:
  assumes "sched_ok sha sd" and "sd_active_by_fingerprint sd f = Some i"
  obtains env where "sd_incident_by_fingerprint sd f = Some env" "\<exists>data. build_incident_envelope sha data = Inr env"
  using assms unfolding sched_ok_def by blast

lemma sched_ok_ledger:
  assumes "sched_ok sha sd" and "p119_call_ok sha c"
  shows "sched_ok sha (sd\<lparr>sd_ledger := p119_call_store sha c (sd_ledger sd)\<rparr>)"
  using assms p119_call_current by (auto simp: sched_ok_def)

lemma alert_incident_built:
  "alert_incident sha alert now f x i = Inr env \<Longrightarrow> \<exists>data. build_incident_envelope sha data = Inr env"
  by (auto simp: alert_incident_def rbind_Inr_iff)

lemma ingest_ok: "sched_ok sha sd \<Longrightarrow> sched_ok sha (fst (ingest_alert sha alert now sd))"
proof (cases "alert_checks sd alert")
  case (Inl x)
  assume "sched_ok sha sd"
  with Inl show ?thesis by (simp add: ingest_alert_def)
next
  case (Inr t)
  assume ok: "sched_ok sha sd"
  obtain f x i where t: "t = (f, x, i)" by (cases t) auto
  have led: "sched_ok sha (sd\<lparr>sd_ledger := fst (p119_register_incident sha env (sd_ledger sd))\<rparr>)"
    if "\<exists>data. build_incident_envelope sha data = Inr env" for env
    using sched_ok_ledger [OF ok, of "QC_Register env"] that by simp
  have rem: "sched_ok sha sd' \<Longrightarrow> \<exists>data. build_incident_envelope sha data = Inr env \<Longrightarrow>
      sched_ok sha (remember_incident f x i env sd')" for env sd'
    by (auto simp: sched_ok_def remember_incident_def)
  show ?thesis
  proof (cases "sd_active_by_fingerprint sd f")
    case None
    show ?thesis
    proof (cases "alert_incident sha alert now f x i")
      case (Inl e)
      with Inr t None ok show ?thesis by (simp add: ingest_alert_def Let_def)
    next
      case env: (Inr env)
      obtain st out where reg: "p119_register_incident sha env (sd_ledger sd) = (st, out)" by fastforce
      with led [of env] alert_incident_built [OF env] have "sched_ok sha (sd\<lparr>sd_ledger := st\<rparr>)" by simp
      with rem [of _ env] alert_incident_built [OF env] reg Inr t None env show ?thesis
        by (cases out) (simp_all add: ingest_alert_def Let_def op_bind_def on_ledger_def)
    qed
  next
    case (Some existing)
    with ok obtain env where "sd_incident_by_fingerprint sd f = Some env" "\<exists>data. build_incident_envelope sha data = Inr env"
      by (rule sched_ok_known)
    with led [of env] Inr t Some show ?thesis
      by (auto simp: ingest_alert_def op_bind_def on_ledger_def split: prod.splits sum.splits)
  qed
qed

lemma budget_ok:
  assumes "sched_ok sha sd"
  shows "sched_ok sha (fst (evaluate_budget sha i b sd))"
proof -
  have led: "sched_ok sha (sd\<lparr>sd_ledger := fst (p119_transition sha i nx cas None reason (sd_ledger sd))\<rparr>)" for nx cas reason
    using sched_ok_ledger [OF assms, of "QC_Transition i nx cas None reason"] by simp
  have "sched_ok sha (sd'\<lparr>sd_terminal_by_fingerprint := T\<rparr>) \<longleftrightarrow> sched_ok sha sd'" for sd' T
    by (simp add: sched_ok_def)
  with led assms show ?thesis
    by (auto simp: evaluate_budget_def Let_def op_bind_def on_ledger_def p119_replay_op_def
        split: prod.splits sum.splits option.splits) (metis fst_conv)+
qed

lemma sched_reachable_ok: "sched_reachable sha h sd \<Longrightarrow> sched_ok sha sd"
proof (induction rule: sched_reachable.induct)
  case start
  then show ?case by (simp add: sched_ok_def p119_scheduler_init_def p119_current_def wal_log.empty)
qed (simp_all add: ingest_ok budget_ok)

section \<open>Properties\<close>

text \<open>An alert storm is idempotent: once an alert was accepted, ingesting it again reports the
  same incident as deduplicated, and leaves the replayed state of every incident as it was.\<close>

theorem p119_alert_storm_idempotent:
  assumes "sched_reachable sha h sd" and "ingest_alert sha alert now sd = (sd1, Inr d1)"
  shows "\<exists>sd2 d2. ingest_alert sha alert now' sd1 = (sd2, Inr d2) \<and> sn_outcome d2 = ''deduplicated''
     \<and> sn_incident_id d2 = sn_incident_id d1 \<and> qr_receipt_type (sn_receipt d2) = ''idempotent_replay''
     \<and> (\<forall>j. p119_replay sha (ws_entries (sd_ledger sd2)) j = p119_replay sha (ws_entries (sd_ledger sd1)) j)
     \<and> sd_fixture_index sd2 = sd_fixture_index sd1"
proof -
  have ok: "sched_ok sha sd" using assms(1) by (rule sched_reachable_ok)
  from assms(2) obtain f x i where ck: "alert_checks sd alert = Inr (f, x, i)"
    by (cases "alert_checks sd alert") (auto simp: ingest_alert_def)
  have same: "alert_checks sd1 alert = alert_checks sd alert"
    if "sd_frozen_manifest_hash sd1 = sd_frozen_manifest_hash sd"
       "sd_terminal_by_fingerprint sd1 = sd_terminal_by_fingerprint sd"
    using that by (simp add: alert_checks_def)
  have "\<exists>env data r. sd_active_by_fingerprint sd1 f = Some (sn_incident_id d1)
      \<and> sd_incident_by_fingerprint sd1 f = Some env \<and> build_incident_envelope sha data = Inr env
      \<and> p119_register_incident sha env (sd_ledger sd) = (sd_ledger sd1, Inr r)
      \<and> alert_checks sd1 alert = Inr (f, x, i)"
  proof (cases "sd_active_by_fingerprint sd f")
    case None
    with assms(2) ck obtain env where env: "alert_incident sha alert now f x i = Inr env"
      by (cases "alert_incident sha alert now f x i") (auto simp: ingest_alert_def Let_def)
    with alert_incident_built [OF env] assms(2) ck None same show ?thesis
      by (auto simp: ingest_alert_def Let_def op_bind_def on_ledger_def remember_incident_def
          p119_decision_of_def split: prod.splits sum.splits)
  next
    case (Some existing)
    with ok obtain env where "sd_incident_by_fingerprint sd f = Some env"
      "\<exists>data. build_incident_envelope sha data = Inr env" by (rule sched_ok_known)
    with assms(2) ck Some same show ?thesis
      by (auto simp: ingest_alert_def op_bind_def on_ledger_def p119_decision_of_def
          split: prod.splits sum.splits)
  qed
  then obtain env data r where known: "sd_active_by_fingerprint sd1 f = Some (sn_incident_id d1)"
    "sd_incident_by_fingerprint sd1 f = Some env" "build_incident_envelope sha data = Inr env"
    "p119_register_incident sha env (sd_ledger sd) = (sd_ledger sd1, Inr r)"
    "alert_checks sd1 alert = Inr (f, x, i)" by blast
  obtain st2 r2 where "p119_register_incident sha env (sd_ledger sd1) = (st2, Inr r2)"
    "qr_receipt_type r2 = ''idempotent_replay''"
    "\<forall>j. p119_replay sha (ws_entries st2) j = p119_replay sha (ws_entries (sd_ledger sd1)) j"
    by (rule p119_register_twice [OF sched_okD [OF ok] known(3,4)])
  with known show ?thesis
    by (simp add: ingest_alert_def op_bind_def on_ledger_def p119_decision_of_def)
qed

text \<open>An accepted alert is local and inert: it carries the frozen manifest hash, targets a local
  fixture, and holds no authority outside the counter snapshots; the decision reports exactly zero
  authority counters, and the ledger is still a log of the specification.\<close>

theorem p119_accepted_alert_is_local:
  assumes "sched_reachable sha h sd" and "ingest_alert sha alert now sd = (sd1, Inr d1)"
  shows "py_eq (pget alert ''manifest_hash'') (PStr (sd_frozen_manifest_hash sd))
     \<and> (\<exists>x. pget alert ''fixture_id'' = PStr x \<and> list_ex (py_startswith x) LOCAL_TARGET_PREFIXES)
     \<and> p119_reject_authority_boundary alert = Inr () \<and> sn_authority_counter_snapshot d1 = p119_zero_counters
     \<and> p119_current sha (sd_ledger sd1)"
proof -
  from assms(2) obtain f x i where ck: "alert_checks sd alert = Inr (f, x, i)"
    by (cases "alert_checks sd alert") (auto simp: ingest_alert_def)
  then have "py_eq (pget alert ''manifest_hash'') (PStr (sd_frozen_manifest_hash sd))"
    "sched_fixture (pget alert ''fixture_id'') = Inr x" "p119_reject_authority_boundary alert = Inr ()"
    by (auto simp: alert_checks_def rbind_Inr_iff rguard_Inr_iff)
  moreover have "sn_authority_counter_snapshot d1 = p119_zero_counters"
    using assms(2) ck by (auto simp: ingest_alert_def Let_def op_bind_def p119_decision_of_def
        split: option.splits sum.splits prod.splits)
  moreover have "p119_current sha (sd_ledger sd1)"
    using sched_reachable_ok [OF sched_reachable.ingest [OF assms(1)], of alert now] assms(2)
    by (simp add: sched_ok_def)
  ultimately show ?thesis
    by (auto simp: sched_fixture_def split: pyval.splits if_splits)
qed

lemma budget_texts:
  "list_all (\<lambda>k. \<not> p119_forbidden_text k \<and> \<not> p119_forbidden_text (budget_target (Some k))
      \<and> budget_target (Some k) \<notin> set LEASE_REQUIRED_TO_ENTER) BUDGET_KEYS"
  "\<not> p119_forbidden_text (budget_target None)" "budget_target None \<notin> set LEASE_REQUIRED_TO_ENTER"
  by code_simp+

lemma exhausted_budget_key: "exhausted_budget_reason b = Some k \<Longrightarrow> k \<in> set BUDGET_KEYS"
  unfolding exhausted_budget_reason_def by (auto simp: find_Some_iff)

text \<open>The budget decision on an incident that has not ended: when the table allows the target state
  (triage with budget left, \<open>expired\<close> for the clocks, \<open>escalated\<close> for the rest), the incident moves
  there and an exhausted fingerprint is closed; otherwise the call raises, the incident is aborted
  instead, and the fingerprint stays open.\<close>

theorem p119_budget_decision:
  assumes "sched_reachable sha h sd" and "p119_replay sha (ws_entries (sd_ledger sd)) i = Inr s"
    and "\<not> p119_terminal (qs_state s)" and "target = budget_target (exhausted_budget_reason b)"
  shows "case evaluate_budget sha i b sd of
      (sd', out) \<Rightarrow>
        returns (\<lambda>s'. qs_cas_version s' = qs_cas_version s + 1
            \<and> qs_state s' = (if legal_transition (qs_state s) target then target else ''aborted_fail_closed''))
          (p119_replay sha (ws_entries (sd_ledger sd')) i)
        \<and> (if legal_transition (qs_state s) target
           then returns (\<lambda>d. sn_incident_id d = i \<and> qr_state (sn_receipt d) = target) out
             \<and> set (sd_terminal_by_fingerprint sd') = set (sd_terminal_by_fingerprint sd)
                 \<union> (if exhausted_budget_reason b = None then {} else {qs_alert_fingerprint s})
           else out = Inl (p119_ledger_error ''illegal_state_transition'')
             \<and> sd_terminal_by_fingerprint sd' = sd_terminal_by_fingerprint sd)"
proof -
  define e where "e = exhausted_budget_reason b"
  let ?reason = "case e of None \<Rightarrow> ''state_transition'' | Some k \<Rightarrow> k"
  have cur: "p119_current sha (sd_ledger sd)" using sched_reachable_ok [OF assms(1)] by (rule sched_okD)
  have t: "target = budget_target e" using assms(4) by (simp add: e_def)
  have key: "e = Some k \<Longrightarrow> k \<in> set BUDGET_KEYS" for k unfolding e_def by (rule exhausted_budget_key)
  have clean: "\<not> p119_forbidden_text target" "\<not> p119_forbidden_text ?reason" "target \<notin> set LEASE_REQUIRED_TO_ENTER"
    using budget_texts p119_plain_texts(3) key by (cases e; auto simp: t list_all_iff)+
  have eval: "evaluate_budget sha i b sd =
      (case p119_transition sha i target (qs_cas_version s) None ?reason (sd_ledger sd) of
         (st', Inl x) \<Rightarrow> (sd\<lparr>sd_ledger := st'\<rparr>, Inl x)
       | (st', Inr r) \<Rightarrow> (case e of
            None \<Rightarrow> (sd\<lparr>sd_ledger := st'\<rparr>, Inr (p119_decision_of ''scheduled'' i ''budget_available'' r []))
          | Some k \<Rightarrow> (sd\<lparr>sd_ledger := st', sd_terminal_by_fingerprint :=
                List.insert (qs_alert_fingerprint s) (sd_terminal_by_fingerprint sd)\<rparr>,
              Inr (p119_decision_of target i k r []))))"
    using assms(2) by (auto simp: evaluate_budget_def Let_def op_bind_def on_ledger_def p119_replay_op_def e_def [symmetric] t
        split: prod.splits sum.splits option.splits)
  show ?thesis
  proof (cases "legal_transition (qs_state s) target")
    case True
    obtain st' r s' where "p119_transition sha i target (qs_cas_version s) None ?reason (sd_ledger sd) = (st', Inr r)"
      "p119_replay sha (ws_entries st') i = Inr s'" "qs_state s' = target" "qs_cas_version s' = qs_cas_version s + 1"
      "qr_state r = target"
      using p119_transition_current [OF cur assms(2,3) True, of None ?reason] clean by auto
    with True show ?thesis unfolding eval e_def [symmetric]
      by (auto simp: returns_def p119_decision_of_def split: option.splits)
  next
    case False
    obtain st' s' where "p119_transition sha i target (qs_cas_version s) None ?reason (sd_ledger sd) =
         (st', Inl (p119_ledger_error ''illegal_state_transition''))"
      "p119_replay sha (ws_entries st') i = Inr s'" "qs_state s' = ''aborted_fail_closed''"
      "qs_cas_version s' = qs_cas_version s + 1"
      using p119_illegal_current [OF cur assms(2,3) False clean(1), of None ?reason] by auto
    with False show ?thesis unfolding eval by (simp add: returns_def)
  qed
qed

end
