(* ===== verification/P119_Demo.thy ===== *)
theory P119_Demo
  imports P119_Scheduler
begin

text \<open>
  Concrete runs of the P119 ledger, scheduler and execution loop, on which the properties of their
  theories are instantiated: one process registers an incident that is being executed and leases it,
  and a second process opens the ledger and takes the lease over when it has expired.
\<close>

abbreviation inc_sha :: "string \<Rightarrow> string" where
  "inc_sha \<equiv> (\<lambda>_. ''0'')"

section \<open>Entries\<close>

definition demo_incident_data :: "string \<Rightarrow> pydict" where
  "demo_incident_data fingerprint =
     [(''incident_id'', PStr ''inc''), (''schema_version'', PStr P119_INCIDENT_SCHEMA_VERSION),
      (''alert_fingerprint'', PStr fingerprint), (''fixture_id'', PStr ''mock:fixture:f''), (''state'', PStr ''local_executing''),
      (''wal_position'', PInt 0), (''cas_version'', PInt 0), (''idempotency_key'', PStr ''k''),
      (''budget_snapshot'', PDict [(''b'', PInt 1)]), (''timeline_hash'', PStr ''t''),
      (''replay_refs'', PList [PStr ''r'']), (''authority_counter_snapshot'', PDict p119_zero_counters)]"

definition demo_incident :: "string \<Rightarrow> p119_envelope" where
  "demo_incident fingerprint =
     \<lparr>ie_incident_id = ''inc'', ie_schema_version = P119_INCIDENT_SCHEMA_VERSION,
      ie_payload =
        [(''incident_id'', PStr ''inc''), (''schema_version'', PStr P119_INCIDENT_SCHEMA_VERSION),
         (''alert_fingerprint'', PStr fingerprint), (''fixture_id'', PStr ''mock:fixture:f''),
         (''state'', PStr ''local_executing''), (''terminal_status'', PNone), (''wal_position'', PInt 0),
         (''cas_version'', PInt 0), (''idempotency_key'', PStr ''k''),
         (''budget_snapshot'', PDict [(''b'', PInt 1)]), (''timeline_hash'', PStr ''t''),
         (''replay_refs'', PList [PStr ''r'']), (''authority_counter_snapshot'', PDict p119_zero_counters),
         (''payload_hash'', PStr ''sha256:0'')]\<rparr>"

lemma demo_incident_built: "build_incident_envelope inc_sha (demo_incident_data ''f'') = Inr (demo_incident ''f'')"
  by code_simp

text \<open>The entries such a run writes; every hash is that of the constant function.\<close>

definition demo_entry ::
    "nat \<Rightarrow> string \<Rightarrow> string \<Rightarrow> int \<Rightarrow> pyval \<Rightarrow> string \<Rightarrow> string \<Rightarrow> pydict \<Rightarrow> pydict" where
  "demo_entry n receipt_type state cas owner event_type state_before payload =
    (let h = (if n = 0 then '''' else ''sha256:0'') in
     [(''wal_position'', PInt (int n)), (''previous_hash'', PStr h), (''incident_id'', PStr ''inc''),
      (''receipt_type'', PStr receipt_type), (''state'', PStr state), (''cas_version'', PInt cas),
      (''lease_owner_id'', owner), (''authority_counter_snapshot'', PDict p119_zero_counters),
      (''timeline_hash'', PStr ''sha256:0''),
      (''timeline_event'', PDict
         [(''schema_version'', PStr P119_TIMELINE_SCHEMA_VERSION), (''incident_id'', PStr ''inc''),
          (''event_type'', PStr event_type), (''state_before'', PStr state_before), (''state_after'', PStr state),
          (''timestamp'', PInt (int n)), (''actor_type'', PStr ''p119_local_contract''),
          (''payload'', PDict (plain_mapping payload)),
          (''budget_snapshot'', PDict [(''receipt_count'', PInt (int n + 1))]),
          (''authority_counter_snapshot'', PDict p119_zero_counters), (''previous_hash'', PStr h),
          (''redaction_receipt'', PDict [(''redacted'', PBool True), (''receipt_hash'', PStr ''sha256:0'')]),
          (''current_hash'', PStr ''sha256:0'')]),
      (''payload'', PDict payload), (''receipt_hash'', PStr ''sha256:0'')])"

definition demo_registration :: pydict where
  "demo_registration = demo_entry 0 ''incident_registered'' ''local_executing'' 0 PNone ''incident_detected''
     ''local_executing'' [(''incident'', PDict (ie_payload (demo_incident ''f'')))]"

definition demo_lease_a :: pydict where
  "demo_lease_a = demo_entry 1 ''lease_acquired'' ''local_executing'' 0 (PStr ''a'') ''lease_acquired''
     ''local_executing'' [(''owner_id'', PStr ''a''), (''lease_expires_at'', PInt 10)]"

definition demo_lease_b :: pydict where
  "demo_lease_b = demo_entry 2 ''lease_acquired'' ''local_executing'' 0 (PStr ''b'') ''lease_acquired''
     ''local_executing'' [(''owner_id'', PStr ''b''), (''lease_expires_at'', PInt 30)]"

definition demo_validating :: pydict where
  "demo_validating = demo_entry 3 ''state_transition'' ''validating'' 1 (PStr ''a'') ''validation_started''
     ''local_executing'' [(''from_state'', PStr ''local_executing''), (''to_state'', PStr ''validating''),
       (''reason'', PStr ''ok'')]"

definition as_file :: "pydict list \<Rightarrow> wal_line list" where
  "as_file es = map (\<lambda>e. WL_Json (PDict e)) es"

lemma load_as_file: "load_entries bad (as_file es) = Inr es"
  by (induction es) (simp_all add: as_file_def)

lemma demo_register:
  "p119_call_store inc_sha (QC_Register (demo_incident ''f'')) \<lparr>ws_file = [], ws_entries = []\<rparr>
   = \<lparr>ws_file = as_file [demo_registration], ws_entries = [demo_registration]\<rparr>"
  by code_simp

lemma demo_lease_first:
  "p119_call_store inc_sha (QC_Lease ''inc'' ''a'' 0 10)
     \<lparr>ws_file = as_file [demo_registration], ws_entries = [demo_registration]\<rparr>
   = \<lparr>ws_file = as_file [demo_registration, demo_lease_a], ws_entries = [demo_registration, demo_lease_a]\<rparr>"
  by code_simp

lemma demo_lease_second:
  "p119_call_store inc_sha (QC_Lease ''inc'' ''b'' 20 10)
     \<lparr>ws_file = as_file [demo_registration, demo_lease_a], ws_entries = [demo_registration, demo_lease_a]\<rparr>
   = \<lparr>ws_file = as_file [demo_registration, demo_lease_a, demo_lease_b],
      ws_entries = [demo_registration, demo_lease_a, demo_lease_b]\<rparr>"
  by code_simp

lemma demo_stale_transition:
  "p119_call_store inc_sha (QC_Transition ''inc'' ''validating'' 0 (Some ''a'') ''ok'')
     \<lparr>ws_file = as_file [demo_registration, demo_lease_a, demo_lease_b],
      ws_entries = [demo_registration, demo_lease_a]\<rparr>
   = \<lparr>ws_file = as_file [demo_registration, demo_lease_a, demo_lease_b, demo_validating],
      ws_entries = [demo_registration, demo_lease_a, demo_lease_b, demo_validating]\<rparr>"
  by code_simp

section \<open>The run\<close>

lemma demo_step:
  assumes "p119_reachable inc_sha \<lparr>sys_file = f, sys_cache = c\<rparr>" and "p119_call_ok inc_sha call"
    and "p119_call_store inc_sha call \<lparr>ws_file = f, ws_entries = c p\<rparr> = \<lparr>ws_file = f', ws_entries = es\<rparr>"
  shows "p119_reachable inc_sha \<lparr>sys_file = f', sys_cache = c(p := es)\<rparr>"
  using shared_reachable.call [OF assms(1,2), of _ p] assms(3) by simp

definition demo_taken_over :: shared_system where
  "demo_taken_over = \<lparr>sys_file = as_file [demo_registration, demo_lease_a, demo_lease_b],
     sys_cache = (\<lambda>_. [])(0 := [demo_registration, demo_lease_a],
                          Suc 0 := [demo_registration, demo_lease_a, demo_lease_b])\<rparr>"

definition demo_stale_step :: shared_system where
  "demo_stale_step = \<lparr>sys_file = as_file [demo_registration, demo_lease_a, demo_lease_b, demo_validating],
     sys_cache = (sys_cache demo_taken_over)(0 := [demo_registration, demo_lease_a, demo_lease_b, demo_validating])\<rparr>"

lemma demo_taken_over_reachable: "p119_reachable inc_sha demo_taken_over"
proof -
  let ?r = "[demo_registration]" and ?a = "[demo_registration, demo_lease_a]"
  have ok: "p119_call_ok inc_sha (QC_Register (demo_incident ''f''))" using demo_incident_built by auto
  have 1: "p119_reachable inc_sha \<lparr>sys_file = as_file ?r, sys_cache = (\<lambda>_. [])(0 := ?r)\<rparr>"
    by (rule demo_step [OF shared_reachable.start ok]) (rule demo_register)
  have 2: "p119_reachable inc_sha \<lparr>sys_file = as_file ?a, sys_cache = ((\<lambda>_. [])(0 := ?r))(0 := ?a)\<rparr>"
    by (rule demo_step [OF 1, where call = "QC_Lease ''inc'' ''a'' 0 10"]) (simp_all only: p119_call_ok.simps fun_upd_same demo_lease_first)
  have 3: "p119_reachable inc_sha \<lparr>sys_file = as_file ?a, sys_cache = (((\<lambda>_. [])(0 := ?r))(0 := ?a))(Suc 0 := ?a)\<rparr>"
    by (rule demo_step [OF 2, where call = QC_Open]) (simp_all add: p119_open_def load_as_file)
  have "p119_reachable inc_sha \<lparr>sys_file = as_file [demo_registration, demo_lease_a, demo_lease_b],
      sys_cache = ((((\<lambda>_. [])(0 := ?r))(0 := ?a))(Suc 0 := ?a))(Suc 0 := [demo_registration, demo_lease_a, demo_lease_b])\<rparr>"
    by (rule demo_step [OF 3, where call = "QC_Lease ''inc'' ''b'' 20 10"]) (simp_all only: p119_call_ok.simps fun_upd_same demo_lease_second)
  then show ?thesis by (simp add: demo_taken_over_def)
qed

lemma demo_stale_step_reachable: "p119_reachable inc_sha demo_stale_step"
proof -
  have "p119_reachable inc_sha \<lparr>sys_file = sys_file demo_taken_over, sys_cache = sys_cache demo_taken_over\<rparr>"
    using demo_taken_over_reachable by (simp add: demo_taken_over_def)
  then show ?thesis unfolding demo_stale_step_def
    by (rule demo_step [where call = "QC_Transition ''inc'' ''validating'' 0 (Some ''a'') ''ok''"])
       (simp_all add: demo_taken_over_def demo_stale_transition del: p119_call_store.simps)
qed

section \<open>The properties of the ledger\<close>

lemma demo_replays:
  "returns (\<lambda>c. qs_state c = ''local_executing'' \<and> qs_cas_version c = 0 \<and> qs_lease_owner_id c = Some ''a'')
     (p119_replay inc_sha (sys_cache demo_taken_over 0) ''inc'')"
  "returns (\<lambda>s. qs_state s = ''local_executing'' \<and> qs_cas_version s = 0 \<and> qs_lease_owner_id s = Some ''b''
       \<and> qs_lease_expires_at s = Some 30 \<and> qs_payload_hash s = ''sha256:0'')
     (p119_replay inc_sha (sys_cache demo_taken_over 1) ''inc'')"
  by code_simp+

lemma demo_loaded:
  "load_entries bad (sys_file demo_taken_over) = Inr (sys_cache demo_taken_over 1)"
  "load_entries bad (sys_file demo_stale_step) = Inr (sys_cache demo_stale_step 0)"
  by (simp_all add: demo_taken_over_def demo_stale_step_def load_as_file)

lemma demo_texts:
  "legal_transition ''local_executing'' ''validating''" "\<not> legal_transition ''local_executing'' ''detected''"
  "\<not> p119_terminal ''local_executing''" "\<not> p119_forbidden_text ''ok''" "\<not> p119_forbidden_text ''r''"
  "\<not> p119_forbidden_text ''detected''"
  by code_simp+

theorem p119_reachable_replay_sound_witness:
  "\<exists>s. p119_replay inc_sha (sys_cache demo_taken_over 1) ''inc'' = Inr s
     \<and> qs_authority_counter_snapshot s = p119_zero_counters \<and> 0 \<le> qs_cas_version s"
  using p119_reachable_replay_sound [OF demo_taken_over_reachable demo_loaded(1), of "''inc''"] demo_replays(2)
  by (auto simp: Inr_such_that)

theorem p119_interleaved_transitions_legal_witness:
  "\<exists>i s. pget (sys_cache demo_stale_step 0 ! 3) ''incident_id'' = PStr i
     \<and> p119_replay inc_sha (take 3 (sys_cache demo_stale_step 0)) i = Inr s \<and> \<not> p119_terminal (qs_state s)
     \<and> pget (sys_cache demo_stale_step 0 ! 3) ''cas_version'' = PInt (qs_cas_version s + 1)"
proof -
  have n: "3 < length (sys_cache demo_stale_step 0)" by (simp add: demo_stale_step_def)
  have t: "pget (sys_cache demo_stale_step 0 ! 3) ''receipt_type'' = PStr ''state_transition''" by code_simp
  show ?thesis
    using p119_interleaved_transitions_legal [OF demo_stale_step_reachable demo_loaded(2) n t disjI1 [OF refl]]
    by blast
qed

theorem p119_illegal_transition_fails_closed_witness:
  "snd (p119_transition inc_sha ''inc'' ''detected'' 0 (Some ''b'') ''ok''
      \<lparr>ws_file = sys_file demo_taken_over, ws_entries = sys_cache demo_taken_over 1\<rparr>)
   = Inl (p119_ledger_error ''illegal_state_transition'')"
proof -
  obtain s where s: "p119_replay inc_sha (sys_cache demo_taken_over 1) ''inc'' = Inr s"
    "qs_state s = ''local_executing''" "qs_cas_version s = 0" using demo_replays(2) by (auto simp: Inr_such_that)
  have "\<not> p119_terminal (qs_state s)" "\<not> legal_transition (qs_state s) ''detected''"
    using demo_texts by (simp_all add: s)
  from p119_illegal_transition_fails_closed [OF demo_taken_over_reachable demo_loaded(1) refl s(1) this,
      of "Some ''b''" "''ok''"] show ?thesis
    using demo_texts by (auto simp: s split: prod.splits)
qed

theorem p119_registration_again_witness:
  "returns (\<lambda>r. qr_receipt_type r = ''idempotent_replay'' \<and> qr_incident_id r = ''inc'')
     (snd (p119_register_incident inc_sha (demo_incident ''f'')
        \<lparr>ws_file = sys_file demo_taken_over, ws_entries = sys_cache demo_taken_over 0\<rparr>))"
proof -
  obtain s where s: "p119_replay inc_sha (sys_cache demo_taken_over 1) ''inc'' = Inr s"
    "qs_payload_hash s = ''sha256:0''" using demo_replays(2) by (auto simp: Inr_such_that)
  have k: "pget (ie_payload (demo_incident ''f'')) ''idempotency_key'' = PStr ''k''"
    and h: "pget (ie_payload (demo_incident ''f'')) ''payload_hash'' = PStr ''sha256:0''"
    by (simp_all add: demo_incident_def)
  have u: "p119_registered_under ''k'' (sys_cache demo_taken_over 1) = Inr [''inc'']" by code_simp
  have "p119_replay inc_sha (sys_cache demo_taken_over 1) (last [''inc'']) = Inr s" using s by simp
  from p119_registration_again [OF demo_taken_over_reachable demo_loaded(1) demo_incident_built k u _ this, of 0] h s
  show ?thesis by (auto simp: returns_def split: prod.splits sum.splits)
qed

theorem p119_timeline_chain_witness:
  "chain_from event_pos_ok event_prev event_own (event_sealed inc_sha) 0 (PStr '''')
     (timeline_events (sys_cache demo_taken_over 1))"
  using p119_timeline_chain [OF demo_taken_over_reachable demo_loaded(1)] by blast

theorem p119_stale_owner_not_fenced_witness:
  "\<exists>st' r. p119_transition inc_sha ''inc'' ''validating'' 0 (Some ''a'') ''ok''
       \<lparr>ws_file = sys_file demo_taken_over, ws_entries = sys_cache demo_taken_over 0\<rparr> = (st', Inr r)
     \<and> returns (\<lambda>s. qs_state s = ''validating'' \<and> qs_lease_owner_id s = Some ''b'')
         (p119_replay inc_sha (ws_entries st') ''inc'')"
proof -
  obtain c where c: "p119_replay inc_sha (sys_cache demo_taken_over 0) ''inc'' = Inr c"
    "qs_state c = ''local_executing''" "qs_cas_version c = 0" "qs_lease_owner_id c = Some ''a''"
    using demo_replays(1) by (auto simp: Inr_such_that)
  obtain s where s: "p119_replay inc_sha (sys_cache demo_taken_over 1) ''inc'' = Inr s"
    "qs_state s = ''local_executing''" "qs_cas_version s = 0" "qs_lease_owner_id s = Some ''b''"
    using demo_replays(2) by (auto simp: Inr_such_that)
  have "qs_state s = qs_state c" "qs_cas_version s = qs_cas_version c" "\<not> p119_terminal (qs_state s)"
    "legal_transition (qs_state s) ''validating''" using demo_texts by (simp_all add: s c)
  from p119_stale_owner_not_fenced [OF demo_taken_over_reachable demo_loaded(1) c(1,4) s(1) this demo_texts(4)]
  show ?thesis unfolding c(3) s(4) by blast
qed

theorem p119_recovery_settles_witness:
  "\<exists>ls' r. recover_p119_incident inc_sha (sys_file demo_taken_over) ''inc'' ''r'' 40 = (ls', Inr r)
     \<and> vr_final_state r = ''orphaned_recovered'' \<and> vr_rollback_attempt_count r = 1"
proof -
  obtain s where s: "p119_replay inc_sha (sys_cache demo_taken_over 1) ''inc'' = Inr s"
    "qs_state s = ''local_executing''" "qs_lease_expires_at s = Some 30"
    using demo_replays(2) by (auto simp: Inr_such_that)
  have "\<not> p119_terminal (qs_state s)" "\<forall>t. qs_lease_expires_at s = Some t \<longrightarrow> t \<le> 40" "''r'' \<noteq> []"
    using demo_texts by (simp_all add: s)
  from p119_recovery_settles [OF demo_taken_over_reachable demo_loaded(1) s(1) this demo_texts(5)] s(2)
  show ?thesis by auto
qed

section \<open>The scheduler\<close>

definition demo_alert :: pydict where
  "demo_alert =
     [(''alert_fingerprint'', PStr ''f''), (''fixture_id'', PStr ''mock:fixture:f''), (''incident_id'', PStr ''inc''),
      (''manifest_hash'', PStr ''m''), (''idempotency_key'', PStr ''k''),
      (''budget_snapshot'', PDict [(''b'', PInt 1)])]"

definition demo_alert_incident :: p119_envelope where
  "demo_alert_incident =
     \<lparr>ie_incident_id = ''inc'', ie_schema_version = P119_INCIDENT_SCHEMA_VERSION,
      ie_payload =
        [(''incident_id'', PStr ''inc''), (''schema_version'', PStr P119_INCIDENT_SCHEMA_VERSION),
         (''alert_fingerprint'', PStr ''f''), (''fixture_id'', PStr ''mock:fixture:f''),
         (''state'', PStr ''detected''), (''terminal_status'', PNone), (''wal_position'', PInt 0),
         (''cas_version'', PInt 0), (''idempotency_key'', PStr ''k''),
         (''budget_snapshot'', PDict [(''b'', PInt 1)]), (''timeline_hash'', PStr ''sha256:0''),
         (''replay_refs'', PList [PStr ''replay:alert-fixture'']),
         (''authority_counter_snapshot'', PDict p119_zero_counters), (''payload_hash'', PStr ''sha256:0'')]\<rparr>"

definition demo_detected :: pydict where
  "demo_detected = demo_entry 0 ''incident_registered'' ''detected'' 0 PNone ''incident_detected''
     ''detected'' [(''incident'', PDict (ie_payload demo_alert_incident))]"

definition demo_scheduler :: p119_scheduler where
  "demo_scheduler = p119_scheduler_init \<lparr>ws_file = [], ws_entries = []\<rparr> ''m''"

lemma demo_alert_checks: "alert_checks demo_scheduler demo_alert = Inr (''f'', ''mock:fixture:f'', ''inc'')"
  by code_simp

lemma demo_alert_built: "alert_incident inc_sha demo_alert 5 ''f'' ''mock:fixture:f'' ''inc'' = Inr demo_alert_incident"
  by code_simp

lemma demo_alert_registered:
  "p119_register_incident inc_sha demo_alert_incident \<lparr>ws_file = [], ws_entries = []\<rparr> =
     (\<lparr>ws_file = as_file [demo_detected], ws_entries = [demo_detected]\<rparr>,
      Inr \<lparr>qr_receipt_type = ''incident_registered'', qr_incident_id = ''inc'', qr_state = ''detected'',
           qr_cas_version = 0, qr_wal_position = 0, qr_receipt_hash = ''sha256:0'', qr_previous_hash = '''',
           qr_timeline_hash = ''sha256:0'', qr_lease_owner_id = None\<rparr>)"
  by code_simp

lemma demo_detected_replay:
  "returns (\<lambda>s. qs_state s = ''detected'' \<and> qs_cas_version s = 0) (p119_replay inc_sha [demo_detected] ''inc'')"
  by code_simp

lemma demo_ingested:
  obtains sd d where "ingest_alert inc_sha demo_alert 5 demo_scheduler = (sd, Inr d)" "sn_incident_id d = ''inc''"
    "sn_outcome d = ''created''" "ws_entries (sd_ledger sd) = [demo_detected]"
proof -
  have fields: "sd_ledger demo_scheduler = \<lparr>ws_file = [], ws_entries = []\<rparr>"
    "sd_active_by_fingerprint demo_scheduler = (\<lambda>_. None)" "sd_fixture_index demo_scheduler = (\<lambda>_. None)"
    by (simp_all add: demo_scheduler_def p119_scheduler_init_def)
  show ?thesis
    by (rule that, simp add: ingest_alert_def demo_alert_checks demo_alert_built Let_def op_bind_def
      on_ledger_def fields demo_alert_registered) (simp_all add: remember_incident_def p119_decision_of_def)
qed

lemma demo_scheduler_reachable: "sched_reachable inc_sha ''m'' demo_scheduler"
  unfolding demo_scheduler_def by (rule sched_reachable.start)

theorem p119_alert_storm_idempotent_witness:
  "\<exists>sd d sd2 d2. ingest_alert inc_sha demo_alert 5 demo_scheduler = (sd, Inr d)
     \<and> ingest_alert inc_sha demo_alert 6 sd = (sd2, Inr d2) \<and> sn_outcome d2 = ''deduplicated''
     \<and> sn_incident_id d2 = ''inc''"
proof (rule demo_ingested)
  fix sd d
  assume d: "ingest_alert inc_sha demo_alert 5 demo_scheduler = (sd, Inr d)" "sn_incident_id d = ''inc''"
  from p119_alert_storm_idempotent [OF demo_scheduler_reachable d(1), of 6] d show ?thesis by fastforce
qed

theorem p119_accepted_alert_is_local_witness:
  "\<exists>sd d x. ingest_alert inc_sha demo_alert 5 demo_scheduler = (sd, Inr d)
     \<and> pget demo_alert ''fixture_id'' = PStr x \<and> list_ex (py_startswith x) LOCAL_TARGET_PREFIXES"
proof (rule demo_ingested)
  fix sd d
  assume d: "ingest_alert inc_sha demo_alert 5 demo_scheduler = (sd, Inr d)"
  from p119_accepted_alert_is_local [OF demo_scheduler_reachable d] d show ?thesis by blast
qed

theorem p119_budget_decision_witness:
  "\<exists>sd d sd'. ingest_alert inc_sha demo_alert 5 demo_scheduler = (sd, Inr d)
     \<and> evaluate_budget inc_sha ''inc'' [(''retry_remaining'', PInt 0)] sd
         = (sd', Inl (p119_ledger_error ''illegal_state_transition''))
     \<and> returns (\<lambda>s. qs_state s = ''aborted_fail_closed'') (p119_replay inc_sha (ws_entries (sd_ledger sd')) ''inc'')"
proof (rule demo_ingested)
  fix sd d
  let ?b = "[(''retry_remaining'', PInt 0)]"
  assume d: "ingest_alert inc_sha demo_alert 5 demo_scheduler = (sd, Inr d)" "ws_entries (sd_ledger sd) = [demo_detected]"
  then obtain s where s: "p119_replay inc_sha (ws_entries (sd_ledger sd)) ''inc'' = Inr s" "qs_state s = ''detected''"
    using demo_detected_replay by (auto simp: Inr_such_that)
  have reach: "sched_reachable inc_sha ''m'' sd"
    using sched_reachable.ingest [OF demo_scheduler_reachable, of demo_alert 5] d(1) by simp
  have t: "budget_target (exhausted_budget_reason ?b) = ''escalated''" "\<not> p119_terminal ''detected''"
    "\<not> legal_transition ''detected'' ''escalated''" by code_simp+
  have "\<not> p119_terminal (qs_state s)" using t s by simp
  from p119_budget_decision [OF reach s(1) this t(1) [symmetric]] t(3) s(2) d(1) show ?thesis
    by (auto simp: Inr_such_that split: prod.splits)
qed

end
