(* ===== verification/P119_Execution.thy ===== *)
theory P119_Execution
  imports P118_Demo P119_Contract
begin

text \<open>
  The local closed loop of \<open>app/services/p119_execution_loop.py\<close>: it checks the receipts, measures the
  action in a validation cycle, and hands the operation to a worker on the P118 ledger.
\<close>

section \<open>The function\<close>

record p119_execution_result =
  xr_operation_id :: string
  xr_execution_status :: string
  xr_recovery_eligible :: bool
  xr_recovery_blockers :: "string list"
  xr_duplicate_action_count :: int
  xr_validation_receipt_hash :: string
  xr_authority_counter_snapshot :: pydict

definition p119_blocked :: "(string \<Rightarrow> string) \<Rightarrow> string \<Rightarrow> string \<Rightarrow> p119_execution_result" where
  "p119_blocked sha operation_id reason =
     \<lparr>xr_operation_id = operation_id, xr_execution_status = ''aborted_fail_closed'',
      xr_recovery_eligible = False, xr_recovery_blockers = [reason], xr_duplicate_action_count = 0,
      xr_validation_receipt_hash = stable_hash sha (PDict [(''operation_id'', PStr operation_id),
        (''reason'', PStr reason)]),
      xr_authority_counter_snapshot = p118_zero_counters\<rparr>"

definition lease_owner_text :: "pydict \<Rightarrow> string" where
  "lease_owner_text lease = py_str (pget_or lease ''owner_id'' (PStr ''''))"

text \<open>The condition under which the receipts are refused, clause by clause.\<close>

definition execution_receipts_unbound ::
    "(string \<Rightarrow> string) \<Rightarrow> p118_envelope \<Rightarrow> pydict \<Rightarrow> string \<Rightarrow> pydict \<Rightarrow> pydict \<Rightarrow> int \<Rightarrow> int \<Rightarrow> bool" where
  "execution_receipts_unbound sha operation approval verification_hash lease wal cas_version now =
     (let payload = env_payload operation; operation_id = env_operation_id operation in
      pget approval ''approved'' \<noteq> PBool True
      \<or> \<not> validate_p118_approval_decision_receipt sha approval (Some payload) (Some verification_hash)
            (Some lease) (Some wal) (Some cas_version) (Some now)
      \<or> \<not> py_startswith verification_hash ''sha256:''
      \<or> \<not> py_eq (pget approval ''operation_id'') (PStr operation_id)
      \<or> \<not> py_eq (pget approval ''verification_hash'') (PStr verification_hash)
      \<or> \<not> py_eq (pget lease ''operation_id'') (PStr operation_id)
      \<or> \<not> py_eq (pget wal ''operation_id'') (PStr operation_id)
      \<or> \<not> py_eq (pget lease ''cas_version'') (PInt cas_version)
      \<or> \<not> py_eq (pget wal ''cas_version'') (PInt cas_version)
      \<or> \<not> validate_p118_receipt_self_hash sha ''receipt_hash'' lease
      \<or> \<not> validate_p118_receipt_self_hash sha ''receipt_hash'' wal
      \<or> lease_owner_text lease = []
      \<or> \<not> py_eq (PDict approval) (pget payload ''approval_receipt'')
      \<or> \<not> py_eq (PDict lease) (pget payload ''lease_receipt''))"

definition execution_blockers :: "string \<Rightarrow> string list" where
  "execution_blockers final_state =
     (if final_state = ''succeeded'' then [''causal_attribution_pending'', ''recurrence_window_pending'']
      else [''rollback_is_not_action_success''])"

text \<open>The handoff to the ledger and the worker; a worker error blocks, any other error is raised.\<close>

definition execution_handoff ::
    "(string \<Rightarrow> string) \<Rightarrow> p118_envelope \<Rightarrow> pydict \<Rightarrow> string \<Rightarrow> pydict \<Rightarrow> pydict \<Rightarrow> int \<Rightarrow> int
     \<Rightarrow> p118_cycle_result \<Rightarrow> (wal_store, p119_execution_result) op" where
  "execution_handoff sha operation approval verification_hash lease wal cas_version now v =
     (let operation_id = env_operation_id operation; owner = lease_owner_text lease in
      op_bind (p118_register_operation sha operation) (\<lambda>_.
      op_bind (op_lift (py_int (pget_or lease ''expires_at'' (PInt (now + 60))))) (\<lambda>expires_at.
      op_bind (p118_record_lease sha operation_id owner expires_at ''lease_acquired'' PNone None) (\<lambda>_.
      op_bind (op_lift (p118_worker_init owner 60 0)) (\<lambda>worker st.
      case p118_run_once sha worker operation_id now v operation verification_hash approval lease wal
             cas_version st of
        (st', Inl (Raised c m)) \<Rightarrow>
          if c = ''P118WorkerError''
          then (st', Inr (p119_blocked sha operation_id (''worker_fail_closed:'' @ m)))
          else (st', Inl (Raised c m))
      | (st', Inr result) \<Rightarrow>
          (st', Inr \<lparr>xr_operation_id = operation_id, xr_execution_status = wr_final_state result,
             xr_recovery_eligible = False, xr_recovery_blockers = execution_blockers (wr_final_state result),
             xr_duplicate_action_count = 0,
             xr_validation_receipt_hash = stable_hash sha (PDict (cycle_to_dict v)),
             xr_authority_counter_snapshot = p118_zero_counters\<rparr>))))))"

definition execute_p119_local_loop ::
    "(string \<Rightarrow> string) \<Rightarrow> p118_envelope \<Rightarrow> fixture_adapter \<Rightarrow> pydict \<Rightarrow> string \<Rightarrow> pydict \<Rightarrow> pydict \<Rightarrow> int
     \<Rightarrow> wal_line list \<Rightarrow> int \<Rightarrow> wal_line list \<times> p119_execution_result result" where
  "execute_p119_local_loop sha operation adapter approval verification_hash lease wal cas_version ls now =
     (let operation_id = env_operation_id operation in
      if execution_receipts_unbound sha operation approval verification_hash lease wal cas_version now
      then (ls, Inr (p119_blocked sha operation_id ''missing_or_unbound_execution_receipt''))
      else case run_p118_validation_cycle sha operation adapter approval (lease_owner_text lease) wal
                  cas_version now of
        Inl x \<Rightarrow> (ls, Inl x)
      | Inr v \<Rightarrow>
          if vc_final_status v \<notin> {''succeeded'', ''rolled_back''}
          then (ls, Inr (p119_blocked sha operation_id (vc_final_status v)))
          else (case p118_open ls of
                  Inl x \<Rightarrow> (ls, Inl x)
                | Inr st \<Rightarrow>
                    (let (st', out) = execution_handoff sha operation approval verification_hash lease wal
                                        cas_version now v st
                     in (ws_file st', out))))"

section \<open>Properties\<close>

lemma execution_bound:
  assumes "\<not> execution_receipts_unbound sha env ap vh lease wal cas now"
  shows "pget ap ''approved'' = PBool True
      \<and> validate_p118_approval_decision_receipt sha ap (Some (env_payload env)) (Some vh) (Some lease) (Some wal)
          (Some cas) (Some now)
      \<and> pget ap ''operation_id'' = PStr (env_operation_id env) \<and> pget ap ''verification_hash'' = PStr vh
      \<and> pget lease ''operation_id'' = PStr (env_operation_id env)
      \<and> pget wal ''operation_id'' = PStr (env_operation_id env)
      \<and> py_eq (pget lease ''cas_version'') (PInt cas) \<and> py_eq (pget wal ''cas_version'') (PInt cas)
      \<and> py_eq (PDict ap) (pget (env_payload env) ''approval_receipt'')
      \<and> py_eq (PDict lease) (pget (env_payload env) ''lease_receipt'') \<and> lease_owner_text lease \<noteq> ''''
      \<and> py_startswith vh ''sha256:''"
  using assms unfolding execution_receipts_unbound_def Let_def py_eq_str_iff by blast

lemma handoff_inert:
  assumes "execution_handoff sha env ap vh lease wal cas now v st = (st', Inr r)"
  shows "\<not> xr_recovery_eligible r \<and> xr_duplicate_action_count r = 0
     \<and> xr_authority_counter_snapshot r = p118_zero_counters"
  using assms unfolding execution_handoff_def Let_def
  by (elim op_bind_cases) (auto simp: p119_blocked_def split: prod.splits sum.splits exn.splits if_splits)

text \<open>C5. Nothing is written to the ledger, and no status but \<open>aborted_fail_closed\<close> is reported, unless
  every receipt is bound to this operation (approved, valid now, for this verification hash, this
  lease, this log position and this CAS version, and equal to the receipts in the operation) and the
  cycle measured success or a rollback.  No result makes an incident eligible for recovery.\<close>

theorem p119_execution_gate:
  assumes "execute_p119_local_loop sha env adapter ap vh lease wal cas ls now = (ls', out)"
  shows "(ls' \<noteq> ls \<or> (\<exists>r. out = Inr r \<and> xr_execution_status r \<noteq> ''aborted_fail_closed'') \<longrightarrow>
        pget ap ''approved'' = PBool True
      \<and> validate_p118_approval_decision_receipt sha ap (Some (env_payload env)) (Some vh) (Some lease) (Some wal)
          (Some cas) (Some now)
      \<and> pget ap ''operation_id'' = PStr (env_operation_id env) \<and> pget ap ''verification_hash'' = PStr vh
      \<and> pget lease ''operation_id'' = PStr (env_operation_id env)
      \<and> pget wal ''operation_id'' = PStr (env_operation_id env)
      \<and> py_eq (pget lease ''cas_version'') (PInt cas) \<and> py_eq (pget wal ''cas_version'') (PInt cas)
      \<and> py_eq (PDict ap) (pget (env_payload env) ''approval_receipt'')
      \<and> py_eq (PDict lease) (pget (env_payload env) ''lease_receipt'') \<and> lease_owner_text lease \<noteq> ''''
      \<and> (\<exists>v. run_p118_validation_cycle sha env adapter ap (lease_owner_text lease) wal cas now = Inr v
            \<and> vc_final_status v \<in> {''succeeded'', ''rolled_back''}))
    \<and> (\<forall>r. out = Inr r \<longrightarrow> \<not> xr_recovery_eligible r \<and> xr_duplicate_action_count r = 0
          \<and> xr_authority_counter_snapshot r = p118_zero_counters)"
proof (cases "execution_receipts_unbound sha env ap vh lease wal cas now")
  case True
  with assms show ?thesis by (auto simp: execute_p119_local_loop_def p119_blocked_def Let_def)
next
  case bound: False
  note facts = execution_bound [OF bound]
  show ?thesis
  proof (cases "run_p118_validation_cycle sha env adapter ap (lease_owner_text lease) wal cas now")
    case (Inl x)
    with assms bound show ?thesis by (auto simp: execute_p119_local_loop_def Let_def)
  next
    case (Inr v)
    show ?thesis
    proof (cases "vc_final_status v \<in> {''succeeded'', ''rolled_back''}")
      case True
      have "out = Inr r \<Longrightarrow> \<not> xr_recovery_eligible r \<and> xr_duplicate_action_count r = 0
          \<and> xr_authority_counter_snapshot r = p118_zero_counters" for r
        using assms bound Inr True handoff_inert
        by (auto simp: execute_p119_local_loop_def Let_def split: sum.splits prod.splits if_splits)
      with facts Inr True show ?thesis by blast
    next
      case False
      with assms bound Inr show ?thesis by (auto simp: execute_p119_local_loop_def p119_blocked_def Let_def)
    qed
  qed
qed

lemma cycle_worker_path:
  assumes "run_p118_validation_cycle sha env adapter ap w wal cas now = Inr v"
    and "vc_final_status v \<in> {''succeeded'', ''rolled_back''}"
  shows "\<exists>path. worker_path v = Inr path"
  using assms by (auto simp: run_p118_validation_cycle_def worker_path_def cycle_result_def Let_def
      split: sum.splits exn.splits if_splits)

lemma approval_lease_live:
  assumes "validate_p118_approval_decision_receipt sha ap op vh (Some lease) wal cas (Some now)"
    and "pget lease ''expires_at'' = PInt t"
  shows "now < t"
proof -
  have "py_eq (pget ap ''lease_expires_at'') (PInt t)" "strict_int (pget ap ''lease_expires_at'') \<noteq> None"
    "int_of (pget ap ''lease_expires_at'') > now"
    using assms by (auto simp: validate_p118_approval_decision_receipt_def split: if_splits sum.splits pyval.splits)
  then show ?thesis by (cases "pget ap ''lease_expires_at''") (auto simp: int_of_def)
qed

text \<open>C17. The loop completes: with bound receipts, an operation the ledger does not know under its key, and
  a cycle that measured success or a rollback, it returns that measured status, and the ledger it
  leaves replays the operation to the same terminal state.\<close>

theorem p119_execution_completes:
  assumes "p118_reachable sha y" and "load_entries (p118_ledger_error ''invalid_wal_entry'') (sys_file y) = Inr es"
    and "build_operation_envelope sha data = Inr env"
    and "pget (env_payload env) ''idempotency_key'' = PStr key" and "p118_registered_under key es = Inr []"
    and "\<not> execution_receipts_unbound sha env ap vh lease wal cas now"
    and "pget lease ''expires_at'' = PInt t"
    and "run_p118_validation_cycle sha env adapter ap (lease_owner_text lease) wal cas now = Inr v"
    and "vc_final_status v = ''succeeded'' \<or> vc_final_status v = ''rolled_back''"
  shows "\<exists>ls' r es' s'. execute_p119_local_loop sha env adapter ap vh lease wal cas (sys_file y) now = (ls', Inr r)
     \<and> xr_execution_status r = vc_final_status v \<and> xr_recovery_blockers r = execution_blockers (vc_final_status v)
     \<and> load_entries (p118_ledger_error ''invalid_wal_entry'') ls' = Inr es'
     \<and> p118_replay sha es' (env_operation_id env) = Inr s' \<and> ps_state s' = vc_final_status v"
proof -
  let ?i = "env_operation_id env" and ?w = "lease_owner_text lease"
  let ?st = "\<lparr>ws_file = sys_file y, ws_entries = es\<rparr>"
  let ?wk = "\<lparr>wk_owner_id = ?w, wk_lease_ttl_seconds = 60, wk_max_retries = 0\<rparr>"
  note facts = execution_bound [OF assms(6)]
  have lg: "p118_log sha es" using p118_reachable_log [OF assms(1)] assms(2) by auto
  have load: "p118_load (ws_file ?st) = Inr es" using assms(2) by simp
  have cur: "p118_current sha ?st" using load lg by (simp add: p118_current_def)
  obtain st1 r1 h w where 1: "p118_register_operation sha env ?st = (st1, Inr r1)"
    and l1: "p118_load (ws_file st1) = Inr (ws_entries st1)"
    and s1: "p118_replay sha (ws_entries st1) ?i = Inr (p118_fresh_state ?i key h w)"
    using p118_register_fresh [OF load lg assms(3-5)] by blast
  have "p118_current sha st1"
    using p118_extends_current [OF cur, of st1] p118_register_extends [OF load lg assms(3)] 1 l1 by simp
  from p118_lease_ok [OF this s1, of "''lease_acquired''" PNone None ?w t] obtain st2 r2 s2 where
    2: "p118_record_lease sha ?i ?w t ''lease_acquired'' PNone None st1 = (st2, Inr r2)"
    and cur2: "p118_current sha st2" and s2: "p118_replay sha (ws_entries st2) ?i = Inr s2"
      "ps_state s2 = ''received''" "ps_lease_owner_id s2 = PStr ?w" "ps_lease_expires_at s2 = Some t"
    by (auto simp: p118_fresh_state_def)
  have exp: "pget_or lease ''expires_at'' x = PInt t" for x
    using assms(7) by (auto simp: pget_def pget_or_def split: option.splits)
  have live: "now < t" using facts assms(7) approval_lease_live by blast
  obtain path where path: "worker_path v = Inr path" using cycle_worker_path [OF assms(8)] assms(9) by blast
  obtain st3 r3 s3 where 3: "p118_run_once sha ?wk ?i now v env vh ap lease wal cas st2 = (st3, Inr r3)"
    and r3: "wr_final_state r3 = vc_final_status v"
    and s3: "p118_replay sha (ws_entries st3) ?i = Inr s3" "ps_state s3 = vc_final_status v"
      "p118_current sha st3"
    using p118_worker_run [OF cur2 s2(1,2), of ?wk t now vh ap env lease wal cas v path] s2 facts live path by auto
  have "execution_handoff sha env ap vh lease wal cas now v ?st = (st3, Inr
      \<lparr>xr_operation_id = ?i, xr_execution_status = vc_final_status v, xr_recovery_eligible = False,
       xr_recovery_blockers = execution_blockers (vc_final_status v), xr_duplicate_action_count = 0,
       xr_validation_receipt_hash = stable_hash sha (PDict (cycle_to_dict v)),
       xr_authority_counter_snapshot = p118_zero_counters\<rparr>)"
    using 1 2 3 r3 assms(7) by (simp add: execution_handoff_def Let_def op_bind_def p118_worker_init_def exp)
  then have "execute_p119_local_loop sha env adapter ap vh lease wal cas (sys_file y) now = (ws_file st3, Inr
      \<lparr>xr_operation_id = ?i, xr_execution_status = vc_final_status v, xr_recovery_eligible = False,
       xr_recovery_blockers = execution_blockers (vc_final_status v), xr_duplicate_action_count = 0,
       xr_validation_receipt_hash = stable_hash sha (PDict (cycle_to_dict v)),
       xr_authority_counter_snapshot = p118_zero_counters\<rparr>)"
    using assms(2,6,8,9) by (auto simp: execute_p119_local_loop_def Let_def p118_open_def)
  with s3 show ?thesis by (simp add: p118_current_def)
qed

end
