(* ===== verification/P119_Local_Demo.thy ===== *)
theory P119_Local_Demo
  imports P119_Execution
begin

text \<open>
  The properties of the execution loop at a concrete operation: the approval policy issues a decision
  for the demonstration envelope, the envelope is built again with the decision and the lease as its
  receipts, and the loop executes it on an empty ledger.
\<close>

abbreviation demo_hash :: string where
  "demo_hash \<equiv> ''sha256:'' @ demo_digest"

definition demo_decision :: pydict where
  "demo_decision =
     [(''schema_version'', PStr P118_APPROVAL_DECISION_SCHEMA_VERSION), (''approved'', PBool True),
      (''reason'', PStr ''approved''), (''policy_hash'', PStr demo_hash), (''operation_id'', PStr ''op''),
      (''verification_hash'', PStr demo_hash), (''verification_expires_at'', PInt 100),
      (''lease_expires_at'', PInt 90), (''lease_receipt_hash'', PStr demo_hash),
      (''wal_receipt_hash'', PStr demo_hash), (''wal_position'', PInt 0), (''cas_version'', PInt 0),
      (''decided_at'', PInt 10), (''operation_context_hash'', PStr demo_hash),
      (''approval_context_hash'', PStr demo_hash), (''counters'', PDict p118_zero_counters),
      (''policy_counters'', PDict (p118_zero_counters @ [(''approvals'', PInt 1), (''rejections'', PInt 0),
         (''rollback_attempts'', PInt 0), (''duplicate_action_attempts'', PInt 0), (''fail_closed_decisions'', PInt 0)])),
      (''authority_counter_snapshot'', PDict p118_zero_counters), (''nonlocal_authority_zero'', PBool True),
      (''decision_hash'', PStr demo_hash)]"

lemma demo_decided:
  "rbind (decide_p118_approval demo_sha (demo_envelope ''k'') demo_verification demo_hash 10 demo_lease demo_wal 0 None)
     (\<lambda>d. Inr (decision_to_dict d)) = Inr demo_decision"
  by code_simp

lemma demo_decision_validates:
  "validate_p118_approval_decision_receipt demo_sha demo_decision (Some (env_payload (demo_envelope ''k'')))
     (Some demo_hash) (Some demo_lease) (Some demo_wal) (Some 0) (Some 20)"
  using demo_approval demo_decided by auto

lemma validate_operation_cong:
  assumes "p118_operation_context_hash sha p = p118_operation_context_hash sha q"
    and "pget p ''operation_id'' = pget q ''operation_id''"
  shows "validate_p118_approval_decision_receipt sha r (Some p) vh l w c t
       = validate_p118_approval_decision_receipt sha r (Some q) vh l w c t"
  unfolding validate_p118_approval_decision_receipt_def option.case assms ..

text \<open>With a constant hash only the operation id of the envelope matters to the validator.\<close>

lemma demo_validates_at:
  assumes "pget p ''operation_id'' = PStr ''op''"
  shows "validate_p118_approval_decision_receipt demo_sha demo_decision (Some p)
     (Some demo_hash) (Some demo_lease) (Some demo_wal) (Some 0) (Some 20)"
proof -
  have "p118_operation_context_hash demo_sha p = p118_operation_context_hash demo_sha (env_payload (demo_envelope ''k''))"
    unfolding p118_operation_context_hash_def stable_hash_def ..
  moreover have "pget (env_payload (demo_envelope ''k'')) ''operation_id'' = PStr ''op''" by (simp add: demo_envelope_def)
  ultimately show ?thesis
    using demo_decision_validates assms by (metis validate_operation_cong)
qed

section \<open>The envelope with its receipts\<close>

definition bound_data :: pydict where
  "bound_data = map (\<lambda>(k, v). (k, if k = ''approval_receipt'' then PDict demo_decision
     else if k = ''lease_receipt'' then PDict demo_lease else v)) (demo_envelope_data ''k'')"

definition bound_envelope :: p118_envelope where
  "bound_envelope = (demo_envelope ''k'')\<lparr>env_payload :=
     map (\<lambda>(k, v). (k, if k = ''approval_receipt'' then PDict (plain_mapping demo_decision)
       else if k = ''lease_receipt'' then PDict demo_lease else v)) (env_payload (demo_envelope ''k''))\<rparr>"

lemma demo_hash_text: "\<not> forbidden_text [] demo_hash"
  by code_simp

lemma demo_decision_keys:
  "list_all (\<lambda>(k, v). p118_counter_field k \<or> normalized_field k \<notin> set P118_FORBIDDEN_FIELDS)
     (demo_decision @ demo_lease)"
  by code_simp

lemma demo_small_texts:
  "\<not> forbidden_text [] P118_APPROVAL_DECISION_SCHEMA_VERSION" "\<not> forbidden_text [] ''approved''"
  "\<not> forbidden_text [] ''op''" "\<not> forbidden_text [] ''w''"
  by code_simp+

lemma demo_counter_fields: "p118_counter_field ''counters''" "p118_counter_field ''policy_counters''"
  "p118_counter_field ''authority_counter_snapshot''"
  by code_simp+

lemma demo_decision_clean: "p118_clean (PDict demo_decision)" "p118_clean (PDict demo_lease)"
proof -
  have "list_all (\<lambda>(k, v). p118_counter_field k \<or> p118_clean v) (demo_decision @ demo_lease)"
    using demo_hash_text demo_small_texts
    by (simp add: demo_decision_def demo_lease_def p118_clean_atom demo_counter_fields)
  with demo_decision_keys show "p118_clean (PDict demo_decision)" "p118_clean (PDict demo_lease)"
    by (auto simp: p118_clean_dict list_all_iff)
qed

text \<open>An envelope can be built again with other receipts; the rest of its payload stays.\<close>

lemma receipts_replaced:
  assumes "build_operation_envelope sha data = Inr env"
    and same: "list_all (\<lambda>k. pget data' k = pget data k)
       [''operation_id'', ''schema_version'', ''p117_decision_episode_id'', ''p117_selected_action_pack_id'',
        ''p115_action_pack_digest'', ''fixture_target_id'', ''action_level'', ''precondition_refs'',
        ''validation_plan_ref'', ''rollback_plan_ref'', ''wal_position'', ''cas_version'', ''idempotency_key'',
        ''authority_counter_snapshot'']"
    and new: "missing_field data' P118_REQUIRED_FIELDS = None" "p118_reject_authority_fields (PDict data') = Inr ()"
    and receipts: "pget data' ''approval_receipt'' = PDict a" "a \<noteq> []" "pget data' ''lease_receipt'' = PDict l" "l \<noteq> []"
  shows "\<exists>env'. build_operation_envelope sha data' = Inr env' \<and> env_operation_id env' = env_operation_id env
     \<and> pget (env_payload env') ''approval_receipt'' = PDict (plain_mapping a)
     \<and> pget (env_payload env') ''lease_receipt'' = PDict (plain_mapping l)
     \<and> (\<forall>k. k \<notin> {''approval_receipt'', ''lease_receipt'', ''envelope_hash''} \<longrightarrow>
          pget (env_payload env') k = pget (env_payload env) k)"
proof -
  have rm: "p118_required_mapping data' ''approval_receipt'' ''missing_approval_receipt'' = Inr a"
    "p118_required_mapping data' ''lease_receipt'' ''missing_lease_receipt'' = Inr l"
    using receipts by (simp_all add: p118_required_mapping_def)
  have rt: "p118_required_text data' k = p118_required_text data k" "p118_required_hash data' k m = p118_required_hash data k m"
    if "pget data' k = pget data k" for k m
    using that by (simp_all add: p118_required_text_def p118_required_hash_def)
  have "missing_field data P118_REQUIRED_FIELDS = None"
    using assms(1) by (auto simp: build_operation_envelope_def split: option.splits)
  with assms(1) same show ?thesis
    unfolding build_operation_envelope_def new by (auto simp: rbind_Inr_iff Let_def rm rt)
qed

lemma built_clean:
  "build_operation_envelope sha data = Inr env \<Longrightarrow> p118_reject_authority_fields (PDict data) = Inr ()"
  by (auto simp: build_operation_envelope_def rbind_Inr_iff split: option.splits)

lemma bound_clean: "p118_reject_authority_fields (PDict bound_data) = Inr ()"
proof -
  have "p118_clean (PDict (demo_envelope_data ''k''))"
    using built_clean [OF demo_envelope_built] by (simp add: p118_reject_iff)
  then show ?thesis
    using demo_decision_clean by (auto simp: p118_reject_iff p118_clean_dict bound_data_def)
qed

lemma bound_same:
  "list_all (\<lambda>k. pget bound_data k = pget (demo_envelope_data ''k'') k)
     [''operation_id'', ''schema_version'', ''p117_decision_episode_id'', ''p117_selected_action_pack_id'',
      ''p115_action_pack_digest'', ''fixture_target_id'', ''action_level'', ''precondition_refs'',
      ''validation_plan_ref'', ''rollback_plan_ref'', ''wal_position'', ''cas_version'', ''idempotency_key'',
      ''authority_counter_snapshot'']"
  by (simp add: bound_data_def demo_envelope_data_def)

lemma bound_receipts:
  "pget bound_data ''approval_receipt'' = PDict demo_decision" "pget bound_data ''lease_receipt'' = PDict demo_lease"
  by (simp_all add: bound_data_def demo_envelope_data_def)

lemma bound_complete: "missing_field bound_data P118_REQUIRED_FIELDS = None"
  by (simp add: bound_data_def demo_envelope_data_def P118_REQUIRED_FIELDS_def)

lemma demo_lease_plain: "plain_mapping demo_lease = demo_lease"
  by code_simp


lemma demo_decision_plain:
  "py_eq (PDict demo_decision) (PDict (plain_mapping demo_decision))"
  "pget_or (plain_mapping demo_decision) ''verification_hash'' x = PStr demo_hash"
  "pget (plain_mapping demo_decision) ''verification_hash'' = PStr demo_hash"
  "pget (plain_mapping demo_decision) ''policy_hash'' = PStr demo_hash"
  by code_simp+

lemma bound_envelope:
  obtains env where "build_operation_envelope demo_sha bound_data = Inr env" "env_operation_id env = ''op''"
    "pget (env_payload env) ''operation_id'' = PStr ''op''" "pget (env_payload env) ''idempotency_key'' = PStr ''k''"
    "pget (env_payload env) ''wal_position'' = PInt 0" "pget (env_payload env) ''cas_version'' = PInt 0"
    "pget (env_payload env) ''validation_plan_ref'' = PStr ''v''" "pget (env_payload env) ''rollback_plan_ref'' = PStr ''b''"
    "pget (env_payload env) ''approval_receipt'' = PDict (plain_mapping demo_decision)"
    "pget (env_payload env) ''lease_receipt'' = PDict demo_lease"
proof -
  have "demo_decision \<noteq> []" "demo_lease \<noteq> []" by (simp_all add: demo_decision_def demo_lease_def)
  from receipts_replaced [OF demo_envelope_built bound_same bound_complete bound_clean bound_receipts(1) this(1) bound_receipts(2) this(2)]
  obtain env where "build_operation_envelope demo_sha bound_data = Inr env"
    "env_operation_id env = env_operation_id (demo_envelope ''k'')"
    "pget (env_payload env) ''approval_receipt'' = PDict (plain_mapping demo_decision)"
    "pget (env_payload env) ''lease_receipt'' = PDict demo_lease"
    "\<forall>k. k \<notin> {''approval_receipt'', ''lease_receipt'', ''envelope_hash''} \<longrightarrow>
          pget (env_payload env) k = pget (env_payload (demo_envelope ''k'')) k"
    unfolding demo_lease_plain by blast
  then show ?thesis by (intro that [of env]) (simp_all add: demo_envelope_def)
qed

definition demo_adapter :: fixture_adapter where
  "demo_adapter = \<lparr>fa_before = [(''healthy'', PBool False)], fa_after = [(''healthy'', PBool True)],
     fa_rollback_after = [], fa_validation_plan_ref = ''v'', fa_rollback_plan_ref = ''b''\<rparr>"

lemma demo_adapter_clean:
  "p118_reject_authority_boundary (fa_before demo_adapter) = Inr ()"
  "p118_reject_authority_boundary (fa_after demo_adapter) = Inr ()"
  "p118_reject_authority_boundary (fa_rollback_after demo_adapter) = Inr ()"
  by code_simp+

lemma demo_receipts_hashed:
  "validate_p118_receipt_self_hash demo_sha ''receipt_hash'' demo_lease"
  "validate_p118_receipt_self_hash demo_sha ''receipt_hash'' demo_wal"
  by code_simp+

lemma demo_receipt_fields:
  "pget demo_decision ''approved'' = PBool True" "pget demo_decision ''operation_id'' = PStr ''op''"
  "pget demo_decision ''verification_hash'' = PStr demo_hash" "pget demo_decision ''policy_hash'' = PStr demo_hash"
  "pget demo_lease ''operation_id'' = PStr ''op''" "pget demo_lease ''cas_version'' = PInt 0"
  "pget demo_lease ''owner_id'' = PStr ''w''" "pget demo_lease ''expires_at'' = PInt 90"
  "pget_or demo_lease ''owner_id'' x = PStr ''w''"
  "pget demo_wal ''operation_id'' = PStr ''op''" "pget demo_wal ''cas_version'' = PInt 0"
  "pget demo_wal ''wal_position'' = PInt 0"
  by (simp_all add: demo_decision_def demo_lease_def demo_wal_def)

lemma bound_gate:
  assumes "env_operation_id env = ''op''" and "pget (env_payload env) ''operation_id'' = PStr ''op''"
    and "pget (env_payload env) ''approval_receipt'' = PDict (plain_mapping demo_decision)"
    and "pget (env_payload env) ''lease_receipt'' = PDict demo_lease"
  shows "\<not> execution_receipts_unbound demo_sha env demo_decision demo_hash demo_lease demo_wal 0 20"
proof -
  have "py_eq (PDict demo_lease) (PDict demo_lease)" by code_simp
  then show ?thesis
    unfolding execution_receipts_unbound_def Let_def assms
    using demo_receipts_hashed demo_decision_plain(1) demo_validates_at [OF assms(2)]
    by (simp add: demo_receipt_fields lease_owner_text_def py_startswith_append del: py_eq.simps append.simps)
qed

lemma bound_cycle:
  assumes "pget (env_payload env) ''operation_id'' = PStr ''op''"
    and "pget (env_payload env) ''wal_position'' = PInt 0" "pget (env_payload env) ''cas_version'' = PInt 0"
    and "pget (env_payload env) ''validation_plan_ref'' = PStr ''v''" "pget (env_payload env) ''rollback_plan_ref'' = PStr ''b''"
    and "pget (env_payload env) ''approval_receipt'' = PDict (plain_mapping demo_decision)"
    and "pget (env_payload env) ''lease_receipt'' = PDict demo_lease"
  shows "\<exists>v. run_p118_validation_cycle demo_sha env demo_adapter demo_decision ''w'' demo_wal 0 20 = Inr v
     \<and> vc_final_status v = ''succeeded''"
proof -
  have "pget_or (env_payload env) ''approval_receipt'' x = PDict (plain_mapping demo_decision)"
    "pget_or (env_payload env) ''lease_receipt'' x = PDict demo_lease"
    "pindex (env_payload env) ''cas_version'' = Inr (PInt 0)" for x
    using assms by (auto simp: pget_def pget_or_def pindex_def split: option.splits)
  then have "cycle_checks demo_sha env demo_adapter demo_decision ''w'' demo_wal 0 20 = Inr ()"
    using demo_validates_at [OF assms(1)] demo_receipts_hashed
    by (simp add: cycle_checks_def Let_def assms demo_adapter_clean demo_receipt_fields demo_decision_plain
        sub_get_def rguard_def del: append.simps) (simp add: demo_adapter_def)
  moreover have "pget (fa_before demo_adapter) ''healthy'' = PBool False"
    "pget (fa_after demo_adapter) ''healthy'' = PBool True" by (simp_all add: demo_adapter_def)
  ultimately show ?thesis by (simp add: run_p118_validation_cycle_def Let_def cycle_result_def)
qed

theorem p118_cycle_fails_closed_witness:
  "\<exists>env r. build_operation_envelope demo_sha bound_data = Inr env
     \<and> run_p118_validation_cycle demo_sha env demo_adapter demo_decision ''w'' demo_wal 0 20 = Inr r
     \<and> vc_final_status r = ''succeeded'' \<and> vc_rollback_attempt_count r = 0
     \<and> run_p118_validation_cycle demo_sha env demo_adapter demo_decision ''w'' demo_wal 1 20 \<noteq> Inr r"
proof -
  obtain env where env: "build_operation_envelope demo_sha bound_data = Inr env" "env_operation_id env = ''op''"
    "pget (env_payload env) ''operation_id'' = PStr ''op''" "pget (env_payload env) ''idempotency_key'' = PStr ''k''"
    "pget (env_payload env) ''wal_position'' = PInt 0" "pget (env_payload env) ''cas_version'' = PInt 0"
    "pget (env_payload env) ''validation_plan_ref'' = PStr ''v''" "pget (env_payload env) ''rollback_plan_ref'' = PStr ''b''"
    "pget (env_payload env) ''approval_receipt'' = PDict (plain_mapping demo_decision)"
    "pget (env_payload env) ''lease_receipt'' = PDict demo_lease" by (rule bound_envelope)
  obtain v where v: "run_p118_validation_cycle demo_sha env demo_adapter demo_decision ''w'' demo_wal 0 20 = Inr v"
    "vc_final_status v = ''succeeded''" using bound_cycle [OF env(3,5-10)] by blast
  note exact = p118_cycle_fails_closed [OF env(6), of demo_sha demo_adapter demo_decision "''w''" demo_wal _ 20]
  have "\<not> receipts_bind demo_sha env demo_adapter demo_decision ''w'' demo_wal 1 20"
    using env(6) by (simp add: receipts_bind_def Let_def)
  with exact [of 1] v(2) have "run_p118_validation_cycle demo_sha env demo_adapter demo_decision ''w'' demo_wal 1 20 \<noteq> Inr v"
    by auto
  moreover have "vc_rollback_attempt_count v = 0" using exact [of 0] v by (auto split: if_splits)
  ultimately show ?thesis using env(1) v by blast
qed

section \<open>The loop on an empty ledger\<close>

theorem p119_execution_completes_witness:
  "\<exists>env ls' r. build_operation_envelope demo_sha bound_data = Inr env
     \<and> execute_p119_local_loop demo_sha env demo_adapter demo_decision demo_hash demo_lease demo_wal 0 [] 20 = (ls', Inr r)
     \<and> xr_execution_status r = ''succeeded''
     \<and> xr_recovery_blockers r = [''causal_attribution_pending'', ''recurrence_window_pending'']"
proof -
  obtain env where env: "build_operation_envelope demo_sha bound_data = Inr env" "env_operation_id env = ''op''"
    "pget (env_payload env) ''operation_id'' = PStr ''op''" "pget (env_payload env) ''idempotency_key'' = PStr ''k''"
    "pget (env_payload env) ''wal_position'' = PInt 0" "pget (env_payload env) ''cas_version'' = PInt 0"
    "pget (env_payload env) ''validation_plan_ref'' = PStr ''v''" "pget (env_payload env) ''rollback_plan_ref'' = PStr ''b''"
    "pget (env_payload env) ''approval_receipt'' = PDict (plain_mapping demo_decision)"
    "pget (env_payload env) ''lease_receipt'' = PDict demo_lease" by (rule bound_envelope)
  obtain v where v: "run_p118_validation_cycle demo_sha env demo_adapter demo_decision ''w'' demo_wal 0 20 = Inr v"
    "vc_final_status v = ''succeeded''" using bound_cycle [OF env(3,5-10)] by blast
  have w: "lease_owner_text demo_lease = ''w''" by (simp add: lease_owner_text_def demo_receipt_fields)
  let ?y = "\<lparr>sys_file = [], sys_cache = (\<lambda>_. [])\<rparr>"
  have reach: "p118_reachable demo_sha ?y" by (rule shared_reachable.start)
  have load: "load_entries (p118_ledger_error ''invalid_wal_entry'') (sys_file ?y) = Inr []" by simp
  have none: "p118_registered_under ''k'' [] = Inr []" by simp
  have cyc: "run_p118_validation_cycle demo_sha env demo_adapter demo_decision (lease_owner_text demo_lease) demo_wal 0 20 = Inr v"
    using v(1) w by simp
  obtain ls' r where "execute_p119_local_loop demo_sha env demo_adapter demo_decision demo_hash demo_lease demo_wal 0 [] 20
      = (ls', Inr r)" "xr_execution_status r = vc_final_status v"
    "xr_recovery_blockers r = execution_blockers (vc_final_status v)"
    using p119_execution_completes [OF reach load env(1,4) none bound_gate [OF env(2,3,9,10)] demo_receipt_fields(8)
      cyc disjI1 [OF v(2)]] by auto
  then show ?thesis using env(1) v(2) by (auto simp: execution_blockers_def)
qed

theorem p119_execution_gate_witness:
  "\<exists>ls' r. execute_p119_local_loop demo_sha (demo_envelope ''k'') demo_adapter demo_decision demo_hash demo_lease demo_wal 0 [] 20
       = (ls', Inr r)
     \<and> xr_execution_status r = ''aborted_fail_closed'' \<and> ls' = [] \<and> \<not> xr_recovery_eligible r"
proof -
  have "\<not> py_eq (PDict demo_decision) (pget (env_payload (demo_envelope ''k'')) ''approval_receipt'')"
    by (simp add: demo_envelope_def demo_decision_def)
  moreover from this have "execute_p119_local_loop demo_sha (demo_envelope ''k'') demo_adapter demo_decision demo_hash
      demo_lease demo_wal 0 [] 20
    = ([], Inr (p119_blocked demo_sha (env_operation_id (demo_envelope ''k'')) ''missing_or_unbound_execution_receipt''))"
    by (simp add: execute_p119_local_loop_def execution_receipts_unbound_def Let_def del: py_eq.simps)
  note run = this
  ultimately show ?thesis
    using p119_execution_gate [OF run] run by (auto simp del: py_eq.simps)
qed

end
