(* ===== verification/Prevention_States.thy ===== *)
theory Prevention_States
  imports Transition_Table
begin

text \<open>
  The episode state machine of canary prevention (\<open>app/services/prevention_state_machine.py\<close>): an
  append-only list of states, each the successor of the one before it.
\<close>

section \<open>The table\<close>

definition ALLOWED_TRANSITIONS :: "(string \<times> string list) list" where
  "ALLOWED_TRANSITIONS =
     [(''received'', [''p106_recomputed'']),
      (''p106_recomputed'', [''cohort_checked'', ''blocked_fail_closed'']),
      (''cohort_checked'', [''policy_rechecked'', ''blocked_fail_closed'']),
      (''policy_rechecked'', [''wal_intent_appended'', ''blocked_fail_closed'']),
      (''wal_intent_appended'', [''attempt_effect_observed'', ''blocked_fail_closed'']),
      (''attempt_effect_observed'', [''result_appended'']),
      (''result_appended'', [''monitoring'']),
      (''monitoring'', [''succeeded'', ''rollback_intent_appended'', ''escalated'', ''blocked_fail_closed'']),
      (''rollback_intent_appended'', [''rollback_effect_observed'']),
      (''rollback_effect_observed'', [''rollback_result_appended'']),
      (''rollback_result_appended'', [''rolled_back'', ''rollback_failed_escalated''])]"

definition TERMINAL_STATES :: "string list" where
  "TERMINAL_STATES = [''blocked_fail_closed'', ''succeeded'', ''rolled_back'', ''rollback_failed_escalated'',
     ''escalated'', ''replay_invalid'']"

definition ALL_STATES :: "string list" where
  "ALL_STATES = map fst ALLOWED_TRANSITIONS @ TERMINAL_STATES"

definition allowed_from :: "string \<Rightarrow> string list" where
  "allowed_from current = (case map_of ALLOWED_TRANSITIONS current of None \<Rightarrow> [] | Some ts \<Rightarrow> ts)"

section \<open>The machine\<close>

definition state_error :: "string \<Rightarrow> exn" where
  "state_error m = Raised ''PreventionStateTransitionError'' m"

definition current_state :: "string list \<Rightarrow> string option" where
  "current_state states = (if states = [] then None else Some (last states))"

definition psm_terminal :: "string list \<Rightarrow> bool" where
  "psm_terminal states = (case current_state states of None \<Rightarrow> False | Some s \<Rightarrow> s \<in> set TERMINAL_STATES)"

definition psm_append :: "string \<Rightarrow> (string list, unit) op" where
  "psm_append state states =
     (if state \<notin> set ALL_STATES
      then (states, Inl (state_error (''unknown prevention state '' @ repr_str state)))
      else case current_state states of
        None \<Rightarrow>
          if state \<noteq> ''received''
          then (states, Inl (state_error (''incomplete episode: first state must be '' @ repr_str ''received''
                   @ '', got '' @ repr_str state)))
          else (states @ [state], Inr ())
      | Some current \<Rightarrow>
          if current \<in> set TERMINAL_STATES
          then (states, Inl (state_error (''cannot append '' @ repr_str state @ '' after terminal state ''
                   @ repr_str current)))
          else if state \<in> set TERMINAL_STATES \<and> list_ex (\<lambda>s. s \<in> set TERMINAL_STATES) states
          then (states, Inl (state_error (''terminal state '' @ repr_str state @ '' would create a second terminal'')))
          else if state \<notin> set (allowed_from current)
          then (states, Inl (state_error (''invalid transition from '' @ repr_str current @ '' to '' @ repr_str state)))
          else (states @ [state], Inr ()))"

text \<open>Any states offered one after the other to a new machine; an offer that raises is caught.\<close>

fun psm_offer :: "string list \<Rightarrow> string list \<Rightarrow> string list" where
  "psm_offer [] states = states"
| "psm_offer (s # offers) states = psm_offer offers (fst (psm_append s states))"

section \<open>The table has no cycle\<close>

definition episode_rank :: "string \<Rightarrow> nat" where
  "episode_rank s =
     (case map_of (zip (rev (map fst ALLOWED_TRANSITIONS)) [1..<12]) s of None \<Rightarrow> 0 | Some n \<Rightarrow> n)"

lemma episode_table:
  "list_all (\<lambda>(s, ts). ts \<noteq> [] \<and> s \<notin> set TERMINAL_STATES
      \<and> list_all (\<lambda>t. t \<in> set ALL_STATES \<and> episode_rank t < episode_rank s) ts) ALLOWED_TRANSITIONS"
  "list_all (\<lambda>s. map_of ALLOWED_TRANSITIONS s = None) TERMINAL_STATES"
  "set TERMINAL_STATES \<subseteq> set ALL_STATES"
  "''received'' \<in> set ALL_STATES" "''received'' \<notin> set TERMINAL_STATES" "episode_rank ''received'' = 11"
  by code_simp+

lemma allowed_from_entry:
  assumes "t \<in> set (allowed_from s)"
  obtains ts where "(s, ts) \<in> set ALLOWED_TRANSITIONS" "t \<in> set ts"
  using assms by (cases "map_of ALLOWED_TRANSITIONS s") (auto simp: allowed_from_def dest: map_of_SomeD)

interpretation episode: ranked_table allowed_from "\<lambda>s. s \<in> set ALL_STATES" "\<lambda>s. s \<in> set TERMINAL_STATES" episode_rank
proof
  fix s t
  assume "t \<in> set (allowed_from s)"
  then obtain ts where e: "(s, ts) \<in> set ALLOWED_TRANSITIONS" "t \<in> set ts" by (rule allowed_from_entry)
  then have "s \<in> set ALL_STATES" by (force simp: ALL_STATES_def)
  with e episode_table(1) show "s \<in> set ALL_STATES \<and> t \<in> set ALL_STATES"
    unfolding list_all_iff by fastforce
  from e episode_table(1) show "episode_rank t < episode_rank s"
    unfolding list_all_iff by fastforce
next
  fix s
  show "s \<in> set TERMINAL_STATES \<Longrightarrow> s \<in> set ALL_STATES" using episode_table(3) by blast
  assume "s \<in> set ALL_STATES"
  then consider ts where "map_of ALLOWED_TRANSITIONS s = Some ts" | "s \<in> set TERMINAL_STATES"
    unfolding ALL_STATES_def by (cases "map_of ALLOWED_TRANSITIONS s") (auto simp: map_of_eq_None_iff)
  then show "s \<in> set TERMINAL_STATES \<longleftrightarrow> allowed_from s = []"
  proof cases
    case 1
    with episode_table(1) show ?thesis unfolding list_all_iff allowed_from_def by (fastforce dest: map_of_SomeD)
  next
    case 2
    with episode_table(2) show ?thesis by (simp add: list_all_iff allowed_from_def)
  qed
qed

section \<open>Episodes end\<close>

text \<open>What the machine holds: nothing, or a path of the table from \<open>received\<close>.\<close>

definition episode :: "string list \<Rightarrow> bool" where
  "episode states \<longleftrightarrow> states = [] \<or> (\<exists>p. states = ''received'' # p \<and> legal_path allowed_from ''received'' p)"

lemma episode_butlast:
  assumes "episode states"
  shows "set (butlast states) \<inter> set TERMINAL_STATES = {}"
proof (rule ccontr)
  assume "set (butlast states) \<inter> set TERMINAL_STATES \<noteq> {}"
  then obtain s where s: "s \<in> set (butlast states)" "s \<in> set TERMINAL_STATES" by blast
  with assms episode_table(5) obtain p where p: "states = ''received'' # p" "legal_path allowed_from ''received'' p"
    and "s \<in> set (butlast p)" by (auto simp: episode_def split: if_splits)
  then obtain i where i: "i < length p - 1" "p ! i = s" by (auto simp: in_set_conv_nth nth_butlast)
  then have "i < length p" by linarith
  with episode.terminal_only_last [OF p(2) this] s(2) i show False by simp
qed

lemma psm_append_accepts:
  assumes "episode states"
  shows "snd (psm_append s states) = Inr () \<longleftrightarrow>
     (case current_state states of None \<Rightarrow> s = ''received'' | Some c \<Rightarrow> s \<in> set (allowed_from c))"
proof (cases "states = []")
  case True
  with episode_table(4) show ?thesis by (auto simp: psm_append_def current_state_def)
next
  case False
  have "last states \<in> set TERMINAL_STATES \<Longrightarrow> s \<notin> set (allowed_from (last states))"
    by (rule episode.terminal_stuck)
  moreover have "list_ex (\<lambda>t. t \<in> set TERMINAL_STATES) states \<longleftrightarrow> last states \<in> set TERMINAL_STATES"
    using episode_butlast [OF assms] False
    by (cases states rule: rev_cases) (auto simp: list_ex_iff)
  moreover have "s \<in> set (allowed_from (last states)) \<Longrightarrow> s \<in> set ALL_STATES" using episode.succs_known by blast
  ultimately show ?thesis using False by (auto simp: psm_append_def current_state_def)
qed

lemma psm_append_state:
  "fst (psm_append s states) = (if snd (psm_append s states) = Inr () then states @ [s] else states)"
  by (auto simp: psm_append_def split: option.splits)

lemma psm_append_episode: "episode states \<Longrightarrow> episode (fst (psm_append s states))"
  unfolding psm_append_state
  by (auto simp: psm_append_accepts current_state_def episode_def legal_path_snoc split: if_splits)

lemma psm_offer_episode: "episode states \<Longrightarrow> episode (psm_offer offers states)"
  by (induction offers arbitrary: states) (simp_all add: psm_append_episode)

lemma psm_offer_append: "psm_offer (p @ q) states = psm_offer q (psm_offer p states)"
  by (induction p arbitrary: states) simp_all

lemma psm_offer_path:
  assumes "episode states" and "states \<noteq> []" and "legal_path allowed_from (last states) p"
  shows "psm_offer p states = states @ p"
  using assms
proof (induction p arbitrary: states)
  case Nil
  then show ?case by simp
next
  case (Cons s p)
  then have acc: "fst (psm_append s states) = states @ [s]"
    using psm_append_accepts [OF Cons.prems(1), of s] by (simp add: psm_append_state current_state_def)
  with psm_append_episode [OF Cons.prems(1), of s] Cons.IH [of "states @ [s]"] Cons.prems(3) show ?case by simp
qed

text \<open>C20. Every episode ends: whatever states are offered, in whatever order and how often, the machine
  accepts at most twelve, they start with \<open>received\<close> and follow the table, and a terminal state is the
  last one; and from whatever it has accepted there are further offers that bring it to a terminal
  state within that bound.\<close>

theorem p107_episode_ends:
  "length (psm_offer offers []) \<le> 12 \<and> legal_path allowed_from ''received'' (tl (psm_offer offers []))
   \<and> take 1 (psm_offer offers []) \<in> {[], [''received'']}
   \<and> set (butlast (psm_offer offers [])) \<inter> set TERMINAL_STATES = {}
   \<and> (\<exists>more. psm_terminal (psm_offer (offers @ more) []))"
proof -
  let ?st = "psm_offer offers []"
  have ep: "episode ?st" by (rule psm_offer_episode) (simp add: episode_def)
  obtain more where more: "psm_terminal (psm_offer more ?st)"
  proof (cases "?st = []")
    case True
    have acc: "fst (psm_append ''received'' []) = [''received'']"
      using psm_append_accepts [of "[]" "''received''"] by (simp add: psm_append_state episode_def current_state_def)
    obtain p where p: "legal_path allowed_from ''received'' p" "last (''received'' # p) \<in> set TERMINAL_STATES"
      using episode.reaches_terminal [OF episode_table(4)] by blast
    have "psm_offer (''received'' # p) ?st = ''received'' # p"
      using psm_offer_path [of "[''received'']" p] p(1) by (simp add: True acc episode_def)
    with p(2) show ?thesis by (intro that [of "''received'' # p"]) (simp add: psm_terminal_def current_state_def)
  next
    case False
    have "last ?st \<in> set ALL_STATES"
      using ep False episode.path_known [OF episode_table(4)] episode_table(4) by (auto simp: episode_def list_all_iff)
    then obtain p where p: "legal_path allowed_from (last ?st) p" "last (last ?st # p) \<in> set TERMINAL_STATES"
      using episode.reaches_terminal by blast
    have "psm_offer p ?st = ?st @ p" by (rule psm_offer_path [OF ep False p(1)])
    with p(2) False show ?thesis
      by (intro that [of p]) (auto simp: psm_terminal_def current_state_def last_append split: if_splits)
  qed
  from ep consider "?st = []" | p where "?st = ''received'' # p" "legal_path allowed_from ''received'' p"
    by (auto simp: episode_def)
  then have "length ?st \<le> 12 \<and> legal_path allowed_from ''received'' (tl ?st) \<and> take 1 ?st \<in> {[], [''received'']}"
    using episode.path_bound [of "''received''"] episode_table(6) by cases force+
  with more episode_butlast [OF ep] show ?thesis by (auto simp: psm_offer_append)
qed

end
