(* ===== verification/Prevention_Harness.thy ===== *)
theory Prevention_Harness
  imports Prelude
begin

text \<open>
  The authority sentinel and the local canary harness of prevention
  (\<open>app/services/prevention_authority_sentinel.py\<close>, \<open>app/services/prevention_canary_harness.py\<close>).  The
  harness keeps one effect per idempotency key.
\<close>

section \<open>Dictionaries\<close>

text \<open>\<open>d.setdefault(k, v)\<close>, and reading after an update.\<close>

definition setdefault :: "pydict \<Rightarrow> string \<Rightarrow> pyval \<Rightarrow> pydict" where
  "setdefault d k v = (if phas d k then d else d @ [(k, v)])"

lemma pget_update: "pget (AList.update k v d) j = (if j = k then v else pget d j)"
  by (simp add: pget_def AList.update_conv')

lemma pget_setdefault: "k \<noteq> j \<Longrightarrow> pget (setdefault d j v) k = pget d k"
  by (auto simp: setdefault_def pget_def map_add_def split: option.splits)

section \<open>The sentinel\<close>

definition AUTHORITY_COUNTER_KEYS :: "string list" where
  "AUTHORITY_COUNTER_KEYS = [''auth'', ''credential_reads'', ''production_adapter_calls'', ''production_mutation'',
     ''network_calls'', ''shell_calls'', ''cloud_calls'', ''db_mutation'']"

definition ZERO_AUTHORITY_COUNTERS :: "(string \<times> int) list" where
  "ZERO_AUTHORITY_COUNTERS = map (\<lambda>k. (k, 0)) AUTHORITY_COUNTER_KEYS"

record sentinel =
  sn_counters :: "(string \<times> int) list"
  sn_blocked :: bool

definition new_sentinel :: sentinel where
  "new_sentinel = \<lparr>sn_counters = ZERO_AUTHORITY_COUNTERS, sn_blocked = False\<rparr>"

definition sentinel_snapshot :: "sentinel \<Rightarrow> pyval" where
  "sentinel_snapshot sn = PDict (map (\<lambda>(k, n). (k, PInt n)) (sn_counters sn))"

definition forbidden_authority :: "string \<Rightarrow> exn" where
  "forbidden_authority m = Raised ''ForbiddenPreventionAuthority'' m"

definition assert_zero_authority :: "sentinel \<Rightarrow> bool result" where
  "assert_zero_authority sn =
     (if list_ex (\<lambda>(k, n). n \<noteq> 0) (sn_counters sn)
      then Inl (forbidden_authority ''P107 authority boundary was breached'') else Inr True)"

definition sentinel_block :: "string \<Rightarrow> string \<Rightarrow> (sentinel, unit) op" where
  "sentinel_block key reason sn =
     (sn\<lparr>sn_counters := AList.update key ((case map_of (sn_counters sn) key of None \<Rightarrow> 0 | Some n \<Rightarrow> n) + 1) (sn_counters sn),
         sn_blocked := True\<rparr>,
      Inl (forbidden_authority (''P107 forbidden authority attempted for '' @ key
             @ (if reason = [] then [] else '': '' @ reason))))"

text \<open>The \<open>record_\<close> methods, each named by the counter it blocks.\<close>

datatype authority = Auth | CredentialRead | ProductionAdapterCall | ProductionMutation | ShellCall
  | NetworkCall | CloudMutation | DbMutation

fun authority_key :: "authority \<Rightarrow> string" where
  "authority_key Auth = ''auth''"
| "authority_key CredentialRead = ''credential_reads''"
| "authority_key ProductionAdapterCall = ''production_adapter_calls''"
| "authority_key ProductionMutation = ''production_mutation''"
| "authority_key ShellCall = ''shell_calls''"
| "authority_key NetworkCall = ''network_calls''"
| "authority_key CloudMutation = ''cloud_calls''"
| "authority_key DbMutation = ''db_mutation''"

definition record_authority :: "authority \<Rightarrow> string \<Rightarrow> (sentinel, unit) op" where
  "record_authority a reason = sentinel_block (authority_key a) reason"

section \<open>The harness\<close>

definition REGISTERED_LOCAL_MOCK_HANDLERS :: "(string \<times> string) list" where
  "REGISTERED_LOCAL_MOCK_HANDLERS =
     [(''mock.create_rollback_artifact'', ''preventive.mock.rollback_pr''),
      (''mock.rollback_artifact'', ''preventive.mock.rollback_pr''),
      (''mock.create_local_report'', ''preventive.mock.report'')]"

definition FORBIDDEN_ACTION_MARKERS :: "string list" where
  "FORBIDDEN_ACTION_MARKERS = [''shell'', ''secret'', ''credential'', ''database'', ''db.'', ''cloud'', ''production'',
     ''external'', ''adapter'', ''network'', ''http'']"

record canary_harness =
  ch_sentinel :: sentinel
  ch_effects :: "string \<Rightarrow> pydict option"

definition new_harness :: canary_harness where
  "new_harness = \<lparr>ch_sentinel = new_sentinel, ch_effects = (\<lambda>_. None)\<rparr>"

definition blocked_action_reason :: "string \<Rightarrow> string \<Rightarrow> string option" where
  "blocked_action_reason action_type capability_id =
     (if py_any_in FORBIDDEN_ACTION_MARKERS (py_lower action_type) then Some ''forbidden_action_marker''
      else case map_of REGISTERED_LOCAL_MOCK_HANDLERS action_type of
        None \<Rightarrow> Some ''unknown_local_mock_handler''
      | Some expected \<Rightarrow> if capability_id \<noteq> expected then Some ''capability_registry_mismatch'' else None)"

definition canary_blocked :: "sentinel \<Rightarrow> string \<Rightarrow> string \<Rightarrow> pydict" where
  "canary_blocked sn action_type reason =
     [(''accepted'', PBool False), (''status'', PStr ''blocked_fail_closed''),
      (''terminal_state'', PStr ''blocked_fail_closed''), (''action_type'', PStr action_type),
      (''blocked_reason'', PStr reason), (''effect_applied'', PBool False), (''duplicate_effect_count'', PInt 0),
      (''authority_counters'', sentinel_snapshot sn)]"

definition effect_record :: "string \<Rightarrow> pydict \<Rightarrow> string \<Rightarrow> pydict" where
  "effect_record action_type payload effect_hash =
    (let service = PStr (py_str (pget_or payload ''service'' (PStr ''unknown''))) in
     if action_type \<in> {''mock.create_rollback_artifact'', ''mock.rollback_artifact''}
     then [(''kind'', PStr ''local_mock_rollback_artifact''), (''service'', service),
           (''artifact_hash'', PStr effect_hash), (''external_pr_created'', PBool False),
           (''rollback_executed'', PBool False)]
     else [(''kind'', PStr ''local_mock_report''), (''service'', service), (''report_hash'', PStr effect_hash)])"

definition text_field :: "pydict \<Rightarrow> string \<Rightarrow> string" where
  "text_field action key = py_strip (py_str (pget_or action key (PStr [])))"

definition remove_prefix :: "string \<Rightarrow> string \<Rightarrow> string" where
  "remove_prefix p s = (if py_startswith s p then drop (length p) s else s)"

definition canary_result :: "(string \<Rightarrow> string) \<Rightarrow> sentinel \<Rightarrow> pydict \<Rightarrow> pydict" where
  "canary_result sha sn action =
    (let key = text_field action ''idempotency_key''; action_type = text_field action ''action_type'';
         capability_id = text_field action ''capability_id''; payload = as_dict (pget action ''payload'');
         effect_hash = stable_hash sha (PDict [(''action_type'', PStr action_type),
           (''capability_id'', PStr capability_id), (''idempotency_key'', PStr key), (''payload'', PDict payload)]) in
     [(''accepted'', PBool True), (''status'', PStr ''applied''), (''terminal_state'', PStr ''succeeded''),
      (''attempt_id'', PStr (''p107-attempt-'' @ take 16 (remove_prefix ''sha256:'' effect_hash))),
      (''idempotency_key'', PStr key), (''action_type'', PStr action_type), (''capability_id'', PStr capability_id),
      (''effect_applied'', PBool True), (''effect_hash'', PStr effect_hash),
      (''effect_record'', PDict (effect_record action_type payload effect_hash)),
      (''duplicate_effect_count'', PInt 0), (''authority_counters'', sentinel_snapshot sn)])"

definition canary_replay :: "sentinel \<Rightarrow> pydict \<Rightarrow> pydict" where
  "canary_replay sn existing = pmerge existing
     [(''receipt_type'', PStr ''duplicate_replayed''), (''duplicate_effect_count'', PInt 0),
      (''authority_counters'', sentinel_snapshot sn)]"

definition canary_execute :: "(string \<Rightarrow> string) \<Rightarrow> pydict \<Rightarrow> canary_harness \<Rightarrow> canary_harness \<times> pydict" where
  "canary_execute sha action h =
    (let key = text_field action ''idempotency_key''; action_type = text_field action ''action_type'';
         capability_id = text_field action ''capability_id''; sn = ch_sentinel h in
     if key = [] then (h, canary_blocked sn action_type ''missing_idempotency_key'')
     else case ch_effects h key of
       Some existing \<Rightarrow> (h, canary_replay sn existing)
     | None \<Rightarrow>
         (case blocked_action_reason action_type capability_id of
            Some reason \<Rightarrow> (h, canary_blocked sn action_type reason @ [(''idempotency_key'', PStr key)])
          | None \<Rightarrow> let result = canary_result sha sn action in
              (h\<lparr>ch_effects := (ch_effects h)(key \<mapsto> result)\<rparr>, result)))"

section \<open>The contract of a harness with keys\<close>

text \<open>
  What callers of a harness rely on: carrying out an action again under the same key changes nothing,
  and the state of other keys is left alone.
\<close>

locale keyed_harness =
  fixes run :: "pydict \<Rightarrow> 'h \<Rightarrow> 'h \<times> pydict"
    and key_of :: "pydict \<Rightarrow> string"
    and effect :: "'h \<Rightarrow> string \<Rightarrow> pydict option"
  assumes effect_kept: "effect h k = Some e \<Longrightarrow> effect (fst (run a h)) k = Some e"
    and effect_known: "effect h (key_of a) = Some e \<Longrightarrow> fst (run a h) = h"
    and effect_other: "k \<noteq> key_of a \<Longrightarrow> effect (fst (run a h)) k = effect h k"
    and effect_none: "effect (fst (run a h)) (key_of a) = None \<Longrightarrow> fst (run a h) = h"
begin

lemma run_twice: "fst (run a (fst (run a h))) = fst (run a h)"
proof (cases "effect (fst (run a h)) (key_of a)")
  case None
  then have "fst (run a h) = h" by (rule effect_none)
  then show ?thesis by simp
next
  case (Some e)
  then show ?thesis by (rule effect_known)
qed

fun runs :: "pydict list \<Rightarrow> 'h \<Rightarrow> 'h" where
  "runs [] h = h"
| "runs (a # as) h = runs as (fst (run a h))"

lemma runs_append: "runs (as @ bs) h = runs bs (runs as h)"
  by (induction as arbitrary: h) simp_all

text \<open>The first effect under a key stays, whatever is run later.\<close>

lemma effect_final: "effect h k = Some e \<Longrightarrow> effect (runs as h) k = Some e"
  by (induction as arbitrary: h) (simp_all add: effect_kept)

lemma run_again:
  assumes "effect (fst (run a h)) (key_of a) = Some e" and "key_of b = key_of a"
  shows "fst (run b (runs as (fst (run a h)))) = runs as (fst (run a h))"
  using effect_final [OF assms(1)] effect_known assms(2) by metis

end

interpretation canary: keyed_harness "canary_execute sha" "\<lambda>a. text_field a ''idempotency_key''" ch_effects for sha
  by unfold_locales (auto simp: canary_execute_def Let_def split: option.splits)

lemma canary_sentinel_kept [simp]: "ch_sentinel (fst (canary_execute sha a h)) = ch_sentinel h"
  by (auto simp: canary_execute_def Let_def split: option.splits)

lemma canary_runs_sentinel [simp]: "ch_sentinel (canary.runs sha as h) = ch_sentinel h"
  by (induction as arbitrary: h) simp_all

text \<open>An effect is applied only for a registered handler, its own capability, and a key.\<close>

lemma canary_effect_registered:
  assumes "canary_execute sha a h = (h', r)" and "ch_effects h' \<noteq> ch_effects h"
  shows "text_field a ''idempotency_key'' \<noteq> []
     \<and> map_of REGISTERED_LOCAL_MOCK_HANDLERS (text_field a ''action_type'') = Some (text_field a ''capability_id'')
     \<and> r = canary_result sha (ch_sentinel h) a"
  using assms by (auto simp: canary_execute_def blocked_action_reason_def Let_def split: option.splits if_splits)

end
