(* ===== verification/Prevention_Idempotency.thy ===== *)
theory Prevention_Idempotency
  imports Hash_Chain Prevention_Harness
begin

text \<open>
  The idempotency store of prevention attempts (\<open>app/services/prevention_durable_idempotency.py\<close>): a
  chain of records appended by compare-and-swap, and one attempt per idempotency key.  Every function
  holds the store's lock to its end and is one step here.  The harness is a parameter: \<open>invoke\<close> may
  change its state and raise; a harness may also offer \<open>existing_effect\<close>.
\<close>

section \<open>The store\<close>

record idem_store =
  id_records :: "pydict list"
  id_attempts :: "(string \<times> pydict) list"
  id_invalid_replay :: bool
  id_partial :: bool

definition empty_store :: idem_store where
  "empty_store = \<lparr>id_records = [], id_attempts = [], id_invalid_replay = False, id_partial = False\<rparr>"

record 'h p107_harness =
  hn_invoke :: "pydict \<Rightarrow> ('h, pyval) op"
  hn_existing :: "(string \<Rightarrow> 'h \<Rightarrow> pyval) option"

definition current_head_hash :: "idem_store \<Rightarrow> string" where
  "current_head_hash st =
     (if id_records st = [] then ''sha256:genesis'' else py_str (pget (last (id_records st)) ''record_hash''))"

definition next_sequence :: "idem_store \<Rightarrow> int" where
  "next_sequence st = int (length (id_records st)) + 1"

definition store_closed :: "idem_store \<Rightarrow> bool" where
  "store_closed st \<longleftrightarrow> id_partial st \<or> id_invalid_replay st"

definition seal_record :: "(string \<Rightarrow> string) \<Rightarrow> pydict \<Rightarrow> int \<Rightarrow> string \<Rightarrow> pydict" where
  "seal_record sha rec seq parent =
    (let appended = pmerge rec [(''sequence'', PInt seq), (''parent_hash'', PStr parent)] in
     AList.update ''record_hash'' (PStr (stable_hash sha (PDict appended))) appended)"

definition cas_append ::
    "(string \<Rightarrow> string) \<Rightarrow> pydict \<Rightarrow> int \<Rightarrow> string \<Rightarrow> idem_store \<Rightarrow> idem_store \<times> pydict" where
  "cas_append sha rec seq parent st =
     (if store_closed st
      then (st, [(''cas_winner'', PBool False), (''terminal_state'', PStr ''blocked_fail_closed''),
                 (''reason'', PStr ''audit_replay_invalid'')])
      else if seq \<noteq> next_sequence st \<or> parent \<noteq> current_head_hash st
      then (st, [(''cas_winner'', PBool False), (''terminal_state'', PStr ''duplicate_or_conflict_recorded'')])
      else let appended = seal_record sha rec seq parent in
        (st\<lparr>id_records := id_records st @ [appended]\<rparr>,
         [(''cas_winner'', PBool True), (''record'', PDict appended)]))"

definition cas_append_next :: "(string \<Rightarrow> string) \<Rightarrow> pydict \<Rightarrow> idem_store \<Rightarrow> idem_store" where
  "cas_append_next sha rec st = fst (cas_append sha rec (next_sequence st) (current_head_hash st) st)"

section \<open>Receipts\<close>

definition with_zero_counters :: "pydict \<Rightarrow> pydict" where
  "with_zero_counters result =
     setdefault (setdefault (setdefault result ''duplicate_attempt_count'' (PInt 0))
       ''crash_resume_duplicate_count'' (PInt 0)) ''concurrent_duplicate_action_count'' (PInt 0)"

definition idem_duplicate :: "pydict \<Rightarrow> pydict result" where
  "idem_duplicate existing =
     rbind (pindex existing ''attempt_id'') (\<lambda>attempt_id.
     rbind (pindex existing ''idempotency_key'') (\<lambda>key.
     Inr (with_zero_counters
       [(''accepted'', PBool True), (''attempt_id'', attempt_id), (''idempotency_key'', key),
        (''result'', pget existing ''result''), (''receipt_type'', PStr ''duplicate_replayed''),
        (''terminal_state'', pget existing ''terminal_state'')])))"

definition idem_refused :: "string \<Rightarrow> pydict" where
  "idem_refused reason = with_zero_counters
     [(''accepted'', PBool False), (''attempt_allowed'', PBool False),
      (''terminal_state'', PStr ''blocked_fail_closed''), (''conflict_reason'', PStr reason)]"

definition idem_conflict :: pydict where
  "idem_conflict = idem_refused ''idempotency_key_payload_mismatch''"

definition payload_signature :: "(string \<Rightarrow> string) \<Rightarrow> pydict \<Rightarrow> string" where
  "payload_signature sha command = stable_hash sha (PDict (map (\<lambda>k. (k, pget command k))
     [''episode_id'', ''candidate_hash'', ''registry_hash'', ''cohort_fingerprint_hash'', ''telemetry_window'',
      ''requested_action'']))"

text \<open>What a known key answers: a conflict when the payload differs, else the recorded result.\<close>

definition answer_known :: "(string \<Rightarrow> string) \<Rightarrow> pydict \<Rightarrow> pydict \<Rightarrow> pydict result" where
  "answer_known sha command existing =
     rbind (pindex existing ''payload_signature'') (\<lambda>s.
     if \<not> py_eq s (PStr (payload_signature sha command)) then Inr idem_conflict else idem_duplicate existing)"

section \<open>Attempts\<close>

definition next_attempt_id :: "idem_store \<Rightarrow> string" where
  "next_attempt_id st = ''attempt-'' @ show_nat (length (id_attempts st) + 1)"

definition intent_record :: "string \<Rightarrow> string \<Rightarrow> string \<Rightarrow> pydict" where
  "intent_record key attempt_id signature =
     [(''state'', PStr ''wal_intent_appended''), (''idempotency_key'', PStr key), (''attempt_id'', PStr attempt_id),
      (''payload_signature'', PStr signature)]"

definition won_attempt :: "string \<Rightarrow> string \<Rightarrow> string \<Rightarrow> pyval \<Rightarrow> pydict" where
  "won_attempt key attempt_id signature result =
     [(''accepted'', PBool True), (''attempt_id'', PStr attempt_id), (''idempotency_key'', PStr key),
      (''payload_signature'', PStr signature), (''result'', result), (''receipt_type'', PStr ''lock_winner''),
      (''terminal_state'', PStr ''succeeded'')]"

text \<open>
  The part both entry points share: the intent is appended under the expectation, the harness runs, the
  result is appended (\<open>result_record\<close> and \<open>extra\<close> are what differs between the two) and the attempt is
  filed.
\<close>

definition run_attempt ::
    "(string \<Rightarrow> string) \<Rightarrow> 'h p107_harness \<Rightarrow> pydict \<Rightarrow> string \<Rightarrow> int \<Rightarrow> string
     \<Rightarrow> (string \<Rightarrow> string \<Rightarrow> string \<Rightarrow> pyval \<Rightarrow> pydict) \<Rightarrow> pydict \<Rightarrow> (idem_store \<times> 'h, pydict) op" where
  "run_attempt sha hn command key seq parent result_record extra s =
    (let (st, h) = s; signature = payload_signature sha command; attempt_id = next_attempt_id st;
         (st1, cas) = cas_append sha (intent_record key attempt_id signature) seq parent st in
     if \<not> truthy (pget cas ''cas_winner'')
     then ((st1, h), Inr [(''accepted'', PBool False), (''cas_winner'', PBool False), (''effect_applied'', PBool False),
             (''terminal_state'', pget cas ''terminal_state'')])
     else case hn_invoke hn command h of
       (h1, Inl x) \<Rightarrow> ((st1, h1), Inl x)
     | (h1, Inr result) \<Rightarrow>
         let st2 = cas_append_next sha (result_record key attempt_id signature result) st1;
             attempt = won_attempt key attempt_id signature result in
         ((st2\<lparr>id_attempts := AList.update key attempt (id_attempts st2)\<rparr>, h1),
          Inr (with_zero_counters (pmerge attempt extra))))"

definition acquired_record :: "string \<Rightarrow> string \<Rightarrow> string \<Rightarrow> pyval \<Rightarrow> pydict" where
  "acquired_record key attempt_id signature result =
     [(''state'', PStr ''result_appended''), (''idempotency_key'', PStr key), (''attempt_id'', PStr attempt_id),
      (''result'', result), (''payload_signature'', PStr signature), (''effect_observed'', PBool True)]"

definition result_record :: "string \<Rightarrow> string \<Rightarrow> string \<Rightarrow> pyval \<Rightarrow> pydict" where
  "result_record key attempt_id signature result =
     [(''state'', PStr ''result_appended''), (''idempotency_key'', PStr key), (''attempt_id'', PStr attempt_id),
      (''payload_signature'', PStr signature), (''result'', result)]"

definition acquire_or_replay_attempt ::
    "(string \<Rightarrow> string) \<Rightarrow> 'h p107_harness \<Rightarrow> pydict \<Rightarrow> (idem_store \<times> 'h, pydict) op" where
  "acquire_or_replay_attempt sha hn command s =
     (case pindex command ''idempotency_key'' of
        Inl x \<Rightarrow> (s, Inl x)
      | Inr k \<Rightarrow>
          let key = py_str k; st = fst s in
          if store_closed st then (s, Inr (idem_refused ''audit_replay_invalid''))
          else case map_of (id_attempts st) key of
            Some existing \<Rightarrow> (s, answer_known sha command existing)
          | None \<Rightarrow> run_attempt sha hn command key (next_sequence st) (current_head_hash st) acquired_record [] s)"

definition cas_append_attempt_intent ::
    "(string \<Rightarrow> string) \<Rightarrow> 'h p107_harness \<Rightarrow> pydict \<Rightarrow> int \<Rightarrow> string \<Rightarrow> (idem_store \<times> 'h, pydict) op" where
  "cas_append_attempt_intent sha hn command seq parent s =
     (case pindex command ''idempotency_key'' of
        Inl x \<Rightarrow> (s, Inl x)
      | Inr k \<Rightarrow>
          let key = py_str k; st = fst s in
          case map_of (id_attempts st) key of
            Some existing \<Rightarrow>
              (s, rbind (answer_known sha command existing) (\<lambda>a.
                    Inr (pmerge a [(''cas_winner'', PBool False), (''effect_applied'', PBool False)])))
          | None \<Rightarrow> run_attempt sha hn command key seq parent result_record
                     [(''cas_winner'', PBool True), (''effect_applied'', PBool True)] s)"

section \<open>Crashes and recovery\<close>

definition pending_attempt :: "string \<Rightarrow> string \<Rightarrow> string \<Rightarrow> pydict" where
  "pending_attempt key attempt_id signature =
     [(''accepted'', PBool True), (''attempt_id'', PStr attempt_id), (''idempotency_key'', PStr key),
      (''payload_signature'', PStr signature), (''receipt_type'', PStr ''in_progress''), (''terminal_state'', PNone)]"

definition simulate_crash ::
    "(string \<Rightarrow> string) \<Rightarrow> 'h p107_harness option \<Rightarrow> pydict \<Rightarrow> string \<Rightarrow> (idem_store \<times> 'h, unit) op" where
  "simulate_crash sha hn command boundary s =
     (case pindex command ''idempotency_key'' of
        Inl x \<Rightarrow> (s, Inl x)
      | Inr k \<Rightarrow>
          let key = py_str k; signature = payload_signature sha command; (st, h) = s in
          if boundary = ''before_attempt_intent'' then (s, Inr ())
          else if boundary \<in> {''partial_record'', ''truncated_after_intent''}
          then ((st\<lparr>id_partial := True\<rparr>, h), Inr ())
          else
            let attempt_id = next_attempt_id st;
                st1 = cas_append_next sha (intent_record key attempt_id signature) st;
                pending = pending_attempt key attempt_id signature;
                st2 = st1\<lparr>id_attempts := AList.update key pending (id_attempts st1)\<rparr> in
            if boundary \<noteq> ''after_harness_effect_before_result'' then ((st2, h), Inr ())
            else case hn of
              None \<Rightarrow> ((st2, h), Inl (Raised ''ValueError'' ''harness is required for after_harness_effect_before_result''))
            | Some hn' \<Rightarrow>
                (case hn_invoke hn' command h of
                   (h1, Inl x) \<Rightarrow> ((st2, h1), Inl x)
                 | (h1, Inr _) \<Rightarrow>
                     let st3 = st2\<lparr>id_attempts := AList.update key
                                 (pmerge pending [(''effect_observed_without_result'', PBool True)]) (id_attempts st2)\<rparr>
                     in ((cas_append_next sha
                            ((''state'', PStr ''attempt_effect_observed'') # tl (intent_record key attempt_id signature)) st3,
                          h1), Inr ())))"

text \<open>The result of a pending attempt: what the harness already knows, or a new run.\<close>

definition existing_effect :: "'h p107_harness \<Rightarrow> string \<Rightarrow> 'h \<Rightarrow> pyval" where
  "existing_effect hn key h = (case hn_existing hn of None \<Rightarrow> PNone | Some f \<Rightarrow> f key h)"

definition pending_result ::
    "'h p107_harness \<Rightarrow> pydict \<Rightarrow> string \<Rightarrow> ('h, pyval \<times> string) op" where
  "pending_result hn command key h =
    (let known = existing_effect hn key h in
     if known \<noteq> PNone then (h, Inr (known, ''attempt_effect_observed''))
     else op_bind (hn_invoke hn command) (\<lambda>result. op_return (result, ''wal_intent_appended'')) h)"

definition recover_after_crash ::
    "(string \<Rightarrow> string) \<Rightarrow> 'h p107_harness \<Rightarrow> pydict \<Rightarrow> (idem_store \<times> 'h, pydict) op" where
  "recover_after_crash sha hn command s =
     (case pindex command ''idempotency_key'' of
        Inl x \<Rightarrow> (s, Inl x)
      | Inr k \<Rightarrow>
          let key = py_str k; (st, h) = s in
          if store_closed st then (s, Inr (idem_refused ''audit_replay_invalid''))
          else case map_of (id_attempts st) key of
            None \<Rightarrow> op_bind (acquire_or_replay_attempt sha hn command)
                      (\<lambda>r. op_return (AList.update ''resumed_from'' (PStr ''policy_rechecked'') r)) s
          | Some existing \<Rightarrow>
              if pget existing ''result'' \<noteq> PNone then (s, idem_duplicate existing)
              else (case pending_result hn command key h of
                 (h1, Inl x) \<Rightarrow> ((st, h1), Inl x)
               | (h1, Inr (result, resumed_from)) \<Rightarrow>
                   (case (pindex existing ''attempt_id'', pindex existing ''payload_signature'') of
                      (Inr attempt_id, Inr signature) \<Rightarrow>
                        let st1 = cas_append_next sha
                              [(''state'', PStr ''result_appended''), (''idempotency_key'', PStr key),
                               (''attempt_id'', attempt_id), (''payload_signature'', signature), (''result'', result)] st;
                            attempt = pmerge existing [(''result'', result), (''receipt_type'', PStr ''lock_winner''),
                              (''terminal_state'', PStr ''succeeded'')]
                        in ((st1\<lparr>id_attempts := AList.update key attempt (id_attempts st1)\<rparr>, h1),
                            Inr (with_zero_counters (pmerge attempt
                              [(''resumed_from'', PStr resumed_from), (''result_appended'', PBool True)])))
                    | (Inl x, _) \<Rightarrow> ((st, h1), Inl x)
                    | (_, Inl x) \<Rightarrow> ((st, h1), Inl x))))"

section \<open>The chain of records\<close>

definition record_pos :: "nat \<Rightarrow> pydict \<Rightarrow> bool" where
  "record_pos n e = (pget e ''sequence'' = PInt (int n + 1))"

definition record_prev :: "pydict \<Rightarrow> pyval" where
  "record_prev e = pget e ''parent_hash''"

definition record_own :: "pydict \<Rightarrow> pyval" where
  "record_own e = pget e ''record_hash''"

definition record_sealed :: "(string \<Rightarrow> string) \<Rightarrow> pydict \<Rightarrow> bool" where
  "record_sealed sha e = (pget e ''record_hash'' = PStr (stable_hash sha (PDict (pwithout [''record_hash''] e))))"

interpretation records: hash_chain record_pos record_prev record_own "record_sealed sha" "PStr ''sha256:genesis''" for sha
  by unfold_locales (simp add: record_pos_def)

lemma pwithout_update: "\<not> phas d k \<Longrightarrow> pwithout [k] (AList.update k v d) = d"
  by (induction d) (auto simp: pwithout_def phas_def split: if_splits)

lemma phas_update: "phas (AList.update k v d) j \<longleftrightarrow> j = k \<or> phas d j"
  by (auto simp: phas_def AList.update_conv')

text \<open>A record under no hash of its own: what every function of the store appends.\<close>

lemma seal_record_fields:
  assumes "\<not> phas rec ''record_hash''"
  shows "pget (seal_record sha rec seq parent) ''sequence'' = PInt seq"
    and "pget (seal_record sha rec seq parent) ''parent_hash'' = PStr parent"
    and "record_sealed sha (seal_record sha rec seq parent)"
    and "\<exists>h. pget (seal_record sha rec seq parent) ''record_hash'' = PStr h"
  using assms by (simp_all add: seal_record_def Let_def pget_update record_sealed_def pwithout_update phas_update)

lemma current_head_tip:
  assumes "records.valid sha (id_records st)"
  shows "PStr (current_head_hash st) = chain_tip record_own (PStr ''sha256:genesis'') (id_records st)"
proof (cases "id_records st" rule: rev_cases)
  case Nil
  then show ?thesis by (simp add: current_head_hash_def chain_tip_def)
next
  case (snoc es e)
  with assms have "record_sealed sha e" by (simp add: records.valid_snoc)
  then have "pget e ''record_hash'' = PStr (stable_hash sha (PDict (pwithout [''record_hash''] e)))"
    by (simp add: record_sealed_def)
  with snoc show ?thesis by (simp add: current_head_hash_def chain_tip_def record_own_def)
qed

lemma cas_append_valid:
  assumes "records.valid sha (id_records st)" and "\<not> phas rec ''record_hash''"
  shows "records.valid sha (id_records (fst (cas_append sha rec seq parent st)))"
proof -
  have "records.valid sha (id_records st @ [seal_record sha rec (next_sequence st) (current_head_hash st)])"
    unfolding records.valid_snoc
    using assms current_head_tip [OF assms(1)] seal_record_fields [OF assms(2)]
    by (simp add: record_pos_def next_sequence_def record_prev_def)
  with assms(1) show ?thesis by (simp add: cas_append_def Let_def)
qed

lemma cas_append_rest [simp]:
  "id_attempts (fst (cas_append sha rec seq parent st)) = id_attempts st"
  "id_invalid_replay (fst (cas_append sha rec seq parent st)) = id_invalid_replay st"
  "id_partial (fst (cas_append sha rec seq parent st)) = id_partial st"
  by (simp_all add: cas_append_def Let_def)

lemma cas_append_next_rest [simp]:
  "id_attempts (cas_append_next sha rec st) = id_attempts st"
  "id_invalid_replay (cas_append_next sha rec st) = id_invalid_replay st"
  "id_partial (cas_append_next sha rec st) = id_partial st"
  by (simp_all add: cas_append_next_def)

lemma cas_append_next_valid:
  "records.valid sha (id_records st) \<Longrightarrow> \<not> phas rec ''record_hash'' \<Longrightarrow>
     records.valid sha (id_records (cas_append_next sha rec st))"
  unfolding cas_append_next_def by (rule cas_append_valid)

section \<open>Histories of calls\<close>

datatype idem_call =
    IC_Acquire pydict
  | IC_Intent pydict int string
  | IC_Crash pydict string bool
  | IC_Recover pydict
  | IC_InvalidReplay
  | IC_Partial

definition call_key :: "pydict \<Rightarrow> string option" where
  "call_key command = (case pindex command ''idempotency_key'' of Inl _ \<Rightarrow> None | Inr k \<Rightarrow> Some (py_str k))"

fun idem_step :: "(string \<Rightarrow> string) \<Rightarrow> 'h p107_harness \<Rightarrow> idem_call \<Rightarrow> idem_store \<times> 'h \<Rightarrow> idem_store \<times> 'h" where
  "idem_step sha hn (IC_Acquire c) s = fst (acquire_or_replay_attempt sha hn c s)"
| "idem_step sha hn (IC_Intent c seq parent) s = fst (cas_append_attempt_intent sha hn c seq parent s)"
| "idem_step sha hn (IC_Crash c boundary with_harness) s =
     fst (simulate_crash sha (if with_harness then Some hn else None) c boundary s)"
| "idem_step sha hn (IC_Recover c) s = fst (recover_after_crash sha hn c s)"
| "idem_step sha hn IC_InvalidReplay (st, h) = (st\<lparr>id_invalid_replay := True\<rparr>, h)"
| "idem_step sha hn IC_Partial (st, h) = (st\<lparr>id_partial := True\<rparr>, h)"

text \<open>A crash is one of a first attempt: its key is not filed yet.\<close>

fun idem_call_ok :: "idem_call \<Rightarrow> idem_store \<Rightarrow> bool" where
  "idem_call_ok (IC_Crash c boundary w) st = (\<forall>k. call_key c = Some k \<longrightarrow> map_of (id_attempts st) k = None)"
| "idem_call_ok _ st = True"

inductive idem_reach :: "(string \<Rightarrow> string) \<Rightarrow> 'h p107_harness \<Rightarrow> idem_store \<times> 'h \<Rightarrow> idem_store \<times> 'h \<Rightarrow> bool"
  for sha hn s0 where
  start: "idem_reach sha hn s0 s0"
| call: "idem_reach sha hn s0 s \<Longrightarrow> idem_call_ok c (fst s) \<Longrightarrow> idem_reach sha hn s0 (idem_step sha hn c s)"

definition attempt_ok :: "string \<Rightarrow> pydict \<Rightarrow> bool" where
  "attempt_ok key a \<longleftrightarrow> (\<exists>i s. pindex a ''attempt_id'' = Inr (PStr i) \<and> pindex a ''idempotency_key'' = Inr (PStr key)
     \<and> pindex a ''payload_signature'' = Inr (PStr s))"

definition store_ok :: "(string \<Rightarrow> string) \<Rightarrow> idem_store \<Rightarrow> bool" where
  "store_ok sha st \<longleftrightarrow> records.valid sha (id_records st)
     \<and> (\<forall>k a. map_of (id_attempts st) k = Some a \<longrightarrow> attempt_ok k a)"

lemma attempts_ok:
  "attempt_ok key (won_attempt key i s r)" "attempt_ok key (pending_attempt key i s)"
  "attempt_ok key (pmerge (pending_attempt key i s) [(''effect_observed_without_result'', v)])"
  by (simp_all add: attempt_ok_def won_attempt_def pending_attempt_def)

lemma pindex_pmerge:
  "pindex (pmerge d e) k = (case map_of (rev e) k of None \<Rightarrow> pindex d k | Some v \<Rightarrow> Inr v)"
  by (simp add: pindex_def map_of_pmerge split: option.splits)

lemma attempt_ok_recovered:
  "attempt_ok key a \<Longrightarrow>
     attempt_ok key (pmerge a [(''result'', r), (''receipt_type'', x), (''terminal_state'', y)])"
  by (auto simp: attempt_ok_def pindex_pmerge simp del: pmerge_Cons)

lemma records_without_hash:
  "\<not> phas (intent_record k i s) ''record_hash''" "\<not> phas (acquired_record k i s r) ''record_hash''"
  "\<not> phas (result_record k i s r) ''record_hash''"
  by (simp_all add: intent_record_def acquired_record_def result_record_def)

text \<open>One call keeps the store consistent, and keeps every filed attempt that has a result.\<close>

definition keeps :: "(string \<Rightarrow> string) \<Rightarrow> idem_store \<Rightarrow> idem_store \<Rightarrow> bool" where
  "keeps sha st st' \<longleftrightarrow> store_ok sha st' \<and> take (length (id_records st)) (id_records st') = id_records st
     \<and> (\<forall>k a. map_of (id_attempts st) k = Some a \<and> pget a ''result'' \<noteq> PNone \<longrightarrow> map_of (id_attempts st') k = Some a)"

lemma keeps_refl: "store_ok sha st \<Longrightarrow> keeps sha st st"
  by (simp add: keeps_def)

lemma keeps_append: "store_ok sha st \<Longrightarrow> \<not> phas rec ''record_hash'' \<Longrightarrow> keeps sha st (fst (cas_append sha rec seq parent st))"
  by (simp add: keeps_def store_ok_def cas_append_valid) (simp add: cas_append_def Let_def)

lemma keeps_append_next: "store_ok sha st \<Longrightarrow> \<not> phas rec ''record_hash'' \<Longrightarrow> keeps sha st (cas_append_next sha rec st)"
  unfolding cas_append_next_def by (rule keeps_append)

lemma keeps_trans:
  assumes "keeps sha st st1" and "keeps sha st1 st2"
  shows "keeps sha st st2"
proof -
  let ?n = "length (id_records st)"
  have 1: "take ?n (id_records st1) = id_records st" using assms(1) by (simp add: keeps_def)
  have 2: "take (length (id_records st1)) (id_records st2) = id_records st1" using assms(2) by (simp add: keeps_def)
  from arg_cong [OF 1, of length] have "?n \<le> length (id_records st1)" by simp
  then have "take ?n (id_records st2) = take ?n (take (length (id_records st1)) (id_records st2))"
    by (simp add: min_absorb1)
  with 1 2 have "take ?n (id_records st2) = id_records st" by simp
  with assms show ?thesis by (simp add: keeps_def)
qed

lemma keeps_file:
  assumes "store_ok sha st" and "attempt_ok key a"
    and "\<And>b. map_of (id_attempts st) key = Some b \<Longrightarrow> pget b ''result'' = PNone"
  shows "keeps sha st (st\<lparr>id_attempts := AList.update key a (id_attempts st)\<rparr>)"
  using assms by (auto simp: keeps_def store_ok_def AList.update_conv')

lemma run_attempt_keeps:
  assumes "store_ok sha st" and "map_of (id_attempts st) key = None"
    and "\<And>i s r. \<not> phas (rr key i s r) ''record_hash''"
  shows "keeps sha st (fst (fst (run_attempt sha hn c key seq parent rr extra (st, h))))"
proof -
  let ?i = "next_attempt_id st" and ?s = "payload_signature sha c"
  obtain st1 cas where cas: "cas_append sha (intent_record key ?i ?s) seq parent st = (st1, cas)" by fastforce
  have 1: "keeps sha st st1"
    using keeps_append [OF assms(1) records_without_hash(1)] cas by (metis fst_conv)
  then have ok1: "store_ok sha st1" by (simp add: keeps_def)
  have at1: "id_attempts st1 = id_attempts st"
    using cas_append_rest(1) [of sha "intent_record key ?i ?s" seq parent st] cas by simp
  have 2: "keeps sha st1 (cas_append_next sha (rr key ?i ?s r) st1)" for r
    using ok1 assms(3) by (rule keeps_append_next)
  have 3: "keeps sha (cas_append_next sha (rr key ?i ?s r) st1)
      (cas_append_next sha (rr key ?i ?s r) st1\<lparr>id_attempts :=
         AList.update key (won_attempt key ?i ?s r) (id_attempts (cas_append_next sha (rr key ?i ?s r) st1))\<rparr>)" for r
    using keeps_append_next [OF ok1 assms(3)] at1 assms(2)
    by (intro keeps_file) (simp_all add: keeps_def attempts_ok)
  have "keeps sha st (cas_append_next sha (rr key ?i ?s r) st1\<lparr>id_attempts :=
         AList.update key (won_attempt key ?i ?s r) (id_attempts (cas_append_next sha (rr key ?i ?s r) st1))\<rparr>)" for r
    by (rule keeps_trans [OF 1 keeps_trans [OF 2 3]])
  with 1 show ?thesis by (auto simp: run_attempt_def Let_def cas split: prod.splits sum.splits)
qed

lemma acquire_keeps:
  assumes "store_ok sha (fst s)"
  shows "keeps sha (fst s) (fst (fst (acquire_or_replay_attempt sha hn c s)))"
proof -
  obtain st h where s: "s = (st, h)" by fastforce
  have "map_of (id_attempts st) k = None \<Longrightarrow>
      keeps sha st (fst (fst (run_attempt sha hn c k n p acquired_record e (st, h))))" for k n p e
    using run_attempt_keeps [of sha st k acquired_record] assms s records_without_hash(2) by simp
  with assms s show ?thesis
    by (auto simp: acquire_or_replay_attempt_def Let_def keeps_refl split: sum.splits option.splits)
qed

lemma intent_keeps:
  assumes "store_ok sha (fst s)"
  shows "keeps sha (fst s) (fst (fst (cas_append_attempt_intent sha hn c seq parent s)))"
proof -
  obtain st h where s: "s = (st, h)" by fastforce
  have "map_of (id_attempts st) k = None \<Longrightarrow>
      keeps sha st (fst (fst (run_attempt sha hn c k seq parent result_record e (st, h))))" for k e
    using run_attempt_keeps [of sha st k result_record] assms s records_without_hash(3) by simp
  with assms s show ?thesis
    by (auto simp: cas_append_attempt_intent_def Let_def keeps_refl split: sum.splits option.splits)
qed

lemma keeps_file_next:
  assumes "store_ok sha st" and "\<not> phas rec ''record_hash''" and "attempt_ok key a"
    and "\<And>b. map_of (id_attempts st) key = Some b \<Longrightarrow> pget b ''result'' = PNone"
  shows "keeps sha st (cas_append_next sha rec st\<lparr>id_attempts := AList.update key a (id_attempts st)\<rparr>)"
proof -
  have 1: "keeps sha st (cas_append_next sha rec st)" using assms(1,2) by (rule keeps_append_next)
  have "keeps sha (cas_append_next sha rec st) (cas_append_next sha rec st\<lparr>id_attempts :=
      AList.update key a (id_attempts (cas_append_next sha rec st))\<rparr>)"
    using 1 assms(3,4) by (intro keeps_file) (simp_all add: keeps_def)
  with keeps_trans [OF 1] show ?thesis by simp
qed

lemma crash_keeps:
  assumes ok: "store_ok sha (fst s)" and fresh: "\<forall>k. call_key c = Some k \<longrightarrow> map_of (id_attempts (fst s)) k = None"
  shows "keeps sha (fst s) (fst (fst (simulate_crash sha hn c b s)))"
proof (cases "pindex c ''idempotency_key''")
  case (Inl x)
  with ok show ?thesis by (simp add: simulate_crash_def keeps_refl)
next
  case (Inr k)
  obtain st h where s: "s = (st, h)" by fastforce
  let ?key = "py_str k" and ?i = "next_attempt_id st" and ?s = "payload_signature sha c"
  let ?st1 = "cas_append_next sha (intent_record ?key ?i ?s) st"
  let ?a = "pending_attempt ?key ?i ?s" and ?eff = "(''state'', PStr ''attempt_effect_observed'') # tl (intent_record ?key ?i ?s)"
  let ?st2 = "?st1\<lparr>id_attempts := AList.update ?key ?a (id_attempts st)\<rparr>"
  have none: "map_of (id_attempts st) ?key = None" using fresh Inr s by (simp add: call_key_def)
  have 2: "keeps sha st ?st2"
    using ok none s by (intro keeps_file_next) (simp_all add: records_without_hash attempts_ok)
  then have ok2: "store_ok sha ?st2" by (simp add: keeps_def)
  have p: "map_of (id_attempts ?st2) ?key = Some ?a" by (simp add: AList.update_conv')
  have pa: "pget ?a ''result'' = PNone" by (simp add: pending_attempt_def)
  have eff: "\<not> phas ?eff ''record_hash''" by (simp add: intent_record_def)
  let ?st3 = "?st2\<lparr>id_attempts := AList.update ?key (pmerge ?a [(''effect_observed_without_result'', PBool True)])
      (id_attempts ?st2)\<rparr>"
  have 3: "keeps sha ?st2 ?st3"
    using ok2 p pa by (intro keeps_file attempts_ok) (simp, metis option.inject)
  then have "keeps sha ?st3 (cas_append_next sha ?eff ?st3)"
    using eff by (intro keeps_append_next) (simp_all add: keeps_def)
  note 4 = keeps_trans [OF 2 keeps_trans [OF 3 this]]
  have "keeps sha st (st\<lparr>id_partial := True\<rparr>)" using ok s by (simp add: keeps_def store_ok_def)
  with 2 4 ok s Inr show ?thesis
    by (simp add: simulate_crash_def Let_def keeps_refl split: option.split sum.split prod.split)
qed

lemma recover_keeps:
  assumes ok: "store_ok sha (fst s)"
  shows "keeps sha (fst s) (fst (fst (recover_after_crash sha hn c s)))"
proof (cases "pindex c ''idempotency_key''")
  case (Inl x)
  with ok show ?thesis by (simp add: recover_after_crash_def keeps_refl)
next
  case (Inr k)
  obtain st h where s: "s = (st, h)" by fastforce
  show ?thesis
  proof (cases "map_of (id_attempts st) (py_str k)")
    case None
    with ok Inr s acquire_keeps [OF ok, of hn c] show ?thesis
      by (auto simp: recover_after_crash_def Let_def keeps_refl op_bind_def split: prod.splits sum.splits)
  next
    case (Some a)
    then have a: "attempt_ok (py_str k) a" using ok s by (simp add: store_ok_def)
    have "keeps sha st (cas_append_next sha rec st\<lparr>id_attempts := AList.update (py_str k)
        (pmerge a [(''result'', r), (''receipt_type'', x), (''terminal_state'', y)]) (id_attempts st)\<rparr>)"
      if "pget a ''result'' = PNone" "\<not> phas rec ''record_hash''" for rec r x y
      using ok s Some that by (intro keeps_file_next attempt_ok_recovered a) simp_all
    with ok Inr s Some show ?thesis
      by (auto simp: recover_after_crash_def Let_def keeps_refl simp del: pmerge_Cons split: prod.splits sum.splits)
  qed
qed

lemma idem_step_keeps:
  assumes "store_ok sha (fst s)" and "idem_call_ok c (fst s)"
  shows "keeps sha (fst s) (fst (idem_step sha hn c s))"
proof (cases c)
  case (IC_Acquire d)
  with acquire_keeps [OF assms(1)] show ?thesis by simp
next
  case (IC_Intent d seq parent)
  with intent_keeps [OF assms(1)] show ?thesis by simp
next
  case (IC_Crash d b w)
  with crash_keeps [OF assms(1), of d] assms(2) show ?thesis by simp
next
  case (IC_Recover d)
  with recover_keeps [OF assms(1)] show ?thesis by simp
qed (use assms in \<open>cases s; simp add: keeps_def store_ok_def\<close>)+

lemma idem_reach_keeps:
  assumes "idem_reach sha hn s0 s" and "store_ok sha (fst s0)"
  shows "keeps sha (fst s0) (fst s)"
  using assms
proof (induction rule: idem_reach.induct)
  case start
  then show ?case by (simp add: keeps_refl)
next
  case (call s c)
  then have "keeps sha (fst s0) (fst s)" by simp
  moreover from this have "store_ok sha (fst s)" by (simp add: keeps_def)
  ultimately show ?case using idem_step_keeps [OF _ call.hyps(2)] by (blast intro: keeps_trans)
qed

lemma empty_store_ok: "store_ok sha empty_store"
  by (simp add: store_ok_def empty_store_def records.valid_Nil)

section \<open>Properties\<close>

lemma answer_known_ok:
  assumes "attempt_ok key a"
  shows "\<exists>out. answer_known sha c a = Inr out
     \<and> (if pget a ''payload_signature'' = PStr (payload_signature sha c)
        then pget out ''receipt_type'' = PStr ''duplicate_replayed'' \<and> pget out ''result'' = pget a ''result''
        else out = idem_conflict)"
  and "\<exists>out. idem_duplicate a = Inr out \<and> pget out ''receipt_type'' = PStr ''duplicate_replayed''
     \<and> pget out ''result'' = pget a ''result''"
proof -
  from assms obtain i s where a: "pindex a ''attempt_id'' = Inr (PStr i)" "pindex a ''idempotency_key'' = Inr (PStr key)"
    "pindex a ''payload_signature'' = Inr (PStr s)" by (auto simp: attempt_ok_def)
  then have "pget a ''payload_signature'' = PStr s" by (auto simp: pget_def pindex_def split: option.splits)
  with a show "\<exists>out. answer_known sha c a = Inr out
     \<and> (if pget a ''payload_signature'' = PStr (payload_signature sha c)
        then pget out ''receipt_type'' = PStr ''duplicate_replayed'' \<and> pget out ''result'' = pget a ''result''
        else out = idem_conflict)"
    by (simp add: answer_known_def idem_duplicate_def with_zero_counters_def setdefault_def)
  from a show "\<exists>out. idem_duplicate a = Inr out \<and> pget out ''receipt_type'' = PStr ''duplicate_replayed''
     \<and> pget out ''result'' = pget a ''result''"
    by (simp add: idem_duplicate_def with_zero_counters_def setdefault_def)
qed

lemma call_key_index: "call_key c = Some key \<Longrightarrow> \<exists>k. pindex c ''idempotency_key'' = Inr k \<and> py_str k = key"
  by (auto simp: call_key_def split: sum.splits)


text \<open>The records of a store form a chain numbered from one, in which dropping, copying or reordering
  records is noticed unless only a tail was cut; and of two appends that expect the same head at most
  one wins, the other one leaves the store as it is.\<close>

theorem p107_cas_single_winner:
  assumes "idem_reach sha hn (empty_store, h0) (st, h)"
  shows "chain_from record_pos record_prev record_own (record_sealed sha) 0 (PStr ''sha256:genesis'') (id_records st)
     \<and> (\<forall>es. chain_from record_pos record_prev record_own (record_sealed sha) 0 (PStr ''sha256:genesis'') es
          \<and> set es \<subseteq> set (id_records st) \<longrightarrow> es = take (length es) (id_records st))
     \<and> (\<forall>r r' seq parent st1 out. cas_append sha r seq parent st = (st1, out) \<and> pget out ''cas_winner'' = PBool True
          \<longrightarrow> cas_append sha r' seq parent st1 = (st1, [(''cas_winner'', PBool False),
                (''terminal_state'', PStr ''duplicate_or_conflict_recorded'')]))"
proof -
  have "records.valid sha (id_records st)"
    using idem_reach_keeps [OF assms] empty_store_ok by (auto simp: keeps_def store_ok_def)
  moreover have "cas_append sha r' seq parent st1 = (st1, [(''cas_winner'', PBool False),
      (''terminal_state'', PStr ''duplicate_or_conflict_recorded'')])"
    if "cas_append sha r seq parent st = (st1, out)" "pget out ''cas_winner'' = PBool True" for r r' seq parent st1 out
    using that by (auto simp: cas_append_def Let_def next_sequence_def store_closed_def split: if_splits)
  ultimately show ?thesis using records.valid_subset_prefix unfolding records.valid_def by blast
qed

text \<open>A filed attempt with a result is replayed by recovery, which then changes nothing.\<close>

lemma recover_replays:
  assumes "\<not> store_closed st" and "call_key c = Some key" and "map_of (id_attempts st) key = Some a"
    and "pget a ''result'' \<noteq> PNone" and "phas a ''attempt_id''" and "phas a ''idempotency_key''"
  shows "\<exists>again. recover_after_crash sha hn c (st, h) = ((st, h), Inr again)
     \<and> pget again ''receipt_type'' = PStr ''duplicate_replayed'' \<and> pget again ''result'' = pget a ''result''"
proof -
  obtain k where "pindex c ''idempotency_key'' = Inr k" "py_str k = key" using call_key_index [OF assms(2)] by blast
  moreover obtain i y where "pindex a ''attempt_id'' = Inr i" "pindex a ''idempotency_key'' = Inr y"
    using assms(5,6) by (auto simp: phas_def pindex_def)
  ultimately show ?thesis
    using assms(1,3,4) by (simp add: recover_after_crash_def idem_duplicate_def Let_def with_zero_counters_def setdefault_def)
qed

text \<open>What stands after a crash, short of a damaged log and after the intent: a pending attempt, and the
  harness run if the crash came after its effect.\<close>

lemma crash_leaves_pending:
  assumes "\<not> store_closed st" and "call_key c = Some key" and "hn_invoke hn c h = (h1, Inr r1)"
    and "boundary \<notin> {''before_attempt_intent'', ''partial_record'', ''truncated_after_intent''}"
  shows "\<exists>st1 a. simulate_crash sha (Some hn) c boundary (st, h)
      = ((st1, if boundary = ''after_harness_effect_before_result'' then h1 else h), Inr ())
     \<and> \<not> store_closed st1 \<and> map_of (id_attempts st1) key = Some a \<and> pget a ''result'' = PNone
     \<and> pget a ''accepted'' = PBool True \<and> phas a ''attempt_id'' \<and> phas a ''idempotency_key'' \<and> phas a ''payload_signature''"
proof -
  obtain k where "pindex c ''idempotency_key'' = Inr k" "py_str k = key" using call_key_index [OF assms(2)] by blast
  with assms show ?thesis
    by (cases "boundary = ''after_harness_effect_before_result''")
      (simp_all add: simulate_crash_def Let_def AList.update_conv' pending_attempt_def store_closed_def)
qed

lemma pget_with_zero_counters:
  "k \<notin> {''duplicate_attempt_count'', ''crash_resume_duplicate_count'', ''concurrent_duplicate_action_count''} \<Longrightarrow>
     pget (with_zero_counters d) k = pget d k"
  by (simp add: with_zero_counters_def setdefault_def pget_def map_add_def split: option.splits)

lemma recover_pending:
  assumes "\<not> store_closed st" and "call_key c = Some key" and "map_of (id_attempts st) key = Some a"
    and "pget a ''result'' = PNone" and "pget a ''accepted'' = PBool True"
    and "phas a ''attempt_id''" and "phas a ''idempotency_key''" and "phas a ''payload_signature''"
    and "pending_result hn c key h = (h', Inr (r, from_state))"
  shows "\<exists>st' out a'. recover_after_crash sha hn c (st, h) = ((st', h'), Inr out) \<and> \<not> store_closed st'
     \<and> pget out ''accepted'' = PBool True \<and> pget out ''resumed_from'' = PStr from_state
     \<and> map_of (id_attempts st') key = Some a' \<and> pget a' ''terminal_state'' = PStr ''succeeded'' \<and> pget a' ''result'' = r
     \<and> phas a' ''attempt_id'' \<and> phas a' ''idempotency_key''"
proof -
  obtain k where "pindex c ''idempotency_key'' = Inr k" "py_str k = key" using call_key_index [OF assms(2)] by blast
  moreover obtain i sig where "pindex a ''attempt_id'' = Inr i" "pindex a ''payload_signature'' = Inr sig"
    using assms(6,8) by (auto simp: phas_def pindex_def)
  ultimately show ?thesis
    using assms by (simp add: recover_after_crash_def Let_def AList.update_conv' store_closed_def pget_with_zero_counters
        pget_update phas_update)
qed

text \<open>C14. Recovery brings an interrupted attempt to one result.  Take an attempt under a fresh key, cut off at
  a boundary, and a harness that would return a result other than \<open>None\<close> for the command, now and once
  more.  A damaged log is refused and the harness is left alone.  Otherwise recovery files a succeeded
  attempt, and a further recovery changes nothing and replays its result.  How often the harness is run
  in all depends on what it reports for the key when recovery asks: an effect it reports for a pending
  attempt is taken as the result, and without one it is run, also after a crash that followed an
  effect.  So a harness that reports its effects is run exactly once at every boundary.\<close>

theorem p107_crash_recovery_once:
  assumes "\<not> store_closed st" and "call_key c = Some key" and "map_of (id_attempts st) key = None"
    and "hn_invoke hn c h = (h1, Inr r1)" and "hn_invoke hn c h1 = (h2, Inr r2)" and "r1 \<noteq> PNone" and "r2 \<noteq> PNone"
  shows "\<exists>s1. simulate_crash sha (Some hn) c boundary (st, h) = (s1, Inr ()) \<and>
    (if boundary \<in> {''partial_record'', ''truncated_after_intent''}
     then snd s1 = h \<and> recover_after_crash sha hn c s1 = (s1, Inr (idem_refused ''audit_replay_invalid''))
     else \<exists>st' h' out a again.
       recover_after_crash sha hn c s1 = ((st', h'), Inr out) \<and> pget out ''accepted'' = PBool True
       \<and> map_of (id_attempts st') key = Some a \<and> pget a ''terminal_state'' = PStr ''succeeded''
       \<and> (h', pget a ''result'', pget out ''resumed_from'') =
           (if boundary = ''before_attempt_intent'' then (h1, r1, PStr ''policy_rechecked'')
            else if boundary = ''after_harness_effect_before_result''
            then (if existing_effect hn key h1 \<noteq> PNone then (h1, existing_effect hn key h1, PStr ''attempt_effect_observed'')
                  else (h2, r2, PStr ''wal_intent_appended''))
            else (if existing_effect hn key h \<noteq> PNone then (h, existing_effect hn key h, PStr ''attempt_effect_observed'')
                  else (h1, r1, PStr ''wal_intent_appended'')))
       \<and> (existing_effect hn key h = PNone \<and> existing_effect hn key h1 \<noteq> PNone \<longrightarrow> h' = h1)
       \<and> recover_after_crash sha hn c (st', h') = ((st', h'), Inr again)
       \<and> pget again ''receipt_type'' = PStr ''duplicate_replayed'' \<and> pget again ''result'' = pget a ''result'')"
proof -
  obtain k where k: "pindex c ''idempotency_key'' = Inr k" "py_str k = key" using call_key_index [OF assms(2)] by blast
  consider (damaged) "boundary \<in> {''partial_record'', ''truncated_after_intent''}"
    | (before) "boundary = ''before_attempt_intent''"
    | (after) "boundary \<notin> {''before_attempt_intent'', ''partial_record'', ''truncated_after_intent''}" by blast
  then show ?thesis
  proof cases
    case damaged
    with k show ?thesis by (auto simp: simulate_crash_def recover_after_crash_def Let_def store_closed_def)
  next
    case before
    have "\<exists>st1 rc. cas_append sha (intent_record key (next_attempt_id st) (payload_signature sha c)) (next_sequence st)
        (current_head_hash st) st = (st1, rc) \<and> pget rc ''cas_winner'' = PBool True \<and> \<not> store_closed st1"
      using assms(1) by (simp add: cas_append_def Let_def store_closed_def)
    then obtain st' out a where r: "recover_after_crash sha hn c (st, h) = ((st', h1), Inr out)" "\<not> store_closed st'"
      "pget out ''accepted'' = PBool True" "pget out ''resumed_from'' = PStr ''policy_rechecked''"
      and a: "map_of (id_attempts st') key = Some a" "pget a ''terminal_state'' = PStr ''succeeded''" "pget a ''result'' = r1"
        "phas a ''attempt_id''" "phas a ''idempotency_key''"
      using k assms(1,3,4) by (auto simp: recover_after_crash_def acquire_or_replay_attempt_def run_attempt_def Let_def
          op_bind_def AList.update_conv' won_attempt_def pget_update with_zero_counters_def setdefault_def store_closed_def phas_def)
    note again = recover_replays [OF r(2) assms(2) a(1) _ a(4,5), of sha hn h1]
    from before k r a again assms(6) show ?thesis by (simp add: simulate_crash_def)
  next
    case after
    from crash_leaves_pending [OF assms(1,2,4) this, of sha]
    obtain st1 a1 where crash: "simulate_crash sha (Some hn) c boundary (st, h)
        = ((st1, if boundary = ''after_harness_effect_before_result'' then h1 else h), Inr ())"
      and st1: "\<not> store_closed st1" "map_of (id_attempts st1) key = Some a1" "pget a1 ''result'' = PNone"
        "pget a1 ''accepted'' = PBool True" "phas a1 ''attempt_id''" "phas a1 ''idempotency_key''" "phas a1 ''payload_signature''"
      by blast
    let ?h = "if boundary = ''after_harness_effect_before_result'' then h1 else h"
    have "\<exists>h' r fr. pending_result hn c key ?h = (h', Inr (r, fr))
      \<and> (h', r, PStr fr) = (if boundary = ''after_harness_effect_before_result''
            then (if existing_effect hn key h1 \<noteq> PNone then (h1, existing_effect hn key h1, PStr ''attempt_effect_observed'')
                  else (h2, r2, PStr ''wal_intent_appended''))
            else (if existing_effect hn key h \<noteq> PNone then (h, existing_effect hn key h, PStr ''attempt_effect_observed'')
                  else (h1, r1, PStr ''wal_intent_appended'')))"
      using assms(4,5)
      by (cases "boundary = ''after_harness_effect_before_result''") (simp_all add: pending_result_def Let_def op_bind_def op_return_def)
    then obtain h' r fr where p: "pending_result hn c key ?h = (h', Inr (r, fr))"
      and exact: "(h', r, PStr fr) = (if boundary = ''after_harness_effect_before_result''
            then (if existing_effect hn key h1 \<noteq> PNone then (h1, existing_effect hn key h1, PStr ''attempt_effect_observed'')
                  else (h2, r2, PStr ''wal_intent_appended''))
            else (if existing_effect hn key h \<noteq> PNone then (h, existing_effect hn key h, PStr ''attempt_effect_observed'')
                  else (h1, r1, PStr ''wal_intent_appended'')))"
      by blast
    from recover_pending [OF st1(1) assms(2) st1(2-7) p, of sha] obtain st' out a where
      r: "recover_after_crash sha hn c (st1, ?h) = ((st', h'), Inr out)" "\<not> store_closed st'"
        "pget out ''accepted'' = PBool True" "pget out ''resumed_from'' = PStr fr"
      and a: "map_of (id_attempts st') key = Some a" "pget a ''terminal_state'' = PStr ''succeeded''" "pget a ''result'' = r"
        "phas a ''attempt_id''" "phas a ''idempotency_key''" by blast
    have "r \<noteq> PNone" using exact assms(6,7) by (auto split: if_splits)
    with recover_replays [OF r(2) assms(2) a(1) _ a(4,5), of sha hn h'] a(3) obtain again where
      "recover_after_crash sha hn c (st', h') = ((st', h'), Inr again)"
      "pget again ''receipt_type'' = PStr ''duplicate_replayed''" "pget again ''result'' = pget a ''result''" by blast
    moreover have "existing_effect hn key h = PNone \<and> existing_effect hn key h1 \<noteq> PNone \<longrightarrow> h' = h1"
      using exact by (auto split: if_splits)
    ultimately show ?thesis using crash r a exact after by (intro exI [of _ "(st1, ?h)"]) (auto split: if_splits)
  qed
qed

text \<open>Recovery does not compare payloads: a command under the key of a pending attempt is run even when
  acquiring it would be refused as a conflict, and its result is filed under the other command's
  signature.\<close>

theorem p107_recovery_ignores_payload:
  assumes "idem_reach sha hn (empty_store, h0) (st, h)" and "\<not> store_closed st"
    and "call_key c = Some key" and "map_of (id_attempts st) key = Some a" and "pget a ''result'' = PNone"
    and "pget a ''payload_signature'' \<noteq> PStr (payload_signature sha c)"
    and "hn_existing hn = None" and "hn_invoke hn c h = (h1, Inr r)"
  shows "acquire_or_replay_attempt sha hn c (st, h) = ((st, h), Inr idem_conflict)
     \<and> (\<exists>st' out a'. recover_after_crash sha hn c (st, h) = ((st', h1), Inr out)
          \<and> pget out ''terminal_state'' = PStr ''succeeded'' \<and> map_of (id_attempts st') key = Some a'
          \<and> pget a' ''result'' = r \<and> pget a' ''payload_signature'' = pget a ''payload_signature'')"
proof -
  have "store_ok sha st" using idem_reach_keeps [OF assms(1)] empty_store_ok by (auto simp: keeps_def)
  with assms(4) have a: "attempt_ok key a" by (auto simp: store_ok_def)
  obtain k where k: "pindex c ''idempotency_key'' = Inr k" "py_str k = key" using call_key_index [OF assms(3)] by blast
  from a obtain i s where ids: "pindex a ''attempt_id'' = Inr (PStr i)" "pindex a ''payload_signature'' = Inr (PStr s)"
    by (auto simp: attempt_ok_def)
  have acq: "acquire_or_replay_attempt sha hn c (st, h) = ((st, h), Inr idem_conflict)"
    using answer_known_ok(1) [OF a, of sha c] assms(2,4,6) k by (auto simp: acquire_or_replay_attempt_def Let_def)
  have zero: "pget (with_zero_counters d) ''terminal_state'' = pget d ''terminal_state''" for d
    by (simp add: with_zero_counters_def pget_setdefault)
  from acq show ?thesis
    using assms(2,4,5,7,8) k ids
    by (auto simp: recover_after_crash_def Let_def pending_result_def existing_effect_def op_bind_def AList.update_conv' zero pget_update)
qed

end
