(* ===== verification/Py_Float.thy ===== *)
theory Py_Float
  imports Prelude
begin

text \<open>
  \<open>float(v)\<close> and the two comparisons the prevention code makes with its result.  A finite value is kept
  as the decimal it was written as, \<open>Finite n e\<close> for \<open>n * 10 ^ e\<close>; the comparisons say what rounding to
  a double makes of it.
\<close>

datatype pyfloat = Finite int int | Infinite bool | NotANumber

text \<open>A run of digits in which single underscores may stand between digits.\<close>

fun take_digits :: "bool \<Rightarrow> int \<Rightarrow> nat \<Rightarrow> string \<Rightarrow> int \<times> nat \<times> string" where
  "take_digits after acc n [] = (acc, n, [])"
| "take_digits after acc n (c # s) =
     (let d = int (of_char c :: nat) - 48 in
      if 0 \<le> d \<and> d \<le> 9 then take_digits True (acc * 10 + d) (Suc n) s
      else if c = CHR ''_'' \<and> after \<and> (case s of [] \<Rightarrow> False | c' # _ \<Rightarrow> 48 \<le> (of_char c' :: nat) \<and> (of_char c' :: nat) \<le> 57)
      then take_digits False acc n s
      else (acc, n, c # s))"

definition take_sign :: "string \<Rightarrow> bool \<times> string" where
  "take_sign s = (case s of [] \<Rightarrow> (False, [])
     | c # t \<Rightarrow> if c = CHR ''-'' then (True, t) else if c = CHR ''+'' then (False, t) else (False, s))"

definition parse_decimal :: "bool \<Rightarrow> string \<Rightarrow> pyfloat option" where
  "parse_decimal neg s =
    (let (a, na, r1) = take_digits False 0 0 s;
         (b, nb, r2) = (case r1 of c # t \<Rightarrow> if c = CHR ''.'' then take_digits False a 0 t else (a, 0, r1) | [] \<Rightarrow> (a, 0, []));
         m = (if neg then - b else b) in
     if na + nb = 0 then None
     else case r2 of
       [] \<Rightarrow> Some (Finite m (- int nb))
     | c # t \<Rightarrow>
         if c \<notin> {CHR ''e'', CHR ''E''} then None
         else let (eneg, u) = take_sign t; (x, nx, r3) = take_digits False 0 0 u in
           if nx = 0 \<or> r3 \<noteq> [] then None
           else Some (Finite m ((if eneg then - x else x) - int nb)))"

definition parse_float :: "string \<Rightarrow> pyfloat option" where
  "parse_float s =
    (let (neg, t) = take_sign (py_strip s); w = py_lower t in
     if w \<in> {''inf'', ''infinity''} then Some (Infinite neg)
     else if w = ''nan'' then Some NotANumber
     else parse_decimal neg t)"

fun py_float :: "pyval \<Rightarrow> pyfloat result" where
  "py_float (PBool b) = Inr (Finite (if b then 1 else 0) 0)"
| "py_float (PInt i) =
     (if 2 ^ 1024 - 2 ^ 970 \<le> \<bar>i\<bar> then Inl (Raised ''OverflowError'' ''int too large to convert to float'')
      else Inr (Finite i 0))"
| "py_float (PFloat m e) = Inr (Finite m (- int e))"
| "py_float (PStr s) = (case parse_float s of
       Some f \<Rightarrow> Inr f
     | None \<Rightarrow> Inl (Raised ''ValueError'' (''could not convert string to float: '' @ repr_str s)))"
| "py_float _ = Inl (Raised ''TypeError'' ''float() argument must be a string or a real number'')"

text \<open>\<open>f <= 0.0\<close>: a positive decimal up to half of the least double rounds to zero.\<close>

fun not_positive :: "pyfloat \<Rightarrow> bool" where
  "not_positive (Finite n e) =
     (if n \<le> 0 then True else if 0 \<le> e then False else n * 2 ^ 1075 \<le> 10 ^ nat (- e))"
| "not_positive (Infinite neg) = neg"
| "not_positive NotANumber = False"

text \<open>
  \<open>f < 0.8\<close>: the double 0.8 is 7205759403792794 / 2 ^ 53, so a decimal rounds below it exactly when it
  is below the midpoint to the double before it.
\<close>

fun below_0_8 :: "pyfloat \<Rightarrow> bool" where
  "below_0_8 (Finite n e) =
     (if 0 \<le> e then n * 10 ^ nat e * 2 ^ 54 < 14411518807585587
      else n * 2 ^ 54 < 14411518807585587 * 10 ^ nat (- e))"
| "below_0_8 (Infinite neg) = neg"
| "below_0_8 NotANumber = False"

text \<open>
  \<open>f < g\<close> on decimals, a number on the same side of a threshold as \<open>f\<close>, and the value as the program
  keeps it.  On decimals of at most fifteen significant digits, which all scores and thresholds of the
  program are, the order of the doubles is that of the decimals.  The text of a value that is not
  finite is the one \<open>json.dumps\<close> writes for it.
\<close>

fun pyfloat_less :: "pyfloat \<Rightarrow> pyfloat \<Rightarrow> bool" where
  "pyfloat_less (Finite n e) (Finite m d) = (n * 10 ^ nat (e - min e d) < m * 10 ^ nat (d - min e d))"
| "pyfloat_less (Infinite a) (Infinite b) = (a \<and> \<not> b)"
| "pyfloat_less (Infinite a) (Finite m d) = a"
| "pyfloat_less (Finite n e) (Infinite b) = (\<not> b)"
| "pyfloat_less NotANumber g = False"
| "pyfloat_less f NotANumber = False"

fun float_rat :: "pyfloat \<Rightarrow> rat" where
  "float_rat (Finite n e) = (if 0 \<le> e then of_int (n * 10 ^ nat e) else of_int n / 10 ^ nat (- e))"
| "float_rat (Infinite neg) = (if neg then - 1 else 1)"
| "float_rat NotANumber = 1"

fun float_value :: "pyfloat \<Rightarrow> pyval" where
  "float_value (Finite n e) = (if 0 \<le> e then PFloat (n * 10 ^ nat e) 0 else PFloat n (nat (- e)))"
| "float_value (Infinite neg) = PStr (if neg then ''-Infinity'' else ''Infinity'')"
| "float_value NotANumber = PStr ''NaN''"

end
