(* ===== verification/Prevention_Guardrail.thy ===== *)
theory Prevention_Guardrail
  imports Py_Float Prevention_Harness
begin

text \<open>
  Guardrail outcomes, rollback and the repeat lock (\<open>app/services/prevention_guardrail_rollback.py\<close>).
  The rollback handler is a parameter, an operation on a world of its own.
\<close>

definition UNSAFE_GUARDRAIL_STATES :: "string list" where
  "UNSAFE_GUARDRAIL_STATES = [''breached'', ''uncertain'', ''unknown'', ''failed'', ''missing'']"

definition ROLLBACK_TERMINALS :: "string list" where
  "ROLLBACK_TERMINALS = [''rolled_back'', ''rollback_failed_escalated'', ''escalated'']"

record guardrail_decision =
  gd_safe_to_claim_success :: bool
  gd_unsafe_reasons :: "string list"
  gd_requires_rollback_or_escalation :: bool

definition evaluate_guardrail_outcome :: "pydict \<Rightarrow> guardrail_decision result" where
  "evaluate_guardrail_outcome outcome =
    (let telemetry = truthy (pget outcome ''telemetry_available'');
         status = py_lower (py_str (pget_or outcome ''guardrail_status'' (PStr ''missing'')));
         delta = pget outcome ''primary_metric_delta'' in
     rbind (if delta = PNone then Inr [''missing_primary_metric_delta'']
            else rbind (py_float delta) (\<lambda>f. Inr (if not_positive f then [''non_improvement''] else []))) (\<lambda>metric.
     let reasons = (if telemetry then [] else [''telemetry_loss''])
           @ (if status \<in> set UNSAFE_GUARDRAIL_STATES then [''guardrail_'' @ status] else []) @ metric
     in Inr \<lparr>gd_safe_to_claim_success = (reasons = []), gd_unsafe_reasons = reasons,
             gd_requires_rollback_or_escalation = (reasons \<noteq> [])\<rparr>))"

definition lock_material :: "pydict \<Rightarrow> pydict" where
  "lock_material attempt =
     [(''episode_id'', pget_or attempt ''episode_id'' (PStr [])),
      (''capability_id'', pget_or attempt ''capability_id'' (PStr [])),
      (''cohort_hash'', pget_or attempt ''cohort_hash'' (pget_or attempt ''cohort_fingerprint_hash'' (PStr []))),
      (''idempotency_key'', pget_or attempt ''idempotency_key'' (PStr []))]"

definition repeat_lock_key :: "(string \<Rightarrow> string) \<Rightarrow> pydict \<Rightarrow> string" where
  "repeat_lock_key sha attempt =
    (let material = lock_material attempt in
     stable_hash sha (PDict (if list_ex (\<lambda>(k, v). truthy v) material then material
       else material @ [(''attempt_id'', pget_or attempt ''attempt_id'' (PStr ''unknown''))])))"

type_synonym 'x rollback_handler = "pydict \<Rightarrow> ('x, pydict) op"

definition rollback_or_escalate :: "'x rollback_handler option \<Rightarrow> pydict \<Rightarrow> ('x, pydict) op" where
  "rollback_or_escalate handler attempt =
     (case handler of
        None \<Rightarrow> op_return [(''status'', PStr ''escalated''), (''terminal_state'', PStr ''escalated''),
                  (''reason'', PStr ''rollback_handler_missing'')]
      | Some f \<Rightarrow> op_bind (f attempt) (\<lambda>result.
          let status = py_str (pget_or result ''status'' (PStr ''failed'')) in
          if status = ''rolled_back''
          then op_return [(''status'', PStr ''rolled_back''), (''terminal_state'', PStr ''rolled_back'')]
          else op_return [(''status'', PStr status), (''terminal_state'', PStr ''rollback_failed_escalated''),
                 (''reason'', PStr (py_str (pget_or result ''reason'' (PStr ''rollback_failed''))))]))"

definition zero_repeat_counts :: pydict where
  "zero_repeat_counts = [(''repeat_after_rollback_execution_count'', PInt 0),
     (''breach_without_rollback_or_escalation_count'', PInt 0), (''non_improvement_success_claim_count'', PInt 0)]"

text \<open>The state is the set of locked keys, a list without duplicates, and the world of the handler.\<close>

definition assess ::
    "(string \<Rightarrow> string) \<Rightarrow> 'x rollback_handler option \<Rightarrow> pydict \<Rightarrow> pydict \<Rightarrow> (string list \<times> 'x, pydict) op" where
  "assess sha handler attempt outcome s =
    (let (locks, x) = s; repeat_key = repeat_lock_key sha attempt in
     if repeat_key \<in> set locks
     then (s, Inr ([(''success_claimed'', PBool False), (''terminal_state'', PStr ''blocked_fail_closed''),
            (''effect_applied'', PBool False), (''repeat_allowed'', PBool False)] @ zero_repeat_counts))
     else case evaluate_guardrail_outcome outcome of
       Inl e \<Rightarrow> (s, Inl e)
     | Inr decision \<Rightarrow>
         if gd_safe_to_claim_success decision
         then (s, Inr ([(''success_claimed'', PBool True), (''terminal_state'', PStr ''succeeded''),
                (''effect_applied'', PBool True), (''repeat_allowed'', PBool True)] @ zero_repeat_counts))
         else case rollback_or_escalate handler attempt x of
           (x1, Inl e) \<Rightarrow> ((locks, x1), Inl e)
         | (x1, Inr result) \<Rightarrow>
             let named = py_str (pget_or result ''terminal_state'' (pget_or result ''status'' (PStr ''escalated'')));
                 terminal = (if named \<in> set ROLLBACK_TERMINALS then named else ''escalated'') in
             ((List.insert repeat_key locks, x1),
              Inr ([(''success_claimed'', PBool False), (''terminal_state'', PStr terminal),
                    (''effect_applied'', PBool True), (''repeat_allowed'', PBool False),
                    (''rollback_attempt'', PDict
                       [(''attempt_id'', PStr (''rollback-'' @ py_str (pget_or attempt ''attempt_id'' (PStr ''unknown'')))),
                        (''attempt_kind'', PStr ''rollback''),
                        (''status'', PStr (py_str (pget_or result ''status'' (PStr terminal))))]),
                    (''rollback_result'', PDict result)] @ zero_repeat_counts)))"

section \<open>Facts\<close>

lemma assess_locks:
  assumes "assess sha handler attempt outcome (locks, x) = ((locks', x'), out)"
  shows "set locks \<subseteq> set locks'"
  using assms by (auto simp: assess_def Let_def split: if_splits sum.splits prod.splits)

lemma assess_effect:
  assumes "assess sha handler attempt outcome (locks, x) = ((locks', x'), Inr r)"
    and "pget r ''effect_applied'' = PBool True" and "pget r ''success_claimed'' = PBool False"
  shows "repeat_lock_key sha attempt \<in> set locks'
     \<and> (\<exists>t \<in> set ROLLBACK_TERMINALS. pget r ''terminal_state'' = PStr t)"
  using assms by (auto simp: assess_def Let_def zero_repeat_counts_def ROLLBACK_TERMINALS_def
      split: if_splits sum.splits prod.splits)

lemma lock_key_material:
  assumes "lock_material a = lock_material b" and "list_ex (\<lambda>(k, v). truthy v) (lock_material a)"
  shows "repeat_lock_key sha a = repeat_lock_key sha b"
  using assms unfolding repeat_lock_key_def Let_def by simp

text \<open>What counts as improvement: \<open>not (float(delta) <= 0.0)\<close>, for a delta that is there and is a number.\<close>

lemma safe_outcome_iff:
  assumes "evaluate_guardrail_outcome outcome = Inr d"
  shows "gd_safe_to_claim_success d \<longleftrightarrow> truthy (pget outcome ''telemetry_available'')
     \<and> py_lower (py_str (pget_or outcome ''guardrail_status'' (PStr ''missing'')))
         \<notin> {''breached'', ''uncertain'', ''unknown'', ''failed'', ''missing''}
     \<and> (\<exists>f. py_float (pget outcome ''primary_metric_delta'') = Inr f \<and> \<not> not_positive f)"
  using assms by (auto simp: evaluate_guardrail_outcome_def UNSAFE_GUARDRAIL_STATES_def Let_def rbind_Inr_iff
      split: if_splits)


lemma blocked_by_lock:
  "repeat_lock_key sha attempt \<in> set locks \<Longrightarrow> \<exists>b. assess sha handler attempt outcome (locks, x) = ((locks, x), Inr b)
     \<and> pget b ''success_claimed'' = PBool False \<and> pget b ''effect_applied'' = PBool False
     \<and> pget b ''terminal_state'' = PStr ''blocked_fail_closed''"
  by (simp add: assess_def Let_def)

text \<open>C34. An assessment that returns claims success exactly for an attempt whose repeat lock is free, with
  telemetry, a guardrail status that is none of the five unsafe ones, and a metric that is a number and
  is not at most zero (\<open>nan\<close> is not either).  A claim of success changes nothing and takes no lock.
  Without it the assessment is blocked by the lock, and changes nothing; or it ends rolled back or
  escalated, with the lock taken, and then every later assessment of an attempt with the same lock key
  is blocked without running the rollback handler, whatever its outcome says.\<close>

theorem p107_success_claim_exact:
  assumes "assess sha handler attempt outcome (locks, x) = ((locks', x'), Inr r)"
  shows "(pget r ''success_claimed'' = PBool True \<longleftrightarrow>
       repeat_lock_key sha attempt \<notin> set locks
       \<and> truthy (pget outcome ''telemetry_available'')
       \<and> py_lower (py_str (pget_or outcome ''guardrail_status'' (PStr ''missing'')))
           \<notin> {''breached'', ''uncertain'', ''unknown'', ''failed'', ''missing''}
       \<and> (\<exists>f. py_float (pget outcome ''primary_metric_delta'') = Inr f \<and> \<not> not_positive f))
     \<and> (if pget r ''success_claimed'' = PBool True
        then pget r ''terminal_state'' = PStr ''succeeded'' \<and> locks' = locks \<and> x' = x
        else pget r ''success_claimed'' = PBool False \<and> repeat_lock_key sha attempt \<in> set locks'
          \<and> (if repeat_lock_key sha attempt \<in> set locks
             then pget r ''terminal_state'' = PStr ''blocked_fail_closed'' \<and> locks' = locks \<and> x' = x
             else pget r ''terminal_state'' \<in> {PStr ''rolled_back'', PStr ''rollback_failed_escalated'', PStr ''escalated''})
          \<and> (\<forall>later outcome2 y. repeat_lock_key sha later = repeat_lock_key sha attempt \<longrightarrow>
               (\<exists>b. assess sha handler later outcome2 (locks', y) = ((locks', y), Inr b)
                  \<and> pget b ''success_claimed'' = PBool False \<and> pget b ''effect_applied'' = PBool False
                  \<and> pget b ''terminal_state'' = PStr ''blocked_fail_closed'')))"
proof (cases "repeat_lock_key sha attempt \<in> set locks")
  case True
  then have "locks' = locks" "x' = x" "pget r ''success_claimed'' = PBool False" "pget r ''terminal_state'' = PStr ''blocked_fail_closed''"
    using assms by (auto simp: assess_def Let_def)
  with True blocked_by_lock [of sha _ locks handler] show ?thesis by simp
next
  case False
  with assms obtain d where d: "evaluate_guardrail_outcome outcome = Inr d"
    by (auto simp: assess_def Let_def split: sum.splits)
  show ?thesis
  proof (cases "gd_safe_to_claim_success d")
    case True
    with False assms d have "locks' = locks" "x' = x" "pget r ''success_claimed'' = PBool True" "pget r ''terminal_state'' = PStr ''succeeded''"
      by (auto simp: assess_def Let_def)
    with False True safe_outcome_iff [OF d] show ?thesis by simp
  next
    case unsafe: False
    with False assms d have claim: "pget r ''success_claimed'' = PBool False" "pget r ''effect_applied'' = PBool True"
      by (auto simp: assess_def Let_def split: prod.splits sum.splits)
    from assess_effect [OF assms claim(2,1)] have "repeat_lock_key sha attempt \<in> set locks'"
      "pget r ''terminal_state'' \<in> {PStr ''rolled_back'', PStr ''rollback_failed_escalated'', PStr ''escalated''}"
      by (auto simp: ROLLBACK_TERMINALS_def)
    with claim False unsafe safe_outcome_iff [OF d] blocked_by_lock [of sha _ locks' handler] show ?thesis by simp
  qed
qed

text \<open>A breached guardrail without a rollback handler.\<close>

lemma p107_success_claim_exact_witness:
  "\<exists>locks r. assess (\<lambda>s. s) None [(''episode_id'', PStr ''e'')]
       [(''telemetry_available'', PBool True), (''guardrail_status'', PStr ''Breached''), (''primary_metric_delta'', PInt 3)] ([], ())
     = ((locks, ()), Inr r) \<and> pget r ''success_claimed'' = PBool False \<and> pget r ''terminal_state'' \<noteq> PStr ''succeeded''"
proof -
  have "returns (\<lambda>_. True) (snd (assess (\<lambda>s. s) None [(''episode_id'', PStr ''e'')]
       [(''telemetry_available'', PBool True), (''guardrail_status'', PStr ''Breached''), (''primary_metric_delta'', PInt 3)] ([], ())))"
    by code_simp
  then obtain locks r where run: "assess (\<lambda>s. s) None [(''episode_id'', PStr ''e'')]
       [(''telemetry_available'', PBool True), (''guardrail_status'', PStr ''Breached''), (''primary_metric_delta'', PInt 3)] ([], ())
     = ((locks, ()), Inr r)"
    by (cases "assess (\<lambda>s. s) None [(''episode_id'', PStr ''e'')]
       [(''telemetry_available'', PBool True), (''guardrail_status'', PStr ''Breached''), (''primary_metric_delta'', PInt 3)] ([], ())") (auto simp: Inr_such_that)
  have "py_lower (py_str (PStr ''Breached'')) = ''breached''" by code_simp
  with p107_success_claim_exact [OF run] run show ?thesis by (auto simp: pget_or_def split: if_splits)
qed

text \<open>A metric that is no number at all passes for an improvement.\<close>

lemma nan_is_no_failure:
  "returns gd_safe_to_claim_success (evaluate_guardrail_outcome
     [(''telemetry_available'', PBool True), (''guardrail_status'', PStr ''ok''), (''primary_metric_delta'', PStr ''nan'')])"
  by code_simp

end
