(* ===== verification/Prevention_Executor.thy ===== *)
theory Prevention_Executor
  imports Prevention_Guardrail
begin

text \<open>
  The canary executor (\<open>app/services/prevention_canary_executor.py\<close>): four gates in order, the harness,
  the result and monitoring hooks, and the guardrail assessment.  A hook is an operation on a world
  the model does not look into; the state of the default harness and the repeat locks are kept beside
  it.
\<close>

section \<open>Configuration and state\<close>

datatype 'x hook = NotCallable | Hook "pydict list \<Rightarrow> ('x, pyval) op"

text \<open>A configured harness: called itself, or through its method \<open>execute\<close> or \<open>invoke\<close>, or with none.\<close>

datatype 'x some_harness = CallableHarness "pydict \<Rightarrow> ('x, pyval) op" | ExecuteHarness "pydict \<Rightarrow> ('x, pyval) op"
  | InvokeHarness "pydict \<Rightarrow> ('x, pyval) op" | NoHarnessMethod

record 'x canary_executor =
  px_p106_recompute :: "'x hook option"
  px_cohort_validator :: "'x hook option"
  px_policy_preflight :: "'x hook option"
  px_idempotency_wal :: "'x hook option"
  px_harness :: "'x some_harness option"
  px_result_appender :: "'x hook option"
  px_monitor :: "'x hook option"
  px_report_handoff :: "'x hook option"
  px_rollback_handler :: "'x rollback_handler option"

record 'x executor_state =
  xs_canary :: canary_harness
  xs_locks :: "string list"
  xs_world :: 'x

definition missing_step :: "string \<Rightarrow> 'x hook" where
  "missing_step name = Hook (\<lambda>_ x. (x, Inr (PDict
     [(''passed'', PBool False), (''status'', PStr ''blocked_fail_closed''), (''step'', PStr name),
      (''reason'', PStr (''required hook '' @ name @ '' is not configured''))])))"

definition hook_or_missing :: "'x hook option \<Rightarrow> string \<Rightarrow> 'x hook" where
  "hook_or_missing hook name = (case hook of None \<Rightarrow> missing_step name | Some f \<Rightarrow> f)"

fun call_hook :: "'x hook \<Rightarrow> pydict list \<Rightarrow> ('x, pydict) op" where
  "call_hook NotCallable args = op_return
     [(''passed'', PBool False), (''status'', PStr ''blocked_fail_closed''), (''reason'', PStr ''hook_unavailable'')]"
| "call_hook (Hook f) args = op_bind (f args) (\<lambda>v. op_return (as_dict v))"

definition passed :: "pydict \<Rightarrow> bool" where
  "passed result \<longleftrightarrow> pget result ''passed'' \<noteq> PBool False \<and> pget result ''accepted'' \<noteq> PBool False
     \<and> py_str (pget_or result ''status'' (PStr ''ok'')) \<noteq> ''blocked_fail_closed''
     \<and> py_str (pget_or result ''terminal_state'' (PStr [])) \<noteq> ''blocked_fail_closed''"

text \<open>\<open>terminal_state or str(...)\<close>: \<open>None\<close> is the default of the two optional arguments.\<close>

definition finalize :: "pydict \<Rightarrow> string option \<Rightarrow> bool option \<Rightarrow> pydict" where
  "finalize result terminal_state effect_applied =
    (let terminal = (case terminal_state of
           Some t \<Rightarrow> if t \<noteq> [] then t else py_str (pget_or result ''terminal_state'' (PStr ''succeeded''))
         | None \<Rightarrow> py_str (pget_or result ''terminal_state'' (PStr ''succeeded'')));
         body = AList.update ''terminal_state'' (PStr terminal) result;
         body = (case effect_applied of None \<Rightarrow> body | Some b \<Rightarrow> AList.update ''effect_applied'' (PBool b) body) in
     setdefault (setdefault (setdefault body ''success_claimed'' (PBool (terminal = ''succeeded'')))
       ''repeat_after_rollback_execution_count'' (PInt 0)) ''breach_without_rollback_or_escalation_count'' (PInt 0))"

definition executor_blocked :: "string \<Rightarrow> pydict \<Rightarrow> pydict" where
  "executor_blocked step_name result = finalize
     [(''terminal_state'', PStr ''blocked_fail_closed''), (''failed_step'', PStr step_name),
      (''gate_result'', PDict result), (''success_claimed'', PBool False), (''effect_applied'', PBool False)] None None"

definition attempt_from_command :: "pydict \<Rightarrow> pydict \<Rightarrow> pydict" where
  "attempt_from_command command harness_result =
     [(''attempt_id'', pget_or harness_result ''attempt_id'' (PStr ''attempt-unknown'')),
      (''episode_id'', pget_or command ''episode_id'' (PStr [])),
      (''capability_id'', pget_or command ''capability_id''
         (pget_or (as_dict (pget command ''action'')) ''capability_id'' (PStr []))),
      (''cohort_hash'', pget_or command ''cohort_hash'' (pget_or command ''cohort_fingerprint_hash'' (PStr []))),
      (''idempotency_key'', pget_or command ''idempotency_key'' (PStr []))]"

definition outcome_of :: "pydict \<Rightarrow> pydict option" where
  "outcome_of command = (case pget command ''post_attempt_outcome'' of PDict d \<Rightarrow> Some d | _ \<Rightarrow> None)"

section \<open>One run\<close>

text \<open>An operation on the world alone.\<close>

definition in_world :: "('x, 'a) op \<Rightarrow> ('x executor_state, 'a) op" where
  "in_world m s = (let (x, out) = m (xs_world s) in (s\<lparr>xs_world := x\<rparr>, out))"

definition gates_of :: "'x canary_executor \<Rightarrow> (string \<times> 'x hook) list" where
  "gates_of px =
     [(''p106_recompute'', hook_or_missing (px_p106_recompute px) ''p106_recompute''),
      (''cohort_fingerprints'', hook_or_missing (px_cohort_validator px) ''cohort_fingerprints''),
      (''policy_preflight'', hook_or_missing (px_policy_preflight px) ''policy_preflight''),
      (''idempotency_wal_intent'', hook_or_missing (px_idempotency_wal px) ''idempotency_wal_intent'')]"

text \<open>The gates in order; the first that does not pass ends the loop with its name and result.\<close>

fun run_gates :: "(string \<times> 'x hook) list \<Rightarrow> pydict \<Rightarrow> ('x, (string \<times> pydict) option) op" where
  "run_gates [] command = op_return None"
| "run_gates ((name, hook) # gates) command =
     op_bind (call_hook hook [command]) (\<lambda>result.
       if passed result then run_gates gates command else op_return (Some (name, result)))"

definition harness_action :: "pydict \<Rightarrow> pydict" where
  "harness_action command =
    (let action = setdefault (as_dict (pget command ''action'')) ''idempotency_key'' (pget command ''idempotency_key'');
         action = setdefault action ''action_type'' (PStr ''mock.create_local_report'') in
     setdefault action ''capability_id'' (pget_or command ''capability_id''
       (PStr (case map_of REGISTERED_LOCAL_MOCK_HANDLERS (py_str (pget action ''action_type'')) of
                None \<Rightarrow> ''preventive.mock.report'' | Some c \<Rightarrow> c))))"

definition run_harness ::
    "(string \<Rightarrow> string) \<Rightarrow> 'x canary_executor \<Rightarrow> pydict \<Rightarrow> ('x executor_state, pydict) op" where
  "run_harness sha px command s =
     (case px_harness px of
        None \<Rightarrow> (let (h, result) = canary_execute sha (harness_action command) (xs_canary s)
                 in (s\<lparr>xs_canary := h\<rparr>, Inr result))
      | Some (CallableHarness f) \<Rightarrow> in_world (op_bind (f command) (\<lambda>v. op_return (as_dict v))) s
      | Some (ExecuteHarness f) \<Rightarrow> in_world (op_bind (f (harness_action command)) (\<lambda>v. op_return (as_dict v))) s
      | Some (InvokeHarness f) \<Rightarrow> in_world (op_bind (f command) (\<lambda>v. op_return (as_dict v))) s
      | Some NoHarnessMethod \<Rightarrow> (s, Inr [(''passed'', PBool False), (''status'', PStr ''blocked_fail_closed''),
                                  (''reason'', PStr ''harness_unavailable'')]))"

definition run_assess ::
    "(string \<Rightarrow> string) \<Rightarrow> 'x canary_executor \<Rightarrow> pydict \<Rightarrow> pydict \<Rightarrow> pydict \<Rightarrow> ('x executor_state, pydict) op" where
  "run_assess sha px command harness_result outcome s =
    (let ((locks, x), out) = assess sha (px_rollback_handler px) (attempt_from_command command harness_result) outcome
                               (xs_locks s, xs_world s)
     in (s\<lparr>xs_locks := locks, xs_world := x\<rparr>, out))"

text \<open>What follows the harness.\<close>

definition after_harness ::
    "(string \<Rightarrow> string) \<Rightarrow> 'x canary_executor \<Rightarrow> pydict \<Rightarrow> pydict \<Rightarrow> ('x executor_state, pydict) op" where
  "after_harness sha px command harness_result =
     op_bind (in_world (call_hook (hook_or_missing (px_result_appender px) ''result_append'') [command, harness_result])) (\<lambda>appended.
     if \<not> passed appended then op_return (executor_blocked ''result_append'' appended)
     else op_bind (in_world (call_hook (hook_or_missing (px_monitor px) ''monitoring'') [command, harness_result])) (\<lambda>monitored.
     if \<not> passed monitored then op_return (executor_blocked ''monitoring'' monitored)
     else op_bind (case outcome_of command of
            None \<Rightarrow> (let terminal = py_str (pget_or monitored ''terminal_state''
                               (pget_or harness_result ''terminal_state'' (PStr ''succeeded''))) in
                    op_return [(''terminal_state'', PStr terminal), (''success_claimed'', PBool (terminal = ''succeeded'')),
                               (''effect_applied'', PBool True)])
          | Some outcome \<Rightarrow> run_assess sha px command harness_result outcome) (\<lambda>body.
     op_bind (in_world (call_hook (hook_or_missing (px_report_handoff px) ''report_handoff'') [command, body])) (\<lambda>report.
     op_return (finalize (setdefault body ''report_handoff'' (PDict report)) None None)))))"

definition repeat_blocked :: pydict where
  "repeat_blocked = finalize
     [(''terminal_state'', PStr ''blocked_fail_closed''), (''effect_applied'', PBool False),
      (''success_claimed'', PBool False), (''repeat_allowed'', PBool False),
      (''repeat_after_rollback_execution_count'', PInt 0), (''breach_without_rollback_or_escalation_count'', PInt 0)]
     None None"

definition command_lock :: "(string \<Rightarrow> string) \<Rightarrow> pydict \<Rightarrow> string" where
  "command_lock sha command =
     repeat_lock_key sha (attempt_from_command command [(''attempt_id'', PStr ''repeat-probe'')])"

definition executor_run ::
    "(string \<Rightarrow> string) \<Rightarrow> 'x canary_executor \<Rightarrow> pydict \<Rightarrow> ('x executor_state, pydict) op" where
  "executor_run sha px command s =
     (if command_lock sha command \<in> set (xs_locks s) then (s, Inr repeat_blocked)
      else op_bind (in_world (run_gates (gates_of px) command)) (\<lambda>failed.
        case failed of
          Some (name, result) \<Rightarrow> op_return (executor_blocked name result)
        | None \<Rightarrow> op_bind (run_harness sha px command) (\<lambda>harness_result.
            if \<not> passed harness_result
            then op_return (finalize harness_result (Some ''blocked_fail_closed'') (Some False))
            else after_harness sha px command harness_result)) s)"

section \<open>Facts about one run\<close>

lemma pget_setdefault_same: "pget (setdefault d k v) k = (if phas d k then pget d k else v)"
  by (auto simp: setdefault_def pget_def phas_def map_add_def split: option.splits)

lemma phas_setdefault: "phas (setdefault d j v) k \<longleftrightarrow> phas d k \<or> k = j"
  by (auto simp: setdefault_def phas_def map_add_def split: option.splits)

lemma phas_update_iff: "phas (AList.update j v d) k \<longleftrightarrow> k = j \<or> phas d k"
  by (auto simp: phas_def AList.update_conv')

lemma finalize_effect:
  "pget (finalize b t None) ''effect_applied'' = pget b ''effect_applied''"
  "pget (finalize b t (Some e)) ''effect_applied'' = PBool e"
  by (simp_all add: finalize_def Let_def pget_setdefault pget_update)

lemma finalize_body:
  assumes "phas b ''success_claimed''" and "pget b ''terminal_state'' = PStr t"
  shows "pget (finalize b None None) ''success_claimed'' = pget b ''success_claimed''"
    and "pget (finalize b None None) ''terminal_state'' = PStr t"
proof -
  have "pget_or b ''terminal_state'' x = PStr t" for x
    using assms(2) by (auto simp: pget_or_def pget_def split: option.splits)
  with assms show "pget (finalize b None None) ''success_claimed'' = pget b ''success_claimed''"
    "pget (finalize b None None) ''terminal_state'' = PStr t"
    by (simp_all add: finalize_def Let_def pget_setdefault pget_setdefault_same phas_update_iff pget_update)
qed

lemma blocked_effect:
  "pget (executor_blocked n r) ''effect_applied'' = PBool False" "pget repeat_blocked ''effect_applied'' = PBool False"
  by (simp_all add: executor_blocked_def repeat_blocked_def finalize_effect)

lemma in_world_frame [simp]:
  "xs_canary (fst (in_world m s)) = xs_canary s" "xs_locks (fst (in_world m s)) = xs_locks s"
  by (simp_all add: in_world_def split: prod.splits)

lemma in_world_Inr: "in_world m s = (s', Inr r) \<longleftrightarrow> (\<exists>x. m (xs_world s) = (x, Inr r) \<and> s' = s\<lparr>xs_world := x\<rparr>)"
  by (auto simp: in_world_def split: prod.splits)

lemma in_world_keeps:
  assumes "in_world m s = (s', out)"
  shows "xs_canary s' = xs_canary s \<and> xs_locks s' = xs_locks s"
  using in_world_frame [of m s] assms by simp_all

lemma missing_not_passed: "call_hook (missing_step n) args x = (y, Inr r) \<Longrightarrow> \<not> passed r"
  by (auto simp: missing_step_def op_bind_def passed_def)

text \<open>Passing the gates means that each is configured.\<close>

lemma gate_passed:
  assumes "run_gates (gs @ (n, h) # gs') command x = (y, Inr None)"
  obtains x1 x2 r where "call_hook h [command] x1 = (x2, Inr r)" "passed r"
  using assms
proof (induction gs arbitrary: x)
  case Nil
  then show ?case by (auto elim!: op_bind_cases split: if_splits)
next
  case (Cons g gs)
  then show ?case by (cases g) (auto elim!: op_bind_cases split: if_splits)
qed

lemma gate_hook:
  "run_gates (gs @ (n, hook_or_missing h m) # gs') command x = (y, Inr None) \<Longrightarrow> h \<noteq> None"
  by (erule gate_passed, cases h) (auto simp: hook_or_missing_def dest: missing_not_passed)

lemma gates_configured:
  assumes "run_gates (gates_of px) command x = (y, Inr None)"
  shows "px_p106_recompute px \<noteq> None \<and> px_cohort_validator px \<noteq> None \<and> px_policy_preflight px \<noteq> None
     \<and> px_idempotency_wal px \<noteq> None"
proof (intro conjI)
  note run = assms [unfolded gates_of_def]
  show "px_p106_recompute px \<noteq> None"
    by (rule gate_hook [of "[]", unfolded append_Nil, OF run])
  show "px_cohort_validator px \<noteq> None"
    by (rule gate_hook [of "[g]" for g, unfolded append_Cons append_Nil, OF run])
  show "px_policy_preflight px \<noteq> None"
    by (rule gate_hook [of "[g, g']" for g g', unfolded append_Cons append_Nil, OF run])
  show "px_idempotency_wal px \<noteq> None"
    by (rule gate_hook [of "[g, g', g'']" for g g' g'', unfolded append_Cons append_Nil, OF run])
qed


text \<open>How a run ends: at the lock, at a gate, or after the harness.\<close>

lemma executor_cases:
  assumes "executor_run sha px command s = (s', out)"
  obtains (locked) "command_lock sha command \<in> set (xs_locks s)" "s' = s" "out = Inr repeat_blocked"
  | (gate) x e where "run_gates (gates_of px) command (xs_world s) = (x, Inl e)" "s' = s\<lparr>xs_world := x\<rparr>" "out = Inl e"
  | (blocked) x name result where "s' = s\<lparr>xs_world := x\<rparr>" "out = Inr (executor_blocked name result)"
  | (harness) x s1 res where "command_lock sha command \<notin> set (xs_locks s)"
      "run_gates (gates_of px) command (xs_world s) = (x, Inr None)"
      "run_harness sha px command (s\<lparr>xs_world := x\<rparr>) = (s1, res)"
      "case res of Inl e \<Rightarrow> s' = s1 \<and> out = Inl e
       | Inr r \<Rightarrow> if passed r then after_harness sha px command r s1 = (s', out)
                 else s' = s1 \<and> out = Inr (finalize r (Some ''blocked_fail_closed'') (Some False))"
proof (cases "command_lock sha command \<in> set (xs_locks s)")
  case True
  with assms have "s' = s" "out = Inr repeat_blocked" by (simp_all add: executor_run_def)
  with True show ?thesis by (rule locked)
next
  case False
  obtain x g where gates: "run_gates (gates_of px) command (xs_world s) = (x, g)" by (cases rule: prod.exhaust)
  obtain s1 res where run: "run_harness sha px command (s\<lparr>xs_world := x\<rparr>) = (s1, res)" by (cases rule: prod.exhaust)
  consider (raised) e where "g = Inl e" | (failed) name result where "g = Inr (Some (name, result))" | (ok) "g = Inr None"
    by (metis option.exhaust prod.exhaust sumE)
  then show ?thesis
  proof cases
    case raised
    with assms False gates have "s' = s\<lparr>xs_world := x\<rparr>" "out = Inl e"
      by (simp_all add: executor_run_def op_bind_def in_world_def)
    with gates raised show ?thesis by (intro gate) simp_all
  next
    case failed
    with assms False gates have "s' = s\<lparr>xs_world := x\<rparr>" "out = Inr (executor_blocked name result)"
      by (simp_all add: executor_run_def op_bind_def in_world_def)
    then show ?thesis by (rule blocked)
  next
    case ok
    with assms False gates run have "case res of Inl e \<Rightarrow> s' = s1 \<and> out = Inl e
       | Inr r \<Rightarrow> if passed r then after_harness sha px command r s1 = (s', out)
                 else s' = s1 \<and> out = Inr (finalize r (Some ''blocked_fail_closed'') (Some False))"
      by (auto simp: executor_run_def op_bind_def in_world_def split: sum.splits if_splits)
    with gates ok show ?thesis using harness [OF False _ run] by blast
  qed
qed

text \<open>What follows the harness: the first failing hook, the plain end, or the assessment.\<close>

lemma after_harness_cases:
  assumes "after_harness sha px command hr s = (s', Inr r)"
  obtains (blocked) x name result where "s' = s\<lparr>xs_world := x\<rparr>" "r = executor_blocked name result"
  | (plain) x report where "outcome_of command = None" "s' = s\<lparr>xs_world := x\<rparr>"
  | (assessed) x s1 s2 x2 outcome body report where "outcome_of command = Some outcome" "s1 = s\<lparr>xs_world := x\<rparr>"
      "run_assess sha px command hr outcome s1 = (s2, Inr body)" "s' = s2\<lparr>xs_world := x2\<rparr>"
      "r = finalize (setdefault body ''report_handoff'' (PDict report)) None None"
  using assms unfolding after_harness_def Let_def
  by (auto elim!: op_bind_cases simp: in_world_Inr split: if_splits option.splits)

lemma run_assess_frame: "run_assess sha px command hr outcome s = (s', out) \<Longrightarrow> xs_canary s' = xs_canary s \<and> set (xs_locks s) \<subseteq> set (xs_locks s')"
  by (auto simp: run_assess_def dest: subsetD [OF assess_locks] split: prod.splits)

lemma after_harness_frame:
  assumes "after_harness sha px command hr s = (s', out)"
  shows "xs_canary s' = xs_canary s \<and> set (xs_locks s) \<subseteq> set (xs_locks s')"
  using assms unfolding after_harness_def Let_def
  by (auto elim!: op_bind_cases split: if_splits option.splits dest!: in_world_keeps run_assess_frame) blast+

lemma run_harness_frame:
  assumes "run_harness sha px command s = (s', out)"
  shows "xs_locks s' = xs_locks s"
    and "xs_canary s' = (case px_harness px of None \<Rightarrow> fst (canary_execute sha (harness_action command) (xs_canary s))
                           | Some _ \<Rightarrow> xs_canary s)"
  using assms by (auto simp: run_harness_def dest: in_world_keeps split: option.splits some_harness.splits prod.splits)


lemma executor_frame:
  assumes "executor_run sha px command s = (s', out)"
  shows "set (xs_locks s) \<subseteq> set (xs_locks s')"
  using assms
proof (cases rule: executor_cases)
  case (harness x s1 res)
  then show ?thesis using run_harness_frame(1) [OF harness(3)]
    by (auto split: sum.splits if_splits dest: subsetD [OF conjunct2 [OF after_harness_frame]])
qed auto

text \<open>A run with an effect was not locked and passed the gates.\<close>

lemma executed_gates:
  assumes "executor_run sha px command s = (s', out)"
    and "xs_canary s' \<noteq> xs_canary s \<or> (\<exists>r. out = Inr r \<and> pget r ''effect_applied'' = PBool True)"
  shows "command_lock sha command \<notin> set (xs_locks s) \<and> (\<exists>x. run_gates (gates_of px) command (xs_world s) = (x, Inr None))
    \<and> (xs_canary s' = xs_canary s \<or> xs_canary s' = fst (canary_execute sha (harness_action command) (xs_canary s)))"
  using assms(1)
proof (cases rule: executor_cases)
  case (harness x s1 res)
  have "xs_canary s' = xs_canary s1"
    using harness(4) by (auto split: sum.splits if_splits dest: after_harness_frame)
  moreover have "xs_canary s1 = xs_canary s \<or> xs_canary s1 = fst (canary_execute sha (harness_action command) (xs_canary s))"
    using run_harness_frame(2) [OF harness(3)] by (simp split: option.splits)
  ultimately show ?thesis using harness(1,2) by simp
qed (use assms(2) in \<open>auto simp: blocked_effect\<close>)

fun executor_runs :: "(string \<Rightarrow> string) \<Rightarrow> 'x canary_executor \<Rightarrow> pydict list \<Rightarrow> 'x executor_state \<Rightarrow> 'x executor_state" where
  "executor_runs sha px [] s = s"
| "executor_runs sha px (c # cs) s = executor_runs sha px cs (fst (executor_run sha px c s))"

lemma executor_runs_locks: "k \<in> set (xs_locks s) \<Longrightarrow> k \<in> set (xs_locks (executor_runs sha px cs s))"
proof (induction cs arbitrary: s)
  case (Cons c cs)
  then show ?case using executor_frame [OF prod.collapse [symmetric]] by fastforce
qed simp

lemma assess_claims:
  assumes "assess sha handler attempt outcome t = (t', Inr r)"
  shows "phas r ''success_claimed'' \<and> (\<exists>v. pget r ''terminal_state'' = PStr v)"
  using assms by (auto simp: assess_def Let_def split: if_splits sum.splits prod.splits)

lemma command_lock_attempt:
  assumes "lock_material (attempt_from_command c []) = lock_material (attempt_from_command d [])"
    and "list_ex (\<lambda>(k, v). truthy v) (lock_material (attempt_from_command d []))"
  shows "command_lock sha c = repeat_lock_key sha (attempt_from_command d hr)"
proof -
  have same: "lock_material (attempt_from_command e a) = lock_material (attempt_from_command e b)" for e a b
    by (simp add: lock_material_def attempt_from_command_def)
  show ?thesis unfolding command_lock_def
    by (rule lock_key_material) (use assms same in metis)+
qed

section \<open>Properties\<close>


text \<open>C8. A reported breach is not repeated.  When a run of a command that declares its outcome and names an
  episode, capability, cohort or key reports an applied effect and no claim of success, it ended in a
  rollback or an escalation; and from then on, whatever else is run, every command with the same lock
  material is answered from the lock and changes nothing.  (A run that does not report its effect is not
  covered: lemma \<open>p107_failed_append_hides_effect\<close>.)\<close>

theorem p107_breach_never_repeated:
  assumes "executor_run sha px command s = (s', Inr r)" and "outcome_of command \<noteq> None"
    and "pget r ''effect_applied'' = PBool True" and "pget r ''success_claimed'' = PBool False"
    and "lock_material (attempt_from_command later []) = lock_material (attempt_from_command command [])"
    and "list_ex (\<lambda>(k, v). truthy v) (lock_material (attempt_from_command command []))"
  shows "(\<exists>t \<in> set ROLLBACK_TERMINALS. pget r ''terminal_state'' = PStr t)
    \<and> executor_run sha px later (executor_runs sha px cs s') = (executor_runs sha px cs s', Inr repeat_blocked)"
  using assms(1)
proof (cases rule: executor_cases)
  case (harness x s1 res)
  with assms(3) obtain hr where "after_harness sha px command hr s1 = (s', Inr r)"
    by (auto simp: finalize_effect split: sum.splits if_splits)
  then show ?thesis
  proof (cases rule: after_harness_cases)
    case (assessed x' t1 t2 x2 outcome body report)
    then obtain locks x3 where run: "assess sha (px_rollback_handler px) (attempt_from_command command hr) outcome
        (xs_locks t1, xs_world t1) = ((locks, x3), Inr body)" and t2: "xs_locks t2 = locks"
      by (auto simp: run_assess_def split: prod.splits)
    let ?b = "setdefault body ''report_handoff'' (PDict report)"
    from assess_claims [OF run] obtain v where "phas ?b ''success_claimed''" "pget ?b ''terminal_state'' = PStr v"
      by (auto simp: phas_setdefault pget_setdefault)
    from finalize_body [OF this] this assess_effect [OF run] assms(3,4) assessed(5)
    have "repeat_lock_key sha (attempt_from_command command hr) \<in> set locks"
      and terminal: "\<exists>t \<in> set ROLLBACK_TERMINALS. pget r ''terminal_state'' = PStr t"
      by (auto simp: finalize_effect pget_setdefault)
    then have "command_lock sha later \<in> set (xs_locks (executor_runs sha px cs s'))"
      using command_lock_attempt [OF assms(5,6)] assessed(4) t2 by (simp add: executor_runs_locks)
    with terminal show ?thesis by (simp add: executor_run_def)
  qed (use assms(2,3) blocked_effect in auto)
qed (use assms(3) in \<open>auto simp: blocked_effect\<close>)

text \<open>A missing result hook is noticed only after the harness ran.  The command has had its effect, the
  answer says that none was applied, and neither a rollback is tried nor a repeat lock taken.\<close>

theorem p107_failed_append_hides_effect:
  assumes "px_result_appender px = None" and "executor_run sha px command s = (s', Inr r)"
    and "xs_canary s' \<noteq> xs_canary s"
  shows "pget r ''effect_applied'' = PBool False \<and> pget r ''terminal_state'' = PStr ''blocked_fail_closed''
    \<and> xs_locks s' = xs_locks s
    \<and> (\<exists>k e. ch_effects (xs_canary s) k = None \<and> ch_effects (xs_canary s') k = Some e
           \<and> pget e ''effect_applied'' = PBool True)"
  using assms(2)
proof (cases rule: executor_cases)
  case (harness x s1 res)
  have ran: "xs_canary s' = xs_canary s1 \<and> xs_locks s' = xs_locks s1 \<and> pget r ''effect_applied'' = PBool False
      \<and> pget r ''terminal_state'' = PStr ''blocked_fail_closed''"
    using harness(4) assms(1)
    by (auto simp: after_harness_def hook_or_missing_def missing_step_def op_bind_def in_world_def passed_def
        executor_blocked_def finalize_def Let_def pget_setdefault pget_update split: sum.splits if_splits)
  let ?h = "fst (canary_execute sha (harness_action command) (xs_canary s))"
  from ran assms(3) run_harness_frame(2) [OF harness(3)] have "xs_canary s' = ?h" "?h \<noteq> xs_canary s"
    by (auto split: option.splits)
  moreover from this(2) obtain k e where "ch_effects (xs_canary s) k = None" "ch_effects ?h k = Some e"
      "pget e ''effect_applied'' = PBool True"
    by (auto simp: canary_execute_def canary_result_def Let_def split: option.splits if_splits)
  ultimately show ?thesis using ran run_harness_frame(1) [OF harness(3)] by auto
qed (use assms(3) in auto)

text \<open>C1. A command without an idempotency key is not refused: its key is the text \<open>None\<close>, which all such
  commands share, so that a later one is answered with the receipt of the first.\<close>

theorem p107_missing_key_shared:
  assumes "\<not> phas command ''idempotency_key''" and "\<not> phas (as_dict (pget command ''action'')) ''idempotency_key''"
    and "px_harness px = None"
  shows "text_field (harness_action command) ''idempotency_key'' = ''None''
    \<and> (\<forall>e. ch_effects (xs_canary s) ''None'' = Some e \<longrightarrow>
         run_harness sha px command s = (s, Inr (canary_replay (ch_sentinel (xs_canary s)) e)))"
proof -
  have "pget_or (harness_action command) ''idempotency_key'' d = PNone" for d
    using assms(1,2) by (auto simp: harness_action_def Let_def setdefault_def pget_or_def pget_def phas_def map_add_def
        split: option.splits)
  then have "text_field (harness_action command) ''idempotency_key'' = ''None''"
    unfolding text_field_def by (simp only:) code_simp
  with assms(3) show ?thesis by (simp add: run_harness_def canary_execute_def Let_def)
qed

end
