(* ===== verification/Preventive_Safety_Gate.thy ===== *)
theory Preventive_Safety_Gate
  imports Policy_Engine Py_Float
begin

text \<open>
  The shared safety gate of preventive planning (\<open>app/services/preventive_safety_gate.py\<close>), on top of the
  policy engine, the blast-radius service and the simulator.
\<close>

section \<open>Inputs\<close>

text \<open>
  A case is a dictionary.  The objects it may carry beside plain values are kept apart: a ready request,
  the registries of the engine and of the other two services (the engine's own, unless given), and
  the memory matches that are \<open>IncidentMemoryMatch\<close> objects.  A match is its warnings and its summary.
\<close>

record memory_match =
  mm_warnings :: "string list"
  mm_summary :: pydict

record gate_objects =
  go_request :: "action_request option"
  go_registry :: registry
  go_blast :: "registry option"
  go_simulator :: "registry option"
  go_matches :: "memory_match list"

definition no_objects :: gate_objects where
  "no_objects = \<lparr>go_request = None, go_registry = DEFAULT_ACTION_REGISTRY, go_blast = None, go_simulator = None,
     go_matches = []\<rparr>"

definition SAFE_BLAST_RADIUS_SCOPES :: "string list" where
  "SAFE_BLAST_RADIUS_SCOPES = [''local'', ''service'']"

definition PRODUCTION_ENVIRONMENTS :: "string list" where
  "PRODUCTION_ENVIRONMENTS = [''prod'', ''production'']"

definition PROHIBITED_ACTION_MARKERS :: "string list" where
  "PROHIBITED_ACTION_MARKERS = [''shell'', ''secret'', ''database'', ''cloud.delete'', ''production.'']"

definition coerce_request :: "gate_objects \<Rightarrow> pydict \<Rightarrow> action_request" where
  "coerce_request objs c =
    (case go_request objs of Some request \<Rightarrow> request
     | None \<Rightarrow>
       let payload = as_dict (pget_or c ''payload'' (PDict []));
           service = py_str (pget_or c ''service'' (pget_or payload ''service'' (PStr ''demo-service''))) in
       \<lparr>ar_action_type = py_str (pget_or c ''action_type'' (pget_or payload ''action_type'' (PStr ''unknown''))),
        ar_target = py_str (pget_or c ''target'' (pget_or payload ''target'' (PStr service))),
        ar_environment = py_str (pget_or c ''environment'' (pget_or payload ''environment'' (PStr ''local''))),
        ar_tenant_id = py_str (pget_or c ''tenant_id'' (PStr ''demo'')),
        ar_workspace_id = py_str (pget_or c ''workspace_id'' (PStr ''demo'')),
        ar_payload = payload, ar_requester = ''agent'',
        ar_incident_id = (if pget c ''incident_id'' \<noteq> PNone then Some (py_str (pget c ''incident_id'')) else None),
        ar_approved = False, ar_approval_id = None\<rparr>)"

definition gate_blast :: "gate_objects \<Rightarrow> pydict \<Rightarrow> blast_radius_result" where
  "gate_blast objs c = blast_evaluate (case go_blast objs of None \<Rightarrow> go_registry objs | Some r \<Rightarrow> r) (coerce_request objs c)"

definition gate_simulation :: "gate_objects \<Rightarrow> pydict \<Rightarrow> simulation_result" where
  "gate_simulation objs c = simulate (case go_simulator objs of None \<Rightarrow> go_registry objs | Some r \<Rightarrow> r) (coerce_request objs c)"

definition gate_confidence :: "pydict \<Rightarrow> pyfloat option result" where
  "gate_confidence c = (let v = pget c ''confidence'' in
     if v = PNone then Inr None
     else case py_float v of
       Inr f \<Rightarrow> Inr (Some f)
     | Inl e \<Rightarrow> if exn_class e \<in> {''TypeError'', ''ValueError''} then Inr None else Inl e)"

definition gate_threshold :: "pydict \<Rightarrow> pyfloat result" where
  "gate_threshold c = py_float (pget_or c ''confidence_threshold'' (PFloat 8 1))"

text \<open>Matches given as plain values are no \<open>IncidentMemoryMatch\<close>, but fill the summary.\<close>

definition failed_remediation :: "memory_match list \<Rightarrow> bool" where
  "failed_remediation matches = list_ex (\<lambda>m. ''prior_failed_remediation'' \<in> set (mm_warnings m)) matches"

definition gate_failed_memory :: "gate_objects \<Rightarrow> pydict \<Rightarrow> bool" where
  "gate_failed_memory objs c \<longleftrightarrow>
     truthy (pget c ''failed_memory'') \<or> truthy (pget c ''failed_remediation_warning'')
     \<or> truthy (pget c ''memory_failed_action_warning'') \<or> truthy (pget c ''prior_failed_remediation'')
     \<or> failed_remediation (go_matches objs)"

definition memory_summary :: "gate_objects \<Rightarrow> pydict \<Rightarrow> pyval" where
  "memory_summary objs c =
    (let summary = (case pget_or c ''memory_matches'' (PList []) of PList items \<Rightarrow> filter is_dict items | _ \<Rightarrow> []) in
     PList (if summary \<noteq> [] then summary else map (\<lambda>m. PDict (mm_summary m)) (go_matches objs)))"

definition either_signal :: "pydict \<Rightarrow> string \<Rightarrow> string \<Rightarrow> bool" where
  "either_signal c a b \<longleftrightarrow> truthy (pget c a) \<or> truthy (pget c b)"

definition scope_rank :: "string \<Rightarrow> nat" where
  "scope_rank s = (if s = ''local'' then 0 else if s = ''service'' then 1 else if s = ''workspace'' then 2
     else if s = ''global'' then 3 else 4)"

text \<open>The riskier of the authoritative and the declared scope.\<close>

definition restrictive_blast_scope :: "string \<Rightarrow> pyval \<Rightarrow> string" where
  "restrictive_blast_scope authoritative declared =
    (let declared_scope = (if declared \<noteq> PNone then py_str declared else authoritative) in
     if scope_rank declared_scope > scope_rank authoritative then declared_scope else authoritative)"

definition simulation_ok :: "simulation_result \<Rightarrow> pydict \<Rightarrow> bool" where
  "simulation_ok simulation c =
     (if pget c ''simulation_allowed'' = PBool False then False
      else let status = pget c ''simulation_status'' in
        if status \<noteq> PNone \<and> py_str status \<notin> {''pass'', ''passed'', ''success'', ''ok''} then False
        else sm_ok simulation)"

definition simulation_dict :: "simulation_result \<Rightarrow> pydict \<Rightarrow> pydict" where
  "simulation_dict simulation c =
    (let ok = simulation_ok simulation c in
     pmerge (sim_to_dict simulation)
       [(''status'', PStr (if ok then ''passed'' else ''failed'')), (''ok'', PBool ok), (''success'', PBool ok),
        (''allowed'', PBool ok)])"

definition gate_rollback :: "gate_objects \<Rightarrow> pydict \<Rightarrow> bool" where
  "gate_rollback objs c \<longleftrightarrow> br_rollback_available (gate_blast objs c) \<and> pget c ''rollback_available'' \<noteq> PBool False"

definition gate_scope :: "gate_objects \<Rightarrow> pydict \<Rightarrow> string" where
  "gate_scope objs c = restrictive_blast_scope (br_scope (gate_blast objs c)) (pget c ''blast_radius_scope'')"

section \<open>The policy of a case\<close>

definition gate_policy_context :: "gate_objects \<Rightarrow> pydict \<Rightarrow> policy_context result" where
  "gate_policy_context objs c =
     rbind (gate_confidence c) (\<lambda>confidence.
     rbind (py_int (pget_or c ''evidence_count'' (PInt 3))) (\<lambda>evidence_count.
     let ok = simulation_ok (gate_simulation objs c) c; failed = gate_failed_memory objs c in
     Inr ((default_policy_context (py_str (pget_or c ''environment'' (PStr ''local''))))
       \<lparr>pc_service := py_str (pget_or c ''service'' (PStr ''demo-service'')),
        pc_severity := py_str (pget_or c ''severity'' (PStr ''medium'')),
        pc_mode := py_str (pget_or c ''mode'' (PStr ''preventive_safety_gate'')),
        pc_night_autopilot := truthy (pget_or c ''night_autopilot'' (PBool False)),
        pc_confidence := map_option float_rat confidence,
        pc_evidence_count := evidence_count,
        pc_conflicting_signals := either_signal c ''conflicting_signals'' ''conflicting_evidence'',
        pc_known_ambiguity := either_signal c ''known_ambiguity'' ''ambiguity'',
        pc_blast_radius_scope := Some (gate_scope objs c),
        pc_rollback_available := Some (gate_rollback objs c),
        pc_simulation_passed := Some ok,
        pc_simulation_status := Some (if ok then ''passed'' else ''failed''),
        pc_failed_memory_warning := failed,
        pc_memory_failed_action_warning := failed\<rparr>)))"

definition gate_policy :: "gate_objects \<Rightarrow> pydict \<Rightarrow> policy_evaluation result" where
  "gate_policy objs c =
     rbind (gate_policy_context objs c) (\<lambda>ctx. evaluate (go_registry objs) (coerce_request objs c) (Some ctx))"

definition policy_allowed :: "policy_evaluation \<Rightarrow> pydict \<Rightarrow> bool" where
  "policy_allowed policy c \<longleftrightarrow> pe_decision policy = PD_ALLOW \<and> pget c ''policy_allowed'' \<noteq> PBool False"

definition action_known :: "gate_objects \<Rightarrow> pydict \<Rightarrow> bool" where
  "action_known objs c \<longleftrightarrow> \<not> truthy (pget c ''unknown_action'')
     \<and> get_action (go_registry objs) (ar_action_type (coerce_request objs c)) \<noteq> None"

definition is_prohibited_action :: "string \<Rightarrow> bool" where
  "is_prohibited_action action_type = py_any_in PROHIBITED_ACTION_MARKERS (py_lower action_type)"

definition blocked_route :: "string list \<Rightarrow> string" where
  "blocked_route reasons =
    (let joined = py_join '' '' reasons in
     if list_ex (\<lambda>token. py_in token joined)
          [''unknown action'', ''prohibited'', ''registry'', ''simulation'', ''blast_radius'']
     then ''blocked_fail_closed'' else ''escalate'')"

section \<open>The gate\<close>

record safety_gate_result =
  sg_passed :: bool
  sg_route :: string
  sg_reasons :: "string list"
  sg_confidence :: pydict
  sg_policy :: pydict
  sg_blast_radius :: pydict
  sg_reversible :: bool
  sg_simulation :: pydict
  sg_memory :: pydict
  sg_environment :: pydict
  sg_ambiguity :: pydict
  sg_execution_enabled :: bool
  sg_simulation_only :: bool
  sg_p107_required_for_execution :: bool
  sg_trace :: pydict

definition gate_environment :: "gate_objects \<Rightarrow> pydict \<Rightarrow> string" where
  "gate_environment objs c =
    (let e = ar_environment (coerce_request objs c) in
     py_str (pget_or c ''environment'' (PStr (if e \<noteq> [] then e else ''local''))))"

definition gate_severity :: "pydict \<Rightarrow> string" where
  "gate_severity c = py_str (pget_or c ''severity'' (PStr ''medium''))"

definition registry_parity :: "pydict \<Rightarrow> bool" where
  "registry_parity c = truthy (pget_or c ''registry_hash_parity'' (PBool True))"

text \<open>\<open>confidence is None or confidence < threshold\<close>.\<close>

definition confidence_low :: "pyfloat option \<Rightarrow> pyfloat \<Rightarrow> bool" where
  "confidence_low confidence threshold = (case confidence of None \<Rightarrow> True | Some f \<Rightarrow> pyfloat_less f threshold)"

definition gate_reasons ::
    "gate_objects \<Rightarrow> pydict \<Rightarrow> pyfloat option \<Rightarrow> pyfloat \<Rightarrow> policy_evaluation \<Rightarrow> string list" where
  "gate_reasons objs c confidence threshold policy =
    (let action_type = ar_action_type (coerce_request objs c); scope = gate_scope objs c in
     (if py_lower (gate_environment objs c) \<in> set PRODUCTION_ENVIRONMENTS
      then [''production environment is not eligible for preventive automation''] else [])
     @ (if py_lower (gate_severity c) = ''critical'' then [''critical severity requires human escalation''] else [])
     @ (if confidence_low confidence threshold then [''confidence below preventive safety threshold''] else [])
     @ (if either_signal c ''conflicting_signals'' ''conflicting_evidence''
        then [''conflicting evidence signals require observation or escalation''] else [])
     @ (if either_signal c ''known_ambiguity'' ''ambiguity''
        then [''known ambiguity requires observation or escalation''] else [])
     @ (if \<not> registry_parity c then [''registry hash parity check failed''] else [])
     @ (if \<not> action_known objs c then [''unknown action '' @ repr_str action_type @ '' is not registered''] else [])
     @ (if is_prohibited_action action_type then [''prohibited action '' @ repr_str action_type @ '' is denied''] else [])
     @ (if \<not> policy_allowed policy c then [''policy did not allow the candidate action''] else [])
     @ (if scope \<notin> set SAFE_BLAST_RADIUS_SCOPES
        then [''blast_radius scope '' @ repr_str scope @ '' is not local or service''] else [])
     @ (if \<not> gate_rollback objs c then [''rollback is unavailable''] else [])
     @ (if \<not> simulation_ok (gate_simulation objs c) c then [''simulation did not pass''] else [])
     @ (if gate_failed_memory objs c then [''incident memory found prior failed remediation''] else []))"

definition evaluate_preventive_safety_gate :: "gate_objects \<Rightarrow> pydict \<Rightarrow> safety_gate_result result" where
  "evaluate_preventive_safety_gate objs c =
     rbind (gate_policy objs c) (\<lambda>policy.
     rbind (gate_confidence c) (\<lambda>confidence.
     rbind (gate_threshold c) (\<lambda>threshold.
     let request = coerce_request objs c; environment = gate_environment objs c; scope = gate_scope objs c;
         reasons = gate_reasons objs c confidence threshold policy; rollback = gate_rollback objs c;
         conflicting = either_signal c ''conflicting_signals'' ''conflicting_evidence'';
         ambiguous = either_signal c ''known_ambiguity'' ''ambiguity'' in
     Inr \<lparr>sg_passed = (reasons = []),
          sg_route = (if reasons = [] then ''observe'' else blocked_route reasons),
          sg_reasons = reasons,
          sg_confidence = [(''value'', case confidence of None \<Rightarrow> PNone | Some f \<Rightarrow> float_value f),
            (''ok'', PBool (case confidence of None \<Rightarrow> False
               | Some f \<Rightarrow> f \<noteq> NotANumber \<and> threshold \<noteq> NotANumber \<and> \<not> pyfloat_less f threshold)),
            (''threshold'', float_value threshold)],
          sg_policy = [(''allowed'', PBool (policy_allowed policy c)),
            (''decision'', PStr (decision_value (pe_decision policy))),
            (''reasons'', PList (map PStr (pe_reasons policy)))],
          sg_blast_radius = [(''scope'', PStr scope), (''ok'', PBool (scope \<in> set SAFE_BLAST_RADIUS_SCOPES)),
            (''rollback_available'', PBool rollback)],
          sg_reversible = rollback,
          sg_simulation = simulation_dict (gate_simulation objs c) c,
          sg_memory = [(''failed_remediation_warning'', PBool (gate_failed_memory objs c)),
            (''similar_incidents'', memory_summary objs c)],
          sg_environment = [(''value'', PStr environment),
            (''ok'', PBool (py_lower environment \<notin> set PRODUCTION_ENVIRONMENTS)),
            (''severity'', PStr (gate_severity c))],
          sg_ambiguity = [(''conflicting_signals'', PBool conflicting), (''known_ambiguity'', PBool ambiguous),
            (''ok'', PBool (\<not> conflicting \<and> \<not> ambiguous))],
          sg_execution_enabled = False, sg_simulation_only = True, sg_p107_required_for_execution = True,
          sg_trace = [(''action_type'', PStr (ar_action_type request)), (''target'', PStr (ar_target request)),
            (''registry_hash_parity'', PBool (registry_parity c))]\<rparr>)))"

definition safety_gate_to_dict :: "safety_gate_result \<Rightarrow> pydict" where
  "safety_gate_to_dict r =
     [(''passed'', PBool (sg_passed r)), (''route'', PStr (sg_route r)),
      (''reasons'', PList (map PStr (sg_reasons r))), (''confidence'', PDict (sg_confidence r)),
      (''policy'', PDict (sg_policy r)), (''blast_radius'', PDict (sg_blast_radius r)),
      (''reversible'', PBool (sg_reversible r)), (''simulation'', PDict (sg_simulation r)),
      (''memory'', PDict (sg_memory r)), (''environment'', PDict (sg_environment r)),
      (''ambiguity'', PDict (sg_ambiguity r)), (''execution_enabled'', PBool (sg_execution_enabled r)),
      (''simulation_only'', PBool (sg_simulation_only r)),
      (''p107_required_for_execution'', PBool (sg_p107_required_for_execution r)), (''trace'', PDict (sg_trace r))]"

definition night_autopilot_v2_dict :: "safety_gate_result \<Rightarrow> pydict" where
  "night_autopilot_v2_dict r =
     [(''passed'', PBool (sg_passed r)), (''confidence'', PDict (sg_confidence r)),
      (''policy_allowed'', PBool (truthy (pget (sg_policy r) ''allowed''))),
      (''blast_radius'', PDict [(''scope'', pget (sg_blast_radius r) ''scope''),
         (''ok'', PBool (truthy (pget (sg_blast_radius r) ''ok''))), (''rollback_available'', PBool (sg_reversible r))]),
      (''reversible'', PBool (sg_reversible r)), (''simulation'', PDict (sg_simulation r)),
      (''memory'', PDict (sg_memory r)), (''reasons'', PList (map PStr (sg_reasons r))),
      (''route'', PStr (sg_route r)), (''execution_enabled'', PBool (sg_execution_enabled r)),
      (''simulation_only'', PBool (sg_simulation_only r)),
      (''p107_required_for_execution'', PBool (sg_p107_required_for_execution r))]"


section \<open>Facts\<close>

lemma gate_evaluation:
  assumes "evaluate_preventive_safety_gate objs c = Inr r"
  obtains ctx policy confidence threshold where "gate_policy_context objs c = Inr ctx"
    "evaluate (go_registry objs) (coerce_request objs c) (Some ctx) = Inr policy"
    "gate_confidence c = Inr confidence" "gate_threshold c = Inr threshold"
    "sg_reasons r = gate_reasons objs c confidence threshold policy"
    "sg_passed r \<longleftrightarrow> gate_reasons objs c confidence threshold policy = []"
    "sg_route r = (if sg_passed r then ''observe'' else blocked_route (sg_reasons r))"
  using assms unfolding evaluate_preventive_safety_gate_def gate_policy_def Let_def
  by (auto simp: rbind_Inr_iff)

text \<open>What a case itself has to say, apart from the services.\<close>

definition case_clear :: "gate_objects \<Rightarrow> pydict \<Rightarrow> bool" where
  "case_clear objs c \<longleftrightarrow>
     py_lower (gate_environment objs c) \<notin> set PRODUCTION_ENVIRONMENTS \<and> py_lower (gate_severity c) \<noteq> ''critical''
     \<and> \<not> either_signal c ''conflicting_signals'' ''conflicting_evidence''
     \<and> \<not> either_signal c ''known_ambiguity'' ''ambiguity'' \<and> registry_parity c
     \<and> \<not> truthy (pget c ''unknown_action'') \<and> pget c ''policy_allowed'' \<noteq> PBool False
     \<and> \<not> is_prohibited_action (ar_action_type (coerce_request objs c))
     \<and> \<not> gate_failed_memory objs c"

lemma gate_reasons_Nil:
  "gate_reasons objs c confidence threshold policy = [] \<longleftrightarrow>
     case_clear objs c \<and> \<not> confidence_low confidence threshold
     \<and> get_action (go_registry objs) (ar_action_type (coerce_request objs c)) \<noteq> None
     \<and> pe_decision policy = PD_ALLOW \<and> gate_scope objs c \<in> set SAFE_BLAST_RADIUS_SCOPES
     \<and> gate_rollback objs c \<and> simulation_ok (gate_simulation objs c) c"
  unfolding gate_reasons_def case_clear_def action_known_def policy_allowed_def Let_def by simp

text \<open>When the engine allows a request in a context.\<close>

definition engine_allows :: "registry \<Rightarrow> action_request \<Rightarrow> policy_context \<Rightarrow> bool" where
  "engine_allows reg request ctx \<longleftrightarrow> (\<exists>a. static_gates reg request a ctx \<and>
     (if autopilot_enabled ctx then \<exists>cfg. resolved_autopilot ctx = Inr cfg \<and> night_gates request ctx (am_base_risk a) cfg
      else ar_approved request \<or> \<not> am_default_requires_approval a))"

lemma engine_allows_iff:
  assumes "evaluate reg request (Some ctx) = Inr policy"
  shows "pe_decision policy = PD_ALLOW \<longleftrightarrow> engine_allows reg request ctx"
proof (cases reg request "Some ctx" rule: evaluate_cases)
  case (fail e)
  with assms show ?thesis by (auto simp: engine_allows_def context_of_def)
next
  case (pass a)
  have only: "static_gates reg request a' ctx \<longleftrightarrow> a' = a" for a'
    using pass by (auto simp: static_gates_def context_of_def)
  from assms show ?thesis
    using night_ALLOW_iff [of request ctx "am_base_risk a"]
    by (auto simp: evaluate_static_pass [OF pass] context_of_def engine_allows_def only evaluation_for_def rbind_Inr_iff
        split: if_splits)
qed

lemma engine_allows_known: "engine_allows reg request ctx \<Longrightarrow> get_action reg (ar_action_type request) \<noteq> None"
  by (auto simp: engine_allows_def static_gates_def)

lemma engine_always_answers:
  assumes "gate_policy_context objs c = Inr ctx"
  obtains policy where "evaluate reg request (Some ctx) = Inr policy"
proof -
  have "resolved_autopilot ctx = Inr default_night_autopilot"
    using assms unfolding gate_policy_context_def
    by (auto simp: rbind_Inr_iff Let_def resolved_autopilot_def default_policy_context_def)
  then have night: "\<exists>d. evaluate_night_autopilot request ctx risk = Inr d" for risk
    unfolding evaluate_night_autopilot_def Let_def by simp
  show ?thesis
  proof (cases reg request "Some ctx" rule: evaluate_cases)
    case (fail e)
    with that show ?thesis by blast
  next
    case (pass a)
    obtain d where d: "evaluate_night_autopilot request ctx (am_base_risk a) = Inr d" using night by blast
    have "\<exists>policy. evaluate reg request (Some ctx) = Inr policy"
      unfolding evaluate_static_pass [OF pass] by (simp add: context_of_def d)
    with that show ?thesis by blast
  qed
qed

lemma safety_gate_pass:
  assumes "evaluate_preventive_safety_gate objs c = Inr r" and "sg_passed r"
  obtains ctx confidence threshold where "gate_policy_context objs c = Inr ctx"
    "gate_confidence c = Inr confidence" "gate_threshold c = Inr threshold"
    "engine_allows (go_registry objs) (coerce_request objs c) ctx"
    "case_clear objs c" "\<not> confidence_low confidence threshold"
    "gate_scope objs c \<in> set SAFE_BLAST_RADIUS_SCOPES" "gate_rollback objs c" "simulation_ok (gate_simulation objs c) c"
  using assms(1)
proof (rule gate_evaluation)
  fix ctx policy confidence threshold
  assume "gate_policy_context objs c = Inr ctx"
    and "evaluate (go_registry objs) (coerce_request objs c) (Some ctx) = Inr policy"
    and "gate_confidence c = Inr confidence" "gate_threshold c = Inr threshold"
    and "sg_passed r \<longleftrightarrow> gate_reasons objs c confidence threshold policy = []"
  with that assms(2) engine_allows_iff show thesis by (simp add: gate_reasons_Nil)
qed

section \<open>Properties\<close>

text \<open>C15. The gate passes a case exactly when the case is clear of every declared obstacle, its confidence is
  a number that is not below the threshold, the policy engine allows the request in the context built
  from the case, the blast radius is local or of one service, a rollback exists and the simulation
  succeeded.  It gives a reason exactly when it does not pass, and then does not route to observation.\<close>

theorem p106_safety_gate_exact:
  assumes "evaluate_preventive_safety_gate objs c = Inr r"
  shows "(sg_passed r \<longleftrightarrow> case_clear objs c
       \<and> (\<exists>f t. gate_confidence c = Inr (Some f) \<and> gate_threshold c = Inr t \<and> \<not> pyfloat_less f t)
       \<and> (\<exists>ctx. gate_policy_context objs c = Inr ctx \<and> engine_allows (go_registry objs) (coerce_request objs c) ctx)
       \<and> gate_scope objs c \<in> set SAFE_BLAST_RADIUS_SCOPES \<and> gate_rollback objs c
       \<and> simulation_ok (gate_simulation objs c) c)
     \<and> (sg_passed r \<longleftrightarrow> sg_reasons r = []) \<and> (sg_passed r \<longleftrightarrow> sg_route r = ''observe'')"
proof -
  from assms obtain ctx policy confidence threshold where ctx: "gate_policy_context objs c = Inr ctx"
    and policy: "evaluate (go_registry objs) (coerce_request objs c) (Some ctx) = Inr policy"
    and rest: "gate_confidence c = Inr confidence" "gate_threshold c = Inr threshold"
      "sg_reasons r = gate_reasons objs c confidence threshold policy"
      "sg_passed r \<longleftrightarrow> gate_reasons objs c confidence threshold policy = []"
      "sg_route r = (if sg_passed r then ''observe'' else blocked_route (sg_reasons r))"
    by (rule gate_evaluation)
  have "blocked_route x \<noteq> ''observe''" for x by (simp add: blocked_route_def Let_def)
  moreover have "\<not> confidence_low confidence threshold \<longleftrightarrow> (\<exists>f. confidence = Some f \<and> \<not> pyfloat_less f threshold)"
    by (cases confidence) (simp_all add: confidence_low_def)
  ultimately show ?thesis
    using ctx rest engine_allows_iff [OF policy] engine_allows_known [of "go_registry objs" "coerce_request objs c" ctx]
    by (auto simp: gate_reasons_Nil)
qed


text \<open>The fields by which a case may declare an obstacle.\<close>

definition DECLARED_OBSTACLES :: "string list" where
  "DECLARED_OBSTACLES = [''policy_allowed'', ''simulation_allowed'', ''simulation_status'', ''rollback_available'',
     ''blast_radius_scope'', ''unknown_action'', ''failed_memory'', ''failed_remediation_warning'',
     ''memory_failed_action_warning'', ''prior_failed_remediation'', ''conflicting_signals'', ''conflicting_evidence'',
     ''known_ambiguity'', ''ambiguity'', ''registry_hash_parity'']"

lemma map_of_without: "map_of (pwithout ks d) k = (if k \<in> set ks then None else map_of d k)"
  by (induction d) (auto simp: pwithout_def)

lemma get_without:
  "pget (pwithout ks d) k = (if k \<in> set ks then PNone else pget d k)"
  "pget_or (pwithout ks d) k v = (if k \<in> set ks then v else pget_or d k v)"
  by (simp_all add: pget_def pget_or_def map_of_without)

text \<open>A case without some of these fields.\<close>

lemma without_get:
  assumes "set ks \<subseteq> set DECLARED_OBSTACLES" and "k \<notin> set DECLARED_OBSTACLES"
  shows "pget (pwithout ks c) k = pget c k" "pget_or (pwithout ks c) k v = pget_or c k v"
  using assms by (auto simp: get_without)

lemma without_request:
  assumes "set ks \<subseteq> set DECLARED_OBSTACLES"
  shows "coerce_request objs (pwithout ks c) = coerce_request objs c"
  by (simp add: coerce_request_def without_get [OF assms] DECLARED_OBSTACLES_def cong: option.case_cong)

lemma without_services:
  assumes "set ks \<subseteq> set DECLARED_OBSTACLES"
  shows "gate_blast objs (pwithout ks c) = gate_blast objs c" "gate_simulation objs (pwithout ks c) = gate_simulation objs c"
    "gate_environment objs (pwithout ks c) = gate_environment objs c" "gate_severity (pwithout ks c) = gate_severity c"
    "gate_confidence (pwithout ks c) = gate_confidence c" "gate_threshold (pwithout ks c) = gate_threshold c"
  by (simp_all add: gate_blast_def gate_simulation_def gate_environment_def gate_severity_def gate_confidence_def
      gate_threshold_def without_request [OF assms] without_get [OF assms] DECLARED_OBSTACLES_def)

lemma scope_restricts:
  "restrictive_blast_scope s v \<in> set SAFE_BLAST_RADIUS_SCOPES \<Longrightarrow> restrictive_blast_scope s PNone \<in> set SAFE_BLAST_RADIUS_SCOPES"
  by (auto simp: restrictive_blast_scope_def SAFE_BLAST_RADIUS_SCOPES_def scope_rank_def Let_def split: if_splits)

text \<open>Removing one of the fields never adds what a test of the case looks for.\<close>

lemma without_truthy: "truthy (pget (pwithout ks c) k) \<Longrightarrow> truthy (pget c k)"
  by (simp add: get_without split: if_splits)

lemma without_tests:
  "gate_failed_memory objs (pwithout ks c) \<Longrightarrow> gate_failed_memory objs c"
  "either_signal (pwithout ks c) a b \<Longrightarrow> either_signal c a b"
  "registry_parity c \<Longrightarrow> registry_parity (pwithout ks c)"
  "simulation_ok s c \<Longrightarrow> simulation_ok s (pwithout ks c)"
  by (auto simp: gate_failed_memory_def either_signal_def registry_parity_def simulation_ok_def get_without Let_def
      split: if_splits)

lemma without_clear:
  assumes "set ks \<subseteq> set DECLARED_OBSTACLES"
  shows "case_clear objs c \<Longrightarrow> case_clear objs (pwithout ks c)"
    and "gate_rollback objs c \<Longrightarrow> gate_rollback objs (pwithout ks c)"
    and "simulation_ok (gate_simulation objs c) c \<Longrightarrow> simulation_ok (gate_simulation objs c) (pwithout ks c)"
    and "gate_scope objs c \<in> set SAFE_BLAST_RADIUS_SCOPES \<Longrightarrow> gate_scope objs (pwithout ks c) \<in> set SAFE_BLAST_RADIUS_SCOPES"
proof -
  show "case_clear objs c \<Longrightarrow> case_clear objs (pwithout ks c)"
    using without_tests(1-3) without_truthy
    unfolding case_clear_def without_services [OF assms] without_request [OF assms] by (auto simp: get_without)
  show "gate_rollback objs c \<Longrightarrow> gate_rollback objs (pwithout ks c)"
    by (auto simp: gate_rollback_def without_services [OF assms] get_without split: if_splits)
  show "simulation_ok (gate_simulation objs c) c \<Longrightarrow> simulation_ok (gate_simulation objs c) (pwithout ks c)"
    by (rule without_tests(4))
  show "gate_scope objs c \<in> set SAFE_BLAST_RADIUS_SCOPES \<Longrightarrow> gate_scope objs (pwithout ks c) \<in> set SAFE_BLAST_RADIUS_SCOPES"
    using scope_restricts by (auto simp: gate_scope_def without_services [OF assms] get_without)
qed

lemma engine_allows_scope:
  "engine_allows reg request ctx \<Longrightarrow> s \<in> set SAFE_BLAST_RADIUS_SCOPES \<Longrightarrow>
     engine_allows reg request (ctx\<lparr>pc_blast_radius_scope := Some s\<rparr>)"
proof -
  assume allows: "engine_allows reg request ctx" and safe: "s \<in> set SAFE_BLAST_RADIUS_SCOPES"
  let ?ctx = "ctx\<lparr>pc_blast_radius_scope := Some s\<rparr>"
  have frame: "resolved_autopilot ?ctx = resolved_autopilot ctx" "autopilot_enabled ?ctx = autopilot_enabled ctx"
    "effective_capabilities ?ctx = effective_capabilities ctx"
    by (simp_all add: resolved_autopilot_def autopilot_enabled_def effective_capabilities_def)
  have night: "night_gates request ?ctx risk cfg" if "night_gates request ctx risk cfg" for risk cfg
    using that safe by (simp add: night_gates_def SAFE_BLAST_RADIUS_SCOPES_def)
  from allows night show ?thesis
    unfolding engine_allows_def static_gates_def frame by (auto split: if_splits)
qed

lemma without_context:
  assumes ks: "set ks \<subseteq> set DECLARED_OBSTACLES"
    and "gate_policy_context objs c = Inr ctx" and "case_clear objs c" and "gate_rollback objs c"
    and "simulation_ok (gate_simulation objs c) c"
  shows "gate_policy_context objs (pwithout ks c) = Inr (ctx\<lparr>pc_blast_radius_scope := Some (gate_scope objs (pwithout ks c))\<rparr>)"
proof -
  have clear: "gate_failed_memory objs d = False" "either_signal d ''conflicting_signals'' ''conflicting_evidence'' = False"
    "either_signal d ''known_ambiguity'' ''ambiguity'' = False" if "case_clear objs d" for d
    using that unfolding case_clear_def by blast+
  have same: "gate_rollback objs (pwithout ks c) = gate_rollback objs c"
    "simulation_ok (gate_simulation objs c) (pwithout ks c) = simulation_ok (gate_simulation objs c) c"
    using without_clear(2,3) [OF ks] assms(4,5) by blast+
  have kept: "pget_or (pwithout ks c) k v = pget_or c k v"
    if "k \<in> {''environment'', ''service'', ''severity'', ''mode'', ''night_autopilot'', ''evidence_count''}" for k v
    using that by (intro without_get [OF ks]) (auto simp: DECLARED_OBSTACLES_def)
  from assms(2) show ?thesis
    unfolding gate_policy_context_def without_services [OF ks] without_request [OF ks] same
      clear [OF assms(3)] clear [OF without_clear(1) [OF ks assms(3)]]
    by (auto simp: kept rbind_Inr_iff Let_def)
qed

text \<open>C13. By the fifteen fields that declare an obstacle a case can only make the gate stricter: a case that
  passes still passes when any of these fields are taken out of it.  So a case with such a field passes
  only if it would pass without it.\<close>

theorem p106_declarations_only_restrict:
  assumes "evaluate_preventive_safety_gate objs c = Inr r" and "sg_passed r" and "set ks \<subseteq> set DECLARED_OBSTACLES"
  shows "\<exists>r'. evaluate_preventive_safety_gate objs (pwithout ks c) = Inr r' \<and> sg_passed r'"
proof -
  note ks = assms(3)
  from assms(1,2) obtain ctx confidence threshold where ctx: "gate_policy_context objs c = Inr ctx"
    and conf: "gate_confidence c = Inr confidence" "gate_threshold c = Inr threshold"
    and allows: "engine_allows (go_registry objs) (coerce_request objs c) ctx"
    and clear: "case_clear objs c" "\<not> confidence_low confidence threshold"
      "gate_scope objs c \<in> set SAFE_BLAST_RADIUS_SCOPES" "gate_rollback objs c" "simulation_ok (gate_simulation objs c) c"
    by (rule safety_gate_pass)
  note ctx' = without_context [OF ks ctx clear(1,4,5)]
  obtain policy' where policy': "evaluate (go_registry objs) (coerce_request objs c)
      (Some (ctx\<lparr>pc_blast_radius_scope := Some (gate_scope objs (pwithout ks c))\<rparr>)) = Inr policy'"
    by (rule engine_always_answers [OF ctx'])
  have "pe_decision policy' = PD_ALLOW"
    unfolding engine_allows_iff [OF policy'] using engine_allows_scope [OF allows without_clear(4) [OF ks clear(3)]] .
  with clear engine_allows_known [OF allows] have "gate_reasons objs (pwithout ks c) confidence threshold policy' = []"
    by (simp add: gate_reasons_Nil without_clear [OF ks] without_services [OF ks] without_request [OF ks])
  with ctx' policy' conf show ?thesis
    by (simp add: evaluate_preventive_safety_gate_def gate_policy_def Let_def without_services [OF ks] without_request [OF ks])
qed

text \<open>Other fields are no obstacles: a worker restart that needs approval passes once the case names the
  quiet-hours mode.\<close>

lemma p106_night_autopilot_lets_pass:
  "returns (\<lambda>r. \<not> sg_passed r) (evaluate_preventive_safety_gate no_objects
     [(''action_type'', PStr ''mock.execute_restart_worker''), (''service'', PStr ''worker''), (''environment'', PStr ''staging''),
      (''confidence'', PFloat 95 2)])
   \<and> returns sg_passed (evaluate_preventive_safety_gate no_objects
     [(''action_type'', PStr ''mock.execute_restart_worker''), (''service'', PStr ''worker''), (''environment'', PStr ''staging''),
      (''confidence'', PFloat 95 2), (''night_autopilot'', PBool True)])"
  by code_simp

text \<open>A confidence of \<open>nan\<close> is not below any threshold: a case that gives it passes the gate, although
  the result itself reports the confidence as not sufficient.\<close>

theorem p106_nan_confidence_passes:
  "returns (\<lambda>r. sg_passed r \<and> sg_reasons r = [] \<and> pget (sg_confidence r) ''ok'' = PBool False)
     (evaluate_preventive_safety_gate no_objects
        [(''action_type'', PStr ''report.generate''), (''confidence'', PStr ''nan'')])"
  by code_simp

end
