(* ===== verification/Prevention_Preflight.thy ===== *)
theory Prevention_Preflight
  imports Prevention_Executor Preventive_Safety_Gate
begin

text \<open>
  The policy preflight (\<open>app/services/prevention_policy_preflight.py\<close>): the local rejection reasons, the
  recheck by the safety gate, the audit entries and the intent callback.  The gate, the audit store and
  the callback are operations on a world the model does not look into.  The last section uses the
  preflight as a gate of the canary executor.
\<close>

section \<open>Values\<close>

text \<open>\<open>_float\<close>: an \<open>OverflowError\<close> is not caught.\<close>

definition preflight_float :: "pyval \<Rightarrow> pyfloat result" where
  "preflight_float v = (case py_float v of
       Inl e \<Rightarrow> if exn_class e \<in> {''TypeError'', ''ValueError''} then Inr (Finite 0 0) else Inl e
     | Inr f \<Rightarrow> Inr f)"

text \<open>What a gate answers: a plain value, an object with \<open>to_dict\<close> or a dataclass.\<close>

datatype gate_answer = PlainAnswer pyval | ToDictAnswer "pyval result" | DataclassAnswer pydict

fun to_mapping :: "gate_answer \<Rightarrow> pydict result" where
  "to_mapping (PlainAnswer v) = py_dict v"
| "to_mapping (ToDictAnswer v) = rbind v py_dict"
| "to_mapping (DataclassAnswer d) = Inr d"

text \<open>\<open>for item in v\<close>.\<close>

fun py_iter :: "pyval \<Rightarrow> pyval list result" where
  "py_iter (PList xs) = Inr xs"
| "py_iter (PStr s) = Inr (map (\<lambda>c. PStr [c]) s)"
| "py_iter (PDict d) = Inr (map (\<lambda>(k, v). PStr k) d)"
| "py_iter _ = Inl (Raised ''TypeError'' ''object is not iterable'')"

section \<open>The preflight\<close>

definition request_map :: "pydict \<Rightarrow> pydict" where
  "request_map context = as_dict (pget context ''action_request'')"

definition policy_map :: "pydict \<Rightarrow> pydict" where
  "policy_map context = as_dict (pget context ''policy_context'')"

definition gate_input :: "pydict \<Rightarrow> pydict" where
  "gate_input context =
    (let request = request_map context; policy = policy_map context in
     [(''action_type'', pget request ''action_type''),
      (''target'', pget request ''target''),
      (''environment'', pget_or request ''environment'' (pget policy ''environment'')),
      (''payload'', pget_or request ''payload'' (PDict [])),
      (''service'', pget_or policy ''service'' (pget request ''target'')),
      (''severity'', pget_or policy ''severity'' (PStr ''medium'')),
      (''confidence'', pget policy ''confidence''),
      (''evidence_count'', pget_or policy ''evidence_count'' (PInt 0)),
      (''blast_radius_scope'', pget policy ''blast_radius_scope''),
      (''rollback_available'', pget policy ''rollback_available''),
      (''simulation_passed'', pget policy ''simulation_passed''),
      (''simulation_status'', pget policy ''simulation_status''),
      (''conflicting_signals'', pget_or policy ''conflicting_signals'' (PBool False)),
      (''known_ambiguity'', pget_or policy ''known_ambiguity'' (PBool False)),
      (''registry_hash_parity'',
         PBool (py_eq (pget context ''registry_hash'') (pget context ''expected_registry_hash'')))])"

definition local_rejection_reasons :: "pydict \<Rightarrow> string list result" where
  "local_rejection_reasons context =
    (let registry_hash = pget context ''registry_hash''; request = request_map context; policy = policy_map context;
         environment = py_lower (py_str (pget_or request ''environment'' (pget_or policy ''environment'' (PStr []))))
     in rbind (preflight_float (pget policy ''confidence'')) (\<lambda>confidence. Inr
      ((if \<not> truthy registry_hash \<or> \<not> py_eq registry_hash (pget context ''expected_registry_hash'')
        then [''registry hash parity failed''] else [])
       @ (if environment \<in> {''prod'', ''production''} then [''production-like environment is not eligible''] else [])
       @ (if below_0_8 confidence then [''confidence dropped below threshold''] else [])
       @ (if truthy (pget policy ''known_ambiguity'') then [''known ambiguity appeared''] else [])
       @ (if truthy (pget policy ''conflicting_signals'') then [''conflicting evidence appeared''] else [])
       @ (if pget policy ''rollback_available'' \<noteq> PBool True then [''rollback unavailable''] else [])
       @ (if pget policy ''simulation_passed'' \<noteq> PBool True then [''simulation failed''] else []))))"

definition str_list :: "string list \<Rightarrow> pyval" where
  "str_list xs = PList (map PStr xs)"

definition preflight_append :: "(pydict \<Rightarrow> ('x, unit) op) option \<Rightarrow> pydict \<Rightarrow> ('x, unit) op" where
  "preflight_append store event = (case store of None \<Rightarrow> op_return () | Some f \<Rightarrow> f event)"

definition preflight_blocked :: "string list \<Rightarrow> (pydict \<Rightarrow> ('x, unit) op) option \<Rightarrow> ('x, pydict) op" where
  "preflight_blocked reasons audit_store =
     op_bind (preflight_append audit_store
       [(''state'', PStr ''blocked_fail_closed''), (''reasons'', str_list reasons)]) (\<lambda>_. op_return
       [(''allowed'', PBool False), (''attempt_allowed'', PBool False),
        (''terminal_state'', PStr ''blocked_fail_closed''), (''reasons'', str_list reasons),
        (''policy_flip_executed_count'', PInt 0)])"

definition run_policy_preflight ::
    "(string \<Rightarrow> string) \<Rightarrow> (pydict \<Rightarrow> ('x, gate_answer) op) \<Rightarrow> (pydict \<Rightarrow> ('x, unit) op) option
      \<Rightarrow> (pydict \<Rightarrow> ('x, unit) op) option \<Rightarrow> pydict \<Rightarrow> ('x, pydict) op" where
  "run_policy_preflight sha evaluator audit_store on_wal_intent context =
     op_bind (op_lift (local_rejection_reasons context)) (\<lambda>reasons.
     if reasons \<noteq> [] then preflight_blocked reasons audit_store
     else op_bind (evaluator (gate_input context)) (\<lambda>answer.
       op_bind (op_lift (to_mapping answer)) (\<lambda>gate_result.
       let policy_hash = PStr (stable_hash sha (PDict gate_result)) in
       op_bind (preflight_append audit_store
         [(''state'', PStr ''policy_rechecked''), (''policy_recheck_hash'', policy_hash), (''result'', PDict gate_result)]) (\<lambda>_.
       if \<not> truthy (pget gate_result ''passed'')
       then op_bind (op_lift (py_iter (pget_or gate_result ''reasons'' (PList [])))) (\<lambda>items.
         op_return
           [(''allowed'', PBool False), (''attempt_allowed'', PBool False),
            (''terminal_state'', PStr ''blocked_fail_closed''),
            (''reasons'', str_list (if items = [] then [''policy recheck failed''] else map py_str items)),
            (''policy_recheck_hash'', policy_hash), (''policy_flip_executed_count'', PInt 0)])
       else op_bind (preflight_append on_wal_intent
              [(''state'', PStr ''wal_intent_appended''), (''policy_recheck_hash'', policy_hash)]) (\<lambda>_.
         op_return
           [(''allowed'', PBool True), (''attempt_allowed'', PBool True), (''terminal_state'', PNone),
            (''reasons'', PList []), (''policy_recheck_hash'', policy_hash),
            (''policy_flip_executed_count'', PInt 0)])))))"

section \<open>The abstract eligibility\<close>

definition preflight_eligible :: "pydict \<Rightarrow> bool" where
  "preflight_eligible context =
    (let policy = policy_map context; registry_hash = pget context ''registry_hash'' in
     truthy registry_hash \<and> py_eq registry_hash (pget context ''expected_registry_hash'')
     \<and> py_lower (py_str (pget_or (request_map context) ''environment'' (pget_or policy ''environment'' (PStr []))))
         \<notin> {''prod'', ''production''}
     \<and> (case py_float (pget policy ''confidence'') of Inl _ \<Rightarrow> False | Inr f \<Rightarrow> \<not> below_0_8 f)
     \<and> \<not> truthy (pget policy ''known_ambiguity'') \<and> \<not> truthy (pget policy ''conflicting_signals'')
     \<and> pget policy ''rollback_available'' = PBool True \<and> pget policy ''simulation_passed'' = PBool True)"

lemma rejection_free_iff: "local_rejection_reasons context = Inr [] \<longleftrightarrow> preflight_eligible context"
  unfolding local_rejection_reasons_def preflight_eligible_def Let_def preflight_float_def
  by (auto simp: split: sum.splits if_splits)

lemma preflight_cases:
  assumes "run_policy_preflight sha evaluator audit wal context x = (x', Inr r)"
  obtains (rejected) reasons where "local_rejection_reasons context = Inr reasons" "reasons \<noteq> []"
      "preflight_blocked reasons audit x = (x', Inr r)"
  | (rechecked) x1 x2 answer gate_result where "preflight_eligible context"
      "evaluator (gate_input context) x = (x1, Inr answer)" "to_mapping answer = Inr gate_result"
      "preflight_append audit [(''state'', PStr ''policy_rechecked''),
         (''policy_recheck_hash'', PStr (stable_hash sha (PDict gate_result))), (''result'', PDict gate_result)] x1 = (x2, Inr ())"
      "if truthy (pget gate_result ''passed'')
       then preflight_append wal [(''state'', PStr ''wal_intent_appended''),
              (''policy_recheck_hash'', PStr (stable_hash sha (PDict gate_result)))] x2 = (x', Inr ())
            \<and> pget r ''allowed'' = PBool True \<and> pget r ''terminal_state'' = PNone \<and> passed r
       else x' = x2 \<and> pget r ''allowed'' = PBool False \<and> pget r ''terminal_state'' = PStr ''blocked_fail_closed'' \<and> \<not> passed r"
proof -
  obtain reasons where reasons: "local_rejection_reasons context = Inr reasons"
    using assms unfolding run_policy_preflight_def by (auto elim: op_bind_cases)
  show ?thesis
  proof (cases "reasons = []")
    case False
    with assms reasons have "preflight_blocked reasons audit x = (x', Inr r)"
      by (simp add: run_policy_preflight_def)
    with reasons False show ?thesis by (rule rejected)
  next
    case True
    with reasons have eligible: "preflight_eligible context" by (simp add: rejection_free_iff)
    from assms reasons True obtain x1 x2 answer gate_result
      where ran: "evaluator (gate_input context) x = (x1, Inr answer)" "to_mapping answer = Inr gate_result"
        "preflight_append audit [(''state'', PStr ''policy_rechecked''),
         (''policy_recheck_hash'', PStr (stable_hash sha (PDict gate_result))), (''result'', PDict gate_result)] x1 = (x2, Inr ())"
      unfolding run_policy_preflight_def Let_def by (auto elim!: op_bind_cases)
    show ?thesis
    proof (rule rechecked [OF eligible ran])
      show "if truthy (pget gate_result ''passed'')
       then preflight_append wal [(''state'', PStr ''wal_intent_appended''),
              (''policy_recheck_hash'', PStr (stable_hash sha (PDict gate_result)))] x2 = (x', Inr ())
            \<and> pget r ''allowed'' = PBool True \<and> pget r ''terminal_state'' = PNone \<and> passed r
       else x' = x2 \<and> pget r ''allowed'' = PBool False \<and> pget r ''terminal_state'' = PStr ''blocked_fail_closed'' \<and> \<not> passed r"
      using assms reasons True ran unfolding run_policy_preflight_def Let_def
      by (auto elim!: op_bind_cases simp: passed_def)
    qed
  qed
qed


text \<open>Every preflight that returns leaves one of two traces.  It allows the attempt exactly when the command
  is eligible and the recheck by the gate passed; then the recheck is audited first and the intent
  recorded after it with the hash of the same gate result.  In every other case it records one audit
  entry and no intent, and its answer does not pass as a gate of the executor.\<close>

theorem p107_preflight_trace:
  assumes "run_policy_preflight sha (\<lambda>i es. (es, gate i)) (Some (\<lambda>e es. (es @ [(''audit'', e)], Inr ())))
      (Some (\<lambda>e es. (es @ [(''intent'', e)], Inr ()))) context es = (es', Inr r)"
  shows "if preflight_eligible context
           \<and> returns (\<lambda>g. truthy (pget g ''passed'')) (rbind (gate (gate_input context)) to_mapping)
         then pget r ''allowed'' = PBool True \<and> passed r
           \<and> (\<exists>g audited intent. es' = es @ [(''audit'', audited), (''intent'', intent)]
                \<and> rbind (gate (gate_input context)) to_mapping = Inr g
                \<and> pget audited ''result'' = PDict g
                \<and> pget audited ''policy_recheck_hash'' = PStr (stable_hash sha (PDict g))
                \<and> pget intent ''policy_recheck_hash'' = PStr (stable_hash sha (PDict g)))
         else pget r ''allowed'' = PBool False \<and> \<not> passed r \<and> (\<exists>e. es' = es @ [(''audit'', e)])"
  using assms
proof (cases rule: preflight_cases)
  case (rejected reasons)
  then have "\<not> preflight_eligible context" by (simp flip: rejection_free_iff)
  with rejected(3) show ?thesis
    by (auto simp: preflight_blocked_def preflight_append_def op_bind_def passed_def)
next
  case (rechecked es1 es2 answer g)
  then show ?thesis
    by (cases "truthy (pget g ''passed'')") (auto simp: preflight_append_def returns_def)
qed

section \<open>The preflight as a gate of the executor\<close>

definition preflight_hook ::
    "(string \<Rightarrow> string) \<Rightarrow> (pydict \<Rightarrow> ('x, gate_answer) op) \<Rightarrow> (pydict \<Rightarrow> ('x, unit) op) option
      \<Rightarrow> (pydict \<Rightarrow> ('x, unit) op) option \<Rightarrow> 'x hook" where
  "preflight_hook sha evaluator audit_store on_wal_intent =
     Hook (\<lambda>args. op_bind (run_policy_preflight sha evaluator audit_store on_wal_intent (hd args)) (\<lambda>r. op_return (PDict r)))"

lemma preflight_hook_passed:
  assumes "call_hook (preflight_hook sha evaluator audit wal) [command] x = (x', Inr r)" and "passed r"
  shows "preflight_eligible command
    \<and> (\<exists>x1 x2 answer g. evaluator (gate_input command) x1 = (x2, Inr answer) \<and> to_mapping answer = Inr g
         \<and> truthy (pget g ''passed''))"
proof -
  from assms(1) have "run_policy_preflight sha evaluator audit wal command x = (x', Inr r)"
    unfolding preflight_hook_def by (auto elim!: op_bind_cases)
  then show ?thesis
  proof (cases rule: preflight_cases)
    case (rejected reasons)
    with assms(2) show ?thesis by (auto simp: preflight_blocked_def passed_def elim!: op_bind_cases)
  next
    case (rechecked x1 x2 answer g)
    with assms(2) show ?thesis by (auto split: if_splits)
  qed
qed

lemma executed_preflight:
  assumes "executor_run sha px command s = (s', out)"
    and "px_policy_preflight px = Some (preflight_hook sha evaluator audit wal)"
    and "xs_canary s' \<noteq> xs_canary s \<or> (\<exists>r. out = Inr r \<and> pget r ''effect_applied'' = PBool True)"
  shows "preflight_eligible command
    \<and> (\<exists>x1 x2 answer g. evaluator (gate_input command) x1 = (x2, Inr answer) \<and> to_mapping answer = Inr g
         \<and> truthy (pget g ''passed''))"
proof -
  from executed_gates [OF assms(1,3)] obtain x where "run_gates (gates_of px) command (xs_world s) = (x, Inr None)"
    by blast
  then have "run_gates ([g, g'] @ (''policy_preflight'', preflight_hook sha evaluator audit wal) # [g'']) command (xs_world s) = (x, Inr None)"
    if "g = (''p106_recompute'', hook_or_missing (px_p106_recompute px) ''p106_recompute'')"
      and "g' = (''cohort_fingerprints'', hook_or_missing (px_cohort_validator px) ''cohort_fingerprints'')"
      and "g'' = (''idempotency_wal_intent'', hook_or_missing (px_idempotency_wal px) ''idempotency_wal_intent'')" for g g' g''
    using that assms(2) by (simp add: gates_of_def hook_or_missing_def)
  from this [OF refl refl refl] show ?thesis
    by (rule gate_passed) (rule preflight_hook_passed)
qed


text \<open>The default evaluator, the shared safety gate.\<close>

definition shared_safety_gate :: "pydict \<Rightarrow> ('x, gate_answer) op" where
  "shared_safety_gate gate_case = op_lift (rbind (evaluate_preventive_safety_gate no_objects gate_case)
     (\<lambda>r. Inr (ToDictAnswer (Inr (PDict (safety_gate_to_dict r))))))"

lemma shared_gate_passed:
  assumes "shared_safety_gate c x = (x', Inr answer)" and "to_mapping answer = Inr g" and "truthy (pget g ''passed'')"
  shows "\<exists>r. evaluate_preventive_safety_gate no_objects c = Inr r \<and> sg_passed r"
  using assms by (auto simp: shared_safety_gate_def rbind_Inr_iff safety_gate_to_dict_def)

text \<open>C2. With the preflight and the shared gate before the harness, a change of the harness or an effect
  reported as applied means that the request the command declares met every local condition of the
  preflight, that the policy engine allows it, and that its blast radius is local or of one service,
  with a rollback and a successful simulation.\<close>

theorem p107_effect_engine_allowed:
  fixes px :: "'x canary_executor"
  assumes "executor_run sha px command s = (s', out)"
    and "px_policy_preflight px = Some (preflight_hook sha shared_safety_gate audit wal)"
    and "xs_canary s' \<noteq> xs_canary s \<or> (\<exists>r. out = Inr r \<and> pget r ''effect_applied'' = PBool True)"
  shows "preflight_eligible command
    \<and> (\<exists>ctx. gate_policy_context no_objects (gate_input command) = Inr ctx
         \<and> engine_allows DEFAULT_ACTION_REGISTRY (coerce_request no_objects (gate_input command)) ctx)
    \<and> gate_scope no_objects (gate_input command) \<in> set SAFE_BLAST_RADIUS_SCOPES
    \<and> gate_rollback no_objects (gate_input command)
    \<and> simulation_ok (gate_simulation no_objects (gate_input command)) (gate_input command)"
proof -
  from executed_preflight [OF assms] obtain x1 x2 :: 'x and answer g where "preflight_eligible command"
    and "shared_safety_gate (gate_input command) x1 = (x2, Inr answer)" "to_mapping answer = Inr g"
      "truthy (pget g ''passed'')" by blast
  moreover from shared_gate_passed [OF this(2-4)] obtain r
    where "evaluate_preventive_safety_gate no_objects (gate_input command) = Inr r" "sg_passed r" by blast
  moreover have "go_registry no_objects = DEFAULT_ACTION_REGISTRY" by (simp add: no_objects_def)
  ultimately show ?thesis by (auto elim!: safety_gate_pass)
qed

end
