(* ===== verification/Prevention_Demo.thy ===== *)
theory Prevention_Demo
  imports Prevention_Idempotency Prevention_Preflight
begin

text \<open>Concrete runs of the prevention services, on which their theorems are applied.\<close>

section \<open>The store with the canary harness behind it\<close>

definition canary_sha :: "string \<Rightarrow> string" where
  "canary_sha s = s"

definition canary_adapter :: "canary_harness p107_harness" where
  "canary_adapter = \<lparr>hn_invoke = (\<lambda>c h. let (h', r) = canary_execute canary_sha c h in (h', Inr (PDict r))),
     hn_existing = None\<rparr>"

definition report_command :: "string \<Rightarrow> pydict" where
  "report_command episode = [(''episode_id'', PStr episode), (''idempotency_key'', PStr ''k''),
     (''action_type'', PStr ''mock.create_local_report''), (''capability_id'', PStr ''preventive.mock.report'')]"

lemma adapter_existing: "hn_existing canary_adapter = None"
  by (simp add: canary_adapter_def)

lemma adapter_runs:
  "\<exists>h1 r r'. hn_invoke canary_adapter c h = (h1, Inr (PDict r)) \<and> hn_invoke canary_adapter c h1 = (h1, Inr (PDict r'))"
proof -
  obtain h1 r where run: "canary_execute canary_sha c h = (h1, r)" by (cases rule: prod.exhaust)
  obtain h2 r' where again: "canary_execute canary_sha c h1 = (h2, r')" by (cases rule: prod.exhaust)
  have "h2 = h1" using canary.run_twice [of canary_sha c h] run again by simp
  with run again show ?thesis by (simp add: canary_adapter_def)
qed

lemma report_key: "call_key (report_command e) = Some ''k''" "pindex (report_command e) ''idempotency_key'' = Inr (PStr ''k'')"
  by (simp_all add: call_key_def report_command_def)


theorem p107_cas_single_winner_witness:
  "cas_append canary_sha (report_command ''f'') 1 ''sha256:genesis'' (fst (cas_append canary_sha (report_command ''e'') 1 ''sha256:genesis'' empty_store))
     = (fst (cas_append canary_sha (report_command ''e'') 1 ''sha256:genesis'' empty_store),
        [(''cas_winner'', PBool False), (''terminal_state'', PStr ''duplicate_or_conflict_recorded'')])"
proof -
  obtain st1 out where run: "cas_append canary_sha (report_command ''e'') 1 ''sha256:genesis'' empty_store = (st1, out)"
    by (cases rule: prod.exhaust)
  then have "pget out ''cas_winner'' = PBool True"
    by (auto simp: cas_append_def store_closed_def empty_store_def next_sequence_def current_head_hash_def Let_def)
  with run p107_cas_single_winner [OF idem_reach.start [of canary_sha canary_adapter "(empty_store, new_harness)"]]
  show ?thesis by (metis fst_conv)
qed

text \<open>A harness that keeps its effects by key and counts its runs.\<close>

definition counting_harness :: "((string \<times> pyval) list \<times> nat) p107_harness" where
  "counting_harness = \<lparr>hn_invoke = (\<lambda>c (effects, runs). case call_key c of
       None \<Rightarrow> ((effects, Suc runs), Inl (Raised ''KeyError'' ''idempotency_key''))
     | Some key \<Rightarrow> let effect = PDict [(''status'', PStr ''applied''), (''effect_id'', PStr (''effect-'' @ key))] in
         ((AList.update key effect effects, Suc runs), Inr effect)),
     hn_existing = Some (\<lambda>key (effects, _). case map_of effects key of None \<Rightarrow> PNone | Some effect \<Rightarrow> effect)\<rparr>"

theorem p107_crash_recovery_once_witness:
  "\<exists>s1 st h out. simulate_crash canary_sha (Some counting_harness) (report_command ''e'') ''after_harness_effect_before_result''
       (empty_store, ([], 0)) = (s1, Inr ())
     \<and> recover_after_crash canary_sha counting_harness (report_command ''e'') s1 = ((st, h), Inr out)
     \<and> snd h = 1 \<and> pget out ''resumed_from'' = PStr ''attempt_effect_observed''"
proof -
  let ?c = "report_command ''e''" and ?b = "''after_harness_effect_before_result''"
  obtain e1 e2 r1 r2 where run: "hn_invoke counting_harness ?c ([], 0) = ((e1, 1), Inr r1)"
    "hn_invoke counting_harness ?c (e1, 1) = ((e2, 2), Inr r2)" "r1 \<noteq> PNone" "r2 \<noteq> PNone"
    and known: "existing_effect counting_harness ''k'' (e1, 1) \<noteq> PNone"
    by (simp add: counting_harness_def report_key Let_def existing_effect_def)
  have "\<not> store_closed empty_store" "map_of (id_attempts empty_store) ''k'' = None"
    by (simp_all add: store_closed_def empty_store_def)
  from p107_crash_recovery_once [OF this(1) report_key(1) this(2) run, of canary_sha ?b] known
  show ?thesis by fastforce
qed

theorem p107_recovery_ignores_payload_witness:
  "\<exists>st h st' h' out. fst (simulate_crash canary_sha None (report_command ''e'') ''after_attempt_intent'' (empty_store, new_harness)) = (st, h)
     \<and> acquire_or_replay_attempt canary_sha canary_adapter (report_command ''f'') (st, h) = ((st, h), Inr idem_conflict)
     \<and> recover_after_crash canary_sha canary_adapter (report_command ''f'') (st, h) = ((st', h'), Inr out)
     \<and> pget out ''terminal_state'' = PStr ''succeeded''"
proof -
  let ?st = "fst (fst (simulate_crash canary_sha None (report_command ''e'') ''after_attempt_intent'' (empty_store, new_harness)))"
  have crashed: "fst (simulate_crash canary_sha None (report_command ''e'') ''after_attempt_intent'' (empty_store, new_harness)) = (?st, new_harness)"
    by (simp add: simulate_crash_def report_key Let_def)
  have attempt: "map_of (id_attempts ?st) ''k''
      = Some (pending_attempt ''k'' (next_attempt_id empty_store) (payload_signature canary_sha (report_command ''e'')))"
    and open_store: "\<not> store_closed ?st"
    by (simp_all add: simulate_crash_def report_key Let_def empty_store_def store_closed_def)
  have "idem_step canary_sha canary_adapter (IC_Crash (report_command ''e'') ''after_attempt_intent'' False) (empty_store, new_harness)
      = (?st, new_harness)" using crashed by simp
  then have reach: "idem_reach canary_sha canary_adapter (empty_store, new_harness) (?st, new_harness)"
    using idem_reach.call [OF idem_reach.start, of "IC_Crash (report_command ''e'') ''after_attempt_intent'' False" "(empty_store, new_harness)"]
    by (simp add: empty_store_def)
  have other: "payload_signature canary_sha (report_command ''e'') \<noteq> payload_signature canary_sha (report_command ''f'')"
    by code_simp
  obtain h1 r where run: "hn_invoke canary_adapter (report_command ''f'') new_harness = (h1, Inr (PDict r))" using adapter_runs by blast
  show ?thesis
    using p107_recovery_ignores_payload [OF reach open_store report_key(1) attempt _ _ adapter_existing run] crashed other
    by (fastforce simp: pending_attempt_def)
qed


section \<open>Runs of the executor\<close>

definition demo_digest :: "string \<Rightarrow> string" where
  "demo_digest s = ''0''"

definition open_gate :: "'x hook" where
  "open_gate = Hook (\<lambda>_ x. (x, Inr (PDict [])))"

definition demo_executor :: "'x hook \<Rightarrow> 'x hook option \<Rightarrow> 'x canary_executor" where
  "demo_executor preflight appender =
     \<lparr>px_p106_recompute = Some open_gate, px_cohort_validator = Some open_gate, px_policy_preflight = Some preflight,
      px_idempotency_wal = Some open_gate, px_harness = None, px_result_appender = appender,
      px_monitor = Some open_gate, px_report_handoff = Some open_gate, px_rollback_handler = None\<rparr>"

definition idle_executor :: "(string \<times> pydict) list executor_state" where
  "idle_executor = \<lparr>xs_canary = new_harness, xs_locks = [], xs_world = []\<rparr>"

text \<open>A command whose outcome reports no telemetry.\<close>

definition breach_command :: pydict where
  "breach_command = [(''episode_id'', PStr ''e''), (''idempotency_key'', PStr ''k''), (''post_attempt_outcome'', PDict []),
     (''registry_hash'', PStr ''r''), (''expected_registry_hash'', PStr ''r''), (''action_request'', PDict
        [(''action_type'', PStr ''report.generate''), (''target'', PStr ''payment-api''), (''environment'', PStr ''staging'')]),
     (''policy_context'', PDict [(''confidence'', PFloat 9 1), (''rollback_available'', PBool True),
        (''simulation_passed'', PBool True)])]"

definition traced_preflight :: "(string \<times> pydict) list hook" where
  "traced_preflight = preflight_hook demo_digest shared_safety_gate
     (Some (\<lambda>e es. (es @ [(''audit'', e)], Inr ()))) (Some (\<lambda>e es. (es @ [(''intent'', e)], Inr ())))"

lemma breach_run:
  "case executor_run demo_digest (demo_executor traced_preflight (Some open_gate)) breach_command idle_executor of
     (s', out) \<Rightarrow> ch_effects (xs_canary s') ''k'' \<noteq> None
       \<and> returns (\<lambda>r. pget r ''effect_applied'' = PBool True \<and> pget r ''success_claimed'' = PBool False) out"
  by code_simp

lemma unrecorded_run:
  "case executor_run demo_digest (demo_executor traced_preflight None) breach_command idle_executor of
     (s', out) \<Rightarrow> ch_effects (xs_canary s') ''k'' \<noteq> None \<and> returns (\<lambda>r. True) out"
  by code_simp

lemma breach_ran:
  obtains s' r where
    "executor_run demo_digest (demo_executor traced_preflight (Some open_gate)) breach_command idle_executor = (s', Inr r)"
    "xs_canary s' \<noteq> xs_canary idle_executor" "pget r ''effect_applied'' = PBool True"
    "pget r ''success_claimed'' = PBool False"
proof -
  have "xs_canary s' \<noteq> xs_canary idle_executor" if "ch_effects (xs_canary s') ''k'' \<noteq> None"
    for s' :: "(string \<times> pydict) list executor_state"
    using that by (auto simp: idle_executor_def new_harness_def)
  with breach_run that show ?thesis by (auto simp: Inr_such_that split: prod.splits)
qed


theorem p107_breach_never_repeated_witness:
  "\<exists>s' r. executor_run demo_digest (demo_executor traced_preflight (Some open_gate)) breach_command idle_executor = (s', Inr r)
     \<and> (\<exists>t \<in> set ROLLBACK_TERMINALS. pget r ''terminal_state'' = PStr t)
     \<and> executor_run demo_digest (demo_executor traced_preflight (Some open_gate)) breach_command s' = (s', Inr repeat_blocked)"
proof (rule breach_ran)
  fix s' r
  assume run: "executor_run demo_digest (demo_executor traced_preflight (Some open_gate)) breach_command idle_executor = (s', Inr r)"
    and effect: "pget r ''effect_applied'' = PBool True" "pget r ''success_claimed'' = PBool False"
  have "outcome_of breach_command \<noteq> None" "list_ex (\<lambda>(k, v). truthy v) (lock_material (attempt_from_command breach_command []))"
    by (simp_all add: outcome_of_def breach_command_def lock_material_def attempt_from_command_def)
  from p107_breach_never_repeated [OF run this(1) effect refl this(2), of "[]"] run show ?thesis by auto
qed

theorem p107_failed_append_hides_effect_witness:
  "\<exists>s' r. executor_run demo_digest (demo_executor traced_preflight None) breach_command idle_executor = (s', Inr r)
     \<and> xs_canary s' \<noteq> new_harness \<and> pget r ''effect_applied'' = PBool False \<and> xs_locks s' = []"
proof -
  obtain s' r where run: "executor_run demo_digest (demo_executor traced_preflight None) breach_command idle_executor = (s', Inr r)"
    and changed: "xs_canary s' \<noteq> xs_canary idle_executor"
    using unrecorded_run by (fastforce simp: Inr_such_that idle_executor_def new_harness_def split: prod.splits)
  have "px_result_appender (demo_executor traced_preflight None) = None" by (simp add: demo_executor_def)
  from p107_failed_append_hides_effect [OF this run changed] run changed show ?thesis
    by (auto simp: idle_executor_def)
qed

theorem p107_missing_key_shared_witness:
  "text_field (harness_action [(''episode_id'', PStr ''e'')]) ''idempotency_key'' = ''None''"
proof -
  have "px_harness (demo_executor traced_preflight None) = None" by (simp add: demo_executor_def)
  from p107_missing_key_shared [OF _ _ this, of "[(''episode_id'', PStr ''e'')]"] show ?thesis by simp
qed

definition passing_gate :: "pydict \<Rightarrow> gate_answer result" where
  "passing_gate i = Inr (PlainAnswer (PDict [(''passed'', PBool True)]))"

theorem p107_preflight_trace_witness:
  "\<exists>es r. run_policy_preflight demo_digest (\<lambda>i es. (es, passing_gate i)) (Some (\<lambda>e es. (es @ [(''audit'', e)], Inr ())))
      (Some (\<lambda>e es. (es @ [(''intent'', e)], Inr ()))) breach_command [] = (es, Inr r)
     \<and> map fst es = [''audit'', ''intent''] \<and> pget r ''allowed'' = PBool True"
proof -
  have ok: "preflight_eligible breach_command" by code_simp
  then have "returns (\<lambda>_. True) (snd (run_policy_preflight demo_digest (\<lambda>i es. (es, passing_gate i))
      (Some (\<lambda>e es. (es @ [(''audit'', e)], Inr ()))) (Some (\<lambda>e es. (es @ [(''intent'', e)], Inr ()))) breach_command []))"
    using rejection_free_iff [THEN iffD2]
    by (simp add: run_policy_preflight_def preflight_append_def op_bind_def passing_gate_def Let_def returns_def)
  then obtain es r where run: "run_policy_preflight demo_digest (\<lambda>i es. (es, passing_gate i)) (Some (\<lambda>e es. (es @ [(''audit'', e)], Inr ())))
      (Some (\<lambda>e es. (es @ [(''intent'', e)], Inr ()))) breach_command [] = (es, Inr r)"
    by (auto simp: Inr_such_that prod_eq_iff)
  from p107_preflight_trace [OF run] ok run show ?thesis
    by (auto simp: passing_gate_def returns_def split: if_splits)
qed

theorem p107_effect_engine_allowed_witness:
  "\<exists>s' out ctx. executor_run demo_digest (demo_executor traced_preflight (Some open_gate)) breach_command idle_executor = (s', out)
     \<and> xs_canary s' \<noteq> new_harness \<and> preflight_eligible breach_command
     \<and> engine_allows DEFAULT_ACTION_REGISTRY (coerce_request no_objects (gate_input breach_command)) ctx"
proof (rule breach_ran)
  fix s' r
  assume run: "executor_run demo_digest (demo_executor traced_preflight (Some open_gate)) breach_command idle_executor = (s', Inr r)"
    and changed: "xs_canary s' \<noteq> xs_canary idle_executor"
  have "px_policy_preflight (demo_executor traced_preflight (Some open_gate)) = Some (preflight_hook demo_digest
      shared_safety_gate (Some (\<lambda>e es. (es @ [(''audit'', e)], Inr ()))) (Some (\<lambda>e es. (es @ [(''intent'', e)], Inr ()))))"
    by (simp add: demo_executor_def traced_preflight_def)
  from p107_effect_engine_allowed [OF run this disjI1 [OF changed]] run changed show ?thesis
    by (auto simp: idle_executor_def)
qed

section \<open>The safety gate\<close>

lemma report_gate:
  "returns (\<lambda>r. sg_passed r) (evaluate_preventive_safety_gate no_objects
     [(''action_type'', PStr ''report.generate''), (''confidence'', PFloat 9 1), (''simulation_status'', PStr ''ok'')])"
  by code_simp

theorem p106_safety_gate_exact_witness:
  "\<exists>ctx. engine_allows DEFAULT_ACTION_REGISTRY (coerce_request no_objects
     [(''action_type'', PStr ''report.generate''), (''confidence'', PFloat 9 1), (''simulation_status'', PStr ''ok'')]) ctx"
  using report_gate p106_safety_gate_exact by (fastforce simp: Inr_such_that no_objects_def)

theorem p106_declarations_only_restrict_witness:
  "\<exists>r. evaluate_preventive_safety_gate no_objects (pwithout [''simulation_status'']
     [(''action_type'', PStr ''report.generate''), (''confidence'', PFloat 9 1), (''simulation_status'', PStr ''ok'')]) = Inr r
     \<and> sg_passed r"
proof -
  have "set [''simulation_status''] \<subseteq> set DECLARED_OBSTACLES" by (simp add: DECLARED_OBSTACLES_def)
  with report_gate p106_declarations_only_restrict show ?thesis unfolding Inr_such_that by blast
qed

end
