(* ===== verification/Closed_Chain.thy ===== *)
theory Closed_Chain
  imports Hash_Chain
begin

text \<open>
  Two further facts about hash chains, each of which several components use: the hash of the last
  entry determines the whole log, and a log that closes with a final entry cannot be cut short.
\<close>

text \<open>No two entries of a set have one hash.  Entries of two logs that are compared stand in it.\<close>

definition collision_free :: "('e \<Rightarrow> 'h) \<Rightarrow> 'e set \<Rightarrow> bool" where
  "collision_free own E \<longleftrightarrow> inj_on own E"

lemma collision_free_mono: "collision_free own E \<Longrightarrow> F \<subseteq> E \<Longrightarrow> collision_free own F"
  unfolding collision_free_def by (rule inj_on_subset)

context hash_chain
begin

lemma tip_snoc [simp]: "chain_tip own genesis (es @ [e]) = own e"
  by (simp add: chain_tip_def)

text \<open>Two verified logs with one tip are one log, unless two of their entries collide.\<close>

lemma tip_determines:
  assumes "valid es" and "valid es'"
    and "collision_free own (set es \<union> set es')"
    and "genesis \<notin> own ` (set es \<union> set es')"
    and "chain_tip own genesis es = chain_tip own genesis es'"
  shows "es = es'"
  using assms
proof (induction es arbitrary: es' rule: rev_induct)
  case Nil
  show ?case
  proof (cases es' rule: rev_cases)
    case Nil
    then show ?thesis by simp
  next
    case (snoc xs x)
    have "own x = genesis" using Nil.prems(5) by (simp add: snoc chain_tip_def)
    with Nil.prems(4) show ?thesis by (simp add: snoc)
  qed
next
  case (snoc e es)
  show ?case
  proof (cases es' rule: rev_cases)
    case Nil
    with snoc.prems(4,5) show ?thesis by (simp add: chain_tip_def)
  next
    case (snoc xs x)
    with snoc.prems(5) have "own e = own x" by simp
    moreover have "e \<in> set (es @ [e]) \<union> set es'" "x \<in> set (es @ [e]) \<union> set es'" by (simp_all add: snoc)
    ultimately have same: "x = e"
      using snoc.prems(3) unfolding collision_free_def by (metis inj_onD)
    have "es = xs"
    proof (rule snoc.IH)
      show "valid es" "valid xs" using snoc.prems(1,2) snoc by (simp_all add: valid_snoc)
      show "collision_free own (set es \<union> set xs)"
        using snoc.prems(3) by (rule collision_free_mono) (auto simp: snoc)
      show "genesis \<notin> own ` (set es \<union> set xs)" using snoc.prems(4) snoc by auto
      show "chain_tip own genesis es = chain_tip own genesis xs"
        using snoc.prems(1,2) by (simp add: snoc same valid_snoc)
    qed
    with snoc same show ?thesis by simp
  qed
qed

end

locale closing_chain = hash_chain pos_ok prev own sealed genesis
  for pos_ok :: "nat \<Rightarrow> 'e \<Rightarrow> bool" and prev :: "'e \<Rightarrow> 'h" and own :: "'e \<Rightarrow> 'h"
    and sealed :: "'e \<Rightarrow> bool" and genesis :: 'h +
  fixes complete :: "'e list \<Rightarrow> bool"
    and final :: "'e \<Rightarrow> bool"
  assumes complete_valid: "complete es \<Longrightarrow> valid es"
    and complete_final: "complete es \<Longrightarrow> es \<noteq> [] \<and> final (last es)"
    and final_only_last: "complete es \<Longrightarrow> e \<in> set (butlast es) \<Longrightarrow> \<not> final e"
begin

text \<open>A complete log made only of entries of another complete log is that log: nothing can be
  dropped, copied or moved, at the end either.\<close>

lemma complete_unique:
  assumes "complete es" and "complete es'" and "set es' \<subseteq> set es"
  shows "es' = es"
proof -
  from valid_subset_prefix [OF complete_valid [OF assms(1)] complete_valid [OF assms(2)] assms(3)]
  obtain ys where ys: "es = es' @ ys" by (metis append_take_drop_id)
  have "ys = []"
  proof (rule ccontr)
    assume "ys \<noteq> []"
    then have "last es' \<in> set (butlast es)"
      using complete_final [OF assms(2)] by (simp add: ys butlast_append)
    with final_only_last [OF assms(1)] complete_final [OF assms(2)] show False by blast
  qed
  with ys show ?thesis by simp
qed

end

end
