(* ===== verification/Prevention_Jsonl.thy ===== *)
theory Prevention_Jsonl
  imports Wal_Store Closed_Chain Prevention_Idempotency
begin

text \<open>
  The append-only JSON-lines file that the prevention audit log and the outcome ledger are kept in
  (\<open>app/services/prevention_episode_audit.py\<close>, \<open>app/services/prevention_outcome_ledger.py\<close>), and the
  parts the two modules have in common.  A file is the list of its terminated lines and whether an
  unterminated line follows them; unlike the write-ahead log of \<open>Wal_Store\<close>, a blank line is an error.
  Values have \<open>str\<close> keys throughout, so that \<open>_freeze_jsonable\<close>, which turns keys into \<open>str\<close> and tuples
  into lists, leaves them as they are.
\<close>

section \<open>The file\<close>

record jsonl_store =
  js_lines :: "wal_line list"
  js_partial :: bool
  js_flush_count :: nat

definition empty_jsonl :: jsonl_store where
  "empty_jsonl = \<lparr>js_lines = [], js_partial = False, js_flush_count = 0\<rparr>"

text \<open>\<open>noun\<close> is what the module calls a line, \<open>empty_log\<close> its complaint about a file with no text.\<close>

fun read_jsonl_lines :: "(string \<Rightarrow> exn) \<Rightarrow> string \<Rightarrow> nat \<Rightarrow> wal_line list \<Rightarrow> pydict list result" where
  "read_jsonl_lines err noun n [] = Inr []"
| "read_jsonl_lines err noun n (WL_Json (PDict d) # ls) =
     rbind (read_jsonl_lines err noun (Suc n) ls) (\<lambda>ds. Inr (d # ds))"
| "read_jsonl_lines err noun n (WL_Json _ # ls) =
     Inl (err (noun @ '' at line '' @ show_nat n @ '' is not an object''))"
| "read_jsonl_lines err noun n (_ # ls) = Inl (err (''partial '' @ noun @ '' at line '' @ show_nat n))"

definition read_jsonl ::
    "(string \<Rightarrow> exn) \<Rightarrow> string \<Rightarrow> string \<Rightarrow> bool \<Rightarrow> jsonl_store \<Rightarrow> pydict list result" where
  "read_jsonl err noun empty_log allow_empty st =
     (if js_lines st = [] \<and> \<not> js_partial st
      then if allow_empty then Inr [] else Inl (err (empty_log @ '' is incomplete''))
      else if js_partial st then Inl (err (''partial '' @ noun @ '' at end of file''))
      else read_jsonl_lines err noun 1 (js_lines st))"

text \<open>One line and a flush.\<close>

definition jsonl_write :: "pydict \<Rightarrow> jsonl_store \<Rightarrow> jsonl_store" where
  "jsonl_write payload st =
     st\<lparr>js_lines := js_lines st @ [WL_Json (PDict payload)], js_flush_count := js_flush_count st + 1\<rparr>"

definition jsonl_of :: "pydict list \<Rightarrow> jsonl_store" where
  "jsonl_of ds = \<lparr>js_lines = map (\<lambda>d. WL_Json (PDict d)) ds, js_partial = False, js_flush_count = length ds\<rparr>"

lemma read_jsonl_lines_iff:
  "read_jsonl_lines err noun n ls = Inr ds \<longleftrightarrow> ls = map (\<lambda>d. WL_Json (PDict d)) ds"
  by (induction err noun n ls arbitrary: ds rule: read_jsonl_lines.induct)
     (auto simp: rbind_Inr_iff Cons_eq_map_conv)

text \<open>A file reads as \<open>ds\<close> exactly when its lines are the objects \<open>ds\<close>, each complete.\<close>

lemma read_jsonl_iff:
  "read_jsonl err noun empty_log allow_empty st = Inr ds \<longleftrightarrow>
     js_lines st = map (\<lambda>d. WL_Json (PDict d)) ds \<and> \<not> js_partial st \<and> (ds = [] \<longrightarrow> allow_empty)"
  by (auto simp: read_jsonl_def read_jsonl_lines_iff)

lemma jsonl_lines_inj: "inj (\<lambda>d. WL_Json (PDict d))"
  by (simp add: inj_def)

lemma jsonl_lines_eq:
  "map (\<lambda>d. WL_Json (PDict d)) rs = map (\<lambda>d. WL_Json (PDict d)) rs' \<longleftrightarrow> rs = rs'"
  using map_injective [OF _ jsonl_lines_inj] by blast

lemma read_jsonl_write:
  "read_jsonl err noun empty_log a st = Inr ds \<Longrightarrow>
     read_jsonl err noun empty_log b (jsonl_write payload st) = Inr (ds @ [payload])"
  by (simp add: read_jsonl_iff jsonl_write_def)

lemma read_jsonl_of [simp]: "read_jsonl err noun empty_log True (jsonl_of ds) = Inr ds"
  by (simp add: read_jsonl_iff jsonl_of_def)

section \<open>Numbered, linked and sealed\<close>

text \<open>
  The tests both modules make of a line, for \<open>own_key\<close> the key that holds its hash (\<open>record_hash\<close>,
  \<open>entry_hash\<close>): the sequence counts from 1, the parent is the hash before it, the hash is that of
  all other items.
\<close>

definition GENESIS_HASH :: string where
  "GENESIS_HASH = ''GENESIS''"

definition jsonl_digest :: "(string \<Rightarrow> string) \<Rightarrow> string \<Rightarrow> pydict \<Rightarrow> string" where
  "jsonl_digest sha own_key d = stable_hash sha (PDict (pwithout [own_key] d))"

definition jsonl_pos :: "nat \<Rightarrow> pydict \<Rightarrow> bool" where
  "jsonl_pos n d = py_eq (pget d ''sequence'') (PInt (int n + 1))"

definition jsonl_parent :: "pydict \<Rightarrow> pyval" where
  "jsonl_parent d = pget d ''parent_hash''"

definition jsonl_own :: "string \<Rightarrow> pydict \<Rightarrow> pyval" where
  "jsonl_own own_key d = pget d own_key"

definition jsonl_sealed :: "(string \<Rightarrow> string) \<Rightarrow> string \<Rightarrow> pydict \<Rightarrow> bool" where
  "jsonl_sealed sha own_key d = (pget d own_key = PStr (jsonl_digest sha own_key d))"

interpretation jsonl: hash_chain jsonl_pos jsonl_parent "jsonl_own own_key" "jsonl_sealed sha own_key" "PStr GENESIS_HASH"
  for own_key sha
  by unfold_locales (auto simp: jsonl_pos_def dest: py_eq_PInt_unique)

text \<open>\<open>parent_hash in seen_parents\<close>: a set of strings; testing an unhashable value raises.\<close>

definition seen_parent :: "string list \<Rightarrow> pyval \<Rightarrow> bool result" where
  "seen_parent seen v =
     (if unhashable v then Inl (Raised ''TypeError'' ''unhashable type'')
      else Inr (case v of PStr s \<Rightarrow> s \<in> set seen | _ \<Rightarrow> False))"

text \<open>The sequence and parent tests at the head of both loops.\<close>

definition check_sequence :: "(string \<Rightarrow> exn) \<Rightarrow> int \<Rightarrow> pydict \<Rightarrow> unit result" where
  "check_sequence err index d =
    (let seq = pget d ''sequence'' in
     if py_eq seq (PInt index) then Inr ()
     else Inl (err ((if (case seq of PInt i \<Rightarrow> i > index | PBool b \<Rightarrow> (if b then 1 else 0) > index | _ \<Rightarrow> False)
                     then ''sequence gap'' else ''sequence order'')
                 @ '': expected sequence '' @ show_int index @ '', got '' @ py_repr seq)))"

definition check_parent :: "(string \<Rightarrow> exn) \<Rightarrow> string \<Rightarrow> string list \<Rightarrow> pydict \<Rightarrow> unit result" where
  "check_parent err previous seen d =
    (let parent = pget d ''parent_hash''; seq = py_str (pget d ''sequence'') in
     rbind (seen_parent seen parent) (\<lambda>dup.
       if dup then Inl (err (''duplicate-parent fork at sequence '' @ seq))
       else rguard (\<not> py_eq parent (PStr previous)) (err (''parent/order mismatch at sequence '' @ seq))))"

text \<open>The common end of both \<open>_prepare_payload_for_append\<close>.\<close>

definition expected_parent :: "string \<Rightarrow> pydict list \<Rightarrow> pyval result" where
  "expected_parent own_key existing =
     (if existing = [] then Inr (PStr GENESIS_HASH) else pindex (last existing) own_key)"

definition check_append :: "(string \<Rightarrow> exn) \<Rightarrow> string \<Rightarrow> pydict \<Rightarrow> pydict list \<Rightarrow> unit result" where
  "check_append err own_key payload existing =
    (let expected = int (length existing) + 1; seq = pget payload ''sequence'' in
     if \<not> py_eq seq (PInt expected)
     then Inl (err (''append sequence violation: expected '' @ show_int expected @ '', got '' @ py_repr seq))
     else rbind (expected_parent own_key existing) (\<lambda>parent.
       rguard (\<not> py_eq (pget payload ''parent_hash'') parent) (err ''append parent hash does not match current head'')))"

lemma check_sequence_iff: "check_sequence err (int n + 1) d = Inr () \<longleftrightarrow> jsonl_pos n d"
  by (simp add: check_sequence_def jsonl_pos_def Let_def)

lemma check_parent_iff:
  "check_parent err previous seen d = Inr () \<longleftrightarrow> jsonl_parent d = PStr previous \<and> previous \<notin> set seen"
  by (auto simp: check_parent_def Let_def seen_parent_def rbind_Inr_iff rguard_Inr_iff jsonl_parent_def
      py_eq_str_iff rguard_def split: if_splits pyval.splits)

lemma jsonl_sealed_own: "jsonl_sealed sha k d \<Longrightarrow> jsonl_own k d = PStr (jsonl_digest sha k d)"
  by (simp add: jsonl_sealed_def jsonl_own_def)

lemma jsonl_tip:
  assumes "jsonl.valid k sha ds"
  shows "\<exists>h. expected_parent k ds = Inr (PStr h) \<and> chain_tip (jsonl_own k) (PStr GENESIS_HASH) ds = PStr h"
proof (cases ds rule: rev_cases)
  case Nil
  then show ?thesis by (simp add: expected_parent_def chain_tip_def)
next
  case (snoc xs d)
  with assms have "pget d k = PStr (jsonl_digest sha k d)" by (simp add: jsonl.valid_snoc jsonl_sealed_def)
  moreover from this have "pindex d k = Inr (pget d k)"
    by (auto simp: pget_def pindex_def split: option.splits)
  ultimately show ?thesis by (simp add: snoc expected_parent_def chain_tip_def jsonl_own_def)
qed

text \<open>A line that passes the append checks extends a valid chain once it is sealed.\<close>

lemma jsonl_append_valid:
  assumes "jsonl.valid k sha ds" and "check_append err k payload ds = Inr ()"
    and "pget d ''sequence'' = pget payload ''sequence''" and "pget d ''parent_hash'' = pget payload ''parent_hash''"
  shows "jsonl.valid k sha (ds @ [d]) \<longleftrightarrow> jsonl_sealed sha k d"
proof -
  from jsonl_tip [OF assms(1)] obtain h where h: "expected_parent k ds = Inr (PStr h)"
    "chain_tip (jsonl_own k) (PStr GENESIS_HASH) ds = PStr h" by blast
  with assms(2) have "jsonl_pos (length ds) payload" "pget payload ''parent_hash'' = PStr h"
    by (auto simp: check_append_def Let_def jsonl_pos_def rguard_Inr_iff py_eq_str_iff add.commute split: if_splits)
  then have "jsonl_pos (length ds) d" "jsonl_parent d = PStr h"
    by (simp_all add: jsonl_pos_def jsonl_parent_def assms(3,4))
  with assms(1) h(2) show ?thesis by (simp add: jsonl.valid_snoc)
qed

lemma chain_from_sealed: "chain_from po pr ow se n h ds \<Longrightarrow> d \<in> set ds \<Longrightarrow> se d"
  by (induction ds arbitrary: n h) auto

text \<open>The parents of a chain are its hashes, one place on.\<close>

lemma chain_from_parents: "chain_from po pr ow se n h (ds @ [d]) \<Longrightarrow> map pr (ds @ [d]) = h # map ow ds"
  by (induction ds arbitrary: n h) auto

lemma GENESIS_not_digest: "PStr GENESIS_HASH \<noteq> PStr (jsonl_digest sha k d)"
  by (simp add: GENESIS_HASH_def jsonl_digest_def stable_hash_def)

lemma jsonl_genesis_fresh:
  assumes "jsonl.valid k sha ds"
  shows "PStr GENESIS_HASH \<notin> jsonl_own k ` set ds"
proof
  assume "PStr GENESIS_HASH \<in> jsonl_own k ` set ds"
  then obtain d where d: "d \<in> set ds" "jsonl_own k d = PStr GENESIS_HASH" by force
  from assms d(1) have "jsonl_sealed sha k d" unfolding jsonl.valid_def by (rule chain_from_sealed)
  then have "jsonl_own k d = PStr (jsonl_digest sha k d)" by (rule jsonl_sealed_own)
  with d(2) GENESIS_not_digest [of sha k d] show False by simp
qed

text \<open>Distinct hashes leave the parents of a longer chain distinct, which the fork test asks for.\<close>

lemma jsonl_parents_distinct:
  assumes "jsonl.valid k sha (ds @ [d])" and "distinct (map (jsonl_own k) ds)"
  shows "distinct (map jsonl_parent (ds @ [d]))"
proof -
  have "map jsonl_parent (ds @ [d]) = PStr GENESIS_HASH # map (jsonl_own k) ds"
    using assms(1) unfolding jsonl.valid_def by (rule chain_from_parents)
  with assms jsonl_genesis_fresh [of k sha ds] show ?thesis by (simp add: jsonl.valid_snoc)
qed

lemma jsonl_digest_update: "jsonl_digest sha k (AList.update k v d) = jsonl_digest sha k d"
proof -
  have "pwithout [k] (AList.update k v d) = pwithout [k] d" by (induction d) (auto simp: pwithout_def)
  then show ?thesis by (simp add: jsonl_digest_def)
qed

lemma jsonl_update_sealed:
  "jsonl_sealed sha k (AList.update k (PStr (jsonl_digest sha k d)) d)"
  by (simp add: jsonl_sealed_def jsonl_digest_update pget_update)

end
