(* ===== verification/Prevention_Audit.thy ===== *)
theory Prevention_Audit
  imports Prevention_Jsonl Prevention_States
begin

text \<open>
  The audit log of a prevention episode (\<open>app/services/prevention_episode_audit.py\<close>): records appended
  to a JSON-lines file, an attempt written to it before its effect is carried out, and replay, which
  accepts a log only if its chain verifies and its states are an episode of the state machine.  The
  harness and the rollbacker are parameters: operations on a world of their own, which the log is not
  part of.
\<close>

section \<open>Records\<close>

record prevention_episode =
  pe_episode_id :: string
  pe_selected_candidate_hash :: string
  pe_canonical_p106_evidence_hash :: string
  pe_p105_p106_prerequisite_identity :: string
  pe_registry_hash :: string
  pe_cohort_scope :: pydict
  pe_telemetry_window :: pydict
  pe_created_at :: string
  pe_sequence :: int
  pe_state :: string
  pe_parent_hash :: string
  pe_expected_terminal_head_hash :: "string option"

record preventive_action_attempt =
  pa_episode_id :: string
  pa_attempt_id :: string
  pa_sequence :: int
  pa_state :: string
  pa_selected_candidate_hash :: string
  pa_canonical_p106_evidence_hash :: string
  pa_registry_hash :: string
  pa_policy_recheck_hash :: string
  pa_cohort_fingerprint_hash :: string
  pa_idempotency_key :: string
  pa_treatment_control_fingerprints :: pydict
  pa_authority_counters :: pydict
  pa_parent_hash :: string
  pa_occurred_at :: string
  pa_expected_terminal_head_hash :: "string option"
  pa_p105_p106_prerequisite_identity :: "string option"
  pa_cohort_scope :: pydict
  pa_telemetry_window :: pydict
  pa_result :: pydict

text \<open>\<open>dataclasses.asdict\<close>.\<close>

definition episode_payload :: "prevention_episode \<Rightarrow> pydict" where
  "episode_payload e =
     [(''episode_id'', PStr (pe_episode_id e)),
      (''selected_candidate_hash'', PStr (pe_selected_candidate_hash e)),
      (''canonical_p106_evidence_hash'', PStr (pe_canonical_p106_evidence_hash e)),
      (''p105_p106_prerequisite_identity'', PStr (pe_p105_p106_prerequisite_identity e)),
      (''registry_hash'', PStr (pe_registry_hash e)), (''cohort_scope'', PDict (pe_cohort_scope e)),
      (''telemetry_window'', PDict (pe_telemetry_window e)), (''created_at'', PStr (pe_created_at e)),
      (''sequence'', PInt (pe_sequence e)), (''state'', PStr (pe_state e)),
      (''parent_hash'', PStr (pe_parent_hash e)),
      (''expected_terminal_head_hash'', opt_str (pe_expected_terminal_head_hash e))]"

definition attempt_payload :: "preventive_action_attempt \<Rightarrow> pydict" where
  "attempt_payload a =
     [(''episode_id'', PStr (pa_episode_id a)), (''attempt_id'', PStr (pa_attempt_id a)),
      (''sequence'', PInt (pa_sequence a)), (''state'', PStr (pa_state a)),
      (''selected_candidate_hash'', PStr (pa_selected_candidate_hash a)),
      (''canonical_p106_evidence_hash'', PStr (pa_canonical_p106_evidence_hash a)),
      (''registry_hash'', PStr (pa_registry_hash a)), (''policy_recheck_hash'', PStr (pa_policy_recheck_hash a)),
      (''cohort_fingerprint_hash'', PStr (pa_cohort_fingerprint_hash a)),
      (''idempotency_key'', PStr (pa_idempotency_key a)),
      (''treatment_control_fingerprints'', PDict (pa_treatment_control_fingerprints a)),
      (''authority_counters'', PDict (pa_authority_counters a)), (''parent_hash'', PStr (pa_parent_hash a)),
      (''occurred_at'', PStr (pa_occurred_at a)),
      (''expected_terminal_head_hash'', opt_str (pa_expected_terminal_head_hash a)),
      (''p105_p106_prerequisite_identity'', opt_str (pa_p105_p106_prerequisite_identity a)),
      (''cohort_scope'', PDict (pa_cohort_scope a)), (''telemetry_window'', PDict (pa_telemetry_window a)),
      (''result'', PDict (pa_result a))]"

definition audit_error :: "string \<Rightarrow> exn" where
  "audit_error m = Raised ''PreventionAuditError'' m"

text \<open>What \<open>append\<close> may be given: an instance of a dataclass, a class, a mapping, or any other object.\<close>

datatype audit_record =
    AR_Episode prevention_episode
  | AR_Attempt preventive_action_attempt
  | AR_DataclassType
  | AR_Mapping pydict
  | AR_Other string

fun record_payload :: "audit_record \<Rightarrow> pydict result" where
  "record_payload (AR_Episode e) = Inr (episode_payload e)"
| "record_payload (AR_Attempt a) = Inr (attempt_payload a)"
| "record_payload AR_DataclassType = Inl (audit_error ''audit record must be an instance, not a dataclass type'')"
| "record_payload (AR_Mapping d) = Inr d"
| "record_payload (AR_Other type_name) = Inl (audit_error (''unsupported audit record type '' @ type_name))"

section \<open>Appending\<close>

definition AUDIT_ZERO_COUNTERS :: pydict where
  "AUDIT_ZERO_COUNTERS =
     [(''auth'', PInt 0), (''credential_reads'', PInt 0), (''production_adapter_calls'', PInt 0),
      (''production_mutations'', PInt 0), (''network_calls'', PInt 0), (''shell_calls'', PInt 0),
      (''cloud_calls'', PInt 0), (''db_mutations'', PInt 0)]"

definition computed_record_hash :: "(string \<Rightarrow> string) \<Rightarrow> pydict \<Rightarrow> string" where
  "computed_record_hash sha r = jsonl_digest sha ''record_hash'' r"

definition prepare_audit_payload :: "(string \<Rightarrow> string) \<Rightarrow> pydict \<Rightarrow> pydict list \<Rightarrow> pydict result" where
  "prepare_audit_payload sha payload existing =
     rbind (check_append audit_error ''record_hash'' payload existing) (\<lambda>_.
     rbind (rguard (pget payload ''state'' = PNone) (audit_error ''append record missing state'')) (\<lambda>_.
     rbind (rguard (pget payload ''authority_counters'' \<noteq> PNone
                    \<and> \<not> py_eq (pget payload ''authority_counters'') (PDict AUDIT_ZERO_COUNTERS))
              (audit_error ''authority counters must remain exactly zero'')) (\<lambda>_.
     Inr (if phas payload ''record_hash'' then payload
          else AList.update ''record_hash'' (PStr (computed_record_hash sha payload)) payload))))"

definition read_audit :: "bool \<Rightarrow> jsonl_store \<Rightarrow> pydict list result" where
  "read_audit = read_jsonl audit_error ''audit record'' ''empty audit log''"

definition audit_append :: "(string \<Rightarrow> string) \<Rightarrow> audit_record \<Rightarrow> (jsonl_store, string) op" where
  "audit_append sha rec st =
     (case rbind (read_audit True st) (\<lambda>existing.
           rbind (record_payload rec) (\<lambda>payload. prepare_audit_payload sha payload existing)) of
        Inl x \<Rightarrow> (st, Inl x)
      | Inr payload \<Rightarrow> (jsonl_write payload st, Inr (py_str (pget payload ''record_hash''))))"

text \<open>
  The intent of an attempt: the episode first if the file is still empty, the attempt then adopting
  its hash as parent.  Both \<open>_with_wal\<close> functions begin with it.
\<close>

definition append_intent ::
    "(string \<Rightarrow> string) \<Rightarrow> prevention_episode \<Rightarrow> preventive_action_attempt \<Rightarrow> (jsonl_store, string) op" where
  "append_intent sha e a =
     op_bind (\<lambda>st. (st, read_audit True st)) (\<lambda>existing.
     op_bind (if existing = []
              then op_bind (audit_append sha (AR_Episode e)) (\<lambda>parent. op_return (a\<lparr>pa_parent_hash := parent\<rparr>))
              else op_return a) (\<lambda>a'.
     audit_append sha (AR_Attempt a')))"

definition effect_with_wal ::
    "string \<Rightarrow> (string \<Rightarrow> string) \<Rightarrow> prevention_episode \<Rightarrow> preventive_action_attempt
      \<Rightarrow> (string \<Rightarrow> ('h, pyval) op) \<Rightarrow> (jsonl_store \<times> 'h, pydict) op" where
  "effect_with_wal result_key sha e a effect s =
     (case append_intent sha e a (fst s) of
        (st, Inl x) \<Rightarrow> ((st, snd s), Inl x)
      | (st, Inr intent_hash) \<Rightarrow>
          (case effect (pa_idempotency_key a) (snd s) of
             (h, Inl x) \<Rightarrow> ((st, h), Inl x)
           | (h, Inr result) \<Rightarrow> ((st, h), Inr [(''intent_hash'', PStr intent_hash), (result_key, result)])))"

definition record_prevention_attempt_with_wal ::
    "(string \<Rightarrow> string) \<Rightarrow> prevention_episode \<Rightarrow> preventive_action_attempt
      \<Rightarrow> (string \<Rightarrow> ('h, pyval) op) \<Rightarrow> (jsonl_store \<times> 'h, pydict) op" where
  "record_prevention_attempt_with_wal = effect_with_wal ''effect''"

definition record_prevention_rollback_with_wal ::
    "(string \<Rightarrow> string) \<Rightarrow> prevention_episode \<Rightarrow> preventive_action_attempt
      \<Rightarrow> (string \<Rightarrow> ('h, pyval) op) \<Rightarrow> (jsonl_store \<times> 'h, pydict) op" where
  "record_prevention_rollback_with_wal = effect_with_wal ''rollback''"

section \<open>Replay\<close>

record audit_replay =
  ar_deterministic_replay :: bool
  ar_replay_hash :: string
  ar_report_input_model :: pydict
  ar_terminal_state :: string
  ar_head_hash :: string
  ar_record_count :: int

definition validate_record_hash :: "(string \<Rightarrow> string) \<Rightarrow> pydict \<Rightarrow> unit result" where
  "validate_record_hash sha r =
     rguard (\<not> py_eq (pget r ''record_hash'') (PStr (computed_record_hash sha r)))
       (audit_error (''tamper or hash mismatch at sequence '' @ py_repr (pget r ''sequence'')))"

definition record_state :: "pydict \<Rightarrow> string" where
  "record_state r = py_str (pget r ''state'')"

definition replay_state :: "string \<Rightarrow> string list \<Rightarrow> string list result" where
  "replay_state state machine =
     (case psm_append state machine of
        (machine', Inr _) \<Rightarrow> Inr machine'
      | (_, Inl x) \<Rightarrow> Inl (audit_error
          ((if state \<in> {''wal_intent_appended'', ''rollback_intent_appended''} then ''incomplete '' else '''')
             @ exn_message x)))"

fun audit_loop ::
    "(string \<Rightarrow> string) \<Rightarrow> nat \<Rightarrow> string \<Rightarrow> string list \<Rightarrow> string list \<Rightarrow> pydict list
      \<Rightarrow> (string \<times> string list) result" where
  "audit_loop sha n previous seen machine [] = Inr (previous, machine)"
| "audit_loop sha n previous seen machine (r # rs) =
     rbind (check_sequence audit_error (int n + 1) r) (\<lambda>_.
     rbind (check_parent audit_error previous seen r) (\<lambda>_.
     rbind (validate_record_hash sha r) (\<lambda>_.
     rbind (replay_state (record_state r) machine) (\<lambda>machine'.
     audit_loop sha (Suc n) (py_str (pget r ''record_hash'')) (py_str (pget r ''parent_hash'') # seen) machine' rs))))"

definition replay_prevention_audit ::
    "(string \<Rightarrow> string) \<Rightarrow> bool \<Rightarrow> jsonl_store \<Rightarrow> audit_replay result" where
  "replay_prevention_audit sha allow_incomplete st =
     rbind (read_audit False st) (\<lambda>records.
     rbind (audit_loop sha 0 GENESIS_HASH [] [] records) (\<lambda>(head, machine).
     let terminal_state = last machine; expected_head = pget (last records) ''expected_terminal_head_hash'' in
     rbind (rguard (terminal_state \<notin> set TERMINAL_STATES \<and> \<not> allow_incomplete)
       (audit_error (''tail truncation or incomplete episode at state '' @ repr_str terminal_state))) (\<lambda>_.
     rbind (rguard (expected_head \<noteq> PNone \<and> \<not> py_eq expected_head (PStr head))
       (audit_error ''expected terminal head hash mismatch'')) (\<lambda>_.
     let report = [(''schema_version'', PStr ''p107.audit_replay.v1''), (''record_count'', PInt (int (length records))),
                   (''terminal_state'', PStr terminal_state), (''head_hash'', PStr head),
                   (''records'', PList (map PDict records))] in
     Inr \<lparr>ar_deterministic_replay = True, ar_replay_hash = stable_hash sha (PDict report),
          ar_report_input_model = report, ar_terminal_state = terminal_state, ar_head_hash = head,
          ar_record_count = int (length records)\<rparr>))))"

section \<open>What replay accepts\<close>

text \<open>An episode is closed under prefixes, and the machine accepts exactly what stays an episode.\<close>

lemma episode_prefix: "episode (xs @ ys) \<Longrightarrow> episode xs"
  by (cases xs) (auto simp: episode_def legal_path_append)

lemma psm_append_iff:
  assumes "episode m"
  shows "psm_append s m = (m', Inr ()) \<longleftrightarrow> m' = m @ [s] \<and> episode (m @ [s])"
proof -
  have "episode (m @ [s]) \<longleftrightarrow> snd (psm_append s m) = Inr ()"
    using assms by (cases m) (auto simp: psm_append_accepts current_state_def episode_def legal_path_snoc)
  then show ?thesis
    using psm_append_state [of s m] by (auto simp: prod_eq_iff)
qed

lemma replay_state_iff:
  assumes "episode m"
  shows "replay_state s m = Inr m' \<longleftrightarrow> m' = m @ [s] \<and> episode (m @ [s])"
  using psm_append_iff [OF assms, of s m']
  by (auto simp: replay_state_def split: prod.splits sum.splits)

lemma validate_record_hash_iff: "validate_record_hash sha r = Inr () \<longleftrightarrow> jsonl_sealed sha ''record_hash'' r"
  by (auto simp: validate_record_hash_def rguard_Inr_iff jsonl_sealed_def computed_record_hash_def py_eq_str_iff)

definition audit_chain :: "(string \<Rightarrow> string) \<Rightarrow> nat \<Rightarrow> string \<Rightarrow> pydict list \<Rightarrow> bool" where
  "audit_chain sha n h =
     chain_from jsonl_pos jsonl_parent (jsonl_own ''record_hash'') (jsonl_sealed sha ''record_hash'') n (PStr h)"

lemma audit_loop_iff:
  assumes "episode machine"
  shows "audit_loop sha n previous seen machine rs = Inr (h, machine') \<longleftrightarrow>
      audit_chain sha n previous rs \<and> distinct (map jsonl_parent rs)
      \<and> set (map jsonl_parent rs) \<inter> PStr ` set seen = {}
      \<and> machine' = machine @ map record_state rs \<and> episode (machine @ map record_state rs)
      \<and> chain_tip (jsonl_own ''record_hash'') (PStr previous) rs = PStr h"
  using assms
proof (induction rs arbitrary: n previous seen machine)
  case Nil
  then show ?case by (auto simp: chain_tip_def audit_chain_def)
next
  case (Cons r rs)
  let ?own = "computed_record_hash sha r" and ?m = "machine @ [record_state r]"
  show ?case
  proof (cases "jsonl_pos n r \<and> jsonl_parent r = PStr previous \<and> previous \<notin> set seen
                \<and> jsonl_sealed sha ''record_hash'' r \<and> episode ?m")
    case False
    with Cons.prems show ?thesis
      using episode_prefix [of ?m "map record_state rs"]
      by (auto simp: rbind_Inr_iff check_sequence_iff check_parent_iff validate_record_hash_iff
          replay_state_iff audit_chain_def)
  next
    case True
    then have heads: "check_sequence audit_error (int n + 1) r = Inr ()" "check_parent audit_error previous seen r = Inr ()"
      "validate_record_hash sha r = Inr ()" "replay_state (record_state r) machine = Inr ?m"
      using Cons.prems by (simp_all add: check_sequence_iff check_parent_iff validate_record_hash_iff replay_state_iff)
    from True have fields: "pget r ''record_hash'' = PStr ?own" "pget r ''parent_hash'' = PStr previous"
      by (simp_all add: jsonl_sealed_def computed_record_hash_def jsonl_parent_def)
    have loop: "audit_loop sha n previous seen machine (r # rs) = audit_loop sha (Suc n) ?own (previous # seen) ?m rs"
      by (simp add: heads fields)
    have tip: "chain_tip (jsonl_own ''record_hash'') (PStr previous) (r # rs)
                   = chain_tip (jsonl_own ''record_hash'') (PStr ?own) rs"
      by (simp add: chain_tip_def jsonl_own_def fields)
    have "jsonl_own ''record_hash'' r = PStr ?own" by (simp add: jsonl_own_def fields)
    with True have "audit_chain sha n previous (r # rs) \<longleftrightarrow> audit_chain sha (Suc n) ?own rs"
      by (simp add: audit_chain_def)
    with True show ?thesis
      unfolding loop tip using Cons.IH [of ?m "Suc n" ?own "previous # seen"] by auto
  qed
qed


definition audit_accepts :: "(string \<Rightarrow> string) \<Rightarrow> bool \<Rightarrow> pydict list \<Rightarrow> bool" where
  "audit_accepts sha allow_incomplete rs \<longleftrightarrow>
     rs \<noteq> [] \<and> jsonl.valid ''record_hash'' sha rs \<and> distinct (map jsonl_parent rs)
     \<and> episode (map record_state rs)
     \<and> (record_state (last rs) \<in> set TERMINAL_STATES \<or> allow_incomplete)
     \<and> pget (last rs) ''expected_terminal_head_hash'' \<in> {PNone, jsonl_own ''record_hash'' (last rs)}"

definition audit_report :: "(string \<Rightarrow> string) \<Rightarrow> pydict list \<Rightarrow> audit_replay" where
  "audit_report sha rs =
    (let head = py_str (jsonl_own ''record_hash'' (last rs));
         report = [(''schema_version'', PStr ''p107.audit_replay.v1''), (''record_count'', PInt (int (length rs))),
                   (''terminal_state'', PStr (record_state (last rs))), (''head_hash'', PStr head),
                   (''records'', PList (map PDict rs))] in
     \<lparr>ar_deterministic_replay = True, ar_replay_hash = stable_hash sha (PDict report),
      ar_report_input_model = report, ar_terminal_state = record_state (last rs), ar_head_hash = head,
      ar_record_count = int (length rs)\<rparr>)"

lemma audit_chain_valid: "audit_chain sha 0 GENESIS_HASH rs \<longleftrightarrow> jsonl.valid ''record_hash'' sha rs"
  by (simp add: audit_chain_def jsonl.valid_def)

lemma audit_loop_start:
  "audit_loop sha 0 GENESIS_HASH [] [] rs = Inr (h, m) \<longleftrightarrow>
     jsonl.valid ''record_hash'' sha rs \<and> distinct (map jsonl_parent rs) \<and> episode (map record_state rs)
     \<and> m = map record_state rs \<and> chain_tip (jsonl_own ''record_hash'') (PStr GENESIS_HASH) rs = PStr h"
  using audit_loop_iff [of "[]" sha 0 GENESIS_HASH "[]" rs h m]
  by (auto simp: audit_chain_valid episode_def)

lemma audit_own_text:
  assumes "jsonl.valid ''record_hash'' sha rs" and "rs \<noteq> []"
  shows "jsonl_own ''record_hash'' (last rs) = PStr (jsonl_digest sha ''record_hash'' (last rs))"
    and "chain_tip (jsonl_own ''record_hash'') (PStr GENESIS_HASH) rs = PStr (jsonl_digest sha ''record_hash'' (last rs))"
proof -
  from assms have "jsonl_sealed sha ''record_hash'' (last rs)"
    by (cases rs rule: rev_cases) (simp_all add: jsonl.valid_snoc)
  then show own: "jsonl_own ''record_hash'' (last rs) = PStr (jsonl_digest sha ''record_hash'' (last rs))"
    by (rule jsonl_sealed_own)
  show "chain_tip (jsonl_own ''record_hash'') (PStr GENESIS_HASH) rs = PStr (jsonl_digest sha ''record_hash'' (last rs))"
    using assms(2) by (simp add: chain_tip_def own)
qed

lemma read_audit_nonempty: "read_audit False st = Inr rs \<Longrightarrow> rs \<noteq> []"
  by (auto simp: read_audit_def read_jsonl_iff)

text \<open>Replay succeeds exactly on the logs described above, and what it reports is a function of them.\<close>

lemma replay_audit_iff:
  "replay_prevention_audit sha inc st = Inr r \<longleftrightarrow>
     (\<exists>rs. read_audit False st = Inr rs \<and> audit_accepts sha inc rs \<and> r = audit_report sha rs)"
proof (cases "read_audit False st")
  case (Inl x)
  then show ?thesis by (simp add: replay_prevention_audit_def)
next
  case (Inr rs)
  then have ne: "rs \<noteq> []" by (rule read_audit_nonempty)
  let ?h = "jsonl_digest sha ''record_hash'' (last rs)" and ?m = "map record_state rs"
  show ?thesis
  proof (cases "audit_loop sha 0 GENESIS_HASH [] [] rs = Inr (?h, ?m)")
    case True
    then have ok: "jsonl.valid ''record_hash'' sha rs" "distinct (map jsonl_parent rs)" "episode ?m"
      by (simp_all add: audit_loop_start)
    have "last ?m = record_state (last rs)" using ne by (simp add: last_map)
    with True Inr ne ok audit_own_text [OF ok(1) ne] show ?thesis
      by (auto simp: replay_prevention_audit_def audit_accepts_def audit_report_def Let_def rguard_def
          py_eq_str_iff split: if_splits)
  next
    case False
    have "\<not> audit_accepts sha inc rs"
    proof
      assume "audit_accepts sha inc rs"
      with False audit_own_text [of sha rs] show False
        by (simp add: audit_accepts_def audit_loop_start)
    qed
    moreover have "audit_loop sha 0 GENESIS_HASH [] [] rs \<noteq> Inr (h, m)" for h m
    proof
      assume "audit_loop sha 0 GENESIS_HASH [] [] rs = Inr (h, m)"
      moreover from this have "h = ?h" "m = ?m" using audit_own_text(2) [OF _ ne] by (auto simp: audit_loop_start)
      ultimately show False using False by simp
    qed
    ultimately show ?thesis using Inr by (auto simp: replay_prevention_audit_def rbind_Inr_iff)
  qed
qed

text \<open>The logs that replay as complete are closed by their terminal record.\<close>

interpretation audit: closing_chain jsonl_pos jsonl_parent "jsonl_own ''record_hash''"
    "jsonl_sealed sha ''record_hash''" "PStr GENESIS_HASH" "audit_accepts sha False"
    "\<lambda>r. record_state r \<in> set TERMINAL_STATES" for sha
proof unfold_locales
  fix rs r
  assume rs: "audit_accepts sha False rs"
  then show "jsonl.valid ''record_hash'' sha rs" by (simp add: audit_accepts_def)
  from rs show "rs \<noteq> [] \<and> record_state (last rs) \<in> set TERMINAL_STATES" by (simp add: audit_accepts_def)
  assume "r \<in> set (butlast rs)"
  then have "record_state r \<in> set (butlast (map record_state rs))" by (simp add: map_butlast [symmetric])
  moreover from rs have "episode (map record_state rs)" by (simp add: audit_accepts_def)
  ultimately show "record_state r \<notin> set TERMINAL_STATES" using episode_butlast by blast
qed


section \<open>Properties\<close>

lemma read_audit_lines: "read_audit a st = Inr rs \<Longrightarrow> js_lines st = map (\<lambda>d. WL_Json (PDict d)) rs"
  by (simp add: read_audit_def read_jsonl_iff)

lemma read_audit_any: "read_audit False st = Inr rs \<Longrightarrow> read_audit True st = Inr rs"
  by (simp add: read_audit_def read_jsonl_iff)

text \<open>C25. A complete audit log cannot be rearranged: if two log files both replay as complete episodes
  and every line of the second occurs in the first, then the second has exactly the lines of the
  first, in the same order and number, and replays to the same report.  So no record can be dropped,
  not even the last ones, repeated or moved.  And the states of such a log are a path of the
  transition table from \<open>received\<close> to a terminal state.\<close>

theorem p107_audit_complete_tamper_evident:
  assumes "replay_prevention_audit sha False st = Inr r" and "replay_prevention_audit sha False st' = Inr r'"
    and "set (js_lines st') \<subseteq> set (js_lines st)"
  shows "js_lines st' = js_lines st \<and> r' = r
     \<and> (\<exists>rs p. js_lines st = map (\<lambda>d. WL_Json (PDict d)) rs \<and> map record_state rs = ''received'' # p
          \<and> legal_path allowed_from ''received'' p \<and> last (''received'' # p) \<in> set TERMINAL_STATES
          \<and> ar_terminal_state r = last (''received'' # p))"
proof -
  from assms(1,2) obtain rs rs' where rs: "read_audit False st = Inr rs" "audit_accepts sha False rs" "r = audit_report sha rs"
    and rs': "read_audit False st' = Inr rs'" "audit_accepts sha False rs'" "r' = audit_report sha rs'"
    by (auto simp: replay_audit_iff)
  note lines = read_audit_lines [OF rs(1)] read_audit_lines [OF rs'(1)]
  have "set rs' \<subseteq> set rs"
    using assms(3) inj_image_subset_iff [OF jsonl_lines_inj, of "set rs'" "set rs"] by (simp add: lines)
  then have same: "rs' = rs" by (rule audit.complete_unique [OF rs(2) rs'(2)])
  from rs(2) obtain p where p: "map record_state rs = ''received'' # p" "legal_path allowed_from ''received'' p"
    by (auto simp: audit_accepts_def episode_def)
  have "last (''received'' # p) = record_state (last rs)"
    using rs(2) by (simp add: audit_accepts_def last_map flip: p(1))
  moreover have "record_state (last rs) \<in> set TERMINAL_STATES" using rs(2) by (simp add: audit_accepts_def)
  moreover have "ar_terminal_state r = record_state (last rs)" by (simp add: rs(3) audit_report_def Let_def)
  ultimately have "js_lines st = map (\<lambda>d. WL_Json (PDict d)) rs \<and> map record_state rs = ''received'' # p
      \<and> legal_path allowed_from ''received'' p \<and> last (''received'' # p) \<in> set TERMINAL_STATES
      \<and> ar_terminal_state r = last (''received'' # p)"
    using p lines(1) by metis
  moreover have "js_lines st' = js_lines st \<and> r' = r" by (simp only: lines same rs(3) rs'(3))
  ultimately show ?thesis by (intro conjI exI [of _ rs] exI [of _ p]) (elim conjE, assumption)+
qed

text \<open>What an accepted append leaves.\<close>

lemma prepare_audit_fields:
  assumes "prepare_audit_payload sha p ds = Inr d"
  shows "check_append audit_error ''record_hash'' p ds = Inr ()" and "pget p ''state'' \<noteq> PNone"
    and "pget p ''authority_counters'' = PNone \<or> py_eq (pget p ''authority_counters'') (PDict AUDIT_ZERO_COUNTERS)"
    and "k \<noteq> ''record_hash'' \<Longrightarrow> pget d k = pget p k"
    and "\<not> phas p ''record_hash'' \<Longrightarrow> jsonl_sealed sha ''record_hash'' d"
  using assms
  by (auto simp: prepare_audit_payload_def rbind_Inr_iff rguard_Inr_iff pget_update computed_record_hash_def
      jsonl_update_sealed split: if_splits)

lemma audit_append_cases:
  obtains x where "audit_append sha rec st = (st, Inl x)"
  | ds p d where "read_audit True st = Inr ds" "record_payload rec = Inr p" "prepare_audit_payload sha p ds = Inr d"
      "audit_append sha rec st = (jsonl_write d st, Inr (py_str (pget d ''record_hash'')))"
  by (cases "rbind (read_audit True st) (\<lambda>existing.
           rbind (record_payload rec) (\<lambda>payload. prepare_audit_payload sha payload existing))")
     (auto simp: audit_append_def rbind_Inr_iff)

lemma attempt_payload_fields [simp]:
  "pget (attempt_payload a) ''idempotency_key'' = PStr (pa_idempotency_key a)"
  "pget (attempt_payload a) ''state'' = PStr (pa_state a)"
  "pget (attempt_payload a) ''attempt_id'' = PStr (pa_attempt_id a)"
  "pget (attempt_payload a) ''authority_counters'' = PDict (pa_authority_counters a)"
  "\<not> phas (attempt_payload a) ''record_hash''"
  by (simp_all add: attempt_payload_def)


lemma append_intent_cases:
  obtains x st' where "append_intent sha e a st = (st', Inl x)"
  | pre d hash st' where "append_intent sha e a st = (st', Inr hash)" "hash = py_str (pget d ''record_hash'')"
      "js_lines st' = js_lines st @ pre @ [WL_Json (PDict d)]"
      "js_flush_count st' = js_flush_count st + length pre + 1"
      "pre = [] \<or> js_lines st = [] \<and> length pre = 1"
      "\<exists>ds parent. prepare_audit_payload sha (attempt_payload (a\<lparr>pa_parent_hash := parent\<rparr>)) ds = Inr d"
proof (cases "read_audit True st")
  case (Inl x)
  then show ?thesis using that(1) [of st x] by (simp add: append_intent_def op_bind_def)
next
  case read: (Inr ds)
  consider (some) "ds \<noteq> []" | (none) "ds = []" by blast
  then show ?thesis
  proof cases
    case some
    with read have run: "append_intent sha e a st = audit_append sha (AR_Attempt a) st"
      by (simp add: append_intent_def op_bind_def)
    show ?thesis
    proof (cases rule: audit_append_cases [of sha "AR_Attempt a" st])
      case (1 x)
      with run that(1) show ?thesis by simp
    next
      case (2 ds' p d)
      moreover have "\<exists>ds parent. prepare_audit_payload sha (attempt_payload (a\<lparr>pa_parent_hash := parent\<rparr>)) ds = Inr d"
        by (intro exI [of _ ds'] exI [of _ "pa_parent_hash a"]) (use 2(2,3) in simp)
      ultimately show ?thesis
        by (intro that(2) [of "jsonl_write d st" "py_str (pget d ''record_hash'')" d "[]"])
           (auto simp: run jsonl_write_def)
    qed
  next
    case none
    show ?thesis
    proof (cases rule: audit_append_cases [of sha "AR_Episode e" st])
      case (1 x)
      with read none that(1) [of st x] show ?thesis by (simp add: append_intent_def op_bind_def)
    next
      case first: (2 ds1 p1 d1)
      let ?st = "jsonl_write d1 st" and ?a = "a\<lparr>pa_parent_hash := py_str (pget d1 ''record_hash'')\<rparr>"
      have run: "append_intent sha e a st = audit_append sha (AR_Attempt ?a) ?st"
        using read none first by (simp add: append_intent_def op_bind_def)
      have empty: "js_lines st = []" using read none by (simp add: read_audit_lines)
      show ?thesis
      proof (cases rule: audit_append_cases [of sha "AR_Attempt ?a" ?st])
        case (1 x)
        with run that(1) show ?thesis by simp
      next
        case (2 ds' p d)
        moreover from 2(2) have "p = attempt_payload ?a" by simp
        ultimately show ?thesis
          by (intro that(2) [of "jsonl_write d ?st" "py_str (pget d ''record_hash'')" d "[WL_Json (PDict d1)]"])
             (auto simp: run jsonl_write_def empty)
      qed
    qed
  qed
qed

text \<open>C27. An attempt is on file before it takes effect, whatever the harness does: either the log refused
  the intent, the call raised, and the harness was not touched; or the log ends, flushed, with a
  sealed record of the attempt (its id, key and state, no authority used) after at most the record of
  its episode, and the harness was called once, with that key, on the world as it was.  If the harness
  raises, the record stays.\<close>

theorem p107_audit_write_ahead:
  "let (s', out) = record_prevention_attempt_with_wal sha e a effect (st, h) in
     (snd s' = h \<and> raises out \<and> raises (snd (append_intent sha e a st)))
     \<or> (\<exists>pre d. js_lines (fst s') = js_lines st @ pre @ [WL_Json (PDict d)]
          \<and> js_flush_count (fst s') = js_flush_count st + length pre + 1
          \<and> (pre = [] \<or> js_lines st = [] \<and> length pre = 1)
          \<and> jsonl_sealed sha ''record_hash'' d
          \<and> pget d ''attempt_id'' = PStr (pa_attempt_id a) \<and> pget d ''idempotency_key'' = PStr (pa_idempotency_key a)
          \<and> pget d ''state'' = PStr (pa_state a)
          \<and> py_eq (pget d ''authority_counters'') (PDict AUDIT_ZERO_COUNTERS)
          \<and> snd s' = fst (effect (pa_idempotency_key a) h)
          \<and> out = rbind (snd (effect (pa_idempotency_key a) h))
                (\<lambda>result. Inr [(''intent_hash'', pget d ''record_hash''), (''effect'', result)]))"
proof (cases rule: append_intent_cases [of sha e a st])
  case (1 x st')
  then show ?thesis
    by (simp add: record_prevention_attempt_with_wal_def effect_with_wal_def raises_def)
next
  case (2 pre d hash st')
  obtain h' out' where run: "effect (pa_idempotency_key a) h = (h', out')" by (cases rule: prod.exhaust)
  from 2(6) obtain ds parent where prep:
    "prepare_audit_payload sha (attempt_payload (a\<lparr>pa_parent_hash := parent\<rparr>)) ds = Inr d" by blast
  note fields = prepare_audit_fields [OF prep]
  have sealed: "jsonl_sealed sha ''record_hash'' d" using fields(5) by simp
  then have hash: "pget d ''record_hash'' = PStr hash" using 2(2) by (simp add: jsonl_sealed_def)
  have "pget d ''attempt_id'' = PStr (pa_attempt_id a)" "pget d ''idempotency_key'' = PStr (pa_idempotency_key a)"
    "pget d ''state'' = PStr (pa_state a)"
    "py_eq (pget d ''authority_counters'') (PDict AUDIT_ZERO_COUNTERS)"
    using fields(3,4) by simp_all
  note facts = this sealed hash 2(3-5)
  have "record_prevention_attempt_with_wal sha e a effect (st, h)
        = ((st', h'), rbind out' (\<lambda>result. Inr [(''intent_hash'', PStr hash), (''effect'', result)]))"
    using 2(1) run
    by (cases out') (simp_all add: record_prevention_attempt_with_wal_def effect_with_wal_def)
  then show ?thesis
    unfolding Let_def using facts run by (auto intro!: exI [of _ pre] exI [of _ d])
qed


text \<open>One more sealed record on a log that replays.\<close>

lemma audit_ok_snoc:
  assumes "audit_accepts sha True rs" and "prepare_audit_payload sha p rs = Inr d" and "\<not> phas p ''record_hash''"
    and "distinct (map (jsonl_own ''record_hash'') rs)"
  shows "jsonl.valid ''record_hash'' sha (rs @ [d])" and "distinct (map jsonl_parent (rs @ [d]))"
    and "episode (map record_state (rs @ [d])) \<longleftrightarrow> record_state p \<in> set (allowed_from (record_state (last rs)))"
proof -
  note fields = prepare_audit_fields [OF assms(2)]
  from assms(1) have rs: "rs \<noteq> []" "jsonl.valid ''record_hash'' sha rs" "episode (map record_state rs)"
    by (simp_all add: audit_accepts_def)
  show valid: "jsonl.valid ''record_hash'' sha (rs @ [d])"
    using jsonl_append_valid [OF rs(2) fields(1)] fields(4,5) assms(3) by simp
  show "distinct (map jsonl_parent (rs @ [d]))" by (rule jsonl_parents_distinct [OF valid assms(4)])
  have "record_state d = record_state p" using fields(4) by (simp add: record_state_def)
  then show "episode (map record_state (rs @ [d])) \<longleftrightarrow> record_state p \<in> set (allowed_from (record_state (last rs)))"
    using rs(1,3) by (cases rs) (auto simp: episode_def legal_path_snoc last_map)
qed


text \<open>What is appended replays, if the state is due.  On a log that replays (so far incomplete, say),
  let a record without hash and without an expected head be accepted by \<open>append\<close>.  Then the log replays
  again exactly when the record's state is a successor of the state the log was in; the report then
  counts one record more, stands at the record's state, and its head is the hash \<open>append\<close> returned.
  \<open>append\<close> itself does not look at the state: after a record with another state every replay raises.
  (The hashes of the records on file are taken to be distinct.)\<close>

theorem p107_audit_append_replays:
  assumes "replay_prevention_audit sha True st = Inr r" and "audit_append sha rec st = (st', Inr h)"
    and "record_payload rec = Inr p" and "\<not> phas p ''record_hash''" and "pget p ''expected_terminal_head_hash'' = PNone"
    and "read_audit True st = Inr rs" and "distinct (map (jsonl_own ''record_hash'') rs)"
  shows "if record_state p \<in> set (allowed_from (ar_terminal_state r))
     then \<exists>r'. replay_prevention_audit sha True st' = Inr r' \<and> ar_record_count r' = ar_record_count r + 1
            \<and> ar_head_hash r' = h \<and> ar_terminal_state r' = record_state p
     else raises (replay_prevention_audit sha True st')"
proof -
  from assms(1) obtain rs' where rs': "read_audit False st = Inr rs'" "audit_accepts sha True rs'" "r = audit_report sha rs'"
    by (auto simp: replay_audit_iff)
  with assms(6) have rs: "rs' = rs" by (simp add: read_audit_any)
  from assms(2,3,6) obtain d where d: "prepare_audit_payload sha p rs = Inr d" "st' = jsonl_write d st"
    "h = py_str (pget d ''record_hash'')"
    by (cases rule: audit_append_cases [of sha rec st]) auto
  note snoc = audit_ok_snoc [OF rs'(2) [unfolded rs] d(1) assms(4,7)]
  note fields = prepare_audit_fields(4) [OF d(1)]
  have read: "read_audit False st' = Inr (rs @ [d])"
    using rs'(1) unfolding d(2) read_audit_def rs by (rule read_jsonl_write)
  have "audit_accepts sha True (rs @ [d]) \<longleftrightarrow> record_state p \<in> set (allowed_from (ar_terminal_state r))"
    using snoc fields [of "''expected_terminal_head_hash''"] assms(5)
    by (simp add: audit_accepts_def rs'(3) rs audit_report_def Let_def)
  then have "if record_state p \<in> set (allowed_from (ar_terminal_state r))
             then replay_prevention_audit sha True st' = Inr (audit_report sha (rs @ [d]))
             else raises (replay_prevention_audit sha True st')"
    using read replay_audit_iff [of sha True st']
    by (cases "replay_prevention_audit sha True st'") (auto simp: raises_def)
  moreover have "record_state d = record_state p" using fields by (simp add: record_state_def)
  ultimately show ?thesis
    by (auto simp: audit_report_def Let_def rs'(3) rs d(3) jsonl_own_def split: if_splits)
qed

text \<open>C37. The two modules disagree on what no authority looks like.  The sentinel counts under
  \<open>production_mutation\<close> and \<open>db_mutation\<close>, the audit log under \<open>production_mutations\<close> and \<open>db_mutations\<close>.
  So the counters of a sentinel that never blocked anything, which \<open>assert_zero_authority\<close> accepts, are
  refused by every append: an attempt that carries them cannot be recorded, and the write-ahead
  functions never carry it out.\<close>

theorem p107_sentinel_counters_refused:
  "assert_zero_authority new_sentinel = Inr True
   \<and> audit_append sha (AR_Attempt (a\<lparr>pa_authority_counters := as_dict (sentinel_snapshot new_sentinel)\<rparr>)) st
     = (st, snd (audit_append sha (AR_Attempt (a\<lparr>pa_authority_counters := as_dict (sentinel_snapshot new_sentinel)\<rparr>)) st))
   \<and> raises (snd (audit_append sha (AR_Attempt (a\<lparr>pa_authority_counters := as_dict (sentinel_snapshot new_sentinel)\<rparr>)) st))
   \<and> snd (fst (record_prevention_attempt_with_wal sha e
        (a\<lparr>pa_authority_counters := as_dict (sentinel_snapshot new_sentinel)\<rparr>) effect (st, h))) = h"
proof -
  define c where "c = as_dict (sentinel_snapshot new_sentinel)"
  have zero: "assert_zero_authority new_sentinel = Inr True" by code_simp
  have "\<not> py_eq (PDict (as_dict (sentinel_snapshot new_sentinel))) (PDict AUDIT_ZERO_COUNTERS)" by code_simp
  then have c: "\<not> py_eq (PDict c) (PDict AUDIT_ZERO_COUNTERS)" unfolding c_def .
  have no: "prepare_audit_payload sha (attempt_payload b) ds \<noteq> Inr d" if "pa_authority_counters b = c" for b ds d
    using prepare_audit_fields(3) [of sha "attempt_payload b" ds d] c by (auto simp: that)
  have "\<exists>x. audit_append sha (AR_Attempt (a\<lparr>pa_authority_counters := c\<rparr>)) st = (st, Inl x)"
    by (cases rule: audit_append_cases [of sha "AR_Attempt (a\<lparr>pa_authority_counters := c\<rparr>)" st])
       (use no in auto)
  moreover have "snd (fst (record_prevention_attempt_with_wal sha e (a\<lparr>pa_authority_counters := c\<rparr>) effect (st, h))) = h"
    by (cases rule: append_intent_cases [of sha e "a\<lparr>pa_authority_counters := c\<rparr>" st])
       (use no in \<open>auto simp: record_prevention_attempt_with_wal_def effect_with_wal_def\<close>)
  ultimately show ?thesis using zero unfolding c_def by (auto simp: raises_def)
qed

end
