(* ===== verification/Prevention_Outcome_Ledger.thy ===== *)
theory Prevention_Outcome_Ledger
  imports Prevention_Jsonl
begin

text \<open>
  The outcome ledger of prevention (\<open>app/services/prevention_outcome_ledger.py\<close>): one entry per episode
  and per idempotency key, in memory or in a JSON-lines file.  The file version reads and verifies the
  whole file before it appends; the one in memory verifies only what it is constructed from.
\<close>

section \<open>Entries\<close>

record outcome_entry =
  oe_episode_id :: string
  oe_sequence :: int
  oe_parent_hash :: string
  oe_occurred_at :: string
  oe_p107_audit_head_hash :: string
  oe_p107_outcome_report_hash :: string
  oe_p107_release_replay_hash :: string
  oe_cross_phase_edges :: pydict
  oe_temporal_cutoffs :: pydict
  oe_outcome_payload :: pydict
  oe_idempotency_key :: string
  oe_schema_version :: string
  oe_source_phase :: string
  oe_authority_boundary :: pydict

definition OUTCOME_SCHEMA :: string where
  "OUTCOME_SCHEMA = ''p108.outcome_ledger_entry.v1''"

definition DEFAULT_AUTHORITY_BOUNDARY :: pydict where
  "DEFAULT_AUTHORITY_BOUNDARY =
     [(''offline_only'', PBool True), (''policy_write_path'', PBool False), (''prompt_write_path'', PBool False),
      (''runbook_write_path'', PBool False), (''registry_write_path'', PBool False)]"

definition outcome_entry_asdict :: "outcome_entry \<Rightarrow> pydict" where
  "outcome_entry_asdict e =
     [(''episode_id'', PStr (oe_episode_id e)), (''sequence'', PInt (oe_sequence e)),
      (''parent_hash'', PStr (oe_parent_hash e)), (''occurred_at'', PStr (oe_occurred_at e)),
      (''p107_audit_head_hash'', PStr (oe_p107_audit_head_hash e)),
      (''p107_outcome_report_hash'', PStr (oe_p107_outcome_report_hash e)),
      (''p107_release_replay_hash'', PStr (oe_p107_release_replay_hash e)),
      (''cross_phase_edges'', PDict (oe_cross_phase_edges e)),
      (''temporal_cutoffs'', PDict (oe_temporal_cutoffs e)),
      (''outcome_payload'', PDict (oe_outcome_payload e)),
      (''idempotency_key'', PStr (oe_idempotency_key e)), (''schema_version'', PStr (oe_schema_version e)),
      (''source_phase'', PStr (oe_source_phase e)), (''authority_boundary'', PDict (oe_authority_boundary e))]"

definition outcome_error :: "string \<Rightarrow> exn" where
  "outcome_error m = Raised ''PreventionOutcomeLedgerError'' m"

datatype outcome_input =
    OI_Entry outcome_entry
  | OI_DataclassType
  | OI_Mapping pydict
  | OI_Other string

fun entry_payload :: "outcome_input \<Rightarrow> pydict result" where
  "entry_payload (OI_Entry e) = Inr (outcome_entry_asdict e)"
| "entry_payload OI_DataclassType = Inl (outcome_error ''ledger entry must be an instance, not a dataclass type'')"
| "entry_payload (OI_Mapping d) = Inr d"
| "entry_payload (OI_Other type_name) = Inl (outcome_error (''unsupported ledger entry type '' @ type_name))"

section \<open>Required content\<close>

definition REQUIRED_CROSS_PHASE_EDGES :: "string list" where
  "REQUIRED_CROSS_PHASE_EDGES =
     [''canary'', ''evidence'', ''final_outcome'', ''forecast'', ''plan'', ''policy'', ''rollback'', ''signal'']"

definition content_hash :: "pyval \<Rightarrow> bool" where
  "content_hash v = (case v of PStr s \<Rightarrow> py_startswith s ''sha256:'' \<and> length s > 7 | _ \<Rightarrow> False)"

definition require_content_hash :: "pydict \<Rightarrow> string \<Rightarrow> string \<Rightarrow> unit result" where
  "require_content_hash source key ctxt =
     rguard (\<not> content_hash (pget source key)) (outcome_error (ctxt @ '' must be content-bound with sha256:''))"

fun require_edges :: "pydict \<Rightarrow> string list \<Rightarrow> unit result" where
  "require_edges edges [] = Inr ()"
| "require_edges edges (e # es) =
     (if \<not> phas edges e then Inl (outcome_error (''missing required cross-phase edge: '' @ e))
      else rbind (require_content_hash edges e (''cross_phase_edges.'' @ e)) (\<lambda>_. require_edges edges es))"

definition nonempty_dict :: "pyval \<Rightarrow> bool" where
  "nonempty_dict v = (is_dict v \<and> truthy v)"

definition validate_required_content :: "pydict \<Rightarrow> unit result" where
  "validate_required_content e =
     rbind (require_content_hash e ''p107_audit_head_hash'' ''p107_audit_head_hash'') (\<lambda>_.
     rbind (require_content_hash e ''p107_outcome_report_hash'' ''p107_outcome_report_hash'') (\<lambda>_.
     rbind (require_content_hash e ''p107_release_replay_hash'' ''p107_release_replay_hash'') (\<lambda>_.
     rbind (rguard (\<not> is_dict (pget e ''cross_phase_edges'')) (outcome_error ''cross_phase_edges must be an object'')) (\<lambda>_.
     rbind (require_edges (as_dict (pget e ''cross_phase_edges'')) REQUIRED_CROSS_PHASE_EDGES) (\<lambda>_.
     rbind (rguard (\<not> nonempty_dict (pget e ''temporal_cutoffs'')) (outcome_error ''temporal_cutoffs are required'')) (\<lambda>_.
     rbind (rguard (\<not> nonempty_dict (pget e ''outcome_payload'')) (outcome_error ''outcome_payload is required'')) (\<lambda>_.
     rbind (rguard (\<not> truthy (pget e ''episode_id'')) (outcome_error ''episode_id is required'')) (\<lambda>_.
     rguard (\<not> truthy (pget e ''idempotency_key'')) (outcome_error ''idempotency_key is required'')))))))))"

section \<open>Appending\<close>

definition computed_entry_hash :: "(string \<Rightarrow> string) \<Rightarrow> pydict \<Rightarrow> string" where
  "computed_entry_hash sha e = jsonl_digest sha ''entry_hash'' e"

fun find_duplicate :: "pydict list \<Rightarrow> pydict \<Rightarrow> pydict option" where
  "find_duplicate [] payload = None"
| "find_duplicate (e # es) payload =
     (if py_eq (pget e ''episode_id'') (pget payload ''episode_id'')
         \<or> py_eq (pget e ''idempotency_key'') (pget payload ''idempotency_key'')
      then Some e else find_duplicate es payload)"

definition prepare_outcome_payload :: "(string \<Rightarrow> string) \<Rightarrow> pydict \<Rightarrow> pydict list \<Rightarrow> pydict result" where
  "prepare_outcome_payload sha payload existing =
     rbind (check_append outcome_error ''entry_hash'' payload existing) (\<lambda>_.
     rbind (rguard (phas payload ''entry_hash''
                    \<and> \<not> py_eq (pget payload ''entry_hash'') (PStr (computed_entry_hash sha payload)))
              (outcome_error ''append entry hash does not match canonical content'')) (\<lambda>_.
     Inr (AList.update ''entry_hash'' (PStr (computed_entry_hash sha payload)) payload)))"

text \<open>The hash, and the entry to be written if there is one.\<close>

definition append_payload :: "(string \<Rightarrow> string) \<Rightarrow> pydict list \<Rightarrow> pydict \<Rightarrow> (string \<times> pydict option) result" where
  "append_payload sha existing payload =
     rbind (validate_required_content payload) (\<lambda>_.
     case find_duplicate existing payload of
       Some duplicate \<Rightarrow>
         if py_eq (pget duplicate ''entry_hash'') (PStr (computed_entry_hash sha payload))
         then Inr (py_str (pget duplicate ''entry_hash''), None)
         else Inl (outcome_error ''episode or idempotency conflict with different content'')
     | None \<Rightarrow> rbind (prepare_outcome_payload sha payload existing) (\<lambda>p. Inr (py_str (pget p ''entry_hash''), Some p)))"

section \<open>Verification\<close>

definition validate_unique_binding ::
    "(string \<times> string) list \<Rightarrow> string \<Rightarrow> string \<Rightarrow> string \<Rightarrow> (string \<times> string) list result" where
  "validate_unique_binding seen key entry_hash label =
     (case map_of seen key of
        Some existing_hash \<Rightarrow>
          if existing_hash \<noteq> entry_hash then Inl (outcome_error (label @ '' conflict with different content''))
          else Inr (AList.update key entry_hash seen)
      | None \<Rightarrow> Inr (AList.update key entry_hash seen))"

definition validate_entry_hash :: "(string \<Rightarrow> string) \<Rightarrow> pydict \<Rightarrow> unit result" where
  "validate_entry_hash sha e =
     rguard (\<not> py_eq (pget e ''entry_hash'') (PStr (computed_entry_hash sha e)))
       (outcome_error (''tamper or hash mismatch at sequence '' @ py_repr (pget e ''sequence'')))"

fun outcome_loop ::
    "(string \<Rightarrow> string) \<Rightarrow> nat \<Rightarrow> string \<Rightarrow> string list \<Rightarrow> (string \<times> string) list \<Rightarrow> (string \<times> string) list
      \<Rightarrow> pydict list \<Rightarrow> string result" where
  "outcome_loop sha n previous seen episodes keys [] = Inr previous"
| "outcome_loop sha n previous seen episodes keys (e # es) =
     rbind (check_sequence outcome_error (int n + 1) e) (\<lambda>_.
     rbind (check_parent outcome_error previous seen e) (\<lambda>_.
     rbind (validate_required_content e) (\<lambda>_.
     rbind (validate_entry_hash sha e) (\<lambda>_.
     let entry_hash = py_str (pget e ''entry_hash'') in
     rbind (validate_unique_binding episodes (py_str (pget e ''episode_id'')) entry_hash ''episode'') (\<lambda>episodes'.
     rbind (validate_unique_binding keys (py_str (pget e ''idempotency_key'')) entry_hash ''idempotency'') (\<lambda>keys'.
     outcome_loop sha (Suc n) entry_hash (py_str (pget e ''parent_hash'') # seen) episodes' keys' es))))))"

definition validate_outcome_chain :: "(string \<Rightarrow> string) \<Rightarrow> bool \<Rightarrow> pydict list \<Rightarrow> string result" where
  "validate_outcome_chain sha allow_empty es =
     (if es = [] then if allow_empty then Inr GENESIS_HASH else Inl (outcome_error ''empty outcome ledger is incomplete'')
      else outcome_loop sha 0 GENESIS_HASH [] [] [] es)"

section \<open>The ledger in memory\<close>

definition new_ledger :: "(string \<Rightarrow> string) \<Rightarrow> outcome_input list \<Rightarrow> pydict list result" where
  "new_ledger sha inputs =
     rbind (rmap entry_payload inputs) (\<lambda>es. rbind (validate_outcome_chain sha True es) (\<lambda>_. Inr es))"

definition ledger_head_hash :: "pydict list \<Rightarrow> pyval result" where
  "ledger_head_hash es = (if es = [] then Inr (PStr GENESIS_HASH) else pindex (last es) ''entry_hash'')"

definition ledger_append :: "(string \<Rightarrow> string) \<Rightarrow> outcome_input \<Rightarrow> (pydict list, string) op" where
  "ledger_append sha inp es =
     (case rbind (entry_payload inp) (append_payload sha es) of
        Inl x \<Rightarrow> (es, Inl x)
      | Inr (entry_hash, None) \<Rightarrow> (es, Inr entry_hash)
      | Inr (entry_hash, Some p) \<Rightarrow> (es @ [p], Inr entry_hash))"

section \<open>The ledger in a file\<close>

definition read_outcomes :: "bool \<Rightarrow> jsonl_store \<Rightarrow> pydict list result" where
  "read_outcomes = read_jsonl outcome_error ''outcome ledger entry'' ''empty outcome ledger''"

definition store_append :: "(string \<Rightarrow> string) \<Rightarrow> outcome_input \<Rightarrow> (jsonl_store, string) op" where
  "store_append sha inp st =
     (case rbind (read_outcomes True st) (\<lambda>existing.
           rbind (validate_outcome_chain sha True existing) (\<lambda>_.
           rbind (entry_payload inp) (append_payload sha existing))) of
        Inl x \<Rightarrow> (st, Inl x)
      | Inr (entry_hash, None) \<Rightarrow> (st, Inr entry_hash)
      | Inr (entry_hash, Some p) \<Rightarrow> (jsonl_write p st, Inr entry_hash))"

record outcome_replay =
  or_deterministic_replay :: bool
  or_replay_hash :: string
  or_head_hash :: string
  or_record_count :: int
  or_entries :: "pydict list"

definition LEDGER_REPLAY_SCHEMA :: string where
  "LEDGER_REPLAY_SCHEMA = ''p108.outcome_ledger_replay.v1''"

definition replay_prevention_outcome_ledger :: "(string \<Rightarrow> string) \<Rightarrow> jsonl_store \<Rightarrow> outcome_replay result" where
  "replay_prevention_outcome_ledger sha st =
     rbind (read_outcomes False st) (\<lambda>entries.
     rbind (validate_outcome_chain sha False entries) (\<lambda>head.
     Inr \<lparr>or_deterministic_replay = True,
          or_replay_hash = stable_hash sha (PDict [(''schema_version'', PStr LEDGER_REPLAY_SCHEMA),
            (''record_count'', PInt (int (length entries))), (''head_hash'', PStr head),
            (''entries'', PList (map PDict entries))]),
          or_head_hash = head, or_record_count = int (length entries), or_entries = entries\<rparr>))"

text \<open>A series of appends, with the outcome of each.\<close>

fun append_all :: "('i \<Rightarrow> ('s, 'a) op) \<Rightarrow> 'i list \<Rightarrow> 's \<Rightarrow> 's \<times> 'a result list" where
  "append_all app [] s = (s, [])"
| "append_all app (i # is) s =
     (let (s1, out) = app i s; (s2, outs) = append_all app is s1 in (s2, out # outs))"


section \<open>What verification accepts\<close>

definition bound_once :: "(string \<times> string) list \<Rightarrow> string \<Rightarrow> pydict list \<Rightarrow> bool" where
  "bound_once seen k es \<longleftrightarrow>
     (\<forall>e \<in> set es. map_of seen (py_str (pget e k)) \<in> {None, Some (py_str (pget e ''entry_hash''))})
     \<and> (\<forall>e \<in> set es. \<forall>e' \<in> set es. py_str (pget e k) = py_str (pget e' k) \<longrightarrow>
          py_str (pget e ''entry_hash'') = py_str (pget e' ''entry_hash''))"

lemma validate_unique_binding_iff:
  "validate_unique_binding seen key h label = Inr seen' \<longleftrightarrow>
     map_of seen key \<in> {None, Some h} \<and> seen' = AList.update key h seen"
  by (auto simp: validate_unique_binding_def split: option.splits)

lemma bound_once_Nil [simp]: "bound_once seen k []"
  by (simp add: bound_once_def)

lemma bound_step:
  fixes f :: "'e \<Rightarrow> 'k" and h :: "'e \<Rightarrow> 'h"
  shows "(\<forall>x \<in> insert e S. m (f x) \<in> {None, Some (h x)})
      \<and> (\<forall>x \<in> insert e S. \<forall>y \<in> insert e S. f x = f y \<longrightarrow> h x = h y) \<longleftrightarrow>
    m (f e) \<in> {None, Some (h e)} \<and> (\<forall>x \<in> S. (m(f e \<mapsto> h e)) (f x) \<in> {None, Some (h x)})
      \<and> (\<forall>x \<in> S. \<forall>y \<in> S. f x = f y \<longrightarrow> h x = h y)"
  (is "?A \<and> ?B \<longleftrightarrow> ?C \<and> ?D \<and> ?E")
proof -
  have "?A \<and> ?B \<longleftrightarrow> ?C \<and> (\<forall>x \<in> S. f x = f e \<longrightarrow> h x = h e) \<and> (\<forall>x \<in> S. m (f x) \<in> {None, Some (h x)}) \<and> ?E"
  proof (intro iffI conjI)
    assume AB: "?A \<and> ?B"
    have A: ?A using AB by (rule conjunct1)
    have B: ?B using AB by (rule conjunct2)
    show ?C by (rule bspec [OF A]) (rule insertI1)
    show "\<forall>x \<in> S. f x = f e \<longrightarrow> h x = h e"
      by (intro ballI) (rule B [THEN bspec, THEN bspec, OF insertI2 insertI1])
    show "\<forall>x \<in> S. m (f x) \<in> {None, Some (h x)}" by (intro ballI) (rule bspec [OF A insertI2])
    show ?E by (intro ballI) (rule B [THEN bspec, THEN bspec, OF insertI2 insertI2])
  next
    assume R: "?C \<and> (\<forall>x \<in> S. f x = f e \<longrightarrow> h x = h e) \<and> (\<forall>x \<in> S. m (f x) \<in> {None, Some (h x)}) \<and> ?E"
    then show ?A unfolding ball_simps by (elim conjE) (intro conjI)
    from R have C: "\<forall>x \<in> S. f x = f e \<longrightarrow> h x = h e" by (elim conjE)
    from R have E: ?E by (elim conjE)
    from C have "\<forall>x \<in> S. f e = f x \<longrightarrow> h e = h x" by metis
    with C E show ?B unfolding ball_simps by (intro conjI ballI impI refl) metis+
  qed
  also have "\<dots> \<longleftrightarrow> ?C \<and> ?D \<and> ?E"
  proof -
    have "(f x = f e \<longrightarrow> h x = h e) \<and> m (f x) \<in> {None, Some (h x)} \<longleftrightarrow> (m(f e \<mapsto> h e)) (f x) \<in> {None, Some (h x)}"
      if ?C for x
      using that by (cases "f x = f e") auto
    then show ?thesis by blast
  qed
  finally show ?thesis .
qed

lemma bound_once_Cons:
  "bound_once seen k (e # es) \<longleftrightarrow>
     map_of seen (py_str (pget e k)) \<in> {None, Some (py_str (pget e ''entry_hash''))}
     \<and> bound_once (AList.update (py_str (pget e k)) (py_str (pget e ''entry_hash'')) seen) k es"
  unfolding bound_once_def AList.update_conv' list.set by (rule bound_step)

lemma validate_entry_hash_iff: "validate_entry_hash sha e = Inr () \<longleftrightarrow> jsonl_sealed sha ''entry_hash'' e"
  by (auto simp: validate_entry_hash_def rguard_Inr_iff jsonl_sealed_def computed_entry_hash_def py_eq_str_iff)

definition outcome_chain :: "(string \<Rightarrow> string) \<Rightarrow> nat \<Rightarrow> string \<Rightarrow> pydict list \<Rightarrow> bool" where
  "outcome_chain sha n h =
     chain_from jsonl_pos jsonl_parent (jsonl_own ''entry_hash'') (jsonl_sealed sha ''entry_hash'') n (PStr h)"

lemma outcome_loop_iff:
  "outcome_loop sha n previous seen episodes keys es = Inr h \<longleftrightarrow>
      outcome_chain sha n previous es \<and> distinct (map jsonl_parent es)
      \<and> set (map jsonl_parent es) \<inter> PStr ` set seen = {}
      \<and> list_all (\<lambda>e. validate_required_content e = Inr ()) es
      \<and> bound_once episodes ''episode_id'' es \<and> bound_once keys ''idempotency_key'' es
      \<and> chain_tip (jsonl_own ''entry_hash'') (PStr previous) es = PStr h"
proof (induction es arbitrary: n previous seen episodes keys)
  case Nil
  then show ?case by (auto simp: chain_tip_def outcome_chain_def)
next
  case (Cons e es)
  let ?own = "computed_entry_hash sha e"
  let ?eps = "AList.update (py_str (pget e ''episode_id'')) ?own episodes"
    and ?keys = "AList.update (py_str (pget e ''idempotency_key'')) ?own keys"
  let ?ok = "jsonl_pos n e \<and> jsonl_parent e = PStr previous \<and> previous \<notin> set seen
     \<and> validate_required_content e = Inr () \<and> jsonl_sealed sha ''entry_hash'' e
     \<and> map_of episodes (py_str (pget e ''episode_id'')) \<in> {None, Some ?own}
     \<and> map_of keys (py_str (pget e ''idempotency_key'')) \<in> {None, Some ?own}"
  have own: "pget e ''entry_hash'' = PStr ?own" if "jsonl_sealed sha ''entry_hash'' e"
    using that by (simp add: jsonl_sealed_def computed_entry_hash_def)
  show ?case
  proof (cases ?ok)
    case False
    then show ?thesis
      using own by (auto simp: rbind_Inr_iff check_sequence_iff check_parent_iff validate_entry_hash_iff Let_def
          validate_unique_binding_iff outcome_chain_def bound_once_Cons)
  next
    case True
    note fields = own [OF True [THEN conjunct2, THEN conjunct2, THEN conjunct2, THEN conjunct2, THEN conjunct1]]
    have loop: "outcome_loop sha n previous seen episodes keys (e # es)
                = outcome_loop sha (Suc n) ?own (previous # seen) ?eps ?keys es"
    proof -
      have "check_sequence outcome_error (int n + 1) e = Inr ()" "check_parent outcome_error previous seen e = Inr ()"
        "validate_entry_hash sha e = Inr ()" "validate_unique_binding episodes (py_str (pget e ''episode_id'')) ?own ''episode'' = Inr ?eps"
        "validate_unique_binding keys (py_str (pget e ''idempotency_key'')) ?own ''idempotency'' = Inr ?keys"
        using True by (simp_all add: check_sequence_iff check_parent_iff validate_entry_hash_iff validate_unique_binding_iff)
      moreover have "pget e ''parent_hash'' = PStr previous" using True by (simp add: jsonl_parent_def)
      ultimately show ?thesis using True by (simp add: fields Let_def)
    qed
    have tip: "chain_tip (jsonl_own ''entry_hash'') (PStr previous) (e # es)
               = chain_tip (jsonl_own ''entry_hash'') (PStr ?own) es"
      by (simp add: chain_tip_def jsonl_own_def fields)
    have "jsonl_own ''entry_hash'' e = PStr ?own" by (simp add: jsonl_own_def fields)
    with True have "outcome_chain sha n previous (e # es) \<longleftrightarrow> outcome_chain sha (Suc n) ?own es"
      by (simp add: outcome_chain_def)
    with True show ?thesis
      unfolding loop tip using Cons.IH [of "Suc n" ?own "previous # seen" ?eps ?keys]
      by (auto simp: bound_once_Cons fields)
  qed
qed


definition outcome_ok :: "(string \<Rightarrow> string) \<Rightarrow> pydict list \<Rightarrow> bool" where
  "outcome_ok sha es \<longleftrightarrow>
     jsonl.valid ''entry_hash'' sha es \<and> distinct (map jsonl_parent es)
     \<and> list_all (\<lambda>e. validate_required_content e = Inr ()) es
     \<and> bound_once [] ''episode_id'' es \<and> bound_once [] ''idempotency_key'' es"

lemma outcome_ok_Nil [simp]: "outcome_ok sha []"
  by (simp add: outcome_ok_def jsonl.valid_Nil)

lemma validate_outcome_chain_iff:
  "validate_outcome_chain sha a es = Inr h \<longleftrightarrow>
     outcome_ok sha es \<and> (es = [] \<longrightarrow> a) \<and> chain_tip (jsonl_own ''entry_hash'') (PStr GENESIS_HASH) es = PStr h"
proof (cases "es = []")
  case True
  then show ?thesis by (auto simp: validate_outcome_chain_def chain_tip_def)
next
  case False
  have "outcome_chain sha 0 GENESIS_HASH es \<longleftrightarrow> jsonl.valid ''entry_hash'' sha es"
    by (simp add: outcome_chain_def jsonl.valid_def)
  with False show ?thesis
    by (auto simp: validate_outcome_chain_def outcome_loop_iff outcome_ok_def)
qed

lemma validate_outcome_ok: "outcome_ok sha es \<Longrightarrow> \<exists>h. validate_outcome_chain sha True es = Inr h"
  using jsonl_tip [of "''entry_hash''" sha es] by (auto simp: validate_outcome_chain_iff outcome_ok_def)

section \<open>What an append adds\<close>

text \<open>Episode id and idempotency key are text, as their annotations say.\<close>

definition text_ids :: "pydict \<Rightarrow> bool" where
  "text_ids e \<longleftrightarrow> is_str (pget e ''episode_id'') \<and> is_str (pget e ''idempotency_key'')"

lemma is_strE: "is_str v \<Longrightarrow> (\<And>s. v = PStr s \<Longrightarrow> P) \<Longrightarrow> P"
  by (cases v) auto

lemma find_duplicate_None:
  "find_duplicate es p = None \<longleftrightarrow>
     (\<forall>e \<in> set es. \<not> py_eq (pget e ''episode_id'') (pget p ''episode_id'')
        \<and> \<not> py_eq (pget e ''idempotency_key'') (pget p ''idempotency_key''))"
  by (induction es) auto

lemma find_duplicate_append:
  "find_duplicate (es @ fs) p = (case find_duplicate es p of None \<Rightarrow> find_duplicate fs p | Some e \<Rightarrow> Some e)"
  by (induction es) auto

lemma find_duplicate_Some: "find_duplicate es p = Some e \<Longrightarrow> e \<in> set es"
  by (induction es) (auto split: if_splits)

definition new_entry :: "(string \<Rightarrow> string) \<Rightarrow> pydict \<Rightarrow> pydict" where
  "new_entry sha p = AList.update ''entry_hash'' (PStr (computed_entry_hash sha p)) p"

lemma new_entry_fields:
  "k \<noteq> ''entry_hash'' \<Longrightarrow> pget (new_entry sha p) k = pget p k"
  "pget (new_entry sha p) ''entry_hash'' = PStr (computed_entry_hash sha p)"
  "jsonl_sealed sha ''entry_hash'' (new_entry sha p)"
  "jsonl_own ''entry_hash'' (new_entry sha p) = PStr (computed_entry_hash sha p)"
  by (simp_all add: new_entry_def pget_update jsonl_update_sealed jsonl_own_def computed_entry_hash_def)

lemma content_of_fields:
  assumes "\<And>k. k \<noteq> ''entry_hash'' \<Longrightarrow> pget d k = pget p k"
  shows "validate_required_content d = validate_required_content p"
  by (simp add: validate_required_content_def require_content_hash_def assms)

text \<open>The three ways a call ends: it raises, it finds the entry, it adds the entry.\<close>

lemma append_payload_cases:
  obtains x where "append_payload sha es p = Inl x"
  | e where "append_payload sha es p = Inr (computed_entry_hash sha p, None)" "find_duplicate es p = Some e"
      "pget e ''entry_hash'' = PStr (computed_entry_hash sha p)" "validate_required_content p = Inr ()"
  | "append_payload sha es p = Inr (computed_entry_hash sha p, Some (new_entry sha p))"
      "find_duplicate es p = None" "validate_required_content p = Inr ()"
      "check_append outcome_error ''entry_hash'' p es = Inr ()"
proof (cases "append_payload sha es p")
  case (Inl x)
  then show ?thesis by (rule that(1))
next
  case (Inr y)
  then have content: "validate_required_content p = Inr ()" by (auto simp: append_payload_def rbind_Inr_iff)
  show ?thesis
  proof (cases "find_duplicate es p")
    case None
    with Inr content have prep: "prepare_outcome_payload sha p es = Inr (new_entry sha p)"
      and check: "check_append outcome_error ''entry_hash'' p es = Inr ()"
      by (auto simp: append_payload_def prepare_outcome_payload_def new_entry_def rbind_Inr_iff rguard_Inr_iff)
    with None content show ?thesis
      by (intro that(3)) (simp_all add: append_payload_def new_entry_fields)
  next
    case (Some e)
    with Inr content have "pget e ''entry_hash'' = PStr (computed_entry_hash sha p)"
      by (auto simp: append_payload_def py_eq_str_iff split: if_splits)
    with Some content show ?thesis by (intro that(2)) (simp_all add: append_payload_def)
  qed
qed

lemma content_text:
  "validate_required_content p = Inr () \<Longrightarrow> truthy (pget p ''episode_id'') \<and> truthy (pget p ''idempotency_key'')"
  by (auto simp: validate_required_content_def rbind_Inr_iff rguard_Inr_iff)

text \<open>A new entry keeps a verified ledger verified, if ids are text and hashes do not collide.\<close>

lemma bound_once_snoc:
  assumes "bound_once [] k es" and "\<forall>e \<in> set es. py_str (pget e k) \<noteq> py_str (pget d k)"
  shows "bound_once [] k (es @ [d])"
proof -
  have pair: "py_str (pget e ''entry_hash'') = py_str (pget e' ''entry_hash'')"
    if "e \<in> set es" "e' \<in> set es" "py_str (pget e k) = py_str (pget e' k)" for e e'
    using assms(1) that unfolding bound_once_def by blast
  have "py_str (pget e ''entry_hash'') = py_str (pget e' ''entry_hash'')"
    if "e \<in> set (es @ [d])" "e' \<in> set (es @ [d])" "py_str (pget e k) = py_str (pget e' k)" for e e'
  proof -
    from that(1,2) consider "e \<in> set es" "e' \<in> set es" | "e = d" "e' = d" | "e \<in> set es" "e' = d" | "e = d" "e' \<in> set es"
      by auto
    then show ?thesis
    proof cases
      case 1
      then show ?thesis using that(3) by (rule pair)
    next
      case 2
      then show ?thesis by (simp only:)
    next
      case 3
      with assms(2) that(3) show ?thesis by (simp only:)
    next
      case 4
      with assms(2) that(3) [symmetric] show ?thesis by (simp only:)
    qed
  qed
  moreover have "map_of [] x \<in> {None, Some h}" for x :: string and h :: string by simp
  ultimately show ?thesis unfolding bound_once_def by blast
qed

lemma text_not_eq:
  "is_str v \<Longrightarrow> is_str w \<Longrightarrow> \<not> py_eq v w \<Longrightarrow> py_str v \<noteq> py_str w"
  by (elim is_strE) auto

lemma outcome_ok_snoc:
  assumes "outcome_ok sha es" and "list_all text_ids es" and "text_ids p"
    and "find_duplicate es p = None" and "validate_required_content p = Inr ()"
    and "check_append outcome_error ''entry_hash'' p es = Inr ()"
    and "distinct (map (jsonl_own ''entry_hash'') es)"
  shows "outcome_ok sha (es @ [new_entry sha p])"
proof -
  have valid: "jsonl.valid ''entry_hash'' sha (es @ [new_entry sha p])"
    using jsonl_append_valid [OF _ assms(6), of sha "new_entry sha p"] assms(1)
    by (simp add: outcome_ok_def new_entry_fields)
  have ids: "\<forall>e \<in> set es. py_str (pget e k) \<noteq> py_str (pget (new_entry sha p) k)"
    if "k \<in> {''episode_id'', ''idempotency_key''}" for k
    using that assms(2-4) text_not_eq
    by (auto simp: find_duplicate_None list_all_iff text_ids_def new_entry_fields)
  have "validate_required_content (new_entry sha p) = Inr ()"
    using content_of_fields [of "new_entry sha p" p] assms(5) by (simp add: new_entry_fields)
  with valid ids jsonl_parents_distinct [OF valid assms(7)] assms(1) show ?thesis
    by (auto simp: outcome_ok_def intro: bound_once_snoc)
qed


section \<open>Properties\<close>

definition input_text_ids :: "outcome_input \<Rightarrow> bool" where
  "input_text_ids inp = (case entry_payload inp of Inl _ \<Rightarrow> True | Inr p \<Rightarrow> text_ids p)"

definition ledger_inv :: "(string \<Rightarrow> string) \<Rightarrow> pydict list \<Rightarrow> bool" where
  "ledger_inv sha es \<longleftrightarrow> outcome_ok sha es \<and> list_all text_ids es"

lemma ledger_step:
  obtains out where "ledger_append sha inp es = (es, out)"
  | p where "ledger_append sha inp es = (es @ [new_entry sha p], Inr (computed_entry_hash sha p))"
      "entry_payload inp = Inr p" "find_duplicate es p = None" "validate_required_content p = Inr ()"
      "check_append outcome_error ''entry_hash'' p es = Inr ()"
proof (cases "entry_payload inp")
  case (Inl x)
  then show ?thesis by (intro that(1)) (simp add: ledger_append_def)
next
  case (Inr p)
  show ?thesis
    by (cases rule: append_payload_cases [of sha es p])
       (use Inr that in \<open>auto simp: ledger_append_def\<close>)
qed

lemma ledger_step_inv:
  assumes "ledger_inv sha es" and "input_text_ids inp" and "distinct (map (jsonl_own ''entry_hash'') es)"
  shows "ledger_inv sha (fst (ledger_append sha inp es))"
proof (cases rule: ledger_step [of sha inp es])
  case (1 out)
  with assms(1) show ?thesis by simp
next
  case (2 p)
  then have "text_ids p" using assms(2) by (simp add: input_text_ids_def)
  moreover from this have "text_ids (new_entry sha p)" by (simp add: text_ids_def new_entry_fields)
  ultimately show ?thesis
    using outcome_ok_snoc [of sha es p] assms(1,3) 2 by (simp add: ledger_inv_def)
qed

lemma append_all_extends: "\<exists>more. fst (append_all (ledger_append sha) inputs es) = es @ more"
proof (induction inputs arbitrary: es)
  case Nil
  then show ?case by simp
next
  case (Cons inp inputs)
  obtain es1 out where step: "ledger_append sha inp es = (es1, out)" by (cases rule: prod.exhaust)
  then obtain m1 where "es1 = es @ m1" by (cases rule: ledger_step [of sha inp es]) auto
  with Cons.IH [of es1] step show ?case by (auto simp: Let_def split: prod.splits)
qed

lemma store_append_memory:
  assumes "read_outcomes True st = Inr es" and "outcome_ok sha es"
  shows "\<exists>st'. store_append sha inp st = (st', snd (ledger_append sha inp es))
     \<and> read_outcomes True st' = Inr (fst (ledger_append sha inp es))"
proof -
  obtain h where h: "validate_outcome_chain sha True es = Inr h" using validate_outcome_ok [OF assms(2)] by blast
  show ?thesis
  proof (cases "rbind (entry_payload inp) (append_payload sha es)")
    case (Inl x)
    with assms(1) h show ?thesis by (simp add: store_append_def ledger_append_def)
  next
    case (Inr y)
    obtain hash p where "y = (hash, p)" by (cases y)
    moreover have "read_outcomes True (jsonl_write q st) = Inr (es @ [q])" for q
      using assms(1) unfolding read_outcomes_def by (rule read_jsonl_write)
    ultimately show ?thesis using Inr assms(1) h by (cases p) (simp_all add: store_append_def ledger_append_def)
  qed
qed

lemma store_simulates:
  assumes "append_all (ledger_append sha) inputs es = (es', outs)" and "list_all input_text_ids inputs"
    and "distinct (map (jsonl_own ''entry_hash'') es')" and "ledger_inv sha es" and "read_outcomes True st = Inr es"
  shows "ledger_inv sha es' \<and>
     (\<exists>st'. append_all (store_append sha) inputs st = (st', outs) \<and> read_outcomes True st' = Inr es')"
  using assms
proof (induction inputs arbitrary: es outs st)
  case Nil
  then show ?case by simp
next
  case (Cons inp inputs)
  obtain es1 out where step: "ledger_append sha inp es = (es1, out)" by (cases rule: prod.exhaust)
  obtain outs' where rest: "append_all (ledger_append sha) inputs es1 = (es', outs')" and outs: "outs = out # outs'"
    using Cons.prems(1) step by (auto simp: Let_def split: prod.splits)
  obtain m where "es' = es1 @ m" using append_all_extends [of sha inputs es1] rest by auto
  moreover obtain m1 where "es1 = es @ m1" using step by (cases rule: ledger_step [of sha inp es]) auto
  ultimately have distinct: "distinct (map (jsonl_own ''entry_hash'') es)" using Cons.prems(3) by simp
  have inv: "ledger_inv sha es1"
    using ledger_step_inv [OF Cons.prems(4) _ distinct, of inp] Cons.prems(2) step by simp
  obtain st1 where st1: "store_append sha inp st = (st1, out)" "read_outcomes True st1 = Inr es1"
    using store_append_memory [OF Cons.prems(5), of sha inp] Cons.prems(4) step by (auto simp: ledger_inv_def)
  with Cons.IH [OF rest _ Cons.prems(3) inv st1(2)] Cons.prems(2) outs show ?case by auto
qed

lemma replay_outcome_iff:
  "replay_prevention_outcome_ledger sha st = Inr r \<longleftrightarrow>
     (\<exists>es h. read_outcomes False st = Inr es \<and> outcome_ok sha es \<and> es \<noteq> []
        \<and> chain_tip (jsonl_own ''entry_hash'') (PStr GENESIS_HASH) es = PStr h
        \<and> r = \<lparr>or_deterministic_replay = True,
          or_replay_hash = stable_hash sha (PDict [(''schema_version'', PStr LEDGER_REPLAY_SCHEMA),
            (''record_count'', PInt (int (length es))), (''head_hash'', PStr h),
            (''entries'', PList (map PDict es))]),
          or_head_hash = h, or_record_count = int (length es), or_entries = es\<rparr>)"
  unfolding replay_prevention_outcome_ledger_def
  by (auto simp: rbind_Inr_iff validate_outcome_chain_iff)

text \<open>C24. For entries with text ids, the file and the memory are one ledger.  From empty, any series of
  appends of such entries, no two of which come to have one hash, has on the file exactly the outcomes it
  has in memory, errors included, and leaves the same entries; and what is then on file replays, with
  those entries and the head of the ledger in memory.  So the file version, which verifies before each
  append, does not come to refuse its own log.  (With ids of several types it may: lemma
  \<open>mixed_ids_close_the_store\<close>.)\<close>

theorem p108_store_refines_memory:
  assumes "append_all (ledger_append sha) inputs [] = (es, outs)" and "list_all input_text_ids inputs"
    and "distinct (map (jsonl_own ''entry_hash'') es)"
  shows "\<exists>st. append_all (store_append sha) inputs empty_jsonl = (st, outs) \<and> read_outcomes True st = Inr es
     \<and> (es = [] \<or> (\<exists>r. replay_prevention_outcome_ledger sha st = Inr r \<and> or_entries r = es
            \<and> ledger_head_hash es = Inr (PStr (or_head_hash r))))"
proof -
  have "read_outcomes True empty_jsonl = Inr []" by (simp add: read_outcomes_def read_jsonl_def empty_jsonl_def)
  then obtain st where st: "append_all (store_append sha) inputs empty_jsonl = (st, outs)" "read_outcomes True st = Inr es"
    and ok: "outcome_ok sha es"
    using store_simulates [OF assms(1,2,3)] by (auto simp: ledger_inv_def)
  obtain h where h: "expected_parent ''entry_hash'' es = Inr (PStr h)"
    "chain_tip (jsonl_own ''entry_hash'') (PStr GENESIS_HASH) es = PStr h"
    using jsonl_tip [of "''entry_hash''" sha es] ok by (auto simp: outcome_ok_def)
  have "\<exists>r. replay_prevention_outcome_ledger sha st = Inr r \<and> or_entries r = es
            \<and> ledger_head_hash es = Inr (PStr (or_head_hash r))" if "es \<noteq> []"
  proof -
    have "read_outcomes False st = Inr es" using st(2) that by (simp add: read_outcomes_def read_jsonl_iff)
    moreover have "ledger_head_hash es = Inr (PStr h)" using h(1) by (simp add: ledger_head_hash_def expected_parent_def)
    ultimately show ?thesis using ok that h(2) by (auto simp: replay_outcome_iff)
  qed
  with st show ?thesis by blast
qed


text \<open>C38. The head hash pins the ledger: two files that replay with one head have the same lines, in the
  same order, and replay to the same report, unless two different entries among them have one hash.
  Checking the published head is enough to know that nothing was added, dropped or changed.\<close>

theorem p108_head_pins_ledger:
  assumes "replay_prevention_outcome_ledger sha st = Inr r" and "replay_prevention_outcome_ledger sha st' = Inr r'"
    and "or_head_hash r = or_head_hash r'"
    and "collision_free (jsonl_own ''entry_hash'') (set (or_entries r) \<union> set (or_entries r'))"
  shows "js_lines st = js_lines st' \<and> r = r'"
proof -
  from assms(1,2) obtain es h es' h'
    where es: "read_outcomes False st = Inr es" "outcome_ok sha es"
      "chain_tip (jsonl_own ''entry_hash'') (PStr GENESIS_HASH) es = PStr h" "or_entries r = es" "or_head_hash r = h"
    and es': "read_outcomes False st' = Inr es'" "outcome_ok sha es'"
      "chain_tip (jsonl_own ''entry_hash'') (PStr GENESIS_HASH) es' = PStr h'" "or_entries r' = es'" "or_head_hash r' = h'"
    by (auto simp: replay_outcome_iff)
  have valid: "jsonl.valid ''entry_hash'' sha es" "jsonl.valid ''entry_hash'' sha es'"
    using es(2) es'(2) by (simp_all add: outcome_ok_def)
  have same: "es = es'"
  proof (rule jsonl.tip_determines [OF valid])
    show "collision_free (jsonl_own ''entry_hash'') (set es \<union> set es')" using assms(4) es(4) es'(4) by simp
    show "PStr GENESIS_HASH \<notin> jsonl_own ''entry_hash'' ` (set es \<union> set es')"
      using jsonl_genesis_fresh [OF valid(1)] jsonl_genesis_fresh [OF valid(2)] by blast
    show "chain_tip (jsonl_own ''entry_hash'') (PStr GENESIS_HASH) es
          = chain_tip (jsonl_own ''entry_hash'') (PStr GENESIS_HASH) es'"
      using es(3,5) es'(3,5) assms(3) by simp
  qed
  then have "js_lines st = js_lines st'"
    using es(1) es'(1) by (simp add: read_outcomes_def read_jsonl_iff)
  moreover have "r = r'"
    using assms(1,2) es(1) es'(1) same by (auto simp: replay_outcome_iff)
  ultimately show ?thesis ..
qed

text \<open>One outcome per episode and per key: in a ledger that replays, no two entries have the same
  episode id or the same idempotency key (as text), if no two have one hash; and each entry names
  eight cross-phase edges, an audit head, a report and a replay, all by hashes.\<close>

theorem p108_one_outcome_per_episode:
  assumes "replay_prevention_outcome_ledger sha st = Inr r"
    and "distinct (map (jsonl_own ''entry_hash'') (or_entries r))"
  shows "distinct (map (\<lambda>e. py_str (pget e ''episode_id'')) (or_entries r))
     \<and> distinct (map (\<lambda>e. py_str (pget e ''idempotency_key'')) (or_entries r))
     \<and> list_all (\<lambda>e. content_hash (pget e ''p107_audit_head_hash'') \<and> content_hash (pget e ''p107_outcome_report_hash'')
          \<and> content_hash (pget e ''p107_release_replay_hash'')
          \<and> list_all (\<lambda>k. content_hash (pget (as_dict (pget e ''cross_phase_edges'')) k)) REQUIRED_CROSS_PHASE_EDGES)
        (or_entries r)"
proof -
  let ?es = "or_entries r"
  have ok: "outcome_ok sha ?es" using assms(1) by (auto simp: replay_outcome_iff)
  have own: "jsonl_own ''entry_hash'' e = PStr (py_str (pget e ''entry_hash''))" if "e \<in> set ?es" for e
  proof -
    have "jsonl_sealed sha ''entry_hash'' e"
      using ok that unfolding outcome_ok_def jsonl.valid_def by (blast intro: chain_from_sealed)
    then show ?thesis by (simp add: jsonl_sealed_def jsonl_own_def)
  qed
  have unique: "distinct (map (\<lambda>e. py_str (pget e k)) ?es)" if "bound_once [] k ?es" for k
  proof -
    have inj: "inj_on (jsonl_own ''entry_hash'') (set ?es)" "distinct ?es" using assms(2) by (simp_all add: distinct_map)
    have "inj_on (\<lambda>e. py_str (pget e k)) (set ?es)"
    proof (rule inj_onI)
      fix e e'
      assume e: "e \<in> set ?es" "e' \<in> set ?es" "py_str (pget e k) = py_str (pget e' k)"
      with that have "py_str (pget e ''entry_hash'') = py_str (pget e' ''entry_hash'')"
        unfolding bound_once_def by blast
      with own e(1,2) have "jsonl_own ''entry_hash'' e = jsonl_own ''entry_hash'' e'" by simp
      with inj(1) show "e = e'" using e(1,2) by (rule inj_onD)
    qed
    with inj(2) show ?thesis by (simp add: distinct_map)
  qed
  have edges: "list_all (\<lambda>k. content_hash (pget d k)) ks" if "require_edges d ks = Inr ()" for d ks
    using that by (induction ks) (auto simp: rbind_Inr_iff require_content_hash_def rguard_Inr_iff split: if_splits)
  have "list_all (\<lambda>e. content_hash (pget e ''p107_audit_head_hash'') \<and> content_hash (pget e ''p107_outcome_report_hash'')
          \<and> content_hash (pget e ''p107_release_replay_hash'')
          \<and> list_all (\<lambda>k. content_hash (pget (as_dict (pget e ''cross_phase_edges'')) k)) REQUIRED_CROSS_PHASE_EDGES) ?es"
    using ok edges unfolding outcome_ok_def list_all_iff [of "\<lambda>e. validate_required_content e = Inr ()"]
    by (auto simp: list_all_iff [of _ ?es] validate_required_content_def rbind_Inr_iff rguard_Inr_iff require_content_hash_def)
  with ok unique show ?thesis by (simp add: outcome_ok_def)
qed

lemma py_eq_text_refl: "is_str v \<Longrightarrow> py_eq v v"
  by (elim is_strE) simp

text \<open>Recording an outcome is idempotent: an entry with text ids that was accepted once is accepted
  again after any further appends, with the same hash, and adds nothing; an entry with its id and key
  whose content has another hash is refused from then on, and adds nothing either.\<close>

lemma find_duplicate_ids:
  "pget q ''episode_id'' = pget p ''episode_id'' \<Longrightarrow> pget q ''idempotency_key'' = pget p ''idempotency_key'' \<Longrightarrow>
     find_duplicate es q = find_duplicate es p"
  by (induction es) simp_all

theorem p108_append_idempotent:
  assumes "ledger_append sha inp es = (es1, Inr h)" and "entry_payload inp = Inr p" and "text_ids p"
  shows "ledger_append sha inp (fst (append_all (ledger_append sha) inputs es1))
     = (fst (append_all (ledger_append sha) inputs es1), Inr h)
   \<and> (\<forall>q. pget q ''episode_id'' = pget p ''episode_id'' \<and> pget q ''idempotency_key'' = pget p ''idempotency_key''
          \<and> computed_entry_hash sha q \<noteq> h \<longrightarrow>
        (\<exists>x. ledger_append sha (OI_Mapping q) (fst (append_all (ledger_append sha) inputs es1))
             = (fst (append_all (ledger_append sha) inputs es1), Inl x)))"
proof -
  obtain more where more: "fst (append_all (ledger_append sha) inputs es1) = es1 @ more"
    using append_all_extends by blast
  have "\<exists>e. find_duplicate es1 p = Some e \<and> pget e ''entry_hash'' = PStr (computed_entry_hash sha p)
      \<and> validate_required_content p = Inr () \<and> h = computed_entry_hash sha p"
  proof (cases rule: append_payload_cases [of sha es p])
    case (1 x)
    with assms(1,2) show ?thesis by (simp add: ledger_append_def)
  next
    case (2 e)
    with assms(1,2) show ?thesis by (simp add: ledger_append_def)
  next
    case 3
    then have "es1 = es @ [new_entry sha p]" "h = computed_entry_hash sha p"
      using assms(1,2) by (simp_all add: ledger_append_def)
    moreover have "py_eq (pget (new_entry sha p) ''episode_id'') (pget p ''episode_id'')"
      using assms(3) by (simp add: new_entry_fields text_ids_def py_eq_text_refl)
    ultimately show ?thesis using 3 by (simp add: find_duplicate_append new_entry_fields)
  qed
  then obtain e where "find_duplicate (es1 @ more) p = Some e" "pget e ''entry_hash'' = PStr (computed_entry_hash sha p)"
    "validate_required_content p = Inr ()" "h = computed_entry_hash sha p" by (auto simp: find_duplicate_append)
  note found = this
  have "\<exists>x. ledger_append sha (OI_Mapping q) (es1 @ more) = (es1 @ more, Inl x)"
    if "pget q ''episode_id'' = pget p ''episode_id''" "pget q ''idempotency_key'' = pget p ''idempotency_key''"
      "computed_entry_hash sha q \<noteq> h" for q
    using that found find_duplicate_ids [OF that(1,2), of "es1 @ more"]
    by (cases "validate_required_content q") (simp_all add: ledger_append_def append_payload_def)
  with found show ?thesis by (simp add: more ledger_append_def assms(2) append_payload_def)
qed

text \<open>
  Text ids are needed.  \<open>_find_duplicate\<close> compares ids with \<open>==\<close>, verification compares their \<open>str\<close>: an
  entry whose id is the number of a text id on record is accepted, and from then on the file version
  refuses its own log.
\<close>

lemma mixed_ids_close_the_store:
  assumes "store_append sha (OI_Mapping p) st = (st', Inr h)" and "read_outcomes True st = Inr es"
    and "e \<in> set es" and "py_str (pget e ''episode_id'') = py_str (pget p ''episode_id'')"
    and "h \<notin> (\<lambda>e. py_str (pget e ''entry_hash'')) ` set es"
  shows "raises (replay_prevention_outcome_ledger sha st') \<and> (\<exists>x. store_append sha inp st' = (st', Inl x))"
proof -
  obtain h0 where valid: "validate_outcome_chain sha True es = Inr h0"
    using assms(1,2) by (cases "validate_outcome_chain sha True es") (simp_all add: store_append_def)
  have st': "st' = jsonl_write (new_entry sha p) st \<and> h = computed_entry_hash sha p"
  proof (cases rule: append_payload_cases [of sha es p])
    case (1 x)
    with assms(1,2) valid show ?thesis by (simp add: store_append_def)
  next
    case (2 d)
    with assms(1,2) valid have "py_str (pget d ''entry_hash'') = h" by (simp add: store_append_def)
    with find_duplicate_Some [OF 2(2)] assms(5) show ?thesis by blast
  next
    case 3
    with assms(1,2) valid show ?thesis by (simp add: store_append_def)
  qed
  have read: "read_outcomes b st' = Inr (es @ [new_entry sha p])" for b
    using assms(2) unfolding conjunct1 [OF st'] read_outcomes_def by (rule read_jsonl_write)
  have "\<not> bound_once [] ''episode_id'' (es @ [new_entry sha p])"
  proof
    assume "bound_once [] ''episode_id'' (es @ [new_entry sha p])"
    moreover have "py_str (pget e ''episode_id'') = py_str (pget (new_entry sha p) ''episode_id'')"
      using assms(4) by (simp add: new_entry_fields)
    moreover have "e \<in> set (es @ [new_entry sha p])" "new_entry sha p \<in> set (es @ [new_entry sha p])"
      using assms(3) by simp_all
    ultimately have "py_str (pget e ''entry_hash'') = py_str (pget (new_entry sha p) ''entry_hash'')"
      unfolding bound_once_def by blast
    then have "py_str (pget e ''entry_hash'') = h" using st' by (simp add: new_entry_fields)
    with assms(3,5) show False by blast
  qed
  then have "\<not> outcome_ok sha (es @ [new_entry sha p])" by (simp add: outcome_ok_def)
  then have "\<exists>x. validate_outcome_chain sha b (es @ [new_entry sha p]) = Inl x" for b
    by (cases "validate_outcome_chain sha b (es @ [new_entry sha p])") (auto simp: validate_outcome_chain_iff)
  then obtain x y where "validate_outcome_chain sha True (es @ [new_entry sha p]) = Inl x"
    "validate_outcome_chain sha False (es @ [new_entry sha p]) = Inl y" by blast
  with read show ?thesis by (simp add: replay_prevention_outcome_ledger_def store_append_def raises_def)
qed

end
