(* ===== verification/Prevention_Replay_Gate.thy ===== *)
theory Prevention_Replay_Gate
  imports P118_Contract Prevention_Jsonl Prevention_States
begin

text \<open>
  The replay contracts of prevention (\<open>app/services/prevention_replay_gate.py\<close>): whether a replay that
  a recovery or a release rests on carries a complete, linked and hashed chain of audit records.  The
  code collects every reason against a replay; the properties say when there is none.
\<close>

section \<open>Hashes\<close>

definition full_sha :: "pyval \<Rightarrow> bool" where
  "full_sha v = (case v of PStr s \<Rightarrow> sha256_text s | _ \<Rightarrow> False)"

definition compute_replay_hash :: "(string \<Rightarrow> string) \<Rightarrow> pydict \<Rightarrow> string" where
  "compute_replay_hash sha replay = stable_hash sha (PDict (pwithout [''hash''] replay))"

definition compute_audit_record_hash :: "(string \<Rightarrow> string) \<Rightarrow> pydict \<Rightarrow> string" where
  "compute_audit_record_hash sha r = stable_hash sha (PDict (pwithout [''head_hash''] r))"

section \<open>The chain of audit records\<close>

text \<open>\<open>x in {None, "GENESIS"}\<close> and \<open>x in TERMINAL_STATES\<close> on a value of any type.\<close>

definition hashed_in :: "pyval \<Rightarrow> pyval list \<Rightarrow> bool result" where
  "hashed_in v vs = (if unhashable v then Inl (Raised ''TypeError'' ''unhashable type'') else Inr (v \<in> set vs))"

definition terminal_values :: "pyval list" where
  "terminal_values = map PStr TERMINAL_STATES"

definition event_type :: "pydict \<Rightarrow> string \<Rightarrow> bool" where
  "event_type r t = py_eq (pget r ''event_type'') (PStr t)"

definition terminal_of :: "pydict \<Rightarrow> pyval" where
  "terminal_of r = pget_or r ''terminal_state'' (pget r ''state'')"

definition reason_if :: "bool \<Rightarrow> string \<Rightarrow> string list" where
  "reason_if bad reason = (if bad then [reason] else [])"

text \<open>
  The link of a record to the one before it; then all reasons against one record.  \<open>n\<close> records precede
  it, \<open>rest\<close> are those after it.
\<close>

definition link_reasons :: "string \<Rightarrow> nat \<Rightarrow> pyval \<Rightarrow> pydict \<Rightarrow> string list result" where
  "link_reasons label n previous_head r =
    (let start = label @ '' audit chain must start at episode_started'' in
     if n = 0
     then if \<not> event_type r ''episode_started'' then Inr [start]
          else rbind (hashed_in (pget r ''previous_hash'') [PNone, PStr GENESIS_HASH]) (\<lambda>known. Inr (reason_if (\<not> known) start))
     else Inr (reason_if (\<not> py_eq (pget r ''previous_hash'') previous_head) (label @ '' audit chain linkage is invalid'')))"

definition head_ok :: "string list \<Rightarrow> pyval \<Rightarrow> bool" where
  "head_ok seen head \<longleftrightarrow> full_sha head \<and> py_str head \<notin> set seen"

definition record_reasons ::
    "(string \<Rightarrow> string) \<Rightarrow> string \<Rightarrow> pyval \<Rightarrow> bool \<Rightarrow> nat \<Rightarrow> pyval \<Rightarrow> pyval \<Rightarrow> string list \<Rightarrow> pydict \<Rightarrow> bool
      \<Rightarrow> string list result" where
  "record_reasons sha label source_episode_id tail_is_terminal n previous_head previous_canonical seen r is_last =
    (let head = pget r ''head_hash''; prev = pget r ''previous_hash'';
         canonical = PStr (compute_audit_record_hash sha r) in
     rbind (link_reasons label n previous_head r) (\<lambda>link.
     Inr (reason_if (\<not> jsonl_pos n r) (label @ '' audit chain sequence is invalid'')
        @ reason_if (\<not> py_eq (pget r ''episode_id'') source_episode_id) (label @ '' audit chain episode id mismatch'')
        @ reason_if (\<not> head_ok seen head) (label @ '' audit chain head hash is invalid'')
        @ link
        @ reason_if (full_sha prev \<and> \<not> py_eq prev previous_canonical) (label @ '' audit chain canonical linkage is invalid'')
        @ reason_if (n > 0 \<and> \<not> (tail_is_terminal \<and> is_last) \<and> \<not> event_type r ''attempt_recorded'')
            (label @ '' audit chain event type is invalid'')
        @ reason_if (full_sha head \<and> \<not> py_eq head canonical)
            (label @ '' audit chain head hash must match canonical event content''))))"

fun gate_loop ::
    "(string \<Rightarrow> string) \<Rightarrow> string \<Rightarrow> pyval \<Rightarrow> bool \<Rightarrow> nat \<Rightarrow> pyval \<Rightarrow> pyval \<Rightarrow> string list \<Rightarrow> pydict list
      \<Rightarrow> (string list \<times> pyval \<times> pyval) result" where
  "gate_loop sha label eid tt n previous_head previous_canonical seen [] = Inr ([], previous_head, previous_canonical)"
| "gate_loop sha label eid tt n previous_head previous_canonical seen (r # rs) =
     (let head = pget r ''head_hash'' in
      rbind (record_reasons sha label eid tt n previous_head previous_canonical seen r (rs = [])) (\<lambda>here.
      rbind (gate_loop sha label eid tt (Suc n) head (PStr (compute_audit_record_hash sha r))
               (if head_ok seen head then py_str head # seen else seen) rs) (\<lambda>(later, ph, pc).
      Inr (here @ later, ph, pc))))"

definition py_dedup :: "string list \<Rightarrow> string list" where
  "py_dedup xs = rev (remdups (rev xs))"

text \<open>The bindings of the replay to its chain, and what the last record must be.\<close>

definition binding_reasons :: "string \<Rightarrow> pydict \<Rightarrow> string list" where
  "binding_reasons label replay =
    (let source = pget replay ''source_audit_head_hash''; expected = pget replay ''expected_terminal_head_hash'';
         eid = pget replay ''source_episode_id'' in
     reason_if (\<not> is_str eid \<or> eid = PStr []) (label @ '' must bind a source episode id'')
     @ reason_if (\<not> full_sha source) (label @ '' must bind source audit head hash'')
     @ reason_if (\<not> py_eq expected source \<or> \<not> full_sha expected)
         (label @ '' expected terminal head hash must match source audit head''))"

definition terminal_reasons :: "string \<Rightarrow> bool \<Rightarrow> pydict \<Rightarrow> string list result" where
  "terminal_reasons label require_terminal r =
    (if \<not> event_type r ''terminal_state''
     then Inr (reason_if require_terminal (label @ '' requires terminal audit chain''))
     else rbind (hashed_in (terminal_of r) terminal_values) (\<lambda>known.
       Inr (reason_if (\<not> known) (if require_terminal then label @ '' requires terminal audit chain''
                              else label @ '' terminal audit state is invalid''))))"

definition audit_chain_reasons ::
    "(string \<Rightarrow> string) \<Rightarrow> pydict \<Rightarrow> pyval list \<Rightarrow> string \<Rightarrow> bool \<Rightarrow> string list result" where
  "audit_chain_reasons sha replay audit_records replay_kind require_terminal =
    (let label = replay_kind @ '' replay'' in
     if length audit_records < (if require_terminal then 3 else 2)
     then Inr [label @ '' requires a complete terminal audit chain'']
     else if list_ex (\<lambda>r. \<not> is_dict r) audit_records
     then Inr [label @ '' audit chain records must be objects'']
     else let rs = map as_dict audit_records; final = last rs; source = pget replay ''source_audit_head_hash'';
              attempts = (if require_terminal then butlast (tl rs) else tl rs) in
       rbind (gate_loop sha label (pget replay ''source_episode_id'') (event_type final ''terminal_state'') 0 PNone PNone [] rs)
         (\<lambda>(reasons, previous_head, previous_canonical).
       rbind (terminal_reasons label require_terminal final) (\<lambda>terminal.
       Inr (py_dedup (binding_reasons label replay @ reasons @ terminal
         @ reason_if (\<not> list_ex (\<lambda>r. event_type r ''attempt_recorded'') attempts)
             (label @ '' audit chain requires an attempt record'')
         @ reason_if (\<not> py_eq previous_head source) (label @ '' source audit head does not match terminal chain head'')
         @ reason_if (full_sha source \<and> \<not> py_eq previous_canonical source)
             (label @ '' source audit head does not match canonical terminal chain head''))))))"

section \<open>The two contracts\<close>

definition contract_result :: "pydict \<Rightarrow> string \<Rightarrow> string list \<Rightarrow> pydict" where
  "contract_result replay recomputed reasons =
     [(''accepted'', PBool (reasons = [])), (''reasons'', PList (map PStr reasons)),
      (''replay_hash'', pget replay ''hash''), (''recomputed_replay_hash'', PStr recomputed)]"

definition replay_hash_reasons :: "string \<Rightarrow> pydict \<Rightarrow> string \<Rightarrow> string list" where
  "replay_hash_reasons label replay recomputed =
     (if \<not> full_sha (pget replay ''hash'') then [label @ '' must have a replay hash'']
      else reason_if (\<not> py_eq (pget replay ''hash'') (PStr recomputed))
        (label @ '' hash must match canonical replay content excluding its own hash field''))"

definition validate_release_replay_contract :: "(string \<Rightarrow> string) \<Rightarrow> pydict \<Rightarrow> pyval list \<Rightarrow> pydict result" where
  "validate_release_replay_contract sha replay audit_records =
    (let recomputed = compute_replay_hash sha replay in
     rbind (audit_chain_reasons sha replay audit_records ''release'' True) (\<lambda>chain.
     Inr (contract_result replay recomputed
       (reason_if (\<not> py_eq (pget replay ''purpose'') (PStr ''release_regression'')) ''release replay purpose must be release_regression''
        @ reason_if (\<not> py_eq (pget replay ''source'') (PStr ''audit'')) ''release replay source must be audit''
        @ reason_if (\<not> truthy (pget replay ''release_gates_passed'')) ''release replay gates must pass''
        @ replay_hash_reasons ''release replay'' replay recomputed
        @ chain))))"

definition RECOVERY_REPLAY_PREFIXES :: "string list" where
  "RECOVERY_REPLAY_PREFIXES = [''recovery-'', ''rollback-recovery-'', ''audit-recovery-'']"

definition idempotency_reasons :: "pydict \<Rightarrow> pyval list \<Rightarrow> string list result" where
  "idempotency_reasons replay records =
    (case pget replay ''idempotency_state'' of
       PDict state \<Rightarrow>
        (let final = (if records = [] then [] else as_dict (last records)); key = pget state ''idempotency_key'';
             claimed = pget state ''terminal_state'' in
         rbind (if event_type final ''terminal_state'' then hashed_in (terminal_of final) terminal_values else Inr False)
           (\<lambda>is_terminal.
         Inr (reason_if (\<not> is_str key \<or> key = PStr []) ''recovery replay idempotency key is missing''
           @ reason_if (strict_int (pget state ''committed_effect_count'') \<notin> {Some 0, Some 1})
               ''recovery replay committed effect count must be zero or one''
           @ reason_if (\<not> py_eq (pget state ''duplicate_effect_count'') (PInt 0))
               ''recovery replay duplicate effect count must be zero''
           @ (if is_terminal
              then reason_if (\<not> py_eq claimed (terminal_of final))
                     ''recovery replay idempotency terminal state contradicts audit terminal state''
              else reason_if (claimed \<noteq> PNone)
                     ''recovery replay non-terminal prefix cannot claim an idempotency terminal state'')
           @ reason_if (\<not> is_terminal \<and> pget replay ''resume_safe'' \<noteq> PBool True)
               ''recovery replay non-terminal audit prefix must be explicitly safe to resume''
           @ reason_if (\<not> is_terminal \<and> (pget replay ''recovered'' \<noteq> PBool False \<or> pget replay ''rollback_verified'' \<noteq> PBool False))
               ''recovery replay non-terminal audit prefix cannot claim recovery or rollback completion'')))
     | _ \<Rightarrow> Inr [''recovery replay requires idempotency state proof''])"

definition validate_recovery_replay_contract :: "(string \<Rightarrow> string) \<Rightarrow> pydict \<Rightarrow> pydict result" where
  "validate_recovery_replay_contract sha replay =
    (let recomputed = compute_replay_hash sha replay; replay_id = pget replay ''replay_id'';
         (records, no_list) = (case pget replay ''audit_records'' of PList rs \<Rightarrow> (rs, False) | _ \<Rightarrow> ([], True)) in
     rbind (audit_chain_reasons sha replay records ''recovery'' False) (\<lambda>chain.
     rbind (idempotency_reasons replay records) (\<lambda>idem.
     Inr (contract_result replay recomputed
       (reason_if (\<not> is_str replay_id \<or> \<not> list_ex (py_startswith (py_str replay_id)) RECOVERY_REPLAY_PREFIXES)
           ''recovery replay id must use a recovery prefix''
        @ reason_if (\<not> py_eq (pget replay ''purpose'') (PStr ''recovery_outcome'')) ''recovery replay purpose must be recovery_outcome''
        @ reason_if (\<not> py_eq (pget replay ''source'') (PStr ''audit'')) ''recovery replay source must be audit''
        @ reason_if (\<not> full_sha (pget replay ''source_audit_head_hash'')) ''recovery replay must bind source audit head hash''
        @ replay_hash_reasons ''recovery replay'' replay recomputed
        @ reason_if no_list ''recovery replay requires an audit chain proof''
        @ chain @ idem)))))"


section \<open>The chain the gate asks for\<close>

definition gate_prev :: "pydict \<Rightarrow> pyval" where
  "gate_prev r = (if pget r ''previous_hash'' = PNone then PStr GENESIS_HASH else pget r ''previous_hash'')"

definition gate_own :: "pydict \<Rightarrow> pyval" where
  "gate_own r = pget r ''head_hash''"

definition gate_sealed :: "(string \<Rightarrow> string) \<Rightarrow> pydict \<Rightarrow> bool" where
  "gate_sealed sha r \<longleftrightarrow> full_sha (gate_own r) \<and> gate_own r = PStr (compute_audit_record_hash sha r)"

interpretation gate: hash_chain jsonl_pos gate_prev gate_own "gate_sealed sha" "PStr GENESIS_HASH" for sha
  by unfold_locales (auto simp: jsonl_pos_def dest: py_eq_PInt_unique)

text \<open>The records between the first and the closing one are attempts; \<open>ended\<close> says that there is a
  closing one.\<close>

definition attempts_of :: "bool \<Rightarrow> pydict list \<Rightarrow> pydict list" where
  "attempts_of ended rs = (if ended then butlast rs else rs)"

definition gate_chain :: "(string \<Rightarrow> string) \<Rightarrow> nat \<Rightarrow> pyval \<Rightarrow> pydict list \<Rightarrow> bool" where
  "gate_chain sha n h = chain_from jsonl_pos gate_prev gate_own (gate_sealed sha) n h"

lemma reason_if_Nil [simp]: "reason_if b x = [] \<longleftrightarrow> \<not> b"
  by (simp add: reason_if_def)

lemma full_sha_str: "full_sha v \<Longrightarrow> \<exists>s. v = PStr s"
  by (cases v) (simp_all add: full_sha_def)

lemma full_sha_GENESIS [simp]: "\<not> full_sha (PStr GENESIS_HASH)"
  by (simp add: full_sha_def sha256_text_def GENESIS_HASH_def)

lemma full_sha_other [simp]: "\<not> full_sha PNone" "\<not> full_sha (PBool b)" "\<not> full_sha (PInt i)"
  by (simp_all add: full_sha_def)

lemma gate_prev_full: "full_sha h \<Longrightarrow> gate_prev r = h \<longleftrightarrow> pget r ''previous_hash'' = h"
  by (auto simp: gate_prev_def)

lemma py_eq_str_left: "py_eq (PStr s) v \<longleftrightarrow> v = PStr s"
  by simp

text \<open>No reason against a record inside the chain, and against the first one.\<close>

lemma record_reasons_later:
  assumes "full_sha h" and "n > 0"
  shows "record_reasons sha label eid tt n h h seen r is_last = Inr [] \<longleftrightarrow>
     jsonl_pos n r \<and> py_eq (pget r ''episode_id'') eid \<and> head_ok seen (gate_own r) \<and> gate_prev r = h
     \<and> gate_sealed sha r \<and> (tt \<and> is_last \<or> event_type r ''attempt_recorded'')"
proof -
  from assms(1) obtain s where s: "h = PStr s" using full_sha_str by blast
  have "gate_prev r = h \<longleftrightarrow> pget r ''previous_hash'' = h" by (rule gate_prev_full [OF assms(1)])
  with assms(2) show ?thesis
    by (auto simp: record_reasons_def link_reasons_def Let_def gate_own_def gate_sealed_def head_ok_def s py_eq_str_iff)
qed

lemma record_reasons_first:
  "record_reasons sha label eid tt 0 PNone PNone [] r is_last = Inr [] \<longleftrightarrow>
     jsonl_pos 0 r \<and> py_eq (pget r ''episode_id'') eid \<and> gate_prev r = PStr GENESIS_HASH
     \<and> gate_sealed sha r \<and> event_type r ''episode_started''"
  by (auto simp: record_reasons_def link_reasons_def Let_def gate_own_def gate_sealed_def head_ok_def py_eq_str_iff
      gate_prev_def hashed_in_def rbind_Inr_iff)

lemma gate_loop_later:
  assumes "full_sha h" and "n > 0"
  shows "gate_loop sha label eid tt n h h seen rs = Inr ([], ph, pc) \<longleftrightarrow>
     gate_chain sha n h rs \<and> list_all (\<lambda>r. py_eq (pget r ''episode_id'') eid) rs
     \<and> distinct (map gate_own rs) \<and> set (map gate_own rs) \<inter> PStr ` set seen = {}
     \<and> list_all (\<lambda>r. event_type r ''attempt_recorded'') (attempts_of tt rs)
     \<and> ph = chain_tip gate_own h rs \<and> pc = chain_tip gate_own h rs"
  using assms
proof (induction rs arbitrary: n h seen)
  case Nil
  then show ?case by (auto simp: gate_chain_def chain_tip_def attempts_of_def)
next
  case (Cons r rs)
  let ?ok = "jsonl_pos n r \<and> py_eq (pget r ''episode_id'') eid \<and> head_ok seen (gate_own r) \<and> gate_prev r = h
     \<and> gate_sealed sha r \<and> (tt \<and> rs = [] \<or> event_type r ''attempt_recorded'')"
  have here: "record_reasons sha label eid tt n h h seen r (rs = []) = Inr [] \<longleftrightarrow> ?ok"
    by (rule record_reasons_later [OF Cons.prems])
  have attempts: "list_all (\<lambda>r. event_type r ''attempt_recorded'') (attempts_of tt (r # rs)) \<longleftrightarrow>
      (tt \<and> rs = [] \<or> event_type r ''attempt_recorded'') \<and> list_all (\<lambda>r. event_type r ''attempt_recorded'') (attempts_of tt rs)"
    by (auto simp: attempts_of_def)
  show ?case
  proof (cases ?ok)
    case False
    have "head_ok seen (gate_own r)" if "gate_sealed sha r" "gate_own r \<notin> PStr ` set seen"
      using that by (auto simp: head_ok_def gate_sealed_def)
    with False here attempts show ?thesis
      by (auto simp: Let_def rbind_Inr_iff gate_chain_def split: prod.splits)
  next
    case True
    then have own: "full_sha (gate_own r)" "gate_own r = PStr (compute_audit_record_hash sha r)"
      and fresh: "gate_own r \<notin> PStr ` set seen"
      by (auto simp: gate_sealed_def head_ok_def)
    from True have head_eq: "pget r ''head_hash'' = gate_own r" by (simp add: gate_own_def)
    have "gate_loop sha label eid tt n h h seen (r # rs) = Inr ([], ph, pc) \<longleftrightarrow>
        gate_loop sha label eid tt (Suc n) (gate_own r) (gate_own r) (py_str (gate_own r) # seen) rs = Inr ([], ph, pc)"
      using True here [THEN iffD2, OF True]
      by (auto simp: Let_def rbind_Inr_iff head_eq simp flip: own(2) split: prod.splits)
    moreover have "chain_tip gate_own h (r # rs) = chain_tip gate_own (gate_own r) rs" by (simp add: chain_tip_def)
    moreover have "PStr (py_str (gate_own r)) = gate_own r" using own(2) by (cases "gate_own r") auto
    ultimately show ?thesis
      using True Cons.IH [OF own(1), of "Suc n" "py_str (gate_own r) # seen"] attempts fresh
      by (auto simp: gate_chain_def)
  qed
qed

lemma gate_loop_start:
  assumes "rs \<noteq> []"
  shows "gate_loop sha label eid tt 0 PNone PNone [] rs = Inr ([], ph, pc) \<longleftrightarrow>
     gate.valid sha rs \<and> list_all (\<lambda>r. py_eq (pget r ''episode_id'') eid) rs \<and> distinct (map gate_own rs)
     \<and> event_type (hd rs) ''episode_started'' \<and> list_all (\<lambda>r. event_type r ''attempt_recorded'') (attempts_of tt (tl rs))
     \<and> ph = gate_own (last rs) \<and> pc = gate_own (last rs)"
proof -
  obtain r rest where rs: "rs = r # rest" using assms by (cases rs) auto
  have first: "record_reasons sha label eid tt 0 PNone PNone [] r (rest = []) = Inr [] \<longleftrightarrow>
     jsonl_pos 0 r \<and> py_eq (pget r ''episode_id'') eid \<and> gate_prev r = PStr GENESIS_HASH
     \<and> gate_sealed sha r \<and> event_type r ''episode_started''"
    by (rule record_reasons_first)
  have tip: "chain_tip gate_own (gate_own r) rest = gate_own (last rs)" by (simp add: chain_tip_def rs)
  show ?thesis
  proof (cases "gate_sealed sha r")
    case False
    with first show ?thesis
      by (auto simp: rs Let_def rbind_Inr_iff gate.valid_def split: prod.splits)
  next
    case True
    then have own: "full_sha (gate_own r)" "gate_own r = PStr (compute_audit_record_hash sha r)"
      by (auto simp: gate_sealed_def)
    have head_eq: "pget r ''head_hash'' = gate_own r" by (simp add: gate_own_def)
    have ok: "head_ok [] (gate_own r)" using own(1) by (simp add: head_ok_def)
    have own_str: "PStr (py_str (gate_own r)) = gate_own r" using own(2) by (cases "gate_own r") auto
    have "gate_loop sha label eid tt 0 PNone PNone [] rs = Inr ([], ph, pc) \<longleftrightarrow>
        record_reasons sha label eid tt 0 PNone PNone [] r (rest = []) = Inr [] \<and>
        gate_loop sha label eid tt (Suc 0) (gate_own r) (gate_own r) [py_str (gate_own r)] rest = Inr ([], ph, pc)"
      using ok by (auto simp: rs Let_def rbind_Inr_iff head_eq simp flip: own(2) split: prod.splits)
    then show ?thesis
      unfolding first gate_loop_later [OF own(1) zero_less_Suc] tip
      using True own_str by (auto simp: rs gate.valid_def gate_chain_def)
  qed
qed

lemma py_dedup_Nil [simp]: "py_dedup xs = [] \<longleftrightarrow> xs = []"
  by (simp add: py_dedup_def)

lemma hashed_in_strings: "hashed_in v terminal_values = Inr b \<Longrightarrow> b \<longleftrightarrow> v \<in> set terminal_values"
  by (simp add: hashed_in_def split: if_splits)

lemma hashed_terminal: "v \<in> set terminal_values \<Longrightarrow> hashed_in v terminal_values = Inr True"
  by (auto simp: hashed_in_def terminal_values_def)

lemma terminal_reasons_Nil:
  "terminal_reasons label req r = Inr [] \<longleftrightarrow>
     (if event_type r ''terminal_state'' then terminal_of r \<in> set terminal_values else \<not> req)"
  using hashed_terminal [of "terminal_of r"] hashed_in_strings [of "terminal_of r"]
  by (auto simp: terminal_reasons_def rbind_Inr_iff)

text \<open>The shape of an accepted chain: numbered, linked and hashed records of one episode, a start, at
  least one attempt, and at the end, if \<open>required\<close>, a terminal state.\<close>

definition audit_trail :: "(string \<Rightarrow> string) \<Rightarrow> bool \<Rightarrow> string \<Rightarrow> pydict list \<Rightarrow> bool" where
  "audit_trail sha required e rs \<longleftrightarrow>
     rs \<noteq> [] \<and> e \<noteq> [] \<and> gate.valid sha rs \<and> distinct (map gate_own rs) \<and> list_all (\<lambda>r. pget r ''episode_id'' = PStr e) rs
     \<and> event_type (hd rs) ''episode_started''
     \<and> (if event_type (last rs) ''terminal_state'' then terminal_of (last rs) \<in> set terminal_values else \<not> required)
     \<and> list_all (\<lambda>r. event_type r ''attempt_recorded'') (attempts_of (event_type (last rs) ''terminal_state'') (tl rs))
     \<and> attempts_of (event_type (last rs) ''terminal_state'') (tl rs) \<noteq> []"

lemma map_as_dict: "list_all is_dict vs \<Longrightarrow> map PDict (map as_dict vs) = vs"
proof (induction vs)
  case (Cons v vs)
  then show ?case by (cases v) auto
qed simp

lemma event_types_differ: "event_type r s \<Longrightarrow> event_type r t \<Longrightarrow> s = t"
  by (simp add: event_type_def py_eq_str_iff)


lemma attempts_found:
  assumes "rs \<noteq> []" and "event_type (hd rs) ''episode_started''"
    and "if event_type (last rs) ''terminal_state'' then True else \<not> req"
    and "list_all (\<lambda>r. event_type r ''attempt_recorded'') (attempts_of (event_type (last rs) ''terminal_state'') (tl rs))"
  shows "list_ex (\<lambda>r. event_type r ''attempt_recorded'') (if req then butlast (tl rs) else tl rs)
     \<longleftrightarrow> attempts_of (event_type (last rs) ''terminal_state'') (tl rs) \<noteq> []"
proof (cases "event_type (last rs) ''terminal_state''")
  case False
  with assms show ?thesis by (cases "tl rs") (auto simp: attempts_of_def)
next
  case True
  obtain r rest where rs: "rs = r # rest" using assms(1) by (cases rs) auto
  show ?thesis
  proof (cases rest rule: rev_cases)
    case Nil
    then show ?thesis by (simp add: rs attempts_of_def)
  next
    case (snoc xs t)
    then have "\<not> event_type t ''attempt_recorded''"
      using True event_types_differ [of t "''terminal_state''" "''attempt_recorded''"] by (auto simp: rs)
    with assms(4) True show ?thesis by (cases xs) (auto simp: rs snoc attempts_of_def)
  qed
qed

lemma trail_length:
  assumes "audit_trail sha req e rs"
  shows "\<not> length rs < (if req then 3 else 2)"
proof -
  obtain r rest where rs: "rs = r # rest" using assms by (cases rs) (auto simp: audit_trail_def)
  with assms have ne: "attempts_of (event_type (last rs) ''terminal_state'') rest \<noteq> []"
    "req \<longrightarrow> event_type (last rs) ''terminal_state''"
    by (auto simp: audit_trail_def split: if_splits)
  show ?thesis
  proof (cases rest rule: rev_cases)
    case Nil
    with ne(1) show ?thesis by (simp add: attempts_of_def split: if_splits)
  next
    case (snoc xs t)
    with ne show ?thesis by (cases xs) (auto simp: rs attempts_of_def)
  qed
qed

lemma binding_reasons_Nil:
  "binding_reasons label replay = [] \<longleftrightarrow>
     (\<exists>e. e \<noteq> [] \<and> pget replay ''source_episode_id'' = PStr e) \<and> full_sha (pget replay ''source_audit_head_hash'')
     \<and> pget replay ''expected_terminal_head_hash'' = pget replay ''source_audit_head_hash''"
  using full_sha_str [of "pget replay ''source_audit_head_hash''"]
  by (cases "pget replay ''source_episode_id''") (auto simp: binding_reasons_def Let_def py_eq_str_iff)

lemma chain_reasons_dicts:
  assumes "\<not> length rs < (if req then 3 else 2)"
  shows "audit_chain_reasons sha replay (map PDict rs) kind req = Inr [] \<longleftrightarrow>
     (\<exists>e. pget replay ''source_episode_id'' = PStr e \<and> audit_trail sha req e rs)
     \<and> pget replay ''source_audit_head_hash'' = gate_own (last rs)
     \<and> pget replay ''expected_terminal_head_hash'' = gate_own (last rs)"
    (is "?reasons \<longleftrightarrow> ?spec")
proof -
  let ?label = "kind @ '' replay''" and ?final = "last rs" and ?source = "pget replay ''source_audit_head_hash''"
  let ?tt = "event_type ?final ''terminal_state''" and ?eid = "pget replay ''source_episode_id''"
  have ne: "rs \<noteq> []" using assms by (auto split: if_splits)
  have dicts: "\<not> list_ex (\<lambda>r. \<not> is_dict r) (map PDict rs)" "map as_dict (map PDict rs) = rs"
    by (simp_all add: list_ex_iff comp_def)
  have "?reasons \<longleftrightarrow> (\<exists>ph pc. gate_loop sha ?label ?eid ?tt 0 PNone PNone [] rs = Inr ([], ph, pc)
      \<and> terminal_reasons ?label req ?final = Inr [] \<and> binding_reasons ?label replay = []
      \<and> list_ex (\<lambda>r. event_type r ''attempt_recorded'') (if req then butlast (tl rs) else tl rs)
      \<and> py_eq ph ?source \<and> \<not> (full_sha ?source \<and> \<not> py_eq pc ?source))"
    unfolding audit_chain_reasons_def using assms dicts
    by (auto simp: Let_def rbind_Inr_iff split: prod.splits)
  also have "\<dots> \<longleftrightarrow> gate.valid sha rs \<and> list_all (\<lambda>r. py_eq (pget r ''episode_id'') ?eid) rs \<and> distinct (map gate_own rs)
     \<and> event_type (hd rs) ''episode_started'' \<and> list_all (\<lambda>r. event_type r ''attempt_recorded'') (attempts_of ?tt (tl rs))
     \<and> terminal_reasons ?label req ?final = Inr [] \<and> binding_reasons ?label replay = []
     \<and> list_ex (\<lambda>r. event_type r ''attempt_recorded'') (if req then butlast (tl rs) else tl rs)
     \<and> py_eq (gate_own ?final) ?source"
    unfolding gate_loop_start [OF ne] by auto
  also have "\<dots> \<longleftrightarrow> ?spec"
  proof -
    have source: "py_eq (gate_own ?final) ?source \<longleftrightarrow> ?source = gate_own ?final" if "gate.valid sha rs"
    proof -
      from that ne have "gate_sealed sha ?final" by (cases rs rule: rev_cases) (simp_all add: gate.valid_snoc)
      then show ?thesis by (auto simp: gate_sealed_def)
    qed
    have full: "full_sha (gate_own ?final)" if "gate.valid sha rs"
    proof -
      from that ne have "gate_sealed sha ?final" by (cases rs rule: rev_cases) (simp_all add: gate.valid_snoc)
      then show ?thesis unfolding gate_sealed_def ..
    qed
    show ?thesis
      using source full ne attempts_found [OF ne, of req]
      unfolding binding_reasons_Nil terminal_reasons_Nil audit_trail_def
      by (auto simp: py_eq_str_iff split: if_splits)
  qed
  finally show ?thesis .
qed

lemma chain_reasons_iff:
  "audit_chain_reasons sha replay records kind req = Inr [] \<longleftrightarrow>
     (\<exists>rs e. records = map PDict rs \<and> pget replay ''source_episode_id'' = PStr e \<and> audit_trail sha req e rs
     \<and> pget replay ''source_audit_head_hash'' = gate_own (last rs)
     \<and> pget replay ''expected_terminal_head_hash'' = gate_own (last rs))"
proof (cases "list_all is_dict records \<and> \<not> length records < (if req then 3 else 2)")
  case True
  then have "records = map PDict (map as_dict records)" by (simp only: map_as_dict)
  moreover have "map PDict rs = map PDict rs' \<longleftrightarrow> rs = rs'" for rs rs' :: "pydict list"
    using inj_map_eq_map [of PDict] by (simp add: inj_def)
  ultimately show ?thesis
    using chain_reasons_dicts [of "map as_dict records" req sha replay kind] True by (metis length_map)
next
  case False
  then consider "length records < (if req then 3 else 2)" | "\<not> length records < (if req then 3 else 2)" "list_ex (\<lambda>r. \<not> is_dict r) records"
    by (auto simp: list_all_iff list_ex_iff)
  then have "audit_chain_reasons sha replay records kind req \<noteq> Inr []"
    by cases (simp_all only: audit_chain_reasons_def Let_def if_True if_False simp_thms sum.inject list.distinct)
  moreover have "list_all is_dict (map PDict rs) \<and> \<not> length (map PDict rs) < (if req then 3 else 2)"
    if "audit_trail sha req e rs" for rs e
    using trail_length [OF that] by (simp add: list_all_iff)
  ultimately show ?thesis using False by metis
qed


section \<open>Properties\<close>

definition accepts :: "pydict result \<Rightarrow> bool" where
  "accepts m = returns (\<lambda>out. pget out ''accepted'' = PBool True) m"

lemma accepts_result: "accepts (Inr (contract_result replay recomputed reasons)) \<longleftrightarrow> reasons = []"
  by (simp add: accepts_def returns_def contract_result_def)

lemma accepts_Inl [simp]: "\<not> accepts (Inl x)"
  by (simp add: accepts_def returns_def)

lemma replay_hash_reasons_Nil:
  "replay_hash_reasons label replay recomputed = [] \<longleftrightarrow>
     full_sha (pget replay ''hash'') \<and> pget replay ''hash'' = PStr recomputed"
  by (auto simp: replay_hash_reasons_def py_eq_str_iff)

text \<open>C26. A release replay is accepted exactly when it says it is a release regression made from the audit
  with its gates passed, its own hash is that of its content, and its records are a complete trail of
  the episode it names, whose last hash is both heads it names: numbered from 1, each linked to the
  one before and under the hash of its content, no hash twice, a start, then attempts, at least one,
  then a terminal state.  Nothing else is accepted, and nothing of this is asked for in vain.\<close>

theorem p107_release_replay_exact:
  "accepts (validate_release_replay_contract sha replay records) \<longleftrightarrow>
     pget replay ''purpose'' = PStr ''release_regression'' \<and> pget replay ''source'' = PStr ''audit''
     \<and> truthy (pget replay ''release_gates_passed'')
     \<and> full_sha (pget replay ''hash'') \<and> pget replay ''hash'' = PStr (compute_replay_hash sha replay)
     \<and> (\<exists>rs e. records = map PDict rs \<and> pget replay ''source_episode_id'' = PStr e \<and> audit_trail sha True e rs
          \<and> pget replay ''source_audit_head_hash'' = gate_own (last rs)
          \<and> pget replay ''expected_terminal_head_hash'' = gate_own (last rs))"
proof (cases "audit_chain_reasons sha replay records ''release'' True")
  case (Inl x)
  with chain_reasons_iff [of sha replay records "''release''" True] show ?thesis
    by (auto simp: validate_release_replay_contract_def Let_def)
next
  case (Inr chain)
  with chain_reasons_iff [of sha replay records "''release''" True] show ?thesis
    by (auto simp: validate_release_replay_contract_def Let_def accepts_result replay_hash_reasons_Nil py_eq_str_iff)
qed

text \<open>An accepted trail is closed by its terminal record.\<close>

lemma trail_attempts:
  assumes "audit_trail sha True e rs" and "r \<in> set (butlast rs)"
  shows "\<not> event_type r ''terminal_state''"
proof -
  from assms(1) obtain r0 rest where rs: "rs = r0 # rest" by (cases rs) (auto simp: audit_trail_def)
  from assms(1) have "rest \<noteq> []" "event_type r0 ''episode_started''"
    and "list_all (\<lambda>r. event_type r ''attempt_recorded'') (butlast rest)"
    by (auto simp: audit_trail_def rs attempts_of_def split: if_splits)
  with assms(2) have "event_type r ''episode_started'' \<or> event_type r ''attempt_recorded''"
    by (auto simp: rs list_all_iff)
  then show ?thesis using event_types_differ [of r "''terminal_state''"] by auto
qed

interpretation release: closing_chain jsonl_pos gate_prev gate_own "gate_sealed sha" "PStr GENESIS_HASH"
    "\<lambda>rs. \<exists>e. audit_trail sha True e rs" "\<lambda>r. event_type r ''terminal_state''" for sha
proof unfold_locales
  fix rs r
  assume "\<exists>e. audit_trail sha True e rs"
  then obtain e where e: "audit_trail sha True e rs" by blast
  then show "gate.valid sha rs" by (simp add: audit_trail_def)
  from e show "rs \<noteq> [] \<and> event_type (last rs) ''terminal_state''" by (auto simp: audit_trail_def split: if_splits)
  assume "r \<in> set (butlast rs)"
  with e show "\<not> event_type r ''terminal_state''" by (rule trail_attempts)
qed

text \<open>C39. Accepted release evidence cannot be rearranged or replaced.  If two release replays are
  accepted and the records of the second all occur in the first, they carry the same records; and if
  they name the same audit head, they carry the same records too, unless two different records among
  them have one hash.\<close>

theorem p107_release_evidence_pinned:
  assumes "accepts (validate_release_replay_contract sha replay (map PDict rs))"
    and "accepts (validate_release_replay_contract sha replay' (map PDict rs'))"
    and "set rs' \<subseteq> set rs
       \<or> pget replay ''source_audit_head_hash'' = pget replay' ''source_audit_head_hash''
         \<and> collision_free gate_own (set rs \<union> set rs')"
  shows "rs' = rs"
proof -
  have inj: "map PDict xs = map PDict ys \<longleftrightarrow> xs = ys" for xs ys :: "pydict list"
    using inj_map_eq_map [of PDict] by (simp add: inj_def)
  have trail: "(\<exists>e. audit_trail sha True e xs) \<and> pget rep ''source_audit_head_hash'' = gate_own (last xs)"
    if "accepts (validate_release_replay_contract sha rep (map PDict xs))" for rep xs
    using that chain_reasons_iff [of sha rep "map PDict xs" "''release''" True]
    by (cases "audit_chain_reasons sha rep (map PDict xs) ''release'' True")
       (auto simp: validate_release_replay_contract_def Let_def accepts_result inj)
  note t = trail [OF assms(1)] trail [OF assms(2)]
  from assms(3) show ?thesis
  proof
    assume "set rs' \<subseteq> set rs"
    then show ?thesis using release.complete_unique [of sha rs rs'] t by blast
  next
    assume same: "pget replay ''source_audit_head_hash'' = pget replay' ''source_audit_head_hash''
         \<and> collision_free gate_own (set rs \<union> set rs')"
    have valid: "gate.valid sha rs" "gate.valid sha rs'" "rs \<noteq> []" "rs' \<noteq> []"
      using t by (auto simp: audit_trail_def)
    have fresh: "PStr GENESIS_HASH \<notin> gate_own ` set xs" if "gate.valid sha xs" for xs
    proof
      assume "PStr GENESIS_HASH \<in> gate_own ` set xs"
      then obtain r where r: "r \<in> set xs" "gate_own r = PStr GENESIS_HASH" by force
      with that have "gate_sealed sha r" unfolding gate.valid_def by (blast intro: chain_from_sealed)
      with r(2) show False by (simp add: gate_sealed_def)
    qed
    have "rs = rs'"
    proof (rule gate.tip_determines [OF valid(1,2)])
      show "collision_free gate_own (set rs \<union> set rs')" using same by simp
      show "PStr GENESIS_HASH \<notin> gate_own ` (set rs \<union> set rs')" using fresh valid by (simp add: image_Un)
      show "chain_tip gate_own (PStr GENESIS_HASH) rs = chain_tip gate_own (PStr GENESIS_HASH) rs'"
        using t same valid(3,4) by (simp add: chain_tip_def)
    qed
    then show ?thesis by simp
  qed
qed


lemma recovery_idempotency_Nil:
  assumes "audit_trail sha False e rs"
  shows "idempotency_reasons replay (map PDict rs) = Inr [] \<longleftrightarrow>
     (\<exists>state. pget replay ''idempotency_state'' = PDict state
        \<and> is_str (pget state ''idempotency_key'') \<and> pget state ''idempotency_key'' \<noteq> PStr []
        \<and> strict_int (pget state ''committed_effect_count'') \<in> {Some 0, Some 1}
        \<and> py_eq (pget state ''duplicate_effect_count'') (PInt 0)
        \<and> (if event_type (last rs) ''terminal_state''
           then pget state ''terminal_state'' = terminal_of (last rs)
           else pget state ''terminal_state'' = PNone \<and> pget replay ''resume_safe'' = PBool True
                \<and> pget replay ''recovered'' = PBool False \<and> pget replay ''rollback_verified'' = PBool False))"
proof -
  have ne: "rs \<noteq> []" using assms by (simp add: audit_trail_def)
  then have final: "(if map PDict rs = [] then [] else as_dict (last (map PDict rs))) = last rs" by (simp add: last_map)
  have known: "hashed_in (terminal_of (last rs)) terminal_values = Inr True \<and> (\<exists>s. terminal_of (last rs) = PStr s)"
    if "event_type (last rs) ''terminal_state''"
  proof -
    have "terminal_of (last rs) \<in> set terminal_values" using assms that by (simp add: audit_trail_def)
    with hashed_terminal show ?thesis by (auto simp: terminal_values_def)
  qed
  show ?thesis
  proof (cases "pget replay ''idempotency_state''")
    case (PDict state)
    show ?thesis
    proof (cases "event_type (last rs) ''terminal_state''")
      case True
      with known obtain s where "terminal_of (last rs) = PStr s" "hashed_in (terminal_of (last rs)) terminal_values = Inr True"
        by blast
      with True PDict show ?thesis
        unfolding idempotency_reasons_def final by (simp add: Let_def py_eq_str_iff)
    next
      case False
      with PDict show ?thesis unfolding idempotency_reasons_def final by (simp add: Let_def)
    qed
  qed (simp_all add: idempotency_reasons_def)
qed

text \<open>C40. A recovery replay is accepted exactly when it names itself a recovery made from the audit, under
  the hash of its content, its records are a trail whose last hash is both heads it names, and its
  idempotency state fits the trail: a key, at most one effect, no duplicate, and the terminal state the
  trail ends with.  If the trail has not ended, the state claims none, and the replay is marked safe
  to resume and claims neither recovery nor rollback.\<close>

theorem p107_recovery_replay_exact:
  "accepts (validate_recovery_replay_contract sha replay) \<longleftrightarrow>
     (\<exists>replay_id. pget replay ''replay_id'' = PStr replay_id \<and> list_ex (py_startswith replay_id) RECOVERY_REPLAY_PREFIXES)
     \<and> pget replay ''purpose'' = PStr ''recovery_outcome'' \<and> pget replay ''source'' = PStr ''audit''
     \<and> full_sha (pget replay ''hash'') \<and> pget replay ''hash'' = PStr (compute_replay_hash sha replay)
     \<and> (\<exists>rs e state. pget replay ''audit_records'' = PList (map PDict rs) \<and> pget replay ''source_episode_id'' = PStr e
          \<and> audit_trail sha False e rs
          \<and> pget replay ''source_audit_head_hash'' = gate_own (last rs)
          \<and> pget replay ''expected_terminal_head_hash'' = gate_own (last rs)
          \<and> pget replay ''idempotency_state'' = PDict state
          \<and> is_str (pget state ''idempotency_key'') \<and> pget state ''idempotency_key'' \<noteq> PStr []
          \<and> strict_int (pget state ''committed_effect_count'') \<in> {Some 0, Some 1}
          \<and> py_eq (pget state ''duplicate_effect_count'') (PInt 0)
          \<and> (if event_type (last rs) ''terminal_state''
             then pget state ''terminal_state'' = terminal_of (last rs)
             else pget state ''terminal_state'' = PNone \<and> pget replay ''resume_safe'' = PBool True
                  \<and> pget replay ''recovered'' = PBool False \<and> pget replay ''rollback_verified'' = PBool False))"
    (is "_ \<longleftrightarrow> ?spec")
proof (cases "\<exists>rs e. pget replay ''audit_records'' = PList (map PDict rs) \<and> pget replay ''source_episode_id'' = PStr e
          \<and> audit_trail sha False e rs \<and> pget replay ''source_audit_head_hash'' = gate_own (last rs)
          \<and> pget replay ''expected_terminal_head_hash'' = gate_own (last rs)")
  case False
  then have no_spec: "\<not> ?spec" by blast
  obtain records no_list where records:
    "(case pget replay ''audit_records'' of PList rs \<Rightarrow> (rs, False) | _ \<Rightarrow> ([], True)) = (records, no_list)"
    by (cases rule: prod.exhaust)
  have "no_list \<or> audit_chain_reasons sha replay records ''recovery'' False \<noteq> Inr []"
    using False records chain_reasons_iff [of sha replay records "''recovery''" False]
    by (cases "pget replay ''audit_records''") auto
  then have "\<not> accepts (validate_recovery_replay_contract sha replay)"
    by (cases "audit_chain_reasons sha replay records ''recovery'' False"; cases "idempotency_reasons replay records")
       (auto simp: validate_recovery_replay_contract_def Let_def records accepts_result)
  with no_spec show ?thesis by blast
next
  case True
  then obtain rs e where rs: "pget replay ''audit_records'' = PList (map PDict rs)"
    "pget replay ''source_episode_id'' = PStr e" "audit_trail sha False e rs"
    "pget replay ''source_audit_head_hash'' = gate_own (last rs)"
    "pget replay ''expected_terminal_head_hash'' = gate_own (last rs)" by blast
  have chain: "audit_chain_reasons sha replay (map PDict rs) ''recovery'' False = Inr []"
    using rs by (auto simp: chain_reasons_iff)
  have "full_sha (gate_own (last rs))"
  proof -
    have "gate_sealed sha (last rs)"
      using rs(3) by (cases rs rule: rev_cases) (auto simp: audit_trail_def gate.valid_snoc)
    then show ?thesis unfolding gate_sealed_def ..
  qed
  then have "accepts (validate_recovery_replay_contract sha replay) \<longleftrightarrow>
     (\<exists>replay_id. pget replay ''replay_id'' = PStr replay_id \<and> list_ex (py_startswith replay_id) RECOVERY_REPLAY_PREFIXES)
     \<and> pget replay ''purpose'' = PStr ''recovery_outcome'' \<and> pget replay ''source'' = PStr ''audit''
     \<and> full_sha (pget replay ''hash'') \<and> pget replay ''hash'' = PStr (compute_replay_hash sha replay)
     \<and> idempotency_reasons replay (map PDict rs) = Inr []"
    using chain rs(1,4)
    by (cases "idempotency_reasons replay (map PDict rs)"; cases "pget replay ''replay_id''")
       (auto simp: validate_recovery_replay_contract_def Let_def accepts_result replay_hash_reasons_Nil py_eq_str_iff)
  moreover have "map PDict xs = map PDict ys \<longleftrightarrow> xs = ys" for xs ys :: "pydict list"
    using inj_map_eq_map [of PDict] by (simp add: inj_def)
  ultimately show ?thesis
    unfolding recovery_idempotency_Nil [OF rs(3)] using rs by auto
qed

end
