(* ===== verification/Prevention_Evidence_Demo.thy ===== *)
theory Prevention_Evidence_Demo
  imports Prevention_Audit Prevention_Outcome_Ledger Prevention_Replay_Gate
begin

text \<open>Concrete audit logs, outcome ledgers and replays, on which their theorems are applied.\<close>

section \<open>An audit log\<close>

definition demo_sha :: "string \<Rightarrow> string" where
  "demo_sha s = show_nat (length s)"

definition demo_record :: "string \<Rightarrow> jsonl_store \<Rightarrow> audit_record" where
  "demo_record state st =
    (let rs = (case read_audit True st of Inl _ \<Rightarrow> [] | Inr rs \<Rightarrow> rs) in
     AR_Mapping [(''sequence'', PInt (int (length rs) + 1)), (''state'', PStr state),
       (''parent_hash'', case expected_parent ''record_hash'' rs of Inl _ \<Rightarrow> PNone | Inr h \<Rightarrow> h)])"

definition demo_step :: "string \<Rightarrow> jsonl_store \<Rightarrow> jsonl_store" where
  "demo_step state st = fst (audit_append demo_sha (demo_record state st) st)"

definition demo_log :: jsonl_store where
  "demo_log = demo_step ''blocked_fail_closed'' (demo_step ''p106_recomputed'' (demo_step ''received'' empty_jsonl))"

definition demo_start :: jsonl_store where
  "demo_start = demo_step ''received'' empty_jsonl"

lemma demo_log_replays: "returns (\<lambda>r. ar_terminal_state r = ''blocked_fail_closed'') (replay_prevention_audit demo_sha False demo_log)"
  by code_simp

theorem p107_audit_complete_tamper_evident_witness:
  "\<exists>r rs p. replay_prevention_audit demo_sha False demo_log = Inr r
     \<and> js_lines demo_log = map (\<lambda>d. WL_Json (PDict d)) rs \<and> map record_state rs = ''received'' # p
     \<and> legal_path allowed_from ''received'' p \<and> last (''received'' # p) = ''blocked_fail_closed''"
proof -
  from demo_log_replays obtain r where r: "replay_prevention_audit demo_sha False demo_log = Inr r"
    "ar_terminal_state r = ''blocked_fail_closed''" by (auto simp: Inr_such_that)
  from p107_audit_complete_tamper_evident [OF r(1) r(1) order_refl]
  obtain rs p where "js_lines demo_log = map (\<lambda>d. WL_Json (PDict d)) rs" "map record_state rs = ''received'' # p"
    "legal_path allowed_from ''received'' p" "ar_terminal_state r = last (''received'' # p)" by (elim conjE exE)
  with r show ?thesis by (intro exI [of _ r] exI [of _ rs] exI [of _ p]) simp
qed

lemma demo_start_facts:
  "returns (\<lambda>r. ar_terminal_state r = ''received'' \<and> ar_record_count r = 1) (replay_prevention_audit demo_sha True demo_start)"
  "returns (\<lambda>rs. distinct (map (jsonl_own ''record_hash'') rs)) (read_audit True demo_start)"
  "returns (\<lambda>_. True) (snd (audit_append demo_sha (demo_record ''p106_recomputed'' demo_start) demo_start))"
  "''p106_recomputed'' \<in> set (allowed_from ''received'')"
  by code_simp+

theorem p107_audit_append_replays_witness:
  "\<exists>r. replay_prevention_audit demo_sha True (demo_step ''p106_recomputed'' demo_start) = Inr r
     \<and> ar_record_count r = 2 \<and> ar_terminal_state r = ''p106_recomputed''"
proof -
  let ?rec = "demo_record ''p106_recomputed'' demo_start"
  from demo_start_facts(1) obtain r where r: "replay_prevention_audit demo_sha True demo_start = Inr r"
    "ar_terminal_state r = ''received''" "ar_record_count r = 1" by (auto simp: Inr_such_that)
  from demo_start_facts(2) obtain rs where rs: "read_audit True demo_start = Inr rs"
    "distinct (map (jsonl_own ''record_hash'') rs)" by (auto simp: Inr_such_that)
  from demo_start_facts(3) obtain h
    where app: "audit_append demo_sha ?rec demo_start = (demo_step ''p106_recomputed'' demo_start, Inr h)"
    by (auto simp: Inr_such_that demo_step_def prod_eq_iff)
  obtain p where p: "record_payload ?rec = Inr p" "\<not> phas p ''record_hash''"
    "pget p ''expected_terminal_head_hash'' = PNone" "record_state p = ''p106_recomputed''"
    by (simp add: demo_record_def record_state_def Let_def)
  from p107_audit_append_replays [OF r(1) app p(1,2,3) rs] r(2,3) p(4) demo_start_facts(4) show ?thesis by auto
qed

section \<open>An outcome ledger\<close>

definition demo_entry :: "string \<Rightarrow> int \<Rightarrow> string \<Rightarrow> pydict" where
  "demo_entry ep seq parent =
     [(''episode_id'', PStr ep), (''idempotency_key'', PStr (''k'' @ ep)), (''sequence'', PInt seq),
      (''parent_hash'', PStr parent), (''p107_audit_head_hash'', PStr ''sha256:a''),
      (''p107_outcome_report_hash'', PStr ''sha256:b''), (''p107_release_replay_hash'', PStr ''sha256:c''),
      (''cross_phase_edges'', PDict (map (\<lambda>k. (k, PStr ''sha256:d'')) REQUIRED_CROSS_PHASE_EDGES)),
      (''temporal_cutoffs'', PDict [(''t'', PInt 1)]), (''outcome_payload'', PDict [(''ok'', PBool True)])]"

definition demo_inputs :: "outcome_input list" where
  "demo_inputs =
    (let first = demo_entry ''e'' 1 GENESIS_HASH in
     [OI_Mapping first, OI_Mapping (demo_entry ''ee'' 2 (computed_entry_hash demo_sha first))])"

definition demo_ledger :: "pydict list" where
  "demo_ledger = fst (append_all (ledger_append demo_sha) demo_inputs [])"

lemma demo_ledger_facts:
  "list_all input_text_ids demo_inputs"
  "length demo_ledger = 2" "distinct (map (jsonl_own ''entry_hash'') demo_ledger)"
  by code_simp+

theorem p108_store_refines_memory_witness:
  "\<exists>st outs r. append_all (store_append demo_sha) demo_inputs empty_jsonl = (st, outs)
     \<and> outs = snd (append_all (ledger_append demo_sha) demo_inputs [])
     \<and> replay_prevention_outcome_ledger demo_sha st = Inr r \<and> length (or_entries r) = 2"
proof -
  obtain outs where run: "append_all (ledger_append demo_sha) demo_inputs [] = (demo_ledger, outs)"
    unfolding demo_ledger_def by (metis prod.collapse)
  from p108_store_refines_memory [OF run demo_ledger_facts(1,3)] demo_ledger_facts(2) run
  show ?thesis by force
qed

lemma demo_store_replays:
  "returns (\<lambda>r. length (or_entries r) = 2 \<and> distinct (map (jsonl_own ''entry_hash'') (or_entries r)))
     (replay_prevention_outcome_ledger demo_sha (jsonl_of demo_ledger))"
  by code_simp

theorem p108_head_pins_ledger_witness:
  "\<exists>r. replay_prevention_outcome_ledger demo_sha (jsonl_of demo_ledger) = Inr r
     \<and> (\<forall>st r'. replay_prevention_outcome_ledger demo_sha st = Inr r' \<and> or_entries r' = or_entries r
          \<and> or_head_hash r' = or_head_hash r \<longrightarrow> js_lines st = js_lines (jsonl_of demo_ledger))"
proof -
  from demo_store_replays obtain r where r: "replay_prevention_outcome_ledger demo_sha (jsonl_of demo_ledger) = Inr r"
    "distinct (map (jsonl_own ''entry_hash'') (or_entries r))" by (auto simp: Inr_such_that)
  then have free: "collision_free (jsonl_own ''entry_hash'') (set (or_entries r))"
    by (simp add: collision_free_def distinct_map)
  show ?thesis
  proof (intro exI conjI allI impI)
    show "replay_prevention_outcome_ledger demo_sha (jsonl_of demo_ledger) = Inr r" by (rule r(1))
    fix st r'
    assume a: "replay_prevention_outcome_ledger demo_sha st = Inr r' \<and> or_entries r' = or_entries r
          \<and> or_head_hash r' = or_head_hash r"
    then have "collision_free (jsonl_own ''entry_hash'') (set (or_entries r') \<union> set (or_entries r))" using free by simp
    with a p108_head_pins_ledger [OF _ r(1)] show "js_lines st = js_lines (jsonl_of demo_ledger)" by blast
  qed
qed

theorem p108_one_outcome_per_episode_witness:
  "\<exists>r. replay_prevention_outcome_ledger demo_sha (jsonl_of demo_ledger) = Inr r \<and> length (or_entries r) = 2
     \<and> distinct (map (\<lambda>e. py_str (pget e ''episode_id'')) (or_entries r))"
proof -
  from demo_store_replays obtain r where r: "replay_prevention_outcome_ledger demo_sha (jsonl_of demo_ledger) = Inr r"
    "length (or_entries r) = 2" "distinct (map (jsonl_own ''entry_hash'') (or_entries r))" by (auto simp: Inr_such_that)
  with p108_one_outcome_per_episode [OF r(1,3)] show ?thesis by blast
qed

theorem p108_append_idempotent_witness:
  "\<exists>h. ledger_append demo_sha (hd demo_inputs) demo_ledger = (demo_ledger, Inr h)"
proof -
  have "returns (\<lambda>_. True) (snd (ledger_append demo_sha (hd demo_inputs) []))"
    "text_ids (demo_entry ''e'' 1 GENESIS_HASH)" by code_simp+
  then obtain es1 h where run: "ledger_append demo_sha (hd demo_inputs) [] = (es1, Inr h)"
    by (auto simp: Inr_such_that prod_eq_iff)
  have "entry_payload (hd demo_inputs) = Inr (demo_entry ''e'' 1 GENESIS_HASH)" by (simp add: demo_inputs_def Let_def)
  from p108_append_idempotent [OF run this, of "tl demo_inputs"] \<open>text_ids (demo_entry ''e'' 1 GENESIS_HASH)\<close>
  have "ledger_append demo_sha (hd demo_inputs) (fst (append_all (ledger_append demo_sha) (tl demo_inputs) es1))
      = (fst (append_all (ledger_append demo_sha) (tl demo_inputs) es1), Inr h)" by blast
  moreover have "fst (append_all (ledger_append demo_sha) (tl demo_inputs) es1) = demo_ledger"
    using run by (simp add: demo_ledger_def demo_inputs_def Let_def split: prod.splits)
  ultimately show ?thesis by simp
qed

section \<open>A release replay\<close>

definition gate_sha :: "string \<Rightarrow> string" where
  "gate_sha s = pad_left 64 (show_nat (length s))"

definition demo_event :: "int \<Rightarrow> string \<Rightarrow> pyval \<Rightarrow> pydict" where
  "demo_event seq kind prev =
    (let body = [(''sequence'', PInt seq), (''episode_id'', PStr ''e''), (''event_type'', PStr kind),
                 (''previous_hash'', prev), (''state'', PStr ''succeeded'')] in
     body @ [(''head_hash'', PStr (compute_audit_record_hash gate_sha body))])"

definition demo_trail :: "pydict list" where
  "demo_trail =
    (let a = demo_event 1 ''episode_started'' PNone; b = demo_event 2 ''attempt_recorded'' (gate_own a);
         c = demo_event 3 ''terminal_state'' (gate_own b) in [a, b, c])"

definition demo_replay :: pydict where
  "demo_replay =
    (let body = [(''purpose'', PStr ''release_regression''), (''source'', PStr ''audit''),
                 (''release_gates_passed'', PBool True), (''source_episode_id'', PStr ''e''),
                 (''source_audit_head_hash'', gate_own (last demo_trail)),
                 (''expected_terminal_head_hash'', gate_own (last demo_trail))] in
     body @ [(''hash'', PStr (compute_replay_hash gate_sha body))])"

lemma demo_release_accepted:
  "accepts (validate_release_replay_contract gate_sha demo_replay (map PDict demo_trail))"
  by code_simp

theorem p107_release_evidence_pinned_witness:
  "accepts (validate_release_replay_contract gate_sha demo_replay (map PDict demo_trail))
   \<and> \<not> (\<exists>replay rs. accepts (validate_release_replay_contract gate_sha replay (map PDict rs)) \<and> set rs \<subseteq> set demo_trail
          \<and> rs \<noteq> demo_trail)"
  using demo_release_accepted p107_release_evidence_pinned [OF demo_release_accepted] by blast

end
