(* ===== verification/Incident_States.thy ===== *)
theory Incident_States
  imports Mock_Actions Transition_Table
begin

text \<open>
  Stored incidents and their life cycle (\<open>app/services/state_machine.py\<close>, the columns of
  \<open>app/models/incident.py\<close> that the modelled services read or write).  \<open>transition_incident\<close> returns the
  changed incident and the timeline event its caller stores.
\<close>

section \<open>Incidents\<close>

record stored_action = action_proposal +
  sa_risk_level :: string
  sa_requires_approval :: bool
  sa_policy_decision :: string
  sa_policy_reasons :: "string list"
  sa_confidence :: "rat option"
  sa_escalation_required :: bool
  sa_escalation_decision :: "string option"
  sa_escalation_reason :: "string option"

record timeline_row =
  tr_actor :: string
  tr_event_type :: string
  tr_content :: string
  tr_metadata :: pydict

record stored_incident = incident +
  in_alert_fingerprint :: string
  in_status :: string
  in_severity :: string
  in_summary :: string
  in_root_cause :: "string option"
  in_confidence :: "rat option"
  in_actions :: "stored_action list"
  in_timeline :: "timeline_row list"

section \<open>Transitions\<close>

definition INCIDENT_TRANSITIONS :: "(string \<times> string list) list" where
  "INCIDENT_TRANSITIONS =
     [(''new'', [''queued'', ''investigating'', ''failed'']),
      (''queued'', [''investigating'', ''escalated'', ''failed'']),
      (''investigating'', [''needs_more_context'', ''action_proposed'', ''escalated'', ''failed'']),
      (''needs_more_context'', [''investigating'', ''escalated'', ''failed'']),
      (''action_proposed'', [''waiting_approval'', ''executing'', ''escalated'', ''failed'']),
      (''waiting_approval'', [''executing'', ''escalated'', ''failed'']),
      (''executing'', [''verifying'', ''escalated'', ''failed'']),
      (''verifying'', [''resolved'', ''degraded'', ''needs_human'', ''escalated'', ''failed'']),
      (''degraded'', [''needs_human'', ''escalated'', ''failed'']),
      (''needs_human'', [''escalated'', ''failed'']),
      (''resolved'', []),
      (''escalated'', [''investigating'', ''failed'']),
      (''false_positive'', []),
      (''failed'', [])]"

definition incident_next :: "string \<Rightarrow> string list" where
  "incident_next status = (case map_of INCIDENT_TRANSITIONS status of None \<Rightarrow> [] | Some ts \<Rightarrow> ts)"

definition incident_known :: "string \<Rightarrow> bool" where
  "incident_known s \<longleftrightarrow> s \<in> set (map fst INCIDENT_TRANSITIONS)"

definition incident_terminal :: "string \<Rightarrow> bool" where
  "incident_terminal s \<longleftrightarrow> s \<in> {''resolved'', ''false_positive'', ''failed''}"

definition transition_incident ::
    "stored_incident \<Rightarrow> string \<Rightarrow> string \<Rightarrow> string option \<Rightarrow> (stored_incident \<times> timeline_row) result" where
  "transition_incident inc target actor reason =
    (let previous = in_status inc in
     if target \<noteq> previous \<and> target \<notin> set (incident_next previous)
     then Inl (Raised ''InvalidStateTransition''
       (''cannot transition incident '' @ repr_str previous @ '' -> '' @ repr_str target))
     else Inr (inc\<lparr>in_status := target\<rparr>,
       \<lparr>tr_actor = actor, tr_event_type = ''state_transition'',
        tr_content = ''Incident moved from '' @ previous @ '' to '' @ target
          @ (case reason of Some (c # cs) \<Rightarrow> '': '' @ c # cs | _ \<Rightarrow> ''''),
        tr_metadata = [(''from'', PStr previous), (''to'', PStr target),
          (''reason'', case reason of None \<Rightarrow> PNone | Some r \<Rightarrow> PStr r)]\<rparr>))"

definition add_timeline_event :: "string \<Rightarrow> string \<Rightarrow> string \<Rightarrow> pydict \<Rightarrow> stored_incident \<Rightarrow> stored_incident" where
  "add_timeline_event actor event_type content metadata inc =
     inc\<lparr>in_timeline := in_timeline inc @
       [\<lparr>tr_actor = actor, tr_event_type = event_type, tr_content = content, tr_metadata = metadata\<rparr>]\<rparr>"

text \<open>\<open>db.add(transition_incident(...))\<close>.\<close>

definition move_incident :: "string \<Rightarrow> string \<Rightarrow> string \<Rightarrow> stored_incident \<Rightarrow> stored_incident result" where
  "move_incident target actor reason inc =
     rbind (transition_incident inc target actor (Some reason)) (\<lambda>(inc', event).
     Inr (inc'\<lparr>in_timeline := in_timeline inc' @ [event]\<rparr>))"

section \<open>The table\<close>

lemma incident_table:
  "list_all (\<lambda>(s, ts). list_all (\<lambda>t. t \<in> set (map fst INCIDENT_TRANSITIONS)) ts
      \<and> (ts = [] \<longleftrightarrow> s \<in> {''resolved'', ''false_positive'', ''failed''})) INCIDENT_TRANSITIONS"
  "list_all (\<lambda>s. s \<in> set (map fst INCIDENT_TRANSITIONS)) [''resolved'', ''false_positive'', ''failed'', ''new'']"
  by code_simp+

lemma incident_entry: "incident_known s \<Longrightarrow> (s, incident_next s) \<in> set INCIDENT_TRANSITIONS"
  by (auto simp: incident_known_def incident_next_def map_of_eq_None_iff dest: map_of_SomeD split: option.splits)

interpretation incidents: transition_table incident_next incident_known incident_terminal
proof
  fix s t
  assume t: "t \<in> set (incident_next s)"
  then have "map_of INCIDENT_TRANSITIONS s \<noteq> None"
    by (cases "map_of INCIDENT_TRANSITIONS s") (simp_all add: incident_next_def)
  then have "incident_known s" by (simp add: incident_known_def map_of_eq_None_iff)
  moreover from incident_entry [OF this] t incident_table(1) have "incident_known t"
    unfolding list_all_iff incident_known_def by fastforce
  ultimately show "incident_known s \<and> incident_known t" ..
next
  fix s
  show "incident_terminal s \<Longrightarrow> incident_known s"
    using incident_table(2) by (auto simp: incident_terminal_def incident_known_def)
  assume "incident_known s"
  from incident_entry [OF this] incident_table(1) show "incident_terminal s \<longleftrightarrow> incident_next s = []"
    unfolding list_all_iff incident_terminal_def by fastforce
qed

text \<open>Any calls, one after the other; a call that raises changes nothing.\<close>

fun incident_calls :: "(string \<times> string \<times> string option) list \<Rightarrow> stored_incident \<Rightarrow> stored_incident" where
  "incident_calls [] inc = inc"
| "incident_calls ((target, actor, reason) # cs) inc =
     incident_calls cs (case transition_incident inc target actor reason of Inl _ \<Rightarrow> inc | Inr (inc', _) \<Rightarrow> inc')"

lemma transition_status:
  "transition_incident inc target actor reason = Inr (inc', event) \<Longrightarrow>
     in_status inc' = target \<and> (target = in_status inc \<or> target \<in> set (incident_next (in_status inc)))"
  by (auto simp: transition_incident_def Let_def split: if_splits)

lemma incident_calls_path:
  "\<exists>p. legal_path incident_next (in_status inc) p \<and> in_status (incident_calls cs inc) = last (in_status inc # p)"
proof (induction cs inc rule: incident_calls.induct)
  case (1 inc)
  then show ?case by (intro exI [of _ "[]"]) simp
next
  case (2 target actor reason cs inc)
  show ?case
  proof (cases "transition_incident inc target actor reason")
    case (Inl x)
    with 2 show ?thesis by simp
  next
    case (Inr y)
    obtain inc' event where y: "y = (inc', event)" by (cases y)
    with Inr have tr: "transition_incident inc target actor reason = Inr (inc', event)" by simp
    from 2 [unfolded tr] obtain p where p: "legal_path incident_next (in_status inc') p"
      "in_status (incident_calls cs inc') = last (in_status inc' # p)" by auto
    from transition_status [OF tr] consider "in_status inc' = in_status inc"
      | "in_status inc' \<in> set (incident_next (in_status inc))" by auto
    then show ?thesis
    proof cases
      case 1
      with p show ?thesis by (intro exI [of _ p]) (simp add: tr)
    next
      case 2
      with p show ?thesis by (intro exI [of _ "in_status inc' # p"]) (simp add: tr)
    qed
  qed
qed

text \<open>An incident moves only along its table: after any calls, accepted or refused, its status is
  reached from its first one by allowed transitions, and is one of the fourteen; and an incident that
  is resolved, failed or a false positive keeps that status for good.\<close>

theorem incident_moves_along_table:
  assumes "incident_known (in_status inc)"
  shows "(\<exists>p. legal_path incident_next (in_status inc) p \<and> in_status (incident_calls cs inc) = last (in_status inc # p))
     \<and> incident_known (in_status (incident_calls cs inc))
     \<and> (incident_terminal (in_status inc) \<longrightarrow> in_status (incident_calls cs inc) = in_status inc)"
proof -
  from incident_calls_path [of inc cs] obtain p where p: "legal_path incident_next (in_status inc) p"
    "in_status (incident_calls cs inc) = last (in_status inc # p)" by blast
  then have "incident_known (in_status (incident_calls cs inc))"
    using incidents.path_known [OF assms p(1)] assms by (auto simp: list_all_iff)
  with p incidents.terminal_absorbing [of "in_status inc" p] show ?thesis by auto
qed

end
