(* ===== verification/Incident_Memory.thy ===== *)
theory Incident_Memory
  imports Incident_States
begin

text \<open>
  Incident memory (\<open>app/services/incident_memory.py\<close>): what earlier incidents of a workspace say about an
  action that is proposed again.  Scores are sums of multiples of 0.05 up to 1.0 and are kept in
  hundredths: the float sums the code forms round to these decimals and compare with 0.55 as they do.
\<close>

section \<open>Records\<close>

record memory_record =
  mr_incident_id :: string
  mr_service :: string
  mr_environment :: string
  mr_fingerprint :: string
  mr_root_cause :: string
  mr_runbook :: string
  mr_action_type :: string
  mr_outcome :: string
  mr_action_status :: string
  mr_confidence :: "rat option"
  mr_summary :: string

definition SUCCESS_ACTION_STATUSES :: "string list" where
  "SUCCESS_ACTION_STATUSES = [''executed'', ''approved'']"

definition FAILED_ACTION_STATUSES :: "string list" where
  "FAILED_ACTION_STATUSES = [''failed'', ''denied'', ''escalated'', ''rejected'']"

definition memory_scenario :: "stored_incident \<Rightarrow> string" where
  "memory_scenario inc =
    (let v = pget (in_alert_payload inc) ''scenario'' in if truthy v then py_str v else ''unknown'')"

definition action_outcome :: "string \<Rightarrow> string \<Rightarrow> string" where
  "action_outcome action_status incident_status =
     (if action_status \<in> set SUCCESS_ACTION_STATUSES \<and> incident_status = ''resolved'' then ''success''
      else if action_status \<in> set FAILED_ACTION_STATUSES \<or> incident_status \<in> {''escalated'', ''failed''} then ''failed''
      else ''unknown'')"

definition incident_outcome :: "string \<Rightarrow> string" where
  "incident_outcome status =
     (if status = ''resolved'' then ''success'' else if status \<in> {''escalated'', ''failed''} then ''failed'' else ''unknown'')"

definition record_for_action :: "stored_incident \<Rightarrow> stored_action \<Rightarrow> memory_record" where
  "record_for_action inc a =
     \<lparr>mr_incident_id = in_id inc, mr_service = in_service inc, mr_environment = in_environment inc,
      mr_fingerprint = in_alert_fingerprint inc,
      mr_root_cause = str_or (in_root_cause inc) (memory_scenario inc),
      mr_runbook = (let v = pget (ap_payload a) ''runbook'' in if truthy v then py_str v else memory_scenario inc),
      mr_action_type = ap_action_type a, mr_outcome = action_outcome (ap_status a) (in_status inc),
      mr_action_status = ap_status a,
      mr_confidence = (case sa_confidence a of None \<Rightarrow> in_confidence inc | Some x \<Rightarrow> Some x),
      mr_summary = in_summary inc\<rparr>"

definition records_from_incident :: "stored_incident \<Rightarrow> memory_record list" where
  "records_from_incident inc =
     (if in_actions inc = []
      then [\<lparr>mr_incident_id = in_id inc, mr_service = in_service inc, mr_environment = in_environment inc,
             mr_fingerprint = in_alert_fingerprint inc,
             mr_root_cause = str_or (in_root_cause inc) (memory_scenario inc),
             mr_runbook = memory_scenario inc, mr_action_type = ''none'',
             mr_outcome = incident_outcome (in_status inc), mr_action_status = in_status inc,
             mr_confidence = in_confidence inc, mr_summary = in_summary inc\<rparr>]
      else map (record_for_action inc) (in_actions inc))"

definition build_incident_memory :: "stored_incident list \<Rightarrow> string \<Rightarrow> string \<Rightarrow> string \<Rightarrow> memory_record list" where
  "build_incident_memory db tenant_id workspace_id exclude =
     concat (map records_from_incident
       (filter (\<lambda>i. in_tenant_id i = tenant_id \<and> in_workspace_id i = workspace_id \<and> in_id i \<noteq> exclude) db))"

section \<open>Similarity\<close>

text \<open>\<open>s.split()\<close>: the words between white space.\<close>

fun split_words :: "string \<Rightarrow> string \<Rightarrow> string list" where
  "split_words word [] = (if word = [] then [] else [word])"
| "split_words word (c # cs) =
     (if is_space c then (if word = [] then split_words [] cs else word # split_words [] cs)
      else split_words (word @ [c]) cs)"

definition tokens_of :: "string \<Rightarrow> string list" where
  "tokens_of s = filter (\<lambda>t. length t > 3) (split_words [] (py_replace ''_'' '' '' (py_lower s)))"

definition token_overlap :: "string \<Rightarrow> string \<Rightarrow> bool" where
  "token_overlap a b = list_ex (\<lambda>t. t \<in> set (tokens_of b)) (tokens_of a)"

record memory_hit =
  mh_record :: memory_record
  mh_score :: int
  mh_reasons :: "string list"
  mh_warnings :: "string list"

definition score_parts :: "memory_record \<Rightarrow> stored_incident \<Rightarrow> string option \<Rightarrow> (bool \<times> int \<times> string) list" where
  "score_parts r inc action_type =
     [(mr_service r = in_service inc, 35, ''same_service''),
      (mr_environment r = in_environment inc, 15, ''same_environment''),
      (mr_fingerprint r \<noteq> [] \<and> mr_fingerprint r = in_alert_fingerprint inc, 10, ''same_fingerprint''),
      (action_type = Some (mr_action_type r), 20, ''same_action_type''),
      (token_overlap (mr_root_cause r) (str_or (in_root_cause inc) (memory_scenario inc)), 20, ''similar_root_cause'')]"

definition score_record :: "memory_record \<Rightarrow> stored_incident \<Rightarrow> string option \<Rightarrow> memory_hit" where
  "score_record r inc action_type =
    (let parts = filter fst (score_parts r inc action_type); score = sum_list (map (fst \<circ> snd) parts) in
     \<lparr>mh_record = r, mh_score = min score 100, mh_reasons = map (snd \<circ> snd) parts,
      mh_warnings = (if mr_outcome r = ''failed'' \<and> (action_type = None \<or> action_type = Some (mr_action_type r)) \<and> score \<ge> 55
                     then [''prior_failed_remediation''] else [])\<rparr>)"

text \<open>\<open>sorted(..., reverse=True)\<close> keeps the order of equal scores.\<close>

definition search_similar_incidents :: "nat \<Rightarrow> memory_record list \<Rightarrow> stored_incident \<Rightarrow> string option \<Rightarrow> memory_hit list" where
  "search_similar_incidents limit records inc action_type =
     take limit (sort_key (\<lambda>m. - mh_score m)
       (filter (\<lambda>m. mh_score m > 0) (map (\<lambda>r. score_record r inc action_type) records)))"

definition failed_remediation_warning :: "memory_hit list \<Rightarrow> bool" where
  "failed_remediation_warning hits = list_ex (\<lambda>m. ''prior_failed_remediation'' \<in> set (mh_warnings m)) hits"

definition score_value :: "int \<Rightarrow> pyval" where
  "score_value n = (if n mod 100 = 0 then PFloat (n div 100) 0 else if n mod 10 = 0 then PFloat (n div 10) 1 else PFloat n 2)"

definition summarize_matches :: "memory_hit list \<Rightarrow> pyval" where
  "summarize_matches hits =
     PList (map (\<lambda>m. let r = mh_record m in PDict
       [(''incident_id'', PStr (mr_incident_id r)), (''score'', score_value (mh_score m)),
        (''service'', PStr (mr_service r)), (''environment'', PStr (mr_environment r)),
        (''root_cause'', PStr (mr_root_cause r)), (''action_type'', PStr (mr_action_type r)),
        (''outcome'', PStr (mr_outcome r)), (''reasons'', PList (map PStr (mh_reasons m))),
        (''warnings'', PList (map PStr (mh_warnings m)))]) hits)"

section \<open>Facts\<close>

lemma search_hits:
  assumes "length records \<le> limit" and "r \<in> set records" and "mh_score (score_record r inc action_type) > 0"
  shows "score_record r inc action_type \<in> set (search_similar_incidents limit records inc action_type)"
proof -
  let ?hits = "filter (\<lambda>m. mh_score m > 0) (map (\<lambda>r. score_record r inc action_type) records)"
  have "length ?hits \<le> limit" using assms(1) by (metis length_filter_le length_map order_trans)
  then have "search_similar_incidents limit records inc action_type = sort_key (\<lambda>m. - mh_score m) ?hits"
    by (simp add: search_similar_incidents_def)
  with assms(2,3) show ?thesis by simp
qed

text \<open>A failed use of the same action on the same service and in the same environment is a warning.\<close>

lemma failed_twin_warns:
  assumes "mr_outcome r = ''failed''" and "mr_service r = in_service inc" and "mr_environment r = in_environment inc"
  shows "mh_warnings (score_record r inc (Some (mr_action_type r))) = [''prior_failed_remediation'']"
    and "mh_score (score_record r inc (Some (mr_action_type r))) > 0"
  by (simp_all add: score_record_def score_parts_def assms)

text \<open>
  Only the five best matches are looked at: a failure ranks below any five incidents that are more
  alike, however they ended, and then gives no warning.
\<close>

lemma sorted_split:
  fixes f :: "'a \<Rightarrow> int"
  shows "sorted (map f xs) \<Longrightarrow> xs = filter (\<lambda>x. f x < k) xs @ filter (\<lambda>x. \<not> f x < k) xs"
proof (induction xs)
  case (Cons x xs)
  show ?case
  proof (cases "f x < k")
    case True
    with Cons show ?thesis by simp
  next
    case False
    with Cons.prems have "filter (\<lambda>x. f x < k) xs = []" "filter (\<lambda>x. \<not> f x < k) xs = xs"
      by (auto simp: filter_empty_conv filter_id_conv)
    with False show ?thesis by simp
  qed
qed simp

lemma failure_out_of_sight:
  assumes "length better \<ge> 5" and "mh_score (score_record r inc wanted) \<ge> 0"
    and "\<And>b. b \<in> set better \<Longrightarrow>
       mr_outcome b \<noteq> ''failed'' \<and> mh_score (score_record b inc wanted) > mh_score (score_record r inc wanted)"
  shows "\<not> failed_remediation_warning (search_similar_incidents 5 (r # better) inc wanted)"
proof -
  define hits where "hits = filter (\<lambda>m. mh_score m > 0) (map (\<lambda>r. score_record r inc wanted) (r # better))"
  define good where "good = filter (\<lambda>m. - mh_score m < - mh_score (score_record r inc wanted)) (sort_key (\<lambda>m. - mh_score m) hits)"
  have "length better \<le> length (filter (\<lambda>m. - mh_score m < - mh_score (score_record r inc wanted)) hits)"
  proof -
    have "filter (\<lambda>m. - mh_score m < - mh_score (score_record r inc wanted)) hits = map (\<lambda>r. score_record r inc wanted) better"
      using assms(2,3) unfolding hits_def filter_filter by (auto simp: filter_id_conv dest!: assms(3))
    then show ?thesis by simp
  qed
  also have "\<dots> = length good" by (simp add: good_def filter_sort)
  finally have five: "5 \<le> length good" using assms(1) by simp
  have "sort_key (\<lambda>m. - mh_score m) hits = good @ filter (\<lambda>m. \<not> - mh_score m < - mh_score (score_record r inc wanted)) (sort_key (\<lambda>m. - mh_score m) hits)"
    unfolding good_def by (rule sorted_split) simp
  then have "search_similar_incidents 5 (r # better) inc wanted = take 5 good"
    using five unfolding search_similar_incidents_def hits_def [symmetric] by (metis append_take_drop_id take_append take_all_iff diff_is_0_eq take_0 append_Nil2)
  moreover have "''prior_failed_remediation'' \<notin> set (mh_warnings m)" if "m \<in> set good" for m
  proof -
    from that have "mh_score m > mh_score (score_record r inc wanted)" "m \<in> set hits" by (auto simp: good_def)
    then obtain b where "b \<in> set better" "m = score_record b inc wanted"
      by (auto simp: hits_def split: if_splits)
    with assms(3) show ?thesis by (simp add: score_record_def Let_def)
  qed
  ultimately show ?thesis by (auto simp: failed_remediation_warning_def list_ex_iff dest!: in_set_takeD)
qed

end
