(* ===== verification/Redaction.thy ===== *)
theory Redaction
  imports Prelude
begin

text \<open>
  Redaction of stored and reported values (\<open>app/services/redaction.py\<close>).  The four patterns are kept as
  regular expressions; matching follows Python's \<open>re\<close>: alternatives in order, repetitions greedy and
  backtracking, the leftmost match first.  A cursor is the character before it, if any, and the text
  after it, which is what \<open>\b\<close> needs.
\<close>

section \<open>Matching\<close>

datatype rx =
    One "char \<Rightarrow> bool"
  | Many nat "char \<Rightarrow> bool"
  | Then rx rx
  | Either rx rx
  | Boundary

type_synonym cursor = "char option \<times> string"

text \<open>The characters of \<open>\w\<close>: letters, digits and \<open>_\<close>.\<close>

definition is_ascii_alnum :: "char \<Rightarrow> bool" where
  "is_ascii_alnum c = (let n = of_char (lower_char c) :: nat in (48 \<le> n \<and> n \<le> 57) \<or> (97 \<le> n \<and> n \<le> 122))"

definition is_word_char :: "char \<Rightarrow> bool" where
  "is_word_char c = (let n = of_char c :: nat in
     is_ascii_alnum c \<or> n = 95 \<or> n \<in> {170, 178, 179, 181, 185, 186, 188, 189, 190} \<or> (192 \<le> n \<and> n \<noteq> 215 \<and> n \<noteq> 247))"

text \<open>The cursors after none, one, two, ... characters of a class.\<close>

fun runs_of :: "(char \<Rightarrow> bool) \<Rightarrow> char option \<Rightarrow> string \<Rightarrow> cursor list" where
  "runs_of p b [] = [(b, [])]"
| "runs_of p b (c # s) = (b, c # s) # (if p c then runs_of p (Some c) s else [])"

fun rx_ends :: "rx \<Rightarrow> cursor \<Rightarrow> cursor list" where
  "rx_ends (One p) (b, s) = (case s of [] \<Rightarrow> [] | c # s' \<Rightarrow> if p c then [(Some c, s')] else [])"
| "rx_ends (Many n p) (b, s) = rev (drop n (runs_of p b s))"
| "rx_ends (Then r q) i = concat (map (rx_ends q) (rx_ends r i))"
| "rx_ends (Either r q) i = rx_ends r i @ rx_ends q i"
| "rx_ends Boundary (b, s) =
     (if (case b of None \<Rightarrow> False | Some c \<Rightarrow> is_word_char c) \<noteq> (case s of [] \<Rightarrow> False | c # _ \<Rightarrow> is_word_char c)
      then [(b, s)] else [])"

text \<open>
  \<open>pattern.sub(repl, text)\<close> for a pattern \<open>g t\<close> of which \<open>repl\<close> is given the part that \<open>g\<close> matched.  None
  of the patterns matches the empty text.
\<close>

definition rx_match :: "rx \<Rightarrow> rx \<Rightarrow> cursor \<Rightarrow> (cursor \<times> cursor) option" where
  "rx_match g t i =
     (case concat (map (\<lambda>j. map (Pair j) (rx_ends t j)) (rx_ends g i)) of [] \<Rightarrow> None | m # _ \<Rightarrow> Some m)"

function re_sub :: "rx \<Rightarrow> rx \<Rightarrow> (string \<Rightarrow> string) \<Rightarrow> char option \<Rightarrow> string \<Rightarrow> string" where
  "re_sub g t repl b [] = []"
| "re_sub g t repl b (c # s) =
     (case rx_match g t (b, c # s) of
        Some ((_, group_end), (e, rest)) \<Rightarrow>
          if length rest \<le> length s
          then repl (take (length (c # s) - length group_end) (c # s)) @ re_sub g t repl e rest
          else c # re_sub g t repl (Some c) s
      | None \<Rightarrow> c # re_sub g t repl (Some c) s)"
  by pat_completeness auto
termination
  by (relation "measure (\<lambda>(g, t, repl, b, s). length s)") auto

section \<open>Patterns\<close>

definition no_more :: rx where
  "no_more = Many 0 (\<lambda>_. False)"

text \<open>A word, in any case.\<close>

fun word_rx :: "string \<Rightarrow> rx" where
  "word_rx [] = no_more"
| "word_rx [c] = One (\<lambda>x. lower_char x = c)"
| "word_rx (c # d # s) = Then (One (\<lambda>x. lower_char x = c)) (word_rx (d # s))"

definition optional_dash :: rx where
  "optional_dash = Either (One (\<lambda>c. c \<in> set ''_-'')) no_more"

fun any_rx :: "rx list \<Rightarrow> rx" where
  "any_rx [] = One (\<lambda>_. False)"
| "any_rx [r] = r"
| "any_rx (r # q # rs) = Either r (any_rx (q # rs))"

definition BEARER_RE :: rx where
  "BEARER_RE = Then Boundary (Then (word_rx ''bearer'')
     (Then (Many 1 is_space) (Many 1 (\<lambda>c. is_ascii_alnum c \<or> c \<in> set ''._~+/=-''))))"

definition ASSIGNMENT_KEY :: rx where
  "ASSIGNMENT_KEY = Then Boundary (any_rx
     [Then (word_rx ''api'') (Then optional_dash (word_rx ''key'')), word_rx ''authorization'', word_rx ''dsn'',
      word_rx ''password'', word_rx ''secret'', Then (word_rx ''sentry'') (Then optional_dash (word_rx ''key'')),
      Then (word_rx ''sentry'') (Then optional_dash (word_rx ''secret'')),
      Then (Many 0 (\<lambda>c. is_ascii_alnum c \<or> c \<in> set ''_-'')) (word_rx ''token'')])"

definition ASSIGNMENT_VALUE :: rx where
  "ASSIGNMENT_VALUE = Then (One (\<lambda>c. c = CHR ''='')) (Many 1 (\<lambda>c. \<not> is_space c \<and> c \<notin> set '',;''))"

definition EMAIL_RE :: rx where
  "EMAIL_RE = Then Boundary (Then (Many 1 (\<lambda>c. is_ascii_alnum c \<or> c \<in> set ''._%+-''))
     (Then (One (\<lambda>c. c = CHR ''@'')) (Then (Many 1 (\<lambda>c. is_ascii_alnum c \<or> c \<in> set ''.-''))
     (Then (One (\<lambda>c. c = CHR ''.'')) (Then (Many 2 (\<lambda>c. is_ascii_alnum c \<and> c \<notin> set ''0123456789'')) Boundary)))))"

definition PROVIDER_TOKEN_RE :: rx where
  "PROVIDER_TOKEN_RE = Then Boundary (Then (Either
       (Then (word_rx ''sk_'') (Then (Either (word_rx ''live'') (word_rx ''test''))
          (Then (word_rx ''_'') (Many 1 (\<lambda>c. is_ascii_alnum c \<or> c \<in> set ''_=-'')))))
       (Then (word_rx ''xox'') (Then (One (\<lambda>c. lower_char c \<in> set ''baprs''))
          (Then (word_rx ''-'') (Many 1 (\<lambda>c. is_ascii_alnum c \<or> c = CHR ''-'')))))) Boundary)"

section \<open>Redaction\<close>

definition REDACTED :: string where
  "REDACTED = ''[REDACTED]''"

definition redact_text :: "string \<Rightarrow> string" where
  "redact_text s =
    (let s = re_sub BEARER_RE no_more (\<lambda>_. ''Bearer '' @ REDACTED) None s;
         s = re_sub ASSIGNMENT_KEY ASSIGNMENT_VALUE (\<lambda>key. key @ ''='' @ REDACTED) None s;
         s = re_sub PROVIDER_TOKEN_RE no_more (\<lambda>_. REDACTED) None s in
     re_sub EMAIL_RE no_more (\<lambda>_. REDACTED) None s)"

definition SENSITIVE_KEYS :: "string list" where
  "SENSITIVE_KEYS =
     [''api_key'', ''apikey'', ''authorization'', ''card_number'', ''cookie'', ''cvv'', ''password'', ''secret'', ''secret_name'',
      ''sentry_key'', ''sentry_secret'', ''token'']"

definition is_sensitive_key :: "string \<Rightarrow> bool" where
  "is_sensitive_key key =
    (let normalized = py_replace ''-'' ''_'' (py_lower key) in
     normalized \<in> set SENSITIVE_KEYS \<or> list_ex (py_endswith normalized) [''_key'', ''_token'', ''_secret'', ''_password''])"

fun redact_value :: "pyval \<Rightarrow> pyval" where
  "redact_value (PStr s) = PStr (redact_text s)"
| "redact_value (PDict d) = PDict (map (\<lambda>(k, v). (k, if is_sensitive_key k then PStr REDACTED else redact_value v)) d)"
| "redact_value (PList vs) = PList (map redact_value vs)"
| "redact_value v = v"

definition redact_dict :: "pydict \<Rightarrow> pydict" where
  "redact_dict d = as_dict (redact_value (PDict d))"

text \<open>
  The values under sensitive keys, at any depth, and the same value with others in their place.
\<close>

fun secrets_of :: "pyval \<Rightarrow> pyval list" where
  "secrets_of (PDict d) = concat (map (\<lambda>(k, v). if is_sensitive_key k then [v] else secrets_of v) d)"
| "secrets_of (PList vs) = concat (map secrets_of vs)"
| "secrets_of v = []"

fun other_secrets :: "(string \<Rightarrow> pyval \<Rightarrow> pyval) \<Rightarrow> pyval \<Rightarrow> pyval" where
  "other_secrets f (PDict d) = PDict (map (\<lambda>(k, v). (k, if is_sensitive_key k then f k v else other_secrets f v)) d)"
| "other_secrets f (PList vs) = PList (map (other_secrets f) vs)"
| "other_secrets f v = v"

section \<open>Facts\<close>

lemma runs_of_suffix: "(b', s') \<in> set (runs_of p b s) \<Longrightarrow> set s' \<subseteq> set s"
  by (induction p b s rule: runs_of.induct) (auto split: if_splits)

lemma rx_ends_suffix: "j \<in> set (rx_ends r i) \<Longrightarrow> set (snd j) \<subseteq> set (snd i)"
proof (induction r i arbitrary: j rule: rx_ends.induct)
  case (2 n p b s)
  then show ?case using runs_of_suffix [of "fst j" "snd j" p b s] by (auto dest: in_set_dropD)
next
  case (3 r q i)
  then obtain k where k: "k \<in> set (rx_ends r i)" "j \<in> set (rx_ends q k)" by auto
  from "3.IH"(2) [OF k] "3.IH"(1) [OF k(1)] show ?case by blast
next
  case (4 r q i)
  then have "j \<in> set (rx_ends r i) \<or> j \<in> set (rx_ends q i)" by simp
  with "4.IH" show ?case by blast
qed (auto split: list.splits if_splits)

text \<open>A pattern that needs a character of a class the text has none of.\<close>

lemma many_none: "\<forall>c \<in> set (snd i). \<not> p c \<Longrightarrow> rx_ends (Many 1 p) i = []"
  by (cases i; cases "snd i") auto

lemma needs_none:
  assumes "\<forall>c \<in> set (snd i). \<not> p c"
  shows "rx_ends (Then r (Then (Many 1 p) q)) i = []"
proof -
  have "rx_ends (Then (Many 1 p) q) j = []" if "j \<in> set (rx_ends r i)" for j
  proof -
    have "rx_ends (Many 1 p) j = []" using rx_ends_suffix [OF that] assms by (intro many_none) blast
    then show ?thesis by simp
  qed
  then show ?thesis by (simp del: rx_ends.simps(2))
qed

lemma re_sub_none: "(\<And>b s'. set s' \<subseteq> set s \<Longrightarrow> rx_ends g (b, s') = []) \<Longrightarrow> re_sub g t repl b s = s"
proof (induction s arbitrary: b)
  case (Cons c s)
  have "rx_match g t (b, c # s) = None" using Cons.prems [of "c # s" b] by (simp add: rx_match_def)
  with Cons show ?case by (simp add: subset_insertI2)
qed simp

lemma bearer_needs_space:
  assumes "\<forall>c \<in> set s. \<not> is_space c"
  shows "re_sub BEARER_RE t repl b s = s"
proof (rule re_sub_none)
  fix b s'
  assume "set s' \<subseteq> set s"
  then have "rx_ends (Then (word_rx ''bearer'') (Then (Many 1 is_space) q)) (b', s') = []" for b' q
    using assms by (intro needs_none) auto
  then show "rx_ends BEARER_RE (b, s') = []"
    by (simp only: BEARER_RE_def rx_ends.simps(3,5) list.map concat.simps append_Nil split: if_splits) simp
qed

lemma needs_one:
  assumes "\<forall>c \<in> set (snd i). \<not> p c"
  shows "rx_ends (Then r (Then (One p) q)) i = []"
proof -
  have "rx_ends (One p) j = []" if "j \<in> set (rx_ends r i)" for j
    using rx_ends_suffix [OF that] assms by (cases j; cases "snd j") auto
  then show ?thesis by simp
qed

lemma email_needs_at:
  assumes "\<forall>c \<in> set s. c \<noteq> CHR ''@''"
  shows "re_sub EMAIL_RE t repl b s = s"
proof (rule re_sub_none)
  fix b s'
  assume "set s' \<subseteq> set s"
  then have "rx_ends (Then (Many 1 r) (Then (One (\<lambda>c. c = CHR ''@'')) q)) (b', s') = []" for b' r q
    using assms by (intro needs_one) auto
  then show "rx_ends EMAIL_RE (b, s') = []"
    by (simp only: EMAIL_RE_def rx_ends.simps(3,5) list.map concat.simps append_Nil split: if_splits) simp
qed

lemma runs_of_last:
  "\<forall>c \<in> set s. p c \<Longrightarrow> \<exists>b'. last (runs_of p b s) = (b', [])"
  "runs_of p b s \<noteq> []"
  by (induction p b s rule: runs_of.induct) auto

lemma assigned_value:
  assumes "v \<noteq> []" and "\<forall>c \<in> set v. \<not> is_space c \<and> c \<notin> set '',;''"
  shows "\<exists>b' es. rx_ends ASSIGNMENT_VALUE (b, CHR ''='' # v) = (b', []) # es"
proof -
  let ?p = "\<lambda>c. \<not> is_space c \<and> c \<notin> set '',;''"
  obtain x xs where v: "v = x # xs" using assms(1) by (cases v) auto
  obtain b' where "last (runs_of ?p (Some x) xs) = (b', [])" using runs_of_last(1) [of xs ?p "Some x"] assms(2) v by auto
  then have "rev (runs_of ?p (Some x) xs) = (b', []) # tl (rev (runs_of ?p (Some x) xs))"
    using runs_of_last(2) [of ?p "Some x" xs] by (metis hd_Cons_tl hd_rev rev_is_Nil_conv)
  then show ?thesis using assms(2) v by (auto simp: ASSIGNMENT_VALUE_def)
qed

definition ASSIGNED_KEYS :: "string list" where
  "ASSIGNED_KEYS = [''api_key'', ''api-key'', ''apikey'', ''authorization'', ''dsn'', ''password'', ''secret'', ''sentry_key'',
     ''sentry_secret'', ''token'', ''access_token'', ''refresh-token'']"

lemma assigned_key:
  "list_all (\<lambda>key. rx_ends ASSIGNMENT_KEY (None, key @ ''='' @ v) = [(Some (last key), CHR ''='' # v)] \<and> key \<noteq> []
     \<and> list_all (\<lambda>c. \<not> is_space c) (key @ ''='')) ASSIGNED_KEYS"
  by code_simp

lemma assigned_key_stays:
  "list_all (\<lambda>key. re_sub PROVIDER_TOKEN_RE no_more (\<lambda>_. REDACTED) None (key @ ''='' @ REDACTED) = key @ ''='' @ REDACTED
     \<and> list_all (\<lambda>c. c \<noteq> CHR ''@'') (key @ ''='' @ REDACTED)) ASSIGNED_KEYS"
  by code_simp

text \<open>One assignment and nothing else.\<close>

lemma redact_one_assignment:
  assumes "key \<in> set ASSIGNED_KEYS" and "v \<noteq> []" and "\<forall>c \<in> set v. \<not> is_space c \<and> c \<notin> set '',;''"
  shows "redact_text (key @ ''='' @ v) = key @ ''=[REDACTED]''"
proof -
  from assigned_key [of v] assms(1) have key: "rx_ends ASSIGNMENT_KEY (None, key @ ''='' @ v) = [(Some (last key), CHR ''='' # v)]"
    "key \<noteq> []" "\<forall>c \<in> set (key @ ''=''). \<not> is_space c"
    by (auto simp: list_all_iff)
  have "re_sub BEARER_RE no_more (\<lambda>_. ''Bearer '' @ REDACTED) None (key @ ''='' @ v) = key @ ''='' @ v"
    using key(3) assms(3) by (intro bearer_needs_space) auto
  moreover obtain b' es where es: "rx_ends ASSIGNMENT_VALUE (Some (last key), CHR ''='' # v) = (b', []) # es"
    using assigned_value [OF assms(2,3)] by blast
  obtain c ks where ks: "key = c # ks" using key(2) by (cases key) auto
  have "rx_match ASSIGNMENT_KEY ASSIGNMENT_VALUE (None, key @ ''='' @ v) = Some ((Some (last key), CHR ''='' # v), (b', []))"
    unfolding rx_match_def key(1) by (simp add: es)
  then have "re_sub ASSIGNMENT_KEY ASSIGNMENT_VALUE (\<lambda>key. key @ ''='' @ REDACTED) None (key @ ''='' @ v) = key @ ''='' @ REDACTED"
    unfolding ks append_Cons by (simp add: ks)
  moreover from assigned_key_stays assms(1)
  have "re_sub PROVIDER_TOKEN_RE no_more (\<lambda>_. REDACTED) None (key @ ''='' @ REDACTED) = key @ ''='' @ REDACTED"
    and "\<forall>c \<in> set (key @ ''='' @ REDACTED). c \<noteq> CHR ''@''"
    unfolding list_all_iff by blast+
  moreover from this(2) have "re_sub EMAIL_RE no_more (\<lambda>_. REDACTED) None (key @ ''='' @ REDACTED) = key @ ''='' @ REDACTED"
    by (rule email_needs_at)
  ultimately show ?thesis by (simp add: redact_text_def Let_def REDACTED_def)
qed

text \<open>
  A text that goes on after a comma or a semicolon.  No pattern matches across either, so the rest is
  redacted as a text of its own.  First, a match depends on the character before it only by whether it
  is a word character.
\<close>

definition word_before :: "char option \<Rightarrow> bool" where
  "word_before b = (case b of None \<Rightarrow> False | Some c \<Rightarrow> is_word_char c)"

definition cursor_class :: "cursor \<Rightarrow> bool \<times> string" where
  "cursor_class i = (word_before (fst i), snd i)"

lemma map_by_class:
  assumes "map f xs = map f ys" and "\<And>x y. f x = f y \<Longrightarrow> g x = g y"
  shows "map g xs = map g ys"
  using assms(1)
proof (induction xs arbitrary: ys)
  case (Cons x xs)
  then obtain y zs where ys: "ys = y # zs" by (cases ys) auto
  with Cons.prems have "f x = f y" "map f xs = map f zs" by simp_all
  with ys Cons.IH assms(2) [of x y] show ?case by simp
qed simp

lemma runs_of_class:
  "word_before b = word_before b' \<Longrightarrow> map cursor_class (runs_of p b s) = map cursor_class (runs_of p b' s)"
  by (cases s) (simp_all add: cursor_class_def)

lemma rx_ends_class:
  "cursor_class i = cursor_class j \<Longrightarrow> map cursor_class (rx_ends r i) = map cursor_class (rx_ends r j)"
proof (induction r arbitrary: i j)
  case (One p)
  obtain b b' s where "i = (b, s)" "j = (b', s)" using One by (cases i; cases j) (simp add: cursor_class_def)
  then show ?case by (cases s) simp_all
next
  case (Many n p)
  obtain b b' s where i: "i = (b, s)" "j = (b', s)" "word_before b = word_before b'"
    using Many by (cases i; cases j) (simp add: cursor_class_def)
  have "map cursor_class (rev (drop n (runs_of p c s))) = rev (drop n (map cursor_class (runs_of p c s)))" for c
    by (simp add: rev_map drop_map)
  then show ?case using runs_of_class [OF i(3), of p s] i(1,2) by simp
next
  case (Then r q)
  have "map (\<lambda>k. map cursor_class (rx_ends q k)) (rx_ends r i) = map (\<lambda>k. map cursor_class (rx_ends q k)) (rx_ends r j)"
    by (rule map_by_class [OF Then.IH(1) [OF Then.prems] Then.IH(2)])
  then show ?case by (simp add: map_concat o_def)
next
  case (Either r q)
  show ?case by (simp add: Either.IH(1) [OF Either.prems] Either.IH(2) [OF Either.prems])
next
  case Boundary
  then show ?case by (cases i; cases j) (simp add: cursor_class_def word_before_def)
qed

definition match_class :: "cursor \<times> cursor \<Rightarrow> string \<times> bool \<times> string" where
  "match_class m = (snd (fst m), cursor_class (snd m))"

lemma first_class:
  "map f xs = map f ys \<Longrightarrow>
     map_option f (case xs of [] \<Rightarrow> None | m # _ \<Rightarrow> Some m) = map_option f (case ys of [] \<Rightarrow> None | m # _ \<Rightarrow> Some m)"
  by (cases xs; cases ys) simp_all

lemma rx_match_class:
  assumes "cursor_class i = cursor_class j"
  shows "map_option match_class (rx_match g t i) = map_option match_class (rx_match g t j)"
proof -
  have "map match_class (map (Pair x) (rx_ends t x)) = map match_class (map (Pair y) (rx_ends t y))"
    if "cursor_class x = cursor_class y" for x y
  proof -
    have "snd x = snd y" using that by (simp add: cursor_class_def)
    moreover have "match_class \<circ> Pair z = (\<lambda>e. (snd z, e)) \<circ> cursor_class" for z by (auto simp: match_class_def)
    ultimately show ?thesis using rx_ends_class [OF that, of t] by (metis map_map)
  qed
  then have "map (\<lambda>k. map match_class (map (Pair k) (rx_ends t k))) (rx_ends g i)
      = map (\<lambda>k. map match_class (map (Pair k) (rx_ends t k))) (rx_ends g j)"
    by (rule map_by_class [OF rx_ends_class [OF assms]])
  then have "map match_class (concat (map (\<lambda>k. map (Pair k) (rx_ends t k)) (rx_ends g i)))
      = map match_class (concat (map (\<lambda>k. map (Pair k) (rx_ends t k)) (rx_ends g j)))" by (simp only: map_concat map_map o_def)
  then show ?thesis unfolding rx_match_def by (rule first_class)
qed

lemma re_sub_class: "word_before b = word_before b' \<Longrightarrow> re_sub g t repl b s = re_sub g t repl b' s"
proof (induction "length s" arbitrary: b b' s rule: less_induct)
  case less
  show ?case
  proof (cases s)
    case (Cons c s')
    have same: "map_option match_class (rx_match g t (b, s)) = map_option match_class (rx_match g t (b', s))"
      using less.prems by (intro rx_match_class) (simp add: cursor_class_def)
    show ?thesis
    proof (cases "rx_match g t (b, s)")
      case None
      with same have "rx_match g t (b', s) = None" by simp
      with None Cons show ?thesis by simp
    next
      case (Some m)
      then obtain j ge e rest where m: "rx_match g t (b, c # s') = Some ((j, ge), (e, rest))" using Cons by (metis prod.collapse)
      with same Cons obtain j' e' where m': "rx_match g t (b', c # s') = Some ((j', ge), (e', rest))"
        and e: "word_before e = word_before e'"
        by (cases "rx_match g t (b', c # s')") (auto simp: match_class_def cursor_class_def)
      have "re_sub g t repl e rest = re_sub g t repl e' rest" if "length rest \<le> length s'"
        using less.hyps [OF _ e, of rest] that Cons by simp
      with m m' show ?thesis unfolding Cons by simp
    qed
  qed simp
qed


text \<open>A cursor before the separator \<open>c\<close>, with only characters of \<open>P\<close> up to it.\<close>

definition short_of :: "(char \<Rightarrow> bool) \<Rightarrow> char \<Rightarrow> string \<Rightarrow> cursor \<Rightarrow> bool" where
  "short_of P c rest i \<longleftrightarrow> (\<exists>u. snd i = u @ c # rest \<and> (\<forall>x \<in> set u. P x))"

lemma short_ofE:
  assumes "short_of P c rest i"
  obtains b u where "i = (b, u @ c # rest)" "\<forall>x \<in> set u. P x"
  using assms by (cases i) (auto simp: short_of_def)

lemma runs_short_of:
  "j \<in> set (runs_of p b (u @ c # rest)) \<Longrightarrow> \<not> p c \<Longrightarrow> \<forall>x \<in> set u. P x \<Longrightarrow> short_of P c rest j"
proof (induction u arbitrary: b)
  case Nil
  then have "snd j = [] @ c # rest" by simp
  then show ?case unfolding short_of_def by (intro exI [of _ "[]"]) simp
next
  case (Cons x u)
  show ?case
  proof (cases "j = (b, (x # u) @ c # rest)")
    case True
    with Cons.prems(3) show ?thesis unfolding short_of_def by (intro exI [of _ "x # u"]) simp
  next
    case False
    with Cons.prems(1) have "j \<in> set (runs_of p (Some x) (u @ c # rest))" by (auto split: if_splits)
    with Cons show ?thesis by simp
  qed
qed

lemma many_short_of:
  assumes "short_of P c rest i" and "\<not> p c" and "j \<in> set (rx_ends (Many n p) i)"
  shows "short_of P c rest j"
  using assms(1)
proof (rule short_ofE)
  fix b u
  assume "i = (b, u @ c # rest)" "\<forall>x \<in> set u. P x"
  with assms(2,3) runs_short_of [of j p b u c rest P] show ?thesis by (auto dest: in_set_dropD)
qed

lemma one_short_of:
  assumes "short_of P c rest i" and "\<not> p c" and "j \<in> set (rx_ends (One p) i)"
  shows "short_of P c rest j"
  using assms(1)
proof (rule short_ofE)
  fix b u
  assume i: "i = (b, u @ c # rest)" and u: "\<forall>x \<in> set u. P x"
  from assms(2,3) i obtain x v where "u = x # v" by (cases u) auto
  with i u assms(3) show ?thesis by (auto simp: short_of_def split: if_splits)
qed

lemma word_short_of:
  "short_of P c rest i \<Longrightarrow> \<forall>x \<in> set w. lower_char c \<noteq> x \<Longrightarrow> j \<in> set (rx_ends (word_rx w) i) \<Longrightarrow> short_of P c rest j"
proof (induction w arbitrary: i rule: word_rx.induct)
  case 1
  then show ?case by (intro many_short_of [of P c rest i "\<lambda>_. False" j 0]) (simp_all add: no_more_def)
next
  case (2 x)
  then show ?case by (intro one_short_of [of P c rest i "\<lambda>y. lower_char y = x" j]) simp_all
next
  case (3 x y s)
  then obtain k where k: "k \<in> set (rx_ends (One (\<lambda>z. lower_char z = x)) i)" "j \<in> set (rx_ends (word_rx (y # s)) k)" by auto
  have "short_of P c rest k" by (rule one_short_of [OF 3(2) _ k(1)]) (use 3(3) in simp)
  from 3(1) [OF this _ k(2)] 3(3) show ?case by simp
qed

text \<open>A pattern that comes to a class of which nothing is left before the separator.\<close>

lemma then_stuck: "(\<And>j. j \<in> set (rx_ends r i) \<Longrightarrow> rx_ends q j = []) \<Longrightarrow> rx_ends (Then r q) i = []"
  by simp

lemma one_stuck: "short_of P c rest i \<Longrightarrow> (\<And>x. P x \<Longrightarrow> \<not> p x) \<Longrightarrow> \<not> p c \<Longrightarrow> rx_ends (One p) i = []"
  by (erule short_ofE, rename_tac b u, case_tac u) auto

lemma many_stuck: "short_of P c rest i \<Longrightarrow> (\<And>x. P x \<Longrightarrow> \<not> p x) \<Longrightarrow> \<not> p c \<Longrightarrow> rx_ends (Many 1 p) i = []"
  by (erule short_ofE, rename_tac b u, case_tac u) auto

lemma stuck_then: "rx_ends r i = [] \<Longrightarrow> rx_ends (Then r q) i = []"
  by simp

lemma re_sub_up_to:
  assumes "\<And>b v u'. u = v @ u' \<Longrightarrow> rx_ends g (b, u' @ c # rest) = []" and "\<not> is_word_char c"
  shows "re_sub g t repl b (u @ c # rest) = u @ c # re_sub g t repl None rest"
  using assms(1)
proof (induction u arbitrary: b)
  case Nil
  have "re_sub g t repl (Some c) rest = re_sub g t repl None rest"
    using assms(2) by (intro re_sub_class) (simp add: word_before_def)
  with Nil [of "[]" "[]" b] show ?case by (simp add: rx_match_def)
next
  case (Cons x u)
  have "rx_match g t (b, x # u @ c # rest) = None" using Cons.prems [of "[]" "x # u" b] by (simp add: rx_match_def)
  moreover have "rx_ends g (b', u' @ c # rest) = []" if "u = v @ u'" for b' v u' using Cons.prems [of "x # v" u' b'] that by simp
  ultimately show ?case using Cons.IH [of "Some x"] by simp
qed

lemma separators: "c \<in> set '',;'' \<Longrightarrow> \<not> is_space c \<and> \<not> is_word_char c \<and> lower_char c \<notin> set ''bearer''
    \<and> \<not> is_ascii_alnum c \<and> c \<notin> set ''._%+-'' \<and> c \<noteq> CHR ''@''"
proof -
  have "list_all (\<lambda>c. \<not> is_space c \<and> \<not> is_word_char c \<and> lower_char c \<notin> set ''bearer''
    \<and> \<not> is_ascii_alnum c \<and> c \<notin> set ''._%+-'' \<and> c \<noteq> CHR ''@'') '',;''" by code_simp
  then show "c \<in> set '',;'' \<Longrightarrow> \<not> is_space c \<and> \<not> is_word_char c \<and> lower_char c \<notin> set ''bearer''
    \<and> \<not> is_ascii_alnum c \<and> c \<notin> set ''._%+-'' \<and> c \<noteq> CHR ''@''" by (auto simp: list_all_iff)
qed

lemma bearer_up_to:
  assumes "c \<in> set '',;''" and "\<forall>x \<in> set u. \<not> is_space x"
  shows "re_sub BEARER_RE t repl b (u @ c # rest) = u @ c # re_sub BEARER_RE t repl None rest"
proof (rule re_sub_up_to)
  note c = separators [OF assms(1)]
  fix b v u'
  assume "u = v @ u'"
  then have start: "short_of (\<lambda>x. \<not> is_space x) c rest (b, u' @ c # rest)" using assms(2) by (auto simp: short_of_def)
  have "rx_ends (Then (word_rx ''bearer'') (Then (Many 1 is_space) q)) (b, u' @ c # rest) = []" for q
  proof (rule then_stuck)
    fix j
    assume "j \<in> set (rx_ends (word_rx ''bearer'') (b, u' @ c # rest))"
    with word_short_of [OF start, of "''bearer''"] c have "short_of (\<lambda>x. \<not> is_space x) c rest j" by blast
    then show "rx_ends (Then (Many 1 is_space) q) j = []" using c by (intro stuck_then many_stuck) auto
  qed
  then show "rx_ends BEARER_RE (b, u' @ c # rest) = []"
    by (simp only: BEARER_RE_def rx_ends.simps(3,5) list.map concat.simps append_Nil split: if_splits) simp
qed (use separators [OF assms(1)] in blast)

lemma email_up_to:
  assumes "c \<in> set '',;''" and "\<forall>x \<in> set u. x \<noteq> CHR ''@''"
  shows "re_sub EMAIL_RE t repl b (u @ c # rest) = u @ c # re_sub EMAIL_RE t repl None rest"
proof (rule re_sub_up_to)
  note c = separators [OF assms(1)]
  fix b v u'
  assume "u = v @ u'"
  then have start: "short_of (\<lambda>x. x \<noteq> CHR ''@'') c rest (b, u' @ c # rest)" using assms(2) by (auto simp: short_of_def)
  have "rx_ends (Then (Many 1 (\<lambda>c. is_ascii_alnum c \<or> c \<in> set ''._%+-'')) (Then (One (\<lambda>c. c = CHR ''@'')) q)) (b, u' @ c # rest) = []" for q
  proof (rule then_stuck)
    fix j
    assume j: "j \<in> set (rx_ends (Many 1 (\<lambda>c. is_ascii_alnum c \<or> c \<in> set ''._%+-'')) (b, u' @ c # rest))"
    have "short_of (\<lambda>x. x \<noteq> CHR ''@'') c rest j" by (rule many_short_of [OF start _ j]) (use c in blast)
    then have "rx_ends (One (\<lambda>c. c = CHR ''@'')) j = []" by (rule one_stuck) (use c in blast)+
    then show "rx_ends (Then (One (\<lambda>c. c = CHR ''@'')) q) j = []" by (rule stuck_then)
  qed
  then show "rx_ends EMAIL_RE (b, u' @ c # rest) = []"
    by (simp only: EMAIL_RE_def rx_ends.simps(3,5) list.map concat.simps append_Nil split: if_splits) simp
qed (use separators [OF assms(1)] in blast)

lemma runs_of_up_to:
  "\<forall>x \<in> set s. p x \<Longrightarrow> \<not> p c \<Longrightarrow> \<exists>b'. last (runs_of p b (s @ c # rest)) = (b', c # rest)"
proof (induction s arbitrary: b)
  case (Cons x s)
  from Cons.prems have "\<forall>x \<in> set s. p x" by simp
  from Cons.IH [OF this Cons.prems(2)] obtain b' where "last (runs_of p (Some x) (s @ c # rest)) = (b', c # rest)" by blast
  moreover have "runs_of p (Some x) (s @ c # rest) \<noteq> []" by (cases s) simp_all
  ultimately show ?case using Cons.prems by simp
qed simp

lemma provider_stuck:
  assumes "take 3 (map lower_char s) \<notin> {''sk_'', ''xox''}"
  shows "rx_ends PROVIDER_TOKEN_RE (b, s) = []"
proof -
  have word: "rx_ends (Then (word_rx w) q) (b', s) = []" if "w = ''sk_'' \<or> w = ''xox''" for b' w q
    using assms that by (cases s; cases "tl s"; cases "tl (tl s)") auto
  have "rx_ends (Then (Either (Then (word_rx ''sk_'') q) (Then (word_rx ''xox'') q')) r) (b', s) = []" for q q' r b'
    by (rule stuck_then) (simp only: rx_ends.simps(4) word append_Nil simp_thms)
  then show ?thesis
    by (simp only: PROVIDER_TOKEN_RE_def rx_ends.simps(3,5) list.map concat.simps append_Nil split: if_splits) simp
qed

lemma provider_free:
  "list_all (\<lambda>c. list_all (\<lambda>key. list_all (\<lambda>n. take 3 (map lower_char (drop n (key @ ''='' @ REDACTED) @ c # rest)) \<notin> {''sk_'', ''xox''})
     [0..<Suc (length (key @ ''='' @ REDACTED))]) ASSIGNED_KEYS) '',;''"
  by code_simp

lemma provider_up_to:
  assumes "c \<in> set '',;''" and "key \<in> set ASSIGNED_KEYS"
  shows "re_sub PROVIDER_TOKEN_RE t repl b ((key @ ''='' @ REDACTED) @ c # rest)
    = (key @ ''='' @ REDACTED) @ c # re_sub PROVIDER_TOKEN_RE t repl None rest"
proof (rule re_sub_up_to)
  fix b v u'
  assume u: "key @ ''='' @ REDACTED = v @ u'"
  from provider_free [of rest] assms have "\<forall>n \<in> set [0..<Suc (length (key @ ''='' @ REDACTED))].
      take 3 (map lower_char (drop n (key @ ''='' @ REDACTED) @ c # rest)) \<notin> {''sk_'', ''xox''}"
    unfolding list_all_iff by blast
  from bspec [OF this, of "length v"] show "rx_ends PROVIDER_TOKEN_RE (b, u' @ c # rest) = []"
    unfolding u by (intro provider_stuck) simp
qed (use separators [OF assms(1)] in blast)

lemma value_up_to:
  assumes "v \<noteq> []" and "\<forall>x \<in> set v. \<not> is_space x \<and> x \<notin> set '',;''" and "c \<in> set '',;''"
  shows "\<exists>b' es. rx_ends ASSIGNMENT_VALUE (b, CHR ''='' # v @ c # rest) = (b', c # rest) # es"
proof -
  let ?p = "\<lambda>c. \<not> is_space c \<and> c \<notin> set '',;''"
  obtain x xs where v: "v = x # xs" using assms(1) by (cases v) auto
  have "\<forall>x \<in> set xs. ?p x" "\<not> ?p c" "?p x" using assms(2,3) v by auto
  from runs_of_up_to [OF this(1,2)] obtain b' where "last (runs_of ?p (Some x) (xs @ c # rest)) = (b', c # rest)" by blast
  moreover have "runs_of ?p (Some x) (xs @ c # rest) \<noteq> []" by (rule runs_of_last(2))
  ultimately have "rev (runs_of ?p (Some x) (xs @ c # rest)) = (b', c # rest) # tl (rev (runs_of ?p (Some x) (xs @ c # rest)))"
    by (metis hd_Cons_tl hd_rev rev_is_Nil_conv)
  with \<open>?p x\<close> show ?thesis by (auto simp: ASSIGNMENT_VALUE_def v)
qed

lemma no_key_at_separator:
  "list_all (\<lambda>c. rx_ends ASSIGNMENT_KEY (None, c # rest) = [] \<and> rx_ends ASSIGNMENT_KEY (Some CHR ''a'', c # rest) = []) '',;''
     \<and> is_word_char CHR ''a''"
  by code_simp

lemma redact_assignment_then:
  assumes "key \<in> set ASSIGNED_KEYS" and "v \<noteq> []" and "\<forall>x \<in> set v. \<not> is_space x \<and> x \<notin> set '',;''" and "c \<in> set '',;''"
  shows "redact_text (key @ ''='' @ v @ c # rest) = key @ ''=[REDACTED]'' @ c # redact_text rest"
proof -
  obtain R1 where R1: "re_sub BEARER_RE no_more (\<lambda>_. ''Bearer '' @ REDACTED) None rest = R1" by simp
  let ?R2 = "re_sub ASSIGNMENT_KEY ASSIGNMENT_VALUE (\<lambda>key. key @ ''='' @ REDACTED) None R1"
  let ?R3 = "re_sub PROVIDER_TOKEN_RE no_more (\<lambda>_. REDACTED) None ?R2"
  from assigned_key [of "v @ c # R1"] assms(1) have key:
    "rx_ends ASSIGNMENT_KEY (None, key @ ''='' @ v @ c # R1) = [(Some (last key), CHR ''='' # v @ c # R1)]"
    "key \<noteq> []" "\<forall>x \<in> set (key @ ''=''). \<not> is_space x"
    by (auto simp: list_all_iff)
  have 1: "re_sub BEARER_RE no_more (\<lambda>_. ''Bearer '' @ REDACTED) None (key @ ''='' @ v @ c # rest) = key @ ''='' @ v @ c # R1"
  proof -
    have "\<forall>x \<in> set (key @ ''='' @ v). \<not> is_space x" using key(3) assms(3) by auto
    from bearer_up_to [OF assms(4) this] R1 show ?thesis unfolding append_assoc by metis
  qed
  obtain b' es where es: "rx_ends ASSIGNMENT_VALUE (Some (last key), CHR ''='' # v @ c # R1) = (b', c # R1) # es"
    using value_up_to [OF assms(2-4)] by blast
  obtain x ks where ks: "key = x # ks" using key(2) by (cases key) auto
  have "rx_match ASSIGNMENT_KEY ASSIGNMENT_VALUE (None, key @ ''='' @ v @ c # R1)
      = Some ((Some (last key), CHR ''='' # v @ c # R1), (b', c # R1))"
    unfolding rx_match_def key(1) by (simp add: es)
  then have "re_sub ASSIGNMENT_KEY ASSIGNMENT_VALUE (\<lambda>key. key @ ''='' @ REDACTED) None (key @ ''='' @ v @ c # R1)
      = key @ ''='' @ REDACTED @ re_sub ASSIGNMENT_KEY ASSIGNMENT_VALUE (\<lambda>key. key @ ''='' @ REDACTED) b' (c # R1)"
    unfolding ks append_Cons by (simp add: ks)
  also have "re_sub ASSIGNMENT_KEY ASSIGNMENT_VALUE (\<lambda>key. key @ ''='' @ REDACTED) b' (c # R1) = c # ?R2"
  proof -
    have "\<exists>b. (b = None \<or> b = Some CHR ''a'') \<and> word_before b' = word_before b"
    proof (cases "word_before b'")
      case True
      with no_key_at_separator have "word_before b' = word_before (Some CHR ''a'')" by (simp add: word_before_def)
      then show ?thesis by blast
    next
      case False
      then have "word_before b' = word_before None" by (simp add: word_before_def)
      then show ?thesis by blast
    qed
    then obtain b where b: "b = None \<or> b = Some CHR ''a''" "word_before b' = word_before b" by blast
    then have "cursor_class (b', c # R1) = cursor_class (b, c # R1)" by (simp add: cursor_class_def)
    from rx_ends_class [OF this, of ASSIGNMENT_KEY] no_key_at_separator [of R1] b(1) assms(4)
    have "rx_ends ASSIGNMENT_KEY (b', c # R1) = []" by (auto simp: list_all_iff)
    then have "re_sub ASSIGNMENT_KEY ASSIGNMENT_VALUE (\<lambda>key. key @ ''='' @ REDACTED) b' (c # R1)
        = c # re_sub ASSIGNMENT_KEY ASSIGNMENT_VALUE (\<lambda>key. key @ ''='' @ REDACTED) (Some c) R1" by (simp add: rx_match_def)
    moreover have "word_before (Some c) = word_before None" using separators [OF assms(4)] by (simp add: word_before_def)
    ultimately show ?thesis using re_sub_class by metis
  qed
  finally have 2: "re_sub ASSIGNMENT_KEY ASSIGNMENT_VALUE (\<lambda>key. key @ ''='' @ REDACTED) None (key @ ''='' @ v @ c # R1)
      = key @ ''='' @ REDACTED @ c # ?R2" .
  have 3: "re_sub PROVIDER_TOKEN_RE no_more (\<lambda>_. REDACTED) None (key @ ''='' @ REDACTED @ c # ?R2) = key @ ''='' @ REDACTED @ c # ?R3"
    using provider_up_to [OF assms(4,1)] by simp
  have "\<forall>x \<in> set (key @ ''='' @ REDACTED). x \<noteq> CHR ''@''"
    using assigned_key_stays assms(1) unfolding list_all_iff by blast
  from email_up_to [OF assms(4) this] have
    4: "re_sub EMAIL_RE no_more (\<lambda>_. REDACTED) None (key @ ''='' @ REDACTED @ c # ?R3)
      = key @ ''='' @ REDACTED @ c # re_sub EMAIL_RE no_more (\<lambda>_. REDACTED) None ?R3" by simp
  show ?thesis by (simp only: redact_text_def Let_def 1 2 3 4 R1) (simp add: REDACTED_def)
qed

text \<open>C35. A secret assigned at the start of a text is not kept: for the twelve listed keys of the assignment
  pattern in lower case, and a value of any characters but white space, comma and semicolon, the text
  \<open>key=value\<close> becomes the key and the mark; and if the value is followed by a comma or a semicolon, what
  comes after is redacted as a text of its own, so that a list of assignments loses every value.\<close>

theorem redaction_hides_assignments:
  assumes "key \<in> set ASSIGNED_KEYS" and "v \<noteq> []" and "\<forall>x \<in> set v. \<not> is_space x \<and> x \<notin> set '',;''"
  shows "redact_text (key @ ''='' @ v) = key @ ''=[REDACTED]''
     \<and> (c \<in> set '',;'' \<longrightarrow> redact_text (key @ ''='' @ v @ c # rest) = key @ ''=[REDACTED]'' @ c # redact_text rest)"
  using redact_one_assignment [OF assms] redact_assignment_then [OF assms] by blast

lemma redaction_hides_assignments_witness:
  "redact_text ''access_token=a.b@x.co'' = ''access_token=[REDACTED]''
   \<and> redact_text ''password=Bearer,dsn=p!ss'' = ''password=[REDACTED],dsn=[REDACTED]''"
proof -
  have "list_all (\<lambda>x. \<not> is_space x \<and> x \<notin> set '',;'') ''a.b@x.co''"
    "list_all (\<lambda>x. \<not> is_space x \<and> x \<notin> set '',;'') ''Bearer''"
    "list_all (\<lambda>x. \<not> is_space x \<and> x \<notin> set '',;'') ''p!ss''" by code_simp+
  note values_ok = this [unfolded list_all_iff]
  have keys_ok: "''access_token'' \<in> set ASSIGNED_KEYS" "''password'' \<in> set ASSIGNED_KEYS" "''dsn'' \<in> set ASSIGNED_KEYS"
    by (simp_all add: ASSIGNED_KEYS_def)
  from redaction_hides_assignments [OF keys_ok(1) _ values_ok(1)] redaction_hides_assignments [OF keys_ok(3) _ values_ok(3)]
    redaction_hides_assignments [OF keys_ok(2) _ values_ok(2), of "CHR '',''" "''dsn=p!ss''"]
  show ?thesis by simp
qed

text \<open>
  Where the text rules fall short.  A key that only ends in a sensitive word is sensitive as a key, and
  its assignment in a text stays; the word after \<open>Bearer\<close> is taken for the token; and the rule for
  \<open>Bearer\<close>, which comes first, may eat the key of an assignment and a part of its value, so that the
  other part stays.
\<close>

lemma text_rule_misses_suffixes:
  "is_sensitive_key ''db_password'' \<and> redact_text ''db_password=hunter2'' = ''db_password=hunter2''"
  "redact_text ''Bearer Bearer abc'' = ''Bearer [REDACTED] abc''"
  "redact_text ''Bearer password=p!ss'' = ''Bearer [REDACTED]!ss''"
  by code_simp+

text \<open>C30. What stands under a sensitive key cannot be recovered: redaction gives the same value whatever
  stood there, at any depth of dictionaries and lists, and leaves only the mark in its place.\<close>

theorem redaction_hides_secrets:
  "redact_value (other_secrets f v) = redact_value v \<and> set (secrets_of (redact_value v)) \<subseteq> {PStr REDACTED}"
proof (induction v rule: redact_value.induct)
  case (2 d)
  have IH: "redact_value (other_secrets f v) = redact_value v" "set (secrets_of (redact_value v)) \<subseteq> {PStr REDACTED}"
    if "(k, v) \<in> set d" and "\<not> is_sensitive_key k" for k v
    using 2 [OF that(1) refl that(2)] by blast+
  have "map (\<lambda>(k, v). (k, if is_sensitive_key k then PStr REDACTED else redact_value v))
      (map (\<lambda>(k, v). (k, if is_sensitive_key k then f k v else other_secrets f v)) d)
    = map (\<lambda>(k, v). (k, if is_sensitive_key k then PStr REDACTED else redact_value v)) d"
    unfolding map_map by (rule map_cong [OF refl]) (auto simp: IH(1))
  moreover have "set (secrets_of (redact_value (PDict d))) \<subseteq> {PStr REDACTED}"
    using IH(2) by (fastforce split: if_splits)
  ultimately show ?case by simp
qed auto

end
