(* ===== verification/Incident_Intake.thy ===== *)
theory Incident_Intake
  imports Incident_States Redaction
begin

text \<open>
  From an alert to a stored incident and its workflow job (\<open>app/services/incident_service.py\<close>,
  \<open>app/services/workflow_service.py\<close>).  The database is the list of incidents and the list of jobs; a
  call that raises leaves it as it was, since the session is not committed.  Fresh ids come from
  \<open>uuid4\<close> and are arguments; an id that is taken is refused by the primary key.
\<close>

section \<open>Alerts\<close>

record mock_alert =
  al_tenant_id :: string
  al_workspace_id :: string
  al_idempotency_key :: "string option"
  al_scenario :: string
  al_service :: "string option"
  al_environment :: string
  al_severity :: string
  al_message :: "string option"
  al_fingerprint :: "string option"

definition default_alert :: mock_alert where
  "default_alert =
     \<lparr>al_tenant_id = ''demo'', al_workspace_id = ''demo'', al_idempotency_key = None,
      al_scenario = ''payment_api_deploy_regression'', al_service = None, al_environment = ''staging'',
      al_severity = ''high'', al_message = None, al_fingerprint = None\<rparr>"

definition alert_dump :: "mock_alert \<Rightarrow> pydict" where
  "alert_dump a =
     [(''tenant_id'', PStr (al_tenant_id a)), (''workspace_id'', PStr (al_workspace_id a)),
      (''idempotency_key'', opt_str (al_idempotency_key a)), (''scenario'', PStr (al_scenario a)),
      (''service'', opt_str (al_service a)), (''environment'', PStr (al_environment a)),
      (''severity'', PStr (al_severity a)), (''message'', opt_str (al_message a)),
      (''fingerprint'', opt_str (al_fingerprint a))]"

definition service_for_alert :: "mock_alert \<Rightarrow> string" where
  "service_for_alert a =
     str_or (al_service a) (if al_scenario a = ''worker_queue_backlog'' then ''worker'' else ''payment-api'')"

definition alert_fingerprint :: "(string \<Rightarrow> string) \<Rightarrow> string \<Rightarrow> mock_alert \<Rightarrow> string" where
  "alert_fingerprint sha uuid a =
    (let raw_key = str_or (al_idempotency_key a) (str_or (al_fingerprint a) uuid) in
     take 32 (sha (al_tenant_id a @ ''|'' @ al_workspace_id a @ ''|'' @ service_for_alert a @ ''|''
       @ al_environment a @ ''|'' @ al_scenario a @ ''|'' @ raw_key)))"

section \<open>The incident\<close>

definition new_mock_incident :: "string \<Rightarrow> string \<Rightarrow> mock_alert \<Rightarrow> stored_incident result" where
  "new_mock_incident new_id fingerprint a =
    (let summary = redact_text (str_or (al_message a) (''Mock alert for '' @ al_scenario a));
         created = \<lparr>in_id = new_id, in_tenant_id = al_tenant_id a, in_workspace_id = al_workspace_id a,
           in_service = service_for_alert a, in_environment = al_environment a,
           in_alert_payload = alert_dump a, in_alert_fingerprint = fingerprint, in_status = ''new'',
           in_severity = al_severity a, in_summary = summary, in_root_cause = None, in_confidence = None,
           in_actions = [], in_timeline = []\<rparr> in
     move_incident ''queued'' ''system'' ''mock alert accepted''
       (add_timeline_event ''integration'' ''alert_received'' (str_or (Some summary) ''Mock alert received'')
          [(''source'', PStr ''mock''), (''fingerprint'', opt_str (al_fingerprint a)), (''alert_fingerprint'', PStr fingerprint)]
          created))"

text \<open>\<open>one_or_none()\<close>.\<close>

definition one_or_none :: "'a list \<Rightarrow> 'a option result" where
  "one_or_none rows =
     (case rows of [] \<Rightarrow> Inr None | [x] \<Rightarrow> Inr (Some x)
      | _ \<Rightarrow> Inl (Raised ''MultipleResultsFound'' ''Multiple rows were found when one or none was required''))"

definition has_fingerprint :: "string \<Rightarrow> string \<Rightarrow> string \<Rightarrow> stored_incident \<Rightarrow> bool" where
  "has_fingerprint tenant_id workspace_id fingerprint i \<longleftrightarrow>
     in_tenant_id i = tenant_id \<and> in_workspace_id i = workspace_id \<and> in_alert_fingerprint i = fingerprint"

definition create_mock_incident ::
    "(string \<Rightarrow> string) \<Rightarrow> string \<Rightarrow> string \<Rightarrow> mock_alert \<Rightarrow> stored_incident list
      \<Rightarrow> (stored_incident list \<times> stored_incident) result" where
  "create_mock_incident sha new_id uuid a db =
    (let fingerprint = alert_fingerprint sha uuid a in
     rbind (one_or_none (filter (has_fingerprint (al_tenant_id a) (al_workspace_id a) fingerprint) db)) (\<lambda>existing.
     case existing of
       Some i \<Rightarrow> Inr (db, i)
     | None \<Rightarrow>
         if new_id \<in> in_id ` set db then Inl (Raised ''IntegrityError'' ''incidents.id'')
         else rbind (new_mock_incident new_id fingerprint a) (\<lambda>i. Inr (db @ [i], i))))"

section \<open>The job\<close>

record workflow_job =
  wj_id :: string
  wj_tenant_id :: string
  wj_workspace_id :: string
  wj_queue_name :: string
  wj_job_type :: string
  wj_dedupe_key :: string
  wj_incident_id :: string
  wj_status :: string
  wj_payload :: pydict

definition is_job_of :: "stored_incident \<Rightarrow> workflow_job \<Rightarrow> bool" where
  "is_job_of inc j \<longleftrightarrow>
     wj_tenant_id j = in_tenant_id inc \<and> wj_workspace_id j = in_workspace_id inc
     \<and> wj_queue_name j = ''incident.workflow'' \<and> wj_dedupe_key j = ''incident.workflow:'' @ in_alert_fingerprint inc"

definition enqueue_incident_workflow ::
    "string \<Rightarrow> pydict \<Rightarrow> stored_incident \<Rightarrow> workflow_job list \<Rightarrow> (workflow_job list \<times> stored_incident) result" where
  "enqueue_incident_workflow job_id payload inc jobs =
     rbind (one_or_none (filter (is_job_of inc) jobs)) (\<lambda>existing.
     case existing of
       Some j \<Rightarrow> Inr (jobs, inc)
     | None \<Rightarrow>
         if job_id \<in> wj_id ` set jobs then Inl (Raised ''IntegrityError'' ''workflow_jobs.id'')
         else
           let job = \<lparr>wj_id = job_id, wj_tenant_id = in_tenant_id inc, wj_workspace_id = in_workspace_id inc,
                 wj_queue_name = ''incident.workflow'', wj_job_type = ''incident.investigate'',
                 wj_dedupe_key = ''incident.workflow:'' @ in_alert_fingerprint inc, wj_incident_id = in_id inc,
                 wj_status = ''pending'',
                 wj_payload = redact_dict (if payload = [] then [(''incident_id'', PStr (in_id inc))] else payload)\<rparr> in
           Inr (jobs @ [job],
             add_timeline_event ''workflow'' ''workflow_job_enqueued'' ''Incident workflow job enqueued.''
               [(''job_id'', PStr job_id), (''queue_name'', PStr ''incident.workflow''),
                (''dedupe_key'', PStr (wj_dedupe_key job)), (''incident_id'', PStr (in_id inc))] inc))"

record intake_db =
  idb_incidents :: "stored_incident list"
  idb_jobs :: "workflow_job list"

definition put_incident :: "stored_incident \<Rightarrow> stored_incident list \<Rightarrow> stored_incident list" where
  "put_incident inc db = map (\<lambda>i. if in_id i = in_id inc then inc else i) db"

definition create_and_enqueue ::
    "(string \<Rightarrow> string) \<Rightarrow> string \<times> string \<times> string \<Rightarrow> mock_alert \<Rightarrow> intake_db \<Rightarrow> (intake_db \<times> stored_incident) result" where
  "create_and_enqueue sha ids a db =
    (let (new_id, uuid, job_id) = ids in
     rbind (create_mock_incident sha new_id uuid a (idb_incidents db)) (\<lambda>(incidents, inc).
     if in_actions inc = [] \<and> in_status inc \<in> {''new'', ''queued''}
     then rbind (enqueue_incident_workflow job_id (alert_dump a) inc (idb_jobs db)) (\<lambda>(jobs, inc).
       Inr (\<lparr>idb_incidents = put_incident inc incidents, idb_jobs = jobs\<rparr>, inc))
     else Inr (db\<lparr>idb_incidents := incidents\<rparr>, inc)))"

fun intake_all :: "(string \<Rightarrow> string) \<Rightarrow> ((string \<times> string \<times> string) \<times> mock_alert) list \<Rightarrow> intake_db \<Rightarrow> intake_db" where
  "intake_all sha [] db = db"
| "intake_all sha ((ids, a) # calls) db =
     intake_all sha calls (case create_and_enqueue sha ids a db of Inl _ \<Rightarrow> db | Inr (db', _) \<Rightarrow> db')"

section \<open>What intake keeps\<close>

definition scope_of :: "stored_incident \<Rightarrow> string \<times> string \<times> string" where
  "scope_of i = (in_tenant_id i, in_workspace_id i, in_alert_fingerprint i)"

definition job_scope :: "workflow_job \<Rightarrow> string \<times> string \<times> string \<times> string" where
  "job_scope j = (wj_tenant_id j, wj_workspace_id j, wj_queue_name j, wj_dedupe_key j)"

definition intake_ok :: "intake_db \<Rightarrow> bool" where
  "intake_ok db \<longleftrightarrow> distinct (map in_id (idb_incidents db)) \<and> distinct (map scope_of (idb_incidents db))
     \<and> distinct (map job_scope (idb_jobs db))"

lemma one_or_none_distinct:
  assumes "distinct (map f xs)" and "\<And>x y. x \<in> set xs \<Longrightarrow> y \<in> set xs \<Longrightarrow> P x \<Longrightarrow> P y \<Longrightarrow> f x = f y"
  shows "one_or_none (filter P xs) = Inr (find P xs)"
  using assms
proof (induction xs)
  case (Cons x xs)
  have rest: "one_or_none (filter P xs) = Inr (find P xs)" using Cons by auto
  show ?case
  proof (cases "P x")
    case True
    have "filter P xs = []"
    proof (rule ccontr)
      assume "filter P xs \<noteq> []"
      then obtain y where "y \<in> set xs" "P y" by (auto simp: filter_empty_conv)
      with Cons.prems True show False by (metis distinct.simps(2) image_eqI list.set_intros list.set_map list.simps(9))
    qed
    with True show ?thesis by (simp add: one_or_none_def)
  qed (use rest in simp)
qed (simp add: one_or_none_def)

lemma find_incident:
  "intake_ok db \<Longrightarrow> one_or_none (filter (has_fingerprint t w f) (idb_incidents db)) = Inr (find (has_fingerprint t w f) (idb_incidents db))"
  by (rule one_or_none_distinct [of scope_of]) (auto simp: intake_ok_def has_fingerprint_def scope_of_def)

lemma find_job: "intake_ok db \<Longrightarrow> one_or_none (filter (is_job_of inc) (idb_jobs db)) = Inr (find (is_job_of inc) (idb_jobs db))"
  by (rule one_or_none_distinct [of job_scope]) (auto simp: intake_ok_def is_job_of_def job_scope_def)

lemma queued_next: "''queued'' \<in> set (incident_next ''new'')"
  by code_simp

lemma new_incident:
  obtains i where "new_mock_incident new_id fingerprint a = Inr i" "in_id i = new_id"
    "scope_of i = (al_tenant_id a, al_workspace_id a, fingerprint)" "in_status i = ''queued''" "in_actions i = []"
  using queued_next
  by (simp add: new_mock_incident_def Let_def move_incident_def transition_incident_def add_timeline_event_def scope_of_def)

definition kept :: "stored_incident \<Rightarrow> stored_incident \<Rightarrow> bool" where
  "kept i i' \<longleftrightarrow> in_id i' = in_id i \<and> scope_of i' = scope_of i \<and> in_status i' = in_status i \<and> in_actions i' = in_actions i"

definition grown :: "intake_db \<Rightarrow> intake_db \<Rightarrow> bool" where
  "grown db db' \<longleftrightarrow> (\<forall>i \<in> set (idb_incidents db). \<exists>i' \<in> set (idb_incidents db'). kept i i') \<and> set (idb_jobs db) \<subseteq> set (idb_jobs db')"

lemma kept_trans: "kept i j \<Longrightarrow> kept j k \<Longrightarrow> kept i k"
  by (simp add: kept_def)

lemma grown_trans: "grown db db' \<Longrightarrow> grown db' db'' \<Longrightarrow> grown db db''"
  unfolding grown_def using kept_trans by (meson subset_trans)

lemma grown_refl: "grown db db"
  by (auto simp: grown_def kept_def)

text \<open>The two steps, each on what it finds.\<close>

lemma create_cases:
  assumes "intake_ok db" and "create_mock_incident sha new_id uuid a (idb_incidents db) = Inr (incidents, inc)"
  obtains (found) "incidents = idb_incidents db" "inc \<in> set (idb_incidents db)"
      "scope_of inc = (al_tenant_id a, al_workspace_id a, alert_fingerprint sha uuid a)"
  | (made) "incidents = idb_incidents db @ [inc]" "in_id inc \<notin> in_id ` set (idb_incidents db)"
      "scope_of inc \<notin> scope_of ` set (idb_incidents db)"
      "scope_of inc = (al_tenant_id a, al_workspace_id a, alert_fingerprint sha uuid a)"
proof (cases "find (has_fingerprint (al_tenant_id a) (al_workspace_id a) (alert_fingerprint sha uuid a)) (idb_incidents db)")
  case None
  with assms obtain i where i: "new_mock_incident new_id (alert_fingerprint sha uuid a) a = Inr i" "inc = i"
    "incidents = idb_incidents db @ [i]" "new_id \<notin> in_id ` set (idb_incidents db)"
    by (auto simp: create_mock_incident_def Let_def find_incident rbind_Inr_iff split: if_splits)
  obtain i' where "new_mock_incident new_id (alert_fingerprint sha uuid a) a = Inr i'" "in_id i' = new_id"
    "scope_of i' = (al_tenant_id a, al_workspace_id a, alert_fingerprint sha uuid a)" by (rule new_incident)
  moreover have "\<forall>x \<in> set (idb_incidents db). scope_of x \<noteq> (al_tenant_id a, al_workspace_id a, alert_fingerprint sha uuid a)"
    using None by (auto simp: find_None_iff has_fingerprint_def scope_of_def)
  ultimately show ?thesis using i by (intro made) (auto simp: image_iff)
next
  case (Some i)
  with assms have "incidents = idb_incidents db \<and> inc = i"
    by (auto simp: create_mock_incident_def Let_def find_incident)
  moreover have "i \<in> set (idb_incidents db)" "scope_of i = (al_tenant_id a, al_workspace_id a, alert_fingerprint sha uuid a)"
    using Some by (auto simp: find_Some_iff has_fingerprint_def scope_of_def)
  ultimately show ?thesis by (intro found) auto
qed

lemma put_incident_same:
  "distinct (map in_id db) \<Longrightarrow> inc \<in> set db \<Longrightarrow> put_incident inc db = db"
  unfolding put_incident_def by (rule map_idI) (auto simp: distinct_map inj_on_def)

lemma put_incident_maps:
  assumes "kept inc inc'"
  shows "map in_id (put_incident inc' db) = map in_id db"
    and "distinct (map in_id db) \<Longrightarrow> inc \<in> set db \<Longrightarrow> map scope_of (put_incident inc' db) = map scope_of db"
proof -
  show "map in_id (put_incident inc' db) = map in_id db" by (auto simp: put_incident_def)
  assume "distinct (map in_id db)" "inc \<in> set db"
  then have "scope_of (if in_id i = in_id inc' then inc' else i) = scope_of i" if "i \<in> set db" for i
    using that assms by (auto simp: kept_def distinct_map inj_on_def)
  then show "map scope_of (put_incident inc' db) = map scope_of db" by (simp add: put_incident_def)
qed

lemma enqueue_cases:
  assumes "intake_ok db" and "enqueue_incident_workflow job_id payload inc (idb_jobs db) = Inr (jobs, inc')"
  obtains (found) j where "jobs = idb_jobs db" "inc' = inc" "j \<in> set (idb_jobs db)" "is_job_of inc j"
  | (made) j where "jobs = idb_jobs db @ [j]" "kept inc inc'" "is_job_of inc j" "job_scope j \<notin> job_scope ` set (idb_jobs db)"
proof (cases "find (is_job_of inc) (idb_jobs db)")
  case None
  from None have fresh: "\<not> is_job_of inc j" if "j \<in> set (idb_jobs db)" for j using that by (auto simp: find_None_iff)
  from None assms obtain j where j: "jobs = idb_jobs db @ [j]" "is_job_of inc j" "kept inc inc'"
    by (auto simp: enqueue_incident_workflow_def find_job Let_def is_job_of_def kept_def scope_of_def add_timeline_event_def split: if_splits)
  moreover have "job_scope j \<notin> job_scope ` set (idb_jobs db)"
  proof
    assume "job_scope j \<in> job_scope ` set (idb_jobs db)"
    then obtain x where "x \<in> set (idb_jobs db)" "job_scope x = job_scope j" by auto
    then show False using fresh [of x] j(2) by (simp add: job_scope_def is_job_of_def)
  qed
  ultimately show ?thesis by (intro made)
next
  case (Some j)
  with assms have "jobs = idb_jobs db \<and> inc' = inc" by (auto simp: enqueue_incident_workflow_def find_job)
  with Some show ?thesis by (intro found [of j]) (auto simp: find_Some_iff)
qed

text \<open>One call: what it keeps, and what it answers with.\<close>

definition answered :: "(string \<Rightarrow> string) \<Rightarrow> string \<Rightarrow> mock_alert \<Rightarrow> intake_db \<Rightarrow> stored_incident \<Rightarrow> bool" where
  "answered sha uuid a db inc \<longleftrightarrow>
     inc \<in> set (idb_incidents db) \<and> scope_of inc = (al_tenant_id a, al_workspace_id a, alert_fingerprint sha uuid a)
     \<and> (in_actions inc = [] \<and> in_status inc \<in> {''new'', ''queued''} \<longrightarrow> (\<exists>j \<in> set (idb_jobs db). is_job_of inc j))"

lemma intake_step:
  assumes ok: "intake_ok db" and "create_and_enqueue sha (new_id, uuid, job_id) a db = Inr (db', inc)"
  shows "intake_ok db' \<and> grown db db' \<and> answered sha uuid a db' inc"
proof -
  from assms(2) obtain incidents made where c: "create_mock_incident sha new_id uuid a (idb_incidents db) = Inr (incidents, made)"
    and rest: "(if in_actions made = [] \<and> in_status made \<in> {''new'', ''queued''}
       then rbind (enqueue_incident_workflow job_id (alert_dump a) made (idb_jobs db)) (\<lambda>(jobs, inc).
         Inr (\<lparr>idb_incidents = put_incident inc incidents, idb_jobs = jobs\<rparr>, inc))
       else Inr (db\<lparr>idb_incidents := incidents\<rparr>, made)) = Inr (db', inc)"
    unfolding create_and_enqueue_def Let_def prod.case by (auto elim!: rbind_InrE simp del: if_split)
  have stored: "made \<in> set incidents" "set (idb_incidents db) \<subseteq> set incidents" "distinct (map in_id incidents)"
      "distinct (map scope_of incidents)" "scope_of made = (al_tenant_id a, al_workspace_id a, alert_fingerprint sha uuid a)"
    using ok by (cases rule: create_cases [OF ok c]; auto simp: intake_ok_def)+
  show ?thesis
  proof (cases "in_actions made = [] \<and> in_status made \<in> {''new'', ''queued''}")
    case False
    with rest have db': "db' = db\<lparr>idb_incidents := incidents\<rparr>" "inc = made" by auto
    have "grown db db'" using stored(2) by (auto simp: grown_def kept_def db')
    then show ?thesis using ok stored False by (auto simp: intake_ok_def answered_def db')
  next
    case True
    with rest obtain jobs where e: "enqueue_incident_workflow job_id (alert_dump a) made (idb_jobs db) = Inr (jobs, inc)"
      and db': "db' = \<lparr>idb_incidents = put_incident inc incidents, idb_jobs = jobs\<rparr>"
      by (auto simp: rbind_Inr_iff)
    have job: "kept made inc" "set (idb_jobs db) \<subseteq> set jobs" "distinct (map job_scope jobs)" "\<exists>j \<in> set jobs. is_job_of made j"
      using ok by (cases rule: enqueue_cases [OF ok e]; auto simp: kept_def intake_ok_def)+
    have same: "is_job_of inc j = is_job_of made j" for j using job(1) by (auto simp: is_job_of_def kept_def scope_of_def)
    have "inc \<in> set (put_incident inc incidents)"
      using stored(1) job(1) unfolding put_incident_def kept_def by force
    moreover have "\<exists>i' \<in> set (put_incident inc incidents). kept i i'" if i: "i \<in> set (idb_incidents db)" for i
    proof -
      have "kept i (if in_id i = in_id inc then inc else i)"
        using stored(1-3) job(1) i by (auto simp: kept_def distinct_map inj_on_def subset_iff)
      moreover have "(if in_id i = in_id inc then inc else i) \<in> set (put_incident inc incidents)"
        using stored(2) i unfolding put_incident_def by auto
      ultimately show ?thesis by blast
    qed
    ultimately show ?thesis
      using stored job put_incident_maps [OF job(1), of incidents] same
      by (auto simp: intake_ok_def grown_def answered_def db' kept_def)
  qed
qed

lemma intake_all_grows: "intake_ok db \<Longrightarrow> intake_ok (intake_all sha calls db) \<and> grown db (intake_all sha calls db)"
proof (induction sha calls db rule: intake_all.induct)
  case (2 sha ids a calls db)
  show ?case
  proof (cases "create_and_enqueue sha ids a db")
    case (Inr r)
    obtain db' inc where r: "r = (db', inc)" by (cases r)
    obtain i u j where "ids = (i, u, j)" by (cases ids)
    with intake_step [OF "2.prems", of sha i u j a db' inc] Inr r have "intake_ok db'" "grown db db'" by auto
    with 2 Inr r show ?thesis using grown_trans by auto
  qed (use 2 in simp)
qed (simp add: grown_refl)

lemma intake_again:
  assumes ok: "intake_ok db" and "answered sha uuid a db inc"
    and "al_tenant_id a' = al_tenant_id a" "al_workspace_id a' = al_workspace_id a"
    and "alert_fingerprint sha uuid' a' = alert_fingerprint sha uuid a"
  shows "create_and_enqueue sha (i', uuid', j') a' db = Inr (db, inc)"
proof -
  from assms(2) have inc: "inc \<in> set (idb_incidents db)"
    "scope_of inc = (al_tenant_id a, al_workspace_id a, alert_fingerprint sha uuid a)"
    and job: "in_actions inc = [] \<and> in_status inc \<in> {''new'', ''queued''} \<Longrightarrow> \<exists>j \<in> set (idb_jobs db). is_job_of inc j"
    unfolding answered_def by auto
  have here: "find (has_fingerprint (al_tenant_id a') (al_workspace_id a') (alert_fingerprint sha uuid' a')) (idb_incidents db) = Some inc"
  proof (cases "find (has_fingerprint (al_tenant_id a') (al_workspace_id a') (alert_fingerprint sha uuid' a')) (idb_incidents db)")
    case None
    with inc assms(3-5) show ?thesis by (auto simp: find_None_iff has_fingerprint_def scope_of_def)
  next
    case (Some i)
    then have "i \<in> set (idb_incidents db)" "scope_of i = scope_of inc"
      using inc assms(3-5) by (auto simp: find_Some_iff has_fingerprint_def scope_of_def)
    with ok inc(1) have "i = inc" by (auto simp: intake_ok_def distinct_map inj_on_def)
    with Some show ?thesis by simp
  qed
  have create: "create_mock_incident sha i' uuid' a' (idb_incidents db) = Inr (idb_incidents db, inc)"
    unfolding create_mock_incident_def Let_def find_incident [OF ok] here by simp
  show ?thesis
  proof (cases "in_actions inc = [] \<and> in_status inc \<in> {''new'', ''queued''}")
    case True
    then obtain j where "find (is_job_of inc) (idb_jobs db) = Some j"
      using job by (cases "find (is_job_of inc) (idb_jobs db)") (auto simp: find_None_iff)
    then have "enqueue_incident_workflow j' (alert_dump a') inc (idb_jobs db) = Inr (idb_jobs db, inc)"
      by (simp add: enqueue_incident_workflow_def find_job [OF ok])
    moreover have "put_incident inc (idb_incidents db) = idb_incidents db"
      using ok inc(1) by (intro put_incident_same) (simp_all add: intake_ok_def)
    ultimately show ?thesis using True by (simp add: create_and_enqueue_def create)
  next
    case False
    then show ?thesis by (auto simp: create_and_enqueue_def create)
  qed
qed

text \<open>Unless an id is taken, intake never raises.\<close>

lemma intake_total:
  assumes ok: "intake_ok db" and "new_id \<notin> in_id ` set (idb_incidents db)" and "job_id \<notin> wj_id ` set (idb_jobs db)"
  shows "\<exists>db' inc. create_and_enqueue sha (new_id, uuid, job_id) a db = Inr (db', inc)"
proof -
  obtain i where i: "new_mock_incident new_id (alert_fingerprint sha uuid a) a = Inr i" by (rule new_incident)
  have "\<exists>r. create_mock_incident sha new_id uuid a (idb_incidents db) = Inr r"
    using assms(2) by (auto simp: create_mock_incident_def Let_def find_incident [OF ok] i split: option.splits)
  then obtain incidents inc where c: "create_mock_incident sha new_id uuid a (idb_incidents db) = Inr (incidents, inc)" by auto
  have "\<exists>r. enqueue_incident_workflow job_id (alert_dump a) inc (idb_jobs db) = Inr r"
    using assms(3) unfolding enqueue_incident_workflow_def find_job [OF ok] rbind_simps Let_def
    by (cases "find (is_job_of inc) (idb_jobs db)") simp_all
  then obtain jobs inc' where "enqueue_incident_workflow job_id (alert_dump a) inc (idb_jobs db) = Inr (jobs, inc')" by auto
  then show ?thesis unfolding create_and_enqueue_def Let_def prod.case c rbind_simps by simp
qed

section \<open>Properties\<close>

text \<open>The key an alert carries, if any.\<close>

definition alert_key :: "mock_alert \<Rightarrow> string" where
  "alert_key a = str_or (al_idempotency_key a) (str_or (al_fingerprint a) '''')"

lemma alert_fingerprint_key:
  assumes "alert_key a \<noteq> []" and "alert_key a' = alert_key a"
    and "al_tenant_id a' = al_tenant_id a" "al_workspace_id a' = al_workspace_id a" "al_environment a' = al_environment a"
    and "al_scenario a' = al_scenario a" "service_for_alert a' = service_for_alert a"
  shows "alert_fingerprint sha uuid' a' = alert_fingerprint sha uuid a"
proof -
  have "str_or (al_idempotency_key b) (str_or (al_fingerprint b) u) = alert_key b" if "alert_key b \<noteq> []" for b u
    using that by (auto simp: alert_key_def str_or_def split: option.splits list.splits)
  with assms show ?thesis by (simp add: alert_fingerprint_def)
qed

text \<open>C29. An alert storm makes one incident.  Once an alert with a key has been taken in, every further alert
  with that key (same tenant, workspace, service, environment and scenario, whatever its severity or
  text) is answered with the same incident and adds neither an incident nor a job, after any other
  alerts; and no incident shares its fingerprint, no job its dedupe key, with another of its scope.\<close>

theorem alert_storm_one_incident:
  assumes "intake_ok db" and "create_and_enqueue sha ids a db = Inr (db1, inc)"
    and "alert_key a \<noteq> []" and "alert_key a' = alert_key a"
    and "al_tenant_id a' = al_tenant_id a" "al_workspace_id a' = al_workspace_id a" "al_environment a' = al_environment a"
    and "al_scenario a' = al_scenario a" "service_for_alert a' = service_for_alert a"
  shows "intake_ok (intake_all sha calls db1)
     \<and> (\<exists>inc'. in_id inc' = in_id inc \<and> in_status inc' = in_status inc
          \<and> create_and_enqueue sha ids' a' (intake_all sha calls db1) = Inr (intake_all sha calls db1, inc'))"
proof -
  obtain i u j i' u' j' where ids: "ids = (i, u, j)" "ids' = (i', u', j')" by (cases ids; cases ids')
  let ?db = "intake_all sha calls db1"
  have one: "intake_ok db1" "answered sha u a db1 inc" using intake_step [OF assms(1,2) [unfolded ids]] by auto
  with intake_all_grows [of db1 sha calls] have ok: "intake_ok ?db" and grown: "grown db1 ?db" by auto
  from one(2) grown obtain inc' where inc': "inc' \<in> set (idb_incidents ?db)" "kept inc inc'"
    unfolding answered_def grown_def by blast
  then have job: "is_job_of inc' = is_job_of inc" by (intro ext) (simp add: is_job_of_def kept_def scope_of_def)
  have "answered sha u a ?db inc'"
    using one(2) inc' grown unfolding answered_def job grown_def kept_def by auto
  from intake_again [OF ok this assms(5,6) alert_fingerprint_key [OF assms(3-9)]] inc'(2) ok
  show ?thesis by (auto simp: ids kept_def)
qed

end
