(* ===== verification/Incident_Handling.thy ===== *)
theory Incident_Handling
  imports Incident_Intake
begin

text \<open>
  What every service that works on an incident shares: waking a human (\<open>app/services/escalation.py\<close>),
  carrying out an action on the mock executor, and the path of statuses that the timeline tells of.
  Of an escalation payload the fields that carry the decision are kept.
\<close>

section \<open>Escalation\<close>

definition escalation_payload :: "string list \<Rightarrow> pyval \<Rightarrow> string \<Rightarrow> pydict" where
  "escalation_payload triggers verification next_action =
     [(''wake_human'', PBool True), (''escalation_decision'', PStr ''wake_human''), (''trigger'', PStr (hd triggers)),
      (''triggers'', PList (map PStr triggers)), (''verification'', verification),
      (''recommended_next_action'', PStr next_action)]"

definition recommended_next_action :: "string \<Rightarrow> 'z stored_action_scheme option \<Rightarrow> string" where
  "recommended_next_action trigger action =
     (if trigger = ''post_check_failed''
      then ''Review failed verification evidence, stop automatic retries, and choose the next runbook step.''
      else if trigger = ''connector_timeout''
      then ''Review connector timeout evidence, verify provider health, and decide whether to retry or switch context source.''
      else if trigger = ''connector_contract_violation''
      then ''Disable the connector path, review the contract violation evidence, and patch the adapter before retrying.''
      else if trigger = ''connector_failure''
      then ''Review connector failure evidence and decide whether to retry, reconfigure credentials, or gather context manually.''
      else if trigger = ''policy_denied_action''
      then ''Do not execute the denied action; select a safer runbook or approve a future hardened integration.''
      else if trigger = ''low_confidence''
      then ''Collect more context or assign a human investigator before attempting remediation.''
      else case action of
        Some a \<Rightarrow> if sa_requires_approval a
                   then ''Review and approve or reject '' @ ap_action_type a @ '' with the cited evidence.''
                   else ''Review incident evidence and decide the next manual action.''
      | None \<Rightarrow> ''Review incident evidence and decide the next manual action.'')"

definition escalate_action :: "pydict \<Rightarrow> 'z stored_action_scheme \<Rightarrow> 'z stored_action_scheme" where
  "escalate_action payload a =
     a\<lparr>sa_escalation_required := True,
       sa_escalation_decision := Some (py_str (pget_or payload ''escalation_decision'' (PStr ''wake_human''))),
       sa_escalation_reason := Some (py_str (pget_or payload ''trigger'' (PStr ''human_review_required'')))\<rparr>"

text \<open>\<open>record_human_escalation\<close> with its transition; a terminal incident keeps its status.\<close>

definition record_human_escalation :: "pydict \<Rightarrow> stored_incident \<Rightarrow> stored_incident" where
  "record_human_escalation payload inc =
    (let payload = redact_dict payload;
         noted = add_timeline_event ''escalation'' ''human_escalation_required''
           (''Human wake-up required: '' @ py_str (pget payload ''trigger'')) payload inc in
     if in_status noted = ''escalated'' then noted
     else case move_incident ''escalated'' ''escalation''
              (py_str (pget_or payload ''trigger'' (PStr ''human_review_required''))) noted of
       Inr moved \<Rightarrow> moved
     | Inl _ \<Rightarrow> add_timeline_event ''escalation'' ''escalation_state_transition_blocked''
         ''Escalation recorded without changing terminal incident state.''
         [(''current_status'', PStr (in_status noted)), (''payload'', PDict payload)] noted)"

section \<open>Execution\<close>

definition run_action ::
    "(string \<Rightarrow> 160 word) \<Rightarrow> stored_incident \<Rightarrow> 'z action_proposal_scheme \<Rightarrow> 'z action_proposal_scheme \<times> pydict" where
  "run_action sha1 inc a =
    (let (done, result) = execute_mock_action sha1 (incident.truncate inc) (action_proposal.truncate a) in
     (a\<lparr>ap_status := ap_status done, ap_execution_result := ap_execution_result done\<rparr>, result))"

section \<open>The life of the incident\<close>

text \<open>The statuses the timeline tells of.\<close>

definition status_path :: "stored_incident \<Rightarrow> string list" where
  "status_path inc = map (\<lambda>e. py_str (pget (tr_metadata e) ''to''))
     (filter (\<lambda>e. tr_event_type e = ''state_transition'') (in_timeline inc))"

definition told :: "stored_incident \<Rightarrow> bool" where
  "told inc \<longleftrightarrow> legal_path incident_next ''new'' (status_path inc) \<and> in_status inc = last (''new'' # status_path inc)"

lemma told_event: "told inc \<Longrightarrow> event_type \<noteq> ''state_transition'' \<Longrightarrow> told (add_timeline_event actor event_type content m inc)"
  by (simp add: told_def status_path_def add_timeline_event_def)

lemma event_fields [simp]:
  "in_status (add_timeline_event actor event_type content m inc) = in_status inc"
  "in_actions (add_timeline_event actor event_type content m inc) = in_actions inc"
  "in_id (add_timeline_event actor event_type content m inc) = in_id inc"
  "incident.truncate (add_timeline_event actor event_type content m inc) = incident.truncate inc"
  by (simp_all add: add_timeline_event_def incident.truncate_def)

text \<open>A move along the table changes status and timeline, and nothing else.\<close>

lemma move_told:
  assumes "told inc" and "target \<in> set (incident_next (in_status inc))"
  obtains tl' where "move_incident target actor reason inc = Inr (inc\<lparr>in_status := target, in_timeline := tl'\<rparr>)"
    "told (inc\<lparr>in_status := target, in_timeline := tl'\<rparr>)"
proof -
  obtain inc' event where tr: "transition_incident inc target actor (Some reason) = Inr (inc', event)"
    using assms(2) by (simp add: transition_incident_def Let_def)
  then have ev: "inc' = inc\<lparr>in_status := target\<rparr>" "tr_event_type event = ''state_transition''"
    "pget (tr_metadata event) ''to'' = PStr target"
    by (auto simp: transition_incident_def Let_def split: if_splits)
  let ?new = "inc\<lparr>in_status := target, in_timeline := in_timeline inc @ [event]\<rparr>"
  have "move_incident target actor reason inc = Inr ?new" by (simp add: move_incident_def tr ev(1))
  moreover have "status_path ?new = status_path inc @ [target]" by (simp add: status_path_def ev(2,3))
  then have "told ?new" using assms by (auto simp: told_def legal_path_snoc)
  ultimately show ?thesis by (rule that)
qed

lemma incident_steps [simp]:
  "''queued'' \<in> set (incident_next ''new'')" "''investigating'' \<in> set (incident_next ''queued'')"
  "''action_proposed'' \<in> set (incident_next ''investigating'')" "''executing'' \<in> set (incident_next ''action_proposed'')"
  "''verifying'' \<in> set (incident_next ''executing'')" "''resolved'' \<in> set (incident_next ''verifying'')"
  "''escalated'' \<in> set (incident_next ''verifying'')" "''escalated'' \<in> set (incident_next ''investigating'')"
  by code_simp+

lemma told_actions [simp]: "told (inc\<lparr>in_actions := as\<rparr>) = told inc"
  by (simp add: told_def status_path_def)

lemma event_update: "\<exists>tl'. add_timeline_event actor event_type content m inc = inc\<lparr>in_timeline := tl'\<rparr>"
  by (auto simp: add_timeline_event_def)

lemma escalation_told:
  assumes "told inc" and "''escalated'' \<in> set (incident_next (in_status inc))" and "in_status inc \<noteq> ''escalated''"
  obtains tl' where "record_human_escalation payload inc = inc\<lparr>in_status := ''escalated'', in_timeline := tl'\<rparr>"
    "told (inc\<lparr>in_status := ''escalated'', in_timeline := tl'\<rparr>)"
proof -
  let ?p = "redact_dict payload"
  define noted where "noted = add_timeline_event ''escalation'' ''human_escalation_required''
     (''Human wake-up required: '' @ py_str (pget ?p ''trigger'')) ?p inc"
  then obtain t0 where t0: "noted = inc\<lparr>in_timeline := t0\<rparr>" using event_update by metis
  have "told noted" unfolding noted_def using assms(1) by (rule told_event) simp
  moreover have "''escalated'' \<in> set (incident_next (in_status noted))" using assms(2) by (simp add: t0)
  ultimately obtain tl' where "move_incident ''escalated'' ''escalation''
      (py_str (pget_or ?p ''trigger'' (PStr ''human_review_required''))) noted
      = Inr (noted\<lparr>in_status := ''escalated'', in_timeline := tl'\<rparr>)" "told (noted\<lparr>in_status := ''escalated'', in_timeline := tl'\<rparr>)"
    by (rule move_told)
  note moved = this
  have "record_human_escalation payload inc = inc\<lparr>in_status := ''escalated'', in_timeline := tl'\<rparr>"
    unfolding record_human_escalation_def Let_def noted_def [symmetric] using moved(1) assms(3) by (simp add: t0)
  with moved(2) show ?thesis by (intro that [of tl']) (simp_all add: t0)
qed

lemma run_action_fields:
  "ap_action_type (fst (run_action sha1 inc a)) = ap_action_type a"
  "ap_status (fst (run_action sha1 inc a)) = (if ap_action_type a \<in> set MOCK_HANDLED then ''executed'' else ''failed'')"
  by (simp_all add: run_action_def execute_mock_action_def Let_def action_proposal.truncate_def mock_execute_status)

end
