(* ===== verification/Night_Autopilot.thy ===== *)
theory Night_Autopilot
  imports Preventive_Safety_Gate Incident_Memory Incident_Handling
begin

text \<open>
  Night Autopilot (\<open>app/services/night_autopilot.py\<close>): one simulated quiet-hours run, from the detected
  incident over the policy engine, the safety gate and incident memory to a mock restart and its
  verification, or to a human.  The database is the list of stored incidents; the session commits at
  the end, so that a run that raises leaves it as it was.  The incident's id and its fingerprint, which
  come from \<open>uuid4\<close>, are arguments.
\<close>

section \<open>Configuration and results\<close>

record night_config =
  nc_quiet_start :: string
  nc_quiet_end :: string
  nc_timezone :: string
  nc_max_automatic_risk :: risk_level
  nc_max_attempts_per_incident :: int
  nc_scenario :: string
  nc_service :: string
  nc_environment :: string
  nc_severity :: string
  nc_action_type :: string
  nc_target :: "string option"
  nc_allowed_services :: "string list"
  nc_allowed_environments :: "string list"
  nc_escalation_contacts :: "string list"

definition default_night_config :: night_config where
  "default_night_config =
     \<lparr>nc_quiet_start = ''22:00'', nc_quiet_end = ''07:00'', nc_timezone = ''Asia/Seoul'', nc_max_automatic_risk = RL_LOW,
      nc_max_attempts_per_incident = 1, nc_scenario = ''worker_queue_backlog'', nc_service = ''worker'',
      nc_environment = ''staging'', nc_severity = ''medium'', nc_action_type = ''mock.execute_restart_worker'',
      nc_target = None, nc_allowed_services = [''payment-api'', ''worker''],
      nc_allowed_environments = [''staging'', ''dev''], nc_escalation_contacts = [''primary-oncall'']\<rparr>"

record night_result =
  nr_incidents_detected :: int
  nr_actions_taken :: "pydict list"
  nr_escalations :: "pydict list"

section \<open>The incident\<close>

text \<open>The alert carries no key, so that its fingerprint comes of a fresh \<open>uuid4\<close>.\<close>

definition night_alert :: "night_config \<Rightarrow> mock_alert" where
  "night_alert cfg = default_alert
     \<lparr>al_scenario := nc_scenario cfg, al_service := Some (nc_service cfg), al_environment := nc_environment cfg,
      al_severity := nc_severity cfg, al_message := Some (''Night Autopilot detected mock '' @ nc_service cfg @ '' incident'')\<rparr>"

definition AMBIGUOUS_SCENARIOS :: "string list" where
  "AMBIGUOUS_SCENARIOS = [''low_confidence_ambiguous'', ''conflicting_evidence_payment'', ''critical_unknown_multi_service'']"

text \<open>The estimate as the float's decimal, in hundredths.\<close>

definition estimated_confidence :: "string \<Rightarrow> int" where
  "estimated_confidence scenario = (if scenario \<in> set AMBIGUOUS_SCENARIOS then 42 else 88)"

text \<open>\<open>str.title\<close> on one character after another: upper case after a character without case.\<close>

definition is_letter :: "char \<Rightarrow> bool" where
  "is_letter c = (let n = of_char (lower_char c) :: nat in
     (97 \<le> n \<and> n \<le> 122) \<or> n = 170 \<or> n = 181 \<or> n = 186 \<or> (223 \<le> n \<and> n \<noteq> 247))"

definition title_char :: "char \<Rightarrow> string" where
  "title_char c = (let n = of_char c :: nat in
     if n = 223 then ''Ss''
     else if (97 \<le> n \<and> n \<le> 122) \<or> (224 \<le> n \<and> n \<le> 254 \<and> n \<noteq> 247) then [char_of (n - 32)] else [c])"

fun py_title :: "bool \<Rightarrow> string \<Rightarrow> string" where
  "py_title after_letter [] = []"
| "py_title after_letter (c # cs) =
     (if after_letter then [lower_char c] else title_char c) @ py_title (is_letter c) cs"

definition default_root_cause :: "string \<Rightarrow> string" where
  "default_root_cause scenario =
     (if scenario \<in> {''worker_queue_backlog'', ''worker_poison_message'', ''worker_heartbeat_loss''}
      then ''Worker queue degradation'' else py_title False (py_replace ''_'' '' '' scenario))"

definition night_target :: "night_config \<Rightarrow> string" where
  "night_target cfg = str_or (nc_target cfg) (nc_service cfg @ '':'' @ nc_environment cfg)"

definition night_request :: "night_config \<Rightarrow> stored_incident \<Rightarrow> action_request" where
  "night_request cfg inc =
     \<lparr>ar_action_type = nc_action_type cfg, ar_target = night_target cfg, ar_environment = in_environment inc,
      ar_tenant_id = in_tenant_id inc, ar_workspace_id = in_workspace_id inc,
      ar_payload = [(''source'', PStr ''night_autopilot_v2''), (''scenario'', PStr (nc_scenario cfg))],
      ar_requester = ''agent'', ar_incident_id = Some (in_id inc), ar_approved = False, ar_approval_id = None\<rparr>"

section \<open>Policy and gates\<close>

definition night_policy_context ::
    "night_config \<Rightarrow> stored_incident \<Rightarrow> blast_radius_result \<Rightarrow> simulation_result \<Rightarrow> bool \<Rightarrow> policy_context" where
  "night_policy_context cfg inc blast simulation failed_memory =
     (default_policy_context (in_environment inc))
       \<lparr>pc_service := in_service inc, pc_severity := in_severity inc, pc_tenant_id := in_tenant_id inc,
        pc_workspace_id := in_workspace_id inc, pc_mode := ''night_autopilot'', pc_night_autopilot := True,
        pc_confidence := in_confidence inc, pc_evidence_count := 3,
        pc_blast_radius_scope := Some (br_scope blast), pc_rollback_available := Some (br_rollback_available blast),
        pc_simulation_passed := Some (sm_ok simulation),
        pc_simulation_status := Some (if sm_ok simulation then ''passed'' else ''failed''),
        pc_failed_memory_warning := failed_memory, pc_memory_failed_action_warning := failed_memory,
        pc_autopilot := default_night_autopilot
          \<lparr>na_max_automatic_risk := nc_max_automatic_risk cfg,
           na_max_attempts_per_incident := nc_max_attempts_per_incident cfg,
           na_allowed_services := nc_allowed_services cfg,
           na_allowed_environments := nc_allowed_environments cfg,
           na_allowed_actions := [''mock.execute_restart_worker'']\<rparr>\<rparr>"

text \<open>The case given to the safety gate, less the two result objects it does not look at.\<close>

definition v2_case ::
    "int \<Rightarrow> bool \<Rightarrow> blast_radius_result \<Rightarrow> simulation_result \<Rightarrow> bool \<Rightarrow> pyval \<Rightarrow> night_config \<Rightarrow> stored_incident \<Rightarrow> pydict" where
  "v2_case confidence allowed blast simulation failed_memory matches cfg inc =
     [(''action_type'', PStr (nc_action_type cfg)), (''target'', PStr (night_target cfg)),
      (''environment'', PStr (in_environment inc)), (''service'', PStr (in_service inc)),
      (''severity'', PStr (in_severity inc)), (''confidence'', PFloat confidence 2),
      (''policy_allowed'', PBool allowed), (''blast_radius_scope'', PStr (br_scope blast)),
      (''rollback_available'', PBool (br_rollback_available blast)), (''simulation_allowed'', PBool (sm_ok simulation)),
      (''simulation_status'', PStr (if sm_ok simulation then ''passed'' else ''failed'')),
      (''failed_memory'', PBool failed_memory), (''memory_matches'', matches),
      (''mode'', PStr ''night_autopilot''), (''night_autopilot'', PBool True)]"

definition evaluate_v2_gates ::
    "int \<Rightarrow> bool \<Rightarrow> blast_radius_result \<Rightarrow> simulation_result \<Rightarrow> bool \<Rightarrow> pyval \<Rightarrow> night_config \<Rightarrow> stored_incident
      \<Rightarrow> pydict result" where
  "evaluate_v2_gates confidence allowed blast simulation failed_memory matches cfg inc =
     rbind (evaluate_preventive_safety_gate no_objects
              (v2_case confidence allowed blast simulation failed_memory matches cfg inc)) (\<lambda>gate.
     Inr (night_autopilot_v2_dict gate))"

definition v2_block_triggers :: "pydict \<Rightarrow> string \<Rightarrow> int \<Rightarrow> string list" where
  "v2_block_triggers v2_gates policy_decision max_attempts =
    (let failing = (\<lambda>k. case pget v2_gates k of PDict d \<Rightarrow> \<not> truthy (pget d ''ok'') | _ \<Rightarrow> False);
         triggers =
           (if max_attempts < 1 then [''max_attempts_reached''] else [])
           @ (if failing ''confidence'' then [''low_confidence''] else [])
           @ (if failing ''blast_radius'' then [''unbounded_blast_radius''] else [])
           @ (if failing ''simulation'' then [''simulation_failed''] else [])
           @ (case pget v2_gates ''memory'' of
                PDict m \<Rightarrow> if truthy (pget m ''failed_remediation_warning'') then [''memory_failed_remediation''] else []
              | _ \<Rightarrow> [])
           @ (if \<not> truthy (pget v2_gates ''policy_allowed'')
              then [if policy_decision = ''ESCALATE'' then ''policy_escalated_action'' else ''policy_denied_action''] else []) in
     if triggers = [] then [''policy_escalated_action''] else triggers)"

section \<open>A run\<close>

definition night_action :: "night_config \<Rightarrow> stored_incident \<Rightarrow> policy_evaluation \<Rightarrow> pydict \<Rightarrow> stored_action" where
  "night_action cfg inc policy payload =
     \<lparr>ap_action_type = nc_action_type cfg, ap_target = night_target cfg, ap_environment = in_environment inc,
      ap_payload = payload, ap_status = ''approved'', ap_execution_result = [],
      sa_risk_level = risk_value (pe_risk_level policy), sa_requires_approval = False,
      sa_policy_decision = decision_value (pe_decision policy), sa_policy_reasons = pe_reasons policy,
      sa_confidence = in_confidence inc, sa_escalation_required = False, sa_escalation_decision = None,
      sa_escalation_reason = None\<rparr>"

definition night_action_payload :: "pydict \<Rightarrow> blast_radius_result \<Rightarrow> simulation_result \<Rightarrow> pyval \<Rightarrow> pydict" where
  "night_action_payload v2_gates blast simulation matches =
     [(''worker_pool'', PStr ''default''), (''mode'', PStr ''night_autopilot_mock''), (''v2_gates'', PDict v2_gates),
      (''blast_radius'', PDict (blast_to_dict blast)), (''simulation'', PDict (sim_to_dict simulation)),
      (''memory_matches'', matches)]"

text \<open>The branch that acts: proposal, execution, post-check, and the human if the check fails.\<close>

definition night_act ::
    "(string \<Rightarrow> 160 word) \<Rightarrow> pydict \<Rightarrow> stored_action \<Rightarrow> stored_incident \<Rightarrow> (stored_incident \<times> night_result) result" where
  "night_act sha1 v2_gates action inc =
     rbind (move_incident ''action_proposed'' ''night-autopilot'' ''allowlisted action selected'' inc) (\<lambda>inc.
     rbind (move_incident ''executing'' ''night-autopilot'' ''automatic action allowed'' inc) (\<lambda>inc.
     let (action, result) = run_action sha1 inc action;
         taken = [[(''action_type'', PStr (ap_action_type action)), (''result'', PDict result), (''v2_gates'', PDict v2_gates)]];
         inc = add_timeline_event ''night-autopilot'' ''action_executed'' ''Automatic mock worker restart executed'' result inc in
     rbind (move_incident ''verifying'' ''night-autopilot'' ''post-check'' inc) (\<lambda>inc.
     let verification = verify_recovery sha1 (incident.truncate inc) (action_proposal.truncate action) in
     if truthy (pget verification ''recovered'')
     then rbind (move_incident ''resolved'' ''night-autopilot'' ''recovered during quiet hours'' inc) (\<lambda>inc.
       Inr (inc\<lparr>in_actions := in_actions inc @ [action]\<rparr>,
            \<lparr>nr_incidents_detected = 1, nr_actions_taken = taken, nr_escalations = []\<rparr>))
     else let payload = escalation_payload [''post_check_failed''] (PDict verification)
                ''Wake the configured on-call contact; automatic quiet-hours remediation did not verify.'' @ [(''v2_gates'', PDict v2_gates)];
              inc = record_human_escalation payload inc in
       Inr (inc\<lparr>in_actions := in_actions inc @ [escalate_action (redact_dict payload) action]\<rparr>,
            \<lparr>nr_incidents_detected = 1, nr_actions_taken = taken, nr_escalations = [payload]\<rparr>))))"

definition night_block :: "night_config \<Rightarrow> pydict \<Rightarrow> policy_evaluation \<Rightarrow> stored_incident \<Rightarrow> stored_incident \<times> night_result" where
  "night_block cfg v2_gates policy inc =
    (let triggers = v2_block_triggers v2_gates (decision_value (pe_decision policy)) (nc_max_attempts_per_incident cfg);
         payload = escalation_payload triggers PNone
           ''Wake the configured on-call contact; Night Autopilot v2 cannot proceed safely.'' @ [(''v2_gates'', PDict v2_gates)] in
     (record_human_escalation payload inc,
      \<lparr>nr_incidents_detected = 1, nr_actions_taken = [], nr_escalations = [payload]\<rparr>))"

definition detect_incident :: "string \<Rightarrow> string \<Rightarrow> night_config \<Rightarrow> stored_incident result" where
  "detect_incident new_id fingerprint cfg =
     rbind (new_mock_incident new_id fingerprint (night_alert cfg)) (\<lambda>inc.
     rbind (move_incident ''investigating'' ''night-autopilot'' ''quiet-hours simulation'' inc) (\<lambda>inc.
     Inr (inc\<lparr>in_root_cause := Some (str_or (in_root_cause inc) (default_root_cause (nc_scenario cfg))),
              in_confidence := Some (rat_of_int (estimated_confidence (nc_scenario cfg)) / 100)\<rparr>)))"

definition night_matches :: "stored_incident list \<Rightarrow> night_config \<Rightarrow> stored_incident \<Rightarrow> memory_hit list" where
  "night_matches db cfg inc =
     search_similar_incidents 5 (build_incident_memory db (in_tenant_id inc) (in_workspace_id inc) (in_id inc)) inc
       (Some (nc_action_type cfg))"

definition night_policy :: "stored_incident list \<Rightarrow> night_config \<Rightarrow> stored_incident \<Rightarrow> policy_evaluation result" where
  "night_policy db cfg inc =
    (let request = night_request cfg inc in
     evaluate DEFAULT_ACTION_REGISTRY request (Some (night_policy_context cfg inc
       (blast_evaluate DEFAULT_ACTION_REGISTRY request) (simulate DEFAULT_ACTION_REGISTRY request)
       (failed_remediation_warning (night_matches db cfg inc)))))"

definition night_gates_for ::
    "stored_incident list \<Rightarrow> night_config \<Rightarrow> stored_incident \<Rightarrow> policy_evaluation \<Rightarrow> pydict result" where
  "night_gates_for db cfg inc policy =
    (let request = night_request cfg inc; hits = night_matches db cfg inc in
     evaluate_v2_gates (estimated_confidence (nc_scenario cfg)) (pe_decision policy = PD_ALLOW)
       (blast_evaluate DEFAULT_ACTION_REGISTRY request) (simulate DEFAULT_ACTION_REGISTRY request)
       (failed_remediation_warning hits) (summarize_matches hits) cfg inc)"

definition simulate_night_autopilot ::
    "(string \<Rightarrow> 160 word) \<Rightarrow> string \<Rightarrow> string \<Rightarrow> night_config \<Rightarrow> stored_incident list
      \<Rightarrow> (stored_incident list \<times> night_result) result" where
  "simulate_night_autopilot sha1 new_id fingerprint cfg db =
     rbind (detect_incident new_id fingerprint cfg) (\<lambda>inc.
     rbind (night_policy db cfg inc) (\<lambda>policy.
     rbind (night_gates_for db cfg inc policy) (\<lambda>v2_gates.
     let request = night_request cfg inc; go = truthy (pget v2_gates ''passed'');
         noted = add_timeline_event ''night-autopilot'' ''night_autopilot_v2_gate''
           (''Night Autopilot v2 gates '' @ (if go then ''passed'' else ''blocked'')) v2_gates inc in
     rbind (if go \<and> nc_max_attempts_per_incident cfg \<ge> 1
            then night_act sha1 v2_gates (night_action cfg inc policy
                   (night_action_payload v2_gates (blast_evaluate DEFAULT_ACTION_REGISTRY request)
                      (simulate DEFAULT_ACTION_REGISTRY request) (summarize_matches (night_matches db cfg inc)))) noted
            else Inr (night_block cfg v2_gates policy noted)) (\<lambda>(final, outcome).
     Inr (db @ [final], outcome)))))"


section \<open>The life of the incident\<close>

definition detected :: "string \<Rightarrow> string \<Rightarrow> night_config \<Rightarrow> stored_incident \<Rightarrow> bool" where
  "detected new_id fingerprint cfg inc \<longleftrightarrow>
     told inc \<and> in_status inc = ''investigating'' \<and> in_actions inc = [] \<and> in_id inc = new_id
     \<and> in_tenant_id inc = ''demo'' \<and> in_workspace_id inc = ''demo''
     \<and> in_service inc = service_for_alert (night_alert cfg)
     \<and> in_environment inc = nc_environment cfg \<and> in_severity inc = nc_severity cfg
     \<and> in_alert_payload inc = alert_dump (night_alert cfg) \<and> in_alert_fingerprint inc = fingerprint
     \<and> in_root_cause inc = Some (default_root_cause (nc_scenario cfg))
     \<and> in_confidence inc = Some (rat_of_int (estimated_confidence (nc_scenario cfg)) / 100)"

lemma detect_incident_total:
  obtains inc where "detect_incident new_id fingerprint cfg = Inr inc" "detected new_id fingerprint cfg inc"
proof -
  define summary where "summary = redact_text (''Night Autopilot detected mock '' @ nc_service cfg @ '' incident'')"
  define created where "created = add_timeline_event ''integration'' ''alert_received'' (str_or (Some summary) ''Mock alert received'')
     [(''source'', PStr ''mock''), (''fingerprint'', PNone), (''alert_fingerprint'', PStr fingerprint)]
     \<lparr>in_id = new_id, in_tenant_id = ''demo'', in_workspace_id = ''demo'',
       in_service = service_for_alert (night_alert cfg), in_environment = nc_environment cfg,
       in_alert_payload = alert_dump (night_alert cfg), in_alert_fingerprint = fingerprint, in_status = ''new'',
       in_severity = nc_severity cfg, in_summary = summary,
       in_root_cause = None, in_confidence = None, in_actions = [], in_timeline = []\<rparr>"
  have told0: "told created" "in_status created = ''new''"
    by (simp_all add: created_def told_def status_path_def add_timeline_event_def)
  obtain t1 where t1: "move_incident ''queued'' ''system'' ''mock alert accepted'' created
      = Inr (created\<lparr>in_status := ''queued'', in_timeline := t1\<rparr>)" "told (created\<lparr>in_status := ''queued'', in_timeline := t1\<rparr>)"
    using move_told [OF told0(1)] told0(2) incident_steps(1) by metis
  obtain t2 where t2: "move_incident ''investigating'' ''night-autopilot'' ''quiet-hours simulation''
      (created\<lparr>in_status := ''queued'', in_timeline := t1\<rparr>)
      = Inr (created\<lparr>in_status := ''investigating'', in_timeline := t2\<rparr>)"
      "told (created\<lparr>in_status := ''investigating'', in_timeline := t2\<rparr>)"
    using move_told [OF t1(2), of "''investigating''"] by auto
  let ?inc = "created\<lparr>in_status := ''investigating'', in_timeline := t2, in_root_cause := Some (default_root_cause (nc_scenario cfg)),
      in_confidence := Some (rat_of_int (estimated_confidence (nc_scenario cfg)) / 100)\<rparr>"
  have create: "new_mock_incident new_id fingerprint (night_alert cfg) = Inr (created\<lparr>in_status := ''queued'', in_timeline := t1\<rparr>)"
    using t1(1) unfolding new_mock_incident_def Let_def created_def summary_def
    by (simp add: night_alert_def default_alert_def str_or_def opt_str_def)
  have root: "in_root_cause created = None" by (simp add: created_def add_timeline_event_def)
  have "detect_incident new_id fingerprint cfg = Inr ?inc"
    by (simp add: detect_incident_def create t2(1) root str_or_def)
  moreover have "detected new_id fingerprint cfg ?inc"
    using t2(2) by (simp add: detected_def told_def status_path_def) (simp add: created_def add_timeline_event_def)
  ultimately show ?thesis by (rule that)
qed


lemma night_act_total:
  assumes "told inc" and "in_status inc = ''investigating''" and "in_actions inc = []"
  obtains st tl' act out where
    "night_act sha1 v2_gates action inc = Inr (inc\<lparr>in_status := st, in_timeline := tl', in_actions := [act]\<rparr>, out)"
    "told (inc\<lparr>in_status := st, in_timeline := tl', in_actions := [act]\<rparr>)"
    "ap_action_type act = ap_action_type action"
    "ap_status act = (if ap_action_type action \<in> set MOCK_HANDLED then ''executed'' else ''failed'')"
    "length (nr_actions_taken out) = 1"
    "st = ''resolved'' \<and> nr_escalations out = [] \<or> st = ''escalated'' \<and> length (nr_escalations out) = 1"
proof -
  obtain t1 where t1: "move_incident ''action_proposed'' ''night-autopilot'' ''allowlisted action selected'' inc
      = Inr (inc\<lparr>in_status := ''action_proposed'', in_timeline := t1\<rparr>)" "told (inc\<lparr>in_status := ''action_proposed'', in_timeline := t1\<rparr>)"
    using move_told [OF assms(1), of "''action_proposed''"] assms(2) by auto
  obtain t2 where t2: "move_incident ''executing'' ''night-autopilot'' ''automatic action allowed''
      (inc\<lparr>in_status := ''action_proposed'', in_timeline := t1\<rparr>) = Inr (inc\<lparr>in_status := ''executing'', in_timeline := t2\<rparr>)"
      "told (inc\<lparr>in_status := ''executing'', in_timeline := t2\<rparr>)"
    using move_told [OF t1(2), of "''executing''"] by auto
  obtain act0 result where ran: "run_action sha1 (inc\<lparr>in_status := ''executing'', in_timeline := t2\<rparr>) action = (act0, result)"
    by (cases rule: prod.exhaust)
  note act0 = run_action_fields [of sha1 "inc\<lparr>in_status := ''executing'', in_timeline := t2\<rparr>" action, unfolded ran fst_conv]
  obtain t3 where t3: "add_timeline_event ''night-autopilot'' ''action_executed'' ''Automatic mock worker restart executed'' result
      (inc\<lparr>in_status := ''executing'', in_timeline := t2\<rparr>) = inc\<lparr>in_status := ''executing'', in_timeline := t3\<rparr>"
    using event_update [of "''night-autopilot''" "''action_executed''" "''Automatic mock worker restart executed''" result
      "inc\<lparr>in_status := ''executing'', in_timeline := t2\<rparr>"] by auto
  have "told (inc\<lparr>in_status := ''executing'', in_timeline := t3\<rparr>)"
    unfolding t3 [symmetric] using t2(2) by (rule told_event) simp
  then obtain t4 where t4: "move_incident ''verifying'' ''night-autopilot'' ''post-check''
      (inc\<lparr>in_status := ''executing'', in_timeline := t3\<rparr>) = Inr (inc\<lparr>in_status := ''verifying'', in_timeline := t4\<rparr>)"
      "told (inc\<lparr>in_status := ''verifying'', in_timeline := t4\<rparr>)"
    using move_told [of "inc\<lparr>in_status := ''executing'', in_timeline := t3\<rparr>" "''verifying''"] by auto
  let ?v = "verify_recovery sha1 (incident.truncate (inc\<lparr>in_status := ''verifying'', in_timeline := t4\<rparr>)) (action_proposal.truncate act0)"
  note run = night_act_def [of sha1 v2_gates action inc] t1(1) t2(1) ran t3 t4(1) assms(3)
  show ?thesis
  proof (cases "truthy (pget ?v ''recovered'')")
    case True
    obtain t5 where "move_incident ''resolved'' ''night-autopilot'' ''recovered during quiet hours''
        (inc\<lparr>in_status := ''verifying'', in_timeline := t4\<rparr>) = Inr (inc\<lparr>in_status := ''resolved'', in_timeline := t5\<rparr>)"
        "told (inc\<lparr>in_status := ''resolved'', in_timeline := t5\<rparr>)"
      using move_told [OF t4(2), of "''resolved''"] by auto
    note t5 = this
    show ?thesis
    proof (rule that)
      show "night_act sha1 v2_gates action inc = Inr (inc\<lparr>in_status := ''resolved'', in_timeline := t5, in_actions := [act0]\<rparr>,
          \<lparr>nr_incidents_detected = 1, nr_actions_taken = [[(''action_type'', PStr (ap_action_type act0)), (''result'', PDict result),
             (''v2_gates'', PDict v2_gates)]], nr_escalations = []\<rparr>)"
        using True t5(1) by (simp add: run Let_def)
    qed (use t5(2) act0 in simp_all)
  next
    case False
    let ?payload = "escalation_payload [''post_check_failed''] (PDict ?v)
        ''Wake the configured on-call contact; automatic quiet-hours remediation did not verify.'' @ [(''v2_gates'', PDict v2_gates)]"
    obtain t5 where "record_human_escalation ?payload (inc\<lparr>in_status := ''verifying'', in_timeline := t4\<rparr>)
        = inc\<lparr>in_status := ''escalated'', in_timeline := t5\<rparr>" "told (inc\<lparr>in_status := ''escalated'', in_timeline := t5\<rparr>)"
      by (rule escalation_told [OF t4(2), of ?payload]) auto
    note t5 = this
    show ?thesis
    proof (rule that)
      show "night_act sha1 v2_gates action inc = Inr (inc\<lparr>in_status := ''escalated'', in_timeline := t5,
            in_actions := [escalate_action (redact_dict ?payload) act0]\<rparr>,
          \<lparr>nr_incidents_detected = 1, nr_actions_taken = [[(''action_type'', PStr (ap_action_type act0)), (''result'', PDict result),
             (''v2_gates'', PDict v2_gates)]], nr_escalations = [?payload]\<rparr>)"
        using False t5(1) by (simp add: run Let_def)
    qed (use t5(2) act0 in \<open>simp_all add: escalate_action_def\<close>)
  qed
qed


section \<open>The services always answer\<close>

lemma evaluate_answers:
  assumes "resolved_autopilot ctx = Inr cfg"
  obtains policy where "evaluate reg request (Some ctx) = Inr policy"
proof (cases reg request "Some ctx" rule: evaluate_cases)
  case (fail e)
  with that show ?thesis by blast
next
  case (pass a)
  obtain d where d: "evaluate_night_autopilot request ctx (am_base_risk a) = Inr d"
    using assms by (simp add: evaluate_night_autopilot_def Let_def)
  have "\<exists>policy. evaluate reg request (Some ctx) = Inr policy"
    unfolding evaluate_static_pass [OF pass] by (simp add: context_of_def d)
  with that show ?thesis by blast
qed

definition night_autopilot_limits :: "night_config \<Rightarrow> night_autopilot_config" where
  "night_autopilot_limits cfg = default_night_autopilot
     \<lparr>na_max_automatic_risk := nc_max_automatic_risk cfg,
      na_max_attempts_per_incident := nc_max_attempts_per_incident cfg,
      na_allowed_services := nc_allowed_services cfg,
      na_allowed_environments := nc_allowed_environments cfg,
      na_allowed_actions := [''mock.execute_restart_worker'']\<rparr>"

lemma night_context_limits:
  "resolved_autopilot (night_policy_context cfg inc blast simulation failed) = Inr (night_autopilot_limits cfg)"
  by (simp add: resolved_autopilot_def night_policy_context_def default_policy_context_def night_autopilot_limits_def)

lemma night_policy_answers: obtains policy where "night_policy db cfg inc = Inr policy"
  unfolding night_policy_def Let_def by (rule evaluate_answers [OF night_context_limits])

lemma v2_case_confidence:
  "gate_confidence (v2_case n allowed blast simulation failed matches cfg inc) = Inr (Some (Finite n (- 2)))"
  "gate_threshold (v2_case n allowed blast simulation failed matches cfg inc) = Inr (Finite 8 (- 1))"
  by (simp_all add: gate_confidence_def gate_threshold_def v2_case_def)

lemma v2_gates_answer:
  obtains gate where "evaluate_preventive_safety_gate no_objects (v2_case n allowed blast simulation failed matches cfg inc) = Inr gate"
    "evaluate_v2_gates n allowed blast simulation failed matches cfg inc = Inr (night_autopilot_v2_dict gate)"
proof -
  let ?c = "v2_case n allowed blast simulation failed matches cfg inc"
  obtain ctx where ctx: "gate_policy_context no_objects ?c = Inr ctx"
    unfolding gate_policy_context_def v2_case_confidence by (simp add: Let_def v2_case_def)
  obtain policy where "evaluate (go_registry no_objects) (coerce_request no_objects ?c) (Some ctx) = Inr policy"
    by (rule engine_always_answers [OF ctx])
  then obtain gate where "evaluate_preventive_safety_gate no_objects ?c = Inr gate"
    unfolding evaluate_preventive_safety_gate_def gate_policy_def ctx v2_case_confidence by (simp add: Let_def)
  then show ?thesis by (intro that) (simp_all add: evaluate_v2_gates_def)
qed

lemma v2_passed: "truthy (pget (night_autopilot_v2_dict gate) ''passed'') \<longleftrightarrow> sg_passed gate"
  by (simp add: night_autopilot_v2_dict_def)

text \<open>A run, split at its one decision.\<close>

definition night_go :: "stored_incident list \<Rightarrow> night_config \<Rightarrow> stored_incident \<Rightarrow> policy_evaluation \<Rightarrow> safety_gate_result \<Rightarrow> bool" where
  "night_go db cfg inc policy gate \<longleftrightarrow>
     night_policy db cfg inc = Inr policy
     \<and> evaluate_preventive_safety_gate no_objects
         (v2_case (estimated_confidence (nc_scenario cfg)) (pe_decision policy = PD_ALLOW)
            (blast_evaluate DEFAULT_ACTION_REGISTRY (night_request cfg inc)) (simulate DEFAULT_ACTION_REGISTRY (night_request cfg inc))
            (failed_remediation_warning (night_matches db cfg inc)) (summarize_matches (night_matches db cfg inc)) cfg inc) = Inr gate
     \<and> sg_passed gate \<and> nc_max_attempts_per_incident cfg \<ge> 1"

lemma night_run_cases:
  obtains inc gate policy st tl' act out where "detect_incident new_id fingerprint cfg = Inr inc"
      "detected new_id fingerprint cfg inc" "night_go db cfg inc policy gate"
      "simulate_night_autopilot sha1 new_id fingerprint cfg db
       = Inr (db @ [inc\<lparr>in_status := st, in_timeline := tl', in_actions := [act]\<rparr>], out)"
      "told (inc\<lparr>in_status := st, in_timeline := tl', in_actions := [act]\<rparr>)"
      "ap_action_type act = nc_action_type cfg"
      "ap_status act = (if nc_action_type cfg \<in> set MOCK_HANDLED then ''executed'' else ''failed'')"
      "length (nr_actions_taken out) = 1"
      "st = ''resolved'' \<and> nr_escalations out = [] \<or> st = ''escalated'' \<and> length (nr_escalations out) = 1"
  | inc gate policy tl' out where "detect_incident new_id fingerprint cfg = Inr inc"
      "detected new_id fingerprint cfg inc" "\<not> night_go db cfg inc policy gate"
      "simulate_night_autopilot sha1 new_id fingerprint cfg db
       = Inr (db @ [inc\<lparr>in_status := ''escalated'', in_timeline := tl'\<rparr>], out)"
      "told (inc\<lparr>in_status := ''escalated'', in_timeline := tl'\<rparr>)"
      "nr_actions_taken out = []" "length (nr_escalations out) = 1"
proof -
  obtain inc where inc: "detect_incident new_id fingerprint cfg = Inr inc" "detected new_id fingerprint cfg inc"
    by (rule detect_incident_total)
  obtain policy where policy: "night_policy db cfg inc = Inr policy" by (rule night_policy_answers)
  let ?hits = "night_matches db cfg inc" and ?blast = "blast_evaluate DEFAULT_ACTION_REGISTRY (night_request cfg inc)"
    and ?sim = "simulate DEFAULT_ACTION_REGISTRY (night_request cfg inc)"
  obtain gate where gate: "evaluate_preventive_safety_gate no_objects
       (v2_case (estimated_confidence (nc_scenario cfg)) (pe_decision policy = PD_ALLOW) ?blast ?sim
          (failed_remediation_warning ?hits) (summarize_matches ?hits) cfg inc) = Inr gate"
      "night_gates_for db cfg inc policy = Inr (night_autopilot_v2_dict gate)"
    unfolding night_gates_for_def Let_def by (rule v2_gates_answer)
  define noted where "noted = add_timeline_event ''night-autopilot'' ''night_autopilot_v2_gate''
     (''Night Autopilot v2 gates '' @ (if truthy (pget (night_autopilot_v2_dict gate) ''passed'') then ''passed'' else ''blocked''))
     (night_autopilot_v2_dict gate) inc"
  then obtain t0 where t0: "noted = inc\<lparr>in_timeline := t0\<rparr>" using event_update by metis
  have told: "told noted" unfolding noted_def using inc(2) by (intro told_event) (simp_all add: detected_def)
  have status: "in_status noted = ''investigating''" "in_actions noted = []" using inc(2) by (simp_all add: noted_def detected_def)
  let ?action = "night_action cfg inc policy (night_action_payload (night_autopilot_v2_dict gate) ?blast ?sim (summarize_matches ?hits))"
  have run: "simulate_night_autopilot sha1 new_id fingerprint cfg db =
      rbind (if sg_passed gate \<and> nc_max_attempts_per_incident cfg \<ge> 1
             then night_act sha1 (night_autopilot_v2_dict gate) ?action noted
             else Inr (night_block cfg (night_autopilot_v2_dict gate) policy noted)) (\<lambda>(inc, outcome). Inr (db @ [inc], outcome))"
    unfolding simulate_night_autopilot_def inc(1) rbind_simps policy gate(2) Let_def noted_def v2_passed by (rule refl)
  show ?thesis
  proof (cases "sg_passed gate \<and> nc_max_attempts_per_incident cfg \<ge> 1")
    case True
    obtain st tl' act out where act: "night_act sha1 (night_autopilot_v2_dict gate) ?action noted
        = Inr (noted\<lparr>in_status := st, in_timeline := tl', in_actions := [act]\<rparr>, out)"
      "told (noted\<lparr>in_status := st, in_timeline := tl', in_actions := [act]\<rparr>)" "ap_action_type act = ap_action_type ?action"
      "ap_status act = (if ap_action_type ?action \<in> set MOCK_HANDLED then ''executed'' else ''failed'')"
      "length (nr_actions_taken out) = 1"
      "st = ''resolved'' \<and> nr_escalations out = [] \<or> st = ''escalated'' \<and> length (nr_escalations out) = 1"
      by (rule night_act_total [OF told status, of sha1 "night_autopilot_v2_dict gate" ?action])
    have same: "noted\<lparr>in_status := st, in_timeline := tl', in_actions := [act]\<rparr> = inc\<lparr>in_status := st, in_timeline := tl', in_actions := [act]\<rparr>"
      by (simp add: t0)
    have type: "ap_action_type ?action = nc_action_type cfg" by (simp add: night_action_def)
    have "night_go db cfg inc policy gate" using True policy gate(1) by (simp add: night_go_def)
    moreover have "simulate_night_autopilot sha1 new_id fingerprint cfg db
       = Inr (db @ [inc\<lparr>in_status := st, in_timeline := tl', in_actions := [act]\<rparr>], out)"
      unfolding run using True act(1) same by simp
    ultimately show ?thesis using act(2-6) unfolding same type by (intro that(1) [OF inc]) assumption+
  next
    case False
    let ?payload = "escalation_payload (v2_block_triggers (night_autopilot_v2_dict gate) (decision_value (pe_decision policy))
        (nc_max_attempts_per_incident cfg)) PNone ''Wake the configured on-call contact; Night Autopilot v2 cannot proceed safely.''
        @ [(''v2_gates'', PDict (night_autopilot_v2_dict gate))]"
    obtain tl' where esc: "record_human_escalation ?payload noted = noted\<lparr>in_status := ''escalated'', in_timeline := tl'\<rparr>"
      "told (noted\<lparr>in_status := ''escalated'', in_timeline := tl'\<rparr>)"
      by (rule escalation_told [OF told, of ?payload]) (simp_all add: status)
    have same: "noted\<lparr>in_status := ''escalated'', in_timeline := tl'\<rparr> = inc\<lparr>in_status := ''escalated'', in_timeline := tl'\<rparr>"
      by (simp add: t0)
    have "\<not> night_go db cfg inc policy gate" using False by (simp add: night_go_def)
    moreover have "simulate_night_autopilot sha1 new_id fingerprint cfg db
       = Inr (db @ [inc\<lparr>in_status := ''escalated'', in_timeline := tl'\<rparr>],
           \<lparr>nr_incidents_detected = 1, nr_actions_taken = [], nr_escalations = [?payload]\<rparr>)"
      unfolding run night_block_def Let_def esc(1) same using False by auto
    moreover have "nr_actions_taken \<lparr>nr_incidents_detected = 1, nr_actions_taken = [], nr_escalations = [?payload]\<rparr> = []"
      by (rule night_result.simps(2))
    moreover have "length (nr_escalations \<lparr>nr_incidents_detected = 1, nr_actions_taken = [], nr_escalations = [?payload]\<rparr>) = 1"
      by simp
    ultimately show ?thesis using esc(2) unfolding same by (intro that(2) [OF inc])
  qed
qed


section \<open>Properties\<close>

text \<open>C36. Every quiet-hours run settles, whatever is in the database and however it is configured: it never
  raises, it adds one incident, and that incident's timeline is a path of the life cycle that ends
  either resolved, after exactly one action and with nobody woken, or escalated, with exactly one
  wake-up and after at most one action.\<close>

theorem night_autopilot_settles:
  "\<exists>inc out. simulate_night_autopilot sha1 new_id fingerprint cfg db = Inr (db @ [inc], out)
     \<and> in_id inc = new_id \<and> legal_path incident_next ''new'' (status_path inc)
     \<and> in_status inc = last (''new'' # status_path inc)
     \<and> length (in_actions inc) = length (nr_actions_taken out)
     \<and> (in_status inc = ''resolved'' \<and> length (nr_actions_taken out) = 1 \<and> nr_escalations out = []
        \<or> in_status inc = ''escalated'' \<and> length (nr_actions_taken out) \<le> 1 \<and> length (nr_escalations out) = 1)"
proof (cases rule: night_run_cases [of new_id fingerprint cfg db sha1])
  case (1 inc gate policy st tl' act out)
  then show ?thesis
    by (intro exI [of _ "inc\<lparr>in_status := st, in_timeline := tl', in_actions := [act]\<rparr>"] exI [of _ out])
       (auto simp: told_def detected_def)
next
  case (2 inc gate policy tl' out)
  then show ?thesis
    by (intro exI [of _ "inc\<lparr>in_status := ''escalated'', in_timeline := tl'\<rparr>"] exI [of _ out])
       (auto simp: told_def detected_def)
qed

text \<open>What a run that acts has passed.\<close>

lemma v2_case_request:
  "ar_action_type (coerce_request no_objects (v2_case n allowed blast simulation failed matches cfg inc)) = nc_action_type cfg"
  "ar_environment (coerce_request no_objects (v2_case n allowed blast simulation failed matches cfg inc)) = in_environment inc"
  by (simp_all add: coerce_request_def v2_case_def no_objects_def)

lemma v2_case_context:
  assumes "gate_policy_context no_objects (v2_case n allowed blast simulation failed matches cfg inc) = Inr ctx"
  shows "pc_service ctx = in_service inc" "autopilot_enabled ctx" "resolved_autopilot ctx = Inr default_night_autopilot"
  using assms [symmetric] unfolding gate_policy_context_def v2_case_confidence
  by (simp_all add: Let_def v2_case_def default_policy_context_def autopilot_enabled_def resolved_autopilot_def)

lemma night_limits_fields:
  "na_allowed_services (night_autopilot_limits cfg) = nc_allowed_services cfg"
  "na_allowed_environments (night_autopilot_limits cfg) = nc_allowed_environments cfg"
  "na_max_automatic_risk (night_autopilot_limits cfg) = nc_max_automatic_risk cfg"
  by (simp_all add: night_autopilot_limits_def)

lemma night_go_passed:
  assumes "night_go db cfg inc policy gate" and "detected new_id fingerprint cfg inc"
  shows "nc_action_type cfg = ''mock.execute_restart_worker'' \<and> 1 \<le> nc_max_attempts_per_incident cfg
     \<and> in_service inc \<in> set (nc_allowed_services cfg) \<inter> set (na_allowed_services default_night_autopilot)
     \<and> nc_environment cfg \<in> set (nc_allowed_environments cfg) \<inter> set (na_allowed_environments default_night_autopilot)
     \<and> nc_severity cfg \<noteq> ''critical'' \<and> nc_scenario cfg \<notin> set AMBIGUOUS_SCENARIOS
     \<and> RL_LOW \<le> nc_max_automatic_risk cfg
     \<and> \<not> failed_remediation_warning (night_matches db cfg inc)
     \<and> sm_ok (simulate DEFAULT_ACTION_REGISTRY (night_request cfg inc))
     \<and> br_rollback_available (blast_evaluate DEFAULT_ACTION_REGISTRY (night_request cfg inc))
     \<and> br_scope (blast_evaluate DEFAULT_ACTION_REGISTRY (night_request cfg inc)) \<in> set SAFE_BLAST_RADIUS_SCOPES"
proof -
  let ?request = "night_request cfg inc" and ?hits = "night_matches db cfg inc"
  let ?blast = "blast_evaluate DEFAULT_ACTION_REGISTRY ?request" and ?sim = "simulate DEFAULT_ACTION_REGISTRY ?request"
  let ?failed = "failed_remediation_warning ?hits"
  let ?ctx = "night_policy_context cfg inc ?blast ?sim ?failed"
  let ?case = "v2_case (estimated_confidence (nc_scenario cfg)) (pe_decision policy = PD_ALLOW) ?blast ?sim ?failed
      (summarize_matches ?hits) cfg inc"
  from assms(1) have gate: "evaluate_preventive_safety_gate no_objects ?case = Inr gate" "sg_passed gate"
    and policy: "evaluate DEFAULT_ACTION_REGISTRY ?request (Some ?ctx) = Inr policy"
    and attempts: "1 \<le> nc_max_attempts_per_incident cfg"
    by (simp_all add: night_go_def night_policy_def Let_def)
  obtain ctx confidence threshold where inner: "gate_policy_context no_objects ?case = Inr ctx"
    "gate_confidence ?case = Inr confidence" "gate_threshold ?case = Inr threshold"
    "engine_allows (go_registry no_objects) (coerce_request no_objects ?case) ctx"
    "case_clear no_objects ?case" "\<not> confidence_low confidence threshold"
    by (rule safety_gate_pass [OF gate])
  have allowed: "pe_decision policy = PD_ALLOW" and clear: "\<not> ?failed"
    using inner(5) by (auto simp: case_clear_def v2_case_def gate_failed_memory_def)
  have scenario: "nc_scenario cfg \<notin> set AMBIGUOUS_SCENARIOS"
    using inner(2,3,6) by (auto simp: v2_case_confidence confidence_low_def estimated_confidence_def)
  from inner(4) v2_case_context [OF inner(1)] obtain risk
    where own: "night_gates (coerce_request no_objects ?case) ctx risk default_night_autopilot"
    by (auto simp: engine_allows_def)
  have outer: "engine_allows DEFAULT_ACTION_REGISTRY ?request ?ctx"
    using engine_allows_iff [OF policy] allowed by simp
  moreover have "autopilot_enabled ?ctx" by (simp add: autopilot_enabled_def night_policy_context_def)
  ultimately obtain a where a: "static_gates DEFAULT_ACTION_REGISTRY ?request a ?ctx"
    "night_gates ?request ?ctx (am_base_risk a) (night_autopilot_limits cfg)"
    using night_context_limits [of cfg inc ?blast ?sim ?failed] by (auto simp: engine_allows_def)
  have fields: "ar_action_type ?request = nc_action_type cfg" "ar_environment ?request = in_environment inc"
    "pc_severity ?ctx = in_severity inc" "pc_service ?ctx = in_service inc" "pc_simulation_passed ?ctx = Some (sm_ok ?sim)"
    "pc_rollback_available ?ctx = Some (br_rollback_available ?blast)" "pc_blast_radius_scope ?ctx = Some (br_scope ?blast)"
    by (simp_all add: night_request_def night_policy_context_def)
  have type: "nc_action_type cfg = ''mock.execute_restart_worker''"
    using a(2) by (simp add: night_gates_def fields night_autopilot_limits_def)
  have "get_action DEFAULT_ACTION_REGISTRY ''mock.execute_restart_worker'' = Some a"
    using a(1) by (simp add: static_gates_def fields type)
  moreover have "map_option am_base_risk (get_action DEFAULT_ACTION_REGISTRY ''mock.execute_restart_worker'') = Some RL_LOW"
    by code_simp
  ultimately have low: "am_base_risk a = RL_LOW" by simp
  have inc: "in_environment inc = nc_environment cfg" "in_severity inc = nc_severity cfg"
    using assms(2) by (simp_all only: detected_def)
  have narrow: "in_service inc \<in> set (nc_allowed_services cfg)" "nc_environment cfg \<in> set (nc_allowed_environments cfg)"
      "nc_severity cfg \<noteq> ''critical''" "RL_LOW \<le> nc_max_automatic_risk cfg" "sm_ok ?sim" "br_rollback_available ?blast"
      "br_scope ?blast = ''local'' \<or> br_scope ?blast = ''service''"
    using a(2) unfolding night_gates_def fields low inc night_limits_fields
    by - (elim conjE, simp only: option.inject option.distinct insert_iff empty_iff simp_thms)+
  have wide: "in_service inc \<in> set (na_allowed_services default_night_autopilot)"
      "nc_environment cfg \<in> set (na_allowed_environments default_night_autopilot)"
    using own unfolding night_gates_def v2_case_request v2_case_context(1) [OF inner(1)] inc by - (elim conjE, assumption)+
  show ?thesis
    using attempts clear scenario type narrow wide by (simp only: SAFE_BLAST_RADIUS_SCOPES_def list.set Int_iff insert_iff empty_iff simp_thms)
qed

text \<open>C23. The autopilot acts only inside every limit at once.  If a run takes an action, it is the mock worker
  restart; the service and the environment are allowed both by the configuration and by the policy
  engine's own defaults (so a configuration can narrow these limits and never widen them); severity is
  not critical, the scenario is not one of the ambiguous ones, low risk is permitted and an attempt is
  left; the dry run succeeded, a rollback exists, the blast radius is local or of one service; and none
  of the five best matches that the search of memory returns warns of a failed remediation (one ranked
  below them is not seen).\<close>

theorem night_autopilot_acts_within_limits:
  assumes "simulate_night_autopilot sha1 new_id fingerprint cfg db = Inr (db', out)" and "nr_actions_taken out \<noteq> []"
  shows "\<exists>inc. detect_incident new_id fingerprint cfg = Inr inc
     \<and> nc_action_type cfg = ''mock.execute_restart_worker'' \<and> 1 \<le> nc_max_attempts_per_incident cfg
     \<and> in_service inc \<in> set (nc_allowed_services cfg) \<inter> set (na_allowed_services default_night_autopilot)
     \<and> nc_environment cfg \<in> set (nc_allowed_environments cfg) \<inter> set (na_allowed_environments default_night_autopilot)
     \<and> nc_severity cfg \<noteq> ''critical'' \<and> nc_scenario cfg \<notin> set AMBIGUOUS_SCENARIOS
     \<and> RL_LOW \<le> nc_max_automatic_risk cfg
     \<and> \<not> failed_remediation_warning (night_matches db cfg inc)
     \<and> sm_ok (simulate DEFAULT_ACTION_REGISTRY (night_request cfg inc))
     \<and> br_rollback_available (blast_evaluate DEFAULT_ACTION_REGISTRY (night_request cfg inc))
     \<and> br_scope (blast_evaluate DEFAULT_ACTION_REGISTRY (night_request cfg inc)) \<in> set SAFE_BLAST_RADIUS_SCOPES"
proof (cases rule: night_run_cases [of new_id fingerprint cfg db sha1])
  case (1 inc gate policy st tl' act out')
  then show ?thesis using night_go_passed [OF 1(3,2)] by blast
next
  case (2 inc gate policy tl' out')
  then have "nr_actions_taken out = []" using assms(1) by simp
  with assms(2) show ?thesis by contradiction
qed


text \<open>The scenario whose verification fails always wakes a human.\<close>

lemma move_payload: "move_incident target actor reason inc = Inr inc' \<Longrightarrow> in_alert_payload inc' = in_alert_payload inc"
  by (auto simp: move_incident_def transition_incident_def Let_def split: if_splits)

lemma unverified_wakes:
  assumes "night_act sha1 v2_gates action inc = Inr (inc', out)"
    and "pget (in_alert_payload inc) ''scenario'' = PStr ''verification_failure''"
  shows "nr_escalations out \<noteq> []"
proof -
  have unverified: "pget (verify_recovery sha1 (incident.truncate i) a) ''recovered'' = PBool False"
    if "in_alert_payload i = in_alert_payload inc" for i :: stored_incident and a
    using that assms(2) by (simp add: verify_recovery_def Let_def incident.truncate_def)
  obtain i1 where i1: "move_incident ''action_proposed'' ''night-autopilot'' ''allowlisted action selected'' inc = Inr i1"
    using assms(1) unfolding night_act_def by (rule rbind_InrE)
  obtain i2 where i2: "move_incident ''executing'' ''night-autopilot'' ''automatic action allowed'' i1 = Inr i2"
    using assms(1) unfolding night_act_def i1 rbind_simps by (rule rbind_InrE)
  obtain act result where ran: "run_action sha1 i2 action = (act, result)" by (cases rule: prod.exhaust)
  obtain i4 where i4: "move_incident ''verifying'' ''night-autopilot'' ''post-check''
      (add_timeline_event ''night-autopilot'' ''action_executed'' ''Automatic mock worker restart executed'' result i2) = Inr i4"
    using assms(1) unfolding night_act_def i1 i2 rbind_simps ran Let_def prod.case by (rule rbind_InrE)
  have "in_alert_payload i4 = in_alert_payload inc"
    using move_payload [OF i1] move_payload [OF i2] move_payload [OF i4] by (simp add: add_timeline_event_def)
  then have "\<not> truthy (pget (verify_recovery sha1 (incident.truncate i4) (action_proposal.truncate act)) ''recovered'')"
    by (simp add: unverified)
  with assms(1) show ?thesis unfolding night_act_def i1 i2 i4 rbind_simps ran Let_def prod.case by auto
qed

text \<open>The alert of a night finds no incident: \<open>create_mock_incident\<close> makes one.\<close>

lemma night_alert_fresh:
  assumes "alert_fingerprint sha uuid (night_alert cfg) \<notin> in_alert_fingerprint ` set db" and "new_id \<notin> in_id ` set db"
  shows "create_mock_incident sha new_id uuid (night_alert cfg) db
    = rbind (new_mock_incident new_id (alert_fingerprint sha uuid (night_alert cfg)) (night_alert cfg)) (\<lambda>i. Inr (db @ [i], i))"
proof -
  have "filter (has_fingerprint t w (alert_fingerprint sha uuid (night_alert cfg))) db = []" for t w
    using assms(1) by (auto simp: filter_empty_conv has_fingerprint_def image_iff)
  then show ?thesis using assms(2) by (simp add: create_mock_incident_def Let_def one_or_none_def)
qed

end
