(* ===== verification/Night_Demo.thy ===== *)
theory Night_Demo
  imports Night_Autopilot
begin

text \<open>
  Concrete incidents and quiet-hours runs: a life cycle through recovery, a run that restarts the
  worker and resolves, and one whose verification fails, with the run of the night after.
\<close>

section \<open>The life cycle\<close>

definition demo_incident :: stored_incident where
  "demo_incident =
     \<lparr>in_id = ''i1'', in_tenant_id = ''demo'', in_workspace_id = ''demo'', in_service = ''worker'',
      in_environment = ''staging'', in_alert_payload = [(''scenario'', PStr ''worker_queue_backlog'')],
      in_alert_fingerprint = ''f1'', in_status = ''verifying'', in_severity = ''medium'', in_summary = ''backlog'',
      in_root_cause = None, in_confidence = None, in_actions = [], in_timeline = []\<rparr>"

lemma incident_moves_along_table_witness:
  "incident_known ''verifying''
   \<and> (\<exists>p. legal_path incident_next ''verifying'' p
        \<and> in_status (incident_calls [(''resolved'', ''a'', Some ''ok''), (''executing'', ''a'', None)] demo_incident) = last (''verifying'' # p))
   \<and> in_status (incident_calls [(''resolved'', ''a'', Some ''ok''), (''executing'', ''a'', None)] demo_incident) = ''resolved''"
proof -
  have known: "incident_known (in_status demo_incident)" by code_simp
  have status: "in_status demo_incident = ''verifying''" by (simp add: demo_incident_def)
  have "in_status (incident_calls [(''resolved'', ''a'', Some ''ok''), (''executing'', ''a'', None)] demo_incident) = ''resolved''"
    by code_simp
  with incident_moves_along_table [OF known, of "[(''resolved'', ''a'', Some ''ok''), (''executing'', ''a'', None)]"] known
  show ?thesis unfolding status by blast
qed

section \<open>A night\<close>

text \<open>The stages of a first night of a scenario, each a value of its own.\<close>

definition no_sha1 :: "string \<Rightarrow> 160 word" where
  "no_sha1 s = 0"

definition demo_config :: "string \<Rightarrow> night_config" where
  "demo_config s = default_night_config\<lparr>nc_scenario := s\<rparr>"

definition demo_detected :: "string \<Rightarrow> stored_incident" where
  "demo_detected s = projr (detect_incident ''i1'' ''f1'' (demo_config s))"

definition demo_policy :: "string \<Rightarrow> policy_evaluation" where
  "demo_policy s = projr (night_policy [] (demo_config s) (demo_detected s))"

definition demo_gates :: "string \<Rightarrow> pydict" where
  "demo_gates s = projr (night_gates_for [] (demo_config s) (demo_detected s) (demo_policy s))"

definition demo_noted :: "string \<Rightarrow> stored_incident" where
  "demo_noted s = add_timeline_event ''night-autopilot'' ''night_autopilot_v2_gate'' ''Night Autopilot v2 gates passed''
     (demo_gates s) (demo_detected s)"

definition demo_action :: "string \<Rightarrow> stored_action" where
  "demo_action s = (let request = night_request (demo_config s) (demo_detected s) in
     night_action (demo_config s) (demo_detected s) (demo_policy s)
       (night_action_payload (demo_gates s) (blast_evaluate DEFAULT_ACTION_REGISTRY request)
          (simulate DEFAULT_ACTION_REGISTRY request) (summarize_matches (night_matches [] (demo_config s) (demo_detected s)))))"

definition demo_acted :: "string \<Rightarrow> stored_incident \<times> night_result" where
  "demo_acted s = projr (night_act no_sha1 (demo_gates s) (demo_action s) (demo_noted s))"

lemma projr_Inr: "\<not> isl r \<Longrightarrow> r = Inr (projr r)"
  by (cases r) simp_all

lemma first_night:
  assumes "truthy (pget (demo_gates s) ''passed'')"
  shows "simulate_night_autopilot no_sha1 ''i1'' ''f1'' (demo_config s) [] = Inr ([fst (demo_acted s)], snd (demo_acted s))"
    and "length (nr_actions_taken (snd (demo_acted s))) = 1"
    and "length (in_actions (fst (demo_acted s))) = 1"
    and "s = ''verification_failure'' \<Longrightarrow> nr_escalations (snd (demo_acted s)) \<noteq> []"
proof -
  obtain inc where detect: "detect_incident ''i1'' ''f1'' (demo_config s) = Inr inc"
    and inc: "detected ''i1'' ''f1'' (demo_config s) inc" by (rule detect_incident_total)
  then have d: "demo_detected s = inc" by (simp add: demo_detected_def)
  obtain policy where policy: "night_policy [] (demo_config s) inc = Inr policy" by (rule night_policy_answers)
  then have p: "demo_policy s = policy" by (simp add: demo_policy_def d)
  obtain v2 where gates: "night_gates_for [] (demo_config s) inc policy = Inr v2"
    unfolding night_gates_for_def Let_def by (rule v2_gates_answer)
  then have v2: "demo_gates s = v2" by (simp add: demo_gates_def d p)
  have "told (demo_noted s)" unfolding demo_noted_def d using inc by (intro told_event) (simp_all add: detected_def)
  moreover have "in_status (demo_noted s) = ''investigating''" "in_actions (demo_noted s) = []"
    using inc by (simp_all add: demo_noted_def d detected_def)
  ultimately obtain st tl' act out where act: "night_act no_sha1 v2 (demo_action s) (demo_noted s)
       = Inr (demo_noted s\<lparr>in_status := st, in_timeline := tl', in_actions := [act]\<rparr>, out)" "length (nr_actions_taken out) = 1"
    by (rule night_act_total)
  then have a: "demo_acted s = (demo_noted s\<lparr>in_status := st, in_timeline := tl', in_actions := [act]\<rparr>, out)"
    by (simp add: demo_acted_def v2)
  have "1 \<le> nc_max_attempts_per_incident (demo_config s)" by (simp add: demo_config_def default_night_config_def)
  then have "simulate_night_autopilot no_sha1 ''i1'' ''f1'' (demo_config s) []
      = rbind (night_act no_sha1 v2 (demo_action s) (demo_noted s)) (\<lambda>(final, outcome). Inr ([] @ [final], outcome))"
    using assms unfolding simulate_night_autopilot_def detect policy gates rbind_simps Let_def demo_action_def demo_noted_def d p v2 by simp
  then show "simulate_night_autopilot no_sha1 ''i1'' ''f1'' (demo_config s) [] = Inr ([fst (demo_acted s)], snd (demo_acted s))"
    by (simp add: act(1) a)
  show "length (nr_actions_taken (snd (demo_acted s))) = 1" "length (in_actions (fst (demo_acted s))) = 1"
    by (simp_all add: a act(2))
  have "in_alert_payload inc = alert_dump (night_alert (demo_config s))" using inc by (simp only: detected_def)
  then have scenario: "pget (in_alert_payload (demo_noted s)) ''scenario'' = PStr s"
    by (simp add: demo_noted_def d add_timeline_event_def alert_dump_def night_alert_def demo_config_def)
  assume "s = ''verification_failure''"
  with scenario have "pget (in_alert_payload (demo_noted s)) ''scenario'' = PStr ''verification_failure''" by simp
  with act(1) show "nr_escalations (snd (demo_acted s)) \<noteq> []" unfolding a snd_conv by (rule unverified_wakes)
qed

text \<open>The gates see of the incident only where it is, how severe, and how sure its estimate.\<close>

definition demo_seen :: "string \<Rightarrow> stored_incident" where
  "demo_seen s =
     \<lparr>in_id = ''i1'', in_tenant_id = ''demo'', in_workspace_id = ''demo'', in_service = ''worker'',
      in_environment = ''staging'', in_alert_payload = [], in_alert_fingerprint = '''', in_status = ''investigating'',
      in_severity = ''medium'', in_summary = '''', in_root_cause = None,
      in_confidence = Some (rat_of_int (estimated_confidence s) / 100), in_actions = [], in_timeline = []\<rparr>"

lemma first_matches: "night_matches [] cfg inc = []"
  by (simp add: night_matches_def build_incident_memory_def search_similar_incidents_def)

lemma gates_see:
  "demo_gates s = projr (night_gates_for [] (demo_config s) (demo_seen s) (projr (night_policy [] (demo_config s) (demo_seen s))))"
proof -
  obtain inc where detect: "detect_incident ''i1'' ''f1'' (demo_config s) = Inr inc"
    and inc: "detected ''i1'' ''f1'' (demo_config s) inc" by (rule detect_incident_total)
  have config: "nc_scenario (demo_config s) = s" "nc_environment (demo_config s) = ''staging''" "nc_severity (demo_config s) = ''medium''"
    "service_for_alert (night_alert (demo_config s)) = ''worker''"
    by (simp_all add: demo_config_def default_night_config_def service_for_alert_def night_alert_def str_or_def)
  have same: "in_id inc = in_id (demo_seen s)" "in_tenant_id inc = in_tenant_id (demo_seen s)"
    "in_workspace_id inc = in_workspace_id (demo_seen s)" "in_service inc = in_service (demo_seen s)"
    "in_environment inc = in_environment (demo_seen s)" "in_severity inc = in_severity (demo_seen s)"
    "in_confidence inc = in_confidence (demo_seen s)"
    using inc unfolding detected_def config by (simp_all add: demo_seen_def)
  have request: "night_request (demo_config s) inc = night_request (demo_config s) (demo_seen s)"
    by (simp add: night_request_def same)
  have "night_policy [] (demo_config s) inc = night_policy [] (demo_config s) (demo_seen s)"
    by (simp only: night_policy_def Let_def request first_matches night_policy_context_def same)
  moreover have "night_gates_for [] (demo_config s) inc p = night_gates_for [] (demo_config s) (demo_seen s) p" for p
    by (simp only: night_gates_for_def Let_def request first_matches evaluate_v2_gates_def v2_case_def same)
  ultimately show ?thesis by (simp add: demo_gates_def demo_policy_def demo_detected_def detect)
qed

lemma gates_pass:
  "truthy (pget (demo_gates ''worker_queue_backlog'') ''passed'')"
  "truthy (pget (demo_gates ''verification_failure'') ''passed'')"
  unfolding gates_see by code_simp+

lemma night_autopilot_acts_within_limits_witness:
  "length (nr_actions_taken (snd (demo_acted ''worker_queue_backlog''))) = 1
   \<and> (\<exists>inc. detect_incident ''i1'' ''f1'' (demo_config ''worker_queue_backlog'') = Inr inc
      \<and> sm_ok (simulate DEFAULT_ACTION_REGISTRY (night_request (demo_config ''worker_queue_backlog'') inc)))"
proof -
  note night = first_night [OF gates_pass(1)]
  have "nr_actions_taken (snd (demo_acted ''worker_queue_backlog'')) \<noteq> []"
    using night(2) by (metis list.size(3) zero_neq_one)
  with night_autopilot_acts_within_limits [OF night(1)] night(2) show ?thesis by blast
qed


section \<open>A storm\<close>

lemma alert_storm_one_incident_witness:
  "\<exists>db inc inc'. create_and_enqueue (\<lambda>s. s) (''i1'', ''u1'', ''j1'') (default_alert\<lparr>al_idempotency_key := Some ''k''\<rparr>)
       \<lparr>idb_incidents = [], idb_jobs = []\<rparr> = Inr (db, inc)
     \<and> create_and_enqueue (\<lambda>s. s) (''i2'', ''u2'', ''j2'') (default_alert\<lparr>al_fingerprint := Some ''k'', al_severity := ''critical''\<rparr>) db
       = Inr (db, inc') \<and> in_id inc' = in_id inc"
proof -
  let ?a = "default_alert\<lparr>al_idempotency_key := Some ''k''\<rparr>" and ?a' = "default_alert\<lparr>al_fingerprint := Some ''k'', al_severity := ''critical''\<rparr>"
  have ok: "intake_ok \<lparr>idb_incidents = [], idb_jobs = []\<rparr>" by (simp add: intake_ok_def)
  from intake_total [OF ok, of "''i1''" "''j1''" "\<lambda>s. s" "''u1''" ?a] obtain db inc
    where one: "create_and_enqueue (\<lambda>s. s) (''i1'', ''u1'', ''j1'') ?a \<lparr>idb_incidents = [], idb_jobs = []\<rparr> = Inr (db, inc)" by auto
  have keys: "alert_key ?a \<noteq> []" "alert_key ?a' = alert_key ?a" "service_for_alert ?a' = service_for_alert ?a"
    by (simp_all add: alert_key_def str_or_def default_alert_def service_for_alert_def)
  have scope: "al_tenant_id ?a' = al_tenant_id ?a" "al_workspace_id ?a' = al_workspace_id ?a" "al_environment ?a' = al_environment ?a"
    "al_scenario ?a' = al_scenario ?a"
    by simp_all
  from alert_storm_one_incident [OF ok one keys(1,2) scope keys(3), of "[]" "(''i2'', ''u2'', ''j2'')"] one show ?thesis by auto
qed

end
