(* ===== verification/Incident_Decisions.thy ===== *)
theory Incident_Decisions
  imports Policy_Engine Incident_Handling
begin

text \<open>
  Decisions of humans on proposed actions (\<open>decide_action\<close> of \<open>app/services/incident_service.py\<close>, with
  \<open>authorization.py\<close>, the roles of \<open>identity_service.py\<close> and the attempts of
  \<open>execution_attempt_service.py\<close>).  The database is one list per table, the actions being rows of their
  own with the id of their incident; a call that raises is rolled back.  Audit events, which repeat the
  timeline, are left out; of the report its path is kept.
\<close>

section \<open>Rows\<close>

record decided_action = stored_action +
  da_id :: string
  da_incident_id :: string
  da_tenant_id :: string
  da_workspace_id :: string
  da_preconditions :: "string list"
  da_post_checks :: "string list"

record approval_decision =
  ad_action_id :: string
  ad_tenant_id :: string
  ad_workspace_id :: string
  ad_decision :: string
  ad_actor :: string
  ad_reason :: "string option"

record execution_attempt =
  at_action_id :: string
  at_incident_id :: string
  at_attempt_number :: int
  at_idempotency_key :: string
  at_status :: string
  at_precondition_result :: pydict
  at_execution_result :: pydict
  at_post_check_result :: pydict
  at_retry_eligible :: bool
  at_failure_class :: "string option"
  at_error :: "string option"

record decision_db =
  ddb_incidents :: "stored_incident list"
  ddb_actions :: "decided_action list"
  ddb_approvals :: "approval_decision list"
  ddb_attempts :: "execution_attempt list"

text \<open>\<open>query.one()\<close>.\<close>

definition exactly_one :: "'a list \<Rightarrow> 'a result" where
  "exactly_one rows =
     (case rows of [] \<Rightarrow> Inl (Raised ''NoResultFound'' ''No row was found when one was required'')
      | [x] \<Rightarrow> Inr x
      | _ \<Rightarrow> Inl (Raised ''MultipleResultsFound'' ''Multiple rows were found when exactly one was required''))"

section \<open>Authority\<close>

record principal =
  pr_email :: string
  pr_tenant_id :: string
  pr_workspace_id :: string
  pr_role :: string

definition APPROVER_ROLES :: "string list" where
  "APPROVER_ROLES = [''owner'', ''admin'', ''operator'']"

definition can_approve_actions :: "principal \<Rightarrow> bool" where
  "can_approve_actions p \<longleftrightarrow> pr_role p \<in> set APPROVER_ROLES"

definition require_same_scope :: "principal \<Rightarrow> string \<Rightarrow> string \<Rightarrow> string \<Rightarrow> unit result" where
  "require_same_scope p tenant_id workspace_id action =
     rguard (pr_tenant_id p \<noteq> tenant_id \<or> pr_workspace_id p \<noteq> workspace_id)
       (Raised ''AuthorizationError'' (''principal is not authorized to '' @ action @ '' in this tenant/workspace''))"

definition require_action_approval_authority :: "principal \<Rightarrow> unit result" where
  "require_action_approval_authority p =
     rguard (\<not> can_approve_actions p) (Raised ''AuthorizationError'' ''principal cannot approve or reject actions'')"

definition authorize :: "principal option \<Rightarrow> stored_incident \<Rightarrow> decided_action \<Rightarrow> unit result" where
  "authorize who inc a =
     (case who of None \<Rightarrow> Inr ()
      | Some p \<Rightarrow>
          rbind (require_same_scope p (in_tenant_id inc) (in_workspace_id inc) ''decide action'') (\<lambda>_.
          rbind (require_same_scope p (da_tenant_id a) (da_workspace_id a) ''decide action'') (\<lambda>_.
          require_action_approval_authority p)))"

section \<open>Attempts\<close>

definition rollback_metadata :: "decided_action \<Rightarrow> pydict" where
  "rollback_metadata a =
    (let type = ap_action_type a in
     if \<not> py_any_in [''rollback'', ''restart'', ''ticket''] type then [(''required'', PBool False)]
     else [(''required'', PBool True),
           (''expectation'', PStr
             (if py_in ''rollback'' type then ''rollback artifact is a draft/mock PR until approved and verified''
              else if py_in ''restart'' type then ''restart is simulated for a single non-production worker''
              else ''mock/local only; no external mutation'')),
           (''post_checks'', PList (map PStr (da_post_checks a)))])"

definition simulation_metadata :: "stored_incident \<Rightarrow> decided_action \<Rightarrow> pydict" where
  "simulation_metadata inc a =
     sim_to_dict (simulate DEFAULT_ACTION_REGISTRY
       \<lparr>ar_action_type = ap_action_type a, ar_target = ap_target a,
        ar_environment = (if ap_environment a \<noteq> [] then ap_environment a else in_environment inc),
        ar_tenant_id = in_tenant_id inc, ar_workspace_id = in_workspace_id inc, ar_payload = ap_payload a,
        ar_requester = ''agent'', ar_incident_id = Some (in_id inc), ar_approved = True, ar_approval_id = None\<rparr>)"

definition start_action_attempt ::
    "stored_incident \<Rightarrow> decided_action \<Rightarrow> string option \<Rightarrow> execution_attempt list \<Rightarrow> execution_attempt" where
  "start_action_attempt inc a idempotency_key attempts =
    (let existing_count = int (length (filter (\<lambda>t. at_action_id t = da_id a) attempts)) in
     \<lparr>at_action_id = da_id a, at_incident_id = in_id inc, at_attempt_number = existing_count + 1,
      at_idempotency_key = str_or idempotency_key (da_id a @ '':'' @ show_int (existing_count + 1)),
      at_status = ''running'',
      at_precondition_result =
        [(''ok'', PBool True), (''checks'', PList (map PStr (da_preconditions a))),
         (''dry_run_payload'', PDict (ap_payload a)), (''rollback_metadata'', PDict (rollback_metadata a)),
         (''simulation'', PDict (simulation_metadata inc a)),
         (''policy_decision_id'', PStr (sa_policy_decision a @ '':'' @ da_id a))],
      at_execution_result = [], at_post_check_result = [], at_retry_eligible = False, at_failure_class = None,
      at_error = None\<rparr>)"

text \<open>\<open>str(d.get("message") or default)\<close>.\<close>

definition message_or :: "pydict \<Rightarrow> string \<Rightarrow> string" where
  "message_or d default_message =
     (let m = pget d ''message'' in if truthy m then py_str m else default_message)"

definition record_execution_result :: "execution_attempt \<Rightarrow> pydict \<Rightarrow> execution_attempt" where
  "record_execution_result t result =
    (let t = t\<lparr>at_execution_result := redact_dict result\<rparr> in
     if \<not> truthy (pget result ''ok'')
     then t\<lparr>at_status := ''execution_failed'', at_retry_eligible := True, at_failure_class := Some ''execution_failed'',
            at_error := Some (redact_text (message_or result ''execution failed''))\<rparr>
     else t)"

definition record_post_check_result :: "execution_attempt \<Rightarrow> pydict \<Rightarrow> execution_attempt" where
  "record_post_check_result t verification =
    (let t = t\<lparr>at_post_check_result := redact_dict verification\<rparr> in
     if truthy (pget verification ''recovered'')
     then t\<lparr>at_status := ''succeeded'', at_retry_eligible := False, at_failure_class := None, at_error := None\<rparr>
     else t\<lparr>at_status := ''post_check_failed'', at_retry_eligible := True, at_failure_class := Some ''post_check_failed'',
            at_error := Some (redact_text (message_or verification ''post-check failed''))\<rparr>)"

section \<open>Deciding\<close>

type_synonym decision_outcome = "decision_db \<times> decided_action \<times> stored_incident \<times> string option"

definition put_action :: "decided_action \<Rightarrow> decided_action list \<Rightarrow> decided_action list" where
  "put_action a as = map (\<lambda>b. if da_id b = da_id a then a else b) as"

definition commit :: "decision_db \<Rightarrow> stored_incident \<Rightarrow> decided_action \<Rightarrow> string option \<Rightarrow> decision_outcome" where
  "commit db inc a report =
     (db\<lparr>ddb_incidents := put_incident inc (ddb_incidents db), ddb_actions := put_action a (ddb_actions db)\<rparr>, a, inc, report)"

definition escalate_decided ::
    "string \<Rightarrow> pyval \<Rightarrow> string option \<Rightarrow> stored_incident \<Rightarrow> decided_action \<Rightarrow> stored_incident \<times> decided_action" where
  "escalate_decided trigger verification recommended inc a =
    (let payload = escalation_payload [trigger] verification (str_or recommended (recommended_next_action trigger (Some a))) in
     (record_human_escalation payload inc, escalate_action (redact_dict payload) a))"

definition decide_reject :: "string \<Rightarrow> string option \<Rightarrow> decision_db \<Rightarrow> stored_incident \<Rightarrow> decided_action \<Rightarrow> decision_outcome result" where
  "decide_reject actor reason db inc a =
     rbind (move_incident ''escalated'' actor (str_or reason ''action rejected'') inc) (\<lambda>inc.
     Inr (commit db (add_timeline_event actor ''approval_rejected'' ''Action rejected'' [] inc)
       (a\<lparr>ap_status := ''rejected''\<rparr>) None))"

definition decision_request :: "stored_incident \<Rightarrow> decided_action \<Rightarrow> action_request" where
  "decision_request inc a =
     \<lparr>ar_action_type = ap_action_type a, ar_target = ap_target a, ar_environment = in_environment inc,
      ar_tenant_id = in_tenant_id inc, ar_workspace_id = in_workspace_id inc, ar_payload = ap_payload a,
      ar_requester = ''agent'', ar_incident_id = Some (in_id inc), ar_approved = True, ar_approval_id = None\<rparr>"

definition decision_context :: "stored_incident \<Rightarrow> policy_context" where
  "decision_context inc = (default_policy_context (in_environment inc))
     \<lparr>pc_service := in_service inc, pc_tenant_id := in_tenant_id inc, pc_workspace_id := in_workspace_id inc\<rparr>"

definition decide_deny :: "policy_evaluation \<Rightarrow> decision_db \<Rightarrow> stored_incident \<Rightarrow> decided_action \<Rightarrow> decision_outcome" where
  "decide_deny policy db inc a =
    (let a = a\<lparr>ap_status := ''denied'', sa_policy_decision := decision_value (pe_decision policy),
                sa_policy_reasons := pe_reasons policy\<rparr>;
         (inc, a) = escalate_decided ''policy_denied_action'' PNone
           (Some ''Do not execute the denied action; choose a safer runbook.'') inc a in
     commit db inc a None)"

text \<open>After the execution: its failure, or the post-check and the report.\<close>

definition decide_verify ::
    "(string \<Rightarrow> 160 word) \<Rightarrow> string \<Rightarrow> execution_attempt \<Rightarrow> decision_db \<Rightarrow> stored_incident \<Rightarrow> decided_action
      \<Rightarrow> decision_outcome result" where
  "decide_verify sha1 report_dir attempt db inc a =
     rbind (move_incident ''verifying'' ''verifier'' ''post-check started'' inc) (\<lambda>inc.
     let verification = verify_recovery sha1 (incident.truncate inc) (action_proposal.truncate a);
         attempt = record_post_check_result attempt verification;
         db = db\<lparr>ddb_attempts := ddb_attempts db @ [attempt]\<rparr>;
         report = report_dir @ ''/incident-'' @ in_id inc @ ''.md'';
         inc = add_timeline_event ''verifier'' ''recovery_verified''
           (''Recovery verified='' @ py_str (pget verification ''recovered'')) verification inc in
     rbind (if truthy (pget verification ''recovered'')
            then rbind (move_incident ''resolved'' ''verifier'' ''mock recovery passed'' inc) (\<lambda>inc. Inr (inc, a))
            else Inr (escalate_decided ''post_check_failed'' (PDict verification) None inc a)) (\<lambda>(inc, a).
     Inr (commit db (add_timeline_event ''reporter'' ''report_generated'' report [] inc) a (Some report))))"

definition decide_execute ::
    "(string \<Rightarrow> 160 word) \<Rightarrow> string \<Rightarrow> string \<Rightarrow> string \<Rightarrow> policy_evaluation \<Rightarrow> decision_db \<Rightarrow> stored_incident \<Rightarrow> decided_action
      \<Rightarrow> decision_outcome result" where
  "decide_execute sha1 report_dir approval_id actor policy db inc a =
    (let a = a\<lparr>ap_status := ''approved'', sa_policy_decision := decision_value (pe_decision policy),
                sa_policy_reasons := [pe_reason policy]\<rparr>;
         inc = add_timeline_event actor ''approval_granted'' ''Action approved'' [] inc in
     rbind (move_incident ''executing'' ''executor'' ''approved action'' inc) (\<lambda>inc.
     let attempt = start_action_attempt inc a (Some approval_id) (ddb_attempts db);
         (a, result) = run_action sha1 inc a;
         attempt = record_execution_result attempt result;
         inc = add_timeline_event ''executor'' ''action_executed''
           (''Executed '' @ ap_action_type a @ '': ok='' @ py_str (pget result ''ok'')) result inc in
     if \<not> truthy (pget result ''ok'')
     then let (inc, a) = escalate_decided ''execution_failed'' (PDict [(''execution'', PDict result)])
                (Some ''Stop automatic execution and inspect the failed mock action result.'') inc a in
       Inr (commit (db\<lparr>ddb_attempts := ddb_attempts db @ [attempt]\<rparr>) inc a None)
     else decide_verify sha1 report_dir attempt db inc a))"

definition decide_action ::
    "(string \<Rightarrow> 160 word) \<Rightarrow> string \<Rightarrow> string \<Rightarrow> string \<Rightarrow> string \<Rightarrow> string \<Rightarrow> string option \<Rightarrow> principal option \<Rightarrow> decision_db
      \<Rightarrow> decision_outcome result" where
  "decide_action sha1 report_dir approval_id action_id decision actor reason who db =
     rbind (exactly_one (filter (\<lambda>a. da_id a = action_id) (ddb_actions db))) (\<lambda>a.
     rbind (exactly_one (filter (\<lambda>i. in_id i = da_incident_id a) (ddb_incidents db))) (\<lambda>inc.
     rbind (authorize who inc a) (\<lambda>_.
     let actor = (case who of None \<Rightarrow> actor | Some p \<Rightarrow> pr_email p) in
     if decision = ''approve'' \<and> ap_status a = ''executed'' then Inr (db, a, inc, None)
     else
       let db = db\<lparr>ddb_approvals := ddb_approvals db @
             [\<lparr>ad_action_id = action_id, ad_tenant_id = in_tenant_id inc, ad_workspace_id = in_workspace_id inc,
               ad_decision = decision, ad_actor = actor, ad_reason = reason\<rparr>]\<rparr> in
       if decision = ''reject'' then decide_reject actor reason db inc a
       else rbind (evaluate DEFAULT_ACTION_REGISTRY (decision_request inc a) (Some (decision_context inc))) (\<lambda>policy.
         if pe_decision policy \<noteq> PD_ALLOW then Inr (decide_deny policy db inc a)
         else decide_execute sha1 report_dir approval_id actor policy db inc a))))"

section \<open>Facts\<close>

lemma move_status:
  "move_incident target actor reason inc = Inr inc' \<Longrightarrow>
     in_status inc' = target \<and> in_id inc' = in_id inc \<and> (target = in_status inc \<or> target \<in> set (incident_next (in_status inc)))"
  by (auto simp: move_incident_def transition_incident_def Let_def split: if_splits)

lemma move_succeeds:
  "target \<in> set (incident_next (in_status inc)) \<Longrightarrow> \<exists>inc'. move_incident target actor reason inc = Inr inc'"
  by (auto simp: move_incident_def transition_incident_def Let_def)

lemma escalation_status:
  "in_id (record_human_escalation payload inc) = in_id inc"
  "in_status (record_human_escalation payload inc)
     = (if ''escalated'' \<in> set (incident_next (in_status inc)) then ''escalated'' else in_status inc)"
proof -
  define noted where "noted = add_timeline_event ''escalation'' ''human_escalation_required''
     (''Human wake-up required: '' @ py_str (pget (redact_dict payload) ''trigger'')) (redact_dict payload) inc"
  then have same: "in_status noted = in_status inc" "in_id noted = in_id inc" by simp_all
  let ?move = "move_incident ''escalated'' ''escalation''
     (py_str (pget_or (redact_dict payload) ''trigger'' (PStr ''human_review_required''))) noted"
  have run: "record_human_escalation payload inc = (if in_status noted = ''escalated'' then noted
     else case ?move of Inr moved \<Rightarrow> moved
       | Inl _ \<Rightarrow> add_timeline_event ''escalation'' ''escalation_state_transition_blocked''
           ''Escalation recorded without changing terminal incident state.''
           [(''current_status'', PStr (in_status noted)), (''payload'', PDict (redact_dict payload))] noted)"
    unfolding record_human_escalation_def Let_def noted_def ..
  have "\<not> isl ?move" if next_escalated: "''escalated'' \<in> set (incident_next (in_status inc))"
  proof -
    obtain inc' where "?move = Inr inc'"
      using move_succeeds [of "''escalated''" noted "''escalation''"
        "py_str (pget_or (redact_dict payload) ''trigger'' (PStr ''human_review_required''))"] next_escalated same by auto
    then show ?thesis by simp
  qed
  then show "in_id (record_human_escalation payload inc) = in_id inc"
    and "in_status (record_human_escalation payload inc)
       = (if ''escalated'' \<in> set (incident_next (in_status inc)) then ''escalated'' else in_status inc)"
    unfolding run using move_status [of "''escalated''" _ _ noted] same by (auto split: sum.splits)
qed

lemma escalated_next:
  "''escalated'' \<in> set (incident_next ''executing'')" "''escalated'' \<in> set (incident_next ''verifying'')"
  "''escalated'' \<notin> set (incident_next ''resolved'')" "''escalated'' \<notin> set (incident_next ''escalated'')"
  "''executing'' \<notin> set (incident_next ''resolved'')" "''executing'' \<notin> set (incident_next ''escalated'')"
  by code_simp+

text \<open>What an execution leaves: one attempt more, and an incident that is resolved or escalated.\<close>

definition executed_as :: "decision_db \<Rightarrow> stored_incident \<Rightarrow> decided_action \<Rightarrow> decision_outcome \<Rightarrow> bool" where
  "executed_as db inc a out \<longleftrightarrow>
     (case out of (db', a', inc', _) \<Rightarrow>
        in_id inc' = in_id inc \<and> in_status inc' \<in> {''resolved'', ''escalated''} \<and> da_id a' = da_id a
        \<and> ddb_incidents db' = put_incident inc' (ddb_incidents db) \<and> ddb_actions db' = put_action a' (ddb_actions db)
        \<and> (\<exists>t. ddb_attempts db' = ddb_attempts db @ [t] \<and> at_incident_id t = in_id inc \<and> at_action_id t = da_id a))"

lemma escalate_decided_fields:
  "in_id (fst (escalate_decided trigger v r inc a)) = in_id inc"
  "in_status (fst (escalate_decided trigger v r inc a))
     = (if ''escalated'' \<in> set (incident_next (in_status inc)) then ''escalated'' else in_status inc)"
  "da_id (snd (escalate_decided trigger v r inc a)) = da_id a"
  by (simp_all add: escalate_decided_def Let_def escalation_status escalate_action_def)

lemma attempt_fields:
  "at_incident_id (record_execution_result t result) = at_incident_id t"
  "at_action_id (record_execution_result t result) = at_action_id t"
  "at_incident_id (record_post_check_result t v) = at_incident_id t"
  "at_action_id (record_post_check_result t v) = at_action_id t"
  by (simp_all add: record_execution_result_def record_post_check_result_def Let_def)

lemma decide_verify_executes:
  assumes "decide_verify sha1 report_dir t db inc a = Inr out" and "in_status inc = ''executing''"
    and "at_incident_id t = in_id inc" "at_action_id t = da_id a"
  shows "executed_as db inc a out"
proof -
  obtain i1 where i1: "move_incident ''verifying'' ''verifier'' ''post-check started'' inc = Inr i1"
    using assms(1) unfolding decide_verify_def by (rule rbind_InrE)
  let ?v = "verify_recovery sha1 (incident.truncate i1) (action_proposal.truncate a)"
  let ?t = "record_post_check_result t ?v" and ?report = "report_dir @ ''/incident-'' @ in_id i1 @ ''.md''"
  define i2 where "i2 = add_timeline_event ''verifier'' ''recovery_verified''
      (''Recovery verified='' @ py_str (pget ?v ''recovered'')) ?v i1"
  have i2: "in_id i2 = in_id inc" "in_status i2 = ''verifying''"
    using move_status [OF i1] by (simp_all add: i2_def)
  have "rbind (if truthy (pget ?v ''recovered'')
          then rbind (move_incident ''resolved'' ''verifier'' ''mock recovery passed'' i2) (\<lambda>inc. Inr (inc, a))
          else Inr (escalate_decided ''post_check_failed'' (PDict ?v) None i2 a)) (\<lambda>(inc, a).
        Inr (commit (db\<lparr>ddb_attempts := ddb_attempts db @ [?t]\<rparr>)
          (add_timeline_event ''reporter'' ''report_generated'' ?report [] inc) a (Some ?report))) = Inr out"
    using assms(1) unfolding decide_verify_def i1 rbind_simps Let_def i2_def [symmetric] .
  then obtain i3 a3 where i3: "(if truthy (pget ?v ''recovered'')
          then rbind (move_incident ''resolved'' ''verifier'' ''mock recovery passed'' i2) (\<lambda>inc. Inr (inc, a))
          else Inr (escalate_decided ''post_check_failed'' (PDict ?v) None i2 a)) = Inr (i3, a3)"
    and out: "out = commit (db\<lparr>ddb_attempts := ddb_attempts db @ [?t]\<rparr>)
          (add_timeline_event ''reporter'' ''report_generated'' ?report [] i3) a3 (Some ?report)"
    by (auto elim!: rbind_InrE)
  have "in_id i3 = in_id inc \<and> in_status i3 \<in> {''resolved'', ''escalated''} \<and> da_id a3 = da_id a"
  proof (cases "truthy (pget ?v ''recovered'')")
    case True
    with i3 show ?thesis using move_status [of "''resolved''" _ _ i2 i3] i2 by (auto simp: rbind_Inr_iff)
  next
    case False
    with i3 have "(i3, a3) = escalate_decided ''post_check_failed'' (PDict ?v) None i2 a" by simp
    then have "i3 = fst (escalate_decided ''post_check_failed'' (PDict ?v) None i2 a)"
      "a3 = snd (escalate_decided ''post_check_failed'' (PDict ?v) None i2 a)" by (metis fst_conv, metis snd_conv)
    then show ?thesis using escalate_decided_fields [of "''post_check_failed''" "PDict ?v" None i2 a] i2 escalated_next(2) by simp
  qed
  then show ?thesis using assms(3,4) by (auto simp: out executed_as_def commit_def attempt_fields)
qed

lemma decide_execute_executes:
  assumes "decide_execute sha1 report_dir approval_id actor policy db inc a = Inr out"
  shows "executed_as db inc a out" and "in_status inc = ''executing'' \<or> ''executing'' \<in> set (incident_next (in_status inc))"
proof -
  define a1 where "a1 = a\<lparr>ap_status := ''approved'', sa_policy_decision := decision_value (pe_decision policy),
                sa_policy_reasons := [pe_reason policy]\<rparr>"
  define i0 where "i0 = add_timeline_event actor ''approval_granted'' ''Action approved'' [] inc"
  obtain i1 where i1: "move_incident ''executing'' ''executor'' ''approved action'' i0 = Inr i1"
    using assms(1) unfolding decide_execute_def Let_def i0_def by (rule rbind_InrE)
  from move_status [OF i1] have s1: "in_status i1 = ''executing''" "in_id i1 = in_id inc"
    and from_status: "''executing'' = in_status inc \<or> ''executing'' \<in> set (incident_next (in_status inc))"
    by (auto simp: i0_def)
  from from_status show "in_status inc = ''executing'' \<or> ''executing'' \<in> set (incident_next (in_status inc))" by auto
  obtain a2 result where ran: "run_action sha1 i1 a1 = (a2, result)" by (cases rule: prod.exhaust)
  then have a2: "da_id a2 = da_id a" by (auto simp: run_action_def a1_def split: prod.splits)
  let ?t = "record_execution_result (start_action_attempt i1 a1 (Some approval_id) (ddb_attempts db)) result"
  have t: "at_incident_id ?t = in_id inc" "at_action_id ?t = da_id a"
    using s1(2) by (simp_all add: attempt_fields start_action_attempt_def Let_def a1_def)
  define i2 where "i2 = add_timeline_event ''executor'' ''action_executed''
       (''Executed '' @ ap_action_type a2 @ '': ok='' @ py_str (pget result ''ok'')) result i1"
  have i2: "in_id i2 = in_id inc" "in_status i2 = ''executing''" using s1 by (simp_all add: i2_def)
  have rest: "(if \<not> truthy (pget result ''ok'')
     then let (inc, a) = escalate_decided ''execution_failed'' (PDict [(''execution'', PDict result)])
                (Some ''Stop automatic execution and inspect the failed mock action result.'') i2 a2 in
       Inr (commit (db\<lparr>ddb_attempts := ddb_attempts db @ [?t]\<rparr>) inc a None)
     else decide_verify sha1 report_dir ?t db i2 a2) = Inr out"
    using assms(1) unfolding decide_execute_def Let_def i0_def [symmetric] a1_def [symmetric] i1 rbind_simps ran prod.case i2_def .
  show "executed_as db inc a out"
  proof (cases "truthy (pget result ''ok'')")
    case True
    with rest have "decide_verify sha1 report_dir ?t db i2 a2 = Inr out" by simp
    then have "executed_as db i2 a2 out" by (rule decide_verify_executes) (simp_all add: t i2 a2)
    then show ?thesis by (simp add: executed_as_def i2 a2)
  next
    case False
    let ?e = "escalate_decided ''execution_failed'' (PDict [(''execution'', PDict result)])
                (Some ''Stop automatic execution and inspect the failed mock action result.'') i2 a2"
    from False rest have "out = commit (db\<lparr>ddb_attempts := ddb_attempts db @ [?t]\<rparr>) (fst ?e) (snd ?e) None"
      by (simp add: split_beta)
    then show ?thesis using t i2 a2 escalated_next(1) by (auto simp: executed_as_def commit_def escalate_decided_fields)
  qed
qed


lemma decide_execute_total:
  assumes "in_status inc = ''executing'' \<or> ''executing'' \<in> set (incident_next (in_status inc))"
  shows "\<exists>out. decide_execute sha1 report_dir approval_id actor policy db inc a = Inr out"
proof -
  have verify: "\<exists>out. decide_verify sha1 report_dir t db i b = Inr out" if executing: "in_status i = ''executing''" for t db i b
  proof -
    obtain i1 where i1: "move_incident ''verifying'' ''verifier'' ''post-check started'' i = Inr i1"
      using move_succeeds [of "''verifying''" i] executing by auto
    let ?v = "verify_recovery sha1 (incident.truncate i1) (action_proposal.truncate b)"
    let ?i2 = "add_timeline_event ''verifier'' ''recovery_verified'' (''Recovery verified='' @ py_str (pget ?v ''recovered'')) ?v i1"
    obtain m where m: "move_incident ''resolved'' ''verifier'' ''mock recovery passed'' ?i2 = Inr m"
      using move_succeeds [of "''resolved''" ?i2] move_status [OF i1] by auto
    define y where "y = (if truthy (pget ?v ''recovered'') then (m, b) else escalate_decided ''post_check_failed'' (PDict ?v) None ?i2 b)"
    have y: "(if truthy (pget ?v ''recovered'')
            then rbind (move_incident ''resolved'' ''verifier'' ''mock recovery passed'' ?i2) (\<lambda>inc. Inr (inc, b))
            else Inr (escalate_decided ''post_check_failed'' (PDict ?v) None ?i2 b)) = Inr y"
      unfolding m rbind_simps y_def by simp
    show ?thesis
      unfolding decide_verify_def i1 rbind_simps Let_def y split_beta by blast
  qed
  define i0 where "i0 = add_timeline_event actor ''approval_granted'' ''Action approved'' [] inc"
  have "\<exists>i1. move_incident ''executing'' ''executor'' ''approved action'' i0 = Inr i1"
    using assms move_succeeds [of "''executing''" i0]
    by (auto simp: i0_def) (simp add: move_incident_def transition_incident_def Let_def)
  then obtain i1 where i1: "move_incident ''executing'' ''executor'' ''approved action'' i0 = Inr i1" ..
  from move_status [OF i1] have "in_status (add_timeline_event x y z w i1) = ''executing''" for x y z w by simp
  then have checked: "\<exists>out. decide_verify sha1 report_dir t db (add_timeline_event x y z w i1) b = Inr out" for t x y z w b
    by (rule verify)
  have either: "\<exists>out. X = Inr out \<Longrightarrow> \<exists>out. (if c then Inr o' else X) = Inr out" for c X and o' :: decision_outcome
    by (cases c) (simp_all del: split_paired_Ex)
  show ?thesis
    unfolding decide_execute_def Let_def i0_def [symmetric] i1 rbind_simps split_beta by (rule either) (rule checked)
qed

text \<open>A decision either executes, or adds no attempt and leaves a settled incident settled.\<close>

definition quiet_outcome :: "decision_db \<Rightarrow> stored_incident \<Rightarrow> decision_outcome \<Rightarrow> bool" where
  "quiet_outcome db inc out \<longleftrightarrow>
     (case out of (db', a', inc', _) \<Rightarrow>
        ddb_attempts db' = ddb_attempts db \<and> in_id inc' = in_id inc
        \<and> (in_status inc \<in> {''resolved'', ''escalated''} \<longrightarrow> in_status inc' \<in> {''resolved'', ''escalated''})
        \<and> (ddb_incidents db' = ddb_incidents db \<or> ddb_incidents db' = put_incident inc' (ddb_incidents db)))"

lemma decision_cases:
  assumes "decide_action sha1 report_dir approval_id action_id decision actor reason who db = Inr out"
  obtains (quiet) inc where "inc \<in> set (ddb_incidents db)" "quiet_outcome db inc out"
  | (execute) a inc policy where "a \<in> set (ddb_actions db)" "da_id a = action_id" "inc \<in> set (ddb_incidents db)"
      "in_id inc = da_incident_id a" "authorize who inc a = Inr ()" "decision \<noteq> ''reject''"
      "evaluate DEFAULT_ACTION_REGISTRY (decision_request inc a) (Some (decision_context inc)) = Inr policy"
      "pe_decision policy = PD_ALLOW" "executed_as db inc a out"
      "in_status inc = ''executing'' \<or> ''executing'' \<in> set (incident_next (in_status inc))"
proof -
  have exactly_one: "x \<in> set xs \<and> P x" if "exactly_one (filter P xs) = Inr x" for P :: "'a \<Rightarrow> bool" and xs x
    using that by (auto simp: exactly_one_def filter_eq_Cons_iff split: list.splits)
  obtain a inc where a: "exactly_one (filter (\<lambda>a. da_id a = action_id) (ddb_actions db)) = Inr a"
    and inc: "exactly_one (filter (\<lambda>i. in_id i = da_incident_id a) (ddb_incidents db)) = Inr inc"
    and auth: "authorize who inc a = Inr ()"
    using assms unfolding decide_action_def by (auto elim!: rbind_InrE simp del: split_paired_All)
  define actor' where "actor' = (case who of None \<Rightarrow> actor | Some p \<Rightarrow> pr_email p)"
  define db1 where "db1 = db\<lparr>ddb_approvals := ddb_approvals db @
             [\<lparr>ad_action_id = action_id, ad_tenant_id = in_tenant_id inc, ad_workspace_id = in_workspace_id inc,
               ad_decision = decision, ad_actor = actor', ad_reason = reason\<rparr>]\<rparr>"
  have run: "(if decision = ''approve'' \<and> ap_status a = ''executed'' then Inr (db, a, inc, None)
     else if decision = ''reject'' then decide_reject actor' reason db1 inc a
       else rbind (evaluate DEFAULT_ACTION_REGISTRY (decision_request inc a) (Some (decision_context inc))) (\<lambda>policy.
         if pe_decision policy \<noteq> PD_ALLOW then Inr (decide_deny policy db1 inc a)
         else decide_execute sha1 report_dir approval_id actor' policy db1 inc a)) = Inr out"
    using assms unfolding decide_action_def a inc auth rbind_simps Let_def db1_def actor'_def .
  from exactly_one [OF inc] have here: "inc \<in> set (ddb_incidents db)" "in_id inc = da_incident_id a" by auto
  consider "decision = ''approve'' \<and> ap_status a = ''executed''"
    | "decision = ''reject''"
    | policy where "decision \<noteq> ''reject''" "\<not> (decision = ''approve'' \<and> ap_status a = ''executed'')"
        "evaluate DEFAULT_ACTION_REGISTRY (decision_request inc a) (Some (decision_context inc)) = Inr policy"
    using run by (cases "decision = ''reject''") (auto simp: rbind_Inr_iff split: if_splits)
  then show ?thesis
  proof cases
    case 1
    with run have "out = (db, a, inc, None)" by simp
    then show ?thesis using here by (intro quiet) (auto simp: quiet_outcome_def)
  next
    case 2
    with run have "decide_reject actor' reason db1 inc a = Inr out" by simp
    then obtain i1 where i1: "move_incident ''escalated'' actor' (str_or reason ''action rejected'') inc = Inr i1"
      and out: "out = commit db1 (add_timeline_event actor' ''approval_rejected'' ''Action rejected'' [] i1) (a\<lparr>ap_status := ''rejected''\<rparr>) None"
      unfolding decide_reject_def by (auto elim!: rbind_InrE)
    show ?thesis using here move_status [OF i1] by (intro quiet) (auto simp: quiet_outcome_def out commit_def db1_def)
  next
    case (3 policy)
    show ?thesis
    proof (cases "pe_decision policy = PD_ALLOW")
      case True
      with run 3 have ex: "decide_execute sha1 report_dir approval_id actor' policy db1 inc a = Inr out" by (auto split: if_splits)
      from decide_execute_executes [OF ex] have "executed_as db inc a out" by (simp add: executed_as_def db1_def)
      then show ?thesis using True 3 here auth exactly_one [OF a] decide_execute_executes(2) [OF ex] by (intro execute) auto
    next
      case False
      with run 3 have out: "out = decide_deny policy db1 inc a" by (auto split: if_splits)
      then show ?thesis using here
        by (intro quiet) (auto simp: quiet_outcome_def decide_deny_def Let_def split_beta commit_def db1_def escalate_decided_fields)
    qed
  qed
qed

section \<open>Properties\<close>

lemma executing_from:
  assumes "''executing'' \<in> set (incident_next s)"
  shows "s \<in> {''action_proposed'', ''waiting_approval''}"
proof -
  have "list_all (\<lambda>(s, ts). ''executing'' \<in> set ts \<longrightarrow> s = ''action_proposed'' \<or> s = ''waiting_approval'') INCIDENT_TRANSITIONS"
    by code_simp
  moreover obtain ts where "(s, ts) \<in> set INCIDENT_TRANSITIONS" "''executing'' \<in> set ts"
    using assms map_of_SomeD [of INCIDENT_TRANSITIONS s] by (cases "map_of INCIDENT_TRANSITIONS s") (auto simp: incident_next_def)
  ultimately show ?thesis by (auto simp: list_all_iff)
qed

text \<open>C22. What a decision that executes must have passed.  Whenever a decision adds an execution attempt,
  it was not a rejection; if it names a principal, that principal holds an approving role and belongs to
  the tenant and workspace of the incident and of the action (a call without a principal, as internal
  callers make, is not checked for authority); the policy engine allows the action now that it is
  approved; the incident was waiting for it; and exactly one attempt was added, for this action, with
  the incident left resolved or escalated.\<close>

theorem decision_executes_only_authorised:
  assumes "decide_action sha1 report_dir approval_id action_id decision actor reason who db = Inr (db', a', inc', report)"
    and "ddb_attempts db' \<noteq> ddb_attempts db"
  shows "\<exists>a inc policy. a \<in> set (ddb_actions db) \<and> da_id a = action_id \<and> inc \<in> set (ddb_incidents db)
     \<and> in_id inc = da_incident_id a \<and> decision \<noteq> ''reject''
     \<and> (\<forall>p. who = Some p \<longrightarrow> can_approve_actions p \<and> pr_tenant_id p = in_tenant_id inc \<and> pr_workspace_id p = in_workspace_id inc
          \<and> pr_tenant_id p = da_tenant_id a \<and> pr_workspace_id p = da_workspace_id a)
     \<and> evaluate DEFAULT_ACTION_REGISTRY (decision_request inc a) (Some (decision_context inc)) = Inr policy
     \<and> pe_decision policy = PD_ALLOW \<and> in_status inc \<in> {''action_proposed'', ''waiting_approval'', ''executing''}
     \<and> (\<exists>t. ddb_attempts db' = ddb_attempts db @ [t] \<and> at_action_id t = action_id)
     \<and> in_status inc' \<in> {''resolved'', ''escalated''}"
  using assms(1)
proof (cases rule: decision_cases)
  case (quiet inc)
  with assms(2) show ?thesis by (simp add: quiet_outcome_def)
next
  case (execute a inc policy)
  have "can_approve_actions p \<and> pr_tenant_id p = in_tenant_id inc \<and> pr_workspace_id p = in_workspace_id inc
          \<and> pr_tenant_id p = da_tenant_id a \<and> pr_workspace_id p = da_workspace_id a" if "who = Some p" for p
    using execute(5) that by (auto simp: authorize_def require_same_scope_def require_action_approval_authority_def rbind_Inr_iff rguard_Inr_iff)
  moreover have "in_status inc \<in> {''action_proposed'', ''waiting_approval'', ''executing''}"
    using execute(10) executing_from by blast
  moreover have "\<exists>t. ddb_attempts db' = ddb_attempts db @ [t] \<and> at_action_id t = action_id" "in_status inc' \<in> {''resolved'', ''escalated''}"
    using execute(2,9) by (auto simp: executed_as_def)
  ultimately show ?thesis using execute by blast
qed

text \<open>Histories of decisions; one that raises changes nothing.\<close>

fun decide_all ::
    "(string \<Rightarrow> 160 word) \<Rightarrow> string \<Rightarrow> (string \<times> string \<times> string \<times> string \<times> string option \<times> principal option) list
      \<Rightarrow> decision_db \<Rightarrow> decision_db" where
  "decide_all sha1 report_dir [] db = db"
| "decide_all sha1 report_dir ((approval_id, action_id, decision, actor, reason, who) # calls) db =
     decide_all sha1 report_dir calls
       (case decide_action sha1 report_dir approval_id action_id decision actor reason who db of
          Inl _ \<Rightarrow> db | Inr (db', _) \<Rightarrow> db')"

definition executions :: "string \<Rightarrow> decision_db \<Rightarrow> nat" where
  "executions x db = length (filter (\<lambda>t. at_incident_id t = x) (ddb_attempts db))"

definition settled :: "string \<Rightarrow> decision_db \<Rightarrow> bool" where
  "settled x db \<longleftrightarrow> (\<forall>i \<in> set (ddb_incidents db). in_id i = x \<longrightarrow> in_status i \<in> {''resolved'', ''escalated''})"

lemma decide_step:
  assumes "decide_action sha1 report_dir approval_id action_id decision actor reason who db = Inr out"
    and "executions x db \<le> 1" "executions x db = 1 \<Longrightarrow> settled x db"
  shows "executions x (fst out) \<le> 1 \<and> (executions x (fst out) = 1 \<longrightarrow> settled x (fst out))"
  using assms(1)
proof (cases rule: decision_cases)
  case (quiet inc)
  obtain db' a' inc' r where out: "out = (db', a', inc', r)" by (cases out)
  have "settled x db'" if "settled x db"
  proof -
    have "in_status inc' \<in> {''resolved'', ''escalated''}" if "in_id inc = x"
      using \<open>settled x db\<close> quiet that by (simp add: out settled_def quiet_outcome_def)
    moreover have "in_id inc' = in_id inc" "ddb_incidents db' = ddb_incidents db \<or> ddb_incidents db' = put_incident inc' (ddb_incidents db)"
      using quiet(2) by (simp_all add: out quiet_outcome_def)
    ultimately show ?thesis using \<open>settled x db\<close> unfolding settled_def put_incident_def by fastforce
  qed
  with assms(2,3) quiet(2) show ?thesis by (simp add: out quiet_outcome_def executions_def)
next
  case (execute a inc policy)
  obtain db' a' inc' r where out: "out = (db', a', inc', r)" by (cases out)
  from execute(9) obtain t where t: "ddb_attempts db' = ddb_attempts db @ [t]" "at_incident_id t = in_id inc"
    and inc': "in_id inc' = in_id inc" "in_status inc' \<in> {''resolved'', ''escalated''}"
      "ddb_incidents db' = put_incident inc' (ddb_incidents db)"
    by (auto simp: out executed_as_def)
  show ?thesis
  proof (cases "in_id inc = x")
    case True
    have "\<not> settled x db" using execute(3,10) True escalated_next(5,6) by (auto simp: settled_def)
    with assms(2,3) have "executions x db = 0" by (cases "executions x db") auto
    moreover have "settled x db'" using inc' True by (auto simp: settled_def put_incident_def)
    ultimately show ?thesis using t True by (simp add: out executions_def)
  next
    case False
    have "settled x db'" if "settled x db" using that False inc' by (auto simp: settled_def put_incident_def split: if_splits)
    with assms(2,3) t False show ?thesis by (simp add: out executions_def)
  qed
qed

text \<open>C21. However often and by whomever the actions of an incident are decided, in any order and with any
  decisions on other incidents in between, at most one of them is ever carried out, once; and from then
  on the incident is resolved or escalated.\<close>

theorem incident_executed_at_most_once:
  assumes "executions x db = 0"
  shows "executions x (decide_all sha1 report_dir calls db) \<le> 1
     \<and> (executions x (decide_all sha1 report_dir calls db) = 1 \<longrightarrow> settled x (decide_all sha1 report_dir calls db))"
proof -
  have "executions x db \<le> 1 \<and> (executions x db = 1 \<longrightarrow> settled x db)" using assms by simp
  then show ?thesis
  proof (induction sha1 report_dir calls db rule: decide_all.induct)
    case (2 sha1 report_dir approval_id action_id decision actor reason who calls db)
    show ?case
    proof (cases "decide_action sha1 report_dir approval_id action_id decision actor reason who db")
      case (Inr out)
      obtain db' rest where out: "out = (db', rest)" by (cases out)
      have "executions x db' \<le> 1 \<and> (executions x db' = 1 \<longrightarrow> settled x db')"
        using decide_step [OF Inr, of x] "2.prems" by (simp add: out)
      with "2.IH" show ?thesis unfolding decide_all.simps Inr out sum.case prod.case by blast
    qed (use 2 in simp)
  qed simp
qed

text \<open>
  A rejection does not look at the status of the action: the record of an action that was executed and
  whose verification failed becomes one of a rejected action.
\<close>

lemma executed_then_rejected:
  assumes "in_status inc = ''escalated''"
  shows "\<exists>inc'. in_status inc' = ''escalated'' \<and> decide_reject actor reason db inc a = Inr (commit db inc' (a\<lparr>ap_status := ''rejected''\<rparr>) None)"
proof -
  obtain i where i: "move_incident ''escalated'' actor (str_or reason ''action rejected'') inc = Inr i"
    using assms by (simp add: move_incident_def transition_incident_def Let_def)
  then have "in_status (add_timeline_event actor ''approval_rejected'' ''Action rejected'' [] i) = ''escalated''"
    using move_status by simp
  then show ?thesis unfolding decide_reject_def i rbind_simps by blast
qed

end
