(* ===== verification/Decision_Demo.thy ===== *)
theory Decision_Demo
  imports Incident_Decisions
begin

text \<open>A worker restart that waits for approval, decided by an operator of the workspace.\<close>

definition waiting_incident :: stored_incident where
  "waiting_incident =
     \<lparr>in_id = ''i1'', in_tenant_id = ''demo'', in_workspace_id = ''demo'', in_service = ''worker'',
      in_environment = ''staging'', in_alert_payload = [(''scenario'', PStr ''worker_queue_backlog'')],
      in_alert_fingerprint = ''f1'', in_status = ''waiting_approval'', in_severity = ''medium'', in_summary = ''backlog'',
      in_root_cause = None, in_confidence = None, in_actions = [], in_timeline = []\<rparr>"

definition proposed_restart :: decided_action where
  "proposed_restart =
     \<lparr>ap_action_type = ''mock.execute_restart_worker'', ap_target = ''worker:staging'', ap_environment = ''staging'',
      ap_payload = [], ap_status = ''proposed'', ap_execution_result = [], sa_risk_level = ''low'',
      sa_requires_approval = True, sa_policy_decision = ''REQUIRE_APPROVAL'', sa_policy_reasons = [], sa_confidence = None,
      sa_escalation_required = False, sa_escalation_decision = None, sa_escalation_reason = None,
      da_id = ''a1'', da_incident_id = ''i1'', da_tenant_id = ''demo'', da_workspace_id = ''demo'',
      da_preconditions = [], da_post_checks = []\<rparr>"

definition waiting_db :: decision_db where
  "waiting_db = \<lparr>ddb_incidents = [waiting_incident], ddb_actions = [proposed_restart], ddb_approvals = [], ddb_attempts = []\<rparr>"

definition demo_operator :: "principal option" where
  "demo_operator = Some \<lparr>pr_email = ''op@opscat.local'', pr_tenant_id = ''demo'', pr_workspace_id = ''demo'', pr_role = ''operator''\<rparr>"

lemma restart_allowed:
  "returns (\<lambda>policy. pe_decision policy = PD_ALLOW)
     (evaluate DEFAULT_ACTION_REGISTRY (decision_request waiting_incident proposed_restart) (Some (decision_context waiting_incident)))"
  by code_simp

lemma waiting_decision:
  obtains out where "decide_action sha1 ''reports'' ''p1'' ''a1'' ''approve'' ''x'' None demo_operator waiting_db = Inr out"
    "ddb_attempts (fst out) \<noteq> []"
proof -
  obtain policy where policy: "evaluate DEFAULT_ACTION_REGISTRY (decision_request waiting_incident proposed_restart)
      (Some (decision_context waiting_incident)) = Inr policy" "pe_decision policy = PD_ALLOW"
    using restart_allowed by (auto simp: Inr_such_that)
  have found: "exactly_one (filter (\<lambda>a. da_id a = ''a1'') (ddb_actions waiting_db)) = Inr proposed_restart"
    "exactly_one (filter (\<lambda>i. in_id i = da_incident_id proposed_restart) (ddb_incidents waiting_db)) = Inr waiting_incident"
    "authorize demo_operator waiting_incident proposed_restart = Inr ()"
    by code_simp+
  have status: "ap_status proposed_restart = ''proposed''" by (simp add: proposed_restart_def)
  have waiting: "in_status waiting_incident = ''executing'' \<or> ''executing'' \<in> set (incident_next (in_status waiting_incident))"
    by code_simp
  let ?db = "waiting_db\<lparr>ddb_approvals := ddb_approvals waiting_db @
      [\<lparr>ad_action_id = ''a1'', ad_tenant_id = in_tenant_id waiting_incident, ad_workspace_id = in_workspace_id waiting_incident,
        ad_decision = ''approve'', ad_actor = (case demo_operator of None \<Rightarrow> ''x'' | Some p \<Rightarrow> pr_email p), ad_reason = None\<rparr>]\<rparr>"
  obtain out where out: "decide_execute sha1 ''reports'' ''p1'' (case demo_operator of None \<Rightarrow> ''x'' | Some p \<Rightarrow> pr_email p) policy ?db
      waiting_incident proposed_restart = Inr out"
    using decide_execute_total [OF waiting] by blast
  have "decide_action sha1 ''reports'' ''p1'' ''a1'' ''approve'' ''x'' None demo_operator waiting_db = Inr out"
    unfolding decide_action_def found rbind_simps Let_def policy(1) using out by (simp add: policy(2) status)
  moreover have "ddb_attempts (fst out) \<noteq> []"
    using decide_execute_executes(1) [OF out] by (auto simp: executed_as_def)
  ultimately show ?thesis by (rule that)
qed

lemma decision_executes_only_authorised_witness:
  "\<exists>db a inc report t. decide_action (\<lambda>_. 0) ''reports'' ''p1'' ''a1'' ''approve'' ''x'' None demo_operator waiting_db = Inr (db, a, inc, report)
     \<and> ddb_attempts db = [t] \<and> at_action_id t = ''a1'' \<and> in_status inc \<in> {''resolved'', ''escalated''}"
proof -
  obtain out where "decide_action (\<lambda>_. 0) ''reports'' ''p1'' ''a1'' ''approve'' ''x'' None demo_operator waiting_db = Inr out"
    "ddb_attempts (fst out) \<noteq> []" by (rule waiting_decision)
  moreover obtain db a inc report where "out = (db, a, inc, report)" by (cases out)
  ultimately have run: "decide_action (\<lambda>_. 0) ''reports'' ''p1'' ''a1'' ''approve'' ''x'' None demo_operator waiting_db = Inr (db, a, inc, report)"
    and more: "ddb_attempts db \<noteq> ddb_attempts waiting_db"
    by (simp_all add: waiting_db_def)
  have "ddb_attempts waiting_db = []" by (simp add: waiting_db_def)
  with decision_executes_only_authorised [OF run more] run show ?thesis by auto
qed

lemma incident_executed_at_most_once_witness:
  "executions ''i1'' (decide_all (\<lambda>_. 0) ''reports''
      [(''p1'', ''a1'', ''approve'', ''x'', None, demo_operator), (''p2'', ''a1'', ''approve'', ''x'', None, demo_operator),
       (''p3'', ''a1'', ''reject'', ''x'', None, demo_operator)] waiting_db) \<le> 1"
proof -
  have "executions ''i1'' waiting_db = 0" by (simp add: executions_def waiting_db_def)
  from incident_executed_at_most_once [OF this] show ?thesis by blast
qed

end
