(* ===== verification/Spec2Isabelle.thy ===== *)
theory Spec2Isabelle
  imports Action_Service P118_Demo P119_Demo P119_Local_Demo Prevention_States Prevention_Demo
    Prevention_Evidence_Demo Night_Demo Decision_Demo
begin

text \<open>
  OpsCat: the decision and execution core.

  OpsCat is a service that proposes, approves and executes operational actions for incidents.  The
  development models the parts of \<open>src/app\<close> that decide whether an action may run, that record what
  ran, and that bring an interrupted run to an end.  Configuration, web routes, command lines,
  persistence and the release and benchmark reports around them are not part of it.

  Values.  A JSON value is \<open>pyval\<close>, a dictionary is the list of its items in insertion order
  (\<open>Prelude\<close>); \<open>pget\<close> is \<open>dict.get\<close>, \<open>pindex\<close> is indexing with its \<open>KeyError\<close>, \<open>py_eq\<close> is Python's
  \<open>==\<close>, \<open>py_str\<close> and \<open>py_repr\<close> are \<open>str\<close> and \<open>repr\<close>, \<open>json_dumps\<close> is the canonical JSON text.  An
  exception is \<open>Inl (Raised class message)\<close>; a method that may change state and raise is an \<open>op\<close>: it
  returns the state it leaves behind and its outcome.  SHA-256 is the parameter \<open>sha\<close>, SHA-1 of the
  mock handlers likewise.  No theorem assumes that they are injective; where a log could be replaced by
  one with the same hashes, the hypothesis is \<open>collision_free\<close>, on the records of the logs at hand.

  The control plane.
  \<^item> \<open>Action_Models\<close>: the records and enumerations of \<open>models/action.py\<close>.
  \<^item> \<open>Risk_Engine\<close>, \<open>Blast_Radius\<close>, \<open>Action_Simulator\<close>: the registry and risk classes, the blast
    radius of a request, the dry run (\<open>services/risk_engine.py\<close>, \<open>blast_radius.py\<close>,
    \<open>action_simulator.py\<close>).
  \<^item> \<open>Policy_Engine\<close>: \<open>PolicyEngine.evaluate\<close> with the Night Autopilot gates.  Its properties say
    exactly when an action may run at once and what human approval changes.
  \<^item> \<open>Mock_Actions\<close>, \<open>Action_Service\<close>: the mock handlers and \<open>ActionService\<close>.  The service is a
    history of calls on a table of records; its properties hold for every history.

  The append-only ledgers.
  \<^item> \<open>Transition_Table\<close>, \<open>Hash_Chain\<close>: two interfaces as locales, a table of legal transitions with
    terminal states, and a chain of entries each sealed with its predecessor's hash.  Both ledgers
    interpret them on their own tables and entries, and \<open>P119_Props\<close> interprets the chain once more
    on timeline events.
  \<^item> \<open>Wal_Store\<close>, \<open>Shared_Log\<close>: the file as a list of lines, loading, sealing and verification, and the
    locale \<open>shared_log\<close>: any number of processes with stale caches call methods that append under
    one lock.  Both ledgers interpret it, so that their invariants hold under every interleaving.
  \<^item> \<open>Authority_Boundary\<close>, \<open>P118_Contract\<close>, \<open>P118_Ledger\<close>, \<open>P118_Props\<close>, \<open>P118_Approval\<close>,
    \<open>P118_Worker\<close>: operation envelopes, the operation store, approvals and the validation cycle, the
    worker and crash recovery (\<open>services/p118_*.py\<close>).
  \<^item> \<open>P119_Contract\<close>, \<open>P119_Ledger\<close>, \<open>P119_Props\<close>, \<open>P119_Recovery\<close>, \<open>P119_Scheduler\<close>,
    \<open>P119_Execution\<close>: the same for incidents, with alert intake, budgets and the execution loop that
    drives the P118 ledger (\<open>services/p119_*.py\<close>).
  \<^item> \<open>P118_Demo\<close>, \<open>P119_Demo\<close>, \<open>P119_Local_Demo\<close>: concrete runs at which the properties are applied.

  Preventive actions.
  \<^item> \<open>Py_Float\<close>: \<open>float()\<close>, with \<open>nan\<close> and the infinities, as decimals.
  \<^item> \<open>Preventive_Safety_Gate\<close>: the shared gate of \<open>services/preventive_safety_gate.py\<close> over the policy
    engine, the blast radius and the simulator.  A case passes exactly when its own declarations are
    clear and these services allow it, and none of the fifteen fields that declare an obstacle turns a
    refusal into a pass.
  \<^item> \<open>Prevention_States\<close>: the episode machine (\<open>prevention_state_machine.py\<close>), which interprets the
    transition-table locale with a rank, so that every episode ends.
  \<^item> \<open>Prevention_Harness\<close>, \<open>Prevention_Idempotency\<close>: the authority sentinel, the canary harness with one
    effect per key (locale \<open>keyed_harness\<close>), and the attempt store with its chain of records, crashes and
    recovery (\<open>prevention_authority_sentinel.py\<close>, \<open>prevention_canary_harness.py\<close>,
    \<open>prevention_durable_idempotency.py\<close>).  Properties hold in every history of calls.
  \<^item> \<open>Prevention_Guardrail\<close>, \<open>Prevention_Executor\<close>, \<open>Prevention_Preflight\<close>: guardrail outcomes and the
    repeat lock, the executor with its gates, and the preflight as one of these gates
    (\<open>prevention_guardrail_rollback.py\<close>, \<open>prevention_canary_executor.py\<close>,
    \<open>prevention_policy_preflight.py\<close>).  The hooks a deployment supplies are operations on a world of
    their own, which the theorems quantify over; a hook that changes the command it is given is
    outside the model.  The last property joins executor, preflight, safety gate and policy engine.
  \<^item> \<open>Prevention_Demo\<close>: concrete runs.

  The evidence of prevention.
  \<^item> \<open>Closed_Chain\<close>: the chain locale extended by a closing record, after which nothing can be dropped.
  \<^item> \<open>Prevention_Jsonl\<close>: the JSON-lines file of the audit log and of the outcome ledger, and the tests
    of number, parent and hash they share; it interprets the chain locale.
  \<^item> \<open>Prevention_Audit\<close>: the audit log, its write-ahead functions and its replay over the episode
    machine (\<open>prevention_episode_audit.py\<close>).  A complete log cannot be rearranged; an attempt is on
    file before its effect; what is appended replays if its state was due.
  \<^item> \<open>Prevention_Outcome_Ledger\<close>: outcomes in memory and on file (\<open>prevention_outcome_ledger.py\<close>).  The
    file refines the memory, the head pins the ledger, an episode has one outcome.
  \<^item> \<open>Prevention_Replay_Gate\<close>: the replay contracts of recovery and release
    (\<open>prevention_replay_gate.py\<close>), each with an exact description of what it accepts.
  \<^item> \<open>Prevention_Evidence_Demo\<close>: concrete logs and replays.

  Incidents and Night Autopilot.
  \<^item> \<open>Incident_States\<close>: stored incidents and their life cycle (\<open>state_machine.py\<close>,
    \<open>timeline_service.py\<close>), which interprets the transition-table locale.
  \<^item> \<open>Redaction\<close>: what is taken out of stored values (\<open>redaction.py\<close>), with the patterns as regular
    expressions.  Nothing under a sensitive key survives, nor a value assigned to a listed key where a
    text begins or in a list of assignments; lemmas show what the text rules miss.
  \<^item> \<open>Incident_Intake\<close>: from an alert to an incident and its job (\<open>incident_service.py\<close>,
    \<open>workflow_service.py\<close>).  A storm of alerts with one key makes one incident.
  \<^item> \<open>Incident_Handling\<close>: waking a human (\<open>escalation.py\<close>), running an action on the mock executor, and
    the path of statuses that the timeline tells of.
  \<^item> \<open>Incident_Decisions\<close>: \<open>decide_action\<close> with authorization, execution attempts and verification
    (\<open>incident_service.py\<close>, \<open>authorization.py\<close>, \<open>execution_attempt_service.py\<close>).  A principal who lets an
    action be carried out has the authority for it, and an incident sees at most one execution;
    \<open>Decision_Demo\<close> is a concrete one.
  \<^item> \<open>Incident_Memory\<close>: what earlier incidents say of an action (\<open>incident_memory.py\<close>).
  \<^item> \<open>Night_Autopilot\<close>: a quiet-hours run over all the services above (\<open>night_autopilot.py\<close>).  A run
    always settles, acts only within every limit at once, and does not repeat a failed action as long
    as the memory it searches is short.
  \<^item> \<open>Night_Demo\<close>: concrete nights.

  In each ledger theory an abstract specification comes first (\<open>p118_event\<close>, \<open>p119_event\<close>: which
  event may follow a log), then the lemma that every method only appends such events, then what
  replay makes of them: soundness of the replayed state, legality and compare-and-swap of every
  transition, idempotent registration, detection of rearranged logs, recovery of expired leases.

  Bounds.  Python integers are unbounded and are \<open>int\<close> here.  Every loop of the modelled code is over
  a finite list and is structural recursion, so there is no fuel.  Text functions (\<open>lower\<close>, \<open>strip\<close>,
  \<open>isspace\<close>, \<open>isdigit\<close>) are those of Latin-1, the characters of \<open>char\<close>.

  Interleaving.  The lock of \<open>_append\<close> makes loading, checking and appending one step; everything a
  method reads before it takes the lock comes from a cache that may be older than the file.  A write
  is taken to be complete: torn lines are lines that do not parse.

  Not modelled: the JSON-schema and signature checks of the action-pack verifier (they rest on files
  outside the code), database columns no modelled operation reads, audit events (which repeat the
  timeline), the text of reports, wall-clock timestamps, and every component the project manifest
  lists as such.
\<close>

end
